(* ===== verification/Prelude.thy ===== *)
theory Prelude
  imports Complex_Main
begin

text \<open>
  Shared vocabulary of the development: the error values of the Python code, programs that
  pass a database state and may raise, Python's rounding functions, and the generic lemmas on
  lists and sums that every component uses.
\<close>

named_theorems prog_simps \<open>equations that run a program on a state\<close>
named_theorems run_ok \<open>equations that take apart a run that returned\<close>
named_theorems keeps_intro \<open>rules that show a program keeps an invariant\<close>

section \<open>Names of the model's types\<close>

type_synonym pk_id = nat          \<comment> \<open>primary and foreign keys\<close>
type_synonym cents = int          \<comment> \<open>money kept in integer columns (fen)\<close>
type_synonym yuan = rat           \<comment> \<open>money kept in \<open>FloatField\<close> columns, exact\<close>
type_synonym time = int           \<comment> \<open>a \<open>datetime\<close>, in seconds\<close>
type_synonym day = int            \<comment> \<open>a \<open>date\<close>, in days\<close>

section \<open>Errors as values\<close>

datatype py_error =
    DoesNotExist
  | MultipleObjectsReturned
  | IntegrityError
  | AttributeError
  | TypeError
  | KeyError
  | AssertionError string
  | Exn string

section \<open>Programs over a state\<close>

text \<open>
  A method of the code reads and writes the database and may raise. Outside a
  \<open>transaction.atomic\<close> block the writes made before an exception stay, so a program returns
  a state in both cases.
\<close>

type_synonym ('s, 'a) prog = "'s \<Rightarrow> (py_error + 'a) \<times> 's"

definition ret :: "'a \<Rightarrow> ('s, 'a) prog" where
  "ret x = (\<lambda>s. (Inr x, s))"

definition raise :: "py_error \<Rightarrow> ('s, 'a) prog" where
  "raise e = (\<lambda>s. (Inl e, s))"

definition bindE :: "('s, 'a) prog \<Rightarrow> ('a \<Rightarrow> ('s, 'b) prog) \<Rightarrow> ('s, 'b) prog" where
  "bindE m f = (\<lambda>s. case m s of (Inl e, t) \<Rightarrow> (Inl e, t) | (Inr x, t) \<Rightarrow> f x t)"

definition thenE :: "('s, 'a) prog \<Rightarrow> ('s, 'b) prog \<Rightarrow> ('s, 'b) prog" where
  "thenE m n = bindE m (\<lambda>_. n)"

definition asks :: "('s \<Rightarrow> 'a) \<Rightarrow> ('s, 'a) prog" where
  "asks f = (\<lambda>s. (Inr (f s), s))"

definition modify :: "('s \<Rightarrow> 's) \<Rightarrow> ('s, unit) prog" where
  "modify f = (\<lambda>s. (Inr (), f s))"

definition liftE :: "('s \<Rightarrow> py_error + 'a) \<Rightarrow> ('s, 'a) prog" where
  "liftE f = (\<lambda>s. (f s, s))"

definition whenE :: "bool \<Rightarrow> ('s, unit) prog \<Rightarrow> ('s, unit) prog" where
  "whenE b m = (if b then m else ret ())"

text \<open>\<open>with transaction.atomic()\<close>: an exception undoes the writes of the block.\<close>

definition atomic :: "('s, 'a) prog \<Rightarrow> ('s, 'a) prog" where
  "atomic m = (\<lambda>s. case m s of (Inl e, _) \<Rightarrow> (Inl e, s) | (Inr x, t) \<Rightarrow> (Inr x, t))"

text \<open>\<open>try: m except Exception as e: h(e)\<close>: the handler runs on the state the failed body
  left.\<close>

definition tryE :: "('s, 'a) prog \<Rightarrow> (py_error \<Rightarrow> ('s, 'a) prog) \<Rightarrow> ('s, 'a) prog" where
  "tryE m h = (\<lambda>s. case m s of (Inl e, t) \<Rightarrow> h e t | (Inr x, t) \<Rightarrow> (Inr x, t))"

text \<open>A loop \<open>for x in xs\<close> whose body may raise.\<close>

fun forE :: "('a \<Rightarrow> ('s, unit) prog) \<Rightarrow> 'a list \<Rightarrow> ('s, unit) prog" where
  "forE f [] = ret ()"
| "forE f (x # xs) = thenE (f x) (forE f xs)"

text \<open>A program of one component, run inside a larger state.\<close>

definition zoom :: "('t \<Rightarrow> 's) \<Rightarrow> ('s \<Rightarrow> 't \<Rightarrow> 't) \<Rightarrow> ('s, 'a) prog \<Rightarrow> ('t, 'a) prog" where
  "zoom g p m = (\<lambda>t. case m (g t) of (r, s) \<Rightarrow> (r, p s t))"

lemma ret_run [prog_simps]: "ret x s = (Inr x, s)"
  by (simp add: ret_def)

lemma raise_run [prog_simps]: "raise e s = (Inl e, s)"
  by (simp add: raise_def)

lemma bindE_run [prog_simps]:
  "bindE m f s = (case m s of (Inl e, t) \<Rightarrow> (Inl e, t) | (Inr x, t) \<Rightarrow> f x t)"
  by (simp add: bindE_def)

lemma thenE_run [prog_simps]:
  "thenE m n s = (case m s of (Inl e, t) \<Rightarrow> (Inl e, t) | (Inr x, t) \<Rightarrow> n t)"
  by (simp add: thenE_def bindE_def)

lemma asks_run [prog_simps]: "asks f s = (Inr (f s), s)"
  by (simp add: asks_def)

lemma modify_run [prog_simps]: "modify f s = (Inr (), f s)"
  by (simp add: modify_def)

lemma liftE_run [prog_simps]: "liftE f s = (f s, s)"
  by (simp add: liftE_def)

lemma whenE_run [prog_simps]: "whenE b m s = (if b then m s else (Inr (), s))"
  by (simp add: whenE_def ret_def)

lemma atomic_run [prog_simps]:
  "atomic m s = (case m s of (Inl e, _) \<Rightarrow> (Inl e, s) | (Inr x, t) \<Rightarrow> (Inr x, t))"
  by (simp add: atomic_def)

lemma tryE_run [prog_simps]:
  "tryE m h s = (case m s of (Inl e, t) \<Rightarrow> h e t | (Inr x, t) \<Rightarrow> (Inr x, t))"
  by (simp add: tryE_def)

lemma zoom_run [prog_simps]: "zoom g p m t = (case m (g t) of (r, s) \<Rightarrow> (r, p s t))"
  by (simp add: zoom_def)

lemma forE_Nil_run [prog_simps]: "forE f [] s = (Inr (), s)"
  by (simp add: ret_def)

lemma forE_Cons_run [prog_simps]:
  "forE f (x # xs) s = (case f x s of (Inl e, t) \<Rightarrow> (Inl e, t) | (Inr _, t) \<Rightarrow> forE f xs t)"
  by (simp add: thenE_run)

declare forE.simps [simp del]

text \<open>Reading a program that returned, step by step.\<close>

lemma bindE_ok [run_ok]:
  "bindE m f s = (Inr y, t) \<longleftrightarrow> (\<exists>x u. m s = (Inr x, u) \<and> f x u = (Inr y, t))"
  by (auto simp: bindE_run split: prod.splits sum.splits)

lemma thenE_ok [run_ok]:
  "thenE m n s = (Inr y, t) \<longleftrightarrow> (\<exists>x u. m s = (Inr x, u) \<and> n u = (Inr y, t))"
  by (simp add: thenE_def bindE_ok)

lemma whenE_ok [run_ok]: "whenE b m s = (Inr y, t) \<longleftrightarrow> (if b then m s = (Inr y, t) else t = s)"
  by (auto simp: whenE_run)

lemma atomic_ok [run_ok]: "atomic m s = (Inr y, t) \<longleftrightarrow> m s = (Inr y, t)"
  by (auto simp: atomic_run split: prod.splits sum.splits)

lemma forE_Cons_ok [run_ok]:
  "forE f (x # xs) s = (Inr y, t) \<longleftrightarrow> (\<exists>u. f x s = (Inr (), u) \<and> forE f xs u = (Inr y, t))"
  by (auto simp: forE_Cons_run split: prod.splits sum.splits)

lemmas [run_ok] = ret_run asks_run modify_run liftE_run raise_run forE_Nil_run

lemma returned: "fst p = r \<Longrightarrow> p = (r, snd p)"
  by (cases p) simp

section \<open>Programs that keep an invariant\<close>

text \<open>\<open>keeps I m\<close>: whether \<open>m\<close> returns or raises, \<open>I\<close> holds afterwards if it held before.\<close>

definition keeps :: "('s \<Rightarrow> bool) \<Rightarrow> ('s, 'a) prog \<Rightarrow> bool" where
  "keeps I m \<longleftrightarrow> (\<forall>s. I s \<longrightarrow> I (snd (m s)))"

lemma keepsI: "(\<And>s. I s \<Longrightarrow> I (snd (m s))) \<Longrightarrow> keeps I m"
  by (simp add: keeps_def)

lemma keepsD: "keeps I m \<Longrightarrow> I s \<Longrightarrow> I (snd (m s))"
  by (simp add: keeps_def)

lemma keeps_run: "keeps I m \<Longrightarrow> I s \<Longrightarrow> m s = (r, t) \<Longrightarrow> I t"
  by (auto dest: keepsD [where s = s])

lemma keeps_ret [keeps_intro]: "keeps I (ret x)"
  by (simp add: keeps_def prog_simps)

lemma keeps_raise [keeps_intro]: "keeps I (raise e)"
  by (simp add: keeps_def prog_simps)

lemma keeps_asks [keeps_intro]: "keeps I (asks f)"
  by (simp add: keeps_def prog_simps)

lemma keeps_liftE [keeps_intro]: "keeps I (liftE f)"
  by (simp add: keeps_def prog_simps)

lemma keeps_bindE [keeps_intro]:
  assumes "keeps I m" and "\<And>x. keeps I (f x)"
  shows "keeps I (bindE m f)"
proof (rule keepsI)
  fix s assume "I s"
  show "I (snd (bindE m f s))"
  proof (cases "m s")
    case (Pair r t)
    with assms(1) \<open>I s\<close> have "I t" by (auto dest: keepsD)
    with Pair assms(2) show ?thesis
      by (cases r) (auto simp: bindE_run dest: keepsD)
  qed
qed

text \<open>A value read from the state, used in that same state.\<close>

lemma keeps_asks_bind:
  assumes "\<And>s. I s \<Longrightarrow> I (snd (f (g s) s))"
  shows "keeps I (bindE (asks g) f)"
  by (rule keepsI) (use assms in \<open>simp add: bindE_run asks_run\<close>)

lemma snd_bind_ret: "snd (bindE m (\<lambda>x. ret (f x)) s) = snd (m s)"
  by (auto simp: bindE_run ret_run split: prod.splits sum.splits)

lemma keeps_thenE [keeps_intro]: "keeps I m \<Longrightarrow> keeps I n \<Longrightarrow> keeps I (thenE m n)"
  unfolding thenE_def by (rule keeps_bindE)

lemma keeps_whenE [keeps_intro]: "(b \<Longrightarrow> keeps I m) \<Longrightarrow> keeps I (whenE b m)"
  by (simp add: whenE_def keeps_ret)

lemma keeps_atomic [keeps_intro]: "keeps I m \<Longrightarrow> keeps I (atomic m)"
  by (rule keepsI) (auto simp: atomic_run split: prod.splits sum.splits dest: keeps_run)

lemma keeps_tryE [keeps_intro]:
  assumes "keeps I m" and "\<And>e. keeps I (h e)"
  shows "keeps I (tryE m h)"
proof (rule keepsI)
  fix s assume "I s"
  show "I (snd (tryE m h s))"
  proof (cases "m s")
    case (Pair r t)
    with assms(1) \<open>I s\<close> have "I t" by (auto dest: keepsD)
    with Pair assms(2) show ?thesis
      by (cases r) (auto simp: tryE_run dest: keepsD)
  qed
qed

lemma keeps_zoom:
  assumes "keeps J m" and "\<And>t. I t \<Longrightarrow> J (g t)"
    and "\<And>s t. I t \<Longrightarrow> J s \<Longrightarrow> I (p s t)"
  shows "keeps I (zoom g p m)"
  by (rule keepsI) (use assms in \<open>auto simp: zoom_run split: prod.splits dest: keeps_run\<close>)

lemma keeps_forE [keeps_intro]: "(\<And>x. x \<in> set xs \<Longrightarrow> keeps I (f x)) \<Longrightarrow> keeps I (forE f xs)"
  by (induction xs) (auto simp: forE.simps intro: keeps_ret keeps_thenE)

lemma atomic_raises_state: "atomic m s = (Inl e, t) \<Longrightarrow> t = s"
  by (auto simp: atomic_run split: prod.splits sum.splits)

section \<open>Python's numbers\<close>

text \<open>\<open>int(x)\<close> truncates, Python 2's \<open>round(x)\<close> rounds half away from zero, and
  \<open>float('%.2f' % x)\<close> keeps two decimals, half to even.\<close>

definition py_int :: "rat \<Rightarrow> int" where
  "py_int x = (if 0 \<le> x then \<lfloor>x\<rfloor> else - \<lfloor>- x\<rfloor>)"

definition py_round :: "rat \<Rightarrow> int" where
  "py_round x = (if 0 \<le> x then \<lfloor>x + 1 / 2\<rfloor> else - \<lfloor>- x + 1 / 2\<rfloor>)"

definition half_even :: "rat \<Rightarrow> int" where
  "half_even x =
     (let f = \<lfloor>x\<rfloor>; d = x - of_int f
      in if d < 1 / 2 then f else if d > 1 / 2 then f + 1 else if even f then f else f + 1)"

definition py_fmt2 :: "rat \<Rightarrow> rat" where
  "py_fmt2 x = of_int (half_even (x * 100)) / 100"

lemma py_int_of_int [simp]: "py_int (of_int n) = n"
  by (simp add: py_int_def)

lemma py_int_le: "0 \<le> x \<Longrightarrow> of_int (py_int x) \<le> x"
  by (simp add: py_int_def)

lemma py_int_nonneg: "0 \<le> x \<Longrightarrow> 0 \<le> py_int x"
  by (simp add: py_int_def)

lemma py_round_of_int [simp]: "py_round (of_int n) = n"
  by (auto simp: py_round_def floor_eq_iff)

lemma py_round_mono: "0 \<le> x \<Longrightarrow> x \<le> y \<Longrightarrow> py_round x \<le> py_round y"
  by (simp add: py_round_def floor_mono)

lemma py_round_nonneg: "0 \<le> x \<Longrightarrow> 0 \<le> py_round x"
  by (simp add: py_round_def)

lemma py_round_le: "0 \<le> x \<Longrightarrow> of_int (py_round x) \<le> x + 1 / 2"
  by (simp add: py_round_def)

section \<open>Strings\<close>

text \<open>\<open>'%d' % n\<close> and \<open>str(n)\<close> for the natural numbers used as identifiers.\<close>

fun str_nat :: "nat \<Rightarrow> string" where
  "str_nat n =
     (if n < 10 then [char_of (48 + n)] else str_nat (n div 10) @ [char_of (48 + n mod 10)])"

declare str_nat.simps [simp del]

definition str_int :: "int \<Rightarrow> string" where
  "str_int i = (if i < 0 then ''-'' @ str_nat (nat (- i)) else str_nat (nat i))"

fun join_with :: "string \<Rightarrow> string list \<Rightarrow> string" where
  "join_with sep [] = ''''"
| "join_with sep [x] = x"
| "join_with sep (x # y # xs) = x @ sep @ join_with sep (y # xs)"

definition starts_with :: "string \<Rightarrow> string \<Rightarrow> bool" where
  "starts_with p s \<longleftrightarrow> take (length p) s = p"

fun contains_str :: "string \<Rightarrow> string \<Rightarrow> bool" where
  "contains_str p [] = (p = [])"
| "contains_str p (c # s) = (starts_with p (c # s) \<or> contains_str p s)"

lemma str_nat_nonempty: "str_nat n \<noteq> []"
  by (subst str_nat.simps) simp

text \<open>\<open>s.split(c)\<close>, \<open>int(s)\<close> of a string of digits, and \<open>s.replace(p, '')\<close>.\<close>

fun split_on :: "char \<Rightarrow> string \<Rightarrow> string list" where
  "split_on c [] = [[]]"
| "split_on c (x # xs) =
     (if x = c then [] # split_on c xs
      else (case split_on c xs of [] \<Rightarrow> [[x]] | y # ys \<Rightarrow> (x # y) # ys))"

fun digits_value :: "nat \<Rightarrow> string \<Rightarrow> nat option" where
  "digits_value acc [] = Some acc"
| "digits_value acc (c # cs) =
     (let d = (of_char c :: nat) in
      if 48 \<le> d \<and> d \<le> 57 then digits_value (10 * acc + (d - 48)) cs else None)"

definition nat_of_str :: "string \<Rightarrow> nat option" where
  "nat_of_str s = (if s = [] then None else digits_value 0 s)"

fun remove_all :: "string \<Rightarrow> string \<Rightarrow> string" where
  "remove_all p [] = []"
| "remove_all p (c # s) =
     (if starts_with p (c # s) then remove_all p (drop (length p - 1) s) else c # remove_all p s)"

lemma split_on_nonempty: "split_on c s \<noteq> []"
  by (cases s) (auto split: list.split)

lemma split_on_no: "c \<notin> set a \<Longrightarrow> split_on c a = [a]"
  by (induction a) auto

lemma split_on_append: "c \<notin> set a \<Longrightarrow> split_on c (a @ c # b) = a # split_on c b"
  by (induction a) auto

lemma digits_value_append:
  "digits_value acc (s @ t) = Option.bind (digits_value acc s) (\<lambda>a. digits_value a t)"
  by (induction s arbitrary: acc) (auto simp: Let_def)

lemma digits_value_digit: "d < 10 \<Longrightarrow> digits_value acc [char_of (48 + d)] = Some (10 * acc + d)"
  by (simp add: of_char_of)

lemma digits_value_str_nat: "digits_value 0 (str_nat n) = Some n"
proof (induction n rule: str_nat.induct)
  case (1 n)
  show ?case
  proof (cases "n < 10")
    case True
    then show ?thesis using digits_value_digit [of n 0] by (subst str_nat.simps) simp
  next
    case False
    with 1 have "digits_value 0 (str_nat (n div 10)) = Some (n div 10)" by simp
    with False digits_value_digit [of "n mod 10" "n div 10"] show ?thesis
      by (subst str_nat.simps) (simp add: digits_value_append)
  qed
qed

lemma nat_of_str_str_nat [simp]: "nat_of_str (str_nat n) = Some n"
  by (simp add: nat_of_str_def digits_value_str_nat str_nat_nonempty)

lemma str_nat_inj: "str_nat m = str_nat n \<Longrightarrow> m = n"
  by (metis nat_of_str_str_nat option.inject)

lemma digits_value_digits: "digits_value acc s = Some n \<Longrightarrow> c \<in> set s \<Longrightarrow> 48 \<le> (of_char c :: nat)"
  by (induction s arbitrary: acc) (auto simp: Let_def split: if_splits)

lemma str_nat_no_dash: "CHR ''-'' \<notin> set (str_nat n)"
  using digits_value_digits [OF digits_value_str_nat, of "CHR ''-''"] by fastforce

text \<open>\<open>s or t\<close> on strings, and a keyword argument that defaults to \<open>None\<close>.\<close>

definition str_or :: "string \<Rightarrow> string \<Rightarrow> string" where
  "str_or s t = (if s = [] then t else s)"

definition arg_or :: "string option \<Rightarrow> string \<Rightarrow> string" where
  "arg_or a t = (case a of None \<Rightarrow> t | Some s \<Rightarrow> str_or s t)"

section \<open>Dates\<close>

text \<open>
  A \<open>date\<close> is its proleptic ordinal (\<open>date.toordinal()\<close>), a \<open>datetime\<close> its
  number of seconds on that scale, and \<open>str(d)\<close> the ISO text of the day, computed the way the
  standard library's \<open>_ord2ymd\<close> does.
\<close>

definition day_of :: "time \<Rightarrow> day" where
  "day_of t = t div 86400"

definition midnight :: "day \<Rightarrow> time" where
  "midnight d = d * 86400"

definition is_leap :: "int \<Rightarrow> bool" where
  "is_leap y \<longleftrightarrow> y mod 4 = 0 \<and> (y mod 100 \<noteq> 0 \<or> y mod 400 = 0)"

definition month_days :: "bool \<Rightarrow> int list" where
  "month_days leap = [31, if leap then 29 else 28, 31, 30, 31, 30, 31, 31, 30, 31, 30, 31]"

fun month_of :: "int list \<Rightarrow> int \<Rightarrow> int \<Rightarrow> int \<times> int" where
  "month_of [] m d = (m, d + 1)"
| "month_of (k # ks) m d = (if d < k then (m, d + 1) else month_of ks (m + 1) (d - k))"

definition ord2ymd :: "day \<Rightarrow> int \<times> int \<times> int" where
  "ord2ymd n0 =
     (let n = n0 - 1;
          n400 = n div 146097; n = n mod 146097;
          n100 = n div 36524; n = n mod 36524;
          n4 = n div 1461; n = n mod 1461;
          n1 = n div 365; n = n mod 365;
          y = n400 * 400 + n100 * 100 + n4 * 4 + n1 + 1
      in if n1 = 4 \<or> n100 = 4 then (y - 1, 12, 31)
         else (case month_of (month_days (is_leap y)) 1 n of (m, d) \<Rightarrow> (y, m, d)))"

definition pad_left :: "nat \<Rightarrow> string \<Rightarrow> string" where
  "pad_left k s = replicate (k - length s) CHR ''0'' @ s"

definition str_day :: "day \<Rightarrow> string" where
  "str_day n = (case ord2ymd n of (y, m, d) \<Rightarrow>
     pad_left 4 (str_int y) @ ''-'' @ pad_left 2 (str_int m) @ ''-'' @ pad_left 2 (str_int d))"

text \<open>\<open>d.strftime('%y%m%d')\<close>\<close>

definition str_yymmdd :: "day \<Rightarrow> string" where
  "str_yymmdd n = (case ord2ymd n of (y, m, d) \<Rightarrow>
     pad_left 2 (str_int (y mod 100)) @ pad_left 2 (str_int m) @ pad_left 2 (str_int d))"

lemma day_of_mono: "s \<le> t \<Longrightarrow> day_of s \<le> day_of t"
  by (simp add: day_of_def zdiv_mono1)

lemma day_of_midnight [simp]: "day_of (midnight d) = d"
  by (simp add: day_of_def midnight_def)

section \<open>Lists and sums\<close>

lemma sum_list_map_nonneg: "(\<And>x. x \<in> set xs \<Longrightarrow> 0 \<le> f x) \<Longrightarrow> (0::int) \<le> sum_list (map f xs)"
  by (induction xs) auto

lemma sum_list_filter_if:
  "sum_list (map f (filter P xs)) = sum_list (map (\<lambda>x. if P x then f x else (0::int)) xs)"
  by (induction xs) auto

lemma sum_list_map_diff:
  "sum_list (map (\<lambda>x. f x - g x) xs) = sum_list (map f xs) - sum_list (map g xs)"
  for f :: "'a \<Rightarrow> int"
  by (induction xs) auto

lemma sum_list_map_add:
  "sum_list (map (\<lambda>x. f x + g x) xs) = sum_list (map f xs) + sum_list (map g xs)"
  for f :: "'a \<Rightarrow> int"
  by (induction xs) auto

end
