(* ===== verification/Orm.thy ===== *)
theory Orm
  imports Prelude
begin

text \<open>
  The part of Django's object-relational layer the code uses. A table is the list of its rows in
  primary-key order (the order of \<open>.first()\<close> on an unordered queryset); \<open>filter\<close>,
  \<open>first\<close>, \<open>get\<close>, \<open>count\<close>, \<open>aggregate(Sum)\<close>, \<open>update\<close>, \<open>save\<close> and
  \<open>create\<close> are functions of it. The locale \<open>orm_table\<close> is the interface a model
  class offers the rest of the code: its primary key, and what holds after each operation.
\<close>

section \<open>Querysets\<close>

type_synonym 'r table = "'r list"

definition q_first :: "'r list \<Rightarrow> 'r option" where
  "q_first xs = (case xs of [] \<Rightarrow> None | x # _ \<Rightarrow> Some x)"

definition q_exists :: "('r \<Rightarrow> bool) \<Rightarrow> 'r table \<Rightarrow> bool" where
  "q_exists P t \<longleftrightarrow> filter P t \<noteq> []"

definition q_count :: "('r \<Rightarrow> bool) \<Rightarrow> 'r table \<Rightarrow> nat" where
  "q_count P t = length (filter P t)"

text \<open>\<open>.aggregate(total=Sum(col)).get('total') or 0\<close>\<close>

definition q_sum :: "('r \<Rightarrow> int) \<Rightarrow> ('r \<Rightarrow> bool) \<Rightarrow> 'r table \<Rightarrow> int" where
  "q_sum f P t = sum_list (map f (filter P t))"

text \<open>\<open>.get(...)\<close> raises unless exactly one row matches.\<close>

definition q_get :: "('r \<Rightarrow> bool) \<Rightarrow> 'r table \<Rightarrow> py_error + 'r" where
  "q_get P t =
     (case filter P t of
        [] \<Rightarrow> Inl DoesNotExist
      | [r] \<Rightarrow> Inr r
      | _ \<Rightarrow> Inl MultipleObjectsReturned)"

text \<open>\<open>.update(...)\<close> rewrites every matching row.\<close>

definition q_update :: "('r \<Rightarrow> bool) \<Rightarrow> ('r \<Rightarrow> 'r) \<Rightarrow> 'r table \<Rightarrow> 'r table" where
  "q_update P f t = map (\<lambda>r. if P r then f r else r) t"

section \<open>Saving rows\<close>

text \<open>\<open>obj.save()\<close> on an object with a key: an \<open>UPDATE\<close>, and an \<open>INSERT\<close> when no
  row has the key.\<close>

definition tbl_save :: "('r \<Rightarrow> pk_id) \<Rightarrow> 'r \<Rightarrow> 'r table \<Rightarrow> 'r table" where
  "tbl_save pk r t =
     (if pk r \<in> set (map pk t) then map (\<lambda>x. if pk x = pk r then r else x) t else t @ [r])"

text \<open>An auto-increment key is above every key in use.\<close>

definition fresh_pk :: "('r \<Rightarrow> pk_id) \<Rightarrow> 'r table \<Rightarrow> pk_id" where
  "fresh_pk pk t = Suc (foldr max (map pk t) 0)"

text \<open>Saving an object that has no key yet.\<close>

definition tbl_insert :: "('r \<Rightarrow> pk_id) \<Rightarrow> (pk_id \<Rightarrow> 'r \<Rightarrow> 'r) \<Rightarrow> 'r \<Rightarrow> 'r table \<Rightarrow> 'r table" where
  "tbl_insert pk set_pk r t = t @ [set_pk (fresh_pk pk t) r]"

section \<open>Generic facts\<close>

lemma q_first_Nil [simp]: "q_first [] = None"
  by (simp add: q_first_def)

lemma q_first_Cons [simp]: "q_first (x # xs) = Some x"
  by (simp add: q_first_def)

lemma q_first_None [simp]: "q_first xs = None \<longleftrightarrow> xs = []"
  by (simp add: q_first_def split: list.splits)

lemma q_first_Some: "q_first xs = Some x \<Longrightarrow> x \<in> set xs"
  by (auto simp: q_first_def split: list.splits)

lemma q_first_filter: "q_first (filter P t) = Some r \<Longrightarrow> r \<in> set t \<and> P r"
  by (drule q_first_Some) auto

lemma q_get_Inr: "q_get P t = Inr r \<Longrightarrow> r \<in> set t \<and> P r"
  by (auto simp: q_get_def filter_eq_Cons_iff split: list.splits)

lemma q_sum_Nil [simp]: "q_sum f P [] = 0"
  by (simp add: q_sum_def)

lemma q_sum_Cons [simp]: "q_sum f P (r # t) = (if P r then f r else 0) + q_sum f P t"
  by (simp add: q_sum_def)

lemma q_sum_append [simp]: "q_sum f P (t @ u) = q_sum f P t + q_sum f P u"
  by (simp add: q_sum_def)

lemma q_sum_as_if: "q_sum f P t = sum_list (map (\<lambda>r. if P r then f r else 0) t)"
  by (simp add: q_sum_def sum_list_filter_if)

lemma q_sum_nonneg: "(\<And>r. r \<in> set t \<Longrightarrow> P r \<Longrightarrow> 0 \<le> f r) \<Longrightarrow> 0 \<le> q_sum f P t"
  by (induction t) auto

lemma q_sum_cong: "(\<And>r. r \<in> set t \<Longrightarrow> (if P r then f r else 0) = (if Q r then g r else 0)) \<Longrightarrow>
    q_sum f P t = q_sum g Q t"
  by (induction t) auto

lemma fresh_pk_above: "r \<in> set t \<Longrightarrow> pk r < fresh_pk pk t"
  by (induction t) (auto simp: fresh_pk_def less_Suc_eq_le le_max_iff_disj)

lemma fresh_pk_notin: "fresh_pk pk t \<notin> set (map pk t)"
  using fresh_pk_above [of _ t pk] by fastforce

lemma tbl_save_pks:
  "map pk (tbl_save pk r t) = (if pk r \<in> set (map pk t) then map pk t else map pk t @ [pk r])"
  by (auto simp: tbl_save_def)

lemma tbl_save_mem: "x \<in> set (tbl_save pk r t) \<Longrightarrow> x = r \<or> x \<in> set t"
  by (auto simp: tbl_save_def split: if_splits)

lemma tbl_save_in: "r \<in> set (tbl_save pk r t)"
  by (auto simp: tbl_save_def image_iff)

lemma save_same_row:
  assumes "distinct (map pk t)" and "r \<in> set t"
  shows "tbl_save pk r t = t"
proof -
  have "\<And>x. x \<in> set t \<Longrightarrow> pk x = pk r \<Longrightarrow> r = x"
    using assms by (auto simp: distinct_map inj_on_def)
  with assms(2) show ?thesis
    by (auto simp: tbl_save_def intro!: map_idI)
qed

lemma save_twice:
  assumes "pk r' = pk r"
  shows "tbl_save pk r' (tbl_save pk r t) = tbl_save pk r' t"
proof (cases "pk r \<in> pk ` set t")
  case True
  then show ?thesis using assms by (auto simp: tbl_save_def)
next
  case False
  then have "pk x \<noteq> pk r" if "x \<in> set t" for x using that by (metis image_eqI)
  then have "map (\<lambda>x. if pk x = pk r then r' else x) t = t" by (simp add: map_idI)
  with False assms show ?thesis by (simp add: tbl_save_def)
qed

lemma q_get_filter: "q_get Q t = Inr r \<longleftrightarrow> filter Q t = [r]"
  by (auto simp: q_get_def split: list.splits)

text \<open>Re-reading a row that was saved under the same query.\<close>

lemma q_get_save:
  assumes "distinct (map pk t)" and get: "q_get Q t = Inr old" and pk: "pk new = pk old" and "Q new"
  shows "q_get Q (tbl_save pk new t) = Inr new"
proof -
  let ?f = "\<lambda>x. if pk x = pk new then new else x"
  from get have old: "filter Q t = [old]" "old \<in> set t" "Q old"
    by (auto simp: q_get_filter filter_eq_Cons_iff)
  have "x = old" if "x \<in> set t" "pk x = pk old" for x
    using assms(1) that old(2) by (auto simp: distinct_map inj_on_def)
  then have "Q (?f x) \<longleftrightarrow> Q x" if "x \<in> set t" for x
    using that pk \<open>Q new\<close> old(3) by (cases "pk x = pk new") auto
  then have "filter Q (map ?f t) = map ?f (filter Q t)"
    by (simp add: filter_map comp_def cong: filter_cong)
  then show ?thesis
    using old pk by (simp add: q_get_filter tbl_save_def)
qed

lemma q_get_append: "\<not> Q r \<Longrightarrow> q_get Q (t @ [r]) = q_get Q t"
  by (simp add: q_get_def)

lemma q_first_save:
  assumes "distinct (map pk t)" and "q_first (filter Q t) = Some old" and "pk new = pk old" and "Q new"
  shows "q_first (filter Q (tbl_save pk new t)) = Some new"
proof -
  have "q_first (filter Q (map (\<lambda>x. if pk x = pk old then new else x) t)) = Some new"
    using assms(1,2,4)
  proof (induction t)
    case (Cons x t)
    show ?case
    proof (cases "Q x")
      case True
      with Cons.prems show ?thesis by simp
    next
      case False
      with Cons.prems have rest: "q_first (filter Q t) = Some old" by simp
      with q_first_filter have "old \<in> set t" by fastforce
      with Cons.prems(1) have "pk x \<noteq> pk old" by auto
      with False Cons rest show ?thesis by simp
    qed
  qed simp
  moreover have "pk old \<in> pk ` set t" using q_first_filter [OF assms(2)] by simp
  ultimately show ?thesis using assms(3) by (simp add: tbl_save_def)
qed

lemma q_first_append: "q_first (filter Q t) = None \<Longrightarrow> Q r \<Longrightarrow> q_first (filter Q (t @ [r])) = Some r"
  by simp

section \<open>The interface of a model class\<close>

locale orm_table =
  fixes pk :: "'r \<Rightarrow> pk_id"
    and set_pk :: "pk_id \<Rightarrow> 'r \<Rightarrow> 'r"
  assumes pk_set_pk: "pk (set_pk i r) = i"
begin

lemma distinct_save:
  "distinct (map pk t) \<Longrightarrow> distinct (map pk (tbl_save pk r t))"
  unfolding tbl_save_pks by simp

lemma distinct_insert:
  "distinct (map pk t) \<Longrightarrow> distinct (map pk (tbl_insert pk set_pk r t))"
  using fresh_pk_notin [of pk t] by (simp add: tbl_insert_def pk_set_pk)

lemma distinct_update:
  assumes "\<And>r. P r \<Longrightarrow> pk (f r) = pk r"
  shows "map pk (q_update P f t) = map pk t"
  using assms by (induction t) (auto simp: q_update_def)

lemma get_member:
  assumes "distinct (map pk t)" and "r \<in> set t"
  shows "q_get (\<lambda>x. pk x = pk r) t = Inr r"
proof -
  have "filter (\<lambda>x. pk x = pk r) t = [r]"
    using assms
  proof (induction t)
    case (Cons a t)
    then show ?case by (cases "r = a") (auto simp: filter_empty_conv rev_image_eqI)
  qed simp
  then show ?thesis by (simp add: q_get_def)
qed

lemma get_save_same:
  assumes "distinct (map pk t)"
  shows "q_get (\<lambda>x. pk x = pk r) (tbl_save pk r t) = Inr r"
  using assms by (intro get_member distinct_save tbl_save_in)

lemma filter_save_other:
  assumes "i \<noteq> pk r"
  shows "filter (\<lambda>x. pk x = i) (tbl_save pk r t) = filter (\<lambda>x. pk x = i) t"
proof -
  have "filter (\<lambda>x. pk x = i) (map (\<lambda>x. if pk x = pk r then r else x) t)
      = filter (\<lambda>x. pk x = i) t"
    using assms by (induction t) auto
  then show ?thesis using assms by (simp add: tbl_save_def)
qed

lemma get_save_other:
  "i \<noteq> pk r \<Longrightarrow> q_get (\<lambda>x. pk x = i) (tbl_save pk r t) = q_get (\<lambda>x. pk x = i) t"
  by (simp add: q_get_def filter_save_other)

text \<open>Re-saving a row moves every aggregate by the change of that row alone.\<close>

lemma map_save_sum:
  assumes "distinct (map pk t)" and "old \<in> set t" and "pk r = pk old"
  shows "sum_list (map g (map (\<lambda>x. if pk x = pk r then r else x) t))
       = sum_list (map g t) - g old + (g r :: int)"
  using assms
proof (induction t)
  case Nil
  then show ?case by simp
next
  case (Cons a t)
  have same: "map (\<lambda>x. if pk x = pk r then r else x) t = t" if "pk r \<notin> pk ` set t"
    using that by (induction t) auto
  show ?case
  proof (cases "old = a")
    case True
    with Cons.prems have "pk r \<notin> pk ` set t" by simp
    from same [OF this] True Cons.prems show ?thesis by (simp add: comp_def)
  next
    case False
    with Cons.prems have "old \<in> set t" and "pk a \<noteq> pk r" by auto
    with Cons show ?thesis by simp
  qed
qed

lemma sum_save:
  assumes "distinct (map pk t)" and "old \<in> set t" and "pk r = pk old"
  shows "q_sum f P (tbl_save pk r t)
       = q_sum f P t - (if P old then f old else 0) + (if P r then f r else 0)"
proof -
  from assms have "pk r \<in> set (map pk t)" by auto
  with map_save_sum [OF assms, of "\<lambda>x. if P x then f x else 0"] show ?thesis
    by (simp add: q_sum_as_if tbl_save_def comp_def)
qed

lemma sum_insert:
  "q_sum f P (tbl_insert pk set_pk r t)
   = q_sum f P t + (if P (set_pk (fresh_pk pk t) r) then f (set_pk (fresh_pk pk t) r) else 0)"
  by (simp add: tbl_insert_def)

end

end
