(* ===== verification/Ledger.thy ===== *)
theory Ledger
  imports Orm
begin

text \<open>
  Several components keep a running total in one row (a wallet, a coin account, the cash-out
  column of a fortune, a stock counter) and the movements that explain it in the rows of a log.
  The locale \<open>ledger\<close> states what such a pair of tables offers, and proves once that posting
  a movement and amending a posted one keep the total equal to the sum of the movements' effects.
\<close>

section \<open>A total that agrees with its log\<close>

definition in_sync ::
  "('a \<Rightarrow> 'k) \<Rightarrow> ('a \<Rightarrow> int) \<Rightarrow> ('r \<Rightarrow> 'k) \<Rightarrow> ('r \<Rightarrow> int) \<Rightarrow> 'a table \<Rightarrow> 'r table \<Rightarrow> bool" where
  "in_sync key col owner effect A L \<longleftrightarrow>
     (\<forall>k. q_sum col (\<lambda>a. key a = k) A = q_sum effect (\<lambda>r. owner r = k) L)"

lemma in_syncD:
  "in_sync key col owner effect A L \<Longrightarrow>
   q_sum col (\<lambda>a. key a = k) A = q_sum effect (\<lambda>r. owner r = k) L"
  by (simp add: in_sync_def)

text \<open>With one account per owner, the sum over the owner's accounts is the account's column.\<close>

lemma unique_key_sum:
  assumes "distinct (map key A)" and "a \<in> set A"
  shows "q_sum col (\<lambda>x. key x = key a) A = col a"
  using assms
proof (induction A)
  case (Cons b A)
  have none: "q_sum col (\<lambda>x. key x = k) A = 0" if "k \<notin> key ` set A" for k
    using that by (induction A) auto
  from Cons none [of "key b"] show ?case by (cases "a = b") auto
qed simp

section \<open>The interface\<close>

locale ledger =
  acct: orm_table apk aset + logs: orm_table lpk lset
  for apk :: "'a \<Rightarrow> pk_id" and aset and lpk :: "'r \<Rightarrow> pk_id" and lset +
  fixes key :: "'a \<Rightarrow> 'k"
    and col :: "'a \<Rightarrow> int"
    and owner :: "'r \<Rightarrow> 'k"
    and effect :: "'r \<Rightarrow> int"
  assumes key_aset: "key (aset i a) = key a"
    and col_aset: "col (aset i a) = col a"
    and owner_lset: "owner (lset i r) = owner r"
    and effect_lset: "effect (lset i r) = effect r"
begin

abbreviation sync :: "'a table \<Rightarrow> 'r table \<Rightarrow> bool" where
  "sync \<equiv> in_sync key col owner effect"

lemma sync_open:
  assumes "sync A L" and "col a = 0"
  shows "sync (tbl_insert apk aset a A) L"
  using assms by (simp add: in_sync_def acct.sum_insert key_aset col_aset)

lemma sync_open_at:
  assumes "sync A L" and "col a = 0"
  shows "sync (A @ [a]) L"
  using assms by (simp add: in_sync_def)

lemma sync_post:
  assumes "sync A L" and "distinct (map apk A)" and "a \<in> set A"
    and "apk a' = apk a" and "key a' = key a"
    and "owner r = key a" and "col a' = col a + effect r"
  shows "sync (tbl_save apk a' A) (tbl_insert lpk lset r L)"
  using assms
  by (auto simp: in_sync_def acct.sum_save [of A a] logs.sum_insert owner_lset effect_lset)

lemma sync_post_only:
  assumes "sync A L" and "effect r = 0"
  shows "sync A (tbl_insert lpk lset r L)"
  using assms by (simp add: in_sync_def logs.sum_insert effect_lset)

lemma sync_repost:
  assumes "sync A L" and "distinct (map apk A)" and "a \<in> set A"
    and "apk a' = apk a" and "key a' = key a"
    and "distinct (map lpk L)" and "old \<in> set L"
    and "lpk new = lpk old" and "owner new = owner old" and "owner old = key a"
    and "col a' = col a + effect new - effect old"
  shows "sync (tbl_save apk a' A) (tbl_save lpk new L)"
  using assms by (auto simp: in_sync_def acct.sum_save [of A a] logs.sum_save [of L old])

lemma sync_repost_only:
  assumes "sync A L" and "distinct (map lpk L)" and "old \<in> set L"
    and "lpk new = lpk old" and "owner new = owner old" and "effect new = effect old"
  shows "sync A (tbl_save lpk new L)"
  using assms by (auto simp: in_sync_def logs.sum_save [of L old])

lemma sync_move:
  assumes "sync A L" and "distinct (map apk A)" and "a \<in> set A"
    and "apk a' = apk a" and "key a' = key a" and "col a' = col a"
  shows "sync (tbl_save apk a' A) L"
  using assms by (auto simp: in_sync_def acct.sum_save [of A a])

lemma sync_drift:
  assumes "sync A L" and "distinct (map lpk L)" and "old \<in> set L"
    and "lpk new = lpk old" and "owner new = owner old" and "effect new \<noteq> effect old"
  shows "\<not> sync A (tbl_save lpk new L)"
proof
  assume "sync A (tbl_save lpk new L)"
  then have "q_sum effect (\<lambda>r. owner r = owner old) L
    = q_sum effect (\<lambda>r. owner r = owner old) (tbl_save lpk new L)"
    using assms(1) by (simp add: in_sync_def)
  with assms(2-6) show False by (simp add: logs.sum_save [of L old])
qed

lemma sync_balance:
  assumes "sync A L" and "distinct (map key A)" and "a \<in> set A"
  shows "col a = q_sum effect (\<lambda>r. owner r = key a) L"
  using in_syncD [OF assms(1)] unique_key_sum [OF assms(2,3), of col] by simp

end

end
