(* ===== verification/Wallet.thy ===== *)
theory Wallet
  imports Ledger
begin

text \<open>
  The customer's wallet (\<open>src/flashsale/pay/models/user.py\<close>): \<open>UserBudget\<close>, the
  movements \<open>BudgetLog\<close> that explain it, and the double-entry book \<open>AccountEntry\<close>
  (\<open>src/flashsale/xiaolumm/models/account.py\<close>) the movements are posted to. An income
  counts once it is confirmed; an expense is taken from the wallet when it is created and given
  back when it is cancelled. The notification and cache signals of the models are not modelled.
\<close>

section \<open>Rows\<close>

datatype customer_status = INACTIVE | NORMAL | DELETE | FREEZE | SUPERVISE

record customer =
  cu_id :: pk_id
  cu_user :: pk_id
  cu_nick :: string
  cu_thumbnail :: string
  cu_mobile :: string
  cu_email :: string
  cu_phone :: string
  cu_openid :: string
  cu_unionid :: string
  cu_status :: customer_status
  cu_first_paytime :: "time option"

definition is_loginable :: "customer \<Rightarrow> bool" where
  "is_loginable c \<longleftrightarrow> cu_status c = NORMAL"

record user_budget =
  ub_id :: pk_id
  ub_user :: pk_id
  ub_amount :: cents
  ub_total_income :: cents
  ub_total_expense :: cents

datatype budget_type = BUDGET_IN | BUDGET_OUT

fun budget_type_code :: "budget_type \<Rightarrow> nat" where
  "budget_type_code BUDGET_IN = 0"
| "budget_type_code BUDGET_OUT = 1"

datatype budget_log_type =
    BG_ENVELOPE | BG_REFUND | BG_REFUND_POSTAGE | BG_CONSUM | BG_CASHOUT | BG_CASHOUT_FAIL
  | BG_MAMA_CASH | BG_REFERAL_FANS | BG_SUBSCRIBE | BG_EXCHG_ORDER | BG_RETURN_COUPON
  | BG_FANDIAN | BG_CLICK | BG_ORDER | BG_AWARD | BG_MAMA_CONSUM | BG_RETURN_EXCHG
  | BG_CARRY_CANCEL

fun bg_code :: "budget_log_type \<Rightarrow> string" where
  "bg_code BG_ENVELOPE = ''envelop''"
| "bg_code BG_REFUND = ''refund''"
| "bg_code BG_REFUND_POSTAGE = ''postage''"
| "bg_code BG_CONSUM = ''consum''"
| "bg_code BG_CASHOUT = ''cashout''"
| "bg_code BG_CASHOUT_FAIL = ''cashfail''"
| "bg_code BG_MAMA_CASH = ''mmcash''"
| "bg_code BG_REFERAL_FANS = ''rfan''"
| "bg_code BG_SUBSCRIBE = ''subs''"
| "bg_code BG_EXCHG_ORDER = ''exchg''"
| "bg_code BG_RETURN_COUPON = ''rtcoup''"
| "bg_code BG_FANDIAN = ''fandian''"
| "bg_code BG_CLICK = ''click''"
| "bg_code BG_ORDER = ''order''"
| "bg_code BG_AWARD = ''award''"
| "bg_code BG_MAMA_CONSUM = ''mmconsum''"
| "bg_code BG_RETURN_EXCHG = ''rtexchg''"
| "bg_code BG_CARRY_CANCEL = ''cancel''"

datatype budget_status = BL_CONFIRMED | BL_CANCELED | BL_PENDING

record budget_log =
  bl_id :: pk_id
  bl_customer_id :: pk_id
  bl_flow_amount :: cents
  bl_balance :: cents
  bl_budget_type :: budget_type
  bl_log_type :: budget_log_type
  bl_budget_date :: day
  bl_referal_id :: string
  bl_status :: budget_status
  bl_uni_key :: "string option"

record account_subject =
  as_id :: pk_id
  as_code :: string
  as_name :: string
  as_parent :: string

record account_entry =
  ae_id :: pk_id
  ae_customer_id :: pk_id
  ae_subject :: pk_id
  ae_amount :: cents
  ae_obj_id :: string
  ae_referal_id :: string

text \<open>
  The wallet's tables, the clock, and the values \<open>os.urandom\<close> yields (\<open>w_draws\<close> of them
  used so far).
\<close>

record wallet_db =
  w_customers :: "customer table"
  w_budgets :: "user_budget table"
  w_logs :: "budget_log table"
  w_subjects :: "account_subject table"
  w_entries :: "account_entry table"
  w_now :: time
  w_urandom :: "nat \<Rightarrow> string"
  w_draws :: nat

abbreviation w_today :: "wallet_db \<Rightarrow> day" where
  "w_today s \<equiv> day_of (w_now s)"

interpretation customer_table: orm_table cu_id "\<lambda>i. cu_id_update (\<lambda>_. i)"
  by unfold_locales simp

interpretation subject_table: orm_table as_id "\<lambda>i. as_id_update (\<lambda>_. i)"
  by unfold_locales simp

interpretation entry_table: orm_table ae_id "\<lambda>i. ae_id_update (\<lambda>_. i)"
  by unfold_locales simp

section \<open>The double-entry book\<close>

definition SB_FUND_CASH :: string where "SB_FUND_CASH = ''1101''"
definition SB_FUND_BANK :: string where "SB_FUND_BANK = ''1102''"
definition SB_FUND_PLATFORM :: string where "SB_FUND_PLATFORM = ''1103''"
definition SB_FUND_PLATFORM_WEIXIN :: string where "SB_FUND_PLATFORM_WEIXIN = ''110301''"
definition SB_FUND_PLATFORM_ALIPAY :: string where "SB_FUND_PLATFORM_ALIPAY = ''110302''"
definition SB_RECEIVE :: string where "SB_RECEIVE = ''1104''"
definition SB_RECEIVE_WALLET :: string where "SB_RECEIVE_WALLET = ''110401''"
definition SB_PAY :: string where "SB_PAY = ''1201''"
definition SB_PAY_XIAOLU :: string where "SB_PAY_XIAOLU = ''120101''"
definition SB_PAY_MAMA :: string where "SB_PAY_MAMA = ''120102''"
definition SB_PAY_MAMA_PEDING :: string where "SB_PAY_MAMA_PEDING = ''12010201''"
definition SB_PAY_MAMA_CONFIRM :: string where "SB_PAY_MAMA_CONFIRM = ''12010202''"
definition SB_PAY_CASHOUT :: string where "SB_PAY_CASHOUT = ''120103''"
definition SB_PAY_CASHOUT_PENDING :: string where "SB_PAY_CASHOUT_PENDING = ''12010301''"
definition SB_PAY_CASHOUT_CONFIRM :: string where "SB_PAY_CASHOUT_CONFIRM = ''12010302''"
definition SB_INCOME :: string where "SB_INCOME = ''1401''"
definition SB_INCOME_REFUND :: string where "SB_INCOME_REFUND = ''140101''"
definition SB_MARKET :: string where "SB_MARKET = ''1601''"
definition SB_MARKET_ENVELOPE :: string where "SB_MARKET_ENVELOPE = ''160101''"
definition SB_MARKET_FANLI :: string where "SB_MARKET_FANLI = ''160102''"

text \<open>The chart of accounts: code and parent of every subject.\<close>

definition SUBJECTS :: "(string \<times> string) list" where
  "SUBJECTS =
     [(SB_FUND_CASH, ''0''), (SB_FUND_BANK, ''0''), (SB_FUND_PLATFORM, ''0''),
      (SB_FUND_PLATFORM_WEIXIN, ''1103''), (SB_FUND_PLATFORM_ALIPAY, ''1103''),
      (SB_RECEIVE, ''0''), (SB_RECEIVE_WALLET, ''1104''),
      (SB_PAY, ''0''), (SB_PAY_XIAOLU, ''1201''), (SB_PAY_MAMA, ''1201''),
      (SB_PAY_MAMA_PEDING, ''120102''), (SB_PAY_MAMA_CONFIRM, ''120102''),
      (SB_PAY_CASHOUT, ''1201''), (SB_PAY_CASHOUT_PENDING, ''120103''),
      (SB_PAY_CASHOUT_CONFIRM, ''120103''),
      (SB_INCOME, ''0''), (SB_INCOME_REFUND, ''1401''),
      (SB_MARKET, ''0''), (SB_MARKET_ENVELOPE, ''1601''), (SB_MARKET_FANLI, ''1601'')]"

text \<open>
  \<open>AccountEntry.create\<close>: two rows under one random \<open>obj_id\<close>, or, when a subject is
  missing (or ambiguous), a silent return.
\<close>

definition account_entry_create ::
  "pk_id \<Rightarrow> string \<Rightarrow> string \<Rightarrow> cents \<Rightarrow> string \<Rightarrow> (wallet_db, unit) prog" where
  "account_entry_create customer_id debit lender amount referal_id = (\<lambda>s0.
     let obj_id = w_urandom s0 (w_draws s0);
         s = s0\<lparr>w_draws := Suc (w_draws s0)\<rparr>;
         row = (\<lambda>subject amount. \<lparr>ae_id = 0, ae_customer_id = customer_id,
                  ae_subject = as_id subject, ae_amount = amount, ae_obj_id = obj_id,
                  ae_referal_id = referal_id\<rparr>);
         add = tbl_insert ae_id (\<lambda>i. ae_id_update (\<lambda>_. i))
     in case q_get (\<lambda>a. as_code a = debit) (w_subjects s) of
          Inl _ \<Rightarrow> (Inr (), s)
        | Inr d \<Rightarrow> (case q_get (\<lambda>a. as_code a = lender) (w_subjects s) of
            Inl _ \<Rightarrow> (Inr (), s)
          | Inr l \<Rightarrow> (Inr (), s\<lparr>w_entries :=
              add (row l amount) (add (row d (- amount)) (w_entries s))\<rparr>)))"

section \<open>The wallet's movements\<close>

definition CashOutPolicy_MIN :: cents where "CashOutPolicy_MIN = 200"
definition CashOutPolicy_MAX :: cents where "CashOutPolicy_MAX = 20000"
definition CashOutPolicy_AUDIT :: cents where "CashOutPolicy_AUDIT = 600"
definition CashOutPolicy_DAILY_TRIES :: nat where "CashOutPolicy_DAILY_TRIES = 2"

definition gen_uni_key :: "pk_id \<Rightarrow> budget_type \<Rightarrow> budget_log_type \<Rightarrow> wallet_db \<Rightarrow> string" where
  "gen_uni_key customer_id bt lt s =
     (let budget_date = w_today s;
          count = q_count (\<lambda>l. bl_customer_id l = customer_id \<and> bl_budget_type l = bt
                    \<and> bl_log_type l = lt \<and> bl_budget_date l = budget_date) (w_logs s)
      in join_with ''-'' [bg_code lt, str_nat (budget_type_code bt), str_nat customer_id,
           str_nat (count + 1)] @ ''|'' @ str_day budget_date)"

definition get_customer :: "pk_id \<Rightarrow> wallet_db \<Rightarrow> py_error + customer" where
  "get_customer i s = q_get (\<lambda>c. cu_id c = i) (w_customers s)"

definition get_budget :: "pk_id \<Rightarrow> wallet_db \<Rightarrow> py_error + user_budget" where
  "get_budget customer_id s = q_get (\<lambda>b. ub_user b = customer_id) (w_budgets s)"

text \<open>\<open>UserBudget.objects.get_or_create(user=customer, defaults=...)\<close>\<close>

definition budget_get_or_create :: "pk_id \<Rightarrow> (wallet_db, user_budget) prog" where
  "budget_get_or_create customer_id = (\<lambda>s.
     case get_budget customer_id s of
       Inr b \<Rightarrow> (Inr b, s)
     | Inl DoesNotExist \<Rightarrow>
         (let b = \<lparr>ub_id = fresh_pk ub_id (w_budgets s), ub_user = customer_id, ub_amount = 0,
                   ub_total_income = 0, ub_total_expense = 0\<rparr>
          in (Inr b, s\<lparr>w_budgets := w_budgets s @ [b]\<rparr>))
     | Inl e \<Rightarrow> (Inl e, s))"

definition save_budget :: "user_budget \<Rightarrow> (wallet_db, unit) prog" where
  "save_budget b = modify (w_budgets_update (tbl_save ub_id b))"

text \<open>\<open>F('amount') + a\<close>, \<open>F('total_income') + i\<close>, \<open>F('total_expense') + e\<close> on a budget.\<close>

definition budget_add :: "cents \<Rightarrow> cents \<Rightarrow> cents \<Rightarrow> user_budget \<Rightarrow> user_budget" where
  "budget_add a i e b = b\<lparr>ub_amount := ub_amount b + a, ub_total_income := ub_total_income b + i,
     ub_total_expense := ub_total_expense b + e\<rparr>"

text \<open>Inserting a log fails when its \<open>uni_key\<close> is taken (the column is unique, \<open>NULL\<close>s are
  free).\<close>

definition insert_log :: "budget_log \<Rightarrow> (wallet_db, budget_log) prog" where
  "insert_log l = (\<lambda>s.
     if bl_uni_key l \<noteq> None \<and> q_exists (\<lambda>x. bl_uni_key x = bl_uni_key l) (w_logs s)
     then (Inl IntegrityError, s)
     else (let l' = l\<lparr>bl_id := fresh_pk bl_id (w_logs s)\<rparr>
           in (Inr l', s\<lparr>w_logs := tbl_insert bl_id (\<lambda>i. bl_id_update (\<lambda>_. i)) l (w_logs s)\<rparr>)))"

definition save_log :: "budget_log \<Rightarrow> (wallet_db, unit) prog" where
  "save_log l = modify (w_logs_update (tbl_save bl_id l))"

lemma save_budget_run [prog_simps]:
  "save_budget b s = (Inr (), s\<lparr>w_budgets := tbl_save ub_id b (w_budgets s)\<rparr>)"
  by (cases s) (simp add: save_budget_def modify_def)

lemma save_log_run [prog_simps]:
  "save_log l s = (Inr (), s\<lparr>w_logs := tbl_save bl_id l (w_logs s)\<rparr>)"
  by (cases s) (simp add: save_log_def modify_def)

text \<open>The book entries of \<open>BudgetLog.create\<close>, by kind and status of the movement.\<close>

definition create_entries ::
  "pk_id \<Rightarrow> budget_type \<Rightarrow> budget_log_type \<Rightarrow> budget_status \<Rightarrow> cents \<Rightarrow> (wallet_db, unit) prog" where
  "create_entries customer_id bt lt st flow_amount =
     (let entry = (\<lambda>d l. account_entry_create customer_id d l flow_amount '''') in
      if bt = BUDGET_IN then
        whenE (st = BL_CONFIRMED)
          (thenE (whenE (lt \<in> {BG_CLICK, BG_ORDER, BG_AWARD}) (entry SB_MARKET_FANLI SB_PAY_XIAOLU))
          (thenE (whenE (lt = BG_REFUND) (entry SB_INCOME_REFUND SB_PAY_XIAOLU))
          (thenE (whenE (lt = BG_MAMA_CASH) (entry SB_PAY_MAMA_CONFIRM SB_PAY_XIAOLU))
                 (whenE (lt = BG_ENVELOPE) (entry SB_MARKET_ENVELOPE SB_PAY_XIAOLU)))))
      else
        thenE (whenE (lt = BG_CONSUM) (entry SB_PAY_XIAOLU SB_RECEIVE_WALLET))
        (thenE (whenE (lt = BG_CASHOUT \<and> st = BL_PENDING) (entry SB_PAY_XIAOLU SB_PAY_CASHOUT_PENDING))
               (whenE (lt = BG_CASHOUT \<and> st = BL_CONFIRMED) (entry SB_PAY_XIAOLU SB_PAY_CASHOUT_CONFIRM))))"

definition create_budget_change :: "budget_type \<Rightarrow> budget_status \<Rightarrow> cents \<Rightarrow> user_budget \<Rightarrow> user_budget" where
  "create_budget_change bt st flow b =
     (if bt = BUDGET_IN then (if st = BL_CONFIRMED then budget_add flow flow 0 b else b)
      else budget_add (- flow) 0 flow b)"

definition budget_log_create ::
  "pk_id \<Rightarrow> budget_type \<Rightarrow> cents \<Rightarrow> budget_log_type \<Rightarrow> day option \<Rightarrow> string \<Rightarrow>
   budget_status option \<Rightarrow> string option \<Rightarrow> (wallet_db, budget_log) prog" where
  "budget_log_create customer_id bt flow_amount lt budget_date referal_id status uni_key =
     bindE (asks w_today) (\<lambda>today.
     let budget_date = (case budget_date of None \<Rightarrow> today | Some d \<Rightarrow> d);
         status = (case status of None \<Rightarrow> BL_CONFIRMED | Some st \<Rightarrow> st) in
     bindE (liftE (get_customer customer_id)) (\<lambda>customer.
     bindE (asks (\<lambda>s. arg_or uni_key (gen_uni_key customer_id bt lt s))) (\<lambda>uni_key.
     if status = BL_CANCELED then raise (Exn ''a cancelled log is not created'') else
     atomic
       (bindE (budget_get_or_create (cu_id customer)) (\<lambda>budget.
        thenE (create_entries customer_id bt lt status flow_amount)
        (thenE (save_budget (create_budget_change bt status flow_amount budget))
        (bindE (liftE (get_budget (cu_id customer))) (\<lambda>ub.
         insert_log \<lparr>bl_id = 0, bl_customer_id = customer_id, bl_flow_amount = flow_amount,
           bl_balance = ub_amount ub, bl_budget_type = bt, bl_log_type = lt,
           bl_budget_date = budget_date, bl_referal_id = referal_id, bl_status = status,
           bl_uni_key = Some uni_key\<rparr>))))))))"

definition create_salerefund_log :: "pk_id \<Rightarrow> pk_id \<Rightarrow> cents \<Rightarrow> (wallet_db, budget_log) prog" where
  "create_salerefund_log buyer_id refund_id flow_amount =
     bindE (asks (gen_uni_key buyer_id BUDGET_IN BG_REFUND)) (\<lambda>uni_key.
     budget_log_create buyer_id BUDGET_IN flow_amount BG_REFUND None (str_nat refund_id)
       (Some BL_CONFIRMED) (Some uni_key))"

definition create_salerefund_postage_log :: "pk_id \<Rightarrow> pk_id \<Rightarrow> cents \<Rightarrow> (wallet_db, budget_log) prog" where
  "create_salerefund_postage_log buyer_id refund_id flow_amount =
     bindE (asks (gen_uni_key buyer_id BUDGET_IN BG_REFUND_POSTAGE)) (\<lambda>uni_key.
     budget_log_create buyer_id BUDGET_IN flow_amount BG_REFUND_POSTAGE None (str_nat refund_id)
       (Some BL_CONFIRMED) (Some uni_key))"

definition create_return_coupon_log :: "pk_id \<Rightarrow> string \<Rightarrow> cents \<Rightarrow> (wallet_db, budget_log) prog" where
  "create_return_coupon_log customer_id quote_id flow_amount =
     bindE (asks (gen_uni_key customer_id BUDGET_IN BG_RETURN_COUPON)) (\<lambda>uni_key.
     budget_log_create customer_id BUDGET_IN flow_amount BG_RETURN_COUPON None quote_id
       (Some BL_PENDING) (Some uni_key))"

definition create_mm_cash_out_2_budget :: "pk_id \<Rightarrow> cents \<Rightarrow> string \<Rightarrow> (wallet_db, budget_log) prog" where
  "create_mm_cash_out_2_budget customer_id value referal_id =
     bindE (asks (gen_uni_key customer_id BUDGET_IN BG_MAMA_CASH)) (\<lambda>uni_key.
     budget_log_create customer_id BUDGET_IN value BG_MAMA_CASH None referal_id
       (Some BL_CONFIRMED) (Some uni_key))"

text \<open>
  \<open>confirm_budget_log\<close> and \<open>cancel_budget_log\<close> work on the object the caller holds,
  which need not agree with its row any more: \<open>self\<close> is an argument, and the object as the call
  leaves it is part of the result.
\<close>

definition confirm_entries :: "budget_log \<Rightarrow> (wallet_db, unit) prog" where
  "confirm_entries self =
     (let entry = (\<lambda>d l. account_entry_create (bl_customer_id self) d l (bl_flow_amount self) '''') in
      if bl_budget_type self = BUDGET_IN then
        whenE (bl_status self \<in> {BL_PENDING, BL_CANCELED} \<and> bl_log_type self \<in> {BG_CLICK, BG_ORDER, BG_AWARD})
          (entry SB_MARKET_FANLI SB_PAY_XIAOLU)
      else
        thenE (whenE (bl_log_type self = BG_CASHOUT \<and> bl_status self = BL_PENDING)
          (entry SB_PAY_CASHOUT_PENDING SB_PAY_CASHOUT_CONFIRM))
        (whenE (bl_log_type self = BG_CASHOUT \<and> bl_status self = BL_CANCELED)
          (entry SB_PAY_XIAOLU SB_PAY_CASHOUT_CONFIRM)))"

definition confirm_budget_change :: "budget_log \<Rightarrow> user_budget \<Rightarrow> user_budget" where
  "confirm_budget_change self b =
     (if bl_budget_type self = BUDGET_IN then
        (if bl_status self \<in> {BL_PENDING, BL_CANCELED}
         then budget_add (bl_flow_amount self) (bl_flow_amount self) 0 b else b)
      else
        (if bl_status self = BL_CANCELED
         then budget_add (- bl_flow_amount self) 0 (bl_flow_amount self) b else b))"

definition confirm_budget_log :: "budget_log \<Rightarrow> (wallet_db, bool \<times> budget_log) prog" where
  "confirm_budget_log self =
     (if bl_status self = BL_CONFIRMED then ret (False, self) else
      bindE (liftE (get_budget (bl_customer_id self))) (\<lambda>user_budget.
      atomic
        (thenE (confirm_entries self)
        (thenE (save_budget (confirm_budget_change self user_budget))
        (bindE (liftE (get_budget (bl_customer_id self))) (\<lambda>ub.
         let self' = self\<lparr>bl_balance := ub_amount ub, bl_status := BL_CONFIRMED\<rparr> in
         thenE (save_log self') (ret (True, self'))))))))"

definition cancel_entries :: "budget_log \<Rightarrow> (wallet_db, unit) prog" where
  "cancel_entries self =
     (let entry = (\<lambda>d l. account_entry_create (bl_customer_id self) d l (bl_flow_amount self) '''') in
      if bl_budget_type self = BUDGET_IN then
        whenE (bl_status self = BL_CONFIRMED \<and> bl_log_type self \<in> {BG_CLICK, BG_ORDER, BG_AWARD})
          (entry SB_PAY_XIAOLU SB_MARKET_FANLI)
      else
        thenE (whenE (bl_log_type self = BG_CASHOUT \<and> bl_status self = BL_PENDING)
          (entry SB_PAY_CASHOUT_PENDING SB_PAY_XIAOLU))
        (whenE (bl_log_type self = BG_CASHOUT \<and> bl_status self = BL_CONFIRMED)
          (entry SB_PAY_CASHOUT_CONFIRM SB_PAY_XIAOLU)))"

definition cancel_budget_change :: "budget_log \<Rightarrow> user_budget \<Rightarrow> user_budget" where
  "cancel_budget_change self b =
     (if bl_budget_type self = BUDGET_IN then
        (if bl_status self = BL_CONFIRMED
         then budget_add (- bl_flow_amount self) (- bl_flow_amount self) 0 b else b)
      else
        (if bl_status self \<in> {BL_CONFIRMED, BL_PENDING}
         then budget_add (bl_flow_amount self) 0 (- bl_flow_amount self) b else b))"

definition cancel_budget_log :: "budget_log \<Rightarrow> (wallet_db, bool \<times> budget_log) prog" where
  "cancel_budget_log self =
     (if bl_status self = BL_CANCELED then ret (False, self) else
      bindE (liftE (get_budget (bl_customer_id self))) (\<lambda>user_budget.
      atomic
        (thenE (cancel_entries self)
        (thenE (save_budget (cancel_budget_change self user_budget))
        (bindE (liftE (get_budget (bl_customer_id self))) (\<lambda>ub.
         let self' = self\<lparr>bl_balance := ub_amount ub, bl_status := BL_CANCELED\<rparr> in
         thenE (save_log self') (ret (True, self'))))))))"

definition chnage_peding_income_amount :: "budget_log \<Rightarrow> cents \<Rightarrow> (wallet_db, unit) prog" where
  "chnage_peding_income_amount self new_amount =
     whenE (\<not> (bl_status self \<noteq> BL_PENDING \<or> bl_budget_type self \<noteq> BUDGET_IN))
       (save_log (self\<lparr>bl_flow_amount := new_amount\<rparr>))"

definition is_cashout_limited :: "pk_id \<Rightarrow> wallet_db \<Rightarrow> bool" where
  "is_cashout_limited customer_id s =
     (let cnt = q_count (\<lambda>l. bl_customer_id l = customer_id \<and> bl_budget_type l = BUDGET_OUT
                  \<and> bl_log_type l = BG_CASHOUT \<and> bl_budget_date l = w_today s
                  \<and> bl_status l \<noteq> BL_CANCELED) (w_logs s)
      in \<not> (CashOutPolicy_DAILY_TRIES > cnt \<and> cnt \<ge> 0))"

section \<open>The wallet's own operations\<close>

definition budget_cash :: "user_budget \<Rightarrow> yuan" where
  "budget_cash b = py_fmt2 (of_int (ub_amount b) / 100)"

definition pending_cash :: "user_budget \<Rightarrow> wallet_db \<Rightarrow> yuan" where
  "pending_cash b s =
     py_fmt2 (of_int (q_sum bl_flow_amount
       (\<lambda>l. bl_customer_id l = ub_user b \<and> bl_status l = BL_PENDING) (w_logs s)) / 100)"

definition is_consum_log :: "pk_id \<Rightarrow> pk_id \<Rightarrow> budget_log \<Rightarrow> bool" where
  "is_consum_log customer_id strade_id l \<longleftrightarrow> bl_customer_id l = customer_id
     \<and> bl_referal_id l = str_nat strade_id \<and> bl_log_type l = BG_CONSUM"

definition charge_pending :: "user_budget \<Rightarrow> pk_id \<Rightarrow> cents \<Rightarrow> (wallet_db, bool) prog" where
  "charge_pending self strade_id payment =
     bindE (asks (\<lambda>s. q_get (is_consum_log (ub_user self) strade_id) (w_logs s))) (\<lambda>found.
     case found of
       Inl DoesNotExist \<Rightarrow>
         thenE (budget_log_create (ub_user self) BUDGET_OUT payment BG_CONSUM None
                  (str_nat strade_id) (Some BL_PENDING) (Some (''st_'' @ str_nat strade_id)))
               (ret True)
     | Inl e \<Rightarrow> raise e
     | Inr _ \<Rightarrow> ret True)"

definition charge_confirm :: "user_budget \<Rightarrow> pk_id \<Rightarrow> (wallet_db, bool) prog" where
  "charge_confirm self strade_id =
     bindE (asks (\<lambda>s. q_first (filter (is_consum_log (ub_user self) strade_id) (w_logs s)))) (\<lambda>blog.
     case blog of
       None \<Rightarrow> ret False
     | Some blog \<Rightarrow>
         (let blog = (if bl_status blog = BL_CANCELED then blog\<lparr>bl_status := BL_PENDING\<rparr> else blog)
          in bindE (confirm_budget_log blog) (\<lambda>r. ret (fst r))))"

text \<open>\<open>charge_cancel\<close> returns \<open>None\<close> when there is nothing to cancel.\<close>

definition charge_cancel :: "user_budget \<Rightarrow> pk_id \<Rightarrow> (wallet_db, bool option) prog" where
  "charge_cancel self strade_id =
     bindE (asks (\<lambda>s. q_first (filter (is_consum_log (ub_user self) strade_id) (w_logs s)))) (\<lambda>blog.
     case blog of
       None \<Rightarrow> ret None
     | Some blog \<Rightarrow> bindE (cancel_budget_log blog) (\<lambda>r. ret (Some (fst r))))"

section \<open>What a movement is worth\<close>

text \<open>The effect of a log row on the wallet's amount, its total income and its total expense.\<close>

definition amount_effect :: "budget_log \<Rightarrow> cents" where
  "amount_effect l =
     (case bl_budget_type l of
        BUDGET_IN \<Rightarrow> (if bl_status l = BL_CONFIRMED then bl_flow_amount l else 0)
      | BUDGET_OUT \<Rightarrow> (if bl_status l = BL_CANCELED then 0 else - bl_flow_amount l))"

definition income_effect :: "budget_log \<Rightarrow> cents" where
  "income_effect l =
     (if bl_budget_type l = BUDGET_IN \<and> bl_status l = BL_CONFIRMED then bl_flow_amount l else 0)"

definition expense_effect :: "budget_log \<Rightarrow> cents" where
  "expense_effect l =
     (if bl_budget_type l = BUDGET_OUT \<and> bl_status l \<noteq> BL_CANCELED then bl_flow_amount l else 0)"

lemmas effect_defs = amount_effect_def income_effect_def expense_effect_def

interpretation amt: ledger ub_id "\<lambda>i. ub_id_update (\<lambda>_. i)" bl_id "\<lambda>i. bl_id_update (\<lambda>_. i)"
    ub_user ub_amount bl_customer_id amount_effect
  by unfold_locales (simp_all add: effect_defs split: budget_type.split)

interpretation inc: ledger ub_id "\<lambda>i. ub_id_update (\<lambda>_. i)" bl_id "\<lambda>i. bl_id_update (\<lambda>_. i)"
    ub_user ub_total_income bl_customer_id income_effect
  by unfold_locales (simp_all add: effect_defs)

interpretation exp: ledger ub_id "\<lambda>i. ub_id_update (\<lambda>_. i)" bl_id "\<lambda>i. bl_id_update (\<lambda>_. i)"
    ub_user ub_total_expense bl_customer_id expense_effect
  by unfold_locales (simp_all add: effect_defs)

definition wallet_sync :: "user_budget table \<Rightarrow> budget_log table \<Rightarrow> bool" where
  "wallet_sync B L \<longleftrightarrow>
     in_sync ub_user ub_amount bl_customer_id amount_effect B L \<and>
     in_sync ub_user ub_total_income bl_customer_id income_effect B L \<and>
     in_sync ub_user ub_total_expense bl_customer_id expense_effect B L"

definition keyed_ok :: "budget_log table \<Rightarrow> bool" where
  "keyed_ok L \<longleftrightarrow> distinct (filter (\<lambda>k. k \<noteq> None) (map bl_uni_key L))"

definition wallet_ok :: "wallet_db \<Rightarrow> bool" where
  "wallet_ok s \<longleftrightarrow>
     distinct (map ub_id (w_budgets s)) \<and> distinct (map ub_user (w_budgets s)) \<and>
     distinct (map bl_id (w_logs s)) \<and> keyed_ok (w_logs s) \<and>
     wallet_sync (w_budgets s) (w_logs s)"

section \<open>Book entries leave the wallet alone\<close>

definition posts :: "(wallet_db, unit) prog \<Rightarrow> bool" where
  "posts m \<longleftrightarrow> (\<forall>s. \<exists>es n. m s = (Inr (), s\<lparr>w_entries := es, w_draws := n\<rparr>))"

lemma postsE:
  assumes "posts m"
  obtains es n where "m s = (Inr (), s\<lparr>w_entries := es, w_draws := n\<rparr>)"
  using assms unfolding posts_def by blast

lemma postsI:
  assumes "\<And>s. m s = (Inr (), s\<lparr>w_entries := f s, w_draws := g s\<rparr>)"
  shows "posts m"
  using assms unfolding posts_def by blast

lemma posts_entry: "posts (account_entry_create c d l a r)"
  unfolding posts_def
proof
  fix s
  let ?t = "snd (account_entry_create c d l a r s)"
  have "account_entry_create c d l a r s
      = (Inr (), s\<lparr>w_entries := w_entries ?t, w_draws := w_draws ?t\<rparr>)"
    by (cases "q_get (\<lambda>a. as_code a = d) (w_subjects s)";
        cases "q_get (\<lambda>a. as_code a = l) (w_subjects s)")
       (simp_all add: account_entry_create_def Let_def)
  then show "\<exists>es n. account_entry_create c d l a r s
      = (Inr (), s\<lparr>w_entries := es, w_draws := n\<rparr>)" by blast
qed

lemma posts_ret: "posts (ret ())"
  by (rule postsI [where f = w_entries and g = w_draws]) (simp add: prog_simps)

lemma posts_thenE: "posts m \<Longrightarrow> posts n \<Longrightarrow> posts (thenE m n)"
  unfolding posts_def
proof
  fix s
  assume m: "\<forall>s. \<exists>es n. m s = (Inr (), s\<lparr>w_entries := es, w_draws := n\<rparr>)"
    and n: "\<forall>s. \<exists>es k. n s = (Inr (), s\<lparr>w_entries := es, w_draws := k\<rparr>)"
  from m obtain es k where 1: "m s = (Inr (), s\<lparr>w_entries := es, w_draws := k\<rparr>)" by blast
  from n obtain es' k' where
    "n (s\<lparr>w_entries := es, w_draws := k\<rparr>)
     = (Inr (), s\<lparr>w_entries := es, w_draws := k\<rparr>\<lparr>w_entries := es', w_draws := k'\<rparr>)" by blast
  with 1 have "thenE m n s = (Inr (), s\<lparr>w_entries := es', w_draws := k'\<rparr>)"
    by (simp add: thenE_run)
  then show "\<exists>es k. thenE m n s = (Inr (), s\<lparr>w_entries := es, w_draws := k\<rparr>)" by blast
qed

lemma posts_whenE: "posts m \<Longrightarrow> posts (whenE b m)"
  by (simp add: whenE_def posts_ret)

lemma posts_create_entries: "posts (create_entries c bt lt st a)"
  unfolding create_entries_def Let_def
  by (simp add: posts_entry posts_thenE posts_whenE)

lemma posts_confirm_entries: "posts (confirm_entries l)"
  unfolding confirm_entries_def Let_def
  by (simp add: posts_entry posts_thenE posts_whenE)

lemma posts_cancel_entries: "posts (cancel_entries l)"
  unfolding cancel_entries_def Let_def
  by (simp add: posts_entry posts_thenE posts_whenE)

section \<open>What each operation does to the wallet\<close>

text \<open>The wallet \<open>create\<close> finds or opens for its customer.\<close>

definition opened :: "pk_id \<Rightarrow> wallet_db \<Rightarrow> user_budget \<Rightarrow> user_budget table \<Rightarrow> bool" where
  "opened c s b B \<longleftrightarrow> ub_user b = c \<and>
     (B = w_budgets s \<and> b \<in> set B \<or>
      B = w_budgets s @ [b] \<and> c \<notin> ub_user ` set (w_budgets s) \<and>
      ub_id b = fresh_pk ub_id (w_budgets s) \<and>
      ub_amount b = 0 \<and> ub_total_income b = 0 \<and> ub_total_expense b = 0)"

lemma q_get_missing: "q_get P t = Inl DoesNotExist \<Longrightarrow> r \<in> set t \<Longrightarrow> \<not> P r"
  by (auto simp: q_get_def filter_empty_conv split: list.splits)

lemma budget_get_or_create_run:
  "budget_get_or_create c s = (Inr b, t) \<Longrightarrow> t = s\<lparr>w_budgets := w_budgets t\<rparr> \<and> opened c s b (w_budgets t)"
  by (auto simp: budget_get_or_create_def get_budget_def Let_def opened_def
        dest: q_get_Inr q_get_missing split: sum.splits py_error.splits)

lemma budget_log_create_run:
  assumes "budget_log_create c bt flow lt d ref st uk s = (Inr l, t)"
  obtains b B es n key ub where
    "opened c s b B"
    "create_entries c bt lt (bl_status l) flow (s\<lparr>w_budgets := B\<rparr>)
       = (Inr (), s\<lparr>w_budgets := B, w_entries := es, w_draws := n\<rparr>)"
    "t = s\<lparr>w_entries := es, w_draws := n,
       w_budgets := tbl_save ub_id (create_budget_change bt (bl_status l) flow b) B,
       w_logs := tbl_insert bl_id (\<lambda>i. bl_id_update (\<lambda>_. i)) l (w_logs s)\<rparr>"
    "l = \<lparr>bl_id = fresh_pk bl_id (w_logs s), bl_customer_id = c, bl_flow_amount = flow,
       bl_balance = ub_amount ub, bl_budget_type = bt, bl_log_type = lt,
       bl_budget_date = (case d of None \<Rightarrow> w_today s | Some d \<Rightarrow> d), bl_referal_id = ref,
       bl_status = (case st of None \<Rightarrow> BL_CONFIRMED | Some x \<Rightarrow> x),
       bl_uni_key = Some key\<rparr>"
    "bl_status l \<noteq> BL_CANCELED"
    "\<not> q_exists (\<lambda>x. bl_uni_key x = bl_uni_key l) (w_logs s)"
    "key = arg_or uk (gen_uni_key c bt lt s)"
    "get_budget c t = Inr ub"
proof -
  define st' where "st' = (case st of None \<Rightarrow> BL_CONFIRMED | Some x \<Rightarrow> x)"
  define key where "key = arg_or uk (gen_uni_key c bt lt s)"
  from assms obtain cu where cu: "get_customer c s = Inr cu"
    by (auto simp: budget_log_create_def prog_simps Let_def split: sum.splits)
  then have cid: "cu_id cu = c" by (auto simp: get_customer_def dest: q_get_Inr)
  from assms cu have live: "st' \<noteq> BL_CANCELED"
    by (auto simp: budget_log_create_def prog_simps Let_def st'_def split: sum.splits if_splits)
  obtain rb s1 where s1: "budget_get_or_create c s = (rb, s1)" by fastforce
  with assms cu cid live obtain b where b: "rb = Inr b"
    by (auto simp: budget_log_create_def prog_simps Let_def st'_def split: sum.splits if_splits)
  define B where "B = w_budgets s1"
  from budget_get_or_create_run [OF s1 [unfolded b]]
  have s1': "s1 = s\<lparr>w_budgets := B\<rparr>" and op: "opened c s b B" by (auto simp: B_def)
  obtain es n where es: "create_entries c bt lt st' flow s1 = (Inr (), s1\<lparr>w_entries := es, w_draws := n\<rparr>)"
    using postsE [OF posts_create_entries] .
  define s2 where "s2 = s1\<lparr>w_entries := es, w_draws := n,
    w_budgets := tbl_save ub_id (create_budget_change bt st' flow b) B\<rparr>"
  have sv: "save_budget (create_budget_change bt st' flow b) (s1\<lparr>w_entries := es, w_draws := n\<rparr>) = (Inr (), s2)"
    by (simp add: prog_simps s2_def s1')
  from assms cu cid live s1 b es sv obtain ub where ub: "get_budget c s2 = Inr ub"
    by (auto simp: budget_log_create_def prog_simps Let_def st'_def split: sum.splits if_splits)
  define l0 where "l0 = \<lparr>bl_id = 0, bl_customer_id = c, bl_flow_amount = flow,
       bl_balance = ub_amount ub, bl_budget_type = bt, bl_log_type = lt,
       bl_budget_date = (case d of None \<Rightarrow> w_today s | Some d \<Rightarrow> d), bl_referal_id = ref,
       bl_status = st', bl_uni_key = Some key\<rparr>"
  from assms cu cid live s1 b es sv ub have ins: "insert_log l0 s2 = (Inr l, t)"
    by (auto simp: budget_log_create_def prog_simps Let_def st'_def key_def l0_def
             split: sum.splits if_splits prod.splits)
  have logs2: "w_logs s2 = w_logs s" by (simp add: s2_def s1')
  from ins have fresh: "\<not> q_exists (\<lambda>x. bl_uni_key x = bl_uni_key l0) (w_logs s)"
    by (auto simp: insert_log_def logs2 l0_def split: if_splits)
  with ins have l: "l = l0\<lparr>bl_id := fresh_pk bl_id (w_logs s)\<rparr>"
    and t: "t = s2\<lparr>w_logs := tbl_insert bl_id (\<lambda>i. bl_id_update (\<lambda>_. i)) l0 (w_logs s)\<rparr>"
    by (auto simp: insert_log_def logs2 Let_def split: if_splits)
  show thesis
    by (rule that [where b = b and B = B and es = es and n = n and key = key and ub = ub])
       (use op es live fresh ub in \<open>auto simp: l t l0_def s2_def s1' st'_def key_def tbl_insert_def get_budget_def\<close>)
qed

lemma budget_log_create_raises:
  "budget_log_create c bt flow lt d ref st uk s = (Inl e, t) \<Longrightarrow> t = s"
  by (auto simp: budget_log_create_def prog_simps Let_def split: sum.splits if_splits prod.splits)

text \<open>Confirming and cancelling: one step that rewrites the budget and the log.\<close>

definition settles :: "(wallet_db, unit) prog \<Rightarrow> budget_log \<Rightarrow> (user_budget \<Rightarrow> user_budget) \<Rightarrow> budget_status \<Rightarrow>
    wallet_db \<Rightarrow> wallet_db \<Rightarrow> budget_log \<Rightarrow> bool" where
  "settles m self change st s t self' \<longleftrightarrow> (\<exists>b es n ub.
     m s = (Inr (), s\<lparr>w_entries := es, w_draws := n\<rparr>) \<and>
     b \<in> set (w_budgets s) \<and> ub_user b = bl_customer_id self \<and>
     get_budget (bl_customer_id self) t = Inr ub \<and>
     self' = self\<lparr>bl_balance := ub_amount ub, bl_status := st\<rparr> \<and>
     t = s\<lparr>w_entries := es, w_draws := n,
           w_budgets := tbl_save ub_id (change b) (w_budgets s),
           w_logs := tbl_save bl_id self' (w_logs s)\<rparr>)"

lemma settlesE:
  assumes "settles m self change st s t self'"
  obtains b es n ub where "m s = (Inr (), s\<lparr>w_entries := es, w_draws := n\<rparr>)" "b \<in> set (w_budgets s)" "ub_user b = bl_customer_id self"
    "self' = self\<lparr>bl_balance := ub_amount ub, bl_status := st\<rparr>"
    "t = s\<lparr>w_entries := es, w_draws := n,
           w_budgets := tbl_save ub_id (change b) (w_budgets s),
           w_logs := tbl_save bl_id self' (w_logs s)\<rparr>"
    "get_budget (bl_customer_id self) t = Inr ub"
proof -
  from assms obtain b es n ub where "m s = (Inr (), s\<lparr>w_entries := es, w_draws := n\<rparr>) \<and>
     b \<in> set (w_budgets s) \<and> ub_user b = bl_customer_id self \<and>
     get_budget (bl_customer_id self) t = Inr ub \<and>
     self' = self\<lparr>bl_balance := ub_amount ub, bl_status := st\<rparr> \<and>
     t = s\<lparr>w_entries := es, w_draws := n,
           w_budgets := tbl_save ub_id (change b) (w_budgets s),
           w_logs := tbl_save bl_id self' (w_logs s)\<rparr>"
    unfolding settles_def by (elim exE)
  then show thesis
    by (elim conjE) (rule that [where b = b and es = es and n = n and ub = ub]; assumption)
qed

lemma settle_run:
  assumes run: "bindE (liftE (get_budget (bl_customer_id self))) (\<lambda>user_budget.
      atomic
        (thenE m
        (thenE (save_budget (change user_budget))
        (bindE (liftE (get_budget (bl_customer_id self))) (\<lambda>ub.
         let self' = self\<lparr>bl_balance := ub_amount ub, bl_status := st\<rparr> in
         thenE (save_log self') (ret (True, self'))))))) s = (r, t)"
    and posts: "posts m"
  shows "(\<exists>e. r = Inl e \<and> t = s) \<or> (\<exists>self'. r = Inr (True, self') \<and> settles m self change st s t self')"
proof (cases "get_budget (bl_customer_id self) s")
  case (Inl e)
  with run show ?thesis by (auto simp: prog_simps)
next
  case (Inr b)
  then have b: "b \<in> set (w_budgets s)" "ub_user b = bl_customer_id self"
    by (auto simp: get_budget_def dest: q_get_Inr)
  obtain es n where es: "m s = (Inr (), s\<lparr>w_entries := es, w_draws := n\<rparr>)"
    using postsE [OF posts] .
  define u where "u = s\<lparr>w_entries := es, w_draws := n,
    w_budgets := tbl_save ub_id (change b) (w_budgets s)\<rparr>"
  show ?thesis
  proof (cases "get_budget (bl_customer_id self) u")
    case (Inl e)
    with run Inr es show ?thesis by (auto simp: prog_simps u_def)
  next
    case (Inr ub)
    define self' where "self' = self\<lparr>bl_balance := ub_amount ub, bl_status := st\<rparr>"
    from run \<open>get_budget _ s = _\<close> es Inr
    have r: "r = Inr (True, self')" and t: "t = u\<lparr>w_logs := tbl_save bl_id self' (w_logs s)\<rparr>"
      by (auto simp: prog_simps u_def Let_def self'_def)
    have "settles m self change st s t self'"
      using b Inr es unfolding settles_def
      by (intro exI [where x = b] exI [where x = es] exI [where x = n] exI [where x = ub])
         (simp add: t u_def self'_def get_budget_def)
    with r show ?thesis by blast
  qed
qed

lemma confirm_run:
  assumes "confirm_budget_log self s = (r, t)" and "bl_status self \<noteq> BL_CONFIRMED"
  shows "(\<exists>e. r = Inl e \<and> t = s) \<or>
    (\<exists>self'. r = Inr (True, self') \<and> settles (confirm_entries self) self (confirm_budget_change self) BL_CONFIRMED s t self')"
  using assms by (intro settle_run [OF _ posts_confirm_entries]) (simp add: confirm_budget_log_def)

lemma cancel_run:
  assumes "cancel_budget_log self s = (r, t)" and "bl_status self \<noteq> BL_CANCELED"
  shows "(\<exists>e. r = Inl e \<and> t = s) \<or>
    (\<exists>self'. r = Inr (True, self') \<and> settles (cancel_entries self) self (cancel_budget_change self) BL_CANCELED s t self')"
  using assms by (intro settle_run [OF _ posts_cancel_entries]) (simp add: cancel_budget_log_def)

section \<open>The wallet invariant\<close>

lemmas change_defs = create_budget_change_def confirm_budget_change_def cancel_budget_change_def
  budget_add_def

lemma change_frames [simp]:
  "ub_id (create_budget_change bt st f b) = ub_id b"
  "ub_user (create_budget_change bt st f b) = ub_user b"
  "ub_id (confirm_budget_change l b) = ub_id b"
  "ub_user (confirm_budget_change l b) = ub_user b"
  "ub_id (cancel_budget_change l b) = ub_id b"
  "ub_user (cancel_budget_change l b) = ub_user b"
  by (simp_all add: change_defs)

lemma create_change_effect:
  assumes "bl_status l \<noteq> BL_CANCELED"
  shows "ub_amount (create_budget_change (bl_budget_type l) (bl_status l) (bl_flow_amount l) b)
         = ub_amount b + amount_effect l"
    and "ub_total_income (create_budget_change (bl_budget_type l) (bl_status l) (bl_flow_amount l) b)
         = ub_total_income b + income_effect l"
    and "ub_total_expense (create_budget_change (bl_budget_type l) (bl_status l) (bl_flow_amount l) b)
         = ub_total_expense b + expense_effect l"
  using assms by (cases "bl_budget_type l"; simp add: change_defs effect_defs)+

lemma settle_change_effect:
  assumes "st = BL_CONFIRMED \<and> change = confirm_budget_change l \<or> st = BL_CANCELED \<and> change = cancel_budget_change l"
    and "bl_status l \<noteq> st"
  shows "ub_amount (change b) = ub_amount b + amount_effect (l\<lparr>bl_balance := x, bl_status := st\<rparr>) - amount_effect l"
    and "ub_total_income (change b)
         = ub_total_income b + income_effect (l\<lparr>bl_balance := x, bl_status := st\<rparr>) - income_effect l"
    and "ub_total_expense (change b)
         = ub_total_expense b + expense_effect (l\<lparr>bl_balance := x, bl_status := st\<rparr>) - expense_effect l"
  using assms
  by (cases "bl_budget_type l"; cases "bl_status l"; auto simp: change_defs effect_defs)+

lemma save_user_keys:
  assumes "distinct (map ub_id B)" and "distinct (map ub_user B)" and "b \<in> set B"
    and "ub_id b' = ub_id b" and "ub_user b' = ub_user b"
  shows "map ub_user (tbl_save ub_id b' B) = map ub_user B"
proof -
  have "\<And>x. x \<in> set B \<Longrightarrow> ub_id x = ub_id b \<Longrightarrow> x = b"
    using assms(1,3) by (auto simp: distinct_map inj_on_def)
  with assms(3-5) show ?thesis by (auto simp: tbl_save_def)
qed

lemma save_log_keys:
  assumes "distinct (map bl_id L)" and "old \<in> set L" and "bl_id new = bl_id old"
    and "bl_uni_key new = bl_uni_key old"
  shows "map bl_uni_key (tbl_save bl_id new L) = map bl_uni_key L"
proof -
  have "\<And>x. x \<in> set L \<Longrightarrow> bl_id x = bl_id old \<Longrightarrow> x = old"
    using assms(1,2) by (auto simp: distinct_map inj_on_def)
  with assms(2-4) show ?thesis by (auto simp: tbl_save_def)
qed

lemma opened_ok:
  assumes "wallet_ok s" and "opened c s b B"
  shows "distinct (map ub_id B)" "distinct (map ub_user B)" "b \<in> set B" "ub_user b = c"
    "wallet_sync B (w_logs s)"
proof -
  have "wallet_sync (w_budgets s @ [b]) (w_logs s)"
    if "ub_amount b = 0" "ub_total_income b = 0" "ub_total_expense b = 0"
    using assms(1) that
    by (simp add: wallet_ok_def wallet_sync_def amt.sync_open_at inc.sync_open_at exp.sync_open_at)
  with assms show "wallet_sync B (w_logs s)"
    by (auto simp: opened_def wallet_ok_def)
  show "distinct (map ub_id B)" "distinct (map ub_user B)" "b \<in> set B" "ub_user b = c"
    using assms fresh_pk_notin [of ub_id "w_budgets s"] by (auto simp: opened_def wallet_ok_def)
qed

lemma wallet_ok_create:
  assumes ok: "wallet_ok s" and run: "budget_log_create c bt flow lt d ref st uk s = (Inr l, t)"
  shows "wallet_ok t"
proof -
  from run obtain b B es n key ub where op: "opened c s b B"
    and "create_entries c bt lt (bl_status l) flow (s\<lparr>w_budgets := B\<rparr>)
       = (Inr (), s\<lparr>w_budgets := B, w_entries := es, w_draws := n\<rparr>)"
    and t: "t = s\<lparr>w_entries := es, w_draws := n,
       w_budgets := tbl_save ub_id (create_budget_change bt (bl_status l) flow b) B,
       w_logs := tbl_insert bl_id (\<lambda>i. bl_id_update (\<lambda>_. i)) l (w_logs s)\<rparr>"
    and l: "bl_customer_id l = c" "bl_flow_amount l = flow" "bl_budget_type l = bt"
    and st: "bl_status l \<noteq> BL_CANCELED"
    and key: "\<not> q_exists (\<lambda>x. bl_uni_key x = bl_uni_key l) (w_logs s)"
    by (rule budget_log_create_run) auto
  note B = opened_ok [OF ok op]
  have chg: "create_budget_change bt (bl_status l) flow b
      = create_budget_change (bl_budget_type l) (bl_status l) (bl_flow_amount l) b" (is "_ = ?b")
    by (simp add: l)
  have sync: "wallet_sync (tbl_save ub_id ?b B) (tbl_insert bl_id (\<lambda>i. bl_id_update (\<lambda>_. i)) l (w_logs s))"
    using B create_change_effect [OF st, of b]
    by (auto simp: wallet_sync_def l
          intro!: amt.sync_post [where a = b] inc.sync_post [where a = b] exp.sync_post [where a = b])
  have keyed: "keyed_ok (tbl_insert bl_id (\<lambda>i. bl_id_update (\<lambda>_. i)) l (w_logs s))"
    using ok key by (auto simp: wallet_ok_def keyed_ok_def tbl_insert_def q_exists_def filter_empty_conv)
  have users: "map ub_user (tbl_save ub_id ?b B) = map ub_user B"
    using B by (intro save_user_keys) auto
  show ?thesis
    using ok B sync keyed users unfolding wallet_ok_def
    by (simp add: t chg amt.acct.distinct_save amt.logs.distinct_insert)
qed

lemma wallet_ok_settle:
  assumes ok: "wallet_ok s" and self: "self \<in> set (w_logs s)" and "bl_status self \<noteq> st"
    and kind: "st = BL_CONFIRMED \<and> change = confirm_budget_change self
      \<or> st = BL_CANCELED \<and> change = cancel_budget_change self"
    and settles: "settles m self change st s t self'"
  shows "wallet_ok t"
proof -
  from settles obtain b es n ub where "m s = (Inr (), s\<lparr>w_entries := es, w_draws := n\<rparr>)"
    and b: "b \<in> set (w_budgets s)" "ub_user b = bl_customer_id self"
    and self': "self' = self\<lparr>bl_balance := ub_amount ub, bl_status := st\<rparr>"
    and t: "t = s\<lparr>w_entries := es, w_draws := n,
           w_budgets := tbl_save ub_id (change b) (w_budgets s),
           w_logs := tbl_save bl_id self' (w_logs s)\<rparr>"
    and "get_budget (bl_customer_id self) t = Inr ub"
    by (rule settlesE)
  from ok have D: "distinct (map ub_id (w_budgets s))" "distinct (map ub_user (w_budgets s))"
      "distinct (map bl_id (w_logs s))" "wallet_sync (w_budgets s) (w_logs s)"
    by (auto simp: wallet_ok_def)
  have frame: "ub_id (change b) = ub_id b" "ub_user (change b) = ub_user b"
    using kind by auto
  have self'_frame: "bl_id self' = bl_id self" "bl_customer_id self' = bl_customer_id self"
    "bl_uni_key self' = bl_uni_key self"
    by (simp_all add: self')
  note eff = settle_change_effect [OF kind assms(3), of b "ub_amount ub", folded self']
  have "wallet_sync (tbl_save ub_id (change b) (w_budgets s)) (tbl_save bl_id self' (w_logs s))"
    unfolding wallet_sync_def
    using D b self frame self'_frame eff
    by (auto simp: wallet_sync_def
          intro!: amt.sync_repost [where a = b and old = self]
            inc.sync_repost [where a = b and old = self] exp.sync_repost [where a = b and old = self])
  moreover have "map ub_user (tbl_save ub_id (change b) (w_budgets s)) = map ub_user (w_budgets s)"
    using D b frame by (intro save_user_keys) auto
  moreover have "map bl_uni_key (tbl_save bl_id self' (w_logs s)) = map bl_uni_key (w_logs s)"
    using D self self'_frame by (intro save_log_keys)
  ultimately show ?thesis
    using ok D unfolding wallet_ok_def
    by (simp add: t keyed_ok_def amt.acct.distinct_save amt.logs.distinct_save)
qed

lemma keeps_create [keeps_intro]: "keeps wallet_ok (budget_log_create c bt flow lt d ref st uk)"
proof (rule keepsI)
  fix s assume "wallet_ok s"
  then show "wallet_ok (snd (budget_log_create c bt flow lt d ref st uk s))"
    by (cases "budget_log_create c bt flow lt d ref st uk s"; cases "fst (budget_log_create c bt flow lt d ref st uk s)")
       (auto dest: wallet_ok_create budget_log_create_raises)
qed

lemma wallet_ok_confirm:
  assumes "wallet_ok s" and "self \<in> set (w_logs s)"
  shows "wallet_ok (snd (confirm_budget_log self s))"
proof (cases "bl_status self = BL_CONFIRMED")
  case True
  with assms show ?thesis by (simp add: confirm_budget_log_def prog_simps)
next
  case False
  obtain r t where run: "confirm_budget_log self s = (r, t)" by fastforce
  from confirm_run [OF run False] show ?thesis
    using assms False wallet_ok_settle [OF assms False] by (auto simp: run)
qed

lemma wallet_ok_cancel:
  assumes "wallet_ok s" and "self \<in> set (w_logs s)"
  shows "wallet_ok (snd (cancel_budget_log self s))"
proof (cases "bl_status self = BL_CANCELED")
  case True
  with assms show ?thesis by (simp add: cancel_budget_log_def prog_simps)
next
  case False
  obtain r t where run: "cancel_budget_log self s = (r, t)" by fastforce
  from cancel_run [OF run False] show ?thesis
    using assms False wallet_ok_settle [OF assms False] by (auto simp: run)
qed

lemma keeps_charge_pending [keeps_intro]: "keeps wallet_ok (charge_pending b i p)"
  unfolding charge_pending_def
  by (intro keeps_intro) (auto split: sum.split py_error.split intro!: keeps_intro)

lemma consum_log_first:
  "q_first (filter (is_consum_log c i) L) = Some l \<Longrightarrow> l \<in> set L \<and> is_consum_log c i l"
  by (rule q_first_filter)

lemma wallet_ok_charge_cancel:
  assumes "wallet_ok s"
  shows "wallet_ok (snd (charge_cancel b i s))"
proof (cases "q_first (filter (is_consum_log (ub_user b) i) (w_logs s))")
  case None
  with assms show ?thesis by (simp add: charge_cancel_def bindE_run asks_run ret_run)
next
  case (Some l)
  then have "l \<in> set (w_logs s)" by (auto dest: consum_log_first)
  from wallet_ok_cancel [OF assms this] Some show ?thesis
    by (simp add: charge_cancel_def bindE_run [of "asks _"] asks_run snd_bind_ret)
qed

lemma wallet_ok_charge_confirm:
  assumes "wallet_ok s"
    and "\<And>l. q_first (filter (is_consum_log (ub_user b) i) (w_logs s)) = Some l \<Longrightarrow> bl_status l \<noteq> BL_CANCELED"
  shows "wallet_ok (snd (charge_confirm b i s))"
proof (cases "q_first (filter (is_consum_log (ub_user b) i) (w_logs s))")
  case None
  with assms show ?thesis by (simp add: charge_confirm_def bindE_run asks_run ret_run)
next
  case (Some l)
  with assms(2) have "l \<in> set (w_logs s)" "bl_status l \<noteq> BL_CANCELED"
    by (auto dest: consum_log_first)
  with wallet_ok_confirm [OF assms(1)] Some show ?thesis
    by (simp add: charge_confirm_def bindE_run [of "asks _"] asks_run snd_bind_ret)
qed

lemma wallet_ok_change_pending:
  assumes "wallet_ok s" and "self \<in> set (w_logs s)"
  shows "wallet_ok (snd (chnage_peding_income_amount self x s))"
proof (cases "bl_status self \<noteq> BL_PENDING \<or> bl_budget_type self \<noteq> BUDGET_IN")
  case True
  with assms show ?thesis by (auto simp: chnage_peding_income_amount_def prog_simps)
next
  case False
  let ?new = "self\<lparr>bl_flow_amount := x\<rparr>"
  from False have eff: "amount_effect ?new = amount_effect self"
    "income_effect ?new = income_effect self" "expense_effect ?new = expense_effect self"
    by (auto simp: effect_defs)
  have "map bl_uni_key (tbl_save bl_id ?new (w_logs s)) = map bl_uni_key (w_logs s)"
    using assms by (intro save_log_keys) (auto simp: wallet_ok_def)
  moreover have "wallet_sync (w_budgets s) (tbl_save bl_id ?new (w_logs s))"
    using assms eff unfolding wallet_sync_def wallet_ok_def
    by (auto intro!: amt.sync_repost_only [where old = self] inc.sync_repost_only [where old = self]
          exp.sync_repost_only [where old = self])
  ultimately show ?thesis
    using assms False
    by (simp add: chnage_peding_income_amount_def prog_simps wallet_ok_def keyed_ok_def
          amt.logs.distinct_save)
qed

section \<open>Runs of the wallet\<close>

text \<open>
  One call on the wallet, on a log or a budget just read from its table. A step also covers a call
  that raises: \<open>snd\<close> is the state it leaves. \<open>charge_confirm\<close> is a step here only on a
  log that was not cancelled; the cancelled case is the subject of
  \<open>charge_confirm_of_cancelled_is_free\<close>.
\<close>

inductive wallet_step :: "wallet_db \<Rightarrow> wallet_db \<Rightarrow> bool" where
  step_create: "wallet_step s (snd (budget_log_create c bt flow lt d ref st uk s))"
| step_confirm: "l \<in> set (w_logs s) \<Longrightarrow> wallet_step s (snd (confirm_budget_log l s))"
| step_cancel: "l \<in> set (w_logs s) \<Longrightarrow> wallet_step s (snd (cancel_budget_log l s))"
| step_change: "l \<in> set (w_logs s) \<Longrightarrow> wallet_step s (snd (chnage_peding_income_amount l x s))"
| step_charge: "wallet_step s (snd (charge_pending b i p s))"
| step_charge_cancel: "wallet_step s (snd (charge_cancel b i s))"
| step_charge_confirm:
    "(\<And>l. q_first (filter (is_consum_log (ub_user b) i) (w_logs s)) = Some l \<Longrightarrow> bl_status l \<noteq> BL_CANCELED) \<Longrightarrow>
     wallet_step s (snd (charge_confirm b i s))"
| step_clock: "w_now s \<le> now \<Longrightarrow> wallet_step s (s\<lparr>w_now := now\<rparr>)"

inductive_cases wallet_stepE: "wallet_step s t"

lemma wallet_ok_step:
  assumes "wallet_step s t" and "wallet_ok s"
  shows "wallet_ok t"
  using assms
proof cases
  case step_create
  then show ?thesis using keepsD [OF keeps_create assms(2)] by simp
next
  case step_charge
  then show ?thesis using keepsD [OF keeps_charge_pending assms(2)] by simp
next
  case (step_charge_confirm b i)
  then show ?thesis using wallet_ok_charge_confirm [OF assms(2)] by blast
next
  case (step_clock now)
  then show ?thesis using assms(2) by (simp add: wallet_ok_def)
qed (use assms(2) in \<open>simp_all add: wallet_ok_confirm wallet_ok_cancel wallet_ok_change_pending
       wallet_ok_charge_cancel\<close>)

lemma wallet_ok_run: "wallet_step\<^sup>*\<^sup>* s t \<Longrightarrow> wallet_ok s \<Longrightarrow> wallet_ok t"
  by (induction rule: rtranclp_induct) (auto intro: wallet_ok_step)

section \<open>The book\<close>

text \<open>The chart of accounts is loaded: every code has exactly one subject row.\<close>

definition chart_ok :: "wallet_db \<Rightarrow> bool" where
  "chart_ok s \<longleftrightarrow> distinct (map as_id (w_subjects s)) \<and>
     list_all (\<lambda>(code, _). \<exists>a\<in>set (w_subjects s). q_get (\<lambda>a. as_code a = code) (w_subjects s) = Inr a) SUBJECTS"

definition subject_balance :: "string \<Rightarrow> wallet_db \<Rightarrow> cents" where
  "subject_balance code s =
     (case q_get (\<lambda>a. as_code a = code) (w_subjects s) of
        Inl _ \<Rightarrow> 0
      | Inr a \<Rightarrow> q_sum ae_amount (\<lambda>e. ae_subject e = as_id a) (w_entries s))"

text \<open>Every posting of the book adds up to zero.\<close>

definition books_ok :: "wallet_db \<Rightarrow> bool" where
  "books_ok s \<longleftrightarrow> (\<forall>obj. q_sum ae_amount (\<lambda>e. ae_obj_id e = obj) (w_entries s) = 0)"

lemma books_ok_entry: "keeps books_ok (account_entry_create c d l a r)"
  by (rule keepsI)
     (auto simp: account_entry_create_def Let_def books_ok_def entry_table.sum_insert split: sum.splits)

lemma subject_balance_cong [simp]:
  "subject_balance code (s\<lparr>w_budgets := B\<rparr>) = subject_balance code s"
  "subject_balance code (s\<lparr>w_logs := L\<rparr>) = subject_balance code s"
  "subject_balance code (s\<lparr>w_draws := n\<rparr>) = subject_balance code s"
  by (simp_all add: subject_balance_def split: sum.split)

text \<open>\<open>m\<close> posts to the book, and moves the balance of each subject \<open>code\<close> by \<open>f code\<close>.\<close>

definition moves :: "(wallet_db, unit) prog \<Rightarrow> (string \<Rightarrow> cents) \<Rightarrow> bool" where
  "moves m f \<longleftrightarrow> (\<forall>s es n. m s = (Inr (), s\<lparr>w_entries := es, w_draws := n\<rparr>) \<longrightarrow> chart_ok s \<longrightarrow>
     (\<forall>code. code \<in> fst ` set SUBJECTS \<longrightarrow>
        subject_balance code (s\<lparr>w_entries := es\<rparr>) = subject_balance code s + f code))"

lemma movesD:
  assumes "moves m f" and "m s = (Inr (), s\<lparr>w_entries := es, w_draws := n\<rparr>)" and "chart_ok s"
    and "code \<in> fst ` set SUBJECTS"
  shows "subject_balance code (s\<lparr>w_entries := es\<rparr>) = subject_balance code s + f code"
  using assms unfolding moves_def by blast

lemma chart_okD:
  assumes "chart_ok s" and "code \<in> fst ` set SUBJECTS"
  obtains a where "a \<in> set (w_subjects s)" "as_code a = code"
    "q_get (\<lambda>a. as_code a = code) (w_subjects s) = Inr a"
proof -
  from assms obtain a where "a \<in> set (w_subjects s)"
      "q_get (\<lambda>a. as_code a = code) (w_subjects s) = Inr a"
    by (auto simp: chart_ok_def list_all_iff)
  moreover from this have "as_code a = code" by (auto dest: q_get_Inr)
  ultimately show thesis using that by blast
qed

lemma moves_entry:
  assumes "d \<in> fst ` set SUBJECTS" and "l \<in> fst ` set SUBJECTS"
  shows "moves (account_entry_create c d l a r)
    (\<lambda>code. (if code = l then a else 0) - (if code = d then a else 0))"
  unfolding moves_def
proof (intro allI impI)
  fix s es n code
  assume run: "account_entry_create c d l a r s = (Inr (), s\<lparr>w_entries := es, w_draws := n\<rparr>)"
    and chart: "chart_ok s" and code: "code \<in> fst ` set SUBJECTS"
  obtain ad where ad: "ad \<in> set (w_subjects s)" "as_code ad = d"
    "q_get (\<lambda>a. as_code a = d) (w_subjects s) = Inr ad" using chart_okD [OF chart assms(1)] .
  obtain al where al: "al \<in> set (w_subjects s)" "as_code al = l"
    "q_get (\<lambda>a. as_code a = l) (w_subjects s) = Inr al" using chart_okD [OF chart assms(2)] .
  obtain ac where ac: "ac \<in> set (w_subjects s)" "as_code ac = code"
    "q_get (\<lambda>a. as_code a = code) (w_subjects s) = Inr ac" using chart_okD [OF chart code] .
  have inj: "inj_on as_id (set (w_subjects s))"
    using chart by (simp add: chart_ok_def distinct_map)
  have same: "as_id al = as_id ac \<longleftrightarrow> code = l" "as_id ad = as_id ac \<longleftrightarrow> code = d"
    using inj_on_eq_iff [OF inj al(1) ac(1)] inj_on_eq_iff [OF inj ad(1) ac(1)] al(2,3) ad(2,3) ac(2,3)
    by auto
  have es: "es = w_entries (snd (account_entry_create c d l a r s))"
    by (simp add: run)
  have diff: "q_sum ae_amount (\<lambda>e. ae_subject e = as_id ac) es
      = q_sum ae_amount (\<lambda>e. ae_subject e = as_id ac) (w_entries s)
        + ((if code = l then a else 0) - (if code = d then a else 0))"
    unfolding es account_entry_create_def Let_def
    by (simp add: ad(3) al(3), simp add: entry_table.sum_insert) (auto simp: same)
  show "subject_balance code (s\<lparr>w_entries := es\<rparr>) = subject_balance code s
      + ((if code = l then a else 0) - (if code = d then a else 0))"
    by (simp add: subject_balance_def ac(3) diff)
qed

lemma moves_ret: "moves (ret ()) (\<lambda>_. 0)"
  unfolding moves_def
proof (intro allI impI)
  fix s :: wallet_db and es n code
  assume "ret () s = (Inr (), s\<lparr>w_entries := es, w_draws := n\<rparr>)"
  then have "w_entries s = w_entries (s\<lparr>w_entries := es, w_draws := n\<rparr>)"
    unfolding ret_def by (metis prod.inject)
  then have "es = w_entries s" by simp
  then show "subject_balance code (s\<lparr>w_entries := es\<rparr>) = subject_balance code s + 0"
    by simp
qed

lemma chart_ok_entries [simp]: "chart_ok (s\<lparr>w_entries := es, w_draws := n\<rparr>) = chart_ok s"
  "chart_ok (s\<lparr>w_budgets := B\<rparr>) = chart_ok s"
  by (simp_all add: chart_ok_def)

lemma moves_thenE:
  assumes "posts m" "posts n" "moves m f" "moves n g"
  shows "moves (thenE m n) (\<lambda>code. f code + g code)"
  unfolding moves_def
proof (intro allI impI)
  fix s es k code
  assume run: "thenE m n s = (Inr (), s\<lparr>w_entries := es, w_draws := k\<rparr>)"
    and chart: "chart_ok s" and code: "code \<in> fst ` set SUBJECTS"
  obtain es1 k1 where 1: "m s = (Inr (), s\<lparr>w_entries := es1, w_draws := k1\<rparr>)"
    using postsE [OF assms(1)] .
  define u where "u = s\<lparr>w_entries := es1, w_draws := k1\<rparr>"
  obtain es2 k2 where 2: "n u = (Inr (), u\<lparr>w_entries := es2, w_draws := k2\<rparr>)"
    using postsE [OF assms(2)] .
  from run 1 2 have "u\<lparr>w_entries := es2, w_draws := k2\<rparr> = s\<lparr>w_entries := es, w_draws := k\<rparr>"
    by (simp add: thenE_run u_def)
  from arg_cong [OF this, of w_entries] have es: "es2 = es" by simp
  have "subject_balance code (u\<lparr>w_entries := es2\<rparr>) = subject_balance code u + g code"
    by (rule movesD [OF assms(4) 2 _ code]) (simp add: u_def chart)
  moreover have "subject_balance code (s\<lparr>w_entries := es1\<rparr>) = subject_balance code s + f code"
    by (rule movesD [OF assms(3) 1 chart code])
  ultimately show "subject_balance code (s\<lparr>w_entries := es\<rparr>)
      = subject_balance code s + (f code + g code)"
    by (simp add: u_def subject_balance_def es split: sum.splits)
qed

lemma moves_whenE:
  assumes "posts m" and "moves m f"
  shows "moves (whenE b m) (\<lambda>code. if b then f code else 0)"
  using assms moves_ret by (simp add: whenE_def)

lemmas SB_defs = SB_PAY_XIAOLU_def SB_RECEIVE_WALLET_def SB_PAY_MAMA_CONFIRM_def
  SB_PAY_CASHOUT_PENDING_def SB_PAY_CASHOUT_CONFIRM_def SB_INCOME_REFUND_def
  SB_MARKET_ENVELOPE_def SB_MARKET_FANLI_def

lemma used_subjects [simp]:
  "SB_PAY_XIAOLU \<in> fst ` set SUBJECTS" "SB_RECEIVE_WALLET \<in> fst ` set SUBJECTS"
  "SB_PAY_MAMA_CONFIRM \<in> fst ` set SUBJECTS" "SB_PAY_CASHOUT_PENDING \<in> fst ` set SUBJECTS"
  "SB_PAY_CASHOUT_CONFIRM \<in> fst ` set SUBJECTS" "SB_INCOME_REFUND \<in> fst ` set SUBJECTS"
  "SB_MARKET_ENVELOPE \<in> fst ` set SUBJECTS" "SB_MARKET_FANLI \<in> fst ` set SUBJECTS"
  by (simp_all add: SUBJECTS_def)

text \<open>Money asked for and not yet paid out, and money paid out, as the log has it.\<close>

definition is_cashout_log :: "budget_status \<Rightarrow> budget_log \<Rightarrow> bool" where
  "is_cashout_log st l \<longleftrightarrow> bl_budget_type l = BUDGET_OUT \<and> bl_log_type l = BG_CASHOUT \<and> bl_status l = st"

definition cashout_books_ok :: "wallet_db \<Rightarrow> bool" where
  "cashout_books_ok s \<longleftrightarrow>
     subject_balance SB_PAY_CASHOUT_PENDING s = q_sum bl_flow_amount (is_cashout_log BL_PENDING) (w_logs s) \<and>
     subject_balance SB_PAY_CASHOUT_CONFIRM s = q_sum bl_flow_amount (is_cashout_log BL_CONFIRMED) (w_logs s)"

definition cashout_flow :: "budget_status \<Rightarrow> budget_log \<Rightarrow> cents" where
  "cashout_flow st l = (if is_cashout_log st l then bl_flow_amount l else 0)"

lemmas posts_intro = posts_entry posts_whenE posts_thenE
lemmas moves_intro = moves_thenE moves_whenE moves_entry posts_intro used_subjects

lemma create_moves:
  "\<exists>f. moves (create_entries (bl_customer_id l) (bl_budget_type l) (bl_log_type l) (bl_status l) (bl_flow_amount l)) f \<and>
     f SB_PAY_CASHOUT_PENDING = cashout_flow BL_PENDING l \<and>
     f SB_PAY_CASHOUT_CONFIRM = cashout_flow BL_CONFIRMED l"
proof (cases "bl_budget_type l")
  case BUDGET_IN
  then show ?thesis unfolding create_entries_def Let_def
    by (simp only: refl if_True) (rule exI, rule conjI, (rule moves_intro)+,
        simp_all add: SB_defs cashout_flow_def is_cashout_log_def)
next
  case BUDGET_OUT
  then show ?thesis unfolding create_entries_def Let_def
    by (simp only: budget_type.distinct if_False) (rule exI, rule conjI, (rule moves_intro)+,
        simp_all add: SB_defs cashout_flow_def is_cashout_log_def)
qed

lemma confirm_moves:
  assumes "bl_status l \<noteq> BL_CONFIRMED" and "l' = l\<lparr>bl_balance := x, bl_status := BL_CONFIRMED\<rparr>"
  shows "\<exists>f. moves (confirm_entries l) f \<and>
     f SB_PAY_CASHOUT_PENDING = cashout_flow BL_PENDING l' - cashout_flow BL_PENDING l \<and>
     f SB_PAY_CASHOUT_CONFIRM = cashout_flow BL_CONFIRMED l' - cashout_flow BL_CONFIRMED l"
proof (cases "bl_budget_type l")
  case BUDGET_IN
  with assms show ?thesis unfolding confirm_entries_def Let_def
    by (simp only: refl if_True) (rule exI, rule conjI, (rule moves_intro)+,
        simp_all add: SB_defs cashout_flow_def is_cashout_log_def)
next
  case BUDGET_OUT
  with assms show ?thesis unfolding confirm_entries_def Let_def
    by (simp only: budget_type.distinct if_False) (rule exI, rule conjI, (rule moves_intro)+,
        cases "bl_status l", simp_all add: SB_defs cashout_flow_def is_cashout_log_def)
qed

lemma cancel_moves:
  assumes "bl_status l \<noteq> BL_CANCELED" and "l' = l\<lparr>bl_balance := x, bl_status := BL_CANCELED\<rparr>"
  shows "\<exists>f. moves (cancel_entries l) f \<and>
     f SB_PAY_CASHOUT_PENDING = cashout_flow BL_PENDING l' - cashout_flow BL_PENDING l \<and>
     f SB_PAY_CASHOUT_CONFIRM = cashout_flow BL_CONFIRMED l' - cashout_flow BL_CONFIRMED l"
proof (cases "bl_budget_type l")
  case BUDGET_IN
  with assms show ?thesis unfolding cancel_entries_def Let_def
    by (simp only: refl if_True) (rule exI, rule conjI, (rule moves_intro)+,
        simp_all add: SB_defs cashout_flow_def is_cashout_log_def)
next
  case BUDGET_OUT
  with assms show ?thesis unfolding cancel_entries_def Let_def
    by (simp only: budget_type.distinct if_False) (rule exI, rule conjI, (rule moves_intro)+,
        cases "bl_status l", simp_all add: SB_defs cashout_flow_def is_cashout_log_def)
qed

lemma books_entries:
  "keeps books_ok (create_entries c bt lt st a)"
  "keeps books_ok (confirm_entries l)"
  "keeps books_ok (cancel_entries l)"
  unfolding create_entries_def confirm_entries_def cancel_entries_def Let_def
  by (simp_all add: keeps_thenE keeps_whenE books_ok_entry)

lemma books_frame [simp]:
  "books_ok (s\<lparr>w_budgets := B\<rparr>) = books_ok s"
  "books_ok (s\<lparr>w_logs := L\<rparr>) = books_ok s"
  "books_ok (s\<lparr>w_draws := n\<rparr>) = books_ok s"
  by (simp_all add: books_ok_def)

lemma books_of_entries:
  assumes "keeps books_ok m" and "m s = (Inr (), s\<lparr>w_entries := es, w_draws := n\<rparr>)" and "books_ok s"
  shows "books_ok (s\<lparr>w_entries := es\<rparr>)"
  using keepsD [OF assms(1,3)] by (simp add: assms(2) books_ok_def)

definition book_ok :: "wallet_db \<Rightarrow> bool" where
  "book_ok s \<longleftrightarrow> chart_ok s \<and> books_ok s \<and> cashout_books_ok s"

lemma q_sum_cashout:
  "q_sum bl_flow_amount (is_cashout_log st) L = q_sum (cashout_flow st) (\<lambda>_. True) L"
  by (induction L) (simp_all add: cashout_flow_def)

lemma cashout_sum_insert:
  "bl_id l' = k \<Longrightarrow> q_sum (cashout_flow st) (\<lambda>_. True) (tbl_insert bl_id (\<lambda>i. bl_id_update (\<lambda>_. i)) l L)
     = q_sum (cashout_flow st) (\<lambda>_. True) L + cashout_flow st l"
  by (simp add: amt.logs.sum_insert cashout_flow_def is_cashout_log_def)

lemma book_ok_create:
  assumes ok: "book_ok s" and run: "budget_log_create c bt flow lt d ref st uk s = (Inr l, t)"
  shows "book_ok t"
proof -
  from run obtain b B es n key ub where op: "opened c s b B"
    and es: "create_entries c bt lt (bl_status l) flow (s\<lparr>w_budgets := B\<rparr>)
       = (Inr (), s\<lparr>w_budgets := B, w_entries := es, w_draws := n\<rparr>)"
    and t: "t = s\<lparr>w_entries := es, w_draws := n,
       w_budgets := tbl_save ub_id (create_budget_change bt (bl_status l) flow b) B,
       w_logs := tbl_insert bl_id (\<lambda>i. bl_id_update (\<lambda>_. i)) l (w_logs s)\<rparr>"
    and l: "bl_customer_id l = c" "bl_flow_amount l = flow" "bl_budget_type l = bt" "bl_log_type l = lt"
    by (rule budget_log_create_run) auto
  obtain f where mv: "moves (create_entries c bt lt (bl_status l) flow) f"
    and f: "f SB_PAY_CASHOUT_PENDING = cashout_flow BL_PENDING l"
      "f SB_PAY_CASHOUT_CONFIRM = cashout_flow BL_CONFIRMED l"
    using create_moves [of l] unfolding l by blast
  have chart: "chart_ok (s\<lparr>w_budgets := B\<rparr>)" using ok by (simp add: book_ok_def)
  note bal = movesD [OF mv es chart]
  have "books_ok (s\<lparr>w_budgets := B, w_entries := es\<rparr>)"
    using ok by (intro books_of_entries [OF books_entries(1) es]) (simp add: book_ok_def)
  moreover have "subject_balance code t = subject_balance code (s\<lparr>w_budgets := B, w_entries := es\<rparr>)" for code
    by (simp add: t subject_balance_def split: sum.split)
  ultimately show ?thesis
    using ok bal [of SB_PAY_CASHOUT_PENDING] bal [of SB_PAY_CASHOUT_CONFIRM]
    unfolding book_ok_def cashout_books_ok_def q_sum_cashout
    by (simp add: f) (simp add: t books_ok_def chart_ok_def cashout_sum_insert)
qed

lemma book_ok_settle:
  assumes ok: "book_ok s" and self: "self \<in> set (w_logs s)" and logs: "distinct (map bl_id (w_logs s))"
    and settles: "settles m self change st s t self'"
    and m: "keeps books_ok m"
    and mv: "\<And>x. \<exists>f. moves m f \<and>
     f SB_PAY_CASHOUT_PENDING = cashout_flow BL_PENDING (self\<lparr>bl_balance := x, bl_status := st\<rparr>) - cashout_flow BL_PENDING self \<and>
     f SB_PAY_CASHOUT_CONFIRM = cashout_flow BL_CONFIRMED (self\<lparr>bl_balance := x, bl_status := st\<rparr>) - cashout_flow BL_CONFIRMED self"
  shows "book_ok t"
proof -
  from settles obtain b es n ub where es: "m s = (Inr (), s\<lparr>w_entries := es, w_draws := n\<rparr>)"
    and b: "b \<in> set (w_budgets s)" "ub_user b = bl_customer_id self"
    and self': "self' = self\<lparr>bl_balance := ub_amount ub, bl_status := st\<rparr>"
    and t: "t = s\<lparr>w_entries := es, w_draws := n,
           w_budgets := tbl_save ub_id (change b) (w_budgets s),
           w_logs := tbl_save bl_id self' (w_logs s)\<rparr>"
    and "get_budget (bl_customer_id self) t = Inr ub"
    by (rule settlesE)
  obtain f where f: "moves m f"
     "f SB_PAY_CASHOUT_PENDING = cashout_flow BL_PENDING self' - cashout_flow BL_PENDING self"
     "f SB_PAY_CASHOUT_CONFIRM = cashout_flow BL_CONFIRMED self' - cashout_flow BL_CONFIRMED self"
    using mv [of "ub_amount ub"] unfolding self' by blast
  have chart: "chart_ok s" using ok by (simp add: book_ok_def)
  note bal = movesD [OF f(1) es chart]
  have books: "books_ok (s\<lparr>w_entries := es\<rparr>)"
    using ok by (intro books_of_entries [OF m es]) (simp add: book_ok_def)
  have sub: "subject_balance code t = subject_balance code (s\<lparr>w_entries := es\<rparr>)" for code
    by (simp add: t subject_balance_def split: sum.split)
  have logs': "q_sum (cashout_flow st') (\<lambda>_. True) (w_logs t)
      = q_sum (cashout_flow st') (\<lambda>_. True) (w_logs s) - cashout_flow st' self + cashout_flow st' self'" for st'
    using amt.logs.sum_save [OF logs self, of self' "cashout_flow st'" "\<lambda>_. True"]
    by (simp add: t self')
  have "chart_ok t" "books_ok t"
    using chart books by (simp_all add: t books_ok_def chart_ok_def)
  then show ?thesis
    using ok bal [of SB_PAY_CASHOUT_PENDING] bal [of SB_PAY_CASHOUT_CONFIRM]
    unfolding book_ok_def cashout_books_ok_def q_sum_cashout
    by (simp add: f sub logs')
qed

text \<open>Creating keeps the book; so do confirming and cancelling a log just read.\<close>

lemma book_ok_confirm:
  assumes "book_ok s" and "wallet_ok s" and "self \<in> set (w_logs s)"
  shows "book_ok (snd (confirm_budget_log self s))"
proof (cases "bl_status self = BL_CONFIRMED")
  case True
  with assms show ?thesis by (simp add: confirm_budget_log_def prog_simps)
next
  case False
  obtain r t where run: "confirm_budget_log self s = (r, t)" by fastforce
  have logs: "distinct (map bl_id (w_logs s))" using assms(2) by (simp add: wallet_ok_def)
  from confirm_run [OF run False] show ?thesis
    using assms(1) book_ok_settle [OF assms(1,3) logs _ books_entries(2) confirm_moves [OF False refl]]
    by (auto simp: run)
qed

lemma book_ok_cancel:
  assumes "book_ok s" and "wallet_ok s" and "self \<in> set (w_logs s)"
  shows "book_ok (snd (cancel_budget_log self s))"
proof (cases "bl_status self = BL_CANCELED")
  case True
  with assms show ?thesis by (simp add: cancel_budget_log_def prog_simps)
next
  case False
  obtain r t where run: "cancel_budget_log self s = (r, t)" by fastforce
  have logs: "distinct (map bl_id (w_logs s))" using assms(2) by (simp add: wallet_ok_def)
  from cancel_run [OF run False] show ?thesis
    using assms(1) book_ok_settle [OF assms(1,3) logs _ books_entries(3) cancel_moves [OF False refl]]
    by (auto simp: run)
qed

lemma book_ok_change_pending:
  assumes "book_ok s" and "wallet_ok s" and "self \<in> set (w_logs s)"
  shows "book_ok (snd (chnage_peding_income_amount self x s))"
proof (cases "bl_status self \<noteq> BL_PENDING \<or> bl_budget_type self \<noteq> BUDGET_IN")
  case True
  with assms show ?thesis by (auto simp: chnage_peding_income_amount_def prog_simps)
next
  case False
  let ?new = "self\<lparr>bl_flow_amount := x\<rparr>"
  have "q_sum (cashout_flow st) (\<lambda>_. True) (tbl_save bl_id ?new (w_logs s))
      = q_sum (cashout_flow st) (\<lambda>_. True) (w_logs s)" for st
    using amt.logs.sum_save [of "w_logs s" self ?new "cashout_flow st" "\<lambda>_. True"] assms(2,3) False
    by (auto simp: wallet_ok_def cashout_flow_def is_cashout_log_def)
  with assms(1) False show ?thesis
    by (simp add: chnage_peding_income_amount_def prog_simps book_ok_def cashout_books_ok_def
          q_sum_cashout) (simp add: chart_ok_def)
qed

lemma keeps_book_create [keeps_intro]: "keeps book_ok (budget_log_create c bt flow lt d ref st uk)"
proof (rule keepsI)
  fix s assume "book_ok s"
  then show "book_ok (snd (budget_log_create c bt flow lt d ref st uk s))"
    by (cases "budget_log_create c bt flow lt d ref st uk s"; cases "fst (budget_log_create c bt flow lt d ref st uk s)")
       (auto dest: book_ok_create budget_log_create_raises)
qed

lemma keeps_book_charge [keeps_intro]: "keeps book_ok (charge_pending b i p)"
  unfolding charge_pending_def
  by (intro keeps_intro) (auto split: sum.split py_error.split intro!: keeps_intro)

lemma book_ok_charge_cancel:
  assumes "book_ok s" and "wallet_ok s"
  shows "book_ok (snd (charge_cancel b i s))"
proof (cases "q_first (filter (is_consum_log (ub_user b) i) (w_logs s))")
  case None
  with assms show ?thesis by (simp add: charge_cancel_def bindE_run asks_run ret_run)
next
  case (Some l)
  then have "l \<in> set (w_logs s)" by (auto dest: consum_log_first)
  from book_ok_cancel [OF assms this] Some show ?thesis
    by (simp add: charge_cancel_def bindE_run [of "asks _"] asks_run snd_bind_ret)
qed

lemma book_ok_charge_confirm:
  assumes "book_ok s" and "wallet_ok s"
    and "\<And>l. q_first (filter (is_consum_log (ub_user b) i) (w_logs s)) = Some l \<Longrightarrow> bl_status l \<noteq> BL_CANCELED"
  shows "book_ok (snd (charge_confirm b i s))"
proof (cases "q_first (filter (is_consum_log (ub_user b) i) (w_logs s))")
  case None
  with assms show ?thesis by (simp add: charge_confirm_def bindE_run asks_run ret_run)
next
  case (Some l)
  with assms(3) have "l \<in> set (w_logs s)" "bl_status l \<noteq> BL_CANCELED"
    by (auto dest: consum_log_first)
  with book_ok_confirm [OF assms(1,2)] Some show ?thesis
    by (simp add: charge_confirm_def bindE_run [of "asks _"] asks_run snd_bind_ret)
qed

lemma book_ok_step:
  assumes "wallet_step s t" and "book_ok s" and "wallet_ok s"
  shows "book_ok t"
  using assms(1)
proof cases
  case step_create
  then show ?thesis using keepsD [OF keeps_book_create assms(2)] by simp
next
  case step_charge
  then show ?thesis using keepsD [OF keeps_book_charge assms(2)] by simp
next
  case (step_charge_confirm b i)
  then show ?thesis using book_ok_charge_confirm [OF assms(2,3)] by blast
next
  case (step_clock now)
  then show ?thesis using assms(2)
    by (simp add: book_ok_def chart_ok_def books_ok_def cashout_books_ok_def subject_balance_def
             split: sum.splits)
qed (use assms(2,3) in \<open>simp_all add: book_ok_confirm book_ok_cancel book_ok_change_pending
       book_ok_charge_cancel\<close>)

lemma book_ok_run: "wallet_step\<^sup>*\<^sup>* s t \<Longrightarrow> wallet_ok s \<Longrightarrow> book_ok s \<Longrightarrow> book_ok t"
  by (induction rule: rtranclp_induct) (auto intro: book_ok_step wallet_ok_run)



lemma amount_effect_split:
  "q_sum amount_effect P L = q_sum income_effect P L - q_sum expense_effect P L"
proof (induction L)
  case (Cons l L)
  then show ?case by (cases "bl_budget_type l") (simp_all add: effect_defs)
qed simp

lemma wallet_ok_explained:
  assumes "wallet_ok t" and "b \<in> set (w_budgets t)"
  shows "ub_amount b = q_sum amount_effect (\<lambda>l. bl_customer_id l = ub_user b) (w_logs t) \<and>
      ub_amount b = ub_total_income b - ub_total_expense b"
proof -
  from assms have "ub_amount b = q_sum amount_effect (\<lambda>l. bl_customer_id l = ub_user b) (w_logs t)"
    "ub_total_income b = q_sum income_effect (\<lambda>l. bl_customer_id l = ub_user b) (w_logs t)"
    "ub_total_expense b = q_sum expense_effect (\<lambda>l. bl_customer_id l = ub_user b) (w_logs t)"
    by (auto simp: wallet_ok_def wallet_sync_def
          intro: amt.sync_balance inc.sync_balance exp.sync_balance)
  then show ?thesis by (simp add: amount_effect_split)
qed

section \<open>Calls that return\<close>

interpretation user_column: orm_table ub_user "\<lambda>i. ub_user_update (\<lambda>_. i)"
  by unfold_locales simp

lemma get_budget_member:
  assumes "distinct (map ub_user (w_budgets s))" and "b \<in> set (w_budgets s)" and "ub_user b = c"
  shows "get_budget c s = Inr b"
  using user_column.get_member [OF assms(1,2)] by (simp add: get_budget_def assms(3))

text \<open>With the customer's wallet in place, confirming and cancelling always return.\<close>

lemma settle_returns:
  assumes ok: "wallet_ok s" and b: "b \<in> set (w_budgets s)" "ub_user b = bl_customer_id self"
    and frame: "ub_id (change b) = ub_id b" "ub_user (change b) = ub_user b"
    and posts: "posts m"
  shows "\<exists>self' t. bindE (liftE (get_budget (bl_customer_id self))) (\<lambda>user_budget.
      atomic
        (thenE m
        (thenE (save_budget (change user_budget))
        (bindE (liftE (get_budget (bl_customer_id self))) (\<lambda>ub.
         let self' = self\<lparr>bl_balance := ub_amount ub, bl_status := st\<rparr> in
         thenE (save_log self') (ret (True, self'))))))) s = (Inr (True, self'), t)"
proof -
  have D: "distinct (map ub_id (w_budgets s))" "distinct (map ub_user (w_budgets s))"
    using ok by (auto simp: wallet_ok_def)
  have g1: "get_budget (bl_customer_id self) s = Inr b"
    using D b by (intro get_budget_member)
  obtain es n where es: "m s = (Inr (), s\<lparr>w_entries := es, w_draws := n\<rparr>)"
    using postsE [OF posts] .
  define u where "u = s\<lparr>w_entries := es, w_draws := n,
    w_budgets := tbl_save ub_id (change b) (w_budgets s)\<rparr>"
  have "map ub_user (w_budgets u) = map ub_user (w_budgets s)"
    using D b frame by (simp add: u_def save_user_keys)
  then have "get_budget (bl_customer_id self) u = Inr (change b)"
    using D b frame by (intro get_budget_member) (auto simp: u_def tbl_save_in)
  with g1 es show ?thesis
    by (auto simp: prog_simps u_def Let_def)
qed

lemma cancel_returns:
  assumes "wallet_ok s" and "b \<in> set (w_budgets s)" and "ub_user b = bl_customer_id self"
    and "bl_status self \<noteq> BL_CANCELED"
  shows "\<exists>self' t. cancel_budget_log self s = (Inr (True, self'), t) \<and>
    settles (cancel_entries self) self (cancel_budget_change self) BL_CANCELED s t self'"
proof -
  obtain self' t where run: "cancel_budget_log self s = (Inr (True, self'), t)"
    using settle_returns [OF assms(1-3), of "cancel_budget_change self" "cancel_entries self" BL_CANCELED]
      assms(4) posts_cancel_entries by (auto simp: cancel_budget_log_def)
  from cancel_run [OF run assms(4)] run show ?thesis by auto
qed

lemma confirm_returns:
  assumes "wallet_ok s" and "b \<in> set (w_budgets s)" and "ub_user b = bl_customer_id self"
    and "bl_status self \<noteq> BL_CONFIRMED"
  shows "\<exists>self' t. confirm_budget_log self s = (Inr (True, self'), t) \<and>
    settles (confirm_entries self) self (confirm_budget_change self) BL_CONFIRMED s t self'"
proof -
  obtain self' t where run: "confirm_budget_log self s = (Inr (True, self'), t)"
    using settle_returns [OF assms(1-3), of "confirm_budget_change self" "confirm_entries self" BL_CONFIRMED]
      assms(4) posts_confirm_entries by (auto simp: confirm_budget_log_def)
  from confirm_run [OF run assms(4)] run show ?thesis by auto
qed

lemma settle_budgets:
  assumes "wallet_ok s" and "b \<in> set (w_budgets s)" and "ub_user b = bl_customer_id self"
    and settles: "settles m self change st s t self'"
  shows "w_budgets t = tbl_save ub_id (change b) (w_budgets s)"
proof -
  from settles obtain x es n ub where "m s = (Inr (), s\<lparr>w_entries := es, w_draws := n\<rparr>)"
    and x: "x \<in> set (w_budgets s)" "ub_user x = bl_customer_id self"
    and "self' = self\<lparr>bl_balance := ub_amount ub, bl_status := st\<rparr>"
    and t: "t = s\<lparr>w_entries := es, w_draws := n,
           w_budgets := tbl_save ub_id (change x) (w_budgets s),
           w_logs := tbl_save bl_id self' (w_logs s)\<rparr>"
    and "get_budget (bl_customer_id self) t = Inr ub"
    by (rule settlesE)
  have "x = b"
    using get_budget_member [of s] x assms(1-3) by (metis sum.inject(2) wallet_ok_def)
  then show ?thesis by (simp add: t)
qed

lemma settle_log:
  assumes "settles m self change st s t self'"
  shows "\<exists>x. self' = self\<lparr>bl_balance := x, bl_status := st\<rparr> \<and>
    w_logs t = tbl_save bl_id self' (w_logs s)"
  using assms by (rule settlesE) auto

lemma charge_pending_run:
  assumes ok: "wallet_ok s" and w: "w \<in> set (w_budgets s)" "ub_user w = ub_user b"
    and none: "filter (is_consum_log (ub_user b) i) (w_logs s) = []"
    and charge: "charge_pending b i p s = (Inr r, s1)"
  shows "\<exists>l. bl_customer_id l = ub_user b \<and> bl_flow_amount l = p \<and> bl_budget_type l = BUDGET_OUT \<and>
    bl_status l = BL_PENDING \<and>
    q_first (filter (is_consum_log (ub_user b) i) (w_logs s1)) = Some l \<and>
    w_budgets s1 = tbl_save ub_id (create_budget_change BUDGET_OUT BL_PENDING p w) (w_budgets s) \<and>
    wallet_ok s1"
proof -
  have "q_get (is_consum_log (ub_user b) i) (w_logs s) = Inl DoesNotExist"
    by (simp add: q_get_def none)
  with charge obtain l where create: "budget_log_create (ub_user b) BUDGET_OUT p BG_CONSUM None
      (str_nat i) (Some BL_PENDING) (Some (''st_'' @ str_nat i)) s = (Inr l, s1)"
    by (auto simp: charge_pending_def prog_simps split: prod.splits sum.splits)
  then obtain w' B es n key ub where op: "opened (ub_user b) s w' B"
    and "create_entries (ub_user b) BUDGET_OUT BG_CONSUM (bl_status l) p (s\<lparr>w_budgets := B\<rparr>)
       = (Inr (), s\<lparr>w_budgets := B, w_entries := es, w_draws := n\<rparr>)"
    and s1: "s1 = s\<lparr>w_entries := es, w_draws := n,
       w_budgets := tbl_save ub_id (create_budget_change BUDGET_OUT (bl_status l) p w') B,
       w_logs := tbl_insert bl_id (\<lambda>i. bl_id_update (\<lambda>_. i)) l (w_logs s)\<rparr>"
    and l: "bl_id l = fresh_pk bl_id (w_logs s)" "bl_customer_id l = ub_user b"
      "bl_flow_amount l = p" "bl_budget_type l = BUDGET_OUT" "bl_status l = BL_PENDING"
      "is_consum_log (ub_user b) i l"
    by (rule budget_log_create_run) (auto simp: is_consum_log_def)
  have "ub_user b \<in> ub_user ` set (w_budgets s)" using w by (metis image_eqI)
  with op have B: "B = w_budgets s" "w' \<in> set (w_budgets s)" "ub_user w' = ub_user w"
    using w by (auto simp: opened_def)
  have "get_budget (ub_user w) s = Inr w'" "get_budget (ub_user w) s = Inr w"
    using ok B w by (auto simp: wallet_ok_def intro!: get_budget_member)
  then have "w' = w" by simp
  moreover have "q_first (filter (is_consum_log (ub_user b) i) (w_logs s1)) = Some l"
    using none l by (simp add: s1 tbl_insert_def flip: l(1))
  moreover have "wallet_ok s1" using wallet_ok_create [OF ok create] .
  ultimately show ?thesis using l B by (intro exI [where x = l]) (simp add: s1)
qed

lemma charge_cancel_restores:
  assumes ok: "wallet_ok s" and w: "w \<in> set (w_budgets s)" "ub_user w = ub_user b"
    and none: "filter (is_consum_log (ub_user b) i) (w_logs s) = []"
    and charge: "charge_pending b i p s = (Inr r, s1)"
  shows "fst (charge_cancel b i s1) = Inr (Some True) \<and>
    w_budgets (snd (charge_cancel b i s1)) = w_budgets s"
proof -
  let ?w = "create_budget_change BUDGET_OUT BL_PENDING p w"
  obtain l where l: "bl_customer_id l = ub_user b" "bl_flow_amount l = p"
      "bl_budget_type l = BUDGET_OUT" "bl_status l = BL_PENDING"
    and first: "q_first (filter (is_consum_log (ub_user b) i) (w_logs s1)) = Some l"
    and budgets1: "w_budgets s1 = tbl_save ub_id ?w (w_budgets s)" and ok1: "wallet_ok s1"
    using charge_pending_run [OF ok w none charge] by blast
  have w1: "?w \<in> set (w_budgets s1)" "ub_user ?w = bl_customer_id l"
    using w by (simp_all add: budgets1 tbl_save_in l)
  obtain l' t where run: "cancel_budget_log l s1 = (Inr (True, l'), t)"
    and settles: "settles (cancel_entries l) l (cancel_budget_change l) BL_CANCELED s1 t l'"
    using cancel_returns [OF ok1 w1] l by auto
  have "cancel_budget_change l ?w = w"
    by (simp add: change_defs l)
  with settle_budgets [OF ok1 w1 settles] have "w_budgets t = tbl_save ub_id w (w_budgets s)"
    by (simp add: budgets1 save_twice)
  also have "\<dots> = w_budgets s"
    using ok w by (simp add: save_same_row wallet_ok_def)
  finally have "w_budgets t = w_budgets s" .
  with first run show ?thesis
    by (simp add: charge_cancel_def prog_simps)
qed

section \<open>Properties of the wallet\<close>


definition example_customer :: customer where
  "example_customer = \<lparr>cu_id = 1, cu_user = 1, cu_nick = ''n'', cu_thumbnail = '''',
     cu_mobile = ''13800000000'', cu_email = '''', cu_phone = '''', cu_openid = ''o'',
     cu_unionid = ''u'', cu_status = NORMAL, cu_first_paytime = None\<rparr>"

text \<open>A database with one customer, no wallet yet, and the chart of accounts loaded.\<close>

definition example_wallet :: wallet_db where
  "example_wallet =
     \<lparr>w_customers = [example_customer], w_budgets = [], w_logs = [],
      w_subjects = map (\<lambda>(i, code, parent).
        \<lparr>as_id = i, as_code = code, as_name = '''', as_parent = parent\<rparr>) (enumerate 1 SUBJECTS),
      w_entries = [], w_now = midnight 1, w_urandom = str_nat, w_draws = 0\<rparr>"

lemma example_wallet_ok: "wallet_ok example_wallet"
  by (simp add: example_wallet_def wallet_ok_def keyed_ok_def wallet_sync_def in_sync_def)


text \<open>
  C2. The book of the wallet balances: the two rows of every posting cancel, and the two
  clearing subjects of the cash-outs hold exactly the money of the pending and of the confirmed
  cash-out logs.
\<close>

theorem cashout_clearing_reconciles:
  assumes "wallet_ok s" and "book_ok s" and "wallet_step\<^sup>*\<^sup>* s t"
  shows "book_ok t"
  using book_ok_run assms by blast

lemma example_chart_ok: "chart_ok example_wallet"
  by code_simp

lemma example_book_ok: "book_ok example_wallet"
  using example_chart_ok
  by (simp add: book_ok_def books_ok_def cashout_books_ok_def subject_balance_def example_wallet_def
        split: sum.split)

theorem cashout_clearing_reconciles_witness:
  "book_ok (snd (budget_log_create 1 BUDGET_OUT 500 BG_CASHOUT None '''' (Some BL_PENDING) None
     example_wallet))"
  by (rule cashout_clearing_reconciles [OF example_wallet_ok example_book_ok])
     (rule r_into_rtranclp, rule step_create)

text \<open>
  C3. Paying a trade from the wallet and then cancelling the payment gives the money back: the
  cancellation returns \<open>True\<close> and leaves every wallet exactly as it was before the payment.
\<close>

theorem charge_then_cancel_restores_wallet:
  assumes ok: "wallet_ok s" and w: "w \<in> set (w_budgets s)" "ub_user w = ub_user b"
    and none: "filter (is_consum_log (ub_user b) i) (w_logs s) = []"
    and charge: "charge_pending b i p s = (Inr r, s1)"
  shows "fst (charge_cancel b i s1) = Inr (Some True) \<and>
    w_budgets (snd (charge_cancel b i s1)) = w_budgets s"
  using charge_cancel_restores [OF assms] .

text \<open>The same customer with five yuan refunded into the wallet.\<close>

definition example_budget :: user_budget where
  "example_budget = \<lparr>ub_id = 1, ub_user = 1, ub_amount = 500, ub_total_income = 500, ub_total_expense = 0\<rparr>"

definition example_income :: budget_log where
  "example_income = \<lparr>bl_id = 1, bl_customer_id = 1, bl_flow_amount = 500, bl_balance = 500,
     bl_budget_type = BUDGET_IN, bl_log_type = BG_REFUND, bl_budget_date = 1, bl_referal_id = ''3'',
     bl_status = BL_CONFIRMED, bl_uni_key = Some ''refund-0-1-1|0001-01-01''\<rparr>"

definition example_funded :: wallet_db where
  "example_funded = example_wallet\<lparr>w_budgets := [example_budget], w_logs := [example_income]\<rparr>"

lemmas example_defs = example_funded_def example_budget_def example_income_def example_wallet_def

lemma example_funded_ok: "wallet_ok example_funded"
  by (simp add: example_defs wallet_ok_def keyed_ok_def wallet_sync_def in_sync_def effect_defs)

theorem charge_then_cancel_restores_wallet_witness:
  "w_budgets (snd (charge_cancel example_budget 7 (snd (charge_pending example_budget 7 300 example_funded))))
   = w_budgets example_funded"
proof -
  have run: "charge_pending example_budget 7 300 example_funded
      = (Inr True, snd (charge_pending example_budget 7 300 example_funded))"
    by (rule returned) code_simp
  have none: "filter (is_consum_log (ub_user example_budget) 7) (w_logs example_funded) = []"
    by (simp add: example_defs is_consum_log_def)
  show ?thesis
    using charge_then_cancel_restores_wallet
      [OF example_funded_ok _ refl none run, THEN conjunct2] by (simp add: example_defs)
qed

text \<open>
  \<open>charge_confirm\<close> on a cancelled wallet payment confirms the log and takes nothing from the
  wallet: the payment that \<open>charge_cancel\<close> gave back is not taken again, and the wallet no longer
  agrees with its log. Only the state of the trade keeps its payment from getting here
  (\<open>SaleTrade.charge_confirm\<close> does nothing for a closed trade).
\<close>

theorem charge_confirm_of_cancelled_is_free:
  assumes ok: "wallet_ok s" and w: "w \<in> set (w_budgets s)" "ub_user w = ub_user b"
    and first: "q_first (filter (is_consum_log (ub_user b) i) (w_logs s)) = Some l"
    and l: "bl_status l = BL_CANCELED" "bl_budget_type l = BUDGET_OUT" "bl_flow_amount l \<noteq> 0"
  shows "fst (charge_confirm b i s) = Inr True \<and>
    w_budgets (snd (charge_confirm b i s)) = w_budgets s \<and>
    \<not> wallet_ok (snd (charge_confirm b i s))"
proof -
  let ?l = "l\<lparr>bl_status := BL_PENDING\<rparr>"
  from first have mem: "l \<in> set (w_logs s)" and cust: "bl_customer_id l = ub_user b"
    by (auto dest: consum_log_first simp: is_consum_log_def)
  have w': "ub_user w = bl_customer_id ?l" using w cust by simp
  obtain l' t where run: "confirm_budget_log ?l s = (Inr (True, l'), t)"
    and settles: "settles (confirm_entries ?l) ?l (confirm_budget_change ?l) BL_CONFIRMED s t l'"
    using confirm_returns [OF ok w(1) w'] by auto
  have same: "w_budgets t = w_budgets s"
    using settle_budgets [OF ok w(1) w' settles] ok w(1) l
    by (simp add: change_defs save_same_row wallet_ok_def)
  obtain x where l': "l' = l\<lparr>bl_balance := x, bl_status := BL_CONFIRMED\<rparr>"
    and logs: "w_logs t = tbl_save bl_id l' (w_logs s)"
    using settle_log [OF settles] by auto
  have "\<not> amt.sync (w_budgets s) (tbl_save bl_id l' (w_logs s))"
    using ok mem l by (intro amt.sync_drift [where old = l])
      (auto simp: wallet_ok_def wallet_sync_def l' effect_defs)
  then have "\<not> wallet_ok t" by (simp add: wallet_ok_def wallet_sync_def same logs)
  with first run same l(1) show ?thesis
    by (simp add: charge_confirm_def prog_simps)
qed

definition example_cancelled :: wallet_db where
  "example_cancelled = example_funded\<lparr>w_logs := [example_income,
     example_income\<lparr>bl_id := 2, bl_flow_amount := 300, bl_budget_type := BUDGET_OUT,
       bl_log_type := BG_CONSUM, bl_referal_id := ''7'', bl_status := BL_CANCELED,
       bl_uni_key := Some ''st_7''\<rparr>]\<rparr>"

theorem charge_confirm_of_cancelled_is_free_witness:
  "w_budgets (snd (charge_confirm example_budget 7 example_cancelled)) = [example_budget]"
proof -
  have ok: "wallet_ok example_cancelled"
    by (simp add: example_cancelled_def example_defs wallet_ok_def keyed_ok_def wallet_sync_def
          in_sync_def effect_defs)
  have "q_first (filter (is_consum_log (ub_user example_budget) 7) (w_logs example_cancelled))
      = Some (w_logs example_cancelled ! 1)"
    by code_simp
  from charge_confirm_of_cancelled_is_free [OF ok _ refl this] show ?thesis
    by (simp add: example_cancelled_def example_defs)
qed

end
