(* ===== verification/Mama_Cash.thy ===== *)
theory Mama_Cash
  imports Ledger
begin

text \<open>
  The seller's (\<open>mama\<close>) account: \<open>MamaFortune\<close>
  (\<open>src/flashsale/xiaolumm/models/models_fortune.py\<close>) and the cash-outs \<open>CashOut\<close>
  (\<open>src/flashsale/xiaolumm/models/models.py\<close>) that spend it. A cash-out holds its value in
  \<open>carry_cashout\<close> from its creation until it is cancelled, rejected or fails.
\<close>

section \<open>Rows\<close>

record mama_fortune =
  mf_id :: pk_id
  mf_mama_id :: pk_id
  mf_mama_name :: string
  mf_mama_level :: int
  mf_fans_num :: int
  mf_invite_num :: int
  mf_invite_trial_num :: int
  mf_invite_all_num :: int
  mf_active_normal_num :: int
  mf_active_trial_num :: int
  mf_active_all_num :: int
  mf_hasale_normal_num :: int
  mf_hasale_trial_num :: int
  mf_hasale_all_num :: int
  mf_order_num :: int
  mf_carry_pending :: cents
  mf_carry_confirmed :: cents
  mf_carry_cashout :: cents
  mf_history_pending :: cents
  mf_history_confirmed :: cents
  mf_history_cashout :: cents
  mf_history_last_day :: day
  mf_active_value_num :: int
  mf_today_visitor_num :: int
  mf_extras :: string

datatype cashout_status = CO_PENDING | CO_APPROVED | CO_REJECTED | CO_CANCEL | CO_COMPLETED | CO_SENDFAIL

datatype cashout_type = MAMA_RENEW | USER_BUDGET | RED_PACKET | EXCHANGE_COUPON

fun cashout_type_code :: "cashout_type \<Rightarrow> string" where
  "cashout_type_code MAMA_RENEW = ''renew''"
| "cashout_type_code USER_BUDGET = ''budget''"
| "cashout_type_code RED_PACKET = ''red''"
| "cashout_type_code EXCHANGE_COUPON = ''coupon''"

record cash_out =
  co_id :: pk_id
  co_xlmm :: pk_id
  co_value :: cents
  co_status :: cashout_status
  co_approve_time :: "time option"
  co_cash_out_type :: cashout_type
  co_date_field :: day
  co_uni_key :: "string option"

record mama_db =
  m_fortunes :: "mama_fortune table"
  m_cashouts :: "cash_out table"
  m_now :: time

section \<open>The balance of a fortune\<close>

definition cash_total :: "mama_fortune \<Rightarrow> cents" where
  "cash_total f = mf_carry_pending f + mf_carry_confirmed f + mf_history_pending f
     + mf_history_confirmed f + mf_history_cashout f"

definition cash_total_display :: "mama_fortune \<Rightarrow> yuan" where
  "cash_total_display f = py_fmt2 (of_int (cash_total f) / 100)"

definition carry_num_display :: "mama_fortune \<Rightarrow> yuan" where
  "carry_num_display f = py_fmt2 (of_int (mf_carry_pending f + mf_carry_confirmed f
     + mf_history_pending f + mf_history_confirmed f) / 100)"

definition cash_num_cents :: "mama_fortune \<Rightarrow> cents" where
  "cash_num_cents f = mf_carry_confirmed f + mf_history_confirmed f - mf_carry_cashout f"

definition cash_num_display :: "mama_fortune \<Rightarrow> yuan" where
  "cash_num_display f = py_fmt2 (of_int (cash_num_cents f) / 100)"

section \<open>Cash-outs\<close>

definition co_gen_uni_key :: "pk_id \<Rightarrow> cashout_type \<Rightarrow> mama_db \<Rightarrow> string" where
  "co_gen_uni_key mama_id ty s =
     (let date_field = day_of (m_now s);
          count = q_count (\<lambda>c. co_xlmm c = mama_id \<and> co_cash_out_type c = ty
                    \<and> co_date_field c = date_field) (m_cashouts s)
      in join_with ''-'' [cashout_type_code ty, str_nat mama_id, str_nat (count + 1)]
         @ ''|'' @ str_day date_field)"

definition co_is_cashout_limited :: "nat \<Rightarrow> pk_id \<Rightarrow> mama_db \<Rightarrow> bool" where
  "co_is_cashout_limited tries mama_id s =
     (let cnt = q_count (\<lambda>c. co_xlmm c = mama_id \<and> co_cash_out_type c = RED_PACKET
                  \<and> co_date_field c = day_of (m_now s)
                  \<and> co_status c \<noteq> CO_CANCEL \<and> co_status c \<noteq> CO_REJECTED) (m_cashouts s)
      in \<not> (cnt < tries \<and> cnt \<ge> 0))"

definition insert_cashout :: "cash_out \<Rightarrow> (mama_db, cash_out) prog" where
  "insert_cashout c = (\<lambda>s.
     if co_uni_key c \<noteq> None \<and> q_exists (\<lambda>x. co_uni_key x = co_uni_key c) (m_cashouts s)
     then (Inl IntegrityError, s)
     else (Inr (c\<lparr>co_id := fresh_pk co_id (m_cashouts s)\<rparr>),
           s\<lparr>m_cashouts := tbl_insert co_id (\<lambda>i. co_id_update (\<lambda>_. i)) c (m_cashouts s)\<rparr>))"

definition save_cashout :: "cash_out \<Rightarrow> (mama_db, unit) prog" where
  "save_cashout c = (\<lambda>s. (Inr (), s\<lparr>m_cashouts := tbl_save co_id c (m_cashouts s)\<rparr>))"

text \<open>
  \<open>fortune = MamaFortune.objects.filter(mama_id=..).first()\<close>, then
  \<open>fortune.carry_cashout = F('carry_cashout') + value\<close> and \<open>save\<close>; a missing fortune is
  \<open>None\<close>, and assigning to its attribute raises.
\<close>

definition add_carry_cashout :: "pk_id \<Rightarrow> cents \<Rightarrow> (mama_db, unit) prog" where
  "add_carry_cashout mama_id value = (\<lambda>s.
     case q_first (filter (\<lambda>f. mf_mama_id f = mama_id) (m_fortunes s)) of
       None \<Rightarrow> (Inl AttributeError, s)
     | Some f \<Rightarrow> (Inr (), s\<lparr>m_fortunes :=
         tbl_save mf_id (f\<lparr>mf_carry_cashout := mf_carry_cashout f + value\<rparr>) (m_fortunes s)\<rparr>))"

definition cashout_create :: "pk_id \<Rightarrow> cents \<Rightarrow> cashout_type \<Rightarrow> string option \<Rightarrow> (mama_db, cash_out) prog" where
  "cashout_create mama_id value ty uni_key =
     bindE (asks (\<lambda>s. arg_or uni_key (co_gen_uni_key mama_id ty s))) (\<lambda>uni_key.
     bindE (asks m_now) (\<lambda>now.
     atomic
       (bindE (insert_cashout \<lparr>co_id = 0, co_xlmm = mama_id, co_value = value, co_status = CO_PENDING,
                co_approve_time = None, co_cash_out_type = ty, co_date_field = day_of now,
                co_uni_key = Some uni_key\<rparr>) (\<lambda>cashout.
        thenE (add_carry_cashout mama_id value) (ret cashout)))))"

text \<open>Giving the value back: the common body of cancelling, rejecting and failing.\<close>

definition cashout_release :: "cash_out \<Rightarrow> cashout_status \<Rightarrow> (mama_db, bool) prog" where
  "cashout_release self st =
     atomic (thenE (save_cashout (self\<lparr>co_status := st\<rparr>))
            (thenE (add_carry_cashout (co_xlmm self) (- co_value self)) (ret True)))"

definition cancel_cashout :: "cash_out \<Rightarrow> (mama_db, bool) prog" where
  "cancel_cashout self =
     (if co_status self \<noteq> CO_PENDING then ret False else cashout_release self CO_CANCEL)"

definition reject_cashout :: "cash_out \<Rightarrow> (mama_db, bool) prog" where
  "reject_cashout self =
     (if co_status self \<noteq> CO_PENDING then ret False else cashout_release self CO_REJECTED)"

definition approve_cashout :: "cash_out \<Rightarrow> (mama_db, bool) prog" where
  "approve_cashout self =
     (if co_status self \<noteq> CO_PENDING then ret False else
      bindE (asks m_now) (\<lambda>now.
      thenE (save_cashout (self\<lparr>co_status := CO_APPROVED, co_approve_time := Some now\<rparr>)) (ret True)))"

definition fail_and_return :: "cash_out \<Rightarrow> (mama_db, bool) prog" where
  "fail_and_return self =
     (if co_status self \<noteq> CO_APPROVED then ret False else cashout_release self CO_SENDFAIL)"

definition co_is_confirmed :: "cash_out \<Rightarrow> bool" where
  "co_is_confirmed self \<longleftrightarrow> co_status self = CO_APPROVED"

section \<open>What a cash-out holds\<close>

definition cashout_effect :: "cash_out \<Rightarrow> cents" where
  "cashout_effect c = (if co_status c \<in> {CO_CANCEL, CO_REJECTED, CO_SENDFAIL} then 0 else co_value c)"

interpretation cash: ledger mf_id "\<lambda>i. mf_id_update (\<lambda>_. i)" co_id "\<lambda>i. co_id_update (\<lambda>_. i)"
    mf_mama_id mf_carry_cashout co_xlmm cashout_effect
  by unfold_locales (simp_all add: cashout_effect_def)

definition mama_ok :: "mama_db \<Rightarrow> bool" where
  "mama_ok s \<longleftrightarrow> distinct (map mf_id (m_fortunes s)) \<and> distinct (map co_id (m_cashouts s)) \<and>
     in_sync mf_mama_id mf_carry_cashout co_xlmm cashout_effect (m_fortunes s) (m_cashouts s)"

lemma add_carry_cases:
  "(\<exists>f. f \<in> set (m_fortunes s) \<and> mf_mama_id f = i \<and>
      add_carry_cashout i v s = (Inr (), s\<lparr>m_fortunes :=
        tbl_save mf_id (f\<lparr>mf_carry_cashout := mf_carry_cashout f + v\<rparr>) (m_fortunes s)\<rparr>)) \<or>
   add_carry_cashout i v s = (Inl AttributeError, s)"
  by (auto simp: add_carry_cashout_def split: option.split dest: q_first_filter)

lemma mama_ok_release:
  assumes ok: "mama_ok s" and self: "self \<in> set (m_cashouts s)"
    and st: "st \<in> {CO_CANCEL, CO_REJECTED, CO_SENDFAIL}"
    and live: "co_status self \<notin> {CO_CANCEL, CO_REJECTED, CO_SENDFAIL}"
  shows "mama_ok (snd (cashout_release self st s))"
proof -
  let ?c = "self\<lparr>co_status := st\<rparr>" and ?v = "- co_value self"
  define u where "u = s\<lparr>m_cashouts := tbl_save co_id ?c (m_cashouts s)\<rparr>"
  from add_carry_cases [of u "co_xlmm self" ?v] show ?thesis
  proof (elim disjE exE conjE)
    fix f assume f: "f \<in> set (m_fortunes u)" "mf_mama_id f = co_xlmm self"
      and run: "add_carry_cashout (co_xlmm self) ?v u = (Inr (), u\<lparr>m_fortunes :=
        tbl_save mf_id (f\<lparr>mf_carry_cashout := mf_carry_cashout f + ?v\<rparr>) (m_fortunes u)\<rparr>)"
    have "cash.sync (tbl_save mf_id (f\<lparr>mf_carry_cashout := mf_carry_cashout f + ?v\<rparr>) (m_fortunes s))
        (tbl_save co_id ?c (m_cashouts s))"
      using ok self f st live
      by (intro cash.sync_repost [where a = f and old = self])
         (auto simp: mama_ok_def u_def cashout_effect_def)
    with ok show ?thesis
      by (simp add: cashout_release_def prog_simps save_cashout_def run [unfolded u_def]
            mama_ok_def cash.acct.distinct_save cash.logs.distinct_save)
  next
    assume "add_carry_cashout (co_xlmm self) ?v u = (Inl AttributeError, u)"
    with ok show ?thesis
      by (simp add: cashout_release_def prog_simps save_cashout_def u_def)
  qed
qed

lemma mama_ok_create: "keeps mama_ok (cashout_create i v ty k)"
proof (rule keepsI)
  fix s assume ok: "mama_ok s"
  define c where "c = \<lparr>co_id = 0, co_xlmm = i, co_value = v, co_status = CO_PENDING,
    co_approve_time = None, co_cash_out_type = ty, co_date_field = day_of (m_now s),
    co_uni_key = Some (arg_or k (co_gen_uni_key i ty s))\<rparr>"
  define u where "u = s\<lparr>m_cashouts := tbl_insert co_id (\<lambda>i. co_id_update (\<lambda>_. i)) c (m_cashouts s)\<rparr>"
  have run: "snd (cashout_create i v ty k s) = snd (atomic (bindE (insert_cashout c) (\<lambda>cashout.
        thenE (add_carry_cashout i v) (ret cashout))) s)"
    by (simp add: cashout_create_def bindE_run asks_run c_def)
  from add_carry_cases [of u i v] show "mama_ok (snd (cashout_create i v ty k s))"
  proof (elim disjE exE conjE)
    fix f assume f: "f \<in> set (m_fortunes u)" "mf_mama_id f = i"
      and add: "add_carry_cashout i v u = (Inr (), u\<lparr>m_fortunes :=
        tbl_save mf_id (f\<lparr>mf_carry_cashout := mf_carry_cashout f + v\<rparr>) (m_fortunes u)\<rparr>)"
    have "cash.sync (tbl_save mf_id (f\<lparr>mf_carry_cashout := mf_carry_cashout f + v\<rparr>) (m_fortunes s))
        (tbl_insert co_id (\<lambda>i. co_id_update (\<lambda>_. i)) c (m_cashouts s))"
      using ok f
      by (intro cash.sync_post [where a = f]) (auto simp: mama_ok_def u_def cashout_effect_def c_def)
    with ok show ?thesis
      by (auto simp: run prog_simps insert_cashout_def add [unfolded u_def]
            mama_ok_def cash.acct.distinct_save cash.logs.distinct_insert)
  next
    assume "add_carry_cashout i v u = (Inl AttributeError, u)"
    with ok show ?thesis
      by (auto simp: run prog_simps insert_cashout_def u_def)
  qed
qed

lemma mama_ok_approve:
  assumes ok: "mama_ok s" and self: "self \<in> set (m_cashouts s)"
  shows "mama_ok (snd (approve_cashout self s))"
proof (cases "co_status self = CO_PENDING")
  case True
  then have "cash.sync (m_fortunes s)
      (tbl_save co_id (self\<lparr>co_status := CO_APPROVED, co_approve_time := Some (m_now s)\<rparr>) (m_cashouts s))"
    using ok self by (intro cash.sync_repost_only [where old = self])
      (auto simp: mama_ok_def cashout_effect_def)
  with ok True show ?thesis
    by (simp add: approve_cashout_def prog_simps save_cashout_def mama_ok_def cash.logs.distinct_save)
next
  case False
  with ok show ?thesis by (simp add: approve_cashout_def prog_simps)
qed

lemma mama_ok_settle:
  assumes "mama_ok s" and "self \<in> set (m_cashouts s)"
  shows "mama_ok (snd (cancel_cashout self s))" "mama_ok (snd (reject_cashout self s))"
    "mama_ok (snd (fail_and_return self s))"
  using assms mama_ok_release [OF assms]
  by (auto simp: cancel_cashout_def reject_cashout_def fail_and_return_def prog_simps)

section \<open>Runs of the cash-outs\<close>

inductive mama_step :: "mama_db \<Rightarrow> mama_db \<Rightarrow> bool" where
  mama_create: "mama_step s (snd (cashout_create i v ty k s))"
| mama_cancel: "c \<in> set (m_cashouts s) \<Longrightarrow> mama_step s (snd (cancel_cashout c s))"
| mama_reject: "c \<in> set (m_cashouts s) \<Longrightarrow> mama_step s (snd (reject_cashout c s))"
| mama_approve: "c \<in> set (m_cashouts s) \<Longrightarrow> mama_step s (snd (approve_cashout c s))"
| mama_fail: "c \<in> set (m_cashouts s) \<Longrightarrow> mama_step s (snd (fail_and_return c s))"
| mama_clock: "m_now s \<le> now \<Longrightarrow> mama_step s (s\<lparr>m_now := now\<rparr>)"

lemma mama_ok_step:
  assumes "mama_step s t" and "mama_ok s"
  shows "mama_ok t"
  using assms(1)
proof cases
  case mama_create
  then show ?thesis using keepsD [OF mama_ok_create assms(2)] by simp
next
  case mama_clock
  then show ?thesis using assms(2) by (simp add: mama_ok_def)
qed (use assms(2) in \<open>simp_all add: mama_ok_settle mama_ok_approve\<close>)

lemma mama_ok_run: "mama_step\<^sup>*\<^sup>* s t \<Longrightarrow> mama_ok s \<Longrightarrow> mama_ok t"
  by (induction rule: rtranclp_induct) (auto intro: mama_ok_step)

text \<open>
  C23. On every run of the cash-out operations, \<open>carry_cashout\<close> of a fortune is the money of its
  cash-outs that are waiting, approved or completed: a cash-out is charged once, and given back once
  when it is cancelled, rejected or fails.
\<close>

theorem carry_cashout_is_live_cashouts:
  assumes "mama_ok s" and "mama_step\<^sup>*\<^sup>* s t"
  shows "mama_ok t"
  using mama_ok_run assms by blast

definition example_fortune :: mama_fortune where
  "example_fortune = \<lparr>mf_id = 1, mf_mama_id = 44, mf_mama_name = '''', mf_mama_level = 0,
     mf_fans_num = 0, mf_invite_num = 0, mf_invite_trial_num = 0, mf_invite_all_num = 0,
     mf_active_normal_num = 0, mf_active_trial_num = 0, mf_active_all_num = 0,
     mf_hasale_normal_num = 0, mf_hasale_trial_num = 0, mf_hasale_all_num = 0, mf_order_num = 0,
     mf_carry_pending = 0, mf_carry_confirmed = 9000, mf_carry_cashout = 0, mf_history_pending = 0,
     mf_history_confirmed = 0, mf_history_cashout = 0, mf_history_last_day = 736047,
     mf_active_value_num = 0, mf_today_visitor_num = 0,
     mf_extras = '''' \<rparr>"

definition example_mama :: mama_db where
  "example_mama = \<lparr>m_fortunes = [example_fortune], m_cashouts = [], m_now = midnight 1\<rparr>"

theorem carry_cashout_is_live_cashouts_witness:
  "mama_ok (snd (cashout_create 44 2000 RED_PACKET None example_mama)) \<and>
   map mf_carry_cashout (m_fortunes (snd (cashout_create 44 2000 RED_PACKET None example_mama))) = [2000]"
proof
  have "mama_ok example_mama"
    by (simp add: mama_ok_def example_mama_def example_fortune_def in_sync_def)
  then show "mama_ok (snd (cashout_create 44 2000 RED_PACKET None example_mama))"
    by (rule carry_cashout_is_live_cashouts) (rule r_into_rtranclp, rule mama_create)
  show "map mf_carry_cashout (m_fortunes (snd (cashout_create 44 2000 RED_PACKET None example_mama))) = [2000]"
    by code_simp
qed

end
