(* ===== verification/Envelope.thy ===== *)
theory Envelope
  imports Wallet Mama_Cash
begin

text \<open>
  Paying money out: \<open>Envelop\<close> (\<open>src/flashsale/pay/models/envelope.py\<close>), a WeChat red
  packet or transfer, and \<open>UserBudget.action_budget_cashout\<close>
  (\<open>src/flashsale/pay/models/user.py\<close>), which spends the wallet on one. An envelope refers to the
  wallet log or the mama's cash-out it pays, and settles it when the payment succeeds or fails.
  WeChat, the verification codes, the switches and the table of WeChat accounts are parameters.
\<close>

section \<open>Rows\<close>

datatype envelop_platform = WXPUB | WX_TRANSFER
datatype envelop_status = EV_WAIT_SEND | EV_CONFIRM_SEND | EV_CANCEL | EV_FAIL
datatype envelop_subject = EV_CASHOUT | EV_ORDER_RED_PAC | EV_XLAPP_CASHOUT | EV_LEVEL_1 | EV_LEVEL_2

record envelop =
  ev_id :: pk_id
  ev_envelop_id :: string
  ev_amount :: cents
  ev_platform :: envelop_platform
  ev_livemode :: bool
  ev_recipient :: string
  ev_receiver :: string
  ev_subject :: envelop_subject
  ev_body :: string
  ev_description :: string
  ev_status :: envelop_status
  ev_send_status :: string
  ev_referal_id :: string
  ev_send_time :: "time option"

text \<open>The states of a WeChat red packet, as WeChat reports them.\<close>

datatype red_status = RED_UNSEND | RED_SENDING | RED_SENT | RED_FAILED | RED_RECEIVED | RED_RFUND_ING | RED_REFUND

fun red_status_lower :: "red_status \<Rightarrow> string" where
  "red_status_lower RED_UNSEND = ''unsend''"
| "red_status_lower RED_SENDING = ''sending''"
| "red_status_lower RED_SENT = ''sent''"
| "red_status_lower RED_FAILED = ''failed''"
| "red_status_lower RED_RECEIVED = ''received''"
| "red_status_lower RED_RFUND_ING = ''rfund_ing''"
| "red_status_lower RED_REFUND = ''refund''"

record red_envelope =
  red_mch_billno :: string
  red_status :: red_status

text \<open>A notification of the older payment channel.\<close>

record pingpp_envelope =
  pp_id :: string
  pp_livemode :: bool
  pp_status :: string

text \<open>What lies outside: the WeChat calls, and the lookups of other applications.\<close>

record pay_world =
  world_validate_code :: "string \<Rightarrow> string option \<Rightarrow> bool"
  world_switch_open :: "nat \<Rightarrow> bool"
  world_wx_openid :: "string \<Rightarrow> string option"
  world_transfer :: "string \<Rightarrow> string \<Rightarrow> cents \<Rightarrow> string \<Rightarrow> py_error + bool"
  world_red_create :: "string \<Rightarrow> cents \<Rightarrow> string \<Rightarrow> string \<Rightarrow> string \<Rightarrow> py_error + red_envelope"

record cash_db =
  c_wallet :: wallet_db
  c_mama :: mama_db
  c_envelops :: "envelop table"

interpretation envelop_table: orm_table ev_id "\<lambda>i. ev_id_update (\<lambda>_. i)"
  by unfold_locales simp

definition in_wallet :: "(wallet_db, 'a) prog \<Rightarrow> (cash_db, 'a) prog" where
  "in_wallet = zoom c_wallet (\<lambda>w. c_wallet_update (\<lambda>_. w))"

definition in_mama :: "(mama_db, 'a) prog \<Rightarrow> (cash_db, 'a) prog" where
  "in_mama = zoom c_mama (\<lambda>m. c_mama_update (\<lambda>_. m))"

abbreviation c_now :: "cash_db \<Rightarrow> time" where
  "c_now s \<equiv> w_now (c_wallet s)"

definition save_envelop :: "envelop \<Rightarrow> (cash_db, unit) prog" where
  "save_envelop e = modify (c_envelops_update (tbl_save ev_id e))"

section \<open>Envelopes\<close>

definition amount_cash :: "envelop \<Rightarrow> yuan" where
  "amount_cash e = of_int (ev_amount e) / 100"

definition find_log :: "string \<Rightarrow> cash_db \<Rightarrow> budget_log option" where
  "find_log i s = q_first (filter (\<lambda>l. str_nat (bl_id l) = i) (w_logs (c_wallet s)))"

definition find_cashout :: "string \<Rightarrow> cash_db \<Rightarrow> cash_out option" where
  "find_cashout i s = q_first (filter (\<lambda>c. str_nat (co_id c) = i) (m_cashouts (c_mama s)))"

text \<open>\<open>bg.confirm_budget_log() if bg else None\<close>, and the same for a mama's cash-out.\<close>

definition confirm_referred_log :: "envelop \<Rightarrow> (cash_db, unit) prog" where
  "confirm_referred_log self =
     bindE (asks (find_log (ev_referal_id self))) (\<lambda>bg.
     case bg of None \<Rightarrow> ret ()
     | Some bg \<Rightarrow> bindE (in_wallet (confirm_budget_log bg)) (\<lambda>_. ret ()))"

definition approve_referred_cashout :: "envelop \<Rightarrow> (cash_db, unit) prog" where
  "approve_referred_cashout self =
     bindE (asks (find_cashout (ev_referal_id self))) (\<lambda>c.
     case c of None \<Rightarrow> ret ()
     | Some c \<Rightarrow> bindE (in_mama (approve_cashout c)) (\<lambda>_. ret ()))"

definition refund_envelop :: "envelop \<Rightarrow> (cash_db, unit) prog" where
  "refund_envelop self =
     thenE (whenE (ev_subject self = EV_XLAPP_CASHOUT)
       (bindE (asks (\<lambda>s. q_get (\<lambda>l. str_nat (bl_id l) = ev_referal_id self \<and> bl_log_type l = BG_CASHOUT)
                  (w_logs (c_wallet s)))) (\<lambda>found.
        case found of Inl e \<Rightarrow> raise e
        | Inr bg \<Rightarrow>
            thenE (in_wallet (confirm_budget_log bg))
            (bindE (in_wallet (budget_log_create (bl_customer_id bg) BUDGET_IN (bl_flow_amount bg)
                      BG_CASHOUT_FAIL None '''' None None)) (\<lambda>_. ret ())))))
     (whenE (ev_subject self = EV_CASHOUT)
       (bindE (asks (find_cashout (ev_referal_id self))) (\<lambda>c.
        case c of None \<Rightarrow> ret ()
        | Some c \<Rightarrow>
            bindE (in_mama (if co_status c = CO_PENDING then cancel_cashout c else fail_and_return c))
              (\<lambda>_. ret ()))))"

definition handle_envelop :: "envelop \<Rightarrow> red_envelope \<Rightarrow> (cash_db, unit) prog" where
  "handle_envelop self envelopd =
     bindE (asks c_now) (\<lambda>now.
     let status = red_status envelopd;
         self = self\<lparr>ev_envelop_id := red_mch_billno envelopd, ev_send_status := red_status_lower status\<rparr>
     in
     if status \<in> {RED_SENDING, RED_SENT, RED_RECEIVED} then
       (let self = self\<lparr>ev_send_time := Some (case ev_send_time self of None \<Rightarrow> now | Some t \<Rightarrow> t),
                        ev_status := EV_CONFIRM_SEND\<rparr> in
        thenE (whenE (ev_subject self = EV_XLAPP_CASHOUT) (confirm_referred_log self))
        (thenE (whenE (ev_subject self = EV_CASHOUT) (approve_referred_cashout self))
               (save_envelop self)))
     else if status \<in> {RED_FAILED, RED_REFUND} then
       (let self = self\<lparr>ev_status := EV_FAIL\<rparr> in
        thenE (refund_envelop self) (save_envelop self))
     else save_envelop self)"

text \<open>
  The handler of the older channel. In its \<open>XLAPP_CASHOUT\<close> branch \<open>blog\<close> is the queryset
  itself, which has no method \<open>confirm_budget_log\<close>.
\<close>

definition handle_envelop_by_pingpp :: "envelop \<Rightarrow> pingpp_envelope \<Rightarrow> (cash_db, unit) prog" where
  "handle_envelop_by_pingpp self envelopd =
     bindE (asks c_now) (\<lambda>now.
     let status = pp_status envelopd;
         self = self\<lparr>ev_envelop_id := pp_id envelopd, ev_livemode := pp_livemode envelopd,
                     ev_send_status := status\<rparr>;
         elapsed = (case ev_send_time self of None \<Rightarrow> 0 | Some t \<Rightarrow> now - t)
     in
     if status = ''sending'' \<and> elapsed > 72 * 3600 then
       (let self = self\<lparr>ev_status := EV_FAIL\<rparr> in
        thenE (refund_envelop self) (save_envelop self))
     else if status \<in> {''sending'', ''sent'', ''received''} then
       (let self = self\<lparr>ev_send_time := Some (case ev_send_time self of None \<Rightarrow> now | Some t \<Rightarrow> t),
                        ev_status := EV_CONFIRM_SEND\<rparr> in
        if ev_subject self = EV_XLAPP_CASHOUT then raise AttributeError
        else thenE (whenE (ev_subject self = EV_CASHOUT) (approve_referred_cashout self))
               (save_envelop self))
     else if status \<in> {''failed'', ''refund''} then
       (let self = self\<lparr>ev_status := EV_FAIL\<rparr> in
        thenE (refund_envelop self) (save_envelop self))
     else save_envelop self)"

definition send_envelop :: "pay_world \<Rightarrow> envelop \<Rightarrow> (cash_db, unit) prog" where
  "send_envelop world self =
     (if ev_envelop_id self \<noteq> '''' \<or> ev_status self \<noteq> EV_WAIT_SEND then raise (Exn ''sent twice'') else
      let envelope_unikey = ''xlmm'' @ str_nat (ev_id self) in
      bindE (asks c_now) (\<lambda>now.
      if ev_platform self = WX_TRANSFER then
        tryE
          (bindE (liftE (\<lambda>_. world_transfer world (ev_recipient self) (ev_body self) (ev_amount self)
                    envelope_unikey)) (\<lambda>success.
           if success then
             (let self = self\<lparr>ev_status := EV_CONFIRM_SEND, ev_send_status := ''received'',
                              ev_send_time := Some now, ev_envelop_id := envelope_unikey\<rparr> in
              thenE (save_envelop self) (confirm_referred_log self))
           else
             (let self = self\<lparr>ev_status := EV_FAIL, ev_send_status := ''failed'',
                              ev_send_time := Some now, ev_envelop_id := envelope_unikey\<rparr> in
              thenE (save_envelop self) (refund_envelop self))))
          (\<lambda>_. ret ())
      else
        (case world_red_create world envelope_unikey (ev_amount self) (ev_body self)
               (ev_recipient self) (ev_description self) of
           Inl exc \<Rightarrow>
             (let self = self\<lparr>ev_status := EV_FAIL\<rparr> in
              thenE (save_envelop self) (thenE (refund_envelop self) (raise exc)))
         | Inr redenvelope \<Rightarrow>
             (let self = self\<lparr>ev_status := EV_CONFIRM_SEND\<rparr> in
              thenE (save_envelop self) (handle_envelop self redenvelope)))))"

definition cancel_envelop :: "envelop \<Rightarrow> (cash_db, bool) prog" where
  "cancel_envelop self =
     (if ev_envelop_id self = '''' then
        (let self = self\<lparr>ev_status := EV_CANCEL\<rparr> in
         thenE (\<lambda>s. (Inr (), s\<lparr>c_envelops := map (\<lambda>e. if ev_id e = ev_id self
                  then e\<lparr>ev_status := EV_CANCEL\<rparr> else e) (c_envelops s)\<rparr>))
         (thenE (refund_envelop self) (ret True)))
      else ret False)"

section \<open>Cashing out the wallet\<close>

definition is_digit :: "char \<Rightarrow> bool" where
  "is_digit c \<longleftrightarrow> 48 \<le> (of_char c :: nat) \<and> of_char c \<le> (57 :: nat)"

definition create_envelop :: "envelop \<Rightarrow> (cash_db, envelop) prog" where
  "create_envelop e = (\<lambda>s.
     (Inr (e\<lparr>ev_id := fresh_pk ev_id (c_envelops s)\<rparr>),
      s\<lparr>c_envelops := tbl_insert ev_id (\<lambda>i. ev_id_update (\<lambda>_. i)) e (c_envelops s)\<rparr>))"

text \<open>
  The writes of \<open>action_budget_cashout\<close>: the wallet log, the envelope that refers to it, and the
  log again, now referring to the envelope. \<open>None\<close> stands for the early \<open>return 101\<close>.
\<close>

definition cashout_records ::
  "customer \<Rightarrow> cents \<Rightarrow> bool \<Rightarrow> string option \<Rightarrow> string \<Rightarrow> string \<Rightarrow> string \<Rightarrow> (cash_db, envelop option) prog" where
  "cashout_records user amount wx_transfer name recipient description uni_key =
     atomic
       (if wx_transfer \<and> (name = None \<or> name = Some '''') then ret None else
        bindE (in_wallet (budget_log_create (cu_id user) BUDGET_OUT amount BG_CASHOUT None ''''
                 (Some BL_PENDING) (Some uni_key))) (\<lambda>budget_log.
        bindE (create_envelop
          \<lparr>ev_id = 0, ev_envelop_id = '''', ev_amount = amount,
           ev_platform = (if wx_transfer then WX_TRANSFER else WXPUB), ev_livemode = True,
           ev_recipient = recipient, ev_receiver = cu_mobile user, ev_subject = EV_XLAPP_CASHOUT,
           ev_body = (if wx_transfer then the name else ''ENVELOP_BODY''),
           ev_description = description, ev_status = EV_WAIT_SEND, ev_send_status = ''unsend'',
           ev_referal_id = str_nat (bl_id budget_log), ev_send_time = None\<rparr>) (\<lambda>envelop.
        thenE (in_wallet (save_log (budget_log\<lparr>bl_referal_id := str_nat (ev_id envelop)\<rparr>)))
              (ret (Some envelop)))))"

text \<open>
  \<open>cash_out_amount\<close> is \<open>None\<close> for an argument that is not an \<open>int\<close>; the result is the
  code the method returns.
\<close>

definition action_budget_cashout ::
  "pay_world \<Rightarrow> customer \<Rightarrow> user_budget \<Rightarrow> int option \<Rightarrow> string option \<Rightarrow> bool \<Rightarrow> string option \<Rightarrow>
   (cash_db, nat) prog" where
  "action_budget_cashout world user self cash_out_amount verify_code wx_transfer name =
     (let mobile = cu_mobile user in
      if \<not> (mobile \<noteq> '''' \<and> list_all is_digit mobile \<and> length mobile = 11) then ret 8
      else if \<not> world_validate_code world mobile verify_code then ret 9
      else case cash_out_amount of None \<Rightarrow> ret 3
      | Some amount \<Rightarrow>
      if amount < CashOutPolicy_MIN then ret 1
      else if amount > CashOutPolicy_MAX \<and> \<not> wx_transfer then ret 5
      else if amount > ub_amount self then ret 2
      else if world_switch_open world 4 then ret 11
      else if cu_unionid user = '''' then ret 5
      else case world_wx_openid world (cu_unionid user) of None \<Rightarrow> ret 4
      | Some recipient \<Rightarrow>
      bindE (asks (\<lambda>s. is_cashout_limited (cu_id user) (c_wallet s))) (\<lambda>limited.
      if limited then ret 6 else
      bindE (asks (\<lambda>s. gen_uni_key (cu_id user) BUDGET_OUT BG_CASHOUT (c_wallet s))) (\<lambda>uni_key.
      bindE (asks (\<lambda>s. q_exists (\<lambda>l. bl_uni_key l = Some uni_key) (w_logs (c_wallet s)))) (\<lambda>taken.
      if taken then ret 7 else
      bindE (cashout_records user amount wx_transfer name recipient
               (str_nat (cu_id user) @ '','' @ str_int (ub_amount self)) uni_key) (\<lambda>created.
      case created of None \<Rightarrow> ret 101
      | Some envelop \<Rightarrow>
          thenE (whenE (amount \<le> CashOutPolicy_AUDIT \<and> amount \<ge> CashOutPolicy_MIN)
                   (send_envelop world envelop))
                (ret 0))))))"

section \<open>Both ledgers are kept\<close>

definition cash_ok :: "cash_db \<Rightarrow> bool" where
  "cash_ok s \<longleftrightarrow> wallet_ok (c_wallet s) \<and> mama_ok (c_mama s)"

lemma cash_ok_in_wallet:
  assumes "cash_ok s" and "wallet_ok (snd (m (c_wallet s)))"
  shows "cash_ok (snd (in_wallet m s))"
  using assms by (auto simp: in_wallet_def prog_simps cash_ok_def split: prod.splits)

lemma cash_ok_in_mama:
  assumes "cash_ok s" and "mama_ok (snd (m (c_mama s)))"
  shows "cash_ok (snd (in_mama m s))"
  using assms by (auto simp: in_mama_def prog_simps cash_ok_def split: prod.splits)

lemma keeps_in_wallet: "keeps wallet_ok m \<Longrightarrow> keeps cash_ok (in_wallet m)"
  by (rule keepsI) (rule cash_ok_in_wallet, simp_all add: keepsD cash_ok_def)

lemma keeps_envelops:
  "keeps cash_ok (\<lambda>s. (Inr (), s\<lparr>c_envelops := f s\<rparr>))" "keeps cash_ok (save_envelop e)"
  "keeps cash_ok (create_envelop e)"
  by (auto intro!: keepsI simp: save_envelop_def create_envelop_def prog_simps cash_ok_def)

lemma find_log_member: "find_log i s = Some l \<Longrightarrow> l \<in> set (w_logs (c_wallet s))"
  by (auto simp: find_log_def dest: q_first_filter)

lemma find_cashout_member: "find_cashout i s = Some c \<Longrightarrow> c \<in> set (m_cashouts (c_mama s))"
  by (auto simp: find_cashout_def dest: q_first_filter)

lemma keeps_confirm_referred: "keeps cash_ok (confirm_referred_log e)"
  unfolding confirm_referred_log_def
  by (rule keeps_asks_bind)
     (auto split: option.split simp: ret_run snd_bind_ret cash_ok_def
        intro!: cash_ok_in_wallet [unfolded cash_ok_def] wallet_ok_confirm find_log_member)

lemma keeps_approve_referred: "keeps cash_ok (approve_referred_cashout e)"
  unfolding approve_referred_cashout_def
  by (rule keeps_asks_bind)
     (auto split: option.split simp: ret_run snd_bind_ret cash_ok_def
        intro!: cash_ok_in_mama [unfolded cash_ok_def] mama_ok_approve find_cashout_member)

lemma snd_thenE: "snd (m s) = t \<Longrightarrow> snd (thenE m n s) = t \<or> snd (thenE m n s) = snd (n t)"
  by (auto simp: thenE_run split: prod.splits sum.splits)

lemma keeps_refund: "keeps cash_ok (refund_envelop e)"
  unfolding refund_envelop_def
proof (intro keeps_thenE keeps_whenE keeps_asks_bind, goal_cases)
  case (1 s)
  show ?case
  proof (cases "q_get (\<lambda>l. str_nat (bl_id l) = ev_referal_id e \<and> bl_log_type l = BG_CASHOUT) (w_logs (c_wallet s))")
    case (Inl e)
    with 1 show ?thesis by (simp add: raise_run)
  next
    case (Inr bg)
    define n :: "(cash_db, unit) prog" where "n = bindE (in_wallet (budget_log_create (bl_customer_id bg)
      BUDGET_IN (bl_flow_amount bg) BG_CASHOUT_FAIL None '''' None None)) (\<lambda>_. ret ())"
    have "keeps cash_ok n"
      unfolding n_def by (intro keeps_bindE keeps_in_wallet keeps_create keeps_ret)
    moreover have "cash_ok (snd (in_wallet (confirm_budget_log bg) s))"
      using 1 Inr by (intro cash_ok_in_wallet wallet_ok_confirm) (auto simp: cash_ok_def dest: q_get_Inr)
    ultimately show ?thesis
      using Inr snd_thenE [OF refl, of "in_wallet (confirm_budget_log bg)" n s]
      by (auto simp flip: n_def dest: keepsD)
  qed
next
  case (2 s)
  then show ?case
    by (auto split: option.split simp: ret_run snd_bind_ret cash_ok_def
          intro!: cash_ok_in_mama [unfolded cash_ok_def] mama_ok_settle find_cashout_member)
qed

lemmas keeps_cash = keeps_confirm_referred keeps_approve_referred keeps_refund keeps_envelops

lemma keeps_handle: "keeps cash_ok (handle_envelop e r)"
  unfolding handle_envelop_def Let_def
  by (intro keeps_bindE keeps_asks) (simp add: keeps_cash keeps_thenE keeps_whenE)

lemma keeps_handle_pingpp: "keeps cash_ok (handle_envelop_by_pingpp e r)"
  unfolding handle_envelop_by_pingpp_def Let_def
  by (intro keeps_bindE keeps_asks) (simp add: keeps_cash keeps_thenE keeps_whenE keeps_raise)

lemma keeps_send: "keeps cash_ok (send_envelop world e)"
proof -
  have create: "keeps cash_ok (case r of Inl exc \<Rightarrow> f exc | Inr x \<Rightarrow> g x)"
    if "\<And>exc. keeps cash_ok (f exc)" "\<And>x. keeps cash_ok (g x)"
    for r :: "py_error + red_envelope" and f g :: "_ \<Rightarrow> (cash_db, unit) prog"
    using that by (cases r) simp_all
  show ?thesis
    unfolding send_envelop_def Let_def
    by (auto intro!: keeps_bindE keeps_asks keeps_tryE keeps_thenE keeps_ret keeps_raise keeps_liftE
          keeps_cash keeps_handle create)
qed

lemma keeps_cancel_envelop: "keeps cash_ok (cancel_envelop e)"
  unfolding cancel_envelop_def Let_def
  by (simp add: keeps_cash keeps_thenE keeps_ret)

text \<open>Rewriting the reference of a log leaves both ledgers alone.\<close>

lemma wallet_ok_rerefer:
  assumes ok: "wallet_ok s" and l: "l \<in> set (w_logs s)"
  shows "wallet_ok (snd (save_log (l\<lparr>bl_referal_id := r\<rparr>) s))"
proof -
  let ?l = "l\<lparr>bl_referal_id := r\<rparr>"
  have "map bl_uni_key (tbl_save bl_id ?l (w_logs s)) = map bl_uni_key (w_logs s)"
    using ok l by (intro save_log_keys) (auto simp: wallet_ok_def)
  moreover have "wallet_sync (w_budgets s) (tbl_save bl_id ?l (w_logs s))"
    using ok l unfolding wallet_sync_def wallet_ok_def
    by (auto intro!: amt.sync_repost_only [where old = l] inc.sync_repost_only [where old = l]
          exp.sync_repost_only [where old = l] simp: effect_defs split: budget_type.split)
  ultimately show ?thesis
    using ok by (simp add: save_log_run wallet_ok_def keyed_ok_def amt.logs.distinct_save)
qed

lemma created_log_member:
  assumes "budget_log_create c bt flow lt d ref st uk s = (Inr l, t)"
  shows "l \<in> set (w_logs t)"
  using assms by (rule budget_log_create_run) (simp add: tbl_insert_def)

lemma keeps_cashout_records: "keeps cash_ok (cashout_records user a wx name r d k)"
proof (rule keepsI)
  fix s assume ok: "cash_ok s"
  show "cash_ok (snd (cashout_records user a wx name r d k s))"
  proof (cases "budget_log_create (cu_id user) BUDGET_OUT a BG_CASHOUT None '''' (Some BL_PENDING) (Some k) (c_wallet s)")
    case (Pair res w)
    show ?thesis
    proof (cases res)
      case (Inl e)
      with Pair ok show ?thesis
        by (auto simp: cashout_records_def prog_simps in_wallet_def)
    next
      case (Inr l)
      with Pair ok have "wallet_ok w" "l \<in> set (w_logs w)"
        by (auto simp: cash_ok_def intro: wallet_ok_create created_log_member)
      note this(1) and re = wallet_ok_rerefer [OF this]
      with Pair Inr ok show ?thesis
        by (auto simp: cashout_records_def atomic_run bindE_run thenE_run ret_run in_wallet_def zoom_run
              create_envelop_def cash_ok_def split: prod.splits sum.splits)
           (metis snd_conv)+
    qed
  qed
qed

lemma keeps_action_budget_cashout: "keeps cash_ok (action_budget_cashout world u b amount vc wx name)"
proof -
  have opt: "keeps cash_ok (case x of None \<Rightarrow> m | Some y \<Rightarrow> f y)"
    if "keeps cash_ok m" "\<And>y. keeps cash_ok (f y)" for x and m and f :: "_ \<Rightarrow> (cash_db, nat) prog"
    using that by (cases x) simp_all
  show ?thesis
    unfolding action_budget_cashout_def Let_def
    by (auto intro!: opt keeps_bindE keeps_asks keeps_thenE keeps_whenE keeps_ret keeps_cashout_records keeps_send)
qed

section \<open>What a refund pays\<close>

definition wallet_held :: "pk_id \<Rightarrow> cash_db \<Rightarrow> cents" where
  "wallet_held c s = q_sum ub_amount (\<lambda>b. ub_user b = c) (w_budgets (c_wallet s))"

lemma wallet_held_log:
  "wallet_ok (c_wallet s) \<Longrightarrow>
   wallet_held c s = q_sum amount_effect (\<lambda>l. bl_customer_id l = c) (w_logs (c_wallet s))"
  by (auto simp: wallet_held_def wallet_ok_def wallet_sync_def dest: in_syncD)

definition cashout_log_of :: "envelop \<Rightarrow> cash_db \<Rightarrow> py_error + budget_log" where
  "cashout_log_of e s = q_get (\<lambda>l. str_nat (bl_id l) = ev_referal_id e \<and> bl_log_type l = BG_CASHOUT)
     (w_logs (c_wallet s))"

lemma confirm_logs:
  assumes ok: "wallet_ok s" and l: "l \<in> set (w_logs s)" and run: "confirm_budget_log l s = (Inr r, t)"
  shows "\<exists>x. w_logs t = tbl_save bl_id (l\<lparr>bl_balance := x, bl_status := BL_CONFIRMED\<rparr>) (w_logs s)"
proof (cases "bl_status l = BL_CONFIRMED")
  case True
  with run have "t = s" by (auto simp: confirm_budget_log_def prog_simps)
  moreover have "tbl_save bl_id (l\<lparr>bl_balance := bl_balance l, bl_status := BL_CONFIRMED\<rparr>) (w_logs s) = w_logs s"
    using ok l True by (simp add: wallet_ok_def flip: True) (simp add: save_same_row)
  ultimately show ?thesis by metis
next
  case False
  from confirm_run [OF run False] obtain self' where
    "settles (confirm_entries l) l (confirm_budget_change l) BL_CONFIRMED s t self'" by auto
  from settle_log [OF this] show ?thesis by auto
qed

lemma create_logs:
  assumes "budget_log_create c bt flow lt d ref st uk s = (Inr l, t)"
  shows "w_logs t = w_logs s @ [l] \<and> bl_customer_id l = c \<and> bl_flow_amount l = flow \<and>
    bl_budget_type l = bt \<and> bl_log_type l = lt \<and> (st = None \<longrightarrow> bl_status l = BL_CONFIRMED)"
  using assms by (rule budget_log_create_run) (auto simp: tbl_insert_def)

text \<open>A refund runs the confirmation, then the income: the states in between.\<close>

lemma refund_run:
  assumes "ev_subject e = EV_XLAPP_CASHOUT" and "cashout_log_of e s = Inr bg"
    and "refund_envelop e s = (Inr (), t)"
  obtains r w1 l w2 where "confirm_budget_log bg (c_wallet s) = (Inr r, w1)"
    "budget_log_create (bl_customer_id bg) BUDGET_IN (bl_flow_amount bg) BG_CASHOUT_FAIL None ''''
       None None w1 = (Inr l, w2)"
    "t = s\<lparr>c_wallet := w2\<rparr>"
  using assms
  by (auto simp: refund_envelop_def prog_simps in_wallet_def cashout_log_of_def
        split: prod.splits sum.splits)

lemma refund_effect:
  assumes ok: "wallet_ok (c_wallet s)"
    and subject: "ev_subject e = EV_XLAPP_CASHOUT" and bg: "cashout_log_of e s = Inr bg"
    and out: "bl_budget_type bg = BUDGET_OUT" "bl_status bg \<noteq> BL_CANCELED"
    and run: "refund_envelop e s = (Inr (), t)"
  shows "wallet_ok (c_wallet t) \<and>
    wallet_held (bl_customer_id bg) t = wallet_held (bl_customer_id bg) s + bl_flow_amount bg \<and>
    (\<exists>x. cashout_log_of e t = Inr (bg\<lparr>bl_balance := x, bl_status := BL_CONFIRMED\<rparr>))"
proof -
  let ?L = "w_logs (c_wallet s)"
  from refund_run [OF subject bg run] obtain r w1 l w2 where
    confirm: "confirm_budget_log bg (c_wallet s) = (Inr r, w1)" and
    create: "budget_log_create (bl_customer_id bg) BUDGET_IN (bl_flow_amount bg) BG_CASHOUT_FAIL None ''''
       None None w1 = (Inr l, w2)" and t: "t = s\<lparr>c_wallet := w2\<rparr>" .
  have mem: "bg \<in> set ?L" using bg by (auto simp: cashout_log_of_def dest: q_get_Inr)
  obtain x where w1: "w_logs w1 = tbl_save bl_id (bg\<lparr>bl_balance := x, bl_status := BL_CONFIRMED\<rparr>) ?L"
    (is "_ = tbl_save bl_id ?bg ?L") using confirm_logs [OF ok mem confirm] by blast
  have ok1: "wallet_ok w1" using wallet_ok_confirm [OF ok mem] by (simp add: confirm)
  have ok2: "wallet_ok w2" by (rule wallet_ok_create [OF ok1 create])
  note l = create_logs [OF create]
  have ids: "distinct (map bl_id ?L)" using ok by (simp add: wallet_ok_def)
  have sum: "q_sum amount_effect (\<lambda>l. bl_customer_id l = c) (w_logs w1)
      = q_sum amount_effect (\<lambda>l. bl_customer_id l = c) ?L" for c
    using out amt.logs.sum_save [OF ids mem, of ?bg amount_effect "\<lambda>l. bl_customer_id l = c"]
    by (simp add: w1 effect_defs)
  have "wallet_held (bl_customer_id bg) t = wallet_held (bl_customer_id bg) s + bl_flow_amount bg"
    using ok ok2 l sum by (simp add: t wallet_held_log effect_defs)
  moreover have "cashout_log_of e t = Inr ?bg"
    using bg l unfolding cashout_log_of_def t
    by (auto simp: w1 q_get_append intro!: q_get_save [OF ids] dest: q_get_Inr)
  ultimately show ?thesis using ok2 by (auto simp: t)
qed

section \<open>Properties of the cash-outs\<close>

text \<open>
  C24. Every operation on envelopes and cash-outs keeps both ledgers, whatever WeChat answers and
  whether the operation returns or raises: the wallet agrees with its log, and
  \<open>carry_cashout\<close> with the live cash-outs.
\<close>

theorem envelope_operations_keep_ledgers:
  assumes "cash_ok s"
  shows "cash_ok (snd (action_budget_cashout world u b amount vc wx name s)) \<and>
    cash_ok (snd (send_envelop world e s)) \<and> cash_ok (snd (handle_envelop e r s)) \<and>
    cash_ok (snd (handle_envelop_by_pingpp e pr s)) \<and> cash_ok (snd (cancel_envelop e s))"
  using assms
  by (simp add: keepsD [OF keeps_action_budget_cashout] keepsD [OF keeps_send] keepsD [OF keeps_handle]
        keepsD [OF keeps_handle_pingpp] keepsD [OF keeps_cancel_envelop])

definition example_cash :: cash_db where
  "example_cash = \<lparr>c_wallet = example_funded\<lparr>w_subjects := []\<rparr>, c_mama = example_mama, c_envelops = []\<rparr>"

definition example_world :: pay_world where
  "example_world = \<lparr>world_validate_code = (\<lambda>_ _. True), world_switch_open = (\<lambda>_. False),
     world_wx_openid = (\<lambda>_. Some ''openid''), world_transfer = (\<lambda>_ _ _ _. Inr True),
     world_red_create = (\<lambda>_ _ _ _ _. Inr \<lparr>red_mch_billno = ''b1'', red_status = RED_SENT\<rparr>)\<rparr>"

text \<open>WeChat refuses to create the red packet.\<close>

definition example_world_down :: pay_world where
  "example_world_down = example_world\<lparr>world_red_create := (\<lambda>_ _ _ _ _. Inl (Exn ''NO_AUTH''))\<rparr>"

lemma example_cash_ok: "cash_ok example_cash"
  using example_funded_ok
  by (simp add: cash_ok_def example_cash_def wallet_ok_def mama_ok_def example_mama_def example_fortune_def in_sync_def)

theorem envelope_operations_keep_ledgers_witness:
  "cash_ok (snd (action_budget_cashout example_world example_customer example_budget (Some 300)
     (Some ''1'') False None example_cash))"
  using envelope_operations_keep_ledgers [OF example_cash_ok] by blast

text \<open>
  \<open>action_budget_cashout\<close> answers 0 only for an amount between the minimum and the balance
  (and the maximum, unless it is a transfer), for a customer with a verified mobile, a WeChat
  account and fewer than two cash-outs today that were not cancelled.
\<close>

theorem cashout_success_is_authorised:
  assumes "fst (action_budget_cashout world u b amount vc wx name s) = Inr 0"
  shows "\<exists>a. amount = Some a \<and> 200 \<le> a \<and> a \<le> ub_amount b \<and> (a \<le> 20000 \<or> wx) \<and>
    length (cu_mobile u) = 11 \<and> list_all is_digit (cu_mobile u) \<and>
    world_validate_code world (cu_mobile u) vc \<and> world_wx_openid world (cu_unionid u) \<noteq> None \<and>
    q_count (\<lambda>l. bl_customer_id l = cu_id u \<and> bl_budget_type l = BUDGET_OUT \<and> bl_log_type l = BG_CASHOUT
       \<and> bl_budget_date l = c_now s div 86400 \<and> bl_status l \<noteq> BL_CANCELED) (w_logs (c_wallet s)) < 2"
  using assms
  by (auto simp: action_budget_cashout_def Let_def ret_run asks_run bindE_run is_cashout_limited_def
        CashOutPolicy_MIN_def CashOutPolicy_MAX_def CashOutPolicy_DAILY_TRIES_def day_of_def
        split: if_splits option.splits)

theorem cashout_success_is_authorised_witness:
  "\<exists>a. Some (300::int) = Some a \<and> a \<le> ub_amount example_budget"
proof -
  have "fst (action_budget_cashout example_world example_customer example_budget (Some 300)
     (Some ''1'') False None example_cash) = Inr 0"
    by code_simp
  from cashout_success_is_authorised [OF this] show ?thesis by blast
qed

text \<open>
  A failed wallet cash-out is paid back once: refunding its envelope adds exactly the amount of
  the cash-out log to the wallet, and settles that log.
\<close>

theorem refund_pays_the_cashout_back:
  assumes "wallet_ok (c_wallet s)" and "ev_subject e = EV_XLAPP_CASHOUT"
    and "cashout_log_of e s = Inr bg" and "bl_budget_type bg = BUDGET_OUT"
    and "bl_status bg \<noteq> BL_CANCELED" and "refund_envelop e s = (Inr (), t)"
  shows "wallet_ok (c_wallet t) \<and>
    wallet_held (bl_customer_id bg) t = wallet_held (bl_customer_id bg) s + bl_flow_amount bg \<and>
    (\<exists>x. cashout_log_of e t = Inr (bg\<lparr>bl_balance := x, bl_status := BL_CONFIRMED\<rparr>))"
  using assms by (rule refund_effect)

text \<open>
  The example customer asks for three yuan, and WeChat refuses the red packet: the envelope is
  marked failed and the money is back in the wallet (\<open>example_refused\<close>), before the call raises.
\<close>

definition example_asked :: cash_db where
  "example_asked = snd (cashout_records example_customer 300 False None ''openid'' ''''
     ''cashout-1-1-1|0001-01-01'' example_cash)"

definition example_envelop :: envelop where
  "example_envelop = hd (c_envelops example_asked)"

definition example_refused :: cash_db where
  "example_refused = snd (send_envelop example_world_down example_envelop example_asked)"

definition example_cashout_log :: budget_log where
  "example_cashout_log = \<lparr>bl_id = 2, bl_customer_id = 1, bl_flow_amount = 300, bl_balance = 200,
     bl_budget_type = BUDGET_OUT, bl_log_type = BG_CASHOUT, bl_budget_date = 1,
     bl_referal_id = ''1'', bl_status = BL_PENDING, bl_uni_key = Some ''cashout-1-1-1|0001-01-01''\<rparr>"

lemma example_asked_ok: "cash_ok example_asked"
  unfolding example_asked_def by (rule keepsD [OF keeps_cashout_records example_cash_ok])

theorem refund_pays_the_cashout_back_witness:
  "wallet_held 1 (snd (refund_envelop example_envelop example_asked)) = wallet_held 1 example_asked + 300 \<and>
   wallet_held 1 example_asked = 200"
proof
  have bg: "cashout_log_of example_envelop example_asked = Inr example_cashout_log" by code_simp
  have run: "refund_envelop example_envelop example_asked
      = (Inr (), snd (refund_envelop example_envelop example_asked))"
    by (rule returned) code_simp
  have subject: "ev_subject example_envelop = EV_XLAPP_CASHOUT" by code_simp
  show "wallet_held 1 (snd (refund_envelop example_envelop example_asked)) = wallet_held 1 example_asked + 300"
    using refund_pays_the_cashout_back [OF _ subject bg _ _ run] example_asked_ok
    by (simp add: cash_ok_def example_cashout_log_def)
  show "wallet_held 1 example_asked = 200" by code_simp
qed

text \<open>
  C30. \<open>cancel_envelop\<close> guards by the WeChat number alone, which a refused red packet never got:
  cancelling an envelope that already failed, and whose cash-out was already paid back, pays it back
  again.
\<close>

theorem cancel_of_failed_envelope_pays_again:
  assumes "wallet_ok (c_wallet s)" and "ev_subject e = EV_XLAPP_CASHOUT"
    and "ev_status e = EV_FAIL" and "ev_envelop_id e = ''''"
    and "cashout_log_of e s = Inr bg" and "bl_budget_type bg = BUDGET_OUT"
    and "bl_status bg = BL_CONFIRMED" and "cancel_envelop e s = (Inr True, t)"
  shows "wallet_held (bl_customer_id bg) t = wallet_held (bl_customer_id bg) s + bl_flow_amount bg"
proof -
  define u where "u = s\<lparr>c_envelops := map (\<lambda>x. if ev_id x = ev_id e then x\<lparr>ev_status := EV_CANCEL\<rparr> else x) (c_envelops s)\<rparr>"
  let ?e = "e\<lparr>ev_status := EV_CANCEL\<rparr>"
  from assms(4,8) have run: "refund_envelop ?e u = (Inr (), t)"
    by (auto simp: cancel_envelop_def prog_simps Let_def u_def split: prod.splits sum.splits)
  have "cashout_log_of ?e u = Inr bg" using assms(5) by (simp add: cashout_log_of_def u_def)
  with refund_effect [OF _ _ _ _ _ run] assms show ?thesis
    by (simp add: u_def wallet_held_def)
qed

theorem cancel_of_failed_envelope_pays_again_witness:
  "wallet_held 1 example_cash = 500 \<and> wallet_held 1 example_refused = 500 \<and>
   wallet_held 1 (snd (cancel_envelop (hd (c_envelops example_refused)) example_refused)) = 800"
proof -
  let ?e = "hd (c_envelops example_refused)"
  let ?bg = "example_cashout_log\<lparr>bl_balance := 200, bl_status := BL_CONFIRMED\<rparr>"
  have ok: "wallet_ok (c_wallet example_refused)"
    using keepsD [OF keeps_send example_asked_ok] by (simp add: example_refused_def cash_ok_def)
  have e: "ev_subject ?e = EV_XLAPP_CASHOUT" "ev_status ?e = EV_FAIL" "ev_envelop_id ?e = ''''"
    by code_simp+
  have bg: "cashout_log_of ?e example_refused = Inr ?bg" by code_simp
  have run: "cancel_envelop ?e example_refused = (Inr True, snd (cancel_envelop ?e example_refused))"
    by (rule returned) code_simp
  have held: "wallet_held 1 example_cash = 500" "wallet_held 1 example_refused = 500"
    by code_simp+
  show ?thesis
    using cancel_of_failed_envelope_pays_again [OF ok e bg _ _ run] held
    by (simp add: example_cashout_log_def)
qed

end
