(* ===== verification/Coin.thy ===== *)
theory Coin
  imports Ledger
begin

text \<open>
  The seller's coins (\<open>src/flashsale/xiaolumm/models/xiaolucoin.py\<close>): \<open>XiaoluCoin\<close>
  keeps the balance, \<open>XiaoluCoinLog\<close> the movements with the balance after each. A movement and
  its log are written in one transaction, and the log's key admits one movement per seller, subject,
  reference and day.
\<close>

section \<open>Rows\<close>

datatype iro_type = COIN_IN | COIN_OUT

datatype coin_subject = COIN_RECHARGE | COIN_CONSUME | COIN_REFUND | COIN_GIFT

fun coin_subject_code :: "coin_subject \<Rightarrow> string" where
  "coin_subject_code COIN_RECHARGE = ''recharge''"
| "coin_subject_code COIN_CONSUME = ''consume''"
| "coin_subject_code COIN_REFUND = ''refund''"
| "coin_subject_code COIN_GIFT = ''gift''"

record xiaolu_coin =
  xc_id :: pk_id
  xc_mama_id :: pk_id
  xc_amount :: cents

record coin_log =
  xl_id :: pk_id
  xl_mama_id :: pk_id
  xl_iro_type :: iro_type
  xl_amount :: cents
  xl_balance :: cents
  xl_subject :: coin_subject
  xl_date_field :: day
  xl_referal_id :: string
  xl_uni_key :: "string option"

record coin_db =
  k_coins :: "xiaolu_coin table"
  k_logs :: "coin_log table"
  k_today :: day

section \<open>Operations\<close>

definition xiaolucoin_cash :: "xiaolu_coin \<Rightarrow> yuan" where
  "xiaolucoin_cash c = py_fmt2 (of_int (xc_amount c) / 100)"

definition coin_get_or_create :: "pk_id \<Rightarrow> (coin_db, xiaolu_coin) prog" where
  "coin_get_or_create mama_id = (\<lambda>s.
     case q_first (filter (\<lambda>c. xc_mama_id c = mama_id) (k_coins s)) of
       Some coin \<Rightarrow> (Inr coin, s)
     | None \<Rightarrow>
         (let coin = \<lparr>xc_id = fresh_pk xc_id (k_coins s), xc_mama_id = mama_id, xc_amount = 0\<rparr>
          in (Inr coin, s\<lparr>k_coins := k_coins s @ [coin]\<rparr>)))"

definition coin_gen_uni_key :: "pk_id \<Rightarrow> coin_subject \<Rightarrow> string \<Rightarrow> coin_db \<Rightarrow> string" where
  "coin_gen_uni_key mama_id subject referal_id s =
     join_with ''-'' [str_nat mama_id, coin_subject_code subject, referal_id] @ ''|'' @ str_day (k_today s)"

definition coin_log_create ::
  "pk_id \<Rightarrow> iro_type \<Rightarrow> cents \<Rightarrow> coin_subject \<Rightarrow> cents \<Rightarrow> string \<Rightarrow> string \<Rightarrow> (coin_db, unit) prog" where
  "coin_log_create mama_id iro amount subject balance referal_id uni_key = (\<lambda>s.
     let key = str_or uni_key (coin_gen_uni_key mama_id subject referal_id s) in
     if q_exists (\<lambda>l. xl_uni_key l = Some key) (k_logs s) then (Inl IntegrityError, s)
     else (Inr (), s\<lparr>k_logs := tbl_insert xl_id (\<lambda>i. xl_id_update (\<lambda>_. i))
       \<lparr>xl_id = 0, xl_mama_id = mama_id, xl_iro_type = iro, xl_amount = amount, xl_balance = balance,
        xl_subject = subject, xl_date_field = k_today s, xl_referal_id = referal_id,
        xl_uni_key = Some key\<rparr> (k_logs s)\<rparr>))"

text \<open>
  \<open>self.amount = F('amount') + amount; self.save()\<close>: the row with the key of \<open>self\<close> is
  updated from its stored amount, and re-read by \<open>mama_id\<close>.
\<close>

definition coin_add :: "xiaolu_coin \<Rightarrow> cents \<Rightarrow> (coin_db, unit) prog" where
  "coin_add self amount = (\<lambda>s. (Inr (), s\<lparr>k_coins :=
     map (\<lambda>c. if xc_id c = xc_id self
              then c\<lparr>xc_mama_id := xc_mama_id self, xc_amount := xc_amount c + amount\<rparr> else c) (k_coins s)\<rparr>))"

definition coin_move :: "xiaolu_coin \<Rightarrow> cents \<Rightarrow> iro_type \<Rightarrow> cents \<Rightarrow> coin_subject \<Rightarrow> string \<Rightarrow> (coin_db, unit) prog" where
  "coin_move self delta iro amount subject referal_id =
     atomic
       (thenE (coin_add self delta)
       (bindE (liftE (\<lambda>s. q_get (\<lambda>c. xc_mama_id c = xc_mama_id self) (k_coins s))) (\<lambda>coin.
        coin_log_create (xc_mama_id self) iro amount subject (xc_amount coin) referal_id '''')))"

definition coin_recharge :: "xiaolu_coin \<Rightarrow> cents \<Rightarrow> string \<Rightarrow> (coin_db, unit) prog" where
  "coin_recharge self amount referal_id = coin_move self amount COIN_IN amount COIN_RECHARGE referal_id"

definition coin_consume :: "xiaolu_coin \<Rightarrow> cents \<Rightarrow> string \<Rightarrow> (coin_db, unit) prog" where
  "coin_consume self amount referal_id = coin_move self (- amount) COIN_OUT amount COIN_CONSUME referal_id"

definition coin_refund :: "xiaolu_coin \<Rightarrow> cents \<Rightarrow> string \<Rightarrow> (coin_db, unit) prog" where
  "coin_refund self amount referal_id = coin_move self amount COIN_IN amount COIN_REFUND referal_id"

definition coin_change :: "xiaolu_coin \<Rightarrow> cents \<Rightarrow> coin_subject \<Rightarrow> string \<Rightarrow> (coin_db, unit) prog" where
  "coin_change self amount subject referal_id =
     coin_move self amount (if amount > 0 then COIN_IN else COIN_OUT) \<bar>amount\<bar> subject referal_id"

section \<open>The balance and its log\<close>

definition coin_effect :: "coin_log \<Rightarrow> cents" where
  "coin_effect l = (if xl_iro_type l = COIN_IN then xl_amount l else - xl_amount l)"

interpretation coin: ledger xc_id "\<lambda>i. xc_id_update (\<lambda>_. i)" xl_id "\<lambda>i. xl_id_update (\<lambda>_. i)"
    xc_mama_id xc_amount xl_mama_id coin_effect
  by unfold_locales (simp_all add: coin_effect_def)

text \<open>\<open>mama_id\<close> is a unique column.\<close>

interpretation coin_owner: orm_table xc_mama_id "\<lambda>i. xc_mama_id_update (\<lambda>_. i)"
  by unfold_locales simp

definition coin_ok :: "coin_db \<Rightarrow> bool" where
  "coin_ok s \<longleftrightarrow> distinct (map xc_id (k_coins s)) \<and> distinct (map xl_id (k_logs s)) \<and>
     in_sync xc_mama_id xc_amount xl_mama_id coin_effect (k_coins s) (k_logs s)"

lemma coin_add_save:
  assumes "distinct (map xc_id (k_coins s))" and "self \<in> set (k_coins s)"
  shows "coin_add self a s = (Inr (), s\<lparr>k_coins :=
    tbl_save xc_id (self\<lparr>xc_amount := xc_amount self + a\<rparr>) (k_coins s)\<rparr>)"
proof -
  have "(if xc_id x = xc_id self then x\<lparr>xc_mama_id := xc_mama_id self, xc_amount := xc_amount x + a\<rparr> else x)
      = (if xc_id x = xc_id self then self\<lparr>xc_amount := xc_amount self + a\<rparr> else x)"
    if "x \<in> set (k_coins s)" for x
  proof (cases "xc_id x = xc_id self")
    case True
    then have "x = self" using assms that by (auto simp: distinct_map inj_on_def)
    then show ?thesis by simp
  qed simp
  then have "map (\<lambda>c. if xc_id c = xc_id self
              then c\<lparr>xc_mama_id := xc_mama_id self, xc_amount := xc_amount c + a\<rparr> else c) (k_coins s)
    = map (\<lambda>x. if xc_id x = xc_id self then self\<lparr>xc_amount := xc_amount self + a\<rparr> else x) (k_coins s)"
    by (intro map_cong) simp_all
  with assms(2) show ?thesis by (simp add: coin_add_def tbl_save_def)
qed

lemma coin_move_keeps:
  assumes ok: "coin_ok s" and self: "self \<in> set (k_coins s)"
    and delta: "delta = (if iro = COIN_IN then amount else - amount)"
  shows "coin_ok (snd (coin_move self delta iro amount subject ref s))"
proof -
  define C where "C = tbl_save xc_id (self\<lparr>xc_amount := xc_amount self + delta\<rparr>) (k_coins s)"
  have add: "coin_add self delta s = (Inr (), s\<lparr>k_coins := C\<rparr>)"
    using ok self by (simp add: coin_add_save coin_ok_def C_def)
  have sync: "coin.sync C (tbl_insert xl_id (\<lambda>i. xl_id_update (\<lambda>_. i)) l (k_logs s))"
    if "xl_mama_id l = xc_mama_id self" "xl_iro_type l = iro" "xl_amount l = amount" for l
    using ok self delta that unfolding C_def
    by (intro coin.sync_post [where a = self]) (auto simp: coin_ok_def coin_effect_def)
  show ?thesis
  proof (cases "snd (coin_move self delta iro amount subject ref s) = s")
    case True
    with ok show ?thesis by simp
  next
    case False
    then obtain l where "snd (coin_move self delta iro amount subject ref s) =
        s\<lparr>k_coins := C, k_logs := tbl_insert xl_id (\<lambda>i. xl_id_update (\<lambda>_. i)) l (k_logs s)\<rparr>"
      and "xl_mama_id l = xc_mama_id self" "xl_iro_type l = iro" "xl_amount l = amount"
      by (auto simp: coin_move_def prog_simps add coin_log_create_def Let_def split: sum.splits if_splits)
    with ok sync show ?thesis
      by (simp add: coin_ok_def C_def coin.acct.distinct_save coin.logs.distinct_insert)
  qed
qed

lemma coin_open_keeps: "keeps coin_ok (coin_get_or_create i)"
proof (rule keepsI)
  fix s assume ok: "coin_ok s"
  then show "coin_ok (snd (coin_get_or_create i s))"
    using fresh_pk_notin [of xc_id "k_coins s"]
    by (auto simp: coin_get_or_create_def Let_def coin_ok_def coin.sync_open_at split: option.split)
qed

lemma coin_move_again:
  assumes "xl_uni_key l = Some (coin_gen_uni_key (xc_mama_id self) subject ref s)" and "l \<in> set (k_logs s)"
    and "q_get (\<lambda>c. xc_mama_id c = xc_mama_id self) (k_coins (snd (coin_add self delta s))) = Inr coin"
  shows "coin_move self delta iro amount subject ref s = (Inl IntegrityError, s)"
  using assms
  by (auto simp: coin_move_def prog_simps coin_add_def coin_log_create_def Let_def str_or_def q_exists_def
        coin_gen_uni_key_def filter_empty_conv)

text \<open>
  C33. The four coin operations on a coin account read from its table keep its balance equal to the
  sum of its log, income positive and expense negative, also when they raise.
\<close>

theorem coin_balance_is_log:
  assumes "coin_ok s" and "self \<in> set (k_coins s)"
  shows "coin_ok (snd (coin_recharge self a ref s)) \<and> coin_ok (snd (coin_consume self a ref s)) \<and>
    coin_ok (snd (coin_refund self a ref s)) \<and> coin_ok (snd (coin_change self a sub ref s))"
  using assms
  by (auto simp: coin_recharge_def coin_consume_def coin_refund_def coin_change_def intro!: coin_move_keeps)

text \<open>
  A movement happens once: when a seller's log has the key of today's movement with this subject
  and reference, trying it again raises and changes nothing, whichever operation tries it.
\<close>

theorem coin_movement_once:
  assumes "coin_ok s" and "self \<in> set (k_coins s)" and "distinct (map xc_mama_id (k_coins s))"
    and "l \<in> set (k_logs s)" and "xl_uni_key l = Some (coin_gen_uni_key (xc_mama_id self) sub ref s)"
  shows "coin_change self a sub ref s = (Inl IntegrityError, s) \<and>
    (sub = COIN_CONSUME \<longrightarrow> coin_consume self a ref s = (Inl IntegrityError, s)) \<and>
    (sub = COIN_RECHARGE \<longrightarrow> coin_recharge self a ref s = (Inl IntegrityError, s)) \<and>
    (sub = COIN_REFUND \<longrightarrow> coin_refund self a ref s = (Inl IntegrityError, s))"
proof -
  have "\<exists>coin. q_get (\<lambda>c. xc_mama_id c = xc_mama_id self) (k_coins (snd (coin_add self d s))) = Inr coin" for d
  proof -
    have "q_get (\<lambda>c. xc_mama_id c = xc_mama_id self) (k_coins s) = Inr self"
      using coin_owner.get_member [OF assms(3,2)] .
    then have "q_get (\<lambda>c. xc_mama_id c = xc_mama_id self)
        (tbl_save xc_id (self\<lparr>xc_amount := xc_amount self + d\<rparr>) (k_coins s))
      = Inr (self\<lparr>xc_amount := xc_amount self + d\<rparr>)"
      using assms(1) by (intro q_get_save) (auto simp: coin_ok_def)
    with assms show ?thesis by (simp add: coin_add_save coin_ok_def)
  qed
  then have "coin_move self d iro x sub ref s = (Inl IntegrityError, s)" for d iro x
    using coin_move_again [OF assms(5,4)] by blast
  then show ?thesis
    by (auto simp: coin_change_def coin_consume_def coin_recharge_def coin_refund_def)
qed

definition example_coin :: xiaolu_coin where
  "example_coin = \<lparr>xc_id = 1, xc_mama_id = 44, xc_amount = 700\<rparr>"

definition example_coin_log :: coin_log where
  "example_coin_log = \<lparr>xl_id = 1, xl_mama_id = 44, xl_iro_type = COIN_IN, xl_amount = 700,
     xl_balance = 700, xl_subject = COIN_RECHARGE, xl_date_field = 1, xl_referal_id = ''9'',
     xl_uni_key = Some ''44-recharge-9|0001-01-01''\<rparr>"

definition example_coins :: coin_db where
  "example_coins = \<lparr>k_coins = [example_coin], k_logs = [example_coin_log], k_today = 1\<rparr>"

lemma example_coins_ok: "coin_ok example_coins"
  by (simp add: coin_ok_def in_sync_def example_coins_def example_coin_def example_coin_log_def coin_effect_def)

theorem coin_balance_is_log_witness:
  "coin_ok (snd (coin_consume example_coin 200 ''12'' example_coins))"
  using coin_balance_is_log [OF example_coins_ok, of example_coin] by (simp add: example_coins_def)

theorem coin_movement_once_witness:
  "coin_recharge example_coin 100 ''9'' example_coins = (Inl IntegrityError, example_coins)"
proof -
  have "xl_uni_key example_coin_log = Some (coin_gen_uni_key (xc_mama_id example_coin) COIN_RECHARGE ''9'' example_coins)"
    by code_simp
  with coin_movement_once [OF example_coins_ok, of example_coin example_coin_log COIN_RECHARGE "''9''" 100]
  show ?thesis by (simp add: example_coins_def)
qed

end
