(* ===== verification/Shop_Rows.thy ===== *)
theory Shop_Rows
  imports Ledger
begin

text \<open>
  The rows the order, packing, purchase and refund components share: trades and their orders
  (\<open>src/flashsale/pay/models/trade.py\<close>), packed items and packages
  (\<open>src/shopback/trades/models/packet.py\<close>), stock (\<open>src/shopback/items/models/stats.py\<close>),
  purchases (\<open>src/shopback/dinghuo/models_purchase.py\<close>) and refunds
  (\<open>src/flashsale/pay/models/refund.py\<close>), with the constants of
  \<open>src/shopback/trades/constants.py\<close>. Of the tables these components only read (products,
  suppliers, inbound details, carts) a record has the columns that are read.
\<close>

section \<open>Trades\<close>

datatype trade_status =
    TRADE_NO_CREATE_PAY | WAIT_BUYER_PAY | WAIT_SELLER_SEND_GOODS | WAIT_BUYER_CONFIRM_GOODS
  | TRADE_BUYER_SIGNED | TRADE_FINISHED | TRADE_CLOSED | TRADE_CLOSED_BY_SYS

fun trade_status_code :: "trade_status \<Rightarrow> nat" where
  "trade_status_code TRADE_NO_CREATE_PAY = 0"
| "trade_status_code WAIT_BUYER_PAY = 1"
| "trade_status_code WAIT_SELLER_SEND_GOODS = 2"
| "trade_status_code WAIT_BUYER_CONFIRM_GOODS = 3"
| "trade_status_code TRADE_BUYER_SIGNED = 4"
| "trade_status_code TRADE_FINISHED = 5"
| "trade_status_code TRADE_CLOSED = 6"
| "trade_status_code TRADE_CLOSED_BY_SYS = 7"

lemma trade_status_code_inj: "trade_status_code x = trade_status_code y \<Longrightarrow> x = y"
  by (cases x; cases y) simp_all

text \<open>The code orders the states of a trade by their codes.\<close>

instantiation trade_status :: linorder
begin

definition less_eq_trade_status :: "trade_status \<Rightarrow> trade_status \<Rightarrow> bool" where
  "x \<le> y \<longleftrightarrow> trade_status_code x \<le> trade_status_code y"

definition less_trade_status :: "trade_status \<Rightarrow> trade_status \<Rightarrow> bool" where
  "x < y \<longleftrightarrow> trade_status_code x < trade_status_code y"

instance
  by intro_classes
     (auto simp: less_eq_trade_status_def less_trade_status_def intro: trade_status_code_inj)

end

datatype refund_status =
    NO_REFUND | REFUND_CLOSED | REFUND_REFUSE_BUYER | REFUND_WAIT_SELLER_AGREE
  | REFUND_WAIT_RETURN_GOODS | REFUND_CONFIRM_GOODS | REFUND_APPROVE | REFUND_SUCCESS

fun refund_status_code :: "refund_status \<Rightarrow> nat" where
  "refund_status_code NO_REFUND = 0"
| "refund_status_code REFUND_CLOSED = 1"
| "refund_status_code REFUND_REFUSE_BUYER = 2"
| "refund_status_code REFUND_WAIT_SELLER_AGREE = 3"
| "refund_status_code REFUND_WAIT_RETURN_GOODS = 4"
| "refund_status_code REFUND_CONFIRM_GOODS = 5"
| "refund_status_code REFUND_APPROVE = 6"
| "refund_status_code REFUND_SUCCESS = 7"

lemma refund_status_code_inj: "refund_status_code x = refund_status_code y \<Longrightarrow> x = y"
  by (cases x; cases y) simp_all

instantiation refund_status :: linorder
begin

definition less_eq_refund_status :: "refund_status \<Rightarrow> refund_status \<Rightarrow> bool" where
  "x \<le> y \<longleftrightarrow> refund_status_code x \<le> refund_status_code y"

definition less_refund_status :: "refund_status \<Rightarrow> refund_status \<Rightarrow> bool" where
  "x < y \<longleftrightarrow> refund_status_code x < refund_status_code y"

instance
  by intro_classes
     (auto simp: less_eq_refund_status_def less_refund_status_def intro: refund_status_code_inj)

end

datatype channel = CH_WX | CH_WEAPP | CH_ALIPAY | CH_WX_PUB | CH_ALIPAY_WAP | CH_UPMP_WAP
  | CH_WALLET | CH_BUDGET | CH_APPLE | CH_NONE

datatype trade_type = PREPAY | POSTPAY

datatype order_type = SALE_ORDER | RESERVE_ORDER | DEPOSITE_ORDER | TEAMBUY_ORDER | ELECTRONIC_GOODS_ORDER

datatype pay_status = SALE_TRADE_NOPAY | SALE_TRADE_PAYING | SALE_TRADE_PAY_FINISHED

text \<open>\<open>extras_info\<close> is a JSON object; the code reads its list of coupons, the text of the payment
  extras, the team of a team buy and the seller whose link was used.\<close>

record sale_trade =
  st_id :: pk_id
  st_tid :: string
  st_buyer_id :: pk_id
  st_buyer_nick :: string
  st_channel :: channel
  st_total_fee :: yuan
  st_payment :: yuan
  st_pay_cash :: yuan
  st_post_fee :: yuan
  st_discount_fee :: yuan
  st_budget_paid :: yuan
  st_coin_paid :: yuan
  st_has_budget_paid :: bool
  st_has_coin_paid :: bool
  st_is_boutique :: bool
  st_buyer_message :: string
  st_seller_memo :: string
  st_created :: time
  st_pay_time :: "time option"
  st_consign_time :: "time option"
  st_trade_type :: trade_type
  st_order_type :: order_type
  st_out_sid :: string
  st_logistics_company :: "int option"
  st_receiver_name :: string
  st_receiver_state :: string
  st_receiver_city :: string
  st_receiver_district :: string
  st_receiver_address :: string
  st_receiver_zip :: string
  st_receiver_mobile :: string
  st_receiver_phone :: string
  st_user_address_id :: "pk_id option"
  st_openid :: string
  st_charge :: string
  st_coupon_ids :: "pk_id list"
  st_pay_extras :: string
  st_teambuy_id :: "pk_id option"
  st_mm_linkid :: "pk_id option"
  st_status :: trade_status
  st_pay_status :: pay_status

text \<open>Of the JSON column \<open>extras\<close> of an order the keys \<open>exchange\<close> and \<open>can_return_num\<close>.\<close>

record sale_order =
  so_id :: pk_id
  so_oid :: string
  so_sale_trade :: pk_id
  so_buyer_id :: pk_id
  so_item_id :: pk_id
  so_title :: string
  so_price :: yuan
  so_sku_id :: pk_id
  so_num :: int
  so_outer_id :: string
  so_outer_sku_id :: string
  so_total_fee :: yuan
  so_payment :: yuan
  so_discount_fee :: yuan
  so_sku_name :: string
  so_pic_path :: string
  so_created :: time
  so_pay_time :: "time option"
  so_consign_time :: "time option"
  so_sign_time :: "time option"
  so_refund_id :: "pk_id option"
  so_refund_fee :: yuan
  so_refund_status :: refund_status
  so_status :: trade_status
  so_exchange :: bool
  so_can_return_num :: "int option"

section \<open>Packed items\<close>

text \<open>\<open>PSI_TRADE_STATUS\<close> stands for the code of a trade's state, which the column also takes:
  \<open>task_saleorder_update_package_sku_item\<close> writes it there.\<close>

datatype psi_status = PSI_PAID | PSI_PREPARE_BOOK | PSI_BOOKED | PSI_READY | PSI_THIRD_SEND
  | PSI_ASSIGNED | PSI_MERGED | PSI_WAITSCAN | PSI_WAITPOST | PSI_SENT | PSI_FINISH | PSI_CANCEL
  | PSI_HOLDING | PSI_TRADE_STATUS trade_status

datatype psi_type = PSI_NORMAL | PSI_BYHAND | PSI_RETURN_GOODS | PSI_RETURN_OUT_ORDER
  | PSI_RETURN_INFERIOR | PSI_TIANMAO

datatype assign_status = NOT_ASSIGNED | ASSIGNED | FINISHED | CANCELED | VIRTUAL_ASSIGNED

datatype ware = WARE_NONE | WARE_SH | WARE_GZ | WARE_COMPANY | WARE_FCSZ | WARE_FCGZ | WARE_THIRD
  | WARE_FCSLYC

fun ware_code :: "ware \<Rightarrow> nat" where
  "ware_code WARE_NONE = 0"
| "ware_code WARE_SH = 1"
| "ware_code WARE_GZ = 2"
| "ware_code WARE_COMPANY = 3"
| "ware_code WARE_FCSZ = 4"
| "ware_code WARE_FCGZ = 5"
| "ware_code WARE_THIRD = 9"
| "ware_code WARE_FCSLYC = 10"

definition CAN_MERGE_ORDER_WHS_IDS :: "ware list" where
  "CAN_MERGE_ORDER_WHS_IDS = [WARE_SH, WARE_GZ, WARE_COMPANY, WARE_FCSZ, WARE_FCGZ, WARE_FCSLYC]"

record psi =
  psi_id :: pk_id
  psi_sale_order_id :: "pk_id option"
  psi_oid :: "string option"
  psi_sale_trade_id :: "string option"
  psi_sku_id :: pk_id
  psi_outer_id :: string
  psi_outer_sku_id :: string
  psi_num :: int
  psi_status :: psi_status
  psi_assign_status :: assign_status
  psi_type :: psi_type
  psi_package_order_id :: "string option"
  psi_package_order_pid :: "pk_id option"
  psi_ware_by :: ware
  psi_refund_status :: refund_status
  psi_cid :: "int option"
  psi_title :: string
  psi_sku_properties_name :: string
  psi_pic_path :: string
  psi_init_assigned :: bool
  psi_is_boutique :: bool
  psi_pay_time :: time
  psi_book_time :: "time option"
  psi_booked_time :: "time option"
  psi_ready_time :: "time option"
  psi_assign_time :: "time option"
  psi_merge_time :: "time option"
  psi_scan_time :: "time option"
  psi_weight_time :: "time option"
  psi_finish_time :: "time option"
  psi_cancel_time :: "time option"
  psi_receiver_mobile :: string
  psi_out_sid :: string
  psi_logistics_company_name :: string
  psi_logistics_company_code :: string
  psi_failed_retrieve_time :: "time option"
  psi_purchase_order_unikey :: string
  psi_sys_note :: string
  psi_price :: yuan
  psi_total_fee :: yuan
  psi_payment :: yuan
  psi_discount_fee :: yuan
  psi_adjust_fee :: yuan
  psi_note_recorder :: "pk_id option"
  psi_gift_type :: nat

text \<open>\<open>PackageSkuItem()\<close>: the columns' defaults.\<close>

definition new_psi :: psi where
  "new_psi = \<lparr>psi_id = 0, psi_sale_order_id = None, psi_oid = None, psi_sale_trade_id = None,
     psi_sku_id = 0, psi_outer_id = '''', psi_outer_sku_id = '''', psi_num = 0,
     psi_status = PSI_PAID, psi_assign_status = NOT_ASSIGNED, psi_type = PSI_NORMAL,
     psi_package_order_id = None, psi_package_order_pid = None, psi_ware_by = WARE_SH,
     psi_refund_status = NO_REFUND, psi_cid = None, psi_title = '''',
     psi_sku_properties_name = '''', psi_pic_path = '''', psi_init_assigned = False,
     psi_is_boutique = False, psi_pay_time = 0, psi_book_time = None, psi_booked_time = None,
     psi_ready_time = None, psi_assign_time = None, psi_merge_time = None, psi_scan_time = None,
     psi_weight_time = None, psi_finish_time = None, psi_cancel_time = None,
     psi_receiver_mobile = '''', psi_out_sid = '''', psi_logistics_company_name = '''',
     psi_logistics_company_code = '''', psi_failed_retrieve_time = None,
     psi_purchase_order_unikey = '''', psi_sys_note = '''', psi_price = 0, psi_total_fee = 0,
     psi_payment = 0, psi_discount_fee = 0, psi_adjust_fee = 0, psi_note_recorder = None,
     psi_gift_type = 0\<rparr>"

section \<open>Packages\<close>

datatype po_status = PKG_NEW_CREATED | WAIT_PREPARE_SEND_STATUS | WAIT_CHECK_BARCODE_STATUS
  | WAIT_SCAN_WEIGHT_STATUS | WAIT_OUTWARE_SEND_CALLBACK | WAIT_CUSTOMER_RECEIVE
  | FINISHED_STATUS | PO_DELETE

text \<open>The columns \<open>status\<close>, \<open>type\<close>, \<open>seller_flag\<close> and \<open>priority\<close>, marked as
  void in the source, are left out.\<close>

record package_order =
  po_pid :: pk_id
  po_id :: string
  po_tid :: string
  po_action_type :: nat
  po_ware_by :: ware
  po_sys_status :: po_status
  po_sku_num :: int
  po_order_sku_num :: int
  po_ready_completion :: bool
  po_seller_id :: pk_id
  po_receiver_name :: string
  po_receiver_state :: string
  po_receiver_city :: string
  po_receiver_district :: string
  po_receiver_address :: string
  po_receiver_zip :: string
  po_receiver_mobile :: string
  po_receiver_phone :: string
  po_user_address_id :: string
  po_buyer_id :: "pk_id option"
  po_buyer_nick :: string
  po_buyer_message :: string
  po_seller_memo :: string
  po_sys_memo :: string
  po_post_cost :: yuan
  po_is_lgtype :: bool
  po_lg_aging :: "time option"
  po_lg_aging_type :: string
  po_out_sid :: string
  po_logistics_company :: "int option"
  po_weight :: string
  po_is_qrcode :: bool
  po_qrcode_msg :: string
  po_can_review :: bool
  po_purchaser :: "string option"
  po_supplier_id :: "string option"
  po_operator :: string
  po_scanner :: string
  po_weighter :: string
  po_is_locked :: bool
  po_is_charged :: bool
  po_is_picking_print :: bool
  po_is_express_print :: bool
  po_is_send_sms :: bool
  po_has_refund :: bool
  po_can_send_time :: "time option"
  po_send_time :: "time option"
  po_weight_time :: "time option"
  po_charge_time :: "time option"
  po_remind_time :: "time option"
  po_consign_time :: "time option"
  po_reason_code :: string
  po_redo_sign :: bool
  po_merge_trade_id :: "pk_id option"

definition new_package :: package_order where
  "new_package = \<lparr>po_pid = 0, po_id = '''', po_tid = '''', po_action_type = 0, po_ware_by = WARE_SH,
     po_sys_status = PKG_NEW_CREATED, po_sku_num = 0, po_order_sku_num = 0,
     po_ready_completion = False, po_seller_id = 0, po_receiver_name = '''',
     po_receiver_state = '''', po_receiver_city = '''', po_receiver_district = '''',
     po_receiver_address = '''', po_receiver_zip = '''', po_receiver_mobile = '''',
     po_receiver_phone = '''', po_user_address_id = '''', po_buyer_id = None, po_buyer_nick = '''',
     po_buyer_message = '''', po_seller_memo = '''', po_sys_memo = '''', po_post_cost = 0,
     po_is_lgtype = False, po_lg_aging = None, po_lg_aging_type = '''', po_out_sid = '''',
     po_logistics_company = None, po_weight = '''', po_is_qrcode = False, po_qrcode_msg = '''',
     po_can_review = False, po_purchaser = None, po_supplier_id = None, po_operator = '''',
     po_scanner = '''', po_weighter = '''', po_is_locked = False, po_is_charged = False,
     po_is_picking_print = False, po_is_express_print = False, po_is_send_sms = False,
     po_has_refund = False, po_can_send_time = None, po_send_time = None, po_weight_time = None,
     po_charge_time = None, po_remind_time = None, po_consign_time = None, po_reason_code = '''',
     po_redo_sign = False, po_merge_trade_id = None\<rparr>"

section \<open>Stock\<close>

text \<open>
  The integer columns of \<open>SkuStock\<close>, by name: the code reads and writes them with
  \<open>getattr\<close> and \<open>setattr\<close>, and builds \<open>psi_<status>_num\<close> from the status of a packed
  item.
\<close>

datatype stock_attr =
    Psi_num psi_status
  | Adjust_quantity | History_quantity | Inbound_quantity | Return_quantity | Rg_quantity
  | Assign_num | Post_num
  | Shoppingcart_num | Waitingpay_num | Sold_num | Paid_num | Inferior_num

record sku_stock =
  ss_id :: pk_id
  ss_sku_id :: pk_id
  ss_product_id :: pk_id
  ss_attr :: "stock_attr \<Rightarrow> int"
  ss_status :: nat

record product_sku =
  ps_id :: pk_id
  ps_product_id :: pk_id
  ps_outer_id :: string
  ps_ware_by :: ware
  ps_cost :: yuan
  ps_properties_alias :: string
  ps_quantity :: int
  ps_wait_post_num :: int
  ps_properties_name :: string
  ps_normal :: bool
  ps_agent_price :: yuan
  ps_std_sale_price :: yuan
  ps_remain_num :: int
  ps_lock_num :: int
  ps_salestat :: "int option"

text \<open>\<open>prod_supplier\<close> is \<open>get_supplier()\<close>, the supplier of the product's sale product, if
  any, and \<open>prod_model\<close> is \<open>ModelProduct.objects.filter(id=model_id).first()\<close>. Of the JSON columns
  of a model the keys that are read are columns: \<open>mp_buy_limit\<close> is the limit per buyer where there is
  one, \<open>mp_coupon_only\<close> and \<open>mp_coupon_templates\<close> say which coupons alone buy it.
  \<open>prod_mama_discount\<close> is the number in \<open>details.mama_discount\<close>, if it is one, \<open>prod_category\<close> the
  text of \<open>category_id\<close>, and \<open>ps_salestat\<close> what the open row of \<open>ProductSkuSaleStats\<close> has sold,
  with what waited before.\<close>

record model_product =
  mp_source_type :: nat
  mp_is_virtual :: bool
  mp_teambuy_person_num :: int
  mp_teambuy_price :: yuan
  mp_product_type :: nat
  mp_is_boutique :: bool
  mp_buy_limit :: "int option"
  mp_coupon_only :: bool
  mp_coupon_templates :: "pk_id list"
  mp_coupon_deny :: bool
  mp_rebeta_scheme_id :: pk_id

record product =
  prod_id :: pk_id
  prod_outer_id :: string
  prod_name :: string
  prod_pic_path :: string
  prod_type :: nat
  prod_ware_by :: ware
  prod_model_id :: nat
  prod_model :: "model_product option"
  prod_supplier :: "pk_id option"
  prod_normal :: bool
  prod_on_shelf :: bool
  prod_agent_price :: yuan
  prod_elite_score :: int
  prod_mama_discount :: "int option"
  prod_is_seckill :: bool
  prod_category :: string

record supplier =
  sup_id :: pk_id
  sup_name :: string
  sup_vendor_code :: string
  sup_is_vendor_to_customer :: bool
  sup_ware_by :: ware

record stock_adjust =
  sa_id :: pk_id
  sa_sku_id :: pk_id
  sa_num :: int
  sa_status :: nat

record rg_detail =
  rg_id :: pk_id
  rg_skuid :: pk_id
  rg_num :: int
  rg_created :: time
  rg_is_refund_type :: bool
  rg_return_delivered :: bool
  rg_return_goods :: pk_id

record refund_product =
  rp_id :: pk_id
  rp_trade_id :: string
  rp_sku_id :: pk_id
  rp_num :: int
  rp_created :: time
  rp_can_reuse :: bool

datatype cart_type = FLASHSALE | TEAMBUY | SECONDBUY | BOUTIQUEBUY | VIRTUALBUY

record shopping_cart =
  sc_id :: pk_id
  sc_buyer_id :: pk_id
  sc_buyer_nick :: string
  sc_item_id :: pk_id
  sc_title :: string
  sc_price :: yuan
  sc_std_sale_price :: yuan
  sc_sku_id :: pk_id
  sc_num :: int
  sc_total_fee :: yuan
  sc_sku_name :: string
  sc_pic_path :: string
  sc_remain_time :: "time option"
  sc_normal :: bool
  sc_type :: cart_type

section \<open>Purchases\<close>

datatype purchase_status = PO_OPEN | PO_BOOKED | PO_FINISHED | PO_CANCELED

datatype arrangement_status = PA_EFFECT | PA_CANCEL

record purchase_order =
  pu_id :: pk_id
  pu_uni_key :: string
  pu_supplier_id :: pk_id
  pu_supplier_name :: string
  pu_book_num :: int
  pu_need_num :: int
  pu_arrival_num :: int
  pu_total_price :: cents
  pu_status :: purchase_status

record purchase_detail =
  pd_id :: pk_id
  pd_uni_key :: string
  pd_purchase_order_unikey :: string
  pd_outer_id :: string
  pd_outer_sku_id :: string
  pd_sku_id :: pk_id
  pd_title :: string
  pd_sku_properties_name :: string
  pd_book_num :: int
  pd_need_num :: int
  pd_arrival_num :: int
  pd_status :: purchase_status
  pd_unit_price :: cents
  pd_total_price :: cents

record arrangement =
  pa_id :: pk_id
  pa_package_sku_item_id :: pk_id
  pa_oid :: string
  pa_uni_key :: string
  pa_purchase_order_unikey :: string
  pa_purchase_record_unikey :: string
  pa_outer_id :: string
  pa_outer_sku_id :: string
  pa_sku_id :: pk_id
  pa_title :: string
  pa_sku_properties_name :: string
  pa_num :: int
  pa_status :: arrangement_status
  pa_purchase_order_status :: purchase_status
  pa_initial_book :: bool
  pa_gen_order :: bool
  pa_inbound_in :: bool

record order_list =
  ol_id :: pk_id
  ol_purchase_order_unikey :: string
  ol_order_amount :: yuan
  ol_supplier_id :: pk_id
  ol_stage :: nat
  ol_purchase_total_num :: int

record order_detail =
  od_id :: pk_id
  od_product_id :: pk_id
  od_outer_id :: string
  od_product_name :: string
  od_chichu_id :: pk_id
  od_product_chicun :: string
  od_buy_quantity :: int
  od_arrival_quantity :: int
  od_arrival_time :: "time option"
  od_buy_unitprice :: yuan
  od_total_price :: yuan
  od_purchase_detail_unikey :: string
  od_purchase_order_unikey :: string
  od_orderlist_id :: "pk_id option"

section \<open>Refunds\<close>

datatype good_status = BUYER_NOT_RECEIVED | BUYER_RECEIVED | BUYER_RETURNED_GOODS | SELLER_OUT_STOCK

record sale_refund =
  rf_id :: pk_id
  rf_refund_no :: string
  rf_trade_id :: pk_id
  rf_order_id :: pk_id
  rf_buyer_id :: pk_id
  rf_buyer_nick :: string
  rf_creator_id :: "pk_id option"
  rf_mobile :: string
  rf_phone :: string
  rf_refund_id :: string
  rf_charge :: string
  rf_channel :: channel
  rf_refund_channel :: channel
  rf_item_id :: pk_id
  rf_title :: string
  rf_sku_id :: pk_id
  rf_sku_name :: string
  rf_ware_by :: ware
  rf_refund_num :: int
  rf_total_fee :: yuan
  rf_payment :: yuan
  rf_refund_fee :: yuan
  rf_amount_flow :: string
  rf_success_time :: "time option"
  rf_company_name :: string
  rf_sid :: string
  rf_reason :: string
  rf_proof_pic :: "string list"
  rf_desc :: string
  rf_feedback :: string
  rf_has_good_return :: bool
  rf_has_good_change :: bool
  rf_is_lackrefund :: bool
  rf_lackorder_id :: "pk_id option"
  rf_good_status :: good_status
  rf_status :: refund_status
  rf_postage_num :: cents
  rf_coupon_num :: cents

section \<open>Tables read when items are packed\<close>

text \<open>A parcel address: the columns that are copied between trades, addresses and packages.\<close>

record receiver =
  rc_name :: string
  rc_state :: string
  rc_city :: string
  rc_district :: string
  rc_address :: string
  rc_zip :: string
  rc_mobile :: string
  rc_phone :: string

record user_address =
  ua_id :: pk_id
  ua_cus_uid :: pk_id
  ua_supplier_id :: "pk_id option"
  ua_idcard_no :: string
  ua_idcard_photos :: bool
  ua_idcard_valid :: bool
  ua_idcard_errors :: int
  ua_receiver :: receiver

record return_goods =
  rgs_id :: pk_id
  rgs_supplier :: "pk_id option"

text \<open>The orders of the Tmall shop (\<open>src/shopback/orders/models.py\<close>).\<close>

record tm_trade =
  tmt_id :: pk_id
  tmt_user_unikey :: string
  tmt_user_address_unikey :: string
  tmt_buyer_nick :: string
  tmt_buyer_message :: string
  tmt_seller_memo :: string
  tmt_receiver :: receiver
  tmt_wait_seller_send :: bool

record tm_order =
  tmo_oid :: pk_id
  tmo_trade :: pk_id
  tmo_wait_buyer_confirm :: bool
  tmo_consign_time :: "time option"

record logistics_company =
  lc_id :: int
  lc_code :: string
  lc_name :: string

record shop_user =
  su_id :: pk_id
  su_uid :: string
  su_nick :: string

section \<open>The shop's tables\<close>

record shop_db =
  d_trades :: "sale_trade table"
  d_orders :: "sale_order table"
  d_psis :: "psi table"
  d_packages :: "package_order table"
  d_stocks :: "sku_stock table"
  d_skus :: "product_sku table"
  d_products :: "product table"
  d_suppliers :: "supplier table"
  d_adjusts :: "stock_adjust table"
  d_rg_details :: "rg_detail table"
  d_refund_products :: "refund_product table"
  d_carts :: "shopping_cart table"
  d_purchases :: "purchase_order table"
  d_purchase_details :: "purchase_detail table"
  d_arrangements :: "arrangement table"
  d_order_lists :: "order_list table"
  d_order_details :: "order_detail table"
  d_refunds :: "sale_refund table"
  d_tm_orders :: "tm_order table"
  d_tm_trades :: "tm_trade table"
  d_return_goods :: "return_goods table"
  d_addresses :: "user_address table"
  d_companies :: "logistics_company table"
  d_users :: "shop_user table"
  d_now :: time

interpretation trade_table: orm_table st_id "\<lambda>i. st_id_update (\<lambda>_. i)" by unfold_locales simp
interpretation order_table: orm_table so_id "\<lambda>i. so_id_update (\<lambda>_. i)" by unfold_locales simp
interpretation psi_table: orm_table psi_id "\<lambda>i. psi_id_update (\<lambda>_. i)" by unfold_locales simp
interpretation package_table: orm_table po_pid "\<lambda>i. po_pid_update (\<lambda>_. i)" by unfold_locales simp
interpretation stock_table: orm_table ss_id "\<lambda>i. ss_id_update (\<lambda>_. i)" by unfold_locales simp
interpretation arrangement_table: orm_table pa_id "\<lambda>i. pa_id_update (\<lambda>_. i)" by unfold_locales simp
interpretation detail_table: orm_table pd_id "\<lambda>i. pd_id_update (\<lambda>_. i)" by unfold_locales simp
interpretation purchase_table: orm_table pu_id "\<lambda>i. pu_id_update (\<lambda>_. i)" by unfold_locales simp
interpretation cart_table: orm_table sc_id "\<lambda>i. sc_id_update (\<lambda>_. i)" by unfold_locales simp
interpretation refund_table: orm_table rf_id "\<lambda>i. rf_id_update (\<lambda>_. i)" by unfold_locales simp

text \<open>The columns \<open>getattr\<close> finds on a stock row.\<close>

fun has_attr :: "stock_attr \<Rightarrow> bool" where
  "has_attr (Psi_num st) = (case st of PSI_TRADE_STATUS _ \<Rightarrow> False | _ \<Rightarrow> st \<notin> {PSI_CANCEL, PSI_HOLDING})"
| "has_attr _ = True"

definition attr_update :: "stock_attr \<Rightarrow> int \<Rightarrow> sku_stock \<Rightarrow> sku_stock" where
  "attr_update a v s = s\<lparr>ss_attr := (ss_attr s)(a := v)\<rparr>"

end
