(* ===== verification/Stock.thy ===== *)
theory Stock
  imports Shop_Rows
begin

text \<open>
  The stock counters of a SKU (\<open>SkuStock\<close>, \<open>src/shopback/items/models/stats.py\<close>). Each
  counter has a definition by statistics (\<open>restat\<close>), an aggregate over the rows it counts, and is
  moved by the operations that change those rows (\<open>set_psi_...\<close>, \<open>add_...\<close>).
  \<open>stat_save\<close> either recomputes the changed counters or stores them as moved; the flag
  \<open>STAT_SIGN\<close> makes recomputing the default.
\<close>

section \<open>Reading a stock row\<close>

definition STAT_SIGN :: bool where "STAT_SIGN = True"

definition COMMIT_TIME :: time where
  "COMMIT_TIME = midnight 736074 + 3600"

definition get_stock :: "pk_id \<Rightarrow> shop_db \<Rightarrow> py_error + sku_stock" where
  "get_stock sku_id s = q_get (\<lambda>x. ss_sku_id x = sku_id) (d_stocks s)"

definition stock_product :: "sku_stock \<Rightarrow> shop_db \<Rightarrow> product option" where
  "stock_product st s = q_first (filter (\<lambda>p. prod_id p = ss_product_id st) (d_products s))"

definition new_stock :: "pk_id \<Rightarrow> pk_id \<Rightarrow> sku_stock" where
  "new_stock sku_id product_id = \<lparr>ss_id = 0, ss_sku_id = sku_id, ss_product_id = product_id,
     ss_attr = (\<lambda>_. 0), ss_status = 0\<rparr>"

definition get_by_sku :: "pk_id \<Rightarrow> (shop_db, sku_stock) prog" where
  "get_by_sku sku_id = (\<lambda>s.
     case q_first (filter (\<lambda>x. ss_sku_id x = sku_id) (d_stocks s)) of
       Some stat \<Rightarrow> (Inr stat, s)
     | None \<Rightarrow> (case q_get (\<lambda>k. ps_id k = sku_id) (d_skus s) of
           Inl e \<Rightarrow> (Inl e, s)
         | Inr sku \<Rightarrow>
             (let st = (new_stock (ps_id sku) (ps_product_id sku))\<lparr>ss_id := fresh_pk ss_id (d_stocks s)\<rparr>
              in (Inr st, s\<lparr>d_stocks := d_stocks s @ [st]\<rparr>))))"

abbreviation attr :: "sku_stock \<Rightarrow> stock_attr \<Rightarrow> int" where
  "attr st a \<equiv> ss_attr st a"

definition realtime_quantity :: "sku_stock \<Rightarrow> int" where
  "realtime_quantity st = attr st History_quantity + attr st Inbound_quantity + attr st Adjust_quantity
     + attr st Return_quantity - attr st Post_num - attr st Rg_quantity"

definition aggregate_quantity :: "sku_stock \<Rightarrow> int" where
  "aggregate_quantity st = attr st History_quantity + attr st Inbound_quantity + attr st Adjust_quantity"

text \<open>The following take the type of the stock's product (0 is a physical product).\<close>

definition wait_post_num :: "nat \<Rightarrow> sku_stock \<Rightarrow> int" where
  "wait_post_num ptype st = (if ptype = 0 then attr st Sold_num - attr st Post_num else 0)"

definition wait_assign_num :: "nat \<Rightarrow> sku_stock \<Rightarrow> int" where
  "wait_assign_num ptype st =
     (if ptype = 0 then attr st Sold_num - attr st Assign_num - attr st Post_num else 0)"

definition wait_order_num :: "nat \<Rightarrow> sku_stock \<Rightarrow> int" where
  "wait_order_num ptype st =
     (if ptype = 0 then
        (let res = attr st Sold_num - attr st Post_num - realtime_quantity st
         in if res > 0 then res else 0)
      else 0)"

definition unused_stock :: "nat \<Rightarrow> sku_stock \<Rightarrow> int" where
  "unused_stock ptype st =
     (if ptype = 0 then attr st History_quantity + attr st Inbound_quantity + attr st Adjust_quantity
        + attr st Return_quantity - attr st Rg_quantity - attr st Sold_num
      else 0)"

definition new_lock_num :: "sku_stock \<Rightarrow> int" where
  "new_lock_num st = attr st Shoppingcart_num + attr st Waitingpay_num + attr st Sold_num
     - attr st Return_quantity - attr st Post_num"

definition realtime_lock_num :: "sku_stock \<Rightarrow> int" where
  "realtime_lock_num st = attr st Shoppingcart_num + attr st Waitingpay_num + attr st Sold_num - attr st Post_num"

definition can_assign :: "sku_stock \<Rightarrow> int \<Rightarrow> bool" where
  "can_assign st num \<longleftrightarrow> realtime_quantity st - attr st Assign_num \<ge> num"

section \<open>The counters by statistics\<close>

text \<open>What a packed item contributes to a counter that is summed over packed items.\<close>

definition after_commit :: "time option \<Rightarrow> bool" where
  "after_commit t = (case t of None \<Rightarrow> False | Some t \<Rightarrow> t > COMMIT_TIME)"

definition stock_types :: "psi_type list" where
  "stock_types = [PSI_NORMAL, PSI_BYHAND, PSI_RETURN_GOODS, PSI_TIANMAO]"

fun psi_counts :: "stock_attr \<Rightarrow> psi \<Rightarrow> bool" where
  "psi_counts Assign_num p =
     (psi_type p \<in> set stock_types \<and> psi_pay_time p > COMMIT_TIME \<and> psi_assign_status p = ASSIGNED)"
| "psi_counts Post_num p =
     (psi_type p \<in> set stock_types \<and> psi_pay_time p > COMMIT_TIME \<and> psi_assign_status p = FINISHED)"
| "psi_counts Sold_num p =
     (psi_type p = PSI_NORMAL \<and> psi_pay_time p > COMMIT_TIME \<and>
      psi_assign_status p \<in> {FINISHED, NOT_ASSIGNED, ASSIGNED, VIRTUAL_ASSIGNED})"
| "psi_counts (Psi_num st) p =
     (psi_pay_time p > COMMIT_TIME \<and> psi_status p = st \<and>
      psi_type p \<notin> {PSI_RETURN_INFERIOR, PSI_RETURN_OUT_ORDER} \<and> psi_status p \<noteq> PSI_CANCEL)"
| "psi_counts _ p = False"

definition psi_effect :: "stock_attr \<Rightarrow> psi \<Rightarrow> int" where
  "psi_effect a p = (if psi_counts a p then psi_num p else 0)"

definition psi_total :: "stock_attr \<Rightarrow> pk_id \<Rightarrow> shop_db \<Rightarrow> int" where
  "psi_total a sku_id s = q_sum psi_num (\<lambda>p. psi_sku_id p = sku_id \<and> psi_counts a p) (d_psis s)"

definition paid_statuses :: "trade_status list" where
  "paid_statuses = [WAIT_SELLER_SEND_GOODS, WAIT_BUYER_CONFIRM_GOODS, TRADE_BUYER_SIGNED, TRADE_FINISHED]"

text \<open>
  \<open>params[attr]\<close> of \<open>restat\<close>: the statistics of a counter, or \<open>None\<close> for a name it
  does not compute. \<open>sold_num\<close> reads the type of the stock's product, and raises without one.
\<close>

fun restat_value :: "sku_stock \<Rightarrow> shop_db \<Rightarrow> stock_attr \<Rightarrow> py_error + int option" where
  "restat_value st s Assign_num = Inr (Some (psi_total Assign_num (ss_sku_id st) s))"
| "restat_value st s Inbound_quantity = Inr (Some (q_sum od_arrival_quantity
     (\<lambda>d. od_chichu_id d = ss_sku_id st \<and> after_commit (od_arrival_time d)) (d_order_details s)))"
| "restat_value st s Sold_num =
     (case stock_product st s of
        None \<Rightarrow> Inl AttributeError
      | Some p \<Rightarrow>
          if prod_type p = 1 then Inr (Some (q_sum so_num (\<lambda>o'. so_sku_id o' = ss_sku_id st \<and>
             after_commit (so_pay_time o') \<and> so_status o' \<in> set paid_statuses) (d_orders s)))
          else if prod_type p = 0 then Inr (Some (psi_total Sold_num (ss_sku_id st) s))
          else Inr (Some 0))"
| "restat_value st s Post_num = Inr (Some (psi_total Post_num (ss_sku_id st) s))"
| "restat_value st s Adjust_quantity = Inr (Some (q_sum sa_num
     (\<lambda>a. sa_sku_id a = ss_sku_id st \<and> sa_status a = 1) (d_adjusts s)))"
| "restat_value st s Rg_quantity = Inr (Some (q_sum rg_num
     (\<lambda>r. rg_skuid r = ss_sku_id st \<and> rg_created r > COMMIT_TIME \<and> rg_return_delivered r
        \<and> rg_is_refund_type r) (d_rg_details s)))"
| "restat_value st s Shoppingcart_num = Inr (Some (q_sum sc_num
     (\<lambda>c. sc_sku_id c = ss_sku_id st \<and> sc_normal c) (d_carts s)))"
| "restat_value st s Waitingpay_num = Inr (Some (q_sum so_num
     (\<lambda>o'. so_sku_id o' = ss_sku_id st \<and> so_status o' = WAIT_BUYER_PAY) (d_orders s)))"
| "restat_value st s Paid_num = Inr (Some (q_sum so_num
     (\<lambda>o'. so_sku_id o' = ss_sku_id st \<and> so_status o' \<in> set paid_statuses
        \<and> so_created o' > COMMIT_TIME) (d_orders s)))"
| "restat_value st s Return_quantity = Inr (Some (q_sum rp_num
     (\<lambda>r. rp_sku_id r = ss_sku_id st \<and> rp_created r > COMMIT_TIME \<and> rp_can_reuse r) (d_refund_products s)))"
| "restat_value st s (Psi_num p) =
     (if p = PSI_READY then Inr None else Inr (Some (psi_total (Psi_num p) (ss_sku_id st) s)))"
| "restat_value st s _ = Inr None"

text \<open>The names \<open>restat()\<close> computes when it is given none (\<open>PSI_STATUS.CHOICES\<close> has no
  \<open>ready\<close>).\<close>

definition all_stat_attrs :: "stock_attr list" where
  "all_stat_attrs = map Psi_num [PSI_PAID, PSI_PREPARE_BOOK, PSI_BOOKED, PSI_THIRD_SEND, PSI_ASSIGNED,
       PSI_MERGED, PSI_WAITSCAN, PSI_WAITPOST, PSI_SENT, PSI_FINISH, PSI_CANCEL, PSI_HOLDING]
     @ [Adjust_quantity, Inbound_quantity, Return_quantity, Rg_quantity, Assign_num, Post_num,
        Shoppingcart_num, Waitingpay_num, Sold_num, Paid_num]"

text \<open>\<open>restat\<close> on the object: every computed column it has is set; what it returns is the
  list of the columns that changed.\<close>

fun set_stats :: "stock_attr list \<Rightarrow> shop_db \<Rightarrow> sku_stock \<Rightarrow> py_error + (sku_stock \<times> stock_attr list)" where
  "set_stats [] s st = Inr (st, [])"
| "set_stats (a # as) s st =
     (case restat_value st s a of
        Inl e \<Rightarrow> Inl e
      | Inr None \<Rightarrow> set_stats as s st
      | Inr (Some v) \<Rightarrow>
          (case set_stats as s (if has_attr a then attr_update a v st else st) of
             Inl e \<Rightarrow> Inl e
           | Inr (st', changed) \<Rightarrow>
               Inr (st', if has_attr a \<and> attr st a \<noteq> v then a # changed else changed)))"

definition restat :: "stock_attr list \<Rightarrow> sku_stock \<Rightarrow> shop_db \<Rightarrow> py_error + (sku_stock \<times> stock_attr list)" where
  "restat need_stat st s = set_stats (if need_stat = [] then all_stat_attrs else need_stat) s st"

text \<open>\<open>stock.save(update_fields=fields)\<close> (which does nothing for an empty list), and \<open>stock.save()\<close> of the whole row.\<close>

definition save_stock_fields :: "stock_attr list \<Rightarrow> sku_stock \<Rightarrow> (shop_db, unit) prog" where
  "save_stock_fields cols st = (\<lambda>s. (Inr (), s\<lparr>d_stocks := map (\<lambda>x.
     if ss_id x = ss_id st
     then x\<lparr>ss_attr := (\<lambda>a. if a \<in> set cols then attr st a else attr x a)\<rparr> else x) (d_stocks s)\<rparr>))"

definition save_stock :: "sku_stock \<Rightarrow> (shop_db, unit) prog" where
  "save_stock st = (\<lambda>s. (Inr (), s\<lparr>d_stocks := tbl_save ss_id st (d_stocks s)\<rparr>))"

definition stat_save :: "sku_stock \<Rightarrow> stock_attr list \<Rightarrow> bool \<Rightarrow> bool \<Rightarrow> (shop_db, unit) prog" where
  "stat_save stock update_fields stat warning =
     (if \<not> stat then
        thenE (whenE warning (bindE (liftE (restat update_fields stock)) (\<lambda>_. ret ())))
              (save_stock_fields update_fields stock)
      else
        bindE (liftE (restat update_fields stock)) (\<lambda>(stock, _).
        save_stock_fields update_fields stock))"

definition stat_warning :: "pk_id \<Rightarrow> stock_attr list \<Rightarrow> bool \<Rightarrow> bool \<Rightarrow> (shop_db, unit) prog" where
  "stat_warning sku_id update_fields warning stat =
     bindE (get_by_sku sku_id) (\<lambda>sku_stock.
     bindE (liftE (restat update_fields sku_stock)) (\<lambda>(sku_stock, changed).
     whenE (changed \<noteq> [] \<and> stat) (save_stock_fields changed sku_stock)))"

definition stat_compare_warning :: "sku_stock \<Rightarrow> stock_attr list \<Rightarrow> bool \<Rightarrow> bool \<Rightarrow> (shop_db, unit) prog" where
  "stat_compare_warning st update_fields warning stat =
     bindE (liftE (restat update_fields st)) (\<lambda>(st, changed).
     whenE stat (save_stock_fields changed st))"

section \<open>Moving the counters\<close>

text \<open>
  The \<open>set_psi_...\<close> and \<open>add_...\<close> methods fetch the row, add to some counters and
  \<open>stat_save\<close> them; a method is the list of its counters and amounts.
\<close>

definition add_attrs :: "(stock_attr \<times> int) list \<Rightarrow> sku_stock \<Rightarrow> sku_stock" where
  "add_attrs ds st = fold (\<lambda>(a, n) st. attr_update a (attr st a + n) st) ds st"

definition move_stock :: "pk_id \<Rightarrow> (stock_attr \<times> int) list \<Rightarrow> bool \<Rightarrow> bool \<Rightarrow> (shop_db, unit) prog" where
  "move_stock sku_id ds stat warning =
     bindE (liftE (get_stock sku_id)) (\<lambda>stock.
     stat_save (add_attrs ds stock) (map fst ds) stat warning)"

definition psi_init_paid :: "int \<Rightarrow> (stock_attr \<times> int) list" where
  "psi_init_paid num = [(Sold_num, num), (Psi_num PSI_PAID, num)]"
definition psi_prepare_book :: "int \<Rightarrow> (stock_attr \<times> int) list" where
  "psi_prepare_book num = [(Psi_num PSI_PAID, - num), (Psi_num PSI_PREPARE_BOOK, num)]"
definition psi_booked :: "int \<Rightarrow> (stock_attr \<times> int) list" where
  "psi_booked num = [(Psi_num PSI_BOOKED, num), (Psi_num PSI_PREPARE_BOOK, - num)]"
definition psi_init_assigned :: "int \<Rightarrow> (stock_attr \<times> int) list" where
  "psi_init_assigned num = [(Sold_num, num), (Psi_num PSI_ASSIGNED, num), (Assign_num, num)]"
definition psi_booked_2_assigned :: "int \<Rightarrow> (stock_attr \<times> int) list" where
  "psi_booked_2_assigned num = [(Assign_num, num), (Psi_num PSI_BOOKED, - num), (Psi_num PSI_ASSIGNED, num)]"
definition psi_not_assigned :: "int \<Rightarrow> (stock_attr \<times> int) list" where
  "psi_not_assigned num = [(Assign_num, - num), (Psi_num PSI_PAID, num), (Psi_num PSI_ASSIGNED, - num)]"
definition psi_merged :: "int \<Rightarrow> (stock_attr \<times> int) list" where
  "psi_merged num = [(Psi_num PSI_MERGED, num), (Psi_num PSI_ASSIGNED, - num)]"
definition psi_waitscan :: "int \<Rightarrow> (stock_attr \<times> int) list" where
  "psi_waitscan num = [(Psi_num PSI_MERGED, - num), (Psi_num PSI_WAITSCAN, num)]"
definition psi_waitpost :: "int \<Rightarrow> (stock_attr \<times> int) list" where
  "psi_waitpost num = [(Psi_num PSI_WAITSCAN, - num), (Psi_num PSI_WAITPOST, num)]"
definition psi_sent :: "int \<Rightarrow> (stock_attr \<times> int) list" where
  "psi_sent num = [(Psi_num PSI_WAITPOST, - num), (Psi_num PSI_SENT, num), (Post_num, num), (Assign_num, - num)]"
definition psi_finish :: "int \<Rightarrow> (stock_attr \<times> int) list" where
  "psi_finish num = [(Psi_num PSI_FINISH, num), (Psi_num PSI_SENT, - num)]"

definition set_psi_init_paid :: "pk_id \<Rightarrow> int \<Rightarrow> bool \<Rightarrow> (shop_db, unit) prog" where
  "set_psi_init_paid sku_id num stat = move_stock sku_id (psi_init_paid num) stat True"
definition set_psi_prepare_book :: "pk_id \<Rightarrow> int \<Rightarrow> bool \<Rightarrow> (shop_db, unit) prog" where
  "set_psi_prepare_book sku_id num stat = move_stock sku_id (psi_prepare_book num) stat True"
definition set_psi_booked :: "pk_id \<Rightarrow> int \<Rightarrow> bool \<Rightarrow> (shop_db, unit) prog" where
  "set_psi_booked sku_id num stat = move_stock sku_id (psi_booked num) stat True"
definition set_psi_init_assigned :: "pk_id \<Rightarrow> int \<Rightarrow> bool \<Rightarrow> (shop_db, unit) prog" where
  "set_psi_init_assigned sku_id num stat = move_stock sku_id (psi_init_assigned num) stat True"
definition set_psi_booked_2_assigned :: "pk_id \<Rightarrow> int \<Rightarrow> bool \<Rightarrow> (shop_db, unit) prog" where
  "set_psi_booked_2_assigned sku_id num stat = move_stock sku_id (psi_booked_2_assigned num) stat True"
definition set_psi_not_assigned :: "pk_id \<Rightarrow> int \<Rightarrow> bool \<Rightarrow> (shop_db, unit) prog" where
  "set_psi_not_assigned sku_id num stat = move_stock sku_id (psi_not_assigned num) stat True"
definition set_psi_merged :: "pk_id \<Rightarrow> int \<Rightarrow> bool \<Rightarrow> (shop_db, unit) prog" where
  "set_psi_merged sku_id num stat = move_stock sku_id (psi_merged num) stat True"
definition set_psi_waitscan :: "pk_id \<Rightarrow> int \<Rightarrow> bool \<Rightarrow> (shop_db, unit) prog" where
  "set_psi_waitscan sku_id num stat = move_stock sku_id (psi_waitscan num) stat True"
definition set_psi_waitpost :: "pk_id \<Rightarrow> int \<Rightarrow> bool \<Rightarrow> (shop_db, unit) prog" where
  "set_psi_waitpost sku_id num stat = move_stock sku_id (psi_waitpost num) stat True"
definition set_psi_sent :: "pk_id \<Rightarrow> int \<Rightarrow> bool \<Rightarrow> (shop_db, unit) prog" where
  "set_psi_sent sku_id num stat = move_stock sku_id (psi_sent num) stat True"
definition set_psi_finish :: "pk_id \<Rightarrow> int \<Rightarrow> bool \<Rightarrow> (shop_db, unit) prog" where
  "set_psi_finish sku_id num stat = move_stock sku_id (psi_finish num) stat True"

text \<open>
  \<open>set_psi_cancel\<close> asks \<open>hasattr(stat, attr)\<close> of the flag \<open>stat\<close>, a \<open>bool\<close>, which
  has no such attribute: the counter of the item's old status is never among the fields.
\<close>

definition bool_has_attr :: "bool \<Rightarrow> stock_attr \<Rightarrow> bool" where
  "bool_has_attr stat a = False"

definition set_psi_cancel :: "pk_id \<Rightarrow> int \<Rightarrow> psi_status \<Rightarrow> bool \<Rightarrow> (shop_db, unit) prog" where
  "set_psi_cancel sku_id num status stat =
     (if status = PSI_CANCEL then ret () else
      stat_warning sku_id
        ((if bool_has_attr stat (Psi_num status) then [Psi_num status] else []) @ [Assign_num, Sold_num])
        True stat)"

definition add_inbound_quantity :: "pk_id \<Rightarrow> int \<Rightarrow> bool \<Rightarrow> (shop_db, unit) prog" where
  "add_inbound_quantity sku_id num stat = move_stock sku_id [(Inbound_quantity, num)] stat True"
definition add_return_quantity :: "pk_id \<Rightarrow> int \<Rightarrow> bool \<Rightarrow> (shop_db, unit) prog" where
  "add_return_quantity sku_id num stat = move_stock sku_id [(Return_quantity, num)] stat True"
definition add_shoppingcart_num :: "pk_id \<Rightarrow> int \<Rightarrow> bool \<Rightarrow> (shop_db, unit) prog" where
  "add_shoppingcart_num sku_id num stat = move_stock sku_id [(Shoppingcart_num, num)] stat True"
definition add_waitingpay_num :: "pk_id \<Rightarrow> int \<Rightarrow> bool \<Rightarrow> (shop_db, unit) prog" where
  "add_waitingpay_num sku_id num stat = move_stock sku_id [(Waitingpay_num, num)] stat True"

definition set_order_paid_num :: "pk_id \<Rightarrow> int \<Rightarrow> bool \<Rightarrow> (shop_db, unit) prog" where
  "set_order_paid_num sku_id num stat =
     bindE (liftE (get_stock sku_id)) (\<lambda>stock.
     bindE (asks (stock_product stock)) (\<lambda>product.
     case product of
       None \<Rightarrow> raise AttributeError
     | Some p \<Rightarrow>
         stat_save (add_attrs ([(Paid_num, num), (Waitingpay_num, - num)] @
                     (if prod_type p = 1 then [(Sold_num, num)] else [])) stock)
           [Paid_num, Waitingpay_num, Sold_num] stat True))"

definition update_adjust_num :: "pk_id \<Rightarrow> int \<Rightarrow> (shop_db, unit) prog" where
  "update_adjust_num sku_id adjust_quantity =
     bindE (liftE (get_stock sku_id)) (\<lambda>stat.
     save_stock (attr_update Adjust_quantity adjust_quantity stat))"

definition add_adjust_num :: "pk_id \<Rightarrow> int \<Rightarrow> (shop_db, unit) prog" where
  "add_adjust_num sku_id num = (\<lambda>s. (Inr (), s\<lparr>d_stocks := q_update (\<lambda>x. ss_sku_id x = sku_id)
     (\<lambda>x. attr_update Adjust_quantity (attr x Adjust_quantity + num) x) (d_stocks s)\<rparr>))"

section \<open>Counters and statistics\<close>

text \<open>The counter \<open>a\<close> of every SKU agrees with the packed items that it counts.\<close>

interpretation stk: ledger ss_id "\<lambda>i. ss_id_update (\<lambda>_. i)" psi_id "\<lambda>i. psi_id_update (\<lambda>_. i)"
    ss_sku_id "\<lambda>st. ss_attr st a" psi_sku_id "psi_effect a" for a :: stock_attr
proof unfold_locales
  fix i r
  show "psi_effect a (psi_id_update (\<lambda>_. i) r) = psi_effect a r"
    by (cases a) (auto simp: psi_effect_def)
qed simp_all

definition counter_ok :: "stock_attr \<Rightarrow> shop_db \<Rightarrow> bool" where
  "counter_ok a s \<longleftrightarrow> in_sync ss_sku_id (\<lambda>st. ss_attr st a) psi_sku_id (psi_effect a) (d_stocks s) (d_psis s)"

lemma psi_total_effect:
  "psi_total a sku s = q_sum (psi_effect a) (\<lambda>p. psi_sku_id p = sku) (d_psis s)"
  unfolding psi_total_def psi_effect_def by (simp add: q_sum_as_if) (rule arg_cong, auto)

text \<open>A list of moves of distinct counters, read as a function.\<close>

definition delta_of :: "(stock_attr \<times> int) list \<Rightarrow> stock_attr \<Rightarrow> int" where
  "delta_of ds a = (case map_of ds a of None \<Rightarrow> 0 | Some n \<Rightarrow> n)"

lemma add_attrs_frame: "ss_id (add_attrs ds st) = ss_id st" "ss_sku_id (add_attrs ds st) = ss_sku_id st"
  unfolding add_attrs_def by (induction ds arbitrary: st) (auto simp: attr_update_def)

lemma add_attrs_attr:
  assumes "distinct (map fst ds)"
  shows "attr (add_attrs ds st) a = attr st a + delta_of ds a"
  using assms unfolding add_attrs_def delta_of_def
proof (induction ds arbitrary: st)
  case (Cons d ds)
  obtain b n where d: "d = (b, n)" by fastforce
  have none: "map_of ds b = None" using Cons.prems by (simp add: d map_of_eq_None_iff)
  from Cons show ?case
    by (cases "a = b") (auto simp: d none attr_update_def)
qed simp

text \<open>Saving some fields of a row is saving the row with the others as stored.\<close>

lemma save_stock_fields_row:
  assumes "distinct (map ss_id (d_stocks s))" and "x \<in> set (d_stocks s)" and "ss_id st = ss_id x"
  shows "save_stock_fields as st s = (Inr (), s\<lparr>d_stocks := tbl_save ss_id
    (x\<lparr>ss_attr := (\<lambda>a. if a \<in> set as then attr st a else attr x a)\<rparr>) (d_stocks s)\<rparr>)"
proof -
  have "y = x" if "y \<in> set (d_stocks s)" "ss_id y = ss_id x" for y
    using assms that by (auto simp: distinct_map inj_on_def)
  then have "map (\<lambda>y. if ss_id y = ss_id st
        then y\<lparr>ss_attr := (\<lambda>a. if a \<in> set as then attr st a else attr y a)\<rparr> else y) (d_stocks s)
    = map (\<lambda>y. if ss_id y = ss_id x
        then x\<lparr>ss_attr := (\<lambda>a. if a \<in> set as then attr st a else attr x a)\<rparr> else y) (d_stocks s)"
    using assms(3) by (intro map_cong) auto
  with assms(2,3) show ?thesis by (simp add: save_stock_fields_def tbl_save_def)
qed

lemma get_stock_row: "get_stock sku s = Inr x \<Longrightarrow> x \<in> set (d_stocks s) \<and> ss_sku_id x = sku"
  by (auto simp: get_stock_def dest: q_get_Inr)

text \<open>\<open>ds\<close> is what changing the item from \<open>old\<close> to \<open>new\<close> does to the statistics of every
  counter.\<close>

definition exact_delta :: "psi \<Rightarrow> psi \<Rightarrow> (stock_attr \<times> int) list \<Rightarrow> bool" where
  "exact_delta old new ds \<longleftrightarrow> distinct (map fst ds) \<and> (\<forall>a. delta_of ds a = psi_effect a new - psi_effect a old)"

text \<open>
  The refinement step: an item changes, and its counters are moved without statistics. A counter that
  agreed with its items still does, and so does the recomputation.
\<close>

lemma move_stock_tracks:
  assumes stocks: "distinct (map ss_id (d_stocks s))" and items: "distinct (map psi_id (d_psis s))"
    and old: "old \<in> set (d_psis s)" and new: "psi_id new = psi_id old" "psi_sku_id new = psi_sku_id old"
    and ds: "exact_delta old new ds" and ok: "counter_ok a s"
    and run: "move_stock (psi_sku_id old) ds False w (s\<lparr>d_psis := tbl_save psi_id new (d_psis s)\<rparr>) = (Inr (), t)"
  shows "counter_ok a t"
proof -
  let ?u = "s\<lparr>d_psis := tbl_save psi_id new (d_psis s)\<rparr>"
  from run obtain x where x: "get_stock (psi_sku_id old) ?u = Inr x"
    and sv: "stat_save (add_attrs ds x) (map fst ds) False w ?u = (Inr (), t)"
    by (auto simp: move_stock_def prog_simps split: sum.splits)
  let ?as = "map fst ds" and ?st = "add_attrs ds x"
  let ?x = "x\<lparr>ss_attr := (\<lambda>a. if a \<in> set ?as then attr ?st a else attr x a)\<rparr>"
  from get_stock_row [OF x] have mem: "x \<in> set (d_stocks s)" "ss_sku_id x = psi_sku_id old" by simp_all
  from sv have "save_stock_fields ?as ?st ?u = (Inr (), t)"
    by (auto simp: stat_save_def prog_simps split: if_splits sum.splits prod.splits)
  with save_stock_fields_row [of ?u x ?st ?as] stocks mem
  have t: "t = ?u\<lparr>d_stocks := tbl_save ss_id ?x (d_stocks s)\<rparr>"
    by (simp add: add_attrs_frame)
  have "delta_of ds a = 0" if "a \<notin> set ?as"
    using that by (simp add: delta_of_def map_of_eq_None_iff split: option.split)
       (metis fst_conv image_eqI map_of_SomeD)
  then have "attr ?x a = attr x a + psi_effect a new - psi_effect a old"
    using ds by (auto simp: exact_delta_def add_attrs_attr)
  then have "stk.sync a (tbl_save ss_id ?x (d_stocks s)) (tbl_save psi_id new (d_psis s))"
    using ok stocks items old new mem
    by (intro stk.sync_repost [where a = x and old = old and aa = a]) (auto simp: counter_ok_def)
  then show ?thesis by (simp add: t counter_ok_def)
qed

section \<open>The life of an item, counter by counter\<close>

text \<open>\<open>new\<close> is \<open>old\<close> with another status and assign status (and any other times or notes).\<close>

definition moved :: "psi \<Rightarrow> psi \<Rightarrow> psi_status \<Rightarrow> assign_status \<Rightarrow> bool" where
  "moved old new st ast \<longleftrightarrow> psi_num new = psi_num old \<and> psi_type new = psi_type old \<and>
     psi_pay_time new = psi_pay_time old \<and> psi_status new = st \<and> psi_assign_status new = ast"

definition stands_at :: "psi \<Rightarrow> psi_status \<Rightarrow> assign_status \<Rightarrow> bool" where
  "stands_at p st ast \<longleftrightarrow> psi_type p = PSI_NORMAL \<and> psi_pay_time p > COMMIT_TIME \<and>
     psi_status p = st \<and> psi_assign_status p = ast"

lemmas delta_defs = psi_init_paid_def psi_prepare_book_def psi_booked_def psi_init_assigned_def
  psi_booked_2_assigned_def psi_not_assigned_def psi_merged_def psi_waitscan_def psi_waitpost_def
  psi_sent_def psi_finish_def

lemma exact_deltaI:
  assumes "distinct (map fst ds)" and "stands_at old st ast" and "moved old new st' ast'"
    and "\<And>p. delta_of ds (Psi_num p) = (if p = st' \<and> p \<noteq> PSI_CANCEL then psi_num old else 0)
           - (if p = st \<and> p \<noteq> PSI_CANCEL then psi_num old else 0)"
    and "delta_of ds Assign_num = (if ast' = ASSIGNED then psi_num old else 0) - (if ast = ASSIGNED then psi_num old else 0)"
    and "delta_of ds Post_num = (if ast' = FINISHED then psi_num old else 0) - (if ast = FINISHED then psi_num old else 0)"
    and "delta_of ds Sold_num = (if ast' = CANCELED then 0 else psi_num old) - (if ast = CANCELED then 0 else psi_num old)"
    and "\<And>a. a \<notin> range Psi_num \<Longrightarrow> a \<notin> {Assign_num, Post_num, Sold_num} \<Longrightarrow> delta_of ds a = 0"
  shows "exact_delta old new ds"
  unfolding exact_delta_def
proof (intro conjI allI)
  fix a
  show "delta_of ds a = psi_effect a new - psi_effect a old"
  proof (cases a)
    case Sold_num
    with assms(2,3,7) show ?thesis
      by (cases ast; cases ast'; simp add: psi_effect_def stands_at_def moved_def)
  qed (use assms(2-6) assms(8) [of a] in \<open>auto simp: psi_effect_def stands_at_def moved_def stock_types_def\<close>)
qed (rule assms(1))

lemma exact_delta_cases:
  assumes "stands_at old st ast" and "moved old new st' ast'"
  shows "st = PSI_PAID \<and> ast = NOT_ASSIGNED \<and> st' = PSI_PREPARE_BOOK \<and> ast' = NOT_ASSIGNED \<Longrightarrow>
      exact_delta old new (psi_prepare_book (psi_num old))"
    and "st = PSI_PREPARE_BOOK \<and> ast = NOT_ASSIGNED \<and> st' = PSI_BOOKED \<and> ast' \<in> {NOT_ASSIGNED, VIRTUAL_ASSIGNED} \<Longrightarrow>
      exact_delta old new (psi_booked (psi_num old))"
    and "st = PSI_BOOKED \<and> ast = NOT_ASSIGNED \<and> st' = PSI_ASSIGNED \<and> ast' = ASSIGNED \<Longrightarrow>
      exact_delta old new (psi_booked_2_assigned (psi_num old))"
    and "st = PSI_ASSIGNED \<and> ast = ASSIGNED \<and> st' = PSI_PAID \<and> ast' = NOT_ASSIGNED \<Longrightarrow>
      exact_delta old new (psi_not_assigned (psi_num old))"
    and "st = PSI_ASSIGNED \<and> ast = ASSIGNED \<and> st' = PSI_MERGED \<and> ast' = ASSIGNED \<Longrightarrow>
      exact_delta old new (psi_merged (psi_num old))"
    and "st = PSI_MERGED \<and> ast = ASSIGNED \<and> st' = PSI_WAITSCAN \<and> ast' = ASSIGNED \<Longrightarrow>
      exact_delta old new (psi_waitscan (psi_num old))"
    and "st = PSI_WAITSCAN \<and> ast = ASSIGNED \<and> st' = PSI_WAITPOST \<and> ast' = ASSIGNED \<Longrightarrow>
      exact_delta old new (psi_waitpost (psi_num old))"
    and "st = PSI_WAITPOST \<and> ast = ASSIGNED \<and> st' = PSI_SENT \<and> ast' = FINISHED \<Longrightarrow>
      exact_delta old new (psi_sent (psi_num old))"
    and "st = PSI_SENT \<and> ast = FINISHED \<and> st' = PSI_FINISH \<and> ast' = FINISHED \<Longrightarrow>
      exact_delta old new (psi_finish (psi_num old))"
  using assms
  by (auto intro!: exact_deltaI simp: delta_defs delta_of_def split: if_splits)

text \<open>The transitions of an item with the method that moves its counters.\<close>

definition item_transitions ::
  "int \<Rightarrow> (psi_status \<times> assign_status \<times> psi_status \<times> assign_status \<times> (stock_attr \<times> int) list) list" where
  "item_transitions n =
     [(PSI_PAID, NOT_ASSIGNED, PSI_PREPARE_BOOK, NOT_ASSIGNED, psi_prepare_book n),
      (PSI_PREPARE_BOOK, NOT_ASSIGNED, PSI_BOOKED, NOT_ASSIGNED, psi_booked n),
      (PSI_PREPARE_BOOK, NOT_ASSIGNED, PSI_BOOKED, VIRTUAL_ASSIGNED, psi_booked n),
      (PSI_BOOKED, NOT_ASSIGNED, PSI_ASSIGNED, ASSIGNED, psi_booked_2_assigned n),
      (PSI_ASSIGNED, ASSIGNED, PSI_PAID, NOT_ASSIGNED, psi_not_assigned n),
      (PSI_ASSIGNED, ASSIGNED, PSI_MERGED, ASSIGNED, psi_merged n),
      (PSI_MERGED, ASSIGNED, PSI_WAITSCAN, ASSIGNED, psi_waitscan n),
      (PSI_WAITSCAN, ASSIGNED, PSI_WAITPOST, ASSIGNED, psi_waitpost n),
      (PSI_WAITPOST, ASSIGNED, PSI_SENT, FINISHED, psi_sent n),
      (PSI_SENT, FINISHED, PSI_FINISH, FINISHED, psi_finish n)]"

lemma item_transitions_exact:
  assumes "(st, ast, st', ast', ds) \<in> set (item_transitions (psi_num old))"
    and "stands_at old st ast" and "moved old new st' ast'"
  shows "exact_delta old new ds"
  using assms(1) unfolding item_transitions_def
  by (simp, elim disjE conjE) (simp_all add: exact_delta_cases [OF assms(2,3)])

section \<open>Recomputing\<close>

lemma psi_total_stocks [simp]: "psi_total a k (s\<lparr>d_stocks := S\<rparr>) = psi_total a k s"
  by (simp add: psi_total_def)

lemma restat_value_frame [simp]:
  "restat_value st (s\<lparr>d_stocks := S\<rparr>) a = restat_value st s a"
  by (cases a) (simp_all add: stock_product_def split: option.split)

lemma restat_value_row:
  assumes "ss_sku_id st = ss_sku_id st'" and "ss_product_id st = ss_product_id st'"
  shows "restat_value st s a = restat_value st' s a"
  using assms by (cases a) (simp_all add: stock_product_def split: option.split)

lemma set_stats_row:
  "set_stats as s st = Inr (st', ch) \<Longrightarrow>
   ss_id st' = ss_id st \<and> ss_sku_id st' = ss_sku_id st \<and> ss_product_id st' = ss_product_id st"
proof (induction as arbitrary: st ch)
  case (Cons a as)
  then show ?case
    by (fastforce split: sum.splits option.splits prod.splits if_splits simp: attr_update_def)
qed simp

lemma set_stats_other:
  "set_stats as s st = Inr (st', ch) \<Longrightarrow> a \<notin> set as \<Longrightarrow> attr st' a = attr st a"
proof (induction as arbitrary: st ch)
  case (Cons b as)
  then show ?case
    by (fastforce split: sum.splits option.splits prod.splits if_splits simp: attr_update_def)
qed simp

lemma set_stats_value:
  assumes "set_stats as s st = Inr (st', ch)" and "a \<in> set as" and "distinct as" and "has_attr a"
    and "restat_value st s a = Inr (Some v)"
  shows "attr st' a = v"
  using assms
proof (induction as arbitrary: st ch)
  case (Cons b as)
  show ?case
  proof (cases "b = a")
    case True
    with Cons.prems obtain ch' where "set_stats as s (attr_update a v st) = Inr (st', ch')"
      by (auto split: sum.splits prod.splits)
    with Cons.prems True set_stats_other show ?thesis by (fastforce simp: attr_update_def)
  next
    case False
    have upd: "restat_value (attr_update b w st) s a = restat_value st s a" for w
      by (rule restat_value_row) (simp_all add: attr_update_def)
    from Cons.prems False show ?thesis
      by (auto split: sum.splits option.splits prod.splits if_splits intro: Cons.IH simp: upd)
  qed
qed simp

lemma move_stock_recomputes:
  assumes stocks: "distinct (map ss_id (d_stocks s))"
    and run: "move_stock sku ds True w s = (Inr (), t)" and ds: "distinct (map fst ds)"
    and a: "a \<in> set (map fst ds)" "has_attr a"
  shows "\<exists>st. get_stock sku t = Inr st \<and> (\<forall>v. restat_value st t a = Inr (Some v) \<longrightarrow> attr st a = v)"
proof -
  let ?as = "map fst ds"
  have as: "?as \<noteq> []" using a by auto
  from run obtain x st' ch where x: "get_stock sku s = Inr x"
    and ss: "set_stats ?as s (add_attrs ds x) = Inr (st', ch)"
    and sv: "save_stock_fields ?as st' s = (Inr (), t)"
    using as by (auto simp: move_stock_def stat_save_def restat_def prog_simps split: sum.splits prod.splits)
  from get_stock_row [OF x] have mem: "x \<in> set (d_stocks s)" "ss_sku_id x = sku" by simp_all
  note row = set_stats_row [OF ss, unfolded add_attrs_frame]
  let ?x = "x\<lparr>ss_attr := (\<lambda>a. if a \<in> set ?as then attr st' a else attr x a)\<rparr>"
  have t: "t = s\<lparr>d_stocks := tbl_save ss_id ?x (d_stocks s)\<rparr>"
    using sv save_stock_fields_row [OF stocks mem(1), of st' ?as] row by simp
  have get: "get_stock sku t = Inr ?x"
    using x stocks mem unfolding get_stock_def t by (auto intro!: q_get_save)
  have same: "restat_value (add_attrs ds x) s a = restat_value ?x t a"
    unfolding t restat_value_frame
    by (rule restat_value_row) (simp_all add: add_attrs_frame, induction ds arbitrary: x, auto simp: add_attrs_def attr_update_def)
  have "attr ?x a = v" if "restat_value ?x t a = Inr (Some v)" for v
    using set_stats_value [OF ss _ ds a(2), of v] a(1) that same by simp
  with get show ?thesis by blast
qed

text \<open>A counter that is not among the moved fields keeps its column.\<close>

lemma move_stock_frame:
  assumes stocks: "distinct (map ss_id (d_stocks s))"
    and run: "move_stock sku ds stat w s = (Inr (), t)" and a: "a \<notin> set (map fst ds)" and ds: "ds \<noteq> []"
  shows "d_psis t = d_psis s \<and>
    q_sum (\<lambda>st. attr st a) (\<lambda>st. ss_sku_id st = k) (d_stocks t) = q_sum (\<lambda>st. attr st a) (\<lambda>st. ss_sku_id st = k) (d_stocks s)"
proof -
  let ?as = "map fst ds"
  have sum: "q_sum (\<lambda>st. attr st a) (\<lambda>st. ss_sku_id st = k) (map (\<lambda>x. if ss_id x = i
        then x\<lparr>ss_attr := (\<lambda>a. if a \<in> set ?as then attr st a else attr x a)\<rparr> else x) S)
      = q_sum (\<lambda>st. attr st a) (\<lambda>st. ss_sku_id st = k) S" for st i S
    using a by (induction S) auto
  from run obtain st where "save_stock_fields ?as st s = (Inr (), t)"
    by (auto simp: move_stock_def stat_save_def prog_simps split: sum.splits prod.splits if_splits)
  then have "t = s\<lparr>d_stocks := map (\<lambda>x. if ss_id x = ss_id st
      then x\<lparr>ss_attr := (\<lambda>a. if a \<in> set ?as then attr st a else attr x a)\<rparr> else x) (d_stocks s)\<rparr>"
    by (simp add: save_stock_fields_def)
  with sum show ?thesis by simp
qed

lemma counter_drifts:
  assumes ok: "counter_ok a s" and items: "distinct (map psi_id (d_psis s))" and old: "old \<in> set (d_psis s)"
    and new: "psi_id new = psi_id old" "psi_sku_id new = psi_sku_id old" and eff: "psi_effect a new \<noteq> psi_effect a old"
    and t: "d_psis t = tbl_save psi_id new (d_psis s)"
    and cols: "\<And>k. q_sum (\<lambda>st. attr st a) (\<lambda>st. ss_sku_id st = k) (d_stocks t)
      = q_sum (\<lambda>st. attr st a) (\<lambda>st. ss_sku_id st = k) (d_stocks s)"
  shows "\<not> counter_ok a t"
  using stk.sync_drift [of a "d_stocks s" "d_psis s" old new] assms
  by (simp add: counter_ok_def in_sync_def)

section \<open>Properties of the counters\<close>


definition example_item :: psi where
  "example_item = new_psi\<lparr>psi_id := 5, psi_oid := Some ''xo1'', psi_sku_id := 8, psi_num := 3,
     psi_status := PSI_ASSIGNED, psi_assign_status := ASSIGNED, psi_pay_time := COMMIT_TIME + 1\<rparr>"

definition example_stock :: sku_stock where
  "example_stock = \<lparr>ss_id = 2, ss_sku_id = 8, ss_product_id = 4,
     ss_attr = (\<lambda>a. if a = Psi_num PSI_ASSIGNED \<or> a = Assign_num \<or> a = Sold_num then 3 else
                  if a = Inbound_quantity then 10 else 0), ss_status = 0\<rparr>"

definition empty_shop :: shop_db where
  "empty_shop = \<lparr>d_trades = [], d_orders = [], d_psis = [], d_packages = [], d_stocks = [], d_skus = [],
     d_products = [], d_suppliers = [], d_adjusts = [], d_rg_details = [], d_refund_products = [],
     d_carts = [], d_purchases = [], d_purchase_details = [], d_arrangements = [], d_order_lists = [],
     d_order_details = [], d_refunds = [], d_tm_orders = [], d_tm_trades = [],
     d_return_goods = [], d_addresses = [], d_companies = [], d_users = [], d_now = midnight 736080\<rparr>"

definition example_shop :: shop_db where
  "example_shop = empty_shop\<lparr>d_psis := [example_item], d_stocks := [example_stock],
     d_products := [\<lparr>prod_id = 4, prod_outer_id = '''', prod_name = '''', prod_pic_path = '''', prod_type = 0,
        prod_ware_by = WARE_SH, prod_model_id = 0, prod_model = None, prod_supplier = None,
        prod_normal = True, prod_on_shelf = True, prod_agent_price = 10, prod_elite_score = 0,
        prod_mama_discount = None, prod_is_seckill = False, prod_category = ''''\<rparr>]\<rparr>"

lemmas shop_example_defs = example_shop_def empty_shop_def example_stock_def example_item_def new_psi_def

lemma example_counters:
  "counter_ok (Psi_num PSI_MERGED) example_shop" "counter_ok (Psi_num PSI_ASSIGNED) example_shop"
  by (simp_all add: counter_ok_def in_sync_def shop_example_defs psi_effect_def)


text \<open>
  Recomputing repairs a counter: after any of the methods ran with \<open>STAT_SIGN\<close> set, each
  counter it names holds its statistics, whatever the counters held before.
\<close>

theorem moved_counters_are_recomputed:
  assumes "distinct (map ss_id (d_stocks s))" and "distinct (map fst ds)"
    and "a \<in> set (map fst ds)" and "has_attr a" and "move_stock sku ds STAT_SIGN w s = (Inr (), t)"
  shows "\<exists>st. get_stock sku t = Inr st \<and> (\<forall>v. restat_value st t a = Inr (Some v) \<longrightarrow> attr st a = v)"
  using move_stock_recomputes [OF assms(1) _ assms(2-4)] assms(5) by (simp add: STAT_SIGN_def)

theorem moved_counters_are_recomputed_witness:
  "\<exists>st. get_stock 8 (snd (set_psi_merged 8 3 STAT_SIGN example_shop)) = Inr st \<and> attr st (Psi_num PSI_ASSIGNED) = 3"
proof -
  let ?t = "snd (move_stock 8 (psi_merged 3) STAT_SIGN True example_shop)"
  have run: "move_stock 8 (psi_merged 3) STAT_SIGN True example_shop = (Inr (), ?t)"
    by (rule returned) (simp add: move_stock_def stat_save_def restat_def prog_simps shop_example_defs
        get_stock_def q_get_def psi_merged_def save_stock_fields_def STAT_SIGN_def)
  have "restat_value st ?t (Psi_num PSI_ASSIGNED) = Inr (Some 3)" if "get_stock 8 ?t = Inr st" for st
  proof -
    have "d_psis ?t = d_psis example_shop"
      using move_stock_frame [OF _ run, of Paid_num] by (simp add: psi_merged_def shop_example_defs)
    with get_stock_row [OF that] show ?thesis by (simp add: psi_total_def shop_example_defs)
  qed
  then show ?thesis
    using moved_counters_are_recomputed [OF _ _ _ _ run, of "Psi_num PSI_ASSIGNED"]
    unfolding set_psi_merged_def by (fastforce simp: example_shop_def psi_merged_def)
qed

lemma save_stock_fields_frame:
  assumes "a \<notin> set cols" and "save_stock_fields cols st s = (Inr (), t)"
  shows "d_psis t = d_psis s \<and>
    q_sum (\<lambda>st. attr st a) (\<lambda>st. ss_sku_id st = k) (d_stocks t) = q_sum (\<lambda>st. attr st a) (\<lambda>st. ss_sku_id st = k) (d_stocks s)"
proof -
  have "q_sum (\<lambda>st. attr st a) (\<lambda>st. ss_sku_id st = k) (map (\<lambda>x. if ss_id x = ss_id st
        then x\<lparr>ss_attr := (\<lambda>a. if a \<in> set cols then attr st a else attr x a)\<rparr> else x) S)
      = q_sum (\<lambda>st. attr st a) (\<lambda>st. ss_sku_id st = k) S" for S
    using assms(1) by (induction S) auto
  with assms(2) show ?thesis by (auto simp: save_stock_fields_def)
qed

lemma get_by_sku_frame:
  assumes "get_by_sku sku s = (Inr st, t)"
  shows "d_psis t = d_psis s \<and>
    q_sum (\<lambda>st. attr st a) (\<lambda>st. ss_sku_id st = k) (d_stocks t) = q_sum (\<lambda>st. attr st a) (\<lambda>st. ss_sku_id st = k) (d_stocks s)"
  using assms by (auto simp: get_by_sku_def new_stock_def Let_def split: option.splits sum.splits)

lemma set_stats_changed: "set_stats as s st = Inr (st', ch) \<Longrightarrow> set ch \<subseteq> set as"
proof (induction as arbitrary: st ch)
  case (Cons a as)
  then show ?case
    by (fastforce split: sum.splits option.splits prod.splits if_splits)
qed simp

lemma set_psi_cancel_frame:
  assumes run: "set_psi_cancel sku num st stat s = (Inr (), t)" and a: "a \<notin> {Assign_num, Sold_num}"
  shows "d_psis t = d_psis s \<and>
    q_sum (\<lambda>st. attr st a) (\<lambda>st. ss_sku_id st = k) (d_stocks t) = q_sum (\<lambda>st. attr st a) (\<lambda>st. ss_sku_id st = k) (d_stocks s)"
proof (cases "st = PSI_CANCEL")
  case True
  with run show ?thesis by (simp add: set_psi_cancel_def prog_simps)
next
  case False
  with run obtain x u y ch where get: "get_by_sku sku s = (Inr x, u)"
    and stats: "set_stats [Assign_num, Sold_num] u x = Inr (y, ch)"
    and rest: "whenE (ch \<noteq> [] \<and> stat) (save_stock_fields ch y) u = (Inr (), t)"
    by (auto simp: set_psi_cancel_def stat_warning_def bool_has_attr_def restat_def bindE_run liftE_run
          split: sum.splits prod.splits)
  from rest have "t = u \<or> save_stock_fields ch y u = (Inr (), t)"
    by (auto simp: whenE_run split: if_splits)
  moreover have "a \<notin> set ch" using set_stats_changed [OF stats] a by auto
  ultimately show ?thesis
    using get_by_sku_frame [OF get] save_stock_fields_frame [of a ch y u t] by auto
qed

text \<open>
  Cancelling an item leaves the counter of its old status behind: \<open>set_psi_cancel\<close>, with or
  without recomputing, names \<open>assign_num\<close> and \<open>sold_num\<close> only, so the counter of the status
  the item had still includes it.
\<close>

theorem cancel_leaves_status_counter_stale:
  assumes "counter_ok (Psi_num st) s" and "distinct (map psi_id (d_psis s))" and "old \<in> set (d_psis s)"
    and "stands_at old st ast" and "st \<noteq> PSI_CANCEL" and "psi_num old \<noteq> 0"
    and "psi_id new = psi_id old" and "psi_sku_id new = psi_sku_id old" and "moved old new PSI_CANCEL CANCELED"
    and "set_psi_cancel (psi_sku_id old) (psi_num old) st stat
           (s\<lparr>d_psis := tbl_save psi_id new (d_psis s)\<rparr>) = (Inr (), t)"
  shows "\<not> counter_ok (Psi_num st) t"
proof -
  have frame: "d_psis t = tbl_save psi_id new (d_psis s)"
    "q_sum (\<lambda>x. attr x (Psi_num st)) (\<lambda>x. ss_sku_id x = k) (d_stocks t)
      = q_sum (\<lambda>x. attr x (Psi_num st)) (\<lambda>x. ss_sku_id x = k) (d_stocks s)" for k
    using set_psi_cancel_frame [OF assms(10), of "Psi_num st" k] by auto
  show ?thesis
    by (rule counter_drifts [OF assms(1-3,7,8) _ frame])
       (use assms(4-6,9) in \<open>auto simp: psi_effect_def stands_at_def moved_def\<close>)
qed

theorem cancel_leaves_status_counter_stale_witness:
  "\<not> counter_ok (Psi_num PSI_ASSIGNED) (snd (set_psi_cancel 8 3 PSI_ASSIGNED True
     (example_shop\<lparr>d_psis := tbl_save psi_id
        (example_item\<lparr>psi_status := PSI_CANCEL, psi_assign_status := CANCELED\<rparr>) (d_psis example_shop)\<rparr>)))"
proof -
  let ?new = "example_item\<lparr>psi_status := PSI_CANCEL, psi_assign_status := CANCELED\<rparr>"
  let ?s = "example_shop\<lparr>d_psis := tbl_save psi_id ?new (d_psis example_shop)\<rparr>"
  have run: "set_psi_cancel 8 3 PSI_ASSIGNED True ?s = (Inr (), snd (set_psi_cancel 8 3 PSI_ASSIGNED True ?s))"
    by (rule returned) (simp add: set_psi_cancel_def stat_warning_def bool_has_attr_def restat_def prog_simps
        get_by_sku_def save_stock_fields_def shop_example_defs stock_product_def attr_update_def psi_total_def)
  have "stands_at example_item PSI_ASSIGNED ASSIGNED" by (simp add: stands_at_def shop_example_defs)
  with cancel_leaves_status_counter_stale [OF example_counters(2) _ _ this, of ?new True] run
  show ?thesis by (simp add: moved_def) (simp add: shop_example_defs)
qed

text \<open>
  Releasing an item that was already merged into a package leaves it counted as merged:
  \<open>set_psi_not_assigned\<close>, with or without recomputing, takes it from \<open>psi_assigned_num\<close>, and
  \<open>psi_merged_num\<close> no longer agrees with the items.
\<close>

theorem release_of_merged_leaves_counter_stale:
  assumes "counter_ok (Psi_num PSI_MERGED) s" and "distinct (map psi_id (d_psis s))"
    and "distinct (map ss_id (d_stocks s))" and "old \<in> set (d_psis s)"
    and "stands_at old PSI_MERGED ASSIGNED" and "psi_num old \<noteq> 0"
    and "psi_id new = psi_id old" and "psi_sku_id new = psi_sku_id old" and "moved old new PSI_PAID NOT_ASSIGNED"
    and "set_psi_not_assigned (psi_sku_id old) (psi_num old) stat
           (s\<lparr>d_psis := tbl_save psi_id new (d_psis s)\<rparr>) = (Inr (), t)"
  shows "\<not> counter_ok (Psi_num PSI_MERGED) t"
proof -
  let ?u = "s\<lparr>d_psis := tbl_save psi_id new (d_psis s)\<rparr>"
  have frame: "d_psis t = tbl_save psi_id new (d_psis s)"
    "q_sum (\<lambda>x. attr x (Psi_num PSI_MERGED)) (\<lambda>x. ss_sku_id x = k) (d_stocks t)
      = q_sum (\<lambda>x. attr x (Psi_num PSI_MERGED)) (\<lambda>x. ss_sku_id x = k) (d_stocks s)" for k
    using move_stock_frame [of ?u _ "psi_not_assigned (psi_num old)" stat True t "Psi_num PSI_MERGED" k] assms(3,10)
    by (auto simp: set_psi_not_assigned_def psi_not_assigned_def)
  show ?thesis
    by (rule counter_drifts [OF assms(1,2,4,7,8) _ frame])
       (use assms(5,6,9) in \<open>auto simp: psi_effect_def stands_at_def moved_def\<close>)
qed

definition example_merged_shop :: shop_db where
  "example_merged_shop = example_shop\<lparr>d_psis := [example_item\<lparr>psi_status := PSI_MERGED\<rparr>],
     d_stocks := [example_stock\<lparr>ss_attr := (\<lambda>a. if a = Psi_num PSI_MERGED then 3 else 0)\<rparr>]\<rparr>"

theorem release_of_merged_leaves_counter_stale_witness:
  "\<not> counter_ok (Psi_num PSI_MERGED) (snd (set_psi_not_assigned 8 3 True
     (example_merged_shop\<lparr>d_psis := tbl_save psi_id
        (example_item\<lparr>psi_status := PSI_PAID, psi_assign_status := NOT_ASSIGNED\<rparr>) (d_psis example_merged_shop)\<rparr>)))"
proof -
  let ?old = "example_item\<lparr>psi_status := PSI_MERGED\<rparr>"
  let ?new = "example_item\<lparr>psi_status := PSI_PAID, psi_assign_status := NOT_ASSIGNED\<rparr>"
  let ?u = "example_merged_shop\<lparr>d_psis := tbl_save psi_id ?new (d_psis example_merged_shop)\<rparr>"
  have run: "set_psi_not_assigned 8 3 True ?u = (Inr (), snd (set_psi_not_assigned 8 3 True ?u))"
    by (rule returned) (simp add: set_psi_not_assigned_def move_stock_def stat_save_def restat_def prog_simps
        example_merged_shop_def shop_example_defs get_stock_def q_get_def psi_not_assigned_def save_stock_fields_def)
  have ok: "counter_ok (Psi_num PSI_MERGED) example_merged_shop"
    by (simp add: counter_ok_def in_sync_def example_merged_shop_def shop_example_defs psi_effect_def)
  have "stands_at ?old PSI_MERGED ASSIGNED" by (simp add: stands_at_def shop_example_defs)
  with release_of_merged_leaves_counter_stale [OF ok _ _ _ this, of ?new True] run
  show ?thesis by (simp add: moved_def) (simp add: example_merged_shop_def shop_example_defs)
qed

end
