(* ===== verification/Items.thy ===== *)
theory Items
  imports Stock
begin

text \<open>
  Packed items (\<open>PackageSkuItem\<close>, \<open>src/shopback/trades/models/packet.py\<close>): the row a paid
  order becomes in the warehouse. This theory has saving, the relations of an item to its order, its
  predicates, and the transitions that touch the item and its stock counters alone; packages and
  purchases come in \<open>Packet\<close> and \<open>Purchase\<close>. An object of the code is its row; a method that
  changes \<open>self\<close> returns the changed row. A key of 0 is an object that was never saved.
\<close>

section \<open>Saving\<close>

definition save_psi :: "psi \<Rightarrow> (shop_db, psi) prog" where
  "save_psi p = (\<lambda>s.
     if q_exists (\<lambda>q. psi_id q \<noteq> psi_id p \<and> psi_sale_order_id q = psi_sale_order_id p
          \<and> psi_sale_order_id p \<noteq> None) (d_psis s)
     then (Inl IntegrityError, s)
     else if psi_id p = 0 then
       (let q = p\<lparr>psi_id := fresh_pk psi_id (d_psis s)\<rparr> in (Inr q, s\<lparr>d_psis := d_psis s @ [q]\<rparr>))
     else (Inr p, s\<lparr>d_psis := tbl_save psi_id p (d_psis s)\<rparr>))"

definition now :: "(shop_db, time) prog" where
  "now = asks d_now"

section \<open>The item's order, trade, SKU and product\<close>

definition get_order :: "pk_id \<Rightarrow> shop_db \<Rightarrow> py_error + sale_order" where
  "get_order i s = q_get (\<lambda>o'. so_id o' = i) (d_orders s)"

definition get_trade :: "pk_id \<Rightarrow> shop_db \<Rightarrow> py_error + sale_trade" where
  "get_trade i s = q_get (\<lambda>t. st_id t = i) (d_trades s)"

definition get_sku :: "pk_id \<Rightarrow> shop_db \<Rightarrow> py_error + product_sku" where
  "get_sku i s = q_get (\<lambda>k. ps_id k = i) (d_skus s)"

definition sku_product :: "product_sku \<Rightarrow> shop_db \<Rightarrow> py_error + product" where
  "sku_product k s = q_get (\<lambda>p. prod_id p = ps_product_id k) (d_products s)"

definition psi_sale_order :: "psi \<Rightarrow> shop_db \<Rightarrow> py_error + sale_order" where
  "psi_sale_order p s = (case psi_sale_order_id p of None \<Rightarrow> Inl DoesNotExist | Some i \<Rightarrow> get_order i s)"

definition psi_sale_trade :: "psi \<Rightarrow> shop_db \<Rightarrow> py_error + sale_trade" where
  "psi_sale_trade p s = Sum_Type.case_sum Inl (\<lambda>o'. get_trade (so_sale_trade o') s) (psi_sale_order p s)"

definition sku_ware_by :: "product_sku \<Rightarrow> shop_db \<Rightarrow> py_error + ware" where
  "sku_ware_by k s = map_sum id prod_ware_by (sku_product k s)"

definition product_supplier :: "product \<Rightarrow> shop_db \<Rightarrow> supplier option" where
  "product_supplier p s =
     Option.bind (prod_supplier p) (\<lambda>i. q_first (filter (\<lambda>x. sup_id x = i) (d_suppliers s)))"

text \<open>
  \<open>get_relate_order\<close>: what an item was created from. The keys kept in \<open>oid\<close> carry a
  prefix that is removed with \<open>replace\<close>.
\<close>

datatype related = Sale_order sale_order | Tm_order tm_order | Rg_detail "rg_detail option"

definition rg_detail_id :: "psi \<Rightarrow> py_error + string option" where
  "rg_detail_id p =
     (if psi_type p \<in> {PSI_RETURN_GOODS, PSI_RETURN_OUT_ORDER, PSI_RETURN_INFERIOR} then
        (case psi_oid p of None \<Rightarrow> Inl AttributeError | Some oid \<Rightarrow> Inr (Some (remove_all ''rd'' oid)))
      else Inr None)"

definition return_goods_id :: "psi \<Rightarrow> py_error + string option" where
  "return_goods_id p =
     (if psi_type p \<in> {PSI_RETURN_GOODS, PSI_RETURN_OUT_ORDER, PSI_RETURN_INFERIOR} then
        (case psi_sale_trade_id p of None \<Rightarrow> Inl AttributeError | Some t \<Rightarrow> Inr (Some (remove_all ''rg'' t)))
      else Inr None)"

definition get_relate_order :: "psi \<Rightarrow> shop_db \<Rightarrow> py_error + related" where
  "get_relate_order p s =
     (if psi_type p = PSI_NORMAL then map_sum id Sale_order (psi_sale_order p s)
      else if psi_type p = PSI_TIANMAO then
        (case psi_oid p of
           None \<Rightarrow> Inl AttributeError
         | Some oid \<Rightarrow>
             (case nat_of_str (remove_all ''tb'' oid) of
                None \<Rightarrow> Inl (Exn ''ValueError'')
              | Some i \<Rightarrow> map_sum id Tm_order (q_get (\<lambda>x. tmo_oid x = i) (d_tm_orders s))))
      else
        (case rg_detail_id p of
           Inl e \<Rightarrow> Inl e
         | Inr None \<Rightarrow> Inr (Rg_detail None)
         | Inr (Some r) \<Rightarrow>
             (case nat_of_str r of
                None \<Rightarrow> Inl (Exn ''ValueError'')
              | Some i \<Rightarrow> Inr (Rg_detail (q_first (filter (\<lambda>x. rg_id x = i) (d_rg_details s)))))))"

section \<open>Predicates\<close>

definition psi_is_canceled :: "psi \<Rightarrow> bool" where
  "psi_is_canceled p \<longleftrightarrow> psi_assign_status p = CANCELED"

definition is_booking_needed :: "psi \<Rightarrow> bool" where
  "is_booking_needed p \<longleftrightarrow> psi_assign_status p = NOT_ASSIGNED"

definition is_booking_assigned :: "psi \<Rightarrow> bool" where
  "is_booking_assigned p \<longleftrightarrow> psi_assign_status p = ASSIGNED \<or> psi_assign_status p = FINISHED"

definition psi_is_booked :: "psi \<Rightarrow> bool" where
  "psi_is_booked p \<longleftrightarrow> psi_purchase_order_unikey p \<noteq> ''''"

definition psi_is_finished :: "psi \<Rightarrow> bool" where
  "psi_is_finished p \<longleftrightarrow> psi_assign_status p = FINISHED"

definition get_purchase_uni_key :: "psi \<Rightarrow> py_error + string" where
  "get_purchase_uni_key p = (case psi_oid p of None \<Rightarrow> Inl TypeError | Some oid \<Rightarrow> Inr (oid @ ''-1''))"

definition get_by_oid :: "string \<Rightarrow> shop_db \<Rightarrow> psi option" where
  "get_by_oid oid s = q_first (filter (\<lambda>p. psi_oid p = Some oid) (d_psis s))"

definition get_by_tid :: "string \<Rightarrow> shop_db \<Rightarrow> psi list" where
  "get_by_tid tid s = filter (\<lambda>p. psi_sale_trade_id p = Some tid) (d_psis s)"

definition get_not_assign_num :: "pk_id \<Rightarrow> shop_db \<Rightarrow> int" where
  "get_not_assign_num sku_id s =
     q_sum psi_num (\<lambda>p. psi_sku_id p = sku_id \<and> psi_assign_status p = NOT_ASSIGNED) (d_psis s)"

definition get_need_purchase :: "shop_db \<Rightarrow> psi list" where
  "get_need_purchase s =
     filter (\<lambda>p. psi_purchase_order_unikey p = '''' \<and> psi_assign_status p = NOT_ASSIGNED) (d_psis s)"

definition set_failed_time :: "psi \<Rightarrow> (shop_db, unit) prog" where
  "set_failed_time p = modify (\<lambda>s. s\<lparr>d_psis := q_update (\<lambda>q. psi_out_sid q = psi_out_sid p)
     (\<lambda>q. q\<lparr>psi_failed_retrieve_time := Some (d_now s)\<rparr>) (d_psis s)\<rparr>)"

definition cancel_failed_time :: "psi \<Rightarrow> (shop_db, unit) prog" where
  "cancel_failed_time p = whenE (psi_failed_retrieve_time p \<noteq> None) (modify (\<lambda>s.
     s\<lparr>d_psis := q_update (\<lambda>q. psi_out_sid q = psi_out_sid p)
       (\<lambda>q. q\<lparr>psi_failed_retrieve_time := None\<rparr>) (d_psis s)\<rparr>))"

text \<open>\<open>set_assign_status_time\<close> compares instead of assigning in its last branch: the cancel time
  stays as it was.\<close>

definition set_assign_status_time :: "psi \<Rightarrow> (shop_db, psi) prog" where
  "set_assign_status_time p = bindE now (\<lambda>t. ret (case psi_assign_status p of
     FINISHED \<Rightarrow> p\<lparr>psi_finish_time := Some t\<rparr>
   | ASSIGNED \<Rightarrow> p\<lparr>psi_assign_time := Some t\<rparr>
   | _ \<Rightarrow> p))"

section \<open>Orders not yet prepared at an address\<close>

definition trades_at :: "nat \<Rightarrow> shop_db \<Rightarrow> pk_id list" where
  "trades_at a s = map st_id (filter (\<lambda>t. st_user_address_id t = Some a) (d_trades s))"

definition unprepare_orders_cnt :: "string \<Rightarrow> psi_type \<Rightarrow> shop_db \<Rightarrow> py_error + int" where
  "unprepare_orders_cnt address type s =
     (if type = PSI_NORMAL then
        (case nat_of_str address of
           None \<Rightarrow> Inl (Exn ''ValueError'')
         | Some a \<Rightarrow>
             (let payed = filter (\<lambda>o'. so_sale_trade o' \<in> set (trades_at a s)
                  \<and> so_status o' = WAIT_SELLER_SEND_GOODS) (d_orders s);
                  oids = map so_oid payed
              in Inr (int (length payed) - int (q_count (\<lambda>p. psi_oid p \<in> Some ` set oids
                   \<and> psi_assign_status p = ASSIGNED) (d_psis s)))))
      else if type = PSI_TIANMAO then
        (let trades = map tmt_id (filter (\<lambda>t. tmt_user_address_unikey t = address
                \<and> tmt_wait_seller_send t) (d_tm_trades s));
             payed = filter (\<lambda>o'. tmo_trade o' \<in> set trades) (d_tm_orders s);
             oids = map (str_nat \<circ> tmo_oid) payed
         in Inr (int (length payed) - int (q_count (\<lambda>p. psi_oid p \<in> Some ` set oids
              \<and> psi_assign_status p = ASSIGNED) (d_psis s))))
      else Inr 0)"

section \<open>Transitions of an item and its counters\<close>

definition save_and_move :: "psi \<Rightarrow> (pk_id \<Rightarrow> int \<Rightarrow> bool \<Rightarrow> (shop_db, unit) prog) \<Rightarrow> bool \<Rightarrow> (shop_db, psi) prog" where
  "save_and_move p move stat =
     bindE (save_psi p) (\<lambda>p.
     thenE (move (psi_sku_id p) (psi_num p) stat)
     (ret p))"

definition set_status_init_paid :: "psi \<Rightarrow> (shop_db, psi) prog" where
  "set_status_init_paid p =
     save_and_move (p\<lparr>psi_status := PSI_PAID, psi_assign_status := NOT_ASSIGNED\<rparr>)
       set_psi_init_paid STAT_SIGN"

definition set_status_prepare_book :: "psi \<Rightarrow> (shop_db, psi) prog" where
  "set_status_prepare_book p = bindE now (\<lambda>t.
     save_and_move (p\<lparr>psi_status := PSI_PREPARE_BOOK, psi_book_time := Some t\<rparr>)
       set_psi_prepare_book STAT_SIGN)"

definition set_status_booked :: "psi \<Rightarrow> string \<Rightarrow> (shop_db, psi) prog" where
  "set_status_booked p purchase_order_unikey = bindE now (\<lambda>t.
     save_and_move (p\<lparr>psi_status := PSI_BOOKED, psi_booked_time := Some t,
         psi_purchase_order_unikey := purchase_order_unikey\<rparr>)
       set_psi_booked STAT_SIGN)"

definition set_status_init_assigned :: "psi \<Rightarrow> (shop_db, psi) prog" where
  "set_status_init_assigned p = bindE now (\<lambda>t.
     save_and_move (p\<lparr>psi_status := PSI_ASSIGNED, psi_assign_status := ASSIGNED,
         psi_init_assigned := True, psi_assign_time := Some t,
         psi_ware_by := (if psi_ware_by p = WARE_THIRD then WARE_SH else psi_ware_by p)\<rparr>)
       set_psi_init_assigned STAT_SIGN)"

definition set_status_waitscan :: "psi \<Rightarrow> bool \<Rightarrow> (shop_db, psi) prog" where
  "set_status_waitscan p stat = bindE now (\<lambda>t.
     save_and_move (p\<lparr>psi_status := PSI_WAITSCAN, psi_scan_time := Some t\<rparr>) set_psi_waitscan stat)"

definition set_status_waitpost :: "psi \<Rightarrow> bool \<Rightarrow> (shop_db, psi) prog" where
  "set_status_waitpost p stat = bindE now (\<lambda>t.
     save_and_move (p\<lparr>psi_status := PSI_WAITPOST, psi_assign_status := ASSIGNED, psi_scan_time := Some t\<rparr>)
       set_psi_waitpost stat)"

definition set_status_sent :: "psi \<Rightarrow> bool \<Rightarrow> (shop_db, psi) prog" where
  "set_status_sent p stat = bindE now (\<lambda>t.
     save_and_move (p\<lparr>psi_status := PSI_SENT, psi_assign_status := FINISHED, psi_weight_time := Some t\<rparr>)
       set_psi_sent stat)"

definition set_status_finish :: "psi \<Rightarrow> bool \<Rightarrow> (shop_db, psi) prog" where
  "set_status_finish p stat = bindE now (\<lambda>t.
     save_and_move (p\<lparr>psi_status := PSI_FINISH, psi_assign_status := FINISHED, psi_finish_time := Some t\<rparr>)
       set_psi_finish stat)"

definition clear_order_info :: "psi \<Rightarrow> (shop_db, psi) prog" where
  "clear_order_info p =
     (if psi_assign_status p = FINISHED then ret p
      else save_psi (p\<lparr>psi_status := PSI_ASSIGNED, psi_package_order_id := None,
        psi_package_order_pid := None, psi_logistics_company_code := '''',
        psi_logistics_company_name := '''', psi_out_sid := ''''\<rparr>))"

text \<open>\<open>finish_third_send\<close> writes the row and the counter \<open>post_num\<close> with \<open>update\<close>; the
  object keeps its old values.\<close>

definition finish_third_send :: "psi \<Rightarrow> string \<Rightarrow> logistics_company \<Rightarrow> (shop_db, unit) prog" where
  "finish_third_send p out_sid company = atomic (
     whenE (psi_assign_status p = VIRTUAL_ASSIGNED \<or> psi_assign_status p = ASSIGNED) (modify (\<lambda>s.
       s\<lparr>d_psis := q_update (\<lambda>q. psi_id q = psi_id p) (\<lambda>q. q\<lparr>psi_assign_status := FINISHED,
            psi_status := PSI_SENT, psi_out_sid := out_sid, psi_logistics_company_name := lc_name company,
            psi_logistics_company_code := lc_code company, psi_finish_time := Some (d_now s)\<rparr>) (d_psis s),
         d_stocks := q_update (\<lambda>x. ss_sku_id x = psi_sku_id p)
            (\<lambda>x. attr_update Post_num (attr x Post_num + psi_num p) x) (d_stocks s)\<rparr>)))"

section \<open>What a transition touches\<close>

lemma stat_save_touches: "\<exists>S. snd (stat_save st as stat w s) = s\<lparr>d_stocks := S\<rparr>"
proof -
  have "\<exists>S. s = s\<lparr>d_stocks := S\<rparr>" by (rule exI [of _ "d_stocks s"]) simp
  then show ?thesis
    by (auto simp: stat_save_def save_stock_fields_def prog_simps split: sum.splits prod.splits)
qed

lemma move_stock_touches: "\<exists>S. snd (move_stock sku ds stat w s) = s\<lparr>d_stocks := S\<rparr>"
proof (cases "get_stock sku s")
  case (Inl e)
  then show ?thesis
    by (simp add: move_stock_def prog_simps) (rule exI [of _ "d_stocks s"], simp)
next
  case (Inr st)
  then show ?thesis using stat_save_touches by (simp add: move_stock_def prog_simps)
qed

lemmas set_psi_defs = set_psi_init_paid_def set_psi_prepare_book_def set_psi_booked_def
  set_psi_init_assigned_def set_psi_booked_2_assigned_def set_psi_not_assigned_def set_psi_merged_def
  set_psi_waitscan_def set_psi_waitpost_def set_psi_sent_def set_psi_finish_def

lemma save_psi_touches: "\<exists>P. snd (save_psi p s) = s\<lparr>d_psis := P\<rparr>"
proof -
  have "\<exists>P. s = s\<lparr>d_psis := P\<rparr>" by (rule exI [of _ "d_psis s"]) simp
  then show ?thesis by (auto simp: save_psi_def Let_def)
qed

lemma save_and_move_touches:
  assumes "\<And>s. \<exists>S. snd (move (psi_sku_id q) (psi_num q) stat s) = s\<lparr>d_stocks := S\<rparr>"
    and "save_and_move p move stat s = (Inr q, t)"
  shows "\<exists>P S. t = s\<lparr>d_psis := P, d_stocks := S\<rparr>"
proof -
  from assms(2) obtain u where u: "save_psi p s = (Inr q, u)" "move (psi_sku_id q) (psi_num q) stat u = (Inr (), t)"
    by (auto simp: save_and_move_def run_ok)
  from save_psi_touches [of p s] u obtain P where P: "u = s\<lparr>d_psis := P\<rparr>" by auto
  from assms(1) [of u] u obtain S where "t = u\<lparr>d_stocks := S\<rparr>" by auto
  with P show ?thesis by (intro exI [of _ P] exI [of _ S]) simp
qed

lemma saved_psi:
  assumes "save_psi p s = (Inr q, t)"
  shows "q = (if psi_id p = 0 then p\<lparr>psi_id := fresh_pk psi_id (d_psis s)\<rparr> else p)"
    and "t = s\<lparr>d_psis := (if psi_id p = 0 then d_psis s @ [q] else tbl_save psi_id q (d_psis s))\<rparr>"
  using assms by (auto simp: save_psi_def Let_def split: if_splits)

end
