(* ===== verification/Packet.thy ===== *)
theory Packet
  imports Items
begin

text \<open>
  Packages (\<open>PackageOrder\<close>, \<open>PackageStat\<close>, \<open>src/shopback/trades/models/packet.py\<close>):
  the key of a package, its creation, how its numbers follow the items packed in it, its address and
  carrier, and the steps of the warehouse up to the dispatch. An object of the code is its row; a
  method that changes \<open>self\<close> returns the changed row. The stock moves of an item's transitions
  come from \<open>Items\<close>. The queued task \<open>task_update_package_stat_num\<close>, the carrier's
  subscription and the logger are not part of the state.
\<close>

section \<open>Saving\<close>

definition save_package :: "package_order \<Rightarrow> (shop_db, package_order) prog" where
  "save_package po = (\<lambda>s.
     if q_exists (\<lambda>q. po_pid q \<noteq> po_pid po \<and> po_id q = po_id po) (d_packages s)
     then (Inl IntegrityError, s)
     else if po_pid po = 0 then
       (let q = po\<lparr>po_pid := fresh_pk po_pid (d_packages s)\<rparr>
        in (Inr q, s\<lparr>d_packages := d_packages s @ [q]\<rparr>))
     else (Inr po, s\<lparr>d_packages := tbl_save po_pid po (d_packages s)\<rparr>))"

text \<open>\<open>po.save(update_fields=...)\<close> writes the named columns (\<open>f\<close>) of the row and fails
  when there is none.\<close>

definition save_package_fields ::
  "(package_order \<Rightarrow> package_order) \<Rightarrow> package_order \<Rightarrow> (shop_db, unit) prog" where
  "save_package_fields f po = (\<lambda>s.
     if q_exists (\<lambda>q. po_pid q = po_pid po) (d_packages s)
     then (Inr (), s\<lparr>d_packages := q_update (\<lambda>q. po_pid q = po_pid po) f (d_packages s)\<rparr>)
     else (Inl (Exn ''DatabaseError''), s))"

definition package_by_id :: "string \<Rightarrow> shop_db \<Rightarrow> package_order option" where
  "package_by_id i s = q_first (filter (\<lambda>q. po_id q = i) (d_packages s))"

text \<open>\<open>SaleOrder.save\<close> fills a missing buyer from the trade.\<close>

definition save_order :: "sale_order \<Rightarrow> (shop_db, sale_order) prog" where
  "save_order o' =
     bindE (if so_buyer_id o' = 0
            then bindE (liftE (get_trade (so_sale_trade o'))) (\<lambda>t. ret (o'\<lparr>so_buyer_id := st_buyer_id t\<rparr>))
            else ret o') (\<lambda>o'.
     (\<lambda>s. if q_exists (\<lambda>q. so_id q \<noteq> so_id o' \<and> so_oid q = so_oid o') (d_orders s)
          then (Inl IntegrityError, s)
          else if so_id o' = 0 then
            (let q = o'\<lparr>so_id := fresh_pk so_id (d_orders s)\<rparr> in (Inr q, s\<lparr>d_orders := d_orders s @ [q]\<rparr>))
          else (Inr o', s\<lparr>d_orders := tbl_save so_id o' (d_orders s)\<rparr>)))"

definition order_finish_sent :: "sale_order \<Rightarrow> (shop_db, sale_order) prog" where
  "order_finish_sent o' = bindE now (\<lambda>t.
     save_order (o'\<lparr>so_status := WAIT_BUYER_CONFIRM_GOODS, so_consign_time := Some t\<rparr>))"

definition tm_order_finish_sent :: "tm_order \<Rightarrow> (shop_db, unit) prog" where
  "tm_order_finish_sent x = modify (\<lambda>s. s\<lparr>d_tm_orders := tbl_save tmo_oid
     (x\<lparr>tmo_wait_buyer_confirm := True, tmo_consign_time := Some (d_now s)\<rparr>) (d_tm_orders s)\<rparr>)"

section \<open>Queries and predicates\<close>

definition q_last :: "'r list \<Rightarrow> 'r option" where
  "q_last xs = q_first (rev xs)"

definition is_sent :: "package_order \<Rightarrow> bool" where
  "is_sent po \<longleftrightarrow> po_sys_status po \<in> {FINISHED_STATUS, WAIT_CUSTOMER_RECEIVE}"

definition can_merge :: "package_order \<Rightarrow> bool" where
  "can_merge po \<longleftrightarrow> po_sys_status po \<notin> {WAIT_CUSTOMER_RECEIVE, FINISHED_STATUS, PO_DELETE}"

definition package_sku_items :: "package_order \<Rightarrow> shop_db \<Rightarrow> psi list" where
  "package_sku_items po s = filter (\<lambda>p. psi_package_order_id p = Some (po_id po)) (d_psis s)"

definition assigned_items :: "package_order \<Rightarrow> shop_db \<Rightarrow> psi list" where
  "assigned_items po s = filter (\<lambda>p. psi_assign_status p = ASSIGNED) (package_sku_items po s)"

definition first_package_sku_item :: "package_order \<Rightarrow> shop_db \<Rightarrow> psi option" where
  "first_package_sku_item po s =
     (let live = filter (\<lambda>p. psi_assign_status p \<noteq> CANCELED) (package_sku_items po s)
      in if live \<noteq> [] then q_first live else q_first (package_sku_items po s))"

definition package_payment :: "package_order \<Rightarrow> shop_db \<Rightarrow> yuan" where
  "package_payment po s = sum_list (map psi_payment (package_sku_items po s))"

definition pstat_id :: "package_order \<Rightarrow> string" where
  "pstat_id po = join_with ''-'' (take 3 (split_on CHR ''-'' (po_id po)))"

definition get_ids_by_sale_trade :: "string \<Rightarrow> shop_db \<Rightarrow> pk_id list" where
  "get_ids_by_sale_trade tid s =
     List.map_filter psi_package_order_pid (filter (\<lambda>p. psi_sale_trade_id p = Some tid) (d_psis s))"

definition package_type :: "package_order \<Rightarrow> shop_db \<Rightarrow> py_error + psi_type option" where
  "package_type po s =
     (if po_action_type po = 0 then Inr (Some PSI_NORMAL)
      else if po_action_type po = 1 then
        (case q_first (filter (\<lambda>p. psi_assign_status p \<noteq> CANCELED) (package_sku_items po s)) of
           None \<Rightarrow> Inl AttributeError
         | Some p \<Rightarrow>
             Inr (Some (if psi_type p \<in> {PSI_RETURN_GOODS, PSI_RETURN_OUT_ORDER, PSI_RETURN_INFERIOR}
                        then PSI_RETURN_GOODS else psi_type p)))
      else Inr None)"

definition is_ready_completion :: "package_order \<Rightarrow> bool \<times> package_order" where
  "is_ready_completion po =
     (if po_sku_num po = po_order_sku_num po then (True, po\<lparr>po_ready_completion := True\<rparr>) else (False, po))"

section \<open>Counting packages\<close>

definition get_package_num :: "string \<Rightarrow> shop_db \<Rightarrow> nat" where
  "get_package_num package_stat_id s =
     q_count (\<lambda>q. contains_str (package_stat_id @ ''-'') (po_id q) \<and> po_sys_status q \<noteq> PKG_NEW_CREATED)
       (d_packages s)"

definition get_sended_package_num :: "string \<Rightarrow> shop_db \<Rightarrow> nat" where
  "get_sended_package_num package_stat_id s =
     q_count (\<lambda>q. starts_with (package_stat_id @ ''-'') (po_id q)
        \<and> po_sys_status q \<in> {WAIT_CUSTOMER_RECEIVE, FINISHED_STATUS, PO_DELETE}) (d_packages s)"

section \<open>The key of a package\<close>

definition numbered :: "string \<Rightarrow> nat \<Rightarrow> string" where
  "numbered i n = i @ ''-'' @ str_nat n"

lemma numbered_inj: "numbered i m = numbered i n \<Longrightarrow> m = n"
  by (auto simp: numbered_def dest: str_nat_inj)

text \<open>\<open>while True\<close>: the number goes up while the key is taken. The loop ends because only
  finitely many keys are.\<close>

lemma length_filter_less:
  assumes "\<And>x. x \<in> set xs \<Longrightarrow> P x \<Longrightarrow> Q x" and "y \<in> set xs" and "Q y" and "\<not> P y"
  shows "length (filter P xs) < length (filter Q xs)"
proof -
  have le: "length (filter P ys) \<le> length (filter Q ys)" if "set ys \<subseteq> set xs" for ys
    using that assms(1) by (induction ys) auto
  from assms(2) obtain us vs where "xs = us @ y # vs" by (auto dest: split_list)
  moreover from this have "set us \<subseteq> set xs" "set vs \<subseteq> set xs" by auto
  note this [THEN le]
  ultimately show ?thesis using assms(3,4) by simp
qed

function free_num :: "string \<Rightarrow> string list \<Rightarrow> nat \<Rightarrow> nat" where
  "free_num i taken n = (if numbered i n \<in> set taken then free_num i taken (n + 1) else n)"
  by pat_completeness auto

termination
proof (relation "measure (\<lambda>(i, taken, n). length (filter (\<lambda>x. \<exists>k\<ge>n. x = numbered i k) taken))")
  fix i taken n
  assume "numbered i n \<in> set taken"
  then have "length (filter (\<lambda>x. \<exists>k\<ge>n + 1. x = numbered i k) taken)
    < length (filter (\<lambda>x. \<exists>k\<ge>n. x = numbered i k) taken)"
    by (rule length_filter_less [rotated]) (auto dest: numbered_inj Suc_leD)
  then show "((i, taken, n + 1), i, taken, n) \<in> measure (\<lambda>(i, taken, n).
      length (filter (\<lambda>x. \<exists>k\<ge>n. x = numbered i k) taken))" by simp
qed simp

declare free_num.simps [simp del]

definition stat_key :: "string \<Rightarrow> string \<Rightarrow> ware \<Rightarrow> string \<Rightarrow> string" where
  "stat_key buyer_unikey address_unikey ware_by direct_vendor_code =
     buyer_unikey @ ''-'' @ address_unikey @ ''-'' @ str_nat (ware_code ware_by) @
     (if direct_vendor_code \<noteq> '''' then ''-'' @ direct_vendor_code else '''')"

definition first_num :: "ware \<Rightarrow> string \<Rightarrow> shop_db \<Rightarrow> nat" where
  "first_num ware_by i s =
     (if ware_by = WARE_THIRD then get_package_num i s + 1 else get_sended_package_num i s + 1)"

definition closed_statuses :: "bool \<Rightarrow> po_status list" where
  "closed_statuses merge =
     [FINISHED_STATUS, WAIT_CUSTOMER_RECEIVE, WAIT_OUTWARE_SEND_CALLBACK] @
     (if merge then [] else [WAIT_PREPARE_SEND_STATUS, WAIT_CHECK_BARCODE_STATUS,
        WAIT_SCAN_WEIGHT_STATUS, PO_DELETE])"

definition taken_ids :: "bool \<Rightarrow> shop_db \<Rightarrow> string list" where
  "taken_ids merge s = map po_id (filter (\<lambda>q. po_sys_status q \<in> set (closed_statuses merge)) (d_packages s))"

definition gen_new_package_id :: "string \<Rightarrow> string \<Rightarrow> ware \<Rightarrow> string \<Rightarrow> bool \<Rightarrow> shop_db \<Rightarrow> string" where
  "gen_new_package_id buyer_unikey address_unikey ware_by direct_vendor_code merge s =
     (let i = stat_key buyer_unikey address_unikey ware_by direct_vendor_code
      in numbered i (free_num i (taken_ids merge s) (first_num ware_by i s)))"

section \<open>Numbers and marks\<close>

definition redo_sign :: "string \<Rightarrow> package_order \<Rightarrow> package_order" where
  "redo_sign action po =
     (let po1 =
        (if po_sys_status po \<notin> {WAIT_PREPARE_SEND_STATUS, PKG_NEW_CREATED} \<and> po_is_picking_print po then
           (let po = po\<lparr>po_sys_status := (if po_sys_status po = WAIT_SCAN_WEIGHT_STATUS
                          then WAIT_CHECK_BARCODE_STATUS else po_sys_status po),
                       po_redo_sign := True\<rparr>
            in if action = ''reset_picking_print'' then po\<lparr>po_is_picking_print := False\<rparr>
               else if action = ''reset_express_print'' then po\<lparr>po_is_express_print := False\<rparr>
               else po)
         else po)
      in if po_sys_status po1 = PKG_NEW_CREATED then po1\<lparr>po_sys_status := WAIT_PREPARE_SEND_STATUS\<rparr>
         else po1)"

definition set_redo_sign :: "string \<Rightarrow> bool \<Rightarrow> package_order \<Rightarrow> (shop_db, package_order) prog" where
  "set_redo_sign action save_data po =
     (if save_data then save_package (redo_sign action po) else ret (redo_sign action po))"

text \<open>What \<open>reset_sku_item_num\<close> returns (whether a number changed) is not used by any
  caller; the model returns the package.\<close>

definition reset_sku_item_num :: "package_order \<Rightarrow> shop_db \<Rightarrow> py_error + package_order" where
  "reset_sku_item_num po s =
     (if is_sent po then
        Inr (po\<lparr>po_sku_num := int (length (filter (\<lambda>p. psi_assign_status p = FINISHED)
               (package_sku_items po s)))\<rparr>)
      else
        (let sku_num = int (length (assigned_items po s)) in
         if sku_num = 0 then Inr po
         else
           (case package_type po s of
              Inl e \<Rightarrow> Inl e
            | Inr None \<Rightarrow> Inl (Exn ''no package type'')
            | Inr (Some type) \<Rightarrow>
                (case unprepare_orders_cnt (po_user_address_id po) type s of
                   Inl e \<Rightarrow> Inl e
                 | Inr order_sku_num \<Rightarrow>
                     Inr (po\<lparr>po_sku_num := sku_num, po_order_sku_num := order_sku_num,
                       po_ready_completion := (order_sku_num > 0 \<and> sku_num = order_sku_num)\<rparr>)))))"

definition FLASH_SELLER_ID :: string where
  "FLASH_SELLER_ID = ''flashsale''"

definition flash_seller :: "shop_db \<Rightarrow> py_error + shop_user" where
  "flash_seller s = q_get (\<lambda>u. su_uid u = FLASH_SELLER_ID) (d_users s)"

definition reset_to_new_create :: "package_order \<Rightarrow> (shop_db, package_order) prog" where
  "reset_to_new_create po =
     bindE (liftE flash_seller) (\<lambda>u.
     save_package (new_package\<lparr>po_pid := po_pid po, po_id := po_id po, po_buyer_id := po_buyer_id po,
       po_user_address_id := po_user_address_id po, po_ware_by := po_ware_by po, po_tid := po_tid po,
       po_receiver_name := po_receiver_name po, po_receiver_state := po_receiver_state po,
       po_receiver_city := po_receiver_city po, po_receiver_district := po_receiver_district po,
       po_receiver_address := po_receiver_address po, po_receiver_zip := po_receiver_zip po,
       po_receiver_mobile := po_receiver_mobile po, po_receiver_phone := po_receiver_phone po,
       po_buyer_nick := po_buyer_nick po, po_can_send_time := None, po_seller_id := su_id u,
       po_sku_num := 0\<rparr>))"

definition add_package_sku_item :: "package_order \<Rightarrow> (shop_db, package_order) prog" where
  "add_package_sku_item po = bindE (liftE (reset_sku_item_num po)) save_package"

definition update_relase_package_sku_item :: "package_order \<Rightarrow> (shop_db, package_order) prog" where
  "update_relase_package_sku_item po =
     (if is_sent po then ret po
      else bindE (asks (assigned_items po)) (\<lambda>items.
        if items \<noteq> [] then
          bindE (set_redo_sign '''' False po) (\<lambda>po.
          bindE (liftE (reset_sku_item_num po)) save_package)
        else reset_to_new_create po))"

section \<open>Address and carrier\<close>

definition trade_receiver :: "sale_trade \<Rightarrow> receiver" where
  "trade_receiver t = \<lparr>rc_name = st_receiver_name t, rc_state = st_receiver_state t,
     rc_city = st_receiver_city t, rc_district = st_receiver_district t,
     rc_address = st_receiver_address t, rc_zip = st_receiver_zip t,
     rc_mobile = st_receiver_mobile t, rc_phone = st_receiver_phone t\<rparr>"

definition set_receiver :: "receiver \<Rightarrow> package_order \<Rightarrow> package_order" where
  "set_receiver r po = po\<lparr>po_receiver_name := rc_name r, po_receiver_state := rc_state r,
     po_receiver_city := rc_city r, po_receiver_district := rc_district r,
     po_receiver_address := rc_address r, po_receiver_zip := rc_zip r,
     po_receiver_mobile := rc_mobile r, po_receiver_phone := rc_phone r\<rparr>"

definition copy_order_info :: "sale_trade \<Rightarrow> package_order \<Rightarrow> shop_db \<Rightarrow> py_error + package_order" where
  "copy_order_info t po s = map_sum id (\<lambda>u. (set_receiver (trade_receiver t) po)\<lparr>po_tid := st_tid t,
     po_buyer_nick := st_buyer_nick t, po_seller_id := su_id u\<rparr>) (flash_seller s)"

definition last_assigned :: "package_order \<Rightarrow> shop_db \<Rightarrow> psi option" where
  "last_assigned po s = q_last (assigned_items po s)"

definition trade_of_tid :: "psi \<Rightarrow> shop_db \<Rightarrow> sale_trade option" where
  "trade_of_tid p s = q_first (filter (\<lambda>t. Some (st_tid t) = psi_sale_trade_id p) (d_trades s))"

definition has_tid :: "psi \<Rightarrow> bool" where
  "has_tid p \<longleftrightarrow> (case psi_sale_trade_id p of None \<Rightarrow> False | Some t \<Rightarrow> t \<noteq> '''')"

definition tm_trade_of :: "tm_order \<Rightarrow> shop_db \<Rightarrow> py_error + tm_trade" where
  "tm_trade_of x s = q_get (\<lambda>t. tmt_id t = tmo_trade x) (d_tm_trades s)"

definition supplier_address :: "pk_id \<Rightarrow> shop_db \<Rightarrow> user_address option" where
  "supplier_address i s = q_first (filter (\<lambda>a. ua_supplier_id a = Some i) (d_addresses s))"

definition get_return_goods :: "psi \<Rightarrow> shop_db \<Rightarrow> py_error + return_goods" where
  "get_return_goods p s =
     (case return_goods_id p of
        Inl e \<Rightarrow> Inl e
      | Inr None \<Rightarrow> Inl AttributeError
      | Inr (Some r) \<Rightarrow>
          (case nat_of_str r of
             None \<Rightarrow> Inl (Exn ''ValueError'')
           | Some i \<Rightarrow>
               (case q_first (filter (\<lambda>g. rgs_id g = i) (d_return_goods s)) of
                  None \<Rightarrow> Inl AttributeError
                | Some g \<Rightarrow> Inr g)))"

definition address_of :: "return_goods \<Rightarrow> shop_db \<Rightarrow> py_error + user_address" where
  "address_of g s =
     (case rgs_supplier g of
        None \<Rightarrow> Inl AttributeError
      | Some i \<Rightarrow> (case supplier_address i s of None \<Rightarrow> Inl AttributeError | Some ua \<Rightarrow> Inr ua))"

text \<open>
  For a return to a supplier the code puts the receiver's mobile number into \<open>buyer_id\<close>; the
  column takes a number, and text that is none is refused when the row is written. The model refuses
  it here.
\<close>

definition reset_package_address :: "package_order \<Rightarrow> shop_db \<Rightarrow> py_error + package_order" where
  "reset_package_address po s =
     (case last_assigned po s of
        None \<Rightarrow> Inr po
      | Some item \<Rightarrow>
          if psi_type item = PSI_NORMAL \<and> has_tid item then
            (case trade_of_tid item s of
               None \<Rightarrow> Inl AttributeError
             | Some t \<Rightarrow> Inr ((set_receiver (trade_receiver t) po)\<lparr>po_buyer_id := Some (st_buyer_id t)\<rparr>))
          else if psi_type item = PSI_TIANMAO then
            (case get_relate_order item s of
               Inr (Tm_order x) \<Rightarrow>
                 map_sum id (\<lambda>t. (set_receiver (tmt_receiver t) po)\<lparr>po_buyer_id := None\<rparr>) (tm_trade_of x s)
             | Inl e \<Rightarrow> Inl e
             | Inr _ \<Rightarrow> Inl AttributeError)
          else if psi_type item \<in> {PSI_RETURN_GOODS, PSI_RETURN_OUT_ORDER, PSI_RETURN_INFERIOR} then
            (case get_return_goods item s of
               Inl e \<Rightarrow> Inl e
             | Inr g \<Rightarrow>
                 (case address_of g s of
                    Inl e \<Rightarrow> Inl e
                  | Inr ua \<Rightarrow>
                      (case nat_of_str (rc_mobile (ua_receiver ua)) of
                         None \<Rightarrow> Inl (Exn ''ValueError'')
                       | Some n \<Rightarrow> Inr ((set_receiver (ua_receiver ua) po)\<lparr>po_buyer_id := Some n\<rparr>))))
          else Inr po)"

definition set_package_address :: "package_order \<Rightarrow> (shop_db, package_order) prog" where
  "set_package_address po =
     bindE (asks (last_assigned po)) (\<lambda>item.
     case item of
       None \<Rightarrow> ret po
     | Some item \<Rightarrow>
         if psi_type item = PSI_NORMAL \<and> has_tid item then
           bindE (asks (trade_of_tid item)) (\<lambda>t.
           case t of
             None \<Rightarrow> ret po
           | Some t \<Rightarrow> save_package ((set_receiver (trade_receiver t) po)\<lparr>po_buyer_id := Some (st_buyer_id t)\<rparr>))
         else ret po)"

definition get_company :: "string \<Rightarrow> shop_db \<Rightarrow> py_error + logistics_company" where
  "get_company code s = q_get (\<lambda>c. lc_code c = code) (d_companies s)"

text \<open>A missing id and the id 0 are both false.\<close>

definition truthy_id :: "int option \<Rightarrow> bool" where
  "truthy_id i \<longleftrightarrow> i \<noteq> None \<and> i \<noteq> Some 0"

definition write_company :: "int option \<Rightarrow> package_order \<Rightarrow> (shop_db, unit) prog" where
  "write_company c po = save_package_fields (\<lambda>q. q\<lparr>po_logistics_company := c\<rparr>) po"

definition write_company_print :: "int option \<Rightarrow> package_order \<Rightarrow> (shop_db, unit) prog" where
  "write_company_print c po =
     (let po = (if po_is_express_print po then po\<lparr>po_is_express_print := False, po_redo_sign := True\<rparr> else po)
      in save_package_fields (\<lambda>q. q\<lparr>po_logistics_company := c, po_is_express_print := po_is_express_print po,
           po_redo_sign := po_redo_sign po\<rparr>) po)"

definition set_logistics_company :: "package_order \<Rightarrow> int option \<Rightarrow> (shop_db, unit) prog" where
  "set_logistics_company po lid =
     (if truthy_id lid \<and> \<not> truthy_id (po_logistics_company po) then write_company lid po
      else if truthy_id lid then write_company_print lid po
      else
        bindE (asks (\<lambda>s. q_last (package_sku_items po s))) (\<lambda>item.
        case item of
          None \<Rightarrow> ret ()
        | Some p \<Rightarrow>
            bindE (if psi_type p = PSI_NORMAL
                   then bindE (liftE (psi_sale_trade p)) (\<lambda>t. ret (st_logistics_company t))
                   else ret None) (\<lambda>c.
            if c \<noteq> None then
              whenE ((if truthy_id (po_logistics_company po) then po_logistics_company po else None) \<noteq> c)
                (if po_is_express_print po then write_company_print c po else write_company c po)
            else
              whenE (\<not> truthy_id (po_logistics_company po))
                (bindE (liftE (get_company ''YUNDA_QR'')) (\<lambda>y. write_company (Some (lc_id y)) po)))))"

section \<open>Creating a package\<close>

fun ware_of :: "nat \<Rightarrow> ware option" where
  "ware_of n = List.find (\<lambda>w. ware_code w = n)
     [WARE_NONE, WARE_SH, WARE_GZ, WARE_COMPANY, WARE_FCSZ, WARE_FCGZ, WARE_THIRD, WARE_FCSLYC]"

text \<open>\<open>int(x) for x in id.split('-')\<close>; the third number names a warehouse.\<close>

definition key_parts :: "string \<Rightarrow> py_error + (nat \<times> nat \<times> ware)" where
  "key_parts i =
     (case split_on CHR ''-'' i of
        b # a # w # _ \<Rightarrow>
          (case (nat_of_str b, nat_of_str a, nat_of_str w) of
             (Some b, Some a, Some w) \<Rightarrow>
               (case ware_of w of Some w \<Rightarrow> Inr (b, a, w) | None \<Rightarrow> Inl (Exn ''no such warehouse''))
           | _ \<Rightarrow> Inl (Exn ''ValueError''))
      | _ \<Rightarrow> Inl (Exn ''ValueError''))"

definition create_package :: "string \<Rightarrow> sale_trade \<Rightarrow> (shop_db, package_order) prog" where
  "create_package i t = atomic (
     bindE (liftE (\<lambda>s. key_parts i)) (\<lambda>(buyer_id, address_id, ware).
     bindE (liftE (copy_order_info t (new_package\<lparr>po_id := i, po_sys_status := WAIT_PREPARE_SEND_STATUS,
        po_buyer_id := Some buyer_id, po_user_address_id := str_nat address_id, po_ware_by := ware\<rparr>))) (\<lambda>po.
     bindE now (\<lambda>n.
     bindE (liftE (unprepare_orders_cnt (str_nat buyer_id) PSI_NORMAL)) (\<lambda>cnt.
     save_package (po\<lparr>po_can_send_time := Some n, po_sku_num := 1, po_order_sku_num := cnt,
       po_ready_completion := (cnt = 1)\<rparr>))))))"

definition YOUNI_SELLER_NICK :: string where
  "YOUNI_SELLER_NICK = List.map char_of
     [0xE4, 0xBC, 0x98, 0xE5, 0xB0, 0xBC, 0xE4, 0xB8, 0x96, 0xE7, 0x95, 0x8C :: nat,
      0xE6, 0x97, 0x97, 0xE8, 0x88, 0xB0, 0xE5, 0xBA, 0x97]"

definition tm_seller :: "shop_db \<Rightarrow> py_error + shop_user" where
  "tm_seller s = q_get (\<lambda>u. su_nick u = YOUNI_SELLER_NICK) (d_users s)"

definition create_tianmao_package :: "string \<Rightarrow> tm_trade \<Rightarrow> (shop_db, package_order) prog" where
  "create_tianmao_package i t = atomic (
     bindE (liftE tm_seller) (\<lambda>u. bindE now (\<lambda>n.
     save_package ((set_receiver (tmt_receiver t) new_package)\<lparr>po_id := i,
       po_sys_status := WAIT_PREPARE_SEND_STATUS, po_tid := ''tm'' @ str_nat (tmt_id t), po_action_type := 1,
       po_ware_by := WARE_SH, po_sku_num := 1, po_order_sku_num := 1, po_seller_id := su_id u,
       po_user_address_id := tmt_user_address_unikey t, po_buyer_id := None,
       po_buyer_nick := tmt_buyer_nick t, po_buyer_message := tmt_buyer_message t,
       po_seller_memo := tmt_seller_memo t, po_can_send_time := Some n\<rparr>))))"

definition return_supplier :: "return_goods \<Rightarrow> shop_db \<Rightarrow> py_error + supplier" where
  "return_supplier g s =
     (case rgs_supplier g of
        None \<Rightarrow> Inl AttributeError
      | Some i \<Rightarrow> q_get (\<lambda>x. sup_id x = i) (d_suppliers s))"

definition create_return_package :: "string \<Rightarrow> return_goods \<Rightarrow> (shop_db, package_order) prog" where
  "create_return_package i g = atomic (
     bindE (liftE (return_supplier g)) (\<lambda>spl.
     bindE (liftE flash_seller) (\<lambda>u.
     bindE (liftE (address_of g)) (\<lambda>ua. bindE now (\<lambda>n.
     save_package ((set_receiver (ua_receiver ua) new_package)\<lparr>po_id := i,
       po_sys_status := WAIT_PREPARE_SEND_STATUS, po_tid := ''rg'' @ str_nat (rgs_id g), po_action_type := 1,
       po_ware_by := sup_ware_by spl, po_sku_num := 1, po_order_sku_num := 1, po_seller_id := su_id u,
       po_user_address_id := str_nat (ua_id ua), po_buyer_id := Some (sup_id spl),
       po_buyer_nick := sup_name spl, po_can_send_time := Some n\<rparr>))))))"

text \<open>\<open>get_or_create\<close> sets attributes (\<open>address_id\<close>, \<open>ware_by_id\<close>) that are no
  columns: address and warehouse of the new row keep their defaults.\<close>

definition get_or_create :: "string \<Rightarrow> sale_trade \<Rightarrow> (shop_db, package_order \<times> bool) prog" where
  "get_or_create i t =
     bindE (asks (package_by_id i)) (\<lambda>po.
     case po of
       Some po \<Rightarrow> ret (po, False)
     | None \<Rightarrow>
         bindE (liftE (\<lambda>s. case map nat_of_str (split_on CHR ''-'' i) of
            [Some b, Some a, Some w, _] \<Rightarrow> Inr b | _ \<Rightarrow> Inl (Exn ''ValueError''))) (\<lambda>buyer_id.
         bindE (liftE (copy_order_info t (new_package\<lparr>po_id := i, po_buyer_id := Some buyer_id\<rparr>))) (\<lambda>po.
         bindE (save_package po) (\<lambda>po. ret (po, True)))))"

section \<open>Steps in the warehouse\<close>

definition refresh_package :: "package_order \<Rightarrow> int option \<Rightarrow> (shop_db, unit) prog" where
  "refresh_package po lid =
     whenE (\<not> is_sent po)
       (bindE (asks (assigned_items po)) (\<lambda>items.
        if items \<noteq> [] then
          bindE (set_redo_sign ''is_picking_print'' False po) (\<lambda>po.
          bindE (liftE (reset_sku_item_num po)) (\<lambda>po.
          bindE (set_package_address po) (\<lambda>po.
          set_logistics_company po lid)))
        else bindE (reset_to_new_create po) (\<lambda>_. ret ())))"

definition batch_set_operator :: "pk_id list \<Rightarrow> string \<Rightarrow> (shop_db, unit) prog" where
  "batch_set_operator ids operator = modify (\<lambda>s. s\<lparr>d_packages := q_update
     (\<lambda>q. po_pid q \<in> set ids \<and> \<not> po_is_locked q) (\<lambda>q. q\<lparr>po_is_locked := True, po_operator := operator\<rparr>)
     (d_packages s)\<rparr>)"

definition batch_revert_status :: "pk_id list \<Rightarrow> (shop_db, unit) prog" where
  "batch_revert_status ids =
     bindE (asks (\<lambda>s. filter (\<lambda>q. po_pid q \<in> set ids \<and> po_is_locked q) (d_packages s))) (\<lambda>pos.
     thenE (forE (\<lambda>po. bindE (save_package (po\<lparr>po_is_express_print := False,
         po_is_picking_print := False, po_out_sid := ''''\<rparr>)) (\<lambda>_. ret ())) pos)
     (modify (\<lambda>s. s\<lparr>d_packages := q_update (\<lambda>q. po_pid q \<in> set ids \<and> po_is_locked q)
       (\<lambda>q. q\<lparr>po_is_express_print := False, po_is_picking_print := False, po_out_sid := ''''\<rparr>)
       (d_packages s)\<rparr>)))"

text \<open>A step saves the package and then runs a transition of its items, one after the other.\<close>

definition each_item :: "(psi \<Rightarrow> (shop_db, psi) prog) \<Rightarrow> psi list \<Rightarrow> (shop_db, unit) prog" where
  "each_item f items = forE (\<lambda>p. bindE (f p) (\<lambda>_. ret ())) items"

definition print_picking :: "package_order \<Rightarrow> (shop_db, unit) prog" where
  "print_picking po =
     bindE (save_package (po\<lparr>po_is_picking_print := True\<rparr>)) (\<lambda>po.
     bindE (asks (package_sku_items po)) (each_item (\<lambda>p. set_status_waitscan p True)))"

definition batch_set_picking_print :: "pk_id list \<Rightarrow> (shop_db, unit) prog" where
  "batch_set_picking_print ids =
     bindE (asks (\<lambda>s. filter (\<lambda>q. po_pid q \<in> set ids) (d_packages s))) (forE print_picking)"

definition set_out_sid :: "string \<Rightarrow> bool \<Rightarrow> string \<Rightarrow> package_order \<Rightarrow> (shop_db, package_order) prog" where
  "set_out_sid out_sid is_qrcode qrcode_msg po =
     save_package (po\<lparr>po_out_sid := out_sid, po_is_qrcode := is_qrcode, po_qrcode_msg := qrcode_msg\<rparr>)"

definition scancheck :: "string \<Rightarrow> package_order \<Rightarrow> (shop_db, unit) prog" where
  "scancheck username po =
     bindE (save_package (po\<lparr>po_sys_status := WAIT_SCAN_WEIGHT_STATUS, po_scanner := username\<rparr>)) (\<lambda>po.
     bindE (asks (package_sku_items po)) (each_item (\<lambda>p. set_status_waitpost p True)))"

definition scanweight :: "string \<Rightarrow> package_order \<Rightarrow> (shop_db, unit) prog" where
  "scanweight username po =
     bindE (save_package (po\<lparr>po_sys_status := WAIT_CUSTOMER_RECEIVE, po_weighter := username\<rparr>)) (\<lambda>po.
     bindE (asks (assigned_items po)) (each_item (\<lambda>p. set_status_sent p True)))"

definition finish_package :: "package_order \<Rightarrow> (shop_db, unit) prog" where
  "finish_package po =
     bindE (save_package (po\<lparr>po_sys_status := FINISHED_STATUS\<rparr>)) (\<lambda>po.
     bindE (asks (\<lambda>s. filter (\<lambda>p. psi_assign_status p = FINISHED) (package_sku_items po s)))
       (each_item (\<lambda>p. set_status_finish p True)))"

text \<open>\<open>cancel\<close> assigns the void column \<open>status\<close>, which the model leaves out: the
  package's state in the warehouse stays.\<close>

definition cancel_package :: "package_order \<Rightarrow> (shop_db, unit) prog" where
  "cancel_package po =
     bindE (save_package po) (\<lambda>po.
     modify (\<lambda>s. s\<lparr>d_psis := q_update (\<lambda>p. psi_package_order_id p = Some (po_id po)
         \<and> psi_assign_status p \<in> {NOT_ASSIGNED, ASSIGNED})
       (\<lambda>p. p\<lparr>psi_assign_status := CANCELED, psi_status := PSI_CANCEL\<rparr>) (d_psis s)\<rparr>))"

section \<open>Dispatch\<close>

text \<open>\<open>update_quantity\<close> and \<open>update_wait_post_num\<close> of the SKU with \<open>dec_update\<close>.\<close>

definition sku_leaves :: "pk_id \<Rightarrow> int \<Rightarrow> (shop_db, unit) prog" where
  "sku_leaves sku num =
     bindE (liftE (get_sku sku)) (\<lambda>k.
     modify (\<lambda>s. s\<lparr>d_skus := q_update (\<lambda>x. ps_id x = ps_id k) (\<lambda>x. x\<lparr>ps_quantity := ps_quantity x - num,
       ps_wait_post_num := ps_wait_post_num x - num\<rparr>) (d_skus s)\<rparr>))"

definition relate_finish_sent :: "psi \<Rightarrow> (shop_db, unit) prog" where
  "relate_finish_sent p =
     bindE (liftE (get_relate_order p)) (\<lambda>r.
     case r of
       Sale_order o' \<Rightarrow> bindE (order_finish_sent o') (\<lambda>_. ret ())
     | Tm_order x \<Rightarrow> tm_order_finish_sent x
     | Rg_detail _ \<Rightarrow> raise AttributeError)"

definition company_of :: "package_order \<Rightarrow> shop_db \<Rightarrow> py_error + logistics_company" where
  "company_of po s =
     (case po_logistics_company po of
        None \<Rightarrow> Inl AttributeError
      | Some i \<Rightarrow> q_get (\<lambda>c. lc_id c = i) (d_companies s))"

definition send_item :: "package_order \<Rightarrow> psi \<Rightarrow> (shop_db, unit) prog" where
  "send_item po p =
     bindE (liftE (company_of po)) (\<lambda>c.
     bindE (set_status_sent (p\<lparr>psi_out_sid := po_out_sid po, psi_logistics_company_name := lc_name c,
       psi_logistics_company_code := lc_code c\<rparr>) True) (\<lambda>p.
     thenE (whenE (psi_type p \<noteq> PSI_BYHAND) (relate_finish_sent p))
     (sku_leaves (psi_sku_id p) (psi_num p))))"

definition finish_scan_weight :: "package_order \<Rightarrow> (shop_db, unit) prog" where
  "finish_scan_weight po =
     bindE now (\<lambda>t.
     bindE (save_package (po\<lparr>po_sys_status := WAIT_CUSTOMER_RECEIVE, po_weight_time := Some t\<rparr>)) (\<lambda>po.
     bindE (asks (assigned_items po)) (\<lambda>items.
     thenE (forE (send_item po) items)
     (bindE (liftE (company_of po)) (\<lambda>_. ret ())))))"

definition need_send_num :: "sale_order \<Rightarrow> shop_db \<Rightarrow> int" where
  "need_send_num o' s =
     (if so_status o' = WAIT_SELLER_SEND_GOODS then
        so_num o' - q_sum psi_num (\<lambda>p. psi_sale_order_id p = Some (so_id o')
          \<and> psi_assign_status p = FINISHED) (d_psis s)
      else 0)"

definition third_send_item :: "package_order \<Rightarrow> logistics_company \<Rightarrow> psi \<Rightarrow> (shop_db, unit) prog" where
  "third_send_item po c p =
     bindE (liftE (psi_sale_order p)) (\<lambda>o'.
     bindE (asks (\<lambda>s. need_send_num o' s = psi_num p)) (\<lambda>all_send.
     thenE (finish_third_send p (po_out_sid po) c)
     (thenE (whenE all_send (bindE (order_finish_sent o') (\<lambda>_. ret ())))
     (sku_leaves (psi_sku_id p) (psi_num p)))))"

definition finish_third_package :: "string \<Rightarrow> logistics_company \<Rightarrow> string option \<Rightarrow> package_order \<Rightarrow> (shop_db, unit) prog" where
  "finish_third_package out_sid c weighter po =
     bindE now (\<lambda>t.
     bindE (save_package (po\<lparr>po_out_sid := out_sid, po_logistics_company := Some (lc_id c),
       po_sys_status := WAIT_CUSTOMER_RECEIVE, po_weight_time := Some t,
       po_weighter := arg_or weighter (po_weighter po)\<rparr>)) (\<lambda>po.
     bindE (asks (\<lambda>s. filter (\<lambda>p. psi_assign_status p \<in> {ASSIGNED, VIRTUAL_ASSIGNED}) (package_sku_items po s))) (\<lambda>items.
     forE (third_send_item po c) items)))"

end
