(* ===== verification/Purchase.thy ===== *)
theory Purchase
  imports Items
begin

text \<open>
  Purchasing (\<open>src/shopback/dinghuo/models_purchase.py\<close>). An item that stock cannot serve gets
  a purchase arrangement; the arrangements of a SKU in the open purchase order of its supplier add up
  to a purchase detail, the details to the purchase order, and both are mirrored in the older order
  list and its details. The signal of an arrangement queues a task; the task is
  \<open>task_purchasearrangement_update_purchasedetail\<close>.
\<close>

section \<open>Keys\<close>

definition gen_purchase_order_unikey :: "psi \<Rightarrow> shop_db \<Rightarrow> py_error + string" where
  "gen_purchase_order_unikey p s =
     (case get_sku (psi_sku_id p) s of
        Inl e \<Rightarrow> Inl e
      | Inr k \<Rightarrow>
          (case sku_product k s of
             Inl e \<Rightarrow> Inl e
           | Inr prd \<Rightarrow>
               (case product_supplier prd s of
                  None \<Rightarrow> Inr ''s0''
                | Some spl \<Rightarrow>
                    (let cnt = q_count (\<lambda>po. pu_supplier_id po = sup_id spl \<and> pu_status po \<noteq> PO_OPEN)
                           (d_purchases s)
                     in Inr (str_nat (sup_id spl) @ ''-'' @ str_nat (cnt + 1))))))"

definition gen_purchase_arrangement_unikey :: "string \<Rightarrow> string \<Rightarrow> string" where
  "gen_purchase_arrangement_unikey po_unikey pr_unikey = po_unikey @ ''-'' @ pr_unikey"

definition gen_purchase_detail_unikey :: "arrangement \<Rightarrow> string" where
  "gen_purchase_detail_unikey pa = str_nat (pa_sku_id pa) @ ''-'' @ pa_purchase_order_unikey pa"

definition get_supplier :: "string \<Rightarrow> shop_db \<Rightarrow> py_error + supplier" where
  "get_supplier purchase_order_unikey s =
     (case nat_of_str (hd (split_on CHR ''-'' purchase_order_unikey)) of
        None \<Rightarrow> Inl (Exn ''ValueError'')
      | Some i \<Rightarrow> q_get (\<lambda>x. sup_id x = i) (d_suppliers s))"

section \<open>Saving\<close>

definition save_arrangement :: "arrangement \<Rightarrow> (shop_db, arrangement) prog" where
  "save_arrangement pa = (\<lambda>s.
     if q_exists (\<lambda>q. pa_id q \<noteq> pa_id pa \<and> pa_uni_key q = pa_uni_key pa) (d_arrangements s)
     then (Inl IntegrityError, s)
     else if pa_id pa = 0 then
       (let q = pa\<lparr>pa_id := fresh_pk pa_id (d_arrangements s)\<rparr>
        in (Inr q, s\<lparr>d_arrangements := d_arrangements s @ [q]\<rparr>))
     else (Inr pa, s\<lparr>d_arrangements := tbl_save pa_id pa (d_arrangements s)\<rparr>))"

definition save_detail :: "purchase_detail \<Rightarrow> (shop_db, purchase_detail) prog" where
  "save_detail pd = (\<lambda>s.
     if q_exists (\<lambda>q. pd_id q \<noteq> pd_id pd \<and> pd_uni_key q = pd_uni_key pd) (d_purchase_details s)
     then (Inl IntegrityError, s)
     else if pd_id pd = 0 then
       (let q = pd\<lparr>pd_id := fresh_pk pd_id (d_purchase_details s)\<rparr>
        in (Inr q, s\<lparr>d_purchase_details := d_purchase_details s @ [q]\<rparr>))
     else (Inr pd, s\<lparr>d_purchase_details := tbl_save pd_id pd (d_purchase_details s)\<rparr>))"

definition save_purchase :: "purchase_order \<Rightarrow> (shop_db, purchase_order) prog" where
  "save_purchase po = (\<lambda>s.
     if pu_id po = 0 then
       (let q = po\<lparr>pu_id := fresh_pk pu_id (d_purchases s)\<rparr>
        in (Inr q, s\<lparr>d_purchases := d_purchases s @ [q]\<rparr>))
     else (Inr po, s\<lparr>d_purchases := tbl_save pu_id po (d_purchases s)\<rparr>))"

text \<open>\<open>purchase_order_unikey\<close> is unique. Saving a new order list fires \<open>update_orderdetail_relationship\<close>, which attaches the
  order details of the same purchase order to it.\<close>

definition save_order_list :: "order_list \<Rightarrow> (shop_db, unit) prog" where
  "save_order_list ol = (\<lambda>s.
     if q_exists (\<lambda>l. ol_id l \<noteq> ol_id ol \<and> ol_purchase_order_unikey l = ol_purchase_order_unikey ol)
          (d_order_lists s)
     then (Inl IntegrityError, s)
     else if ol_id ol = 0 then
       (let i = fresh_pk ol_id (d_order_lists s)
        in (Inr (), s\<lparr>d_order_lists := d_order_lists s @ [ol\<lparr>ol_id := i\<rparr>],
              d_order_details := (if ol_purchase_order_unikey ol = '''' then d_order_details s
                else q_update (\<lambda>d. od_purchase_order_unikey d = ol_purchase_order_unikey ol)
                       (\<lambda>d. d\<lparr>od_orderlist_id := Some i\<rparr>) (d_order_details s))\<rparr>))
     else (Inr (), s\<lparr>d_order_lists := tbl_save ol_id ol (d_order_lists s)\<rparr>))"

definition save_order_detail :: "order_detail \<Rightarrow> (shop_db, unit) prog" where
  "save_order_detail od = (\<lambda>s.
     if od_id od = 0 then
       (Inr (), s\<lparr>d_order_details := d_order_details s @ [od\<lparr>od_id := fresh_pk od_id (d_order_details s)\<rparr>]\<rparr>)
     else (Inr (), s\<lparr>d_order_details := tbl_save od_id od (d_order_details s)\<rparr>))"

section \<open>Prices for display\<close>

definition unit_price_display :: "purchase_detail \<Rightarrow> yuan" where
  "unit_price_display pd = py_fmt2 (of_int (pd_unit_price pd) / 100)"

definition total_price_display :: "purchase_detail \<Rightarrow> yuan" where
  "total_price_display pd = py_fmt2 (of_int (pd_unit_price pd * pd_book_num pd) / 100)"

section \<open>Order lists and their details\<close>

definition sync_order_list :: "purchase_order \<Rightarrow> (shop_db, unit) prog" where
  "sync_order_list po =
     bindE (asks (\<lambda>s. q_first (filter (\<lambda>l. ol_purchase_order_unikey l = pu_uni_key po \<and> ol_stage l \<noteq> 9)
       (d_order_lists s)))) (\<lambda>ol.
     case ol of
       None \<Rightarrow>
         bindE (liftE (get_supplier (pu_uni_key po))) (\<lambda>spl.
         save_order_list \<lparr>ol_id = 0, ol_purchase_order_unikey = pu_uni_key po,
           ol_order_amount = of_int (pu_total_price po) / 100, ol_supplier_id = sup_id spl,
           ol_stage = 0, ol_purchase_total_num = 0\<rparr>)
     | Some ol \<Rightarrow>
         whenE ((ol_order_amount ol \<noteq> of_int (pu_total_price po) \<or> ol_purchase_total_num ol \<noteq> pu_book_num po)
             \<and> ol_stage ol = 0)
           (save_order_list (ol\<lparr>ol_order_amount := of_int (pu_total_price po) / 100,
              ol_purchase_total_num := pu_book_num po\<rparr>)))"

definition sync_order_detail :: "purchase_detail \<Rightarrow> (shop_db, unit) prog" where
  "sync_order_detail pd =
     bindE (asks (\<lambda>s. q_first (filter (\<lambda>d. od_purchase_detail_unikey d = pd_uni_key pd) (d_order_details s)))) (\<lambda>od.
     case od of
       None \<Rightarrow>
         bindE (liftE (\<lambda>s. case get_sku (pd_sku_id pd) s of Inl _ \<Rightarrow> Inl AttributeError | Inr k \<Rightarrow> sku_product k s)) (\<lambda>product.
         bindE (asks (\<lambda>s. q_first (filter (\<lambda>l. ol_purchase_order_unikey l = pd_purchase_order_unikey pd)
           (d_order_lists s)))) (\<lambda>ol.
         save_order_detail \<lparr>od_id = 0, od_product_id = prod_id product, od_outer_id = pd_outer_id pd,
           od_product_name = pd_title pd, od_chichu_id = pd_sku_id pd,
           od_product_chicun = pd_sku_properties_name pd, od_buy_quantity = pd_book_num pd,
           od_arrival_quantity = 0, od_arrival_time = None, od_buy_unitprice = unit_price_display pd,
           od_total_price = total_price_display pd, od_purchase_detail_unikey = pd_uni_key pd,
           od_purchase_order_unikey = pd_purchase_order_unikey pd,
           od_orderlist_id = map_option ol_id ol\<rparr>))
     | Some od \<Rightarrow>
         bindE (liftE (\<lambda>s. case od_orderlist_id od of
             None \<Rightarrow> Inr False
           | Some i \<Rightarrow> map_sum id (\<lambda>l. ol_stage l > 0) (q_get (\<lambda>l. ol_id l = i) (d_order_lists s)))) (\<lambda>fixed.
         whenE (\<not> fixed \<and> (od_total_price od \<noteq> of_int (pd_total_price pd) \<or> od_buy_quantity od \<noteq> pd_book_num pd))
           (save_order_detail (od\<lparr>od_buy_quantity := pd_book_num pd, od_buy_unitprice := unit_price_display pd,
              od_total_price := total_price_display pd\<rparr>))))"

section \<open>Statistics of orders and details\<close>

definition details_of :: "string \<Rightarrow> purchase_detail \<Rightarrow> bool" where
  "details_of k pd \<longleftrightarrow> pd_purchase_order_unikey pd = k"

definition refresh_purchase ::
  "string \<Rightarrow> supplier \<Rightarrow> int \<Rightarrow> int \<Rightarrow> int \<Rightarrow> cents \<Rightarrow> (shop_db, purchase_order) prog" where
  "refresh_purchase k spl book_num need_num arrival_num total_price =
     bindE (asks (\<lambda>s. q_first (filter (\<lambda>po. pu_uni_key po = k) (d_purchases s)))) (\<lambda>po.
     case po of
       None \<Rightarrow> save_purchase \<lparr>pu_id = 0, pu_uni_key = k, pu_supplier_id = sup_id spl,
         pu_supplier_name = sup_name spl, pu_book_num = book_num, pu_need_num = need_num,
         pu_arrival_num = arrival_num, pu_total_price = total_price, pu_status = PO_OPEN\<rparr>
     | Some po \<Rightarrow>
         if pu_status po = PO_OPEN \<and> (pu_book_num po \<noteq> book_num \<or> pu_need_num po \<noteq> need_num
              \<or> pu_arrival_num po \<noteq> arrival_num)
         then save_purchase (po\<lparr>pu_book_num := book_num, pu_need_num := need_num,
                pu_arrival_num := arrival_num, pu_total_price := total_price\<rparr>)
         else ret po)"

definition purchase_restat :: "string \<Rightarrow> (shop_db, unit) prog" where
  "purchase_restat k =
     bindE (asks (\<lambda>s. \<lambda>f. q_sum f (details_of k) (d_purchase_details s))) (\<lambda>sum_of.
     bindE (liftE (get_supplier k)) (\<lambda>spl.
     bindE (refresh_purchase k spl (sum_of pd_book_num) (sum_of pd_need_num) (sum_of pd_arrival_num)
       (sum_of pd_total_price))
     sync_order_list))"

definition counts_for :: "string \<Rightarrow> pk_id \<Rightarrow> arrangement \<Rightarrow> bool" where
  "counts_for k sku pa \<longleftrightarrow> pa_purchase_order_unikey pa = k \<and> pa_sku_id pa = sku \<and> pa_status pa = PA_EFFECT"

definition arranged :: "string \<Rightarrow> pk_id \<Rightarrow> shop_db \<Rightarrow> int" where
  "arranged k sku s = q_sum pa_num (counts_for k sku) (d_arrangements s)"

definition new_detail :: "arrangement \<Rightarrow> int \<Rightarrow> product_sku \<Rightarrow> purchase_detail" where
  "new_detail pa n sku = \<lparr>pd_id = 0,
     pd_uni_key = str_nat (pa_sku_id pa) @ ''-'' @ pa_purchase_order_unikey pa,
     pd_purchase_order_unikey = pa_purchase_order_unikey pa,
     pd_outer_id = pa_outer_id pa, pd_outer_sku_id = pa_outer_sku_id pa, pd_sku_id = pa_sku_id pa,
     pd_title = pa_title pa, pd_sku_properties_name = pa_sku_properties_name pa,
     pd_book_num = n, pd_need_num = n, pd_arrival_num = 0, pd_status = PO_OPEN,
     pd_unit_price = py_int (ps_cost sku * 100),
     pd_total_price = py_int (ps_cost sku * 100 * of_int n)\<rparr>"

definition detail_create :: "arrangement \<Rightarrow> (shop_db, purchase_detail) prog" where
  "detail_create pa =
     bindE (asks (arranged (pa_purchase_order_unikey pa) (pa_sku_id pa))) (\<lambda>sum_of.
     bindE (liftE (get_sku (pa_sku_id pa))) (\<lambda>sku.
     bindE (save_detail (new_detail pa sum_of sku)) (\<lambda>pd.
     thenE (sync_order_detail pd)
     (thenE (purchase_restat (pa_purchase_order_unikey pa))
     (ret pd)))))"

definition refresh_detail :: "purchase_detail \<Rightarrow> int \<Rightarrow> product_sku \<Rightarrow> (shop_db, purchase_detail) prog" where
  "refresh_detail pd sum_of sku =
     (let unit_price = py_int (ps_cost sku * 100);
          total_price = py_int (ps_cost sku * 100 * of_int sum_of)
      in if pd_book_num pd \<noteq> sum_of \<or> pd_total_price pd \<noteq> total_price then
           save_detail (pd\<lparr>pd_book_num := sum_of, pd_need_num := sum_of, pd_unit_price := unit_price,
             pd_total_price := unit_price * sum_of\<rparr>)
         else ret pd)"

definition detail_restat :: "purchase_detail \<Rightarrow> (shop_db, purchase_detail) prog" where
  "detail_restat pd =
     bindE (asks (arranged (pd_purchase_order_unikey pd) (pd_sku_id pd))) (\<lambda>sum_of.
     bindE (liftE (get_sku (pd_sku_id pd))) (\<lambda>sku.
     bindE (refresh_detail pd sum_of sku) (\<lambda>pd.
     thenE (sync_order_detail pd)
     (thenE (purchase_restat (pd_purchase_order_unikey pd))
     (ret pd)))))"

section \<open>Arrangements\<close>

definition arrangement_create :: "psi \<Rightarrow> string option \<Rightarrow> (shop_db, arrangement) prog" where
  "arrangement_create p purchase_order_unikey =
     bindE (case purchase_order_unikey of None \<Rightarrow> liftE (gen_purchase_order_unikey p) | Some k \<Rightarrow> ret k) (\<lambda>k.
     bindE (liftE (\<lambda>s. get_purchase_uni_key p)) (\<lambda>pr.
     save_arrangement \<lparr>pa_id = 0, pa_package_sku_item_id = psi_id p,
       pa_oid = (case psi_oid p of None \<Rightarrow> '''' | Some oid \<Rightarrow> oid),
       pa_uni_key = gen_purchase_arrangement_unikey k pr, pa_purchase_order_unikey = k,
       pa_purchase_record_unikey = pr, pa_outer_id = psi_outer_id p, pa_outer_sku_id = psi_outer_sku_id p,
       pa_sku_id = psi_sku_id p, pa_title = psi_title p, pa_sku_properties_name = psi_sku_properties_name p,
       pa_num = psi_num p, pa_status = (if is_booking_needed p then PA_EFFECT else PA_CANCEL),
       pa_purchase_order_status = PO_OPEN, pa_initial_book = False, pa_gen_order = False,
       pa_inbound_in = False\<rparr>))"

definition skuitem :: "arrangement \<Rightarrow> shop_db \<Rightarrow> py_error + psi" where
  "skuitem pa s = q_get (\<lambda>p. psi_oid p = Some (pa_oid pa)) (d_psis s)"

definition reset_purchase_order :: "arrangement \<Rightarrow> shop_db \<Rightarrow> py_error + arrangement" where
  "reset_purchase_order pa s =
     (if pa_initial_book pa then Inr pa
      else
        (case skuitem pa s of
           Inl e \<Rightarrow> Inl e
         | Inr p \<Rightarrow>
             (case gen_purchase_order_unikey p s of
                Inl e \<Rightarrow> Inl e
              | Inr k \<Rightarrow>
                  (case get_purchase_uni_key p of
                     Inl e \<Rightarrow> Inl e
                   | Inr pr \<Rightarrow> Inr (pa\<lparr>pa_purchase_order_unikey := k,
                       pa_uni_key := gen_purchase_arrangement_unikey k pr, pa_status := PA_EFFECT\<rparr>)))))"

definition find_detail :: "arrangement \<Rightarrow> shop_db \<Rightarrow> purchase_detail option" where
  "find_detail pa s = q_first (filter (\<lambda>pd. pd_uni_key pd = gen_purchase_detail_unikey pa) (d_purchase_details s))"

text \<open>\<open>.update(purchase_order_unikey=..., uni_key=..., status=...)\<close> of one row; the unique key
  of another row makes it fail.\<close>

definition rekey_arrangement :: "arrangement \<Rightarrow> (shop_db, unit) prog" where
  "rekey_arrangement pa = (\<lambda>s.
     if q_exists (\<lambda>q. pa_id q = pa_id pa) (d_arrangements s)
        \<and> q_exists (\<lambda>q. pa_id q \<noteq> pa_id pa \<and> pa_uni_key q = pa_uni_key pa) (d_arrangements s)
     then (Inl IntegrityError, s)
     else (Inr (), s\<lparr>d_arrangements := q_update (\<lambda>q. pa_id q = pa_id pa)
       (\<lambda>q. q\<lparr>pa_purchase_order_unikey := pa_purchase_order_unikey pa, pa_uni_key := pa_uni_key pa,
          pa_status := pa_status pa\<rparr>) (d_arrangements s)\<rparr>))"

definition prepare_item_of :: "arrangement \<Rightarrow> (shop_db, unit) prog" where
  "prepare_item_of pa =
     bindE (liftE (skuitem pa)) (\<lambda>p. bindE (set_status_prepare_book p) (\<lambda>_. ret ()))"

text \<open>The recursive call is made at most once: it passes \<open>retry=False\<close>.\<close>

function generate_order :: "bool \<Rightarrow> arrangement \<Rightarrow> (shop_db, unit) prog" where
  "generate_order retry pa =
     (if pa_purchase_order_unikey pa = ''s0'' then ret ()
      else
        thenE (modify (\<lambda>s. s\<lparr>d_arrangements := q_update (\<lambda>q. pa_id q = pa_id pa)
          (\<lambda>q. q\<lparr>pa_gen_order := True\<rparr>) (d_arrangements s)\<rparr>))
        (bindE (asks (find_detail pa)) (\<lambda>pd.
         case pd of
           None \<Rightarrow> bindE (detail_create pa) (\<lambda>_. prepare_item_of pa)
         | Some pd \<Rightarrow>
             if pd_status pd = PO_OPEN then bindE (detail_restat pd) (\<lambda>_. prepare_item_of pa)
             else if retry then
               bindE (liftE (reset_purchase_order pa)) (\<lambda>pa.
               thenE (rekey_arrangement pa)
               (bindE (liftE (\<lambda>s. q_get (\<lambda>q. pa_id q = pa_id pa) (d_arrangements s))) (\<lambda>pa.
               thenE (generate_order False pa)
               (prepare_item_of pa))))
             else raise (Exn ''already booked''))))"
  by pat_completeness auto

termination
  by (relation "measure (\<lambda>(retry, _). if retry then 1 else 0)") auto

declare generate_order.simps [simp del]

definition arrangement_cancel :: "arrangement \<Rightarrow> (shop_db, unit) prog" where
  "arrangement_cancel pa =
     (if pa_initial_book pa then ret ()
      else
        bindE (save_arrangement (pa\<lparr>pa_status := PA_CANCEL\<rparr>)) (\<lambda>pa.
        bindE (asks (find_detail pa)) (\<lambda>pd.
        case pd of
          None \<Rightarrow> ret ()
        | Some pd \<Rightarrow>
            if pd_status pd = PO_OPEN then bindE (detail_restat pd) (\<lambda>pd. bindE (save_detail pd) (\<lambda>_. ret ()))
            else ret ())))"

definition purchase_of_key :: "string \<Rightarrow> shop_db \<Rightarrow> py_error + purchase_order" where
  "purchase_of_key k s = q_get (\<lambda>po. pu_uni_key po = k) (d_purchases s)"

definition detail_arrangements :: "purchase_detail \<Rightarrow> arrangement \<Rightarrow> bool" where
  "detail_arrangements pd pa \<longleftrightarrow> pa_purchase_order_unikey pa = pd_purchase_order_unikey pd
     \<and> pa_sku_id pa = pd_sku_id pd \<and> pa_status pa = PA_EFFECT \<and> pa_num pa > 0"

definition restatall :: "purchase_order \<Rightarrow> (shop_db, unit) prog" where
  "restatall po =
     bindE (asks (\<lambda>s. filter (details_of (pu_uni_key po)) (d_purchase_details s)))
       (forE (\<lambda>pd. bindE (detail_restat pd) (\<lambda>_. ret ())))"

definition repurchase :: "pk_id \<Rightarrow> (shop_db, unit) prog" where
  "repurchase sku_id =
     bindE (asks (\<lambda>s. q_first (filter (\<lambda>pd. pd_status pd = PO_OPEN \<and> pd_sku_id pd = sku_id) (d_purchase_details s)))) (\<lambda>pd.
     case pd of
       None \<Rightarrow> ret ()
     | Some pd \<Rightarrow>
         bindE (liftE (purchase_of_key (pd_purchase_order_unikey pd))) (\<lambda>_.
         bindE (asks (\<lambda>s. filter (detail_arrangements pd) (d_arrangements s))) (\<lambda>pas.
         thenE (forE (\<lambda>pa.
             bindE (liftE (reset_purchase_order pa)) (\<lambda>pa.
             bindE (save_arrangement pa)
             (generate_order False))) pas)
         (bindE (detail_restat pd) (\<lambda>_. ret ())))))"

text \<open>The arrived goods are handed out greedily: an arrangement that no longer fits is skipped.\<close>

fun hand_out :: "int \<Rightarrow> arrangement list \<Rightarrow> arrangement list" where
  "hand_out num [] = []"
| "hand_out num (pa # pas) =
     (if num \<ge> pa_num pa then pa\<lparr>pa_inbound_in := True\<rparr> # hand_out (num - pa_num pa) pas
      else hand_out num pas)"

definition set_pa_inbound :: "purchase_detail \<Rightarrow> (shop_db, unit) prog" where
  "set_pa_inbound pd =
     bindE (liftE (purchase_of_key (pd_purchase_order_unikey pd))) (\<lambda>_.
     thenE (modify (\<lambda>s. s\<lparr>d_arrangements := q_update (detail_arrangements pd)
       (\<lambda>q. q\<lparr>pa_inbound_in := False\<rparr>) (d_arrangements s)\<rparr>))
     (bindE (asks (\<lambda>s. filter (detail_arrangements pd) (d_arrangements s))) (\<lambda>pas.
      forE (\<lambda>pa. bindE (save_arrangement pa) (\<lambda>_. ret ())) (hand_out (pd_arrival_num pd) pas))))"

section \<open>Tasks\<close>

definition task_purchasearrangement_update_purchasedetail :: "pk_id \<Rightarrow> (shop_db, unit) prog" where
  "task_purchasearrangement_update_purchasedetail paid = atomic (
     bindE (liftE (\<lambda>s. q_get (\<lambda>q. pa_id q = paid) (d_arrangements s))) (generate_order False))"

definition task_packageskuitem_update_purchase_arrangement :: "psi \<Rightarrow> (shop_db, unit) prog" where
  "task_packageskuitem_update_purchase_arrangement p = atomic (
     bindE (asks (\<lambda>s. q_first (filter (\<lambda>q. Some (pa_oid q) = psi_oid p) (d_arrangements s)))) (\<lambda>pa.
     case pa of
       None \<Rightarrow> bindE (arrangement_create p None) (\<lambda>_. ret ())
     | Some pa \<Rightarrow>
         if pa_initial_book pa then ret ()
         else if pa_status pa = PA_CANCEL \<and> is_booking_needed p then
           bindE (liftE (purchase_of_key (pa_purchase_order_unikey pa))) (\<lambda>po.
           bindE (if pu_status po \<in> {PO_BOOKED, PO_FINISHED} then
               bindE (liftE (gen_purchase_order_unikey p)) (\<lambda>k.
               bindE (liftE (\<lambda>s. get_purchase_uni_key p)) (\<lambda>pr.
               ret (pa\<lparr>pa_purchase_order_unikey := k, pa_uni_key := gen_purchase_arrangement_unikey k pr\<rparr>)))
             else ret pa) (\<lambda>pa.
           bindE (save_arrangement (pa\<lparr>pa_status := PA_EFFECT\<rparr>)) (\<lambda>_. ret ())))
         else if pa_status pa = PA_EFFECT \<and> (is_booking_assigned p \<or> psi_is_canceled p) then
           bindE (save_arrangement (pa\<lparr>pa_status := PA_CANCEL\<rparr>)) (\<lambda>_. ret ())
         else ret ()))"

section \<open>What the operations leave alone\<close>

text \<open>Order lists and order details are mirrors: keeping them up to date touches nothing else.\<close>

lemma save_order_list_frame:
  assumes "save_order_list ol s = (r, t)"
  shows "d_arrangements t = d_arrangements s" "d_purchase_details t = d_purchase_details s"
    "d_purchases t = d_purchases s" "d_psis t = d_psis s" "d_stocks t = d_stocks s"
  using assms by (auto simp: save_order_list_def Let_def split: if_splits)

lemma sync_order_list_frame:
  assumes "sync_order_list po s = (r, t)"
  shows "d_arrangements t = d_arrangements s" "d_purchase_details t = d_purchase_details s"
    "d_purchases t = d_purchases s" "d_psis t = d_psis s" "d_stocks t = d_stocks s"
  using assms
  by (auto simp: sync_order_list_def prog_simps split: option.splits sum.splits if_splits
      dest: save_order_list_frame)

lemma sync_order_detail_frame:
  assumes "sync_order_detail pd s = (r, t)"
  shows "d_arrangements t = d_arrangements s" "d_purchase_details t = d_purchase_details s"
    "d_purchases t = d_purchases s" "d_psis t = d_psis s" "d_stocks t = d_stocks s"
  using assms
  by (auto simp: sync_order_detail_def save_order_detail_def prog_simps Let_def
      split: option.splits sum.splits if_splits)

lemmas mirror_frames = sync_order_list_frame sync_order_detail_frame

definition purchase_adds_up :: "string \<Rightarrow> shop_db \<Rightarrow> bool" where
  "purchase_adds_up k s \<longleftrightarrow>
     (\<exists>po. q_first (filter (\<lambda>po. pu_uni_key po = k) (d_purchases s)) = Some po \<and>
       (pu_status po = PO_OPEN \<longrightarrow>
          pu_book_num po = q_sum pd_book_num (details_of k) (d_purchase_details s) \<and>
          pu_need_num po = q_sum pd_need_num (details_of k) (d_purchase_details s) \<and>
          pu_arrival_num po = q_sum pd_arrival_num (details_of k) (d_purchase_details s)))"

lemma purchase_restat_run:
  assumes pks: "distinct (map pu_id (d_purchases s))" "\<forall>po \<in> set (d_purchases s). pu_id po \<noteq> 0"
    and run: "purchase_restat k s = (Inr (), t)"
  shows "d_arrangements t = d_arrangements s \<and> d_purchase_details t = d_purchase_details s \<and>
    d_psis t = d_psis s \<and> d_stocks t = d_stocks s \<and> purchase_adds_up k t"
proof -
  let ?Q = "\<lambda>po. pu_uni_key po = k"
  let ?sum = "\<lambda>f. q_sum f (details_of k) (d_purchase_details s)"
  from run obtain spl po u where
    u: "refresh_purchase k spl (?sum pd_book_num) (?sum pd_need_num) (?sum pd_arrival_num) (?sum pd_total_price) s = (Inr po, u)"
    and sync: "sync_order_list po u = (Inr (), t)"
    by (auto simp: purchase_restat_def run_ok)
  have "q_first (filter ?Q (d_purchases u)) = Some po \<and> (pu_status po = PO_OPEN \<longrightarrow>
      pu_book_num po = ?sum pd_book_num \<and> pu_need_num po = ?sum pd_need_num \<and> pu_arrival_num po = ?sum pd_arrival_num)
    \<and> d_arrangements u = d_arrangements s \<and> d_purchase_details u = d_purchase_details s
    \<and> d_psis u = d_psis s \<and> d_stocks u = d_stocks s"
  proof (cases "q_first (filter ?Q (d_purchases s))")
    case None
    with u q_first_append [OF None] show ?thesis by (auto simp: refresh_purchase_def run_ok save_purchase_def Let_def)
  next
    case (Some old)
    from q_first_filter [OF Some] have old: "old \<in> set (d_purchases s)" "pu_uni_key old = k" by simp_all
    let ?new = "old\<lparr>pu_book_num := ?sum pd_book_num, pu_need_num := ?sum pd_need_num,
      pu_arrival_num := ?sum pd_arrival_num, pu_total_price := ?sum pd_total_price\<rparr>"
    have "q_first (filter ?Q (tbl_save pu_id ?new (d_purchases s))) = Some ?new"
      using q_first_save [OF pks(1) Some, of ?new] old(2) by simp
    moreover have "pu_id old \<noteq> 0" using pks(2) old(1) by blast
    ultimately show ?thesis using u Some
      by (simp add: refresh_purchase_def run_ok save_purchase_def split: if_splits) auto
  qed
  with sync_order_list_frame [OF sync] show ?thesis by (auto simp: purchase_adds_up_def)
qed

text \<open>Keys in use: positive and unique, and a detail's key names its SKU and order.\<close>

definition purchases_ok :: "shop_db \<Rightarrow> bool" where
  "purchases_ok s \<longleftrightarrow>
     distinct (map pu_id (d_purchases s)) \<and> (\<forall>po \<in> set (d_purchases s). pu_id po \<noteq> 0) \<and>
     distinct (map pd_id (d_purchase_details s)) \<and> (\<forall>pd \<in> set (d_purchase_details s). pd_id pd \<noteq> 0) \<and>
     (\<forall>pd \<in> set (d_purchase_details s). pd_uni_key pd = str_nat (pd_sku_id pd) @ ''-'' @ pd_purchase_order_unikey pd)"

lemma detail_key_inj:
  "str_nat a @ ''-'' @ k = str_nat b @ ''-'' @ l \<Longrightarrow> a = b \<and> k = l"
proof -
  assume "str_nat a @ ''-'' @ k = str_nat b @ ''-'' @ l"
  then have "split_on CHR ''-'' (str_nat a @ ''-'' @ k) = split_on CHR ''-'' (str_nat b @ ''-'' @ l)" by simp
  then have "str_nat a = str_nat b" by (simp add: split_on_append str_nat_no_dash)
  with \<open>str_nat a @ ''-'' @ k = str_nat b @ ''-'' @ l\<close> show ?thesis by (auto dest: str_nat_inj)
qed

lemma refresh_detail_run:
  assumes ok: "purchases_ok s" and pd: "pd \<in> set (d_purchase_details s)"
    and run: "refresh_detail pd sum_of sku s = (Inr pd', t)"
  shows "t = s\<lparr>d_purchase_details := tbl_save pd_id pd' (d_purchase_details s)\<rparr> \<and>
    pd_id pd' = pd_id pd \<and> pd_uni_key pd' = pd_uni_key pd \<and> pd_status pd' = pd_status pd \<and>
    pd_purchase_order_unikey pd' = pd_purchase_order_unikey pd \<and> pd_sku_id pd' = pd_sku_id pd \<and> pd_book_num pd' = sum_of"
proof -
  from ok pd have "pd_id pd \<noteq> 0" "tbl_save pd_id pd (d_purchase_details s) = d_purchase_details s"
    by (auto simp: purchases_ok_def intro: save_same_row)
  with run show ?thesis
    by (auto simp: refresh_detail_def Let_def save_detail_def ret_def split: if_splits)
qed

lemma detail_restat_run:
  assumes ok: "purchases_ok s"
    and first: "q_first (filter (\<lambda>x. pd_uni_key x = pd_uni_key pd) (d_purchase_details s)) = Some pd"
    and run: "detail_restat pd s = (Inr pd', t)"
  shows "d_arrangements t = d_arrangements s \<and> d_psis t = d_psis s \<and> d_stocks t = d_stocks s \<and>
    d_purchase_details t = tbl_save pd_id pd' (d_purchase_details s) \<and>
    q_first (filter (\<lambda>x. pd_uni_key x = pd_uni_key pd) (d_purchase_details t)) = Some pd' \<and>
    pd_id pd' = pd_id pd \<and> pd_uni_key pd' = pd_uni_key pd \<and> pd_status pd' = pd_status pd \<and>
    pd_book_num pd' = arranged (pd_purchase_order_unikey pd) (pd_sku_id pd) s \<and>
    purchase_adds_up (pd_purchase_order_unikey pd) t"
proof -
  let ?sum_of = "arranged (pd_purchase_order_unikey pd) (pd_sku_id pd) s"
  have pd: "pd \<in> set (d_purchase_details s)" using q_first_filter [OF first] by simp
  from run obtain sku u v where u: "refresh_detail pd ?sum_of sku s = (Inr pd', u)"
    and v: "sync_order_detail pd' u = (Inr (), v)"
    and t: "purchase_restat (pd_purchase_order_unikey pd') v = (Inr (), t)"
    by (auto simp: detail_restat_def run_ok)
  note r = refresh_detail_run [OF ok pd u]
  note f = sync_order_detail_frame [OF v]
  have "d_purchases v = d_purchases s" using r f by simp
  with purchase_restat_run [OF _ _ t] ok have p: "d_arrangements t = d_arrangements v \<and>
      d_purchase_details t = d_purchase_details v \<and> d_psis t = d_psis v \<and> d_stocks t = d_stocks v \<and>
      purchase_adds_up (pd_purchase_order_unikey pd') t"
    by (simp add: purchases_ok_def)
  have "q_first (filter (\<lambda>x. pd_uni_key x = pd_uni_key pd) (tbl_save pd_id pd' (d_purchase_details s))) = Some pd'"
    using q_first_save [OF _ first, of pd_id pd'] ok r by (simp add: purchases_ok_def)
  with r f p show ?thesis by simp
qed

lemma detail_create_run:
  assumes ok: "purchases_ok s" and none: "find_detail pa s = None"
    and run: "detail_create pa s = (Inr pd, t)"
  shows "d_arrangements t = d_arrangements s \<and> d_psis t = d_psis s \<and> d_stocks t = d_stocks s \<and>
    find_detail pa t = Some pd \<and> pd_status pd = PO_OPEN \<and>
    pd_book_num pd = arranged (pa_purchase_order_unikey pa) (pa_sku_id pa) s \<and>
    purchase_adds_up (pa_purchase_order_unikey pa) t"
proof -
  let ?D = "d_purchase_details s"
  from run obtain sku u v where u: "save_detail
      (new_detail pa (arranged (pa_purchase_order_unikey pa) (pa_sku_id pa) s) sku) s = (Inr pd, u)" (is "save_detail ?pd s = _")
    and v: "sync_order_detail pd u = (Inr (), v)"
    and t: "purchase_restat (pa_purchase_order_unikey pa) v = (Inr (), t)"
    by (auto simp: detail_create_def run_ok)
  from u have pd: "pd = ?pd\<lparr>pd_id := fresh_pk pd_id ?D\<rparr>" and us: "u = s\<lparr>d_purchase_details := ?D @ [pd]\<rparr>"
    by (auto simp: save_detail_def new_detail_def Let_def split: if_splits)
  note f = sync_order_detail_frame [OF v]
  have "d_purchases v = d_purchases s" using f us by simp
  with purchase_restat_run [OF _ _ t] ok have p: "d_arrangements t = d_arrangements v \<and>
      d_purchase_details t = d_purchase_details v \<and> d_psis t = d_psis v \<and> d_stocks t = d_stocks v \<and>
      purchase_adds_up (pa_purchase_order_unikey pa) t"
    by (simp add: purchases_ok_def)
  from none have "q_first (filter (\<lambda>x. pd_uni_key x = gen_purchase_detail_unikey pa) (?D @ [pd])) = Some pd"
    unfolding find_detail_def by (intro q_first_append) (simp_all add: pd new_detail_def gen_purchase_detail_unikey_def)
  with f p us show ?thesis by (simp add: find_detail_def) (simp add: pd new_detail_def)
qed

lemma prepare_item_of_frame:
  assumes "prepare_item_of pa s = (Inr (), t)"
  shows "d_arrangements t = d_arrangements s" "d_purchase_details t = d_purchase_details s"
    "d_purchases t = d_purchases s"
proof -
  from assms obtain p q where "save_and_move p set_psi_prepare_book STAT_SIGN s = (Inr q, t)"
    by (auto simp: prepare_item_of_def set_status_prepare_book_def now_def run_ok)
  then obtain P S where "t = s\<lparr>d_psis := P, d_stocks := S\<rparr>"
    using save_and_move_touches [of set_psi_prepare_book q STAT_SIGN p s t]
    by (simp add: set_psi_prepare_book_def move_stock_touches) blast
  then show "d_arrangements t = d_arrangements s" "d_purchase_details t = d_purchase_details s"
    "d_purchases t = d_purchases s" by simp_all
qed

definition mark_gen_order :: "arrangement \<Rightarrow> shop_db \<Rightarrow> shop_db" where
  "mark_gen_order pa s = s\<lparr>d_arrangements := q_update (\<lambda>q. pa_id q = pa_id pa)
     (\<lambda>q. q\<lparr>pa_gen_order := True\<rparr>) (d_arrangements s)\<rparr>"

lemma mark_gen_order_frame [simp]:
  "arranged k sku (mark_gen_order pa s) = arranged k sku s"
  "purchases_ok (mark_gen_order pa s) = purchases_ok s"
  "find_detail q (mark_gen_order pa s) = find_detail q s"
proof -
  have "q_sum pa_num (counts_for k sku) (q_update (\<lambda>q. pa_id q = pa_id pa) (\<lambda>q. q\<lparr>pa_gen_order := True\<rparr>) A)
      = q_sum pa_num (counts_for k sku) A" for A
    by (induction A) (auto simp: q_update_def counts_for_def)
  then show "arranged k sku (mark_gen_order pa s) = arranged k sku s"
    by (simp add: arranged_def mark_gen_order_def)
qed (simp_all add: mark_gen_order_def purchases_ok_def find_detail_def)

lemma find_detail_names:
  assumes "purchases_ok s" and "find_detail pa s = Some pd"
  shows "pd_purchase_order_unikey pd = pa_purchase_order_unikey pa" "pd_sku_id pd = pa_sku_id pa"
    "q_first (filter (\<lambda>x. pd_uni_key x = pd_uni_key pd) (d_purchase_details s)) = Some pd"
    "pd_uni_key pd = gen_purchase_detail_unikey pa"
proof -
  from q_first_filter [OF assms(2) [unfolded find_detail_def]]
  have pd: "pd \<in> set (d_purchase_details s)" "pd_uni_key pd = gen_purchase_detail_unikey pa" by simp_all
  with assms(1) have "str_nat (pd_sku_id pd) @ ''-'' @ pd_purchase_order_unikey pd
      = str_nat (pa_sku_id pa) @ ''-'' @ pa_purchase_order_unikey pa"
    by (simp add: purchases_ok_def gen_purchase_detail_unikey_def)
  from detail_key_inj [OF this] pd assms(2) show "pd_purchase_order_unikey pd = pa_purchase_order_unikey pa"
    "pd_sku_id pd = pa_sku_id pa" "pd_uni_key pd = gen_purchase_detail_unikey pa"
    "q_first (filter (\<lambda>x. pd_uni_key x = pd_uni_key pd) (d_purchase_details s)) = Some pd"
    by (simp_all add: find_detail_def)
qed

section \<open>Properties of purchasing\<close>

interpretation supplier_table: orm_table sup_id "\<lambda>i. sup_id_update (\<lambda>_. i)" by unfold_locales simp

text \<open>
  The key of a purchase order names its supplier: parsing the key generated for an item gives
  back the supplier of the item's product.
\<close>

theorem purchase_key_names_supplier:
  assumes "distinct (map sup_id (d_suppliers s))"
    and "gen_purchase_order_unikey p s = Inr k" and "k \<noteq> ''s0''"
  shows "\<exists>sku prd spl. get_sku (psi_sku_id p) s = Inr sku \<and> sku_product sku s = Inr prd \<and>
    product_supplier prd s = Some spl \<and> get_supplier k s = Inr spl"
proof -
  from assms(2,3) obtain sku prd spl n where 1: "get_sku (psi_sku_id p) s = Inr sku" "sku_product sku s = Inr prd"
    "product_supplier prd s = Some spl" and k: "k = str_nat (sup_id spl) @ ''-'' @ str_nat n"
    by (auto simp: gen_purchase_order_unikey_def Let_def split: sum.splits option.splits)
  have "spl \<in> set (d_suppliers s)"
    using 1(3) q_first_filter by (fastforce simp: product_supplier_def bind_eq_Some_conv)
  then have "get_supplier k s = Inr spl"
    using assms(1) by (simp add: get_supplier_def k split_on_append str_nat_no_dash supplier_table.get_member)
  with 1 show ?thesis by blast
qed

text \<open>
  C20. Ordering an arrangement books exactly what is arranged: when \<open>generate_order\<close> returns, the
  detail of the arrangement's SKU in its purchase order is open and its number is the sum of the
  effective arrangements, and the numbers of the purchase order, while open, are the sums of its
  details.
\<close>

theorem generate_order_books_what_is_arranged:
  assumes ok: "purchases_ok s" and key: "pa_purchase_order_unikey pa \<noteq> ''s0''"
    and run: "generate_order False pa s = (Inr (), t)"
  shows "\<exists>pd. find_detail pa t = Some pd \<and> pd_status pd = PO_OPEN \<and>
    pd_book_num pd = arranged (pa_purchase_order_unikey pa) (pa_sku_id pa) t \<and>
    purchase_adds_up (pa_purchase_order_unikey pa) t"
proof -
  let ?s = "mark_gen_order pa s"
  have ok: "purchases_ok ?s" using ok by simp
  have frame: "find_detail pa t = find_detail pa u" "arranged k sku t = arranged k sku u"
    "purchase_adds_up k t = purchase_adds_up k u" if "prepare_item_of pa u = (Inr (), t)" for u k sku
    using prepare_item_of_frame [OF that] by (simp_all add: find_detail_def arranged_def purchase_adds_up_def)
  show ?thesis
  proof (cases "find_detail pa ?s")
    case None
    with run key obtain pd u where "detail_create pa ?s = (Inr pd, u)" "prepare_item_of pa u = (Inr (), t)"
      by (auto simp: generate_order.simps run_ok mark_gen_order_def [symmetric])
    with detail_create_run [OF ok None this(1)] frame show ?thesis by (simp add: arranged_def)
  next
    case (Some pd)
    with run key obtain pd' u where o: "pd_status pd = PO_OPEN" and r: "detail_restat pd ?s = (Inr pd', u)"
      and "prepare_item_of pa u = (Inr (), t)"
      by (auto simp: generate_order.simps run_ok mark_gen_order_def [symmetric] split: if_splits)
    with detail_restat_run [OF ok find_detail_names(3) [OF ok Some] r] frame find_detail_names [OF ok Some]
    show ?thesis by (auto simp: find_detail_def arranged_def)
  qed
qed

text \<open>
  Cancelling an arrangement that was not booked takes its number off the open detail, and nothing
  else: what remains on the detail is the sum of the other effective arrangements.
\<close>

theorem cancel_takes_the_arrangement_off:
  assumes ok: "purchases_ok s" and ids: "distinct (map pa_id (d_arrangements s))" "pa_id pa \<noteq> 0"
    and pa: "pa \<in> set (d_arrangements s)" "\<not> pa_initial_book pa" "pa_status pa = PA_EFFECT"
    and detail: "find_detail pa s = Some pd" "pd_status pd = PO_OPEN"
    and run: "arrangement_cancel pa s = (Inr (), t)"
  shows "arranged (pa_purchase_order_unikey pa) (pa_sku_id pa) t
      = arranged (pa_purchase_order_unikey pa) (pa_sku_id pa) s - pa_num pa \<and>
    (\<exists>pd'. find_detail pa t = Some pd' \<and> pd_id pd' = pd_id pd \<and>
       pd_book_num pd' = arranged (pa_purchase_order_unikey pa) (pa_sku_id pa) s - pa_num pa)"
proof -
  let ?k = "pa_purchase_order_unikey pa" and ?q = "pa\<lparr>pa_status := PA_CANCEL\<rparr>"
  let ?u = "s\<lparr>d_arrangements := tbl_save pa_id ?q (d_arrangements s)\<rparr>"
  have fd: "find_detail ?q x = find_detail pa x" for x by (simp add: find_detail_def gen_purchase_detail_unikey_def)
  have u: "find_detail pa ?u = Some pd" using detail(1) by (simp add: find_detail_def)
  with run pa(2) detail(2) ids(2) obtain pd' v where
    r: "detail_restat pd ?u = (Inr pd', v)" and sv: "\<exists>x. save_detail pd' v = (Inr x, t)"
    by (auto simp: arrangement_cancel_def run_ok save_arrangement_def fd split: if_splits)
  have oku: "purchases_ok ?u" using ok by (simp add: purchases_ok_def)
  note names = find_detail_names [OF oku u]
  from detail_restat_run [OF oku names(3) r] names
  have v: "d_arrangements v = tbl_save pa_id ?q (d_arrangements s)"
    "find_detail pa v = Some pd'" "pd_id pd' = pd_id pd" "pd_book_num pd' = arranged ?k (pa_sku_id pa) ?u"
    "d_purchase_details v = tbl_save pd_id pd' (d_purchase_details s)"
    by (auto simp: find_detail_def)
  have "pd_id pd \<noteq> 0" using ok detail(1) q_first_filter by (fastforce simp: find_detail_def purchases_ok_def)
  with v(3) have "pd_id pd' \<noteq> 0" by simp
  with sv have "t = v\<lparr>d_purchase_details := tbl_save pd_id pd' (d_purchase_details v)\<rparr>"
    by (auto simp: save_detail_def split: if_splits)
  moreover have "tbl_save pd_id pd' (d_purchase_details v) = d_purchase_details v"
    by (simp add: v(5) save_twice)
  ultimately have "t = v" by simp
  moreover have "arranged ?k (pa_sku_id pa) ?u = arranged ?k (pa_sku_id pa) s - pa_num pa"
    unfolding arranged_def using arrangement_table.sum_save [OF ids(1) pa(1), of ?q] pa(3)
    by (simp add: counts_for_def)
  moreover have "arranged ?k (pa_sku_id pa) v = arranged ?k (pa_sku_id pa) ?u"
    by (simp add: arranged_def v(1))
  ultimately show ?thesis using v by simp
qed

section \<open>An order of two arrangements\<close>

definition example_arrangement :: "pk_id \<Rightarrow> int \<Rightarrow> arrangement" where
  "example_arrangement i n = \<lparr>pa_id = i, pa_package_sku_item_id = 5, pa_oid = ''xo1'', pa_uni_key = str_nat i,
     pa_purchase_order_unikey = ''3-1'', pa_purchase_record_unikey = '''', pa_outer_id = '''',
     pa_outer_sku_id = '''', pa_sku_id = 8, pa_title = '''', pa_sku_properties_name = '''', pa_num = n,
     pa_status = PA_EFFECT, pa_purchase_order_status = PO_OPEN, pa_initial_book = False,
     pa_gen_order = False, pa_inbound_in = False\<rparr>"

definition purchase_shop :: shop_db where
  "purchase_shop = example_shop\<lparr>
     d_psis := [example_item\<lparr>psi_status := PSI_PAID, psi_assign_status := NOT_ASSIGNED\<rparr>],
     d_skus := [\<lparr>ps_id = 8, ps_product_id = 4, ps_outer_id = '''', ps_ware_by = WARE_SH, ps_cost = 2,
        ps_properties_alias = '''', ps_quantity = 0, ps_wait_post_num = 0,
        ps_properties_name = '''', ps_normal = True, ps_agent_price = 10, ps_std_sale_price = 20,
        ps_remain_num = 10, ps_lock_num = 0, ps_salestat = None\<rparr>],
     d_products := [\<lparr>prod_id = 4, prod_outer_id = '''', prod_name = '''', prod_pic_path = '''', prod_type = 0,
        prod_ware_by = WARE_SH, prod_model_id = 0, prod_model = None, prod_supplier = Some 3,
        prod_normal = True, prod_on_shelf = True, prod_agent_price = 10, prod_elite_score = 0,
        prod_mama_discount = None, prod_is_seckill = False, prod_category = ''''\<rparr>],
     d_suppliers := [\<lparr>sup_id = 3, sup_name = '''', sup_vendor_code = '''', sup_is_vendor_to_customer = False,
        sup_ware_by = WARE_SH\<rparr>],
     d_arrangements := [example_arrangement 1 3, example_arrangement 2 4]\<rparr>"

lemma example_generates: "fst (generate_order False (example_arrangement 1 3) purchase_shop) = Inr ()"
  by code_simp

section \<open>Handing out what arrived\<close>

abbreviation unmark :: "arrangement \<Rightarrow> arrangement" where
  "unmark pa \<equiv> pa\<lparr>pa_inbound_in := False\<rparr>"

lemma hand_out_parts:
  assumes "\<And>pa. pa \<in> set L \<Longrightarrow> \<not> pa_inbound_in pa"
  shows "set (map unmark (hand_out n L)) \<subseteq> set L" "\<forall>h \<in> set (hand_out n L). pa_inbound_in h"
    "distinct (map pa_id L) \<Longrightarrow> distinct (map pa_id (hand_out n L))"
proof -
  have 1: "set (map unmark (hand_out n L)) \<subseteq> set L \<and> (\<forall>h \<in> set (hand_out n L). pa_inbound_in h)"
    using assms
  proof (induction n L rule: hand_out.induct)
    case (2 n pa pas)
    have "unmark pa = pa" using "2.prems" [of pa] by simp
    with 2 show ?case by (auto simp: image_subset_iff)
  qed simp
  then show "set (map unmark (hand_out n L)) \<subseteq> set L" "\<forall>h \<in> set (hand_out n L). pa_inbound_in h" by simp_all
  have ids: "pa_id ` set (hand_out n L) \<subseteq> pa_id ` set L" for n and L :: "arrangement list"
    by (induction n L rule: hand_out.induct) auto
  show "distinct (map pa_id L) \<Longrightarrow> distinct (map pa_id (hand_out n L))"
    using ids by (induction n L rule: hand_out.induct) auto
qed

lemma hand_out_fits:
  "0 \<le> n \<Longrightarrow> sum_list (map pa_num (hand_out n L)) \<le> n"
  by (induction n L rule: hand_out.induct) (simp_all add: le_diff_eq, linarith)

abbreviation marked :: "purchase_detail \<Rightarrow> arrangement \<Rightarrow> bool" where
  "marked pd pa \<equiv> detail_arrangements pd pa \<and> pa_inbound_in pa"

lemma save_marked_run:
  assumes "distinct (map pa_id (d_arrangements s))" and "distinct (map pa_id hs)"
    and "\<forall>h \<in> set hs. marked pd h \<and> pa_id h \<noteq> 0 \<and> unmark h \<in> set (d_arrangements s)"
    and "forE (\<lambda>pa. bindE (save_arrangement pa) (\<lambda>_. ret ())) hs s = (Inr (), t)"
  shows "q_sum pa_num (marked pd) (d_arrangements t) = q_sum pa_num (marked pd) (d_arrangements s) + sum_list (map pa_num hs)"
  using assms
proof (induction hs arbitrary: s)
  case (Cons h hs)
  let ?u = "s\<lparr>d_arrangements := tbl_save pa_id h (d_arrangements s)\<rparr>"
  have h: "unmark h \<in> set (d_arrangements s)" "marked pd h" "pa_id h \<noteq> 0" using Cons.prems(3) by simp_all
  have "v = ?u" if "save_arrangement h s = (Inr x, v)" for x v
    using that h(3) by (auto simp: save_arrangement_def split: if_splits)
  then have "v = ?u" if "bindE (save_arrangement h) (\<lambda>_. ret ()) s = (Inr (), v)" for v
    using that by (auto simp: bindE_ok ret_run)
  with Cons.prems(4) have rest: "forE (\<lambda>pa. bindE (save_arrangement pa) (\<lambda>_. ret ())) hs ?u = (Inr (), t)"
    unfolding forE_Cons_ok by metis
  have "unmark x \<in> set (d_arrangements ?u)" if "x \<in> set hs" for x
  proof -
    from that Cons.prems(2,3) have "pa_id x \<noteq> pa_id h" "unmark x \<in> set (d_arrangements s)"
      by (auto dest: sym [of "pa_id x"])
    then show ?thesis by (force simp: tbl_save_def image_iff)
  qed
  with Cons.prems have "q_sum pa_num (marked pd) (d_arrangements t)
      = q_sum pa_num (marked pd) (d_arrangements ?u) + sum_list (map pa_num hs)"
    by (intro Cons.IH [OF _ _ _ rest]) (auto simp: arrangement_table.distinct_save)
  moreover have "q_sum pa_num (marked pd) (d_arrangements ?u) = q_sum pa_num (marked pd) (d_arrangements s) + pa_num h"
    using arrangement_table.sum_save [OF Cons.prems(1) h(1), of h pa_num "marked pd"] h(2) by simp
  ultimately show ?case by simp
qed (simp add: run_ok)

text \<open>
  Arrived goods are never handed out twice: the arrangements of a detail that are marked as in
  the warehouse need together no more than what arrived for the detail.
\<close>

theorem inbound_marks_fit_the_arrival:
  assumes ids: "distinct (map pa_id (d_arrangements s))" "\<forall>pa \<in> set (d_arrangements s). pa_id pa \<noteq> 0"
    and n: "0 \<le> pd_arrival_num pd" and run: "set_pa_inbound pd s = (Inr (), t)"
  shows "q_sum pa_num (\<lambda>pa. detail_arrangements pd pa \<and> pa_inbound_in pa) (d_arrangements t) \<le> pd_arrival_num pd"
proof -
  let ?A = "q_update (detail_arrangements pd) unmark (d_arrangements s)"
  let ?u = "s\<lparr>d_arrangements := ?A\<rparr>" and ?L = "filter (detail_arrangements pd) ?A"
  let ?hs = "hand_out (pd_arrival_num pd) ?L"
  from run have save: "forE (\<lambda>pa. bindE (save_arrangement pa) (\<lambda>_. ret ())) ?hs ?u = (Inr (), t)"
    by (auto simp: set_pa_inbound_def run_ok)
  have clear: "\<not> pa_inbound_in pa" if "pa \<in> set ?L" for pa
    using that by (auto simp: q_update_def detail_arrangements_def split: if_splits)
  have zero: "q_sum pa_num (marked pd) (d_arrangements ?u) = 0"
    using clear by (auto simp: q_sum_def intro!: arg_cong [where f = sum_list] simp: filter_empty_conv)
  have pks: "distinct (map pa_id ?A)"
    using arrangement_table.distinct_update [of "detail_arrangements pd" unmark "d_arrangements s"] ids(1) by simp
  then have "distinct (map pa_id ?L)" by (simp add: distinct_map_filter)
  with hand_out_parts [OF clear] have d: "distinct (map pa_id ?hs)" by blast
  have m: "marked pd h \<and> pa_id h \<noteq> 0 \<and> unmark h \<in> set (d_arrangements ?u)" if "h \<in> set ?hs" for h
  proof -
    from hand_out_parts(1,2) [OF clear, of ?L] that have "unmark h \<in> set ?L" "pa_inbound_in h" by auto
    moreover have "pa_id (unmark h) \<in> pa_id ` set ?A" using \<open>unmark h \<in> set ?L\<close> by (intro imageI) simp
    moreover have "pa_id ` set ?A = pa_id ` set (d_arrangements s)"
      using arg_cong [OF arrangement_table.distinct_update [of "detail_arrangements pd" unmark "d_arrangements s"], of set]
      by simp
    ultimately show ?thesis using ids(2) by (auto simp: detail_arrangements_def)
  qed
  have m: "\<forall>h \<in> set ?hs. marked pd h \<and> pa_id h \<noteq> 0 \<and> unmark h \<in> set (d_arrangements ?u)"
    using m by blast
  have "distinct (map pa_id (d_arrangements ?u))" using pks by simp
  from save_marked_run [OF this d m save] have "q_sum pa_num (marked pd) (d_arrangements t)
      = q_sum pa_num (marked pd) (d_arrangements ?u) + sum_list (map pa_num ?hs)" .
  with zero hand_out_fits [OF n, of ?L] show ?thesis by linarith
qed

text \<open>
  A deleted order list blocks its purchase order: \<open>sync_order_list\<close> looks for an order list
  that is not deleted, but the key of the deleted one is still taken, so the insert fails.
\<close>

theorem deleted_order_list_blocks_sync:
  assumes "ol \<in> set (d_order_lists s)" and "ol_purchase_order_unikey ol = pu_uni_key po" and "ol_id ol \<noteq> 0"
    and "\<forall>l \<in> set (d_order_lists s). ol_purchase_order_unikey l = pu_uni_key po \<longrightarrow> ol_stage l = 9"
    and "get_supplier (pu_uni_key po) s = Inr spl"
  shows "sync_order_list po s = (Inl IntegrityError, s)"
proof -
  have none: "filter (\<lambda>l. ol_purchase_order_unikey l = pu_uni_key po \<and> ol_stage l \<noteq> 9) (d_order_lists s) = []"
    unfolding filter_empty_conv using assms(4) by blast
  have taken: "q_exists (\<lambda>l. 0 < ol_id l \<and> ol_purchase_order_unikey l = pu_uni_key po) (d_order_lists s)"
    unfolding q_exists_def filter_empty_conv using assms(1-3) gr0I by blast
  show ?thesis
    unfolding sync_order_list_def by (simp add: prog_simps none assms(5)) (simp add: save_order_list_def taken)
qed


section \<open>The properties on the example\<close>

lemma purchase_shop_ok: "purchases_ok purchase_shop"
  by (simp add: purchases_ok_def purchase_shop_def shop_example_defs)

theorem purchase_key_names_supplier_witness:
  "gen_purchase_order_unikey (hd (d_psis purchase_shop)) purchase_shop = Inr ''3-1'' \<and>
   (\<exists>spl. get_supplier ''3-1'' purchase_shop = Inr spl)"
proof -
  have key: "gen_purchase_order_unikey (hd (d_psis purchase_shop)) purchase_shop = Inr ''3-1''" by code_simp
  have "distinct (map sup_id (d_suppliers purchase_shop))" by (simp add: purchase_shop_def)
  from purchase_key_names_supplier [OF this key] key show ?thesis by auto
qed

theorem generate_order_books_what_is_arranged_witness:
  "\<exists>pd. find_detail (example_arrangement 1 3) (snd (generate_order False (example_arrangement 1 3) purchase_shop)) = Some pd
     \<and> pd_book_num pd = arranged ''3-1'' 8 (snd (generate_order False (example_arrangement 1 3) purchase_shop))"
  using generate_order_books_what_is_arranged [OF purchase_shop_ok _ returned [OF example_generates]]
  by (auto simp: example_arrangement_def)

definition booked_shop :: shop_db where
  "booked_shop = purchase_shop\<lparr>d_purchase_details := [(new_detail (example_arrangement 1 3) 7
     (hd (d_skus purchase_shop)))\<lparr>pd_id := 1\<rparr>]\<rparr>"

theorem cancel_takes_the_arrangement_off_witness:
  "arranged ''3-1'' 8 (snd (arrangement_cancel (example_arrangement 1 3) booked_shop))
     = arranged ''3-1'' 8 booked_shop - 3"
proof -
  have run: "fst (arrangement_cancel (example_arrangement 1 3) booked_shop) = Inr ()" by code_simp
  have ok: "purchases_ok booked_shop"
    by (simp add: purchases_ok_def booked_shop_def purchase_shop_def shop_example_defs new_detail_def example_arrangement_def)
  have "\<exists>pd. find_detail (example_arrangement 1 3) booked_shop = Some pd \<and> pd_status pd = PO_OPEN"
    by (simp add: find_detail_def booked_shop_def new_detail_def gen_purchase_detail_unikey_def)
  with cancel_takes_the_arrangement_off [OF ok _ _ _ _ _ _ _ returned [OF run]]
  show ?thesis by (auto simp: booked_shop_def purchase_shop_def example_arrangement_def)
qed

theorem inbound_marks_fit_the_arrival_witness:
  "q_sum pa_num (\<lambda>pa. detail_arrangements ((hd (d_purchase_details booked_shop))\<lparr>pd_arrival_num := 3\<rparr>) pa \<and> pa_inbound_in pa)
     (d_arrangements (snd (set_pa_inbound ((hd (d_purchase_details booked_shop))\<lparr>pd_arrival_num := 3\<rparr>)
        (booked_shop\<lparr>d_purchases := [\<lparr>pu_id = 1, pu_uni_key = ''3-1'', pu_supplier_id = 3, pu_supplier_name = '''',
           pu_book_num = 7, pu_need_num = 7, pu_arrival_num = 0, pu_total_price = 0, pu_status = PO_OPEN\<rparr>]\<rparr>)))) \<le> 3"
proof -
  let ?s = "booked_shop\<lparr>d_purchases := [\<lparr>pu_id = 1, pu_uni_key = ''3-1'', pu_supplier_id = 3, pu_supplier_name = '''',
           pu_book_num = 7, pu_need_num = 7, pu_arrival_num = 0, pu_total_price = 0, pu_status = PO_OPEN\<rparr>]\<rparr>"
  let ?pd = "(hd (d_purchase_details booked_shop))\<lparr>pd_arrival_num := 3\<rparr>"
  have "fst (set_pa_inbound ?pd ?s) = Inr ()" by code_simp
  from inbound_marks_fit_the_arrival [OF _ _ _ returned [OF this]] show ?thesis
    by (simp add: booked_shop_def purchase_shop_def example_arrangement_def)
qed

theorem deleted_order_list_blocks_sync_witness:
  "fst (sync_order_list \<lparr>pu_id = 1, pu_uni_key = ''3-1'', pu_supplier_id = 3, pu_supplier_name = '''',
     pu_book_num = 7, pu_need_num = 7, pu_arrival_num = 0, pu_total_price = 0, pu_status = PO_OPEN\<rparr>
     (purchase_shop\<lparr>d_order_lists := [\<lparr>ol_id = 1, ol_purchase_order_unikey = ''3-1'', ol_order_amount = 0,
        ol_supplier_id = 3, ol_stage = 9, ol_purchase_total_num = 0\<rparr>]\<rparr>)) = Inl IntegrityError"
proof -
  let ?ol = "\<lparr>ol_id = 1, ol_purchase_order_unikey = ''3-1'', ol_order_amount = 0, ol_supplier_id = 3,
    ol_stage = 9, ol_purchase_total_num = 0\<rparr>"
  let ?po = "\<lparr>pu_id = 1, pu_uni_key = ''3-1'', pu_supplier_id = 3, pu_supplier_name = '''', pu_book_num = 7,
    pu_need_num = 7, pu_arrival_num = 0, pu_total_price = 0, pu_status = PO_OPEN\<rparr>"
  have "get_supplier (pu_uni_key ?po) (purchase_shop\<lparr>d_order_lists := [?ol]\<rparr>) = Inr (hd (d_suppliers purchase_shop))"
    by code_simp
  from deleted_order_list_blocks_sync [OF _ _ _ _ this, of ?ol] show ?thesis by simp
qed

end
