(* ===== verification/Packing.thy ===== *)
theory Packing
  imports Packet Purchase
begin

text \<open>
  The life of an item (\<open>PackageSkuItem\<close>, \<open>src/shopback/trades/models/packet.py\<close>) where
  it meets packages and purchases: its creation from a paid order, assignment and release, merging into
  a package, cancelling, and repacking; and \<open>PurchaseOrder.book\<close>, which books the items an order
  was made for. The last section shows that the purchasing side of these operations leaves items, packages
  and stock alone; what the operations do to the tables is proved in \<open>Warehouse\<close>.
\<close>

section \<open>An item's package and arrangement\<close>

definition package_of :: "psi \<Rightarrow> shop_db \<Rightarrow> py_error + package_order option" where
  "package_of p s =
     (case psi_package_order_id p of
        None \<Rightarrow> Inr None
      | Some i \<Rightarrow> if i = '''' then Inr None else map_sum id Some (q_get (\<lambda>q. po_id q = i) (d_packages s)))"

definition get_purchase_arrangement :: "psi \<Rightarrow> shop_db \<Rightarrow> arrangement option" where
  "get_purchase_arrangement p s = q_last (filter (\<lambda>pa. Some (pa_oid pa) = psi_oid p) (d_arrangements s))"

definition gen_arrangement :: "psi \<Rightarrow> (shop_db, arrangement) prog" where
  "gen_arrangement p = arrangement_create p None"

definition cancel_open_arrangement :: "psi \<Rightarrow> (shop_db, unit) prog" where
  "cancel_open_arrangement p =
     bindE (asks (get_purchase_arrangement p)) (\<lambda>pa.
     case pa of
       None \<Rightarrow> ret ()
     | Some pa \<Rightarrow> whenE (\<not> pa_initial_book pa) (arrangement_cancel pa))"

abbreviation off_package :: "psi \<Rightarrow> psi" where
  "off_package p \<equiv> p\<lparr>psi_package_order_id := None, psi_package_order_pid := None\<rparr>"

section \<open>Creation\<close>

definition item_of_order :: "sale_order \<Rightarrow> time \<Rightarrow> product_sku \<Rightarrow> product \<Rightarrow> sale_trade \<Rightarrow> psi" where
  "item_of_order o' pay_time k prd t = new_psi\<lparr>psi_sale_order_id := Some (so_id o'),
     psi_ware_by := prod_ware_by prd, psi_num := so_num o', psi_oid := Some (so_oid o'),
     psi_title := so_title o', psi_price := so_price o', psi_sku_id := so_sku_id o',
     psi_total_fee := so_total_fee o', psi_payment := so_payment o',
     psi_discount_fee := so_discount_fee o', psi_refund_status := so_refund_status o',
     psi_pay_time := pay_time, psi_pic_path := so_pic_path o', psi_outer_sku_id := ps_outer_id k,
     psi_outer_id := prod_outer_id prd, psi_receiver_mobile := st_receiver_mobile t,
     psi_sale_trade_id := Some (st_tid t), psi_sku_properties_name := so_sku_name o',
     psi_is_boutique := st_is_boutique t\<rparr>"

text \<open>An order without a pay time gives an item that cannot be saved (\<open>pay_time\<close> is not
  null); \<open>get_by_sku\<close> may have created the stock row by then.\<close>

definition psi_create :: "sale_order \<Rightarrow> (shop_db, psi) prog" where
  "psi_create o' =
     bindE (liftE (get_sku (so_sku_id o'))) (\<lambda>k.
     bindE (liftE (sku_product k)) (\<lambda>prd.
     bindE (liftE (get_trade (so_sale_trade o'))) (\<lambda>t.
     bindE (get_by_sku (so_sku_id o')) (\<lambda>stock.
     case so_pay_time o' of
       None \<Rightarrow> raise IntegrityError
     | Some pay_time \<Rightarrow>
         (let p = item_of_order o' pay_time k prd t in
          if can_assign stock (psi_num p) then set_status_init_assigned p
          else bindE (set_status_init_paid p) (\<lambda>p. bindE (gen_arrangement p) (\<lambda>_. ret p)))))))"

definition create_by_hand :: "pk_id \<Rightarrow> int \<Rightarrow> pk_id \<Rightarrow> string \<Rightarrow> string \<Rightarrow> ware \<Rightarrow> (shop_db, psi) prog" where
  "create_by_hand sku_id num pid poid receiver_mobile ware_by = bindE now (\<lambda>t.
     save_psi (new_psi\<lparr>psi_type := PSI_BYHAND, psi_sku_id := sku_id, psi_num := num,
       psi_package_order_id := Some poid, psi_package_order_pid := Some pid,
       psi_receiver_mobile := receiver_mobile, psi_ware_by := ware_by, psi_pay_time := t,
       psi_status := PSI_MERGED, psi_assign_status := ASSIGNED\<rparr>))"

section \<open>Packing one item alone\<close>

text \<open>
  \<open>gen_package\<close> passes \<open>merge\<close> in the place of the vendor code: \<open>True\<close> cannot be
  joined to a string, and \<open>False\<close> counts as no vendor code, with \<open>merge\<close> at its default.
\<close>

definition gen_package :: "psi \<Rightarrow> bool \<Rightarrow> (shop_db, package_order option) prog" where
  "gen_package p merge =
     (if psi_type p \<noteq> PSI_NORMAL then ret None
      else
        bindE (liftE (psi_sale_trade p)) (\<lambda>t.
        bindE (liftE (get_sku (psi_sku_id p))) (\<lambda>k.
        bindE (liftE (sku_ware_by k)) (\<lambda>w.
        case st_user_address_id t of
          None \<Rightarrow> raise (Exn ''sale_trade loss some info'')
        | Some a \<Rightarrow>
            if st_buyer_id t = 0 \<or> a = 0 \<or> w = WARE_NONE then raise (Exn ''sale_trade loss some info'')
            else if merge then raise TypeError
            else
              bindE (asks (gen_new_package_id (str_nat (st_buyer_id t)) (str_nat a) w '''' True)) (\<lambda>poid.
              bindE (asks (package_by_id poid)) (\<lambda>po.
              bindE (case po of None \<Rightarrow> create_package poid t | Some po \<Rightarrow> ret po) (\<lambda>q.
              thenE (modify (\<lambda>s. s\<lparr>d_psis := q_update (\<lambda>x. psi_id x = psi_id p)
                (\<lambda>x. x\<lparr>psi_package_order_id := Some poid, psi_package_order_pid := Some (po_pid q)\<rparr>) (d_psis s)\<rparr>))
              (case po of
                 None \<Rightarrow> ret (Some q)
               | Some _ \<Rightarrow>
                   bindE (set_redo_sign '''' False q) (\<lambda>q.
                   bindE (liftE (reset_package_address q)) (\<lambda>q.
                   bindE (liftE (reset_sku_item_num q)) (\<lambda>q.
                   bindE (save_package q) (\<lambda>q. ret (Some q)))))))))))))"

section \<open>Booking\<close>

definition set_status_virtual_booked :: "psi \<Rightarrow> string \<Rightarrow> (shop_db, psi) prog" where
  "set_status_virtual_booked p purchase_order_unikey = bindE now (\<lambda>t.
     bindE (save_psi (p\<lparr>psi_status := PSI_BOOKED, psi_booked_time := Some t,
        psi_assign_status := VIRTUAL_ASSIGNED, psi_purchase_order_unikey := purchase_order_unikey\<rparr>)) (\<lambda>p.
     bindE (gen_package p False) (\<lambda>_.
     thenE (set_psi_booked (psi_sku_id p) (psi_num p) STAT_SIGN)
     (ret p))))"

definition book :: "purchase_order \<Rightarrow> bool \<Rightarrow> (shop_db, unit) prog" where
  "book po third_package = atomic (
     bindE (save_purchase (po\<lparr>pu_status := PO_BOOKED\<rparr>)) (\<lambda>po.
     thenE (modify (\<lambda>s. s\<lparr>d_purchase_details := q_update (\<lambda>d. pd_purchase_order_unikey d = pu_uni_key po)
       (\<lambda>d. d\<lparr>pd_status := PO_BOOKED\<rparr>) (d_purchase_details s)\<rparr>))
     (thenE (modify (\<lambda>s. s\<lparr>d_arrangements := q_update (\<lambda>a. pa_purchase_order_unikey a = pu_uni_key po
          \<and> pa_status a = PA_EFFECT)
       (\<lambda>a. a\<lparr>pa_purchase_order_status := PO_BOOKED, pa_initial_book := True\<rparr>) (d_arrangements s)\<rparr>))
     (bindE (asks (\<lambda>s. map pa_oid (filter (\<lambda>a. pa_purchase_order_unikey a = pu_uni_key po
          \<and> pa_status a = PA_EFFECT) (d_arrangements s)))) (\<lambda>oids.
      bindE (asks (\<lambda>s. filter (\<lambda>p. psi_oid p \<in> Some ` set oids) (d_psis s)))
        (each_item (\<lambda>p. if third_package then set_status_virtual_booked p (pu_uni_key po)
                        else set_status_booked p (pu_uni_key po))))))))"

section \<open>Assignment and release\<close>

definition set_status_booked_2_assigned :: "psi \<Rightarrow> bool \<Rightarrow> (shop_db, psi) prog" where
  "set_status_booked_2_assigned p save = bindE now (\<lambda>t.
     (let p = p\<lparr>psi_status := PSI_ASSIGNED, psi_assign_status := ASSIGNED, psi_assign_time := Some t\<rparr> in
      if save then
        bindE (save_and_move p set_psi_booked_2_assigned True) (\<lambda>p.
        thenE (cancel_open_arrangement p) (ret p))
      else ret p))"

definition batch_set_status_assigned :: "string list \<Rightarrow> bool \<Rightarrow> (shop_db, unit) prog" where
  "batch_set_status_assigned oids change_stock =
     thenE (modify (\<lambda>s. s\<lparr>d_psis := q_update (\<lambda>p. psi_oid p \<in> Some ` set oids)
       (\<lambda>p. p\<lparr>psi_status := PSI_ASSIGNED, psi_assign_status := ASSIGNED, psi_assign_time := Some (d_now s)\<rparr>)
       (d_psis s)\<rparr>))
     (bindE (asks (\<lambda>s. filter (\<lambda>pa. pa_oid pa \<in> set oids \<and> \<not> pa_initial_book pa) (d_arrangements s))) (\<lambda>pas.
      thenE (forE arrangement_cancel pas)
      (whenE change_stock
        (bindE (asks (\<lambda>s. filter (\<lambda>p. psi_oid p \<in> Some ` set oids) (d_psis s))) (\<lambda>items.
         forE (\<lambda>sku. set_psi_booked_2_assigned sku (q_sum psi_num (\<lambda>p. psi_sku_id p = sku) items) True)
           (remdups (map psi_sku_id items)))))))"

definition rebook_item :: "psi \<Rightarrow> (shop_db, unit) prog" where
  "rebook_item p =
     bindE (asks (get_purchase_arrangement p)) (\<lambda>pa.
     case pa of
       None \<Rightarrow> bindE (gen_arrangement p) (\<lambda>_. ret ())
     | Some pa \<Rightarrow>
         whenE (\<not> pa_initial_book pa \<and> pa_status pa = PA_CANCEL)
           (bindE (save_arrangement (pa\<lparr>pa_status := PA_EFFECT\<rparr>)) (generate_order True)))"

definition release_package :: "package_order option \<Rightarrow> (shop_db, unit) prog" where
  "release_package po =
     (case po of None \<Rightarrow> ret () | Some po \<Rightarrow> bindE (update_relase_package_sku_item po) (\<lambda>_. ret ()))"

definition set_status_not_assigned :: "psi \<Rightarrow> bool \<Rightarrow> bool \<Rightarrow> bool \<Rightarrow> (shop_db, psi) prog" where
  "set_status_not_assigned p stat save rebook = bindE now (\<lambda>t.
     (let p = p\<lparr>psi_status := PSI_PAID, psi_assign_status := NOT_ASSIGNED, psi_assign_time := Some t\<rparr> in
      if save then
        bindE (liftE (package_of p)) (\<lambda>po.
        bindE (save_and_move (off_package p) set_psi_not_assigned stat) (\<lambda>p.
        thenE (release_package po)
        (thenE (whenE rebook (rebook_item p))
        (ret p))))
      else ret p))"

section \<open>Merging into a package\<close>

definition wake_package :: "package_order \<Rightarrow> package_order" where
  "wake_package po =
     (if po_sys_status po = PKG_NEW_CREATED then po\<lparr>po_sys_status := WAIT_PREPARE_SEND_STATUS\<rparr> else po)"

definition direct_vendor :: "psi \<Rightarrow> shop_db \<Rightarrow> py_error + string" where
  "direct_vendor p s =
     (case get_sku (psi_sku_id p) s of
        Inl e \<Rightarrow> Inl e
      | Inr k \<Rightarrow>
          (case sku_product k s of
             Inl e \<Rightarrow> Inl e
           | Inr prd \<Rightarrow>
               (case product_supplier prd s of
                  None \<Rightarrow> Inr ''''
                | Some spl \<Rightarrow> Inr (if sup_is_vendor_to_customer spl then sup_vendor_code spl else ''''))))"

abbreviation str_id :: "pk_id option \<Rightarrow> string" where
  "str_id i \<equiv> (case i of None \<Rightarrow> ''None'' | Some n \<Rightarrow> str_nat n)"

definition put_item :: "psi \<Rightarrow> package_order \<Rightarrow> (shop_db, psi \<times> package_order) prog" where
  "put_item p po =
     bindE (save_psi (p\<lparr>psi_package_order_id := Some (po_id po), psi_package_order_pid := Some (po_pid po)\<rparr>)) (\<lambda>p.
     bindE (add_package_sku_item po) (\<lambda>po. ret (p, po)))"

definition merge_normal :: "psi \<Rightarrow> (shop_db, psi) prog" where
  "merge_normal p =
     bindE (liftE (direct_vendor p)) (\<lambda>vendor.
     bindE (liftE (psi_sale_trade p)) (\<lambda>t.
     bindE (asks (gen_new_package_id (str_nat (st_buyer_id t)) (str_id (st_user_address_id t))
        (psi_ware_by p) vendor True)) (\<lambda>poid.
     bindE (asks (package_by_id poid)) (\<lambda>found.
     case found of
       Some po \<Rightarrow>
         bindE (set_redo_sign '''' False (wake_package po)) (\<lambda>po.
         bindE (liftE (reset_package_address po)) (\<lambda>po.
         bindE (put_item p po) (\<lambda>(p, po).
         thenE (set_psi_merged (psi_sku_id p) (psi_num p) STAT_SIGN)
         (thenE (whenE (po_logistics_company po \<noteq> None \<and> po_logistics_company po \<noteq> st_logistics_company t)
            (set_logistics_company po (st_logistics_company t)))
         (ret p)))))
     | None \<Rightarrow>
         bindE (create_package poid t) (\<lambda>po.
         bindE (put_item p po) (\<lambda>(p, po).
         thenE (set_psi_merged (psi_sku_id p) (psi_num p) STAT_SIGN)
         (bindE (liftE (\<lambda>s. q_get (\<lambda>q. po_pid q = po_pid po) (d_packages s))) (\<lambda>po.
         thenE (set_logistics_company po (st_logistics_company t))
         (ret p)))))))))"

definition reuse_package :: "package_order \<Rightarrow> (shop_db, package_order) prog" where
  "reuse_package po =
     bindE (set_redo_sign '''' False (wake_package po)) (\<lambda>po.
     bindE (liftE (reset_package_address po)) save_package)"

definition merge_tianmao :: "psi \<Rightarrow> (shop_db, psi) prog" where
  "merge_tianmao p =
     bindE (liftE (get_relate_order p)) (\<lambda>r.
     case r of
       Tm_order x \<Rightarrow>
         bindE (liftE (tm_trade_of x)) (\<lambda>t.
         bindE (asks (gen_new_package_id (tmt_user_unikey t) (tmt_user_address_unikey t) (psi_ware_by p) '''' True)) (\<lambda>poid.
         bindE (asks (package_by_id poid)) (\<lambda>found.
         bindE (case found of Some po \<Rightarrow> reuse_package po | None \<Rightarrow> create_tianmao_package poid t) (\<lambda>po.
         bindE (put_item p po) (\<lambda>(p, po).
         thenE (set_psi_merged (psi_sku_id p) (psi_num p) STAT_SIGN)
         (thenE (whenE (po_logistics_company po = None) (set_logistics_company po None))
         (ret p)))))))
     | _ \<Rightarrow> raise AttributeError)"

text \<open>An item of the three return types; it moves no counter.\<close>

definition merge_return :: "psi \<Rightarrow> (shop_db, psi) prog" where
  "merge_return p =
     bindE (liftE (get_relate_order p)) (\<lambda>r.
     case r of
       Rg_detail (Some d) \<Rightarrow>
         bindE (liftE (\<lambda>s. q_get (\<lambda>g. rgs_id g = rg_return_goods d) (d_return_goods s))) (\<lambda>g.
         bindE (liftE (address_of g)) (\<lambda>ua.
         bindE (liftE (get_sku (psi_sku_id p))) (\<lambda>k.
         bindE (liftE (sku_ware_by k)) (\<lambda>w.
         bindE (asks (gen_new_package_id (str_id (rgs_supplier g)) (str_nat (ua_id ua)) w '''' True)) (\<lambda>poid.
         bindE (asks (package_by_id poid)) (\<lambda>found.
         bindE (case found of Some po \<Rightarrow> reuse_package po | None \<Rightarrow> create_return_package poid g) (\<lambda>po.
         bindE (put_item p po) (\<lambda>(p, po).
         thenE (whenE (po_logistics_company po = None) (set_logistics_company po (Some (- 2))))
         (ret p)))))))))
     | _ \<Rightarrow> raise AttributeError)"

definition psi_merge :: "psi \<Rightarrow> (shop_db, psi) prog" where
  "psi_merge p =
     (if psi_package_order_pid p \<noteq> None \<and> psi_package_order_pid p \<noteq> Some 0 then ret p
      else bindE now (\<lambda>t.
        (let m = p\<lparr>psi_status := PSI_MERGED, psi_merge_time := Some t\<rparr> in
         case psi_type p of
           PSI_NORMAL \<Rightarrow> merge_normal m
         | PSI_TIANMAO \<Rightarrow> merge_tianmao m
         | PSI_BYHAND \<Rightarrow> ret p
         | _ \<Rightarrow> merge_return m)))"

definition batch_merge :: "psi_type \<Rightarrow> (shop_db, unit) prog" where
  "batch_merge type =
     (let types = (if type \<in> {PSI_NORMAL, PSI_TIANMAO} then {type}
                   else {PSI_RETURN_GOODS, PSI_RETURN_OUT_ORDER, PSI_RETURN_INFERIOR}) in
      bindE (asks (\<lambda>s. map psi_id (filter (\<lambda>p. psi_status p = PSI_ASSIGNED \<and> psi_type p \<in> types
         \<and> psi_ware_by p \<in> set CAN_MERGE_ORDER_WHS_IDS) (d_psis s))))
      (forE (\<lambda>i.
         bindE (asks (\<lambda>s. q_first (filter (\<lambda>p. psi_id p = i \<and> psi_status p = PSI_ASSIGNED) (d_psis s)))) (\<lambda>p.
         case p of None \<Rightarrow> ret () | Some p \<Rightarrow> bindE (psi_merge p) (\<lambda>_. ret ())))))"

section \<open>Cancelling and repacking\<close>

definition set_status_cancel :: "psi \<Rightarrow> bool \<Rightarrow> (shop_db, psi) prog" where
  "set_status_cancel p stat =
     (if psi_assign_status p = CANCELED then raise (Exn ''already canceled'')
      else if psi_assign_status p = FINISHED then raise (Exn ''already sent'')
      else
        thenE (cancel_open_arrangement p)
        (bindE now (\<lambda>t.
         bindE (liftE (package_of p)) (\<lambda>po.
         (let q = p\<lparr>psi_status := PSI_CANCEL, psi_assign_status := CANCELED, psi_cancel_time := Some t\<rparr> in
          bindE (save_psi (if po \<noteq> None then off_package q else q)) (\<lambda>q.
          thenE (case po of None \<Rightarrow> ret () | Some po \<Rightarrow> refresh_package po None)
          (thenE (set_psi_cancel (psi_sku_id q) (psi_num q) (psi_status p) stat)
          (ret q))))))))"

definition order_list_of :: "psi \<Rightarrow> shop_db \<Rightarrow> order_list option" where
  "order_list_of p s =
     (if psi_purchase_order_unikey p = '''' then None
      else q_first (filter (\<lambda>ol. ol_purchase_order_unikey ol = psi_purchase_order_unikey p) (d_order_lists s)))"

text \<open>\<open>OrderList.can_receive\<close>: the stages from receiving to completed.\<close>

definition can_receive :: "order_list \<Rightarrow> bool" where
  "can_receive ol \<longleftrightarrow> ol_stage ol \<in> {3, 4, 5}"

definition reset_status :: "psi \<Rightarrow> shop_db \<Rightarrow> py_error + psi" where
  "reset_status p s =
     (if psi_type p \<noteq> PSI_NORMAL then Inr p
      else if psi_assign_status p = CANCELED then Inr (p\<lparr>psi_status := PSI_CANCEL\<rparr>)
      else
        (case psi_sale_order p s of
           Inl e \<Rightarrow> Inl e
         | Inr o' \<Rightarrow>
             if so_status o' \<in> {TRADE_BUYER_SIGNED, TRADE_FINISHED} then Inr (p\<lparr>psi_status := PSI_FINISH\<rparr>)
             else if psi_assign_status p = FINISHED then Inr (p\<lparr>psi_status := PSI_SENT\<rparr>)
             else if psi_assign_status p = VIRTUAL_ASSIGNED then Inr (p\<lparr>psi_status := PSI_THIRD_SEND\<rparr>)
             else if psi_assign_status p = ASSIGNED then
               (case package_of p s of
                  Inl e \<Rightarrow> Inl e
                | Inr None \<Rightarrow> Inr (p\<lparr>psi_status := PSI_READY\<rparr>)
                | Inr (Some po) \<Rightarrow> Inr (p\<lparr>psi_status :=
                    (if po_sys_status po = WAIT_SCAN_WEIGHT_STATUS then PSI_WAITPOST
                     else if po_sys_status po = WAIT_CHECK_BARCODE_STATUS then PSI_WAITSCAN
                     else PSI_MERGED)\<rparr>))
             else if psi_purchase_order_unikey p = '''' then Inr p
             else
               (case order_list_of p s of
                  None \<Rightarrow> Inl AttributeError
                | Some ol \<Rightarrow> Inr (p\<lparr>psi_status := (if can_receive ol then PSI_BOOKED else PSI_PREPARE_BOOK)\<rparr>))))"

definition reset_assign_status :: "psi \<Rightarrow> (shop_db, psi) prog" where
  "reset_assign_status p =
     bindE (liftE (package_of p)) (\<lambda>po.
     bindE (save_psi ((off_package p)\<lparr>psi_assign_status := NOT_ASSIGNED\<rparr>)) (\<lambda>p.
     thenE (release_package po)
     (ret p)))"

definition reset_assign_package :: "psi \<Rightarrow> (shop_db, psi) prog" where
  "reset_assign_package p =
     (if psi_assign_status p = FINISHED then raise (Exn ''already sent'')
      else if psi_package_order_id p = None \<or> psi_package_order_id p = Some '''' then ret p
      else
        bindE (liftE (package_of p)) (\<lambda>po.
        bindE (save_psi ((off_package p)\<lparr>psi_status := PSI_ASSIGNED\<rparr>)) (\<lambda>p.
        bindE (get_by_sku (psi_sku_id p)) (\<lambda>stock.
        bindE (liftE (restat [] stock)) (\<lambda>(stock, _).
        thenE (save_stock stock)
        (thenE (release_package po)
        (ret p)))))))"

definition reset_trade_package :: "string \<Rightarrow> (shop_db, unit) prog" where
  "reset_trade_package tid =
     bindE (asks (get_by_tid tid)) (each_item reset_assign_package)"

section \<open>What purchasing leaves alone\<close>

abbreviation items_and_stock :: "psi table \<Rightarrow> sku_stock table \<Rightarrow> shop_db \<Rightarrow> bool" where
  "items_and_stock P S s \<equiv> d_psis s = P \<and> d_stocks s = S"

lemma keeps_modify: "(\<And>s. I s \<Longrightarrow> I (f s)) \<Longrightarrow> keeps I (modify f)"
  by (rule keepsI) (simp add: prog_simps)

lemma keeps_save_arrangement [keeps_intro]: "keeps (items_and_stock P S) (save_arrangement pa)"
  by (rule keepsI) (auto simp: save_arrangement_def Let_def)

lemma keeps_save_detail [keeps_intro]: "keeps (items_and_stock P S) (save_detail pd)"
  by (rule keepsI) (auto simp: save_detail_def Let_def)

lemma keeps_save_purchase [keeps_intro]: "keeps (items_and_stock P S) (save_purchase po)"
  by (rule keepsI) (auto simp: save_purchase_def Let_def)

lemma keeps_sync_order_list [keeps_intro]: "keeps (items_and_stock P S) (sync_order_list po)"
  by (rule keepsI) (metis sync_order_list_frame(4,5) prod.collapse)

lemma keeps_sync_order_detail [keeps_intro]: "keeps (items_and_stock P S) (sync_order_detail pd)"
  by (rule keepsI) (metis sync_order_detail_frame(4,5) prod.collapse)

lemma keeps_purchase_restat [keeps_intro]: "keeps (items_and_stock P S) (purchase_restat k)"
  unfolding purchase_restat_def refresh_purchase_def
  by (intro keeps_intro) (auto intro!: keeps_intro split: option.split)

lemma keeps_detail_restat [keeps_intro]: "keeps (items_and_stock P S) (detail_restat pd)"
  unfolding detail_restat_def refresh_detail_def
  by (intro keeps_intro) (auto intro!: keeps_intro simp: Let_def)

lemma keeps_arrangement_cancel [keeps_intro]: "keeps (items_and_stock P S) (arrangement_cancel pa)"
  unfolding arrangement_cancel_def
  by (auto intro!: keeps_intro split: option.split)

end
