(* ===== verification/Assign.thy ===== *)
theory Assign
  imports Packing
begin

text \<open>
  Handing out stock (\<open>SkuStock.all_assign\<close>, \<open>assign\<close>, \<open>relase_assign\<close>,
  \<open>src/shopback/items/models/stats.py\<close>). What is in the warehouse and not assigned goes to the
  waiting items in the order of their pay times; an excess is taken back from the latest. The object
  \<open>self\<close> is a row read earlier: a call made on it again sees the numbers it had then, changed only
  where the code changes them.
\<close>

section \<open>Choosing the items\<close>

text \<open>\<open>order_by('pay_time')\<close>; items paid in the same second come in table order.\<close>

definition by_pay_time :: "psi list \<Rightarrow> psi list" where
  "by_pay_time = sort_key psi_pay_time"

text \<open>The loop that stops (\<open>break\<close>) at the first item that does not fit, and the one that goes on.\<close>

fun take_in_turn :: "int \<Rightarrow> psi list \<Rightarrow> psi list" where
  "take_in_turn now_num [] = []"
| "take_in_turn now_num (p # ps) =
     (if now_num \<ge> psi_num p then p # take_in_turn (now_num - psi_num p) ps else [])"

fun take_fitting :: "int \<Rightarrow> psi list \<Rightarrow> psi list" where
  "take_fitting now_num [] = []"
| "take_fitting now_num (p # ps) =
     (if now_num \<ge> psi_num p then p # take_fitting (now_num - psi_num p) ps else take_fitting now_num ps)"

definition waiting_of :: "pk_id \<Rightarrow> psi \<Rightarrow> bool" where
  "waiting_of sku p \<longleftrightarrow> psi_sku_id p = sku \<and> psi_type p = PSI_NORMAL \<and> psi_assign_status p = NOT_ASSIGNED"

definition free_stock :: "sku_stock \<Rightarrow> int" where
  "free_stock st = realtime_quantity st - attr st Assign_num"

section \<open>Taking stock back\<close>

definition release_first :: "sku_stock \<Rightarrow> psi option \<Rightarrow> (shop_db, unit) prog" where
  "release_first st p =
     (case p of
        Some p \<Rightarrow> bindE (set_status_not_assigned p True True True) (\<lambda>_. ret ())
      | None \<Rightarrow> set_psi_not_assigned (ss_sku_id st) 0 True)"

definition relase_assign :: "sku_stock \<Rightarrow> pk_id option \<Rightarrow> order_list option \<Rightarrow> (shop_db, unit) prog" where
  "relase_assign st psi_id' orderlist =
     (if attr st Assign_num \<le> 0 then ret ()
      else if free_stock st > 0 then ret ()
      else
        bindE (asks (\<lambda>s.
          case psi_id' of
            Some i \<Rightarrow> q_first (filter (\<lambda>p. psi_id p = i) (d_psis s))
          | None \<Rightarrow>
              (case orderlist of
                 Some ol \<Rightarrow> q_first (filter (\<lambda>p. psi_sku_id p = ss_sku_id st \<and> psi_type p = PSI_NORMAL
                    \<and> psi_purchase_order_unikey p = ol_purchase_order_unikey ol
                    \<and> psi_assign_status p = ASSIGNED) (d_psis s))
               | None \<Rightarrow> q_first (sort_key (\<lambda>p. - psi_pay_time p)
                    (filter (\<lambda>p. psi_sku_id p = ss_sku_id st \<and> psi_type p = PSI_NORMAL
                      \<and> psi_assign_status p = ASSIGNED) (d_psis s))))))
        (release_first st))"

section \<open>Handing stock out\<close>

definition assigned_row :: "int \<Rightarrow> sku_stock \<Rightarrow> sku_stock" where
  "assigned_row n st = add_attrs [(Assign_num, n), (Psi_num PSI_ASSIGNED, n), (Psi_num PSI_BOOKED, - n)] st"

definition hand_to :: "sku_stock \<Rightarrow> psi list \<Rightarrow> (shop_db, sku_stock) prog" where
  "hand_to st items =
     (let st = assigned_row (sum_list (map psi_num items)) st in
      thenE (save_stock st)
      (thenE (batch_set_status_assigned (List.map_filter psi_oid items) False)
      (ret st)))"

text \<open>The call without an item and an order list: the items in turn.\<close>

definition assign_in_turn :: "sku_stock \<Rightarrow> (shop_db, unit) prog" where
  "assign_in_turn st =
     (if free_stock st = 0 then ret ()
      else if free_stock st < 0 then relase_assign st None None
      else
        bindE (asks (\<lambda>s. take_in_turn (free_stock st)
          (by_pay_time (filter (waiting_of (ss_sku_id st)) (d_psis s))))) (\<lambda>items.
        bindE (hand_to st items) (\<lambda>_. ret ())))"

definition assign :: "sku_stock \<Rightarrow> pk_id option \<Rightarrow> order_list option \<Rightarrow> bool \<Rightarrow> (shop_db, unit) prog" where
  "assign st psi_id' orderlist again =
     (case (psi_id', orderlist) of
        (None, None) \<Rightarrow> assign_in_turn st
      | (Some i, _) \<Rightarrow>
          if free_stock st = 0 then ret ()
          else if free_stock st < 0 then relase_assign st psi_id' orderlist
          else
            bindE (asks (\<lambda>s. q_first (filter (\<lambda>p. psi_sku_id p = ss_sku_id st \<and> psi_id p = i
              \<and> psi_assign_status p = NOT_ASSIGNED) (d_psis s)))) (\<lambda>p.
            thenE (case p of
                None \<Rightarrow> ret ()
              | Some p \<Rightarrow> whenE (free_stock st \<ge> psi_num p)
                  (bindE (set_status_booked_2_assigned p True) (\<lambda>_. ret ())))
            (whenE again (assign_in_turn st)))
      | (None, Some ol) \<Rightarrow>
          if free_stock st = 0 then ret ()
          else if free_stock st < 0 then relase_assign st psi_id' orderlist
          else
            bindE (asks (\<lambda>s. take_fitting (free_stock st) (filter (\<lambda>p. waiting_of (ss_sku_id st) p
              \<and> psi_purchase_order_unikey p = ol_purchase_order_unikey ol) (d_psis s)))) (\<lambda>items.
            bindE (hand_to st items) (\<lambda>st.
            whenE again (assign_in_turn st))))"

definition all_assign :: "(shop_db, unit) prog" where
  "all_assign =
     bindE (asks (\<lambda>s. remdups (map psi_sku_id (filter (\<lambda>p. psi_assign_status p = NOT_ASSIGNED) (d_psis s))))) (\<lambda>skus.
     forE (\<lambda>sku. bindE (get_by_sku sku) (\<lambda>st. assign st None None True)) skus)"

section \<open>What the loops choose\<close>

lemma take_in_turn_sum: "0 \<le> n \<Longrightarrow> sum_list (map psi_num (take_in_turn n ps)) \<le> n"
proof (induction n ps rule: take_in_turn.induct)
  case (2 n p ps)
  then show ?case by auto
qed simp

lemma take_fitting_sum: "0 \<le> n \<Longrightarrow> sum_list (map psi_num (take_fitting n ps)) \<le> n"
proof (induction n ps rule: take_fitting.induct)
  case (2 n p ps)
  then show ?case by auto
qed simp

lemma take_in_turn_split:
  "\<exists>rest. ps = take_in_turn n ps @ rest \<and>
     (rest = [] \<or> psi_num (hd rest) > n - sum_list (map psi_num (take_in_turn n ps)))"
proof (induction n ps rule: take_in_turn.induct)
  case (2 n p ps)
  then show ?case by (cases "n \<ge> psi_num p") (auto simp: algebra_simps)
qed simp

lemma sum_list_less:
  assumes "\<And>x. x \<in> set xs \<Longrightarrow> f x \<le> (g x :: int)" and "y \<in> set xs" and "f y < g y"
  shows "sum_list (map f xs) < sum_list (map g xs)"
proof -
  have le: "sum_list (map f ys) \<le> sum_list (map g ys)" if "set ys \<subseteq> set xs" for ys
    using that assms(1) by (intro sum_list_mono) auto
  from assms(2) obtain us vs where xs: "xs = us @ y # vs" by (auto dest: split_list)
  then have "set us \<subseteq> set xs" "set vs \<subseteq> set xs" by auto
  note this [THEN le]
  with assms(3) show ?thesis by (simp add: xs)
qed

lemma take_in_turn_sub: "set (take_in_turn n ps) \<subseteq> set ps"
  by (induction n ps rule: take_in_turn.induct) auto

lemma filter_replaced:
  "\<not> P r \<Longrightarrow> filter P (map (\<lambda>x. if k x = i then r else x) xs) = filter (\<lambda>x. P x \<and> k x \<noteq> i) xs"
  by (induction xs) auto

section \<open>What was handed out\<close>

text \<open>The batch update of items, with its arrangements cancelled on the way.\<close>

abbreviation handed :: "time \<Rightarrow> psi \<Rightarrow> psi" where
  "handed n p \<equiv> p\<lparr>psi_status := PSI_ASSIGNED, psi_assign_status := ASSIGNED, psi_assign_time := Some n\<rparr>"

lemma batch_assigned_run:
  assumes "batch_set_status_assigned oids False s = (Inr (), t)"
  shows "d_psis t = q_update (\<lambda>p. psi_oid p \<in> Some ` set oids) (handed (d_now s)) (d_psis s) \<and>
    d_stocks t = d_stocks s"
proof -
  let ?P = "q_update (\<lambda>p. psi_oid p \<in> Some ` set oids) (handed (d_now s)) (d_psis s)"
  let ?u = "s\<lparr>d_psis := ?P\<rparr>"
  from assms obtain pas where run: "forE arrangement_cancel pas ?u = (Inr (), t)"
    by (auto simp: batch_set_status_assigned_def run_ok)
  have u: "items_and_stock ?P (d_stocks s) ?u" by simp
  have "keeps (items_and_stock ?P (d_stocks s)) (forE arrangement_cancel pas)"
    by (intro keeps_intro)
  from keeps_run [OF this u run] show ?thesis .
qed

lemma hand_to_run:
  assumes run: "hand_to st items s = (Inr st', t)" and sub: "set items \<subseteq> set (d_psis s)"
    and oids: "distinct (map psi_oid (d_psis s))" and named: "\<forall>p\<in>set items. psi_oid p \<noteq> None"
  shows "st' = assigned_row (sum_list (map psi_num items)) st \<and>
    d_stocks t = tbl_save ss_id st' (d_stocks s) \<and>
    d_psis t = map (\<lambda>p. if p \<in> set items then handed (d_now s) p else p) (d_psis s)"
proof -
  let ?st = "assigned_row (sum_list (map psi_num items)) st"
  let ?u = "s\<lparr>d_stocks := tbl_save ss_id ?st (d_stocks s)\<rparr>"
  from run have st: "st' = ?st"
    and b: "batch_set_status_assigned (List.map_filter psi_oid items) False ?u = (Inr (), t)"
    by (auto simp: hand_to_def Let_def run_ok save_stock_def)
  have "psi_oid p \<in> Some ` set (List.map_filter psi_oid items) \<longleftrightarrow> p \<in> set items" if "p \<in> set (d_psis s)" for p
  proof
    assume "psi_oid p \<in> Some ` set (List.map_filter psi_oid items)"
    then obtain q where q: "q \<in> set items" "psi_oid q = psi_oid p"
      by (auto simp: map_filter_def image_iff)
    with sub oids that have "q = p" by (auto simp: distinct_map inj_on_def)
    with q show "p \<in> set items" by simp
  next
    assume "p \<in> set items"
    with named obtain oid where "psi_oid p = Some oid" by auto
    with \<open>p \<in> set items\<close> show "psi_oid p \<in> Some ` set (List.map_filter psi_oid items)"
      by (force simp: map_filter_def image_iff)
  qed
  then show ?thesis using batch_assigned_run [OF b] by (auto simp: st q_update_def)
qed

lemma assigned_in_turn:
  assumes "assign_in_turn st s = (Inr (), t)" and "0 < free_stock st"
    and "distinct (map psi_oid (d_psis s))" and "\<forall>p\<in>set (d_psis s). psi_oid p \<noteq> None"
  shows "\<exists>taken rest. by_pay_time (filter (waiting_of (ss_sku_id st)) (d_psis s)) = taken @ rest \<and>
    sum_list (map psi_num taken) \<le> free_stock st \<and>
    (rest = [] \<or> psi_num (hd rest) > free_stock st - sum_list (map psi_num taken)) \<and>
    d_psis t = map (\<lambda>p. if p \<in> set taken then handed (d_now s) p else p) (d_psis s) \<and>
    d_stocks t = tbl_save ss_id (assigned_row (sum_list (map psi_num taken)) st) (d_stocks s)"
proof -
  let ?ws = "by_pay_time (filter (waiting_of (ss_sku_id st)) (d_psis s))"
  let ?taken = "take_in_turn (free_stock st) ?ws"
  from assms(1,2) obtain st' where run: "hand_to st ?taken s = (Inr st', t)"
    by (auto simp: assign_in_turn_def run_ok)
  have sub: "set ?taken \<subseteq> set (d_psis s)"
    using take_in_turn_sub [of "free_stock st" ?ws] by (auto simp: by_pay_time_def)
  have named: "\<forall>p\<in>set ?taken. psi_oid p \<noteq> None" using sub assms(4) by blast
  obtain rest where rest: "?ws = ?taken @ rest"
      "rest = [] \<or> psi_num (hd rest) > free_stock st - sum_list (map psi_num ?taken)"
    using take_in_turn_split by blast
  have "sum_list (map psi_num ?taken) \<le> free_stock st" using assms(2) by (intro take_in_turn_sum) simp
  with rest hand_to_run [OF run sub assms(3) named] show ?thesis
    by (intro exI [of _ ?taken] exI [of _ rest]) simp
qed

section \<open>Properties of handing out\<close>

text \<open>
  C11. Stock is handed out in pay order and never beyond what is free: when \<open>assign()\<close> returns,
  the items assigned are a beginning of the waiting items in the order of their pay times, they need
  together no more than the free stock, the first item left does not fit what remains, the other items
  are as before, and the row's \<open>assign_num\<close> grew by exactly what was handed out.
\<close>

theorem assign_serves_in_pay_order:
  assumes "assign st None None again s = (Inr (), t)" and "0 < free_stock st"
    and "distinct (map psi_oid (d_psis s))" and "\<forall>p\<in>set (d_psis s). psi_oid p \<noteq> None"
  shows "\<exists>taken rest. by_pay_time (filter (waiting_of (ss_sku_id st)) (d_psis s)) = taken @ rest \<and>
    sum_list (map psi_num taken) \<le> free_stock st \<and>
    (rest = [] \<or> psi_num (hd rest) > free_stock st - sum_list (map psi_num taken)) \<and>
    d_psis t = map (\<lambda>p. if p \<in> set taken then handed (d_now s) p else p) (d_psis s) \<and>
    d_stocks t = tbl_save ss_id (assigned_row (sum_list (map psi_num taken)) st) (d_stocks s)"
  using assms assigned_in_turn [of st s t] by (simp add: assign_def)

text \<open>
  Handing stock to an item that was not booked (paid, or waiting to be booked) takes its number off
  the counter of booked items and leaves the counter of its own state: a counter of paid items that
  agreed with the items no longer does.
\<close>

theorem assign_of_paid_items_leaves_counter_stale:
  assumes "assign st None None again s = (Inr (), t)" and "0 < free_stock st"
    and "distinct (map psi_oid (d_psis s))" and "\<forall>p\<in>set (d_psis s). psi_oid p \<noteq> None \<and> psi_num p > 0"
    and "distinct (map ss_id (d_stocks s))" and "st \<in> set (d_stocks s)"
    and "counter_ok (Psi_num PSI_PAID) s"
    and "p = hd (by_pay_time (filter (waiting_of (ss_sku_id st)) (d_psis s)))"
    and "waiting_of (ss_sku_id st) p" and "p \<in> set (d_psis s)" and "psi_num p \<le> free_stock st"
    and "psi_status p = PSI_PAID" and "psi_pay_time p > COMMIT_TIME"
  shows "\<not> counter_ok (Psi_num PSI_PAID) t"
proof -
  let ?c = "Psi_num PSI_PAID" and ?ws = "by_pay_time (filter (waiting_of (ss_sku_id st)) (d_psis s))"
  have "\<forall>p\<in>set (d_psis s). psi_oid p \<noteq> None" using assms(4) by blast
  moreover have "assign_in_turn st s = (Inr (), t)" using assms(1) by (simp add: assign_def)
  ultimately
  obtain taken rest where split: "?ws = taken @ rest"
    and left: "rest = [] \<or> psi_num (hd rest) > free_stock st - sum_list (map psi_num taken)"
    and psis: "d_psis t = map (\<lambda>p. if p \<in> set taken then handed (d_now s) p else p) (d_psis s)"
    and stocks: "d_stocks t = tbl_save ss_id (assigned_row (sum_list (map psi_num taken)) st) (d_stocks s)"
    using assms(2,3) by (blast dest: assigned_in_turn)
  have "p \<in> set ?ws" using assms(9,10) by (simp add: by_pay_time_def)
  then have "?ws \<noteq> []" by auto
  have p: "p \<in> set taken"
  proof (cases taken)
    case Nil
    with split left \<open>?ws \<noteq> []\<close> assms(8,11) show ?thesis by auto
  next
    case (Cons q qs)
    with split assms(8) show ?thesis by simp
  qed
  have less: "psi_total ?c (ss_sku_id st) t < psi_total ?c (ss_sku_id st) s"
  proof -
    have "psi_effect ?c (if q \<in> set taken then handed (d_now s) q else q) \<le> psi_effect ?c q" if "q \<in> set (d_psis s)" for q
      using that assms(4) by (auto simp: psi_effect_def)
    moreover have "psi_effect ?c (handed (d_now s) p) < psi_effect ?c p"
      using assms(4,9,10,12,13) by (simp add: psi_effect_def waiting_of_def)
    ultimately show ?thesis
      unfolding psi_total_effect psis q_sum_as_if map_map
      by (intro sum_list_less [where y = p]) (use assms(9,10) p in \<open>auto simp: waiting_of_def\<close>)
  qed
  have "q_sum (\<lambda>x. attr x ?c) (\<lambda>x. ss_sku_id x = ss_sku_id st) (d_stocks t)
      = q_sum (\<lambda>x. attr x ?c) (\<lambda>x. ss_sku_id x = ss_sku_id st) (d_stocks s)"
    using stock_table.sum_save [OF assms(5,6), of "assigned_row (sum_list (map psi_num taken)) st"]
    by (simp add: stocks assigned_row_def add_attrs_frame add_attrs_attr delta_of_def)
  with less assms(7) show ?thesis
    unfolding counter_ok_def in_sync_def not_all psi_total_effect
    by (intro exI [of _ "ss_sku_id st"]) simp
qed

text \<open>An item is assigned with its statistics: the item's row and the stock rows are all that
  changes of the two tables.\<close>

lemma booked_2_assigned_run:
  assumes "set_status_booked_2_assigned p True s = (Inr q, t)" and "p \<in> set (d_psis s)" and "psi_id p \<noteq> 0"
  shows "d_psis t = tbl_save psi_id (handed (d_now s) p) (d_psis s)"
proof -
  let ?p = "handed (d_now s) p"
  from assms(1) obtain r u v where mv: "save_and_move ?p set_psi_booked_2_assigned True s = (Inr r, u)"
    and c: "cancel_open_arrangement r u = (Inr v, t)"
    by (auto simp: set_status_booked_2_assigned_def now_def Let_def run_ok)
  from mv obtain w where "save_psi ?p s = (Inr r, w)" and move: "move_stock (psi_sku_id r) (psi_booked_2_assigned (psi_num r)) True True w = (Inr (), u)"
    by (auto simp: save_and_move_def set_psi_booked_2_assigned_def run_ok)
  then have "d_psis w = tbl_save psi_id ?p (d_psis s)" using assms(3)
    by (auto simp: save_psi_def split: if_splits)
  then have u: "items_and_stock (tbl_save psi_id ?p (d_psis s)) (d_stocks u) u"
    using move_stock_touches [of "psi_sku_id r" "psi_booked_2_assigned (psi_num r)" True True w] move by auto
  have "keeps (items_and_stock (tbl_save psi_id ?p (d_psis s)) (d_stocks u)) (cancel_open_arrangement r)"
    unfolding cancel_open_arrangement_def by (auto intro!: keeps_intro split: option.split)
  from keeps_run [OF this u c] show ?thesis by simp
qed

text \<open>
  Asking for stock for one item hands the same stock out twice: after the item was served, the
  method goes on with \<open>self\<close> as it was read before, so the next waiting item is served as well when
  it fits the free stock alone, even if both do not.
\<close>

theorem assign_of_an_item_hands_out_twice:
  assumes "assign st (Some (psi_id p)) None True s = (Inr (), t)"
    and "distinct (map psi_id (d_psis s))" and "distinct (map psi_oid (d_psis s))"
    and "\<forall>x\<in>set (d_psis s). psi_oid x \<noteq> None \<and> psi_num x > 0 \<and> psi_id x \<noteq> 0"
    and "p \<in> set (d_psis s)" and "waiting_of (ss_sku_id st) p" and "psi_num p \<le> free_stock st"
    and "by_pay_time (filter (\<lambda>x. waiting_of (ss_sku_id st) x \<and> psi_id x \<noteq> psi_id p) (d_psis s)) = q # qs"
    and "psi_num q \<le> free_stock st" and "psi_num p + psi_num q > free_stock st"
  shows "\<exists>p'\<in>set (d_psis t). \<exists>q'\<in>set (d_psis t). psi_id p' = psi_id p \<and> psi_id q' = psi_id q \<and>
    psi_assign_status p' = ASSIGNED \<and> psi_assign_status q' = ASSIGNED \<and> psi_id p' \<noteq> psi_id q' \<and>
    psi_num p' + psi_num q' > free_stock st"
proof -
  let ?p = "handed (d_now s) p" and ?sku = "ss_sku_id st"
  have q: "q \<in> set (d_psis s)" "waiting_of ?sku q" "psi_id q \<noteq> psi_id p"
  proof -
    have "q \<in> set (by_pay_time (filter (\<lambda>x. waiting_of ?sku x \<and> psi_id x \<noteq> psi_id p) (d_psis s)))"
      by (simp add: assms(8))
    then show "q \<in> set (d_psis s)" "waiting_of ?sku q" "psi_id q \<noteq> psi_id p"
      by (simp_all add: by_pay_time_def)
  qed
  have pos: "0 < free_stock st" using assms(4,5,7) by fastforce
  have found: "q_first (filter (\<lambda>x. psi_sku_id x = ?sku \<and> psi_id x = psi_id p \<and> psi_assign_status x = NOT_ASSIGNED) (d_psis s)) = Some p"
  proof -
    have "(psi_sku_id x = ?sku \<and> psi_id x = psi_id p \<and> psi_assign_status x = NOT_ASSIGNED) = (psi_id x = psi_id p)"
      if "x \<in> set (d_psis s)" for x
      using that assms(2,5,6) by (auto simp: distinct_map inj_on_def waiting_of_def)
    then have "filter (\<lambda>x. psi_sku_id x = ?sku \<and> psi_id x = psi_id p \<and> psi_assign_status x = NOT_ASSIGNED) (d_psis s) = [p]"
      using psi_table.get_member [OF assms(2,5)] by (simp add: q_get_filter cong: filter_cong)
    then show ?thesis by simp
  qed
  from assms(1,7) pos found obtain r u where b: "set_status_booked_2_assigned p True s = (Inr r, u)"
    and again: "assign_in_turn st u = (Inr (), t)"
    by (auto simp: assign_def run_ok)
  have "psi_id p \<noteq> 0" using assms(4,5) by blast
  from booked_2_assigned_run [OF b assms(5) this]
  have psis: "d_psis u = map (\<lambda>x. if psi_id x = psi_id p then ?p else x) (d_psis s)"
    using assms(5) by (auto simp: tbl_save_def)
  have at: "x = p" if "x \<in> set (d_psis s)" "psi_id x = psi_id p" for x
    using that assms(2,5) by (auto simp: distinct_map inj_on_def)
  have "filter (waiting_of ?sku) (d_psis u) = filter (\<lambda>x. waiting_of ?sku x \<and> psi_id x \<noteq> psi_id p) (d_psis s)"
    unfolding psis by (rule filter_replaced) (simp add: waiting_of_def)
  with assms(8) have ws: "by_pay_time (filter (waiting_of ?sku) (d_psis u)) = q # qs" by simp
  have "map psi_oid (d_psis u) = map psi_oid (d_psis s)" unfolding psis using at by auto
  with assms(3) have oids: "distinct (map psi_oid (d_psis u))" by simp
  have named: "\<forall>x\<in>set (d_psis u). psi_oid x \<noteq> None" unfolding psis using assms(4,5) by auto
  from assigned_in_turn [OF again pos oids named] ws obtain taken rest
    where split: "q # qs = taken @ rest"
      and left: "rest = [] \<or> psi_num (hd rest) > free_stock st - sum_list (map psi_num taken)"
      and t: "d_psis t = map (\<lambda>x. if x \<in> set taken then handed (d_now u) x else x) (d_psis u)"
    by auto
  have taken: "q \<in> set taken" using split left assms(9) by (cases taken) auto
  have "?p \<in> set (d_psis u)" "q \<in> set (d_psis u)" unfolding psis using assms(5) q by (auto simp: image_iff)
  then have mem: "(if ?p \<in> set taken then handed (d_now u) ?p else ?p) \<in> set (d_psis t)" "handed (d_now u) q \<in> set (d_psis t)"
    unfolding t set_map using taken by (blast intro: imageI, force)
  from q(3) assms(10) show ?thesis
    by (intro bexI [OF _ mem(1)] bexI [OF _ mem(2)]) auto
qed

section \<open>Two items and not enough stock\<close>

definition waiting_item :: "pk_id \<Rightarrow> int \<Rightarrow> int \<Rightarrow> psi" where
  "waiting_item i n d = example_item\<lparr>psi_id := i, psi_oid := Some (''xo'' @ str_nat i), psi_num := n,
     psi_status := PSI_PAID, psi_assign_status := NOT_ASSIGNED, psi_pay_time := COMMIT_TIME + d\<rparr>"

definition free_row :: sku_stock where
  "free_row = example_stock\<lparr>ss_attr := (\<lambda>a. if a = Inbound_quantity then 5 else
     if a = Sold_num \<or> a = Psi_num PSI_PAID then 7 else 0)\<rparr>"

definition two_waiting :: shop_db where
  "two_waiting = empty_shop\<lparr>d_psis := [waiting_item 1 3 2, waiting_item 2 4 1], d_stocks := [free_row]\<rparr>"

lemmas two_waiting_defs = two_waiting_def waiting_item_def free_row_def shop_example_defs waiting_of_def
  free_stock_def realtime_quantity_def by_pay_time_def

lemma two_waiting_oids: "distinct (map psi_oid (d_psis two_waiting))"
  by code_simp

theorem assign_serves_in_pay_order_witness:
  "\<exists>taken rest. by_pay_time (filter (waiting_of 8) (d_psis two_waiting)) = taken @ rest \<and>
    sum_list (map psi_num taken) \<le> 5 \<and>
    (rest = [] \<or> psi_num (hd rest) > 5 - sum_list (map psi_num taken))"
proof -
  have run: "assign free_row None None True two_waiting = (Inr (), snd (assign free_row None None True two_waiting))"
    by (rule returned) code_simp
  have named: "\<forall>p\<in>set (d_psis two_waiting). psi_oid p \<noteq> None" by (simp add: two_waiting_defs)
  have "free_stock free_row = 5" "ss_sku_id free_row = 8" by (simp_all add: two_waiting_defs)
  with assign_serves_in_pay_order [OF run _ two_waiting_oids named] show ?thesis by auto
qed

theorem assign_of_paid_items_leaves_counter_stale_witness:
  "\<not> counter_ok (Psi_num PSI_PAID) (snd (assign free_row None None True two_waiting))"
proof -
  have run: "assign free_row None None True two_waiting = (Inr (), snd (assign free_row None None True two_waiting))"
    by (rule returned) code_simp
  let ?p = "waiting_item 2 4 1"
  have ok: "counter_ok (Psi_num PSI_PAID) two_waiting"
    by (simp add: counter_ok_def in_sync_def two_waiting_defs psi_effect_def)
  have p: "?p = hd (by_pay_time (filter (waiting_of (ss_sku_id free_row)) (d_psis two_waiting)))"
    by (simp add: two_waiting_defs)
  have row: "free_row \<in> set (d_stocks two_waiting)" "?p \<in> set (d_psis two_waiting)"
    by (simp_all add: two_waiting_def)
  have fits: "0 < free_stock free_row" "psi_num ?p \<le> free_stock free_row" "waiting_of (ss_sku_id free_row) ?p"
    "psi_status ?p = PSI_PAID" "psi_pay_time ?p > COMMIT_TIME"
    by (simp_all add: two_waiting_defs)
  have items: "\<forall>p\<in>set (d_psis two_waiting). psi_oid p \<noteq> None \<and> psi_num p > 0"
    "distinct (map ss_id (d_stocks two_waiting))"
    by (simp_all add: two_waiting_defs)
  show ?thesis
    by (rule assign_of_paid_items_leaves_counter_stale [OF run fits(1) two_waiting_oids items row(1) ok p
          fits(3) row(2) fits(2) fits(4,5)])
qed

theorem assign_of_an_item_hands_out_twice_witness:
  "\<exists>p'\<in>set (d_psis (snd (assign free_row (Some 1) None True two_waiting))).
   \<exists>q'\<in>set (d_psis (snd (assign free_row (Some 1) None True two_waiting))).
     psi_assign_status p' = ASSIGNED \<and> psi_assign_status q' = ASSIGNED \<and> psi_id p' \<noteq> psi_id q' \<and>
     psi_num p' + psi_num q' > 5"
proof -
  let ?p = "waiting_item 1 3 2" and ?t = "snd (assign free_row (Some 1) None True two_waiting)"
  have p: "psi_id ?p = 1" by (simp add: waiting_item_def)
  have run: "assign free_row (Some (psi_id ?p)) None True two_waiting = (Inr (), ?t)"
    unfolding p by (rule returned) code_simp
  have others: "by_pay_time (filter (\<lambda>x. waiting_of (ss_sku_id free_row) x \<and> psi_id x \<noteq> psi_id ?p) (d_psis two_waiting))
      = [waiting_item 2 4 1]" by (simp add: two_waiting_defs)
  have items: "distinct (map psi_id (d_psis two_waiting))" "?p \<in> set (d_psis two_waiting)"
    "\<forall>x\<in>set (d_psis two_waiting). psi_oid x \<noteq> None \<and> psi_num x > 0 \<and> psi_id x \<noteq> 0"
    by (simp_all add: two_waiting_defs)
  have fits: "waiting_of (ss_sku_id free_row) ?p" "psi_num ?p \<le> free_stock free_row"
    "psi_num (waiting_item 2 4 1) \<le> free_stock free_row"
    "psi_num ?p + psi_num (waiting_item 2 4 1) > free_stock free_row" "free_stock free_row = 5"
    by (simp_all add: two_waiting_defs)
  from assign_of_an_item_hands_out_twice [OF run items(1) two_waiting_oids items(3,2) fits(1,2) others fits(3,4)]
  show ?thesis unfolding fits(5) by blast
qed

end
