(* ===== verification/Examples.thy ===== *)
theory Examples
  imports Packing
begin

text \<open>
  Rows of a small shop that the witnesses of several theories share: a paid trade with one order, the
  item of that order, its SKU, product and stock row, the seller's account and a carrier.
\<close>

lemma returned_some: "\<not> isl (fst p) \<Longrightarrow> \<exists>q t. p = (Inr q, t)"
  by (cases p, cases "fst p") auto

definition example_trade :: sale_trade where
  "example_trade = \<lparr>st_id = 4, st_tid = ''xd4'', st_buyer_id = 7, st_buyer_nick = ''nick'',
     st_channel = CH_WX, st_total_fee = 30, st_payment = 30, st_pay_cash = 30, st_post_fee = 0,
     st_discount_fee = 0, st_budget_paid = 0, st_coin_paid = 0, st_has_budget_paid = False,
     st_has_coin_paid = False, st_is_boutique = False, st_buyer_message = '''', st_seller_memo = '''',
     st_created = COMMIT_TIME + 1, st_pay_time = Some (COMMIT_TIME + 2), st_consign_time = None,
     st_trade_type = PREPAY, st_order_type = SALE_ORDER, st_out_sid = '''', st_logistics_company = Some 5,
     st_receiver_name = ''A'', st_receiver_state = ''B'', st_receiver_city = ''C'',
     st_receiver_district = ''D'', st_receiver_address = ''E'', st_receiver_zip = '''',
     st_receiver_mobile = ''13900000000'', st_receiver_phone = '''', st_user_address_id = Some 3,
     st_openid = '''', st_charge = ''ch4'', st_coupon_ids = [], st_pay_extras = '''', st_teambuy_id = None,
     st_mm_linkid = None, st_status = WAIT_SELLER_SEND_GOODS,
     st_pay_status = SALE_TRADE_PAY_FINISHED\<rparr>"

definition example_order :: sale_order where
  "example_order = \<lparr>so_id = 6, so_oid = ''xo6'', so_sale_trade = 4, so_buyer_id = 7, so_item_id = 4,
     so_title = ''coat'', so_price = 10, so_sku_id = 8, so_num = 3, so_outer_id = '''',
     so_outer_sku_id = '''', so_total_fee = 30, so_payment = 30, so_discount_fee = 0, so_sku_name = '''',
     so_pic_path = '''', so_created = COMMIT_TIME + 1, so_pay_time = Some (COMMIT_TIME + 2),
     so_consign_time = None, so_sign_time = None, so_refund_id = None, so_refund_fee = 0,
     so_refund_status = NO_REFUND, so_status = WAIT_SELLER_SEND_GOODS, so_exchange = False,
     so_can_return_num = None\<rparr>"

definition order_item :: psi where
  "order_item = example_item\<lparr>psi_sale_order_id := Some 6, psi_oid := Some ''xo6'', psi_sale_trade_id := Some ''xd4''\<rparr>"

definition example_sku :: product_sku where
  "example_sku = \<lparr>ps_id = 8, ps_product_id = 4, ps_outer_id = '''', ps_ware_by = WARE_SH, ps_cost = 5,
     ps_properties_alias = '''', ps_quantity = 10, ps_wait_post_num = 3,
     ps_properties_name = '''', ps_normal = True, ps_agent_price = 10, ps_std_sale_price = 20,
     ps_remain_num = 10, ps_lock_num = 0, ps_salestat = None\<rparr>"

definition pack_shop :: shop_db where
  "pack_shop = example_shop\<lparr>d_trades := [example_trade], d_orders := [example_order], d_psis := [order_item],
     d_skus := [example_sku], d_users := [\<lparr>su_id = 9, su_uid = FLASH_SELLER_ID, su_nick = ''''\<rparr>],
     d_companies := [\<lparr>lc_id = 5, lc_code = ''YUNDA_QR'', lc_name = ''yunda''\<rparr>]\<rparr>"

definition example_package :: "pk_id \<Rightarrow> string \<Rightarrow> po_status \<Rightarrow> package_order" where
  "example_package pid i st = new_package\<lparr>po_pid := pid, po_id := i, po_sys_status := st,
     po_user_address_id := ''3'', po_buyer_id := Some 7\<rparr>"

lemmas pack_shop_defs = pack_shop_def example_trade_def example_order_def order_item_def example_sku_def
  example_package_def new_package_def shop_example_defs

end
