(* ===== verification/Warehouse.thy ===== *)
theory Warehouse
  imports Examples
begin

text \<open>
  What the packing code does to the tables (\<open>Packet\<close>, \<open>Packing\<close>): the loop over the items
  of a package, the key of a new package, which package an item is merged into, and the steps of a
  package through the warehouse. The examples at the end are the inputs of the properties' witnesses.
\<close>

section \<open>One item's transition\<close>

lemma save_and_move_run:
  assumes "\<And>s. \<exists>S. snd (move (psi_sku_id p) (psi_num p) stat s) = s\<lparr>d_stocks := S\<rparr>"
    and "save_and_move p move stat s = (Inr q, t)" and "psi_id p \<noteq> 0"
  shows "\<exists>S. q = p \<and> t = s\<lparr>d_psis := tbl_save psi_id p (d_psis s), d_stocks := S\<rparr>"
proof -
  from assms(2) obtain u where "save_psi p s = (Inr q, u)" "move (psi_sku_id q) (psi_num q) stat u = (Inr (), t)"
    by (auto simp: save_and_move_def run_ok)
  moreover from this assms(3) have "q = p" "u = s\<lparr>d_psis := tbl_save psi_id p (d_psis s)\<rparr>"
    by (auto simp: save_psi_def split: if_splits)
  ultimately show ?thesis using assms(1) [of u] by auto
qed

lemma save_and_move_new:
  assumes "\<And>s sku num. \<exists>S. snd (move sku num stat s) = s\<lparr>d_stocks := S\<rparr>"
    and "save_and_move p move stat s = (Inr q, t)" and "psi_id p = 0"
  shows "\<exists>S. q = p\<lparr>psi_id := fresh_pk psi_id (d_psis s)\<rparr> \<and> t = s\<lparr>d_psis := d_psis s @ [q], d_stocks := S\<rparr>"
proof -
  from assms(2) obtain u where sv: "save_psi p s = (Inr q, u)" and mv: "move (psi_sku_id q) (psi_num q) stat u = (Inr (), t)"
    by (auto simp: save_and_move_def run_ok)
  from assms(1) [of "psi_sku_id q" "psi_num q" u] mv obtain S where "t = u\<lparr>d_stocks := S\<rparr>" by auto
  with saved_psi [OF sv] assms(3) show ?thesis by (intro exI [of _ S]) simp
qed

text \<open>\<open>f\<close> stores the row \<open>g n p\<close> for the item \<open>p\<close> at the time \<open>n\<close> and touches only
  items and stock.\<close>

definition stores :: "(psi \<Rightarrow> (shop_db, psi) prog) \<Rightarrow> (time \<Rightarrow> psi \<Rightarrow> psi) \<Rightarrow> bool" where
  "stores f g \<longleftrightarrow> (\<forall>n p. psi_id (g n p) = psi_id p) \<and>
     (\<forall>p s q t. f p s = (Inr q, t) \<longrightarrow> psi_id p \<noteq> 0 \<longrightarrow>
        (\<exists>S. t = s\<lparr>d_psis := tbl_save psi_id (g (d_now s) p) (d_psis s), d_stocks := S\<rparr>))"

lemma storesD:
  assumes "stores f g" and "f p s = (Inr q, t)" and "psi_id p \<noteq> 0"
  obtains S where "t = s\<lparr>d_psis := tbl_save psi_id (g (d_now s) p) (d_psis s), d_stocks := S\<rparr>"
  using assms unfolding stores_def by blast

lemma storesI:
  assumes "\<And>n p. psi_id (g n p) = psi_id p"
    and "\<And>p. f p = bindE now (\<lambda>n. save_and_move (g n p) move stat)"
    and "\<And>sku num s. \<exists>S. snd (move sku num stat s) = s\<lparr>d_stocks := S\<rparr>"
  shows "stores f g"
  using save_and_move_run [of move "g n p" stat s q t for n p s q t] assms
  by (fastforce simp: stores_def now_def run_ok)

abbreviation scanned :: "time \<Rightarrow> psi \<Rightarrow> psi" where
  "scanned n p \<equiv> p\<lparr>psi_status := PSI_WAITSCAN, psi_scan_time := Some n\<rparr>"
abbreviation checked :: "time \<Rightarrow> psi \<Rightarrow> psi" where
  "checked n p \<equiv> p\<lparr>psi_status := PSI_WAITPOST, psi_assign_status := ASSIGNED, psi_scan_time := Some n\<rparr>"
abbreviation weighed :: "time \<Rightarrow> psi \<Rightarrow> psi" where
  "weighed n p \<equiv> p\<lparr>psi_status := PSI_SENT, psi_assign_status := FINISHED, psi_weight_time := Some n\<rparr>"
abbreviation received :: "time \<Rightarrow> psi \<Rightarrow> psi" where
  "received n p \<equiv> p\<lparr>psi_status := PSI_FINISH, psi_assign_status := FINISHED, psi_finish_time := Some n\<rparr>"

lemma transitions_store:
  "stores (\<lambda>p. set_status_waitscan p True) scanned"
  "stores (\<lambda>p. set_status_waitpost p True) checked"
  "stores (\<lambda>p. set_status_sent p True) weighed"
  "stores (\<lambda>p. set_status_finish p True) received"
  by (rule storesI [where move = set_psi_waitscan and stat = True]
        storesI [where move = set_psi_waitpost and stat = True]
        storesI [where move = set_psi_sent and stat = True]
        storesI [where move = set_psi_finish and stat = True];
      simp add: set_status_waitscan_def set_status_waitpost_def set_status_sent_def
        set_status_finish_def set_psi_defs move_stock_touches)+

section \<open>The loop over items\<close>

lemma each_item_run:
  assumes "stores f g" and "each_item f items s = (Inr (), t)"
    and "distinct (map psi_id (d_psis s))" and "set items \<subseteq> set (d_psis s)" and "distinct (map psi_id items)"
    and "\<forall>p\<in>set (d_psis s). psi_id p \<noteq> 0"
  shows "\<exists>S. t = s\<lparr>d_psis := map (\<lambda>x. if x \<in> set items then g (d_now s) x else x) (d_psis s), d_stocks := S\<rparr>"
  using assms(2-)
proof (induction items arbitrary: s)
  case Nil
  then have "t = s" by (simp add: each_item_def run_ok)
  then show ?case by (intro exI [of _ "d_stocks s"]) simp
next
  case (Cons p ps)
  let ?g = "g (d_now s)"
  from Cons.prems(1) obtain q u where step: "f p s = (Inr q, u)" and rest: "each_item f ps u = (Inr (), t)"
    by (auto simp: each_item_def run_ok)
  have "psi_id p \<noteq> 0" using Cons.prems(3,5) by auto
  from storesD [OF assms(1) step this]
  obtain S where u: "u = s\<lparr>d_psis := tbl_save psi_id (?g p) (d_psis s), d_stocks := S\<rparr>" .
  have id: "psi_id (g n x) = psi_id x" for n x using assms(1) by (simp add: stores_def)
  have at: "x = p" if "x \<in> set (d_psis s)" "psi_id x = psi_id p" for x
    using that Cons.prems(2,3) by (auto simp: distinct_map inj_on_def)
  have psis: "d_psis u = map (\<lambda>x. if x = p then ?g p else x) (d_psis s)"
    using Cons.prems(3) at by (auto simp: u tbl_save_def id)
  have ids: "map psi_id (d_psis u) = map psi_id (d_psis s)"
    unfolding psis by (auto simp: id)
  have "set ps \<subseteq> set (d_psis u)" using Cons.prems(3,4) unfolding psis by (auto simp: image_iff)
  moreover have "\<forall>p\<in>set (d_psis u). psi_id p \<noteq> 0" using Cons.prems(5) unfolding psis by (auto simp: id)
  ultimately obtain S' where
    t: "t = u\<lparr>d_psis := map (\<lambda>x. if x \<in> set ps then g (d_now u) x else x) (d_psis u), d_stocks := S'\<rparr>"
    using Cons.IH [OF rest] Cons.prems(2,4) ids by auto
  have notin: "?g p \<notin> set ps" "p \<notin> set ps" using Cons.prems(4) id by (auto simp: image_iff)
  have "map (\<lambda>x. if x \<in> set ps then ?g x else x) (d_psis u)
    = map (\<lambda>x. if x \<in> set (p # ps) then ?g x else x) (d_psis s)"
    unfolding psis using notin by auto
  moreover have now: "d_now u = d_now s" by (simp add: u)
  ultimately have "t = s\<lparr>d_psis := map (\<lambda>x. if x \<in> set (p # ps) then ?g x else x) (d_psis s), d_stocks := S'\<rparr>"
    using t [unfolded now] by (simp add: u)
  then show ?case by blast
qed

text \<open>The tables of items the code works on.\<close>

definition items_ok :: "shop_db \<Rightarrow> bool" where
  "items_ok s \<longleftrightarrow> distinct (map psi_id (d_psis s)) \<and> (\<forall>p\<in>set (d_psis s). psi_id p \<noteq> 0)"

lemma items_ok_ids: "map psi_id (d_psis t) = map psi_id (d_psis s) \<Longrightarrow> items_ok t = items_ok s"
proof -
  have zero: "(\<forall>p\<in>set xs. psi_id p \<noteq> 0) = (0 \<notin> set (map psi_id xs))" for xs by (auto simp: image_iff)
  assume "map psi_id (d_psis t) = map psi_id (d_psis s)"
  then show ?thesis unfolding items_ok_def zero by simp
qed

lemma each_item_filter_run:
  assumes "stores f g" and "each_item f (filter P (d_psis s)) s = (Inr (), t)" and "items_ok s"
  shows "d_psis t = map (\<lambda>x. if P x then g (d_now s) x else x) (d_psis s) \<and> d_packages t = d_packages s
    \<and> d_now t = d_now s"
proof -
  have "distinct (map psi_id (filter P (d_psis s)))"
    using assms(3) by (simp add: items_ok_def distinct_map_filter)
  with each_item_run [OF assms(1,2)] assms(3) show ?thesis
    by (auto simp: items_ok_def)
qed

lemma save_package_run:
  assumes "save_package po s = (Inr q, t)" and "po_pid po \<noteq> 0"
  shows "q = po \<and> t = s\<lparr>d_packages := tbl_save po_pid po (d_packages s)\<rparr>"
  using assms by (auto simp: save_package_def split: if_splits)

lemma items_ok_packages [simp]: "items_ok (s\<lparr>d_packages := P\<rparr>) = items_ok s"
  by (simp add: items_ok_def)

text \<open>A step of the warehouse: the package is saved, and \<open>g\<close> stored for the items \<open>P\<close>.\<close>

lemma step_run:
  assumes "bindE (save_package po) (\<lambda>po. bindE (asks (\<lambda>s. filter (P po) (d_psis s))) (each_item f)) s = (Inr (), t)"
    and "stores f g" and "po_pid po \<noteq> 0" and "items_ok s"
  shows "d_packages t = tbl_save po_pid po (d_packages s) \<and>
    d_psis t = map (\<lambda>x. if P po x then g (d_now s) x else x) (d_psis s) \<and> d_now t = d_now s"
proof -
  let ?u = "s\<lparr>d_packages := tbl_save po_pid po (d_packages s)\<rparr>"
  from assms(1) obtain q u where sv: "save_package po s = (Inr q, u)"
    and each: "each_item f (filter (P q) (d_psis u)) u = (Inr (), t)"
    by (auto simp: run_ok)
  from save_package_run [OF sv assms(3)] have "q = po" "u = ?u" by simp_all
  with each_item_filter_run [OF assms(2) each] assms(4) show ?thesis by simp
qed

abbreviation in_package :: "package_order \<Rightarrow> psi \<Rightarrow> bool" where
  "in_package po p \<equiv> psi_package_order_id p = Some (po_id po)"

lemma scancheck_run:
  assumes "scancheck user po s = (Inr (), t)" and "po_pid po \<noteq> 0" and "items_ok s"
  shows "d_packages t = tbl_save po_pid (po\<lparr>po_sys_status := WAIT_SCAN_WEIGHT_STATUS, po_scanner := user\<rparr>) (d_packages s) \<and>
    d_psis t = map (\<lambda>x. if in_package po x then checked (d_now s) x else x) (d_psis s) \<and> d_now t = d_now s"
  using step_run [of "po\<lparr>po_sys_status := WAIT_SCAN_WEIGHT_STATUS, po_scanner := user\<rparr>"
      "\<lambda>po x. in_package po x" _ s t, OF _ transitions_store(2)] assms
  by (simp add: scancheck_def package_sku_items_def [abs_def])

lemma scanweight_run:
  assumes "scanweight user po s = (Inr (), t)" and "po_pid po \<noteq> 0" and "items_ok s"
  shows "d_packages t = tbl_save po_pid (po\<lparr>po_sys_status := WAIT_CUSTOMER_RECEIVE, po_weighter := user\<rparr>) (d_packages s) \<and>
    d_psis t = map (\<lambda>x. if in_package po x \<and> psi_assign_status x = ASSIGNED then weighed (d_now s) x else x) (d_psis s)
    \<and> d_now t = d_now s"
  using step_run [of "po\<lparr>po_sys_status := WAIT_CUSTOMER_RECEIVE, po_weighter := user\<rparr>"
      "\<lambda>po x. in_package po x \<and> psi_assign_status x = ASSIGNED" _ s t, OF _ transitions_store(3)] assms
  by (simp add: scanweight_def assigned_items_def [abs_def] package_sku_items_def)

section \<open>The steps return\<close>

text \<open>
  What a transition needs to succeed depends on keys only: unique item keys, no order with two items, and
  one stock row per SKU. The transitions keep these keys.
\<close>

definition item_keys :: "shop_db \<Rightarrow> (pk_id \<times> pk_id option \<times> pk_id) list" where
  "item_keys s = map (\<lambda>p. (psi_id p, psi_sale_order_id p, psi_sku_id p)) (d_psis s)"

definition stock_keys :: "shop_db \<Rightarrow> pk_id list" where
  "stock_keys s = map ss_sku_id (d_stocks s)"

definition ready_keys :: "(pk_id \<times> pk_id option \<times> pk_id) list \<Rightarrow> pk_id list \<Rightarrow> bool" where
  "ready_keys K S \<longleftrightarrow> distinct (map fst K) \<and>
     (\<forall>(i, o', k)\<in>set K. i \<noteq> 0 \<and> length (filter (\<lambda>x. x = k) S) = 1) \<and>
     (\<forall>(i, o', k)\<in>set K. \<forall>(i', o'', k')\<in>set K. o' = o'' \<and> o' \<noteq> None \<longrightarrow> i = i')"

abbreviation ready :: "shop_db \<Rightarrow> bool" where
  "ready s \<equiv> ready_keys (item_keys s) (stock_keys s)"

abbreviation key_of :: "psi \<Rightarrow> pk_id \<times> pk_id option \<times> pk_id" where
  "key_of p \<equiv> (psi_id p, psi_sale_order_id p, psi_sku_id p)"

lemma set_stats_ok: "Sold_num \<notin> set as \<Longrightarrow> \<exists>r. set_stats as s st = Inr r"
proof (induction as arbitrary: st)
  case (Cons a as)
  have IH: "\<exists>r. set_stats as s st' = Inr r" for st' using Cons.prems Cons.IH by simp
  have "\<exists>v. restat_value st s a = Inr v" using Cons.prems by (cases a) auto
  then obtain v where v: "restat_value st s a = Inr v" by blast
  show ?case
  proof (cases v)
    case None
    with v IH [of st] show ?thesis by simp
  next
    case (Some w)
    obtain st' ch where "set_stats as s (if has_attr a then attr_update a w st else st) = Inr (st', ch)"
      using IH by fastforce
    with v Some show ?thesis by simp
  qed
qed simp

lemma move_stock_returns:
  assumes "length (filter (\<lambda>x. x = sku) (stock_keys s)) = 1" and "Sold_num \<notin> fst ` set ds" and "ds \<noteq> []"
  shows "\<exists>S. move_stock sku ds True w s = (Inr (), s\<lparr>d_stocks := S\<rparr>) \<and> map ss_sku_id S = stock_keys s"
proof -
  from assms(1) have "length (filter (\<lambda>x. ss_sku_id x = sku) (d_stocks s)) = 1"
    by (simp add: stock_keys_def filter_map comp_def)
  then obtain x where "get_stock sku s = Inr x"
    by (auto simp: get_stock_def q_get_def length_Suc_conv split: list.splits)
  moreover obtain st ch where "set_stats (map fst ds) s (add_attrs ds x) = Inr (st, ch)"
    using set_stats_ok [of "map fst ds" s "add_attrs ds x"] assms(2) by auto
  ultimately show ?thesis using assms(3)
    by (auto simp: move_stock_def stat_save_def restat_def save_stock_fields_def stock_keys_def prog_simps)
qed

lemma save_psi_returns:
  assumes "ready s" and "key_of p \<in> set (item_keys s)"
  shows "save_psi p s = (Inr p, s\<lparr>d_psis := tbl_save psi_id p (d_psis s)\<rparr>) \<and>
    item_keys (s\<lparr>d_psis := tbl_save psi_id p (d_psis s)\<rparr>) = item_keys s"
proof -
  from assms have "psi_id p \<noteq> 0" by (auto simp: ready_keys_def)
  moreover have "psi_id q = psi_id p" if "q \<in> set (d_psis s)" "psi_sale_order_id q = psi_sale_order_id p"
    "psi_sale_order_id p \<noteq> None" for q
  proof -
    from that(1) have "key_of q \<in> set (item_keys s)" by (auto simp: item_keys_def)
    with assms that(2,3) show ?thesis by (force simp: ready_keys_def)
  qed
  moreover have "key_of q = key_of p" if "q \<in> set (d_psis s)" "psi_id q = psi_id p" for q
  proof -
    from that(1) have "key_of q \<in> set (item_keys s)" by (auto simp: item_keys_def)
    moreover have "inj_on fst (set (item_keys s))" using assms(1) by (simp add: ready_keys_def distinct_map)
    ultimately show ?thesis using assms(2) that(2) inj_onD [of fst "set (item_keys s)" "key_of q" "key_of p"] by simp
  qed
  moreover from assms(2) have mem: "psi_id p \<in> set (map psi_id (d_psis s))" by (auto simp: item_keys_def)
  moreover from calculation(3) have "item_keys (s\<lparr>d_psis := tbl_save psi_id p (d_psis s)\<rparr>) = item_keys s"
    using mem by (simp add: item_keys_def tbl_save_def)
  ultimately show ?thesis
    by (simp add: save_psi_def q_exists_def filter_empty_conv) blast
qed

text \<open>\<open>f\<close> succeeds on every item of the table and keeps the keys.\<close>

definition succeeds :: "(psi \<Rightarrow> (shop_db, psi) prog) \<Rightarrow> bool" where
  "succeeds f \<longleftrightarrow> (\<forall>p s. ready s \<longrightarrow> key_of p \<in> set (item_keys s) \<longrightarrow>
     (\<exists>q t. f p s = (Inr q, t) \<and> item_keys t = item_keys s \<and> stock_keys t = stock_keys s))"

lemma succeedsI:
  assumes f: "\<And>p. f p = bindE now (\<lambda>n. save_and_move (g n p) move True)"
    and move: "\<And>sku num. move sku num True = move_stock sku (ds num) True True"
    and g: "\<And>n p. key_of (g n p) = key_of p" and ds: "\<And>n. Sold_num \<notin> fst ` set (ds n) \<and> ds n \<noteq> []"
  shows "succeeds f"
  unfolding succeeds_def
proof (intro allI impI)
  fix p s assume s: "ready s" "key_of p \<in> set (item_keys s)"
  let ?p = "g (d_now s) p"
  let ?u = "s\<lparr>d_psis := tbl_save psi_id ?p (d_psis s)\<rparr>"
  have "key_of ?p \<in> set (item_keys s)" using s(2) g by simp
  note sv = save_psi_returns [OF s(1) this]
  have "length (filter (\<lambda>x. x = psi_sku_id ?p) (stock_keys ?u)) = 1"
    using s g by (fastforce simp: ready_keys_def stock_keys_def)
  from move_stock_returns [OF this ds [THEN conjunct1] ds [THEN conjunct2]] obtain S
    where "move_stock (psi_sku_id ?p) (ds (psi_num ?p)) True True ?u = (Inr (), ?u\<lparr>d_stocks := S\<rparr>)"
      "map ss_sku_id S = stock_keys ?u" by blast
  with sv show "\<exists>q t. f p s = (Inr q, t) \<and> item_keys t = item_keys s \<and> stock_keys t = stock_keys s"
    by (simp add: f save_and_move_def now_def move prog_simps item_keys_def stock_keys_def)
qed

lemma transitions_succeed:
  "succeeds (\<lambda>p. set_status_waitscan p True)" "succeeds (\<lambda>p. set_status_waitpost p True)"
  "succeeds (\<lambda>p. set_status_sent p True)" "succeeds (\<lambda>p. set_status_finish p True)"
  by (rule succeedsI [where g = scanned and move = set_psi_waitscan and ds = psi_waitscan]
        succeedsI [where g = checked and move = set_psi_waitpost and ds = psi_waitpost]
        succeedsI [where g = weighed and move = set_psi_sent and ds = psi_sent]
        succeedsI [where g = received and move = set_psi_finish and ds = psi_finish];
      simp add: set_status_waitscan_def set_status_waitpost_def set_status_sent_def
        set_status_finish_def set_psi_defs delta_defs)+

lemma each_item_returns:
  assumes "succeeds f" and "ready s" and "\<forall>p\<in>set items. key_of p \<in> set (item_keys s)"
  shows "\<exists>t. each_item f items s = (Inr (), t) \<and> item_keys t = item_keys s \<and> stock_keys t = stock_keys s"
  using assms(2,3)
proof (induction items arbitrary: s)
  case Nil
  then show ?case by (simp add: each_item_def prog_simps)
next
  case (Cons p ps)
  then obtain q t where "f p s = (Inr q, t)" "item_keys t = item_keys s" "stock_keys t = stock_keys s"
    using assms(1) unfolding succeeds_def by (metis list.set_intros(1))
  with Cons.IH [of t] Cons.prems show ?case by (simp add: each_item_def prog_simps)
qed

definition package_key_free :: "package_order \<Rightarrow> shop_db \<Rightarrow> bool" where
  "package_key_free po s \<longleftrightarrow> po_pid po \<noteq> 0 \<and> (\<forall>q\<in>set (d_packages s). po_id q = po_id po \<longrightarrow> po_pid q = po_pid po)"

lemma step_returns:
  assumes "succeeds f" and "stores f g" and "ready s" and "items_ok s" and "package_key_free po s"
  shows "\<exists>t. bindE (save_package po) (\<lambda>po. bindE (asks (\<lambda>s. filter (P po) (d_psis s))) (each_item f)) s = (Inr (), t) \<and>
    ready t \<and> package_key_free po t"
proof -
  let ?u = "s\<lparr>d_packages := tbl_save po_pid po (d_packages s)\<rparr>"
  let ?run = "bindE (save_package po) (\<lambda>po. bindE (asks (\<lambda>s. filter (P po) (d_psis s))) (each_item f)) s"
  have "save_package po s = (Inr po, ?u)"
    using assms(5) by (auto simp: save_package_def package_key_free_def q_exists_def filter_empty_conv)
  moreover have "ready ?u" using assms(3) by (simp add: item_keys_def stock_keys_def)
  moreover have "\<forall>p\<in>set (filter (P po) (d_psis ?u)). key_of p \<in> set (item_keys ?u)"
    by (auto simp: item_keys_def)
  ultimately obtain t where run: "?run = (Inr (), t)" and "ready t"
    using each_item_returns [OF assms(1), of ?u] by (fastforce simp: prog_simps)
  moreover from step_run [OF run assms(2) _ assms(4)] assms(5) have "package_key_free po t"
    by (auto simp: package_key_free_def dest!: tbl_save_mem)
  ultimately show ?thesis by blast
qed

lemma package_key_free_update [simp]:
  "package_key_free (po\<lparr>po_sys_status := st, po_scanner := u\<rparr>) s = package_key_free po s"
  "package_key_free (po\<lparr>po_sys_status := st, po_weighter := u\<rparr>) s = package_key_free po s"
  "package_key_free (po\<lparr>po_sys_status := st\<rparr>) s = package_key_free po s"
  "package_key_free (po\<lparr>po_is_picking_print := b\<rparr>) s = package_key_free po s"
  by (simp_all add: package_key_free_def)

lemma ready_items_ok: "ready s \<Longrightarrow> items_ok s"
  by (auto simp: ready_keys_def items_ok_def item_keys_def comp_def)

lemma print_picking_returns:
  assumes "ready s" and "package_key_free po s"
  shows "\<exists>t. print_picking po s = (Inr (), t) \<and> ready t \<and> package_key_free po t"
  using step_returns [OF transitions_succeed(1) transitions_store(1) assms(1) ready_items_ok [OF assms(1)],
      of "po\<lparr>po_is_picking_print := True\<rparr>" "\<lambda>po x. in_package po x"] assms(2)
  by (simp add: print_picking_def package_sku_items_def [abs_def])

lemma scancheck_returns:
  assumes "ready s" and "package_key_free po s"
  shows "\<exists>t. scancheck user po s = (Inr (), t) \<and> ready t \<and> package_key_free po t"
  using step_returns [OF transitions_succeed(2) transitions_store(2) assms(1) ready_items_ok [OF assms(1)],
      of "po\<lparr>po_sys_status := WAIT_SCAN_WEIGHT_STATUS, po_scanner := user\<rparr>" "\<lambda>po x. in_package po x"] assms(2)
  by (simp add: scancheck_def package_sku_items_def [abs_def])

lemma scanweight_returns:
  assumes "ready s" and "package_key_free po s"
  shows "\<exists>t. scanweight user po s = (Inr (), t) \<and> ready t \<and> package_key_free po t"
  using step_returns [OF transitions_succeed(3) transitions_store(3) assms(1) ready_items_ok [OF assms(1)],
      of "po\<lparr>po_sys_status := WAIT_CUSTOMER_RECEIVE, po_weighter := user\<rparr>"
      "\<lambda>po x. in_package po x \<and> psi_assign_status x = ASSIGNED"] assms(2)
  by (simp add: scanweight_def assigned_items_def [abs_def] package_sku_items_def)

lemma finish_package_returns:
  assumes "ready s" and "package_key_free po s"
  shows "\<exists>t. finish_package po s = (Inr (), t) \<and> ready t \<and> package_key_free po t"
  using step_returns [OF transitions_succeed(4) transitions_store(4) assms(1) ready_items_ok [OF assms(1)],
      of "po\<lparr>po_sys_status := FINISHED_STATUS\<rparr>"
      "\<lambda>po x. in_package po x \<and> psi_assign_status x = FINISHED"] assms(2)
  by (simp add: finish_package_def package_sku_items_def)

section \<open>Keys\<close>

lemma free_num_spec:
  "n \<le> free_num i taken n \<and> numbered i (free_num i taken n) \<notin> set taken \<and>
   (\<forall>k. n \<le> k \<and> k < free_num i taken n \<longrightarrow> numbered i k \<in> set taken)"
proof (induction i taken n rule: free_num.induct)
  case (1 i taken n)
  show ?case
  proof (cases "numbered i n \<in> set taken")
    case True
    then have "free_num i taken n = free_num i taken (n + 1)" by (subst free_num.simps) simp
    with 1 [OF True] True show ?thesis by (auto simp: le_eq_less_or_eq dest: Suc_leI)
  next
    case False
    then have "free_num i taken n = n" by (subst free_num.simps) simp
    with False show ?thesis by auto
  qed
qed

lemma new_id_not_closed:
  assumes "package_by_id (gen_new_package_id b a w v True s) s = Some po"
  shows "po_sys_status po \<notin> {FINISHED_STATUS, WAIT_CUSTOMER_RECEIVE, WAIT_OUTWARE_SEND_CALLBACK}"
proof
  assume closed: "po_sys_status po \<in> {FINISHED_STATUS, WAIT_CUSTOMER_RECEIVE, WAIT_OUTWARE_SEND_CALLBACK}"
  from assms have "po \<in> set (d_packages s)" "po_id po = gen_new_package_id b a w v True s"
    unfolding package_by_id_def by (auto dest: q_first_filter)
  with closed have "gen_new_package_id b a w v True s \<in> set (taken_ids True s)"
    by (force simp: taken_ids_def closed_statuses_def)
  then show False using free_num_spec by (simp add: gen_new_package_id_def Let_def)
qed

section \<open>Putting an item into a package\<close>

abbreviation shut :: "po_status set" where
  "shut \<equiv> {FINISHED_STATUS, WAIT_CUSTOMER_RECEIVE, WAIT_OUTWARE_SEND_CALLBACK}"

lemma redo_sign_frame [simp]:
  "po_id (redo_sign a po) = po_id po" "po_pid (redo_sign a po) = po_pid po"
  by (simp_all add: redo_sign_def Let_def)

lemma redo_sign_status:
  "po_sys_status (redo_sign a (wake_package po)) =
     (if po_sys_status po = PKG_NEW_CREATED then WAIT_PREPARE_SEND_STATUS
      else if po_sys_status po = WAIT_SCAN_WEIGHT_STATUS \<and> po_is_picking_print po then WAIT_CHECK_BARCODE_STATUS
      else po_sys_status po)"
  by (simp add: redo_sign_def wake_package_def Let_def)

lemma wake_package_frame [simp]: "po_id (wake_package po) = po_id po" "po_pid (wake_package po) = po_pid po"
  by (simp_all add: wake_package_def)

lemma set_receiver_frame [simp]:
  "po_id (set_receiver r po) = po_id po" "po_pid (set_receiver r po) = po_pid po"
  "po_sys_status (set_receiver r po) = po_sys_status po"
  by (simp_all add: set_receiver_def)

lemma reset_sku_item_num_frame:
  "reset_sku_item_num po s = Inr q \<Longrightarrow> po_id q = po_id po \<and> po_pid q = po_pid po \<and> po_sys_status q = po_sys_status po"
  by (auto simp: reset_sku_item_num_def Let_def split: if_splits sum.splits option.splits)

lemma reset_package_address_frame:
  "reset_package_address po s = Inr q \<Longrightarrow> po_id q = po_id po \<and> po_pid q = po_pid po \<and> po_sys_status q = po_sys_status po"
  by (auto simp: reset_package_address_def map_sum_def split: if_splits sum.splits option.splits related.splits)

text \<open>The items are \<open>P\<close>, and there is a package with this key, number and state.\<close>

definition holds_package :: "psi table \<Rightarrow> string \<Rightarrow> pk_id \<Rightarrow> po_status \<Rightarrow> shop_db \<Rightarrow> bool" where
  "holds_package P i pid st s \<longleftrightarrow> d_psis s = P \<and>
     (\<exists>po\<in>set (d_packages s). po_id po = i \<and> po_pid po = pid \<and> po_sys_status po = st)"

lemma holds_package_write:
  assumes "\<And>q. po_id (f q) = po_id q \<and> po_pid (f q) = po_pid q \<and> po_sys_status (f q) = po_sys_status q"
  shows "keeps (holds_package P i pid st) (save_package_fields f po)"
  by (rule keepsI) (use assms in \<open>auto simp: save_package_fields_def holds_package_def q_update_def\<close>)

lemma holds_package_company [keeps_intro]:
  "keeps (holds_package P i pid st) (set_logistics_company po c)"
  unfolding set_logistics_company_def write_company_def write_company_print_def Let_def
  by (auto intro!: keeps_intro holds_package_write split: option.split)

lemma holds_package_merged [keeps_intro]: "keeps (holds_package P i pid st) (set_psi_merged sku num w)"
proof (rule keepsI)
  fix s assume "holds_package P i pid st s"
  moreover obtain S where "snd (set_psi_merged sku num w s) = s\<lparr>d_stocks := S\<rparr>"
    using move_stock_touches unfolding set_psi_merged_def by blast
  ultimately show "holds_package P i pid st (snd (set_psi_merged sku num w s))"
    by (simp add: holds_package_def)
qed

lemma put_item_run:
  assumes "put_item p po s = (Inr (q, po'), t)" and "psi_id p \<noteq> 0" and "po_pid po \<noteq> 0"
  shows "q = p\<lparr>psi_package_order_id := Some (po_id po), psi_package_order_pid := Some (po_pid po)\<rparr> \<and>
    holds_package (tbl_save psi_id q (d_psis s)) (po_id po) (po_pid po) (po_sys_status po) t"
proof -
  let ?q = "p\<lparr>psi_package_order_id := Some (po_id po), psi_package_order_pid := Some (po_pid po)\<rparr>"
  from assms(1) obtain u r where sv: "save_psi ?q s = (Inr q, u)" and r: "reset_sku_item_num po u = Inr r"
    and pk: "save_package r u = (Inr po', t)"
    by (auto simp: put_item_def add_package_sku_item_def run_ok)
  from saved_psi [OF sv] assms(2) have "q = ?q" "u = s\<lparr>d_psis := tbl_save psi_id ?q (d_psis s)\<rparr>" by simp_all
  moreover have "po_pid r \<noteq> 0" using reset_sku_item_num_frame [OF r] assms(3) by simp
  note save_package_run [OF pk this]
  ultimately show ?thesis using reset_sku_item_num_frame [OF r] tbl_save_in [of r po_pid "d_packages s"]
    by (auto simp: holds_package_def)
qed

lemma create_package_run:
  assumes "create_package i t s = (Inr po, u)"
  shows "po_id po = i \<and> po_pid po \<noteq> 0 \<and> po_sys_status po = WAIT_PREPARE_SEND_STATUS \<and> d_psis u = d_psis s"
  using assms
  by (auto simp: create_package_def copy_order_info_def save_package_def now_def run_ok Let_def map_sum_def
      fresh_pk_def set_receiver_def new_package_def split: if_splits sum.splits prod.splits)

definition merged_as ::
  "psi \<Rightarrow> shop_db \<Rightarrow> psi \<Rightarrow> shop_db \<Rightarrow> string \<Rightarrow> sale_trade \<Rightarrow> string \<Rightarrow> pk_id \<Rightarrow> po_status \<Rightarrow> bool" where
  "merged_as p s q t vendor tr i pid st \<longleftrightarrow>
     direct_vendor p s = Inr vendor \<and> psi_sale_trade p s = Inr tr \<and>
     i = gen_new_package_id (str_nat (st_buyer_id tr)) (str_id (st_user_address_id tr)) (psi_ware_by p) vendor True s \<and>
     q = p\<lparr>psi_package_order_id := Some i, psi_package_order_pid := Some pid\<rparr> \<and>
     holds_package (tbl_save psi_id q (d_psis s)) i pid st t \<and>
     (case package_by_id i s of
        None \<Rightarrow> st = WAIT_PREPARE_SEND_STATUS
      | Some po \<Rightarrow> pid = po_pid po \<and> st = po_sys_status (redo_sign '''' (wake_package po)))"

lemma merge_normal_run:
  assumes run: "merge_normal p s = (Inr q, t)" and id: "psi_id p \<noteq> 0"
    and pids: "\<forall>po\<in>set (d_packages s). po_pid po \<noteq> 0"
  shows "\<exists>vendor tr i pid st. merged_as p s q t vendor tr i pid st"
proof -
  from run obtain vendor tr where v: "direct_vendor p s = Inr vendor" and tr: "psi_sale_trade p s = Inr tr"
    by (auto simp: merge_normal_def run_ok)
  let ?i = "gen_new_package_id (str_nat (st_buyer_id tr)) (str_id (st_user_address_id tr)) (psi_ware_by p) vendor True s"
  show ?thesis
  proof (cases "package_by_id ?i s")
    case (Some po)
    let ?po = "redo_sign '''' (wake_package po)"
    from run v tr Some obtain po1 po2 u w where adr: "reset_package_address ?po s = Inr po1"
      and put: "put_item p po1 s = (Inr (q, po2), u)" and mv: "set_psi_merged (psi_sku_id q) (psi_num q) STAT_SIGN u = (Inr (), w)"
      and lg: "whenE (po_logistics_company po2 \<noteq> None \<and> po_logistics_company po2 \<noteq> st_logistics_company tr)
            (set_logistics_company po2 (st_logistics_company tr)) w = (Inr (), t)"
      by (auto simp: merge_normal_def set_redo_sign_def run_ok)
    from Some have po: "po \<in> set (d_packages s)" "po_id po = ?i"
      unfolding package_by_id_def by (auto dest: q_first_filter)
    note fr = reset_package_address_frame [OF adr]
    with pids po(1) have "po_pid po1 \<noteq> 0" by simp
    note put' = put_item_run [OF put id this]
    have "holds_package (tbl_save psi_id q (d_psis s)) ?i (po_pid po) (po_sys_status ?po) u"
      using put' [THEN conjunct2] by (simp only: fr po(2) redo_sign_frame wake_package_frame)
    from keeps_run [OF keeps_whenE [OF holds_package_company] keeps_run [OF holds_package_merged this mv] lg]
    show ?thesis unfolding merged_as_def using v tr Some put' fr po(2) by auto
  next
    case None
    from run v tr None obtain po1 u1 po2 u2 u3 po3 where cr: "create_package ?i tr s = (Inr po1, u1)"
      and put: "put_item p po1 u1 = (Inr (q, po2), u2)"
      and mv: "set_psi_merged (psi_sku_id q) (psi_num q) STAT_SIGN u2 = (Inr (), u3)"
      and lg: "set_logistics_company po3 (st_logistics_company tr) u3 = (Inr (), t)"
      by (auto simp: merge_normal_def run_ok)
    note cr' = create_package_run [OF cr]
    then have "po_pid po1 \<noteq> 0" by simp
    note put' = put_item_run [OF put id this]
    have "holds_package (tbl_save psi_id q (d_psis s)) ?i (po_pid po1) WAIT_PREPARE_SEND_STATUS u2"
      using put' [THEN conjunct2] by (simp only: cr')
    from keeps_run [OF holds_package_company keeps_run [OF holds_package_merged this mv] lg]
    show ?thesis unfolding merged_as_def using v tr None put' cr' by auto
  qed
qed

lemma item_of_order_frame:
  "psi_id (item_of_order o' pay k prd tr) = 0" "psi_num (item_of_order o' pay k prd tr) = so_num o'"
  "psi_oid (item_of_order o' pay k prd tr) = Some (so_oid o')"
  "psi_sale_order_id (item_of_order o' pay k prd tr) = Some (so_id o')"
  by (simp_all add: item_of_order_def new_psi_def)

section \<open>Properties\<close>

text \<open>
  C26. The loop that looks for the key of a package ends, and gives the first number at or after the
  count of closed packages whose package is not closed: neither sent, finished nor handed to an
  outside warehouse.
\<close>

theorem package_key_is_first_open:
  "\<exists>n. gen_new_package_id b a w v merge s = numbered (stat_key b a w v) n \<and>
     first_num w (stat_key b a w v) s \<le> n \<and>
     numbered (stat_key b a w v) n \<notin> set (taken_ids merge s) \<and>
     (\<forall>k. first_num w (stat_key b a w v) s \<le> k \<and> k < n \<longrightarrow> numbered (stat_key b a w v) k \<in> set (taken_ids merge s))"
  using free_num_spec [of "first_num w (stat_key b a w v) s" "stat_key b a w v" "taken_ids merge s"]
  by (auto simp: gen_new_package_id_def Let_def)

text \<open>
  Checking a package brings its cancelled items back: \<open>scancheck\<close> makes every item of the
  package assigned, those that were cancelled too, and the weighing that follows sends them.
\<close>

theorem cancelled_item_is_sent:
  assumes "scancheck checker po s = (Inr (), t)" and "scanweight weigher po' t = (Inr (), u)"
    and "po_pid po \<noteq> 0" and "po_pid po' \<noteq> 0" and "po_id po' = po_id po" and "items_ok s"
    and "p \<in> set (d_psis s)" and "psi_package_order_id p = Some (po_id po)" and "psi_assign_status p = CANCELED"
  shows "\<exists>q\<in>set (d_psis u). psi_id q = psi_id p \<and> psi_status q = PSI_SENT \<and> psi_assign_status q = FINISHED"
proof -
  note c = scancheck_run [OF assms(1,3,6)]
  from c have "map psi_id (d_psis t) = map psi_id (d_psis s)" by simp
  from items_ok_ids [OF this] assms(6) have "items_ok t" by blast
  note w = scanweight_run [OF assms(2,4) this]
  from c have ct: "d_psis t = map (\<lambda>x. if in_package po x then checked (d_now s) x else x) (d_psis s)" by simp
  from w have wu: "d_psis u = map (\<lambda>x. if in_package po' x \<and> psi_assign_status x = ASSIGNED
      then weighed (d_now t) x else x) (d_psis t)" by simp
  have "checked (d_now s) p \<in> set (d_psis t)"
    using imageI [OF assms(7), of "\<lambda>x. if in_package po x then checked (d_now s) x else x"] assms(8)
    unfolding ct set_map by simp
  from imageI [OF this, of "\<lambda>x. if in_package po' x \<and> psi_assign_status x = ASSIGNED then weighed (d_now t) x else x"]
  have "weighed (d_now t) (checked (d_now s) p) \<in> set (d_psis u)"
    unfolding wu set_map using assms(5,8) by simp
  then show ?thesis by (rule bexI [rotated]) simp
qed

text \<open>
  C25. A package goes through the warehouse without an error: where item keys are unique, no order
  has two items and every item's SKU has one stock row, printing, checking, weighing and finishing it
  one after the other all return.
\<close>

theorem warehouse_steps_return:
  assumes "ready s" and "package_key_free po s"
  shows "\<exists>t. thenE (print_picking po) (thenE (scancheck checker po) (thenE (scanweight weigher po) (finish_package po))) s
    = (Inr (), t)"
proof -
  obtain t1 where 1: "print_picking po s = (Inr (), t1)" "ready t1" "package_key_free po t1"
    using print_picking_returns [OF assms] by blast
  obtain t2 where 2: "scancheck checker po t1 = (Inr (), t2)" "ready t2" "package_key_free po t2"
    using scancheck_returns [OF 1(2,3)] by blast
  obtain t3 where 3: "scanweight weigher po t2 = (Inr (), t3)" "ready t3" "package_key_free po t3"
    using scanweight_returns [OF 2(2,3)] by blast
  from finish_package_returns [OF 3(2,3)] 1(1) 2(1) 3(1) show ?thesis by (auto simp: thenE_run)
qed

text \<open>
  Cancelling a package cancels its open items and leaves the package where it was: its state in the
  warehouse is written back unchanged, so a package that took items still does.
\<close>

theorem cancelled_package_stays_open:
  assumes "cancel_package po s = (Inr (), t)" and "po_pid po \<noteq> 0"
  shows "po \<in> set (d_packages t) \<and>
    d_psis t = map (\<lambda>p. if psi_package_order_id p = Some (po_id po) \<and> psi_assign_status p \<in> {NOT_ASSIGNED, ASSIGNED}
      then p\<lparr>psi_assign_status := CANCELED, psi_status := PSI_CANCEL\<rparr> else p) (d_psis s) \<and>
    assigned_items po t = []"
proof -
  from assms(1) obtain q u where sv: "save_package po s = (Inr q, u)"
    and t: "t = u\<lparr>d_psis := q_update (\<lambda>p. psi_package_order_id p = Some (po_id q)
         \<and> psi_assign_status p \<in> {NOT_ASSIGNED, ASSIGNED})
       (\<lambda>p. p\<lparr>psi_assign_status := CANCELED, psi_status := PSI_CANCEL\<rparr>) (d_psis u)\<rparr>"
    by (auto simp: cancel_package_def run_ok)
  from save_package_run [OF sv assms(2)] show ?thesis
    by (auto simp: t q_update_def tbl_save_in assigned_items_def package_sku_items_def filter_empty_conv)
qed

text \<open>
  A package that holds everything is never marked complete: when every paid order of the address
  has its assigned item, none is counted as left to prepare, and the number of packed items is compared
  with that count.
\<close>

theorem full_package_is_never_complete:
  assumes "reset_sku_item_num po s = Inr po'" and "\<not> is_sent po" and "assigned_items po s \<noteq> []"
    and "po_action_type po = 0" and "nat_of_str (po_user_address_id po) = Some a"
    and "paid = filter (\<lambda>o'. so_sale_trade o' \<in> set (trades_at a s) \<and> so_status o' = WAIT_SELLER_SEND_GOODS) (d_orders s)"
    and "distinct (map so_oid paid)"
    and "\<forall>o'\<in>set paid. \<exists>p\<in>set (d_psis s). psi_oid p = Some (so_oid o') \<and> psi_assign_status p = ASSIGNED"
  shows "\<not> po_ready_completion po' \<and> po_sku_num po' = int (length (assigned_items po s))"
proof -
  let ?items = "filter (\<lambda>p. psi_oid p \<in> Some ` set (map so_oid paid) \<and> psi_assign_status p = ASSIGNED) (d_psis s)"
  have "Some ` set (map so_oid paid) \<subseteq> psi_oid ` set ?items" using assms(8) by (force simp: image_iff)
  then have "card (Some ` set (map so_oid paid)) \<le> card (psi_oid ` set ?items)" by (intro card_mono) simp_all
  also have "\<dots> \<le> length ?items" using card_image_le card_length le_trans by blast
  finally have "length paid \<le> length ?items"
    using assms(7) distinct_card [of "map so_oid paid"] by (simp add: card_image)
  with assms(1-6) show ?thesis
    by (auto simp: reset_sku_item_num_def package_type_def unprepare_orders_cnt_def q_count_def Let_def
        split: if_splits)
qed

text \<open>
  Packing an item on its own fails when it is asked to merge: the flag is passed where the vendor
  code belongs, and nothing is written. Only \<open>gen_package(merge=False)\<close> can return, and it merges.
\<close>

theorem gen_package_cannot_merge:
  assumes "psi_type p = PSI_NORMAL"
  shows "\<exists>e. gen_package p True s = (Inl e, s)"
  using assms
  by (auto simp: gen_package_def prog_simps split: sum.splits option.splits prod.splits)

text \<open>
  C16. Merging an item packs it: the stored item is merged and names a package that stands in the
  table, and that package is neither sent nor finished nor handed to an outside warehouse, and no
  longer just created.
\<close>

theorem merged_item_joins_open_package:
  assumes "psi_merge p s = (Inr q, t)" and "psi_type p = PSI_NORMAL" and "psi_package_order_pid p = None"
    and "psi_id p \<noteq> 0" and "\<forall>po\<in>set (d_packages s). po_pid po \<noteq> 0"
  shows "psi_status q = PSI_MERGED \<and> q \<in> set (d_psis t) \<and>
    (\<exists>po\<in>set (d_packages t). psi_package_order_id q = Some (po_id po) \<and> psi_package_order_pid q = Some (po_pid po) \<and>
       po_sys_status po \<notin> {FINISHED_STATUS, WAIT_CUSTOMER_RECEIVE, WAIT_OUTWARE_SEND_CALLBACK, PKG_NEW_CREATED})"
proof -
  let ?m = "p\<lparr>psi_status := PSI_MERGED, psi_merge_time := Some (d_now s)\<rparr>"
  from assms(1-3) have run: "merge_normal ?m s = (Inr q, t)" by (simp add: psi_merge_def now_def Let_def run_ok)
  have "psi_id ?m \<noteq> 0" using assms(4) by simp
  from merge_normal_run [OF run this assms(5)] obtain vendor tr i pid st
    where m: "merged_as ?m s q t vendor tr i pid st" by blast
  then have i: "i = gen_new_package_id (str_nat (st_buyer_id tr)) (str_id (st_user_address_id tr)) (psi_ware_by ?m) vendor True s"
      and q: "q = ?m\<lparr>psi_package_order_id := Some i, psi_package_order_pid := Some pid\<rparr>"
      and h: "holds_package (tbl_save psi_id q (d_psis s)) i pid st t"
      and st: "case package_by_id i s of None \<Rightarrow> st = WAIT_PREPARE_SEND_STATUS
         | Some po \<Rightarrow> pid = po_pid po \<and> st = po_sys_status (redo_sign '''' (wake_package po))"
    unfolding merged_as_def by - (elim conjE, assumption)+
  have "st \<notin> shut \<union> {PKG_NEW_CREATED}"
  proof (cases "package_by_id i s")
    case None
    with st show ?thesis by simp
  next
    case (Some po)
    with new_id_not_closed [of "str_nat (st_buyer_id tr)" _ _ _ s po] have "po_sys_status po \<notin> shut"
      unfolding i by blast
    with st Some show ?thesis by (auto simp: redo_sign_status)
  qed
  moreover have "q \<in> set (d_psis t)" using h by (auto simp: holds_package_def intro: tbl_save_in)
  ultimately show ?thesis using h q by (auto simp: holds_package_def)
qed

text \<open>
  A deleted package is taken for open: when the first number free of closed packages belongs to a
  deleted package, the item is merged into that package, which stays deleted.
\<close>

theorem merged_into_deleted_package:
  assumes "psi_merge p s = (Inr q, t)" and "psi_type p = PSI_NORMAL" and "psi_package_order_pid p = None"
    and "psi_id p \<noteq> 0" and "\<forall>po\<in>set (d_packages s). po_pid po \<noteq> 0"
    and "direct_vendor p s = Inr vendor" and "psi_sale_trade p s = Inr tr" and "st_user_address_id tr = Some a"
    and "package_by_id (gen_new_package_id (str_nat (st_buyer_id tr)) (str_nat a) (psi_ware_by p) vendor True s) s = Some po"
    and "po_sys_status po = PO_DELETE"
  shows "psi_package_order_pid q = Some (po_pid po) \<and> q \<in> set (d_psis t) \<and>
    (\<exists>po'\<in>set (d_packages t). po_pid po' = po_pid po \<and> po_sys_status po' = PO_DELETE \<and> \<not> can_merge po')"
proof -
  let ?m = "p\<lparr>psi_status := PSI_MERGED, psi_merge_time := Some (d_now s)\<rparr>"
  from assms(1-3) have run: "merge_normal ?m s = (Inr q, t)" by (simp add: psi_merge_def now_def Let_def run_ok)
  have same: "direct_vendor ?m s = direct_vendor p s" "psi_sale_trade ?m s = psi_sale_trade p s"
    by (simp_all add: direct_vendor_def psi_sale_trade_def psi_sale_order_def)
  have "psi_id ?m \<noteq> 0" using assms(4) by simp
  from merge_normal_run [OF run this assms(5)] obtain v' tr' i pid st
    where m: "merged_as ?m s q t v' tr' i pid st" by blast
  then have q: "q = ?m\<lparr>psi_package_order_id := Some i, psi_package_order_pid := Some pid\<rparr>"
      and h: "holds_package (tbl_save psi_id q (d_psis s)) i pid st t"
      and eq: "direct_vendor ?m s = Inr v'" "psi_sale_trade ?m s = Inr tr'"
      and i: "i = gen_new_package_id (str_nat (st_buyer_id tr')) (str_id (st_user_address_id tr')) (psi_ware_by ?m) v' True s"
      and st: "case package_by_id i s of None \<Rightarrow> st = WAIT_PREPARE_SEND_STATUS
         | Some po \<Rightarrow> pid = po_pid po \<and> st = po_sys_status (redo_sign '''' (wake_package po))"
    unfolding merged_as_def by - (elim conjE, assumption)+
  from eq assms(6,7) have "v' = vendor" "tr' = tr" unfolding same by simp_all
  with i assms(8,9) have "package_by_id i s = Some po" by simp
  with st have st: "pid = po_pid po" "st = po_sys_status (redo_sign '''' (wake_package po))" by simp_all
  have "q \<in> set (d_psis t)" using h by (auto simp: holds_package_def intro: tbl_save_in)
  with h q st assms(10) show ?thesis by (auto simp: holds_package_def redo_sign_status can_merge_def)
qed

text \<open>
  C18. A paid order becomes one item: it names the order and takes its number, and either the free stock
  covers it and it is assigned at once, or it waits and an effective arrangement for exactly its number
  is made.
\<close>

theorem paid_order_is_assigned_or_arranged:
  assumes "psi_create o' s = (Inr p, t)" and "q_first (filter (\<lambda>x. ss_sku_id x = so_sku_id o') (d_stocks s)) = Some st"
  shows "p \<in> set (d_psis t) \<and> psi_sale_order_id p = Some (so_id o') \<and> psi_num p = so_num o' \<and>
    psi_oid p = Some (so_oid o') \<and> psi_id p = fresh_pk psi_id (d_psis s) \<and>
    (if can_assign st (so_num o')
     then psi_status p = PSI_ASSIGNED \<and> psi_assign_status p = ASSIGNED \<and> d_arrangements t = d_arrangements s
     else psi_status p = PSI_PAID \<and> psi_assign_status p = NOT_ASSIGNED \<and>
       (\<exists>pa\<in>set (d_arrangements t). pa_package_sku_item_id pa = psi_id p \<and> pa_oid pa = so_oid o' \<and>
          pa_num pa = so_num o' \<and> pa_status pa = PA_EFFECT))"
proof -
  note new = item_of_order_frame
  from assms obtain k prd tr pay where
    run: "(if can_assign st (so_num o') then set_status_init_assigned (item_of_order o' pay k prd tr)
       else bindE (set_status_init_paid (item_of_order o' pay k prd tr)) (\<lambda>p. bindE (gen_arrangement p) (\<lambda>_. ret p))) s = (Inr p, t)"
    by (cases "so_pay_time o'") (auto simp: psi_create_def get_by_sku_def Let_def new bindE_ok liftE_run raise_run)
  let ?p = "item_of_order o' pay k prd tr"
  show ?thesis
  proof (cases "can_assign st (so_num o')")
    case True
    with run obtain n w where sv: "save_and_move (?p\<lparr>psi_status := PSI_ASSIGNED, psi_assign_status := ASSIGNED,
        psi_init_assigned := True, psi_assign_time := Some n, psi_ware_by := w\<rparr>) set_psi_init_assigned STAT_SIGN s = (Inr p, t)"
      by (auto simp: set_status_init_assigned_def now_def run_ok)
    from save_and_move_new [OF _ sv] new True show ?thesis by (auto simp: set_psi_defs move_stock_touches)
  next
    case False
    with run obtain u pa where sv: "save_and_move (?p\<lparr>psi_status := PSI_PAID, psi_assign_status := NOT_ASSIGNED\<rparr>)
        set_psi_init_paid STAT_SIGN s = (Inr p, u)" and arr: "gen_arrangement p u = (Inr pa, t)"
      by (auto simp: set_status_init_paid_def run_ok)
    from save_and_move_new [OF _ sv] new obtain S where
      p: "p = ?p\<lparr>psi_status := PSI_PAID, psi_assign_status := NOT_ASSIGNED, psi_id := fresh_pk psi_id (d_psis s)\<rparr>"
      and u: "u = s\<lparr>d_psis := d_psis s @ [p], d_stocks := S\<rparr>"
      by (auto simp: set_psi_defs move_stock_touches)
    from arr have "d_psis t = d_psis u" "pa \<in> set (d_arrangements t)" "pa_package_sku_item_id pa = psi_id p"
      "pa_oid pa = so_oid o'" "pa_num pa = so_num o'" "pa_status pa = PA_EFFECT"
      using new p by (auto simp: gen_arrangement_def arrangement_create_def save_arrangement_def run_ok Let_def
          is_booking_needed_def split: if_splits)
    with False p u new show ?thesis by auto
  qed
qed

section \<open>Operations that leave the items alone\<close>

abbreviation items_are :: "psi table \<Rightarrow> shop_db \<Rightarrow> bool" where
  "items_are P s \<equiv> d_psis s = P"

lemma items_save_package [keeps_intro]: "keeps (items_are P) (save_package po)"
  by (rule keepsI) (auto simp: save_package_def Let_def)

lemma items_save_package_fields [keeps_intro]: "keeps (items_are P) (save_package_fields f po)"
  by (rule keepsI) (auto simp: save_package_fields_def)

lemma items_refresh_package [keeps_intro]: "keeps (items_are P) (refresh_package po c)"
  unfolding refresh_package_def set_redo_sign_def reset_to_new_create_def set_package_address_def
    set_logistics_company_def write_company_def write_company_print_def Let_def
  by (auto intro!: keeps_intro split: option.split)

lemma items_cancel_open_arrangement [keeps_intro]: "keeps (items_are P) (cancel_open_arrangement p)"
proof (rule keepsI)
  fix s assume "items_are P s"
  have "keeps (items_and_stock (d_psis s) (d_stocks s)) (cancel_open_arrangement p)"
    unfolding cancel_open_arrangement_def by (auto intro!: keeps_intro split: option.split)
  from keepsD [OF this, of s] \<open>items_are P s\<close> show "items_are P (snd (cancel_open_arrangement p s))" by simp
qed

lemma items_get_by_sku [keeps_intro]: "keeps (items_are P) (get_by_sku sku)"
  by (rule keepsI) (auto simp: get_by_sku_def Let_def split: option.split sum.split)

lemma items_save_stock_fields [keeps_intro]: "keeps (items_are P) (save_stock_fields cols st)"
  by (rule keepsI) (simp add: save_stock_fields_def)

lemma items_set_psi_cancel [keeps_intro]: "keeps (items_are P) (set_psi_cancel sku num st stat)"
  unfolding set_psi_cancel_def stat_warning_def by (auto intro!: keeps_intro)

text \<open>
  An item is cancelled at most once and never after it was sent: then the method raises and
  writes nothing; when it returns, the item was open, and its stored row is cancelled and out of its
  package.
\<close>

theorem only_open_items_are_cancelled:
  assumes "set_status_cancel p stat s = (r, t)" and "psi_id p \<noteq> 0"
  shows "if psi_assign_status p \<in> {CANCELED, FINISHED} then (\<exists>e. r = Inl e) \<and> t = s
    else (\<forall>q. r = Inr q \<longrightarrow> psi_status q = PSI_CANCEL \<and> psi_assign_status q = CANCELED \<and>
       (psi_package_order_id q = None \<or> psi_package_order_id q = Some '''') \<and> d_psis t = tbl_save psi_id q (d_psis s))"
proof (cases "psi_assign_status p \<in> {CANCELED, FINISHED}")
  case True
  with assms(1) show ?thesis by (auto simp: set_status_cancel_def prog_simps)
next
  case False
  have "psi_status q = PSI_CANCEL \<and> psi_assign_status q = CANCELED \<and>
      (psi_package_order_id q = None \<or> psi_package_order_id q = Some '''') \<and> d_psis t = tbl_save psi_id q (d_psis s)"
    if "r = Inr q" for q
  proof -
    let ?q = "\<lambda>n. p\<lparr>psi_status := PSI_CANCEL, psi_assign_status := CANCELED, psi_cancel_time := Some n\<rparr>"
    from False assms(1) that obtain u n po v w where c: "cancel_open_arrangement p s = (Inr (), u)"
      and po: "package_of p u = Inr po"
      and sv: "save_psi (if po \<noteq> None then off_package (?q n) else ?q n) u = (Inr q, v)"
      and rf: "(case po of None \<Rightarrow> ret () | Some po \<Rightarrow> refresh_package po None) v = (Inr (), w)"
      and cn: "set_psi_cancel (psi_sku_id q) (psi_num q) (psi_status p) stat w = (Inr (), t)"
      by (auto simp: set_status_cancel_def now_def run_ok Let_def simp del: not_None_eq)
    have u: "items_are (d_psis s) u"
      using keeps_run [OF items_cancel_open_arrangement _ c, of "d_psis s"] by simp
    have q: "q = (if po \<noteq> None then off_package (?q n) else ?q n)" "d_psis v = tbl_save psi_id q (d_psis u)"
      using saved_psi [OF sv] assms(2) by (simp_all split: if_splits)
    have "keeps (items_are (d_psis v)) (case po of None \<Rightarrow> ret () | Some po \<Rightarrow> refresh_package po None)"
      by (auto intro!: keeps_intro split: option.split)
    from keeps_run [OF items_set_psi_cancel keeps_run [OF this _ rf] cn]
    have "d_psis t = tbl_save psi_id q (d_psis s)" using u q(2) by simp
    moreover have "psi_package_order_id p = None \<or> psi_package_order_id p = Some ''''" if "po = None"
      using po that by (auto simp: package_of_def map_sum_def split: option.splits if_splits sum.splits)
    ultimately show ?thesis unfolding q(1) by auto
  qed
  with False show ?thesis by simp
qed

section \<open>A package at work\<close>

theorem package_key_is_first_open_witness:
  "\<exists>n. gen_new_package_id ''7'' ''3'' WARE_SH '''' True pack_shop = numbered (stat_key ''7'' ''3'' WARE_SH '''') n \<and> 1 \<le> n"
proof -
  have "first_num WARE_SH (stat_key ''7'' ''3'' WARE_SH '''') pack_shop = 1" by code_simp
  with package_key_is_first_open [of "''7''" "''3''" WARE_SH "''''" True pack_shop] show ?thesis by auto
qed

definition packed :: "psi \<Rightarrow> shop_db" where
  "packed p = pack_shop\<lparr>d_psis := [p\<lparr>psi_package_order_id := Some ''7-3-1-1'', psi_package_order_pid := Some 1\<rparr>],
     d_packages := [example_package 1 ''7-3-1-1'' WAIT_PREPARE_SEND_STATUS]\<rparr>"

lemma packed_ok: "items_ok (packed order_item)" "items_ok (packed (order_item\<lparr>psi_assign_status := CANCELED\<rparr>))"
  by (simp_all add: items_ok_def packed_def pack_shop_defs)

lemma packed_ready:
  "ready (packed (order_item\<lparr>psi_assign_status := a\<rparr>))"
  "package_key_free (example_package 1 ''7-3-1-1'' st) (packed (order_item\<lparr>psi_assign_status := a\<rparr>))"
  by (simp_all add: ready_keys_def item_keys_def stock_keys_def package_key_free_def packed_def pack_shop_defs)

theorem cancelled_item_is_sent_witness:
  "\<exists>t u. let s = packed (order_item\<lparr>psi_assign_status := CANCELED\<rparr>); po = example_package 1 ''7-3-1-1'' WAIT_PREPARE_SEND_STATUS
   in scancheck ''c'' po s = (Inr (), t) \<and> scanweight ''w'' po t = (Inr (), u) \<and>
     (\<exists>q\<in>set (d_psis u). psi_id q = 5 \<and> psi_assign_status q = FINISHED)"
proof -
  let ?s = "packed (order_item\<lparr>psi_assign_status := CANCELED\<rparr>)"
  let ?po = "example_package 1 ''7-3-1-1'' WAIT_PREPARE_SEND_STATUS"
  have pid: "po_pid ?po \<noteq> 0" by (simp add: example_package_def)
  obtain t where t: "scancheck ''c'' ?po ?s = (Inr (), t)" "ready t" "package_key_free ?po t"
    using scancheck_returns [OF packed_ready] by blast
  then obtain u where u: "scanweight ''w'' ?po t = (Inr (), u)" using scanweight_returns by blast
  have p: "order_item\<lparr>psi_assign_status := CANCELED, psi_package_order_id := Some ''7-3-1-1'', psi_package_order_pid := Some 1\<rparr> \<in> set (d_psis ?s)"
    by (simp add: packed_def)
  from cancelled_item_is_sent [OF t(1) u pid pid refl packed_ok(2) p] t(1) u
  show ?thesis by (auto simp: pack_shop_defs Let_def)
qed

theorem warehouse_steps_return_witness:
  "\<exists>t. thenE (print_picking (example_package 1 ''7-3-1-1'' WAIT_PREPARE_SEND_STATUS))
     (thenE (scancheck ''c'' (example_package 1 ''7-3-1-1'' WAIT_PREPARE_SEND_STATUS))
     (thenE (scanweight ''w'' (example_package 1 ''7-3-1-1'' WAIT_PREPARE_SEND_STATUS))
       (finish_package (example_package 1 ''7-3-1-1'' WAIT_PREPARE_SEND_STATUS))))
     (packed (order_item\<lparr>psi_assign_status := ASSIGNED\<rparr>)) = (Inr (), t)"
  by (rule warehouse_steps_return [OF packed_ready])

theorem cancelled_package_stays_open_witness:
  "let po = example_package 1 ''7-3-1-1'' WAIT_PREPARE_SEND_STATUS
   in can_merge po \<and> po \<in> set (d_packages (snd (cancel_package po (packed order_item))))"
proof -
  let ?po = "example_package 1 ''7-3-1-1'' WAIT_PREPARE_SEND_STATUS"
  have run: "cancel_package ?po (packed order_item) = (Inr (), snd (cancel_package ?po (packed order_item)))"
    by (rule returned) code_simp
  have "po_pid ?po \<noteq> 0" by (simp add: example_package_def)
  from cancelled_package_stays_open [OF run this] show ?thesis
    by (simp add: can_merge_def Let_def example_package_def)
qed

theorem full_package_is_never_complete_witness:
  "\<exists>po'. reset_sku_item_num (example_package 1 ''7-3-1-1'' WAIT_PREPARE_SEND_STATUS) (packed order_item) = Inr po' \<and>
     \<not> po_ready_completion po' \<and> po_sku_num po' = 1"
proof -
  let ?po = "example_package 1 ''7-3-1-1'' WAIT_PREPARE_SEND_STATUS" and ?s = "packed order_item"
  have "\<not> isl (reset_sku_item_num ?po ?s)" by code_simp
  then obtain po' where r: "reset_sku_item_num ?po ?s = Inr po'" by (cases "reset_sku_item_num ?po ?s") auto
  have items: "length (assigned_items ?po ?s) = 1" by code_simp
  then have "assigned_items ?po ?s \<noteq> []" by auto
  have paid: "[example_order] = filter (\<lambda>o'. so_sale_trade o' \<in> set (trades_at 3 ?s) \<and> so_status o' = WAIT_SELLER_SEND_GOODS) (d_orders ?s)"
    by (simp add: packed_def pack_shop_defs trades_at_def)
  have "nat_of_str (po_user_address_id ?po) = Some 3" by code_simp
  from full_package_is_never_complete [OF r _ \<open>assigned_items ?po ?s \<noteq> []\<close> _ this paid] items r
  show ?thesis by (auto simp: packed_def pack_shop_defs is_sent_def)
qed

theorem gen_package_cannot_merge_witness: "\<exists>e. gen_package order_item True pack_shop = (Inl e, pack_shop)"
  by (rule gen_package_cannot_merge) (simp add: pack_shop_defs)

theorem merged_item_joins_open_package_witness:
  "\<exists>q t. psi_merge order_item pack_shop = (Inr q, t) \<and> psi_status q = PSI_MERGED \<and>
     (\<exists>po\<in>set (d_packages t). psi_package_order_pid q = Some (po_pid po))"
proof -
  have "\<not> isl (fst (psi_merge order_item pack_shop))" by code_simp
  from returned_some [OF this] obtain q t where run: "psi_merge order_item pack_shop = (Inr q, t)" by blast
  from merged_item_joins_open_package [OF run] run show ?thesis by (auto simp: pack_shop_defs)
qed

definition deleted_shop :: shop_db where
  "deleted_shop = pack_shop\<lparr>d_packages := [example_package 2 ''7-3-1-2'' PO_DELETE]\<rparr>"

theorem merged_into_deleted_package_witness:
  "\<exists>q t. psi_merge order_item deleted_shop = (Inr q, t) \<and> psi_package_order_pid q = Some 2 \<and>
     (\<exists>po'\<in>set (d_packages t). po_pid po' = 2 \<and> \<not> can_merge po')"
proof -
  let ?po = "example_package 2 ''7-3-1-2'' PO_DELETE"
  have "\<not> isl (fst (psi_merge order_item deleted_shop))" by code_simp
  from returned_some [OF this] obtain q t where run: "psi_merge order_item deleted_shop = (Inr q, t)" by blast
  have v: "direct_vendor order_item deleted_shop = Inr ''''"
    by (simp add: deleted_shop_def pack_shop_defs direct_vendor_def get_sku_def sku_product_def product_supplier_def q_get_def)
  have tr: "psi_sale_trade order_item deleted_shop = Inr example_trade"
    by (simp add: deleted_shop_def pack_shop_defs psi_sale_trade_def psi_sale_order_def get_order_def get_trade_def q_get_def)
  have "gen_new_package_id (str_nat (st_buyer_id example_trade)) (str_nat 3) (psi_ware_by order_item) '''' True deleted_shop = ''7-3-1-2''"
    by code_simp
  then have "package_by_id (gen_new_package_id (str_nat (st_buyer_id example_trade)) (str_nat 3) (psi_ware_by order_item) '''' True deleted_shop) deleted_shop = Some ?po"
    by (simp add: package_by_id_def deleted_shop_def example_package_def)
  from merged_into_deleted_package [OF run _ _ _ _ v tr _ this] run
  show ?thesis by (auto simp: deleted_shop_def pack_shop_defs)
qed

theorem paid_order_is_assigned_or_arranged_witness:
  "\<exists>p t. psi_create (example_order\<lparr>so_num := 20\<rparr>) (pack_shop\<lparr>d_psis := []\<rparr>) = (Inr p, t) \<and> psi_num p = 20 \<and>
     psi_status p = PSI_PAID \<and> (\<exists>pa\<in>set (d_arrangements t). pa_num pa = 20 \<and> pa_status pa = PA_EFFECT)"
proof -
  let ?o = "example_order\<lparr>so_num := 20\<rparr>" and ?s = "pack_shop\<lparr>d_psis := []\<rparr>"
  have "\<not> isl (fst (psi_create ?o ?s))" by code_simp
  from returned_some [OF this] obtain p t where run: "psi_create ?o ?s = (Inr p, t)" by blast
  have st: "q_first (filter (\<lambda>x. ss_sku_id x = so_sku_id ?o) (d_stocks ?s)) = Some example_stock"
    by (simp add: pack_shop_defs)
  have "so_num ?o = 20" "\<not> can_assign example_stock 20"
    by (simp_all add: pack_shop_defs can_assign_def realtime_quantity_def)
  with paid_order_is_assigned_or_arranged [OF run st] run show ?thesis by auto
qed

theorem only_open_items_are_cancelled_witness:
  "\<exists>q t. set_status_cancel order_item True pack_shop = (Inr q, t) \<and> psi_assign_status q = CANCELED \<and>
     d_psis t = tbl_save psi_id q (d_psis pack_shop)"
proof -
  have "\<not> isl (fst (set_status_cancel order_item True pack_shop))" by code_simp
  from returned_some [OF this] obtain q t where run: "set_status_cancel order_item True pack_shop = (Inr q, t)" by blast
  from only_open_items_are_cancelled [OF run] run show ?thesis by (auto simp: pack_shop_defs)
qed

end
