(* ===== verification/Orders.thy ===== *)
theory Orders
  imports Packing
begin

text \<open>
  Orders (\<open>SaleOrder\<close>, \<open>src/flashsale/pay/models/trade.py\<close>): the lines of a trade. This
  theory has what an order reads and writes in the shop's tables: whether it is a deposit, can be
  refunded, changed or finished, what a partial refund is worth, and its steps from payment to
  signature. The cached attributes of an order object (\<open>_package_sku_\<close> and the like) are read
  afresh. The receivers of \<open>post_save\<close> run after the commit; the one that sets the state of the
  trade is \<open>tasks_update_sale_trade_status\<close>.
\<close>

section \<open>Saving\<close>

definition save_trade :: "sale_trade \<Rightarrow> (shop_db, unit) prog" where
  "save_trade t = modify (\<lambda>s. s\<lparr>d_trades := tbl_save st_id t (d_trades s)\<rparr>)"

definition save_trade_fields :: "sale_trade \<Rightarrow> (sale_trade \<Rightarrow> sale_trade) \<Rightarrow> (shop_db, unit) prog" where
  "save_trade_fields t f = (\<lambda>s.
     if q_exists (\<lambda>x. st_id x = st_id t) (d_trades s)
     then (Inr (), s\<lparr>d_trades := q_update (\<lambda>x. st_id x = st_id t) f (d_trades s)\<rparr>)
     else (Inl (Exn ''DatabaseError''), s))"

text \<open>\<open>SaleOrder.save(update_fields=...)\<close> looks up a missing buyer too, but does not write it.\<close>

definition save_order_fields :: "sale_order \<Rightarrow> (sale_order \<Rightarrow> sale_order) \<Rightarrow> (shop_db, unit) prog" where
  "save_order_fields so f =
     thenE (if so_buyer_id so = 0 then bindE (liftE (get_trade (so_sale_trade so))) (\<lambda>_. ret ()) else ret ())
     (\<lambda>s. if q_exists (\<lambda>x. so_id x = so_id so) (d_orders s)
          then (Inr (), s\<lparr>d_orders := q_update (\<lambda>x. so_id x = so_id so) f (d_orders s)\<rparr>)
          else (Inl (Exn ''DatabaseError''), s))"

section \<open>What an order reads\<close>

definition orders_of :: "pk_id \<Rightarrow> shop_db \<Rightarrow> sale_order list" where
  "orders_of i s = filter (\<lambda>so. so_sale_trade so = i) (d_orders s)"

definition order_product :: "sale_order \<Rightarrow> shop_db \<Rightarrow> py_error + product" where
  "order_product so s =
     (case q_first (filter (\<lambda>k. ps_id k = so_sku_id so) (d_skus s)) of
        None \<Rightarrow> Inl AttributeError
      | Some k \<Rightarrow> sku_product k s)"

definition item_product :: "sale_order \<Rightarrow> shop_db \<Rightarrow> product option" where
  "item_product so s = q_first (filter (\<lambda>p. prod_id p = so_item_id so) (d_products s))"

definition item_ware_by :: "sale_order \<Rightarrow> shop_db \<Rightarrow> ware" where
  "item_ware_by so s = (case item_product so s of None \<Rightarrow> WARE_NONE | Some p \<Rightarrow> prod_ware_by p)"

definition is_elite_365_order :: "sale_order \<Rightarrow> shop_db \<Rightarrow> py_error + bool" where
  "is_elite_365_order so s =
     (case item_product so s of None \<Rightarrow> Inl AttributeError | Some p \<Rightarrow> Inr (prod_model_id p = 25408))"

definition get_product_model :: "product \<Rightarrow> model_product option" where
  "get_product_model p = (if prod_model_id p = 0 then None else prod_model p)"

definition is_deposit :: "sale_order \<Rightarrow> shop_db \<Rightarrow> py_error + bool" where
  "is_deposit so s = map_sum id (\<lambda>p.
     (case get_product_model p of Some mp \<Rightarrow> mp_is_virtual mp | None \<Rightarrow> False)
       \<or> starts_with ''RMB'' (so_outer_id so)) (order_product so s)"

definition deposit_with :: "sale_order \<Rightarrow> bool \<Rightarrow> shop_db \<Rightarrow> py_error + bool" where
  "deposit_with so b s = map_sum id (\<lambda>d. d \<and> b) (is_deposit so s)"

definition is_1_deposit :: "sale_order \<Rightarrow> shop_db \<Rightarrow> py_error + bool" where
  "is_1_deposit so = deposit_with so (so_outer_sku_id so = ''3'')"
definition is_99_deposit :: "sale_order \<Rightarrow> shop_db \<Rightarrow> py_error + bool" where
  "is_99_deposit so = deposit_with so (so_outer_sku_id so = ''2'')"
definition is_188_deposit :: "sale_order \<Rightarrow> shop_db \<Rightarrow> py_error + bool" where
  "is_188_deposit so = deposit_with so (so_outer_sku_id so = ''1'')"
definition is_new_elite_deposit :: "sale_order \<Rightarrow> shop_db \<Rightarrow> py_error + bool" where
  "is_new_elite_deposit so = deposit_with so (so_outer_sku_id so \<in> {''338'', ''216''})"
definition is_recharge_deposit :: "sale_order \<Rightarrow> shop_db \<Rightarrow> py_error + bool" where
  "is_recharge_deposit so = deposit_with so
     (so_outer_sku_id so \<in> {''600'', ''3000'', ''9000'', ''25000'', ''80000'', ''100''} \<or> so_item_id so = 80880)"

definition is_transfer_coupon_order :: "sale_order \<Rightarrow> shop_db \<Rightarrow> py_error + bool" where
  "is_transfer_coupon_order so s =
     (case deposit_with so (so_outer_sku_id so \<notin> {''1'', ''2'', ''3''}) s of
        Inl e \<Rightarrow> Inl e
      | Inr b \<Rightarrow> if b then map_sum id Not (is_recharge_deposit so s) else Inr False)"

text \<open>\<open>package_sku\<close> and \<open>package_order\<close>: the item and the package of an order.\<close>

definition package_sku :: "sale_order \<Rightarrow> shop_db \<Rightarrow> psi option" where
  "package_sku so s = q_first (filter (\<lambda>p. psi_sale_order_id p = Some (so_id so)) (d_psis s))"

definition order_package :: "sale_order \<Rightarrow> shop_db \<Rightarrow> package_order option" where
  "order_package so s =
     (case package_sku so s of
        None \<Rightarrow> None
      | Some p \<Rightarrow>
          (case psi_package_order_id p of
             None \<Rightarrow> None
           | Some i \<Rightarrow> if i = '''' then None else package_by_id i s))"

definition order_need_send_num :: "sale_order \<Rightarrow> shop_db \<Rightarrow> int" where
  "order_need_send_num so s =
     (if so_status so = WAIT_SELLER_SEND_GOODS then
        so_num so - q_sum psi_num (\<lambda>p. psi_sale_order_id p = Some (so_id so) \<and> psi_assign_status p = FINISHED)
          (d_psis s)
      else 0)"

definition is_packaged :: "sale_order \<Rightarrow> shop_db \<Rightarrow> bool" where
  "is_packaged so s =
     (case package_sku so s of
        None \<Rightarrow> False
      | Some p \<Rightarrow> psi_assign_status p \<noteq> NOT_ASSIGNED \<and> psi_package_order_id p \<notin> {None, Some ''''})"

definition is_post :: "sale_order \<Rightarrow> shop_db \<Rightarrow> bool" where
  "is_post so s = (case package_sku so s of None \<Rightarrow> False | Some p \<Rightarrow> psi_assign_status p = FINISHED)"

definition can_change_sku :: "sale_order \<Rightarrow> bool" where
  "can_change_sku so \<longleftrightarrow> so_status so = WAIT_SELLER_SEND_GOODS \<and>
     so_refund_status so \<notin> {REFUND_WAIT_RETURN_GOODS, REFUND_CONFIRM_GOODS, REFUND_APPROVE, REFUND_SUCCESS}"

definition is_teambuy :: "sale_order \<Rightarrow> shop_db \<Rightarrow> py_error + bool" where
  "is_teambuy so s = map_sum id (\<lambda>t. st_order_type t = TEAMBUY_ORDER) (get_trade (so_sale_trade so) s)"

definition order_is_finished :: "sale_order \<Rightarrow> bool" where
  "order_is_finished so \<longleftrightarrow> so_status so = TRADE_FINISHED"

definition order_is_confirmed :: "sale_order \<Rightarrow> bool" where
  "order_is_confirmed so \<longleftrightarrow> WAIT_BUYER_CONFIRM_GOODS \<le> so_status so \<and> so_status so \<le> TRADE_FINISHED
     \<and> so_refund_status so \<le> REFUND_REFUSE_BUYER"

definition order_is_canceled :: "sale_order \<Rightarrow> bool" where
  "order_is_canceled so \<longleftrightarrow> so_status so > TRADE_FINISHED \<or> so_refund_status so > REFUND_REFUSE_BUYER"

definition stats_post_goods :: "sale_order \<Rightarrow> bool" where
  "stats_post_goods so \<longleftrightarrow> so_status so \<in> {WAIT_BUYER_CONFIRM_GOODS, TRADE_BUYER_SIGNED, TRADE_FINISHED}"

definition stats_not_pay :: "sale_order \<Rightarrow> bool" where
  "stats_not_pay so \<longleftrightarrow> so_status so \<in> {TRADE_NO_CREATE_PAY, WAIT_BUYER_PAY, TRADE_CLOSED_BY_SYS}"

definition stats_paid :: "sale_order \<Rightarrow> bool" where
  "stats_paid so \<longleftrightarrow> WAIT_SELLER_SEND_GOODS \<le> so_status so \<and> so_status so \<le> TRADE_FINISHED
     \<and> so_refund_status so \<le> REFUND_REFUSE_BUYER"

definition refunding_with :: "good_status set \<Rightarrow> sale_order \<Rightarrow> shop_db \<Rightarrow> bool" where
  "refunding_with gs so s =
     (case q_first (filter (\<lambda>r. Some (rf_id r) = so_refund_id so) (d_refunds s)) of
        None \<Rightarrow> False
      | Some r \<Rightarrow> rf_good_status r \<in> gs \<and> \<not> stats_not_pay so
          \<and> so_refund_status so \<notin> {REFUND_CLOSED, NO_REFUND, REFUND_REFUSE_BUYER})"

definition stats_cancel :: "sale_order \<Rightarrow> shop_db \<Rightarrow> bool" where
  "stats_cancel = refunding_with {BUYER_NOT_RECEIVED}"
definition stats_out_stock :: "sale_order \<Rightarrow> shop_db \<Rightarrow> bool" where
  "stats_out_stock = refunding_with {SELLER_OUT_STOCK}"
definition stats_return_goods :: "sale_order \<Rightarrow> shop_db \<Rightarrow> bool" where
  "stats_return_goods = refunding_with {BUYER_RECEIVED, BUYER_RETURNED_GOODS}"

section \<open>Refunds and the end of an order\<close>

definition get_refundable :: "sale_order \<Rightarrow> shop_db \<Rightarrow> py_error + bool" where
  "get_refundable so s =
     (if so_status so \<notin> {WAIT_SELLER_SEND_GOODS, TRADE_BUYER_SIGNED} then Inr False
      else
        (case is_deposit so s of
           Inl e \<Rightarrow> Inl e
         | Inr d \<Rightarrow>
             map_sum id (\<lambda>t.
               \<not> (d \<and> st_status t \<notin> {WAIT_SELLER_SEND_GOODS, WAIT_BUYER_CONFIRM_GOODS})
               \<and> \<not> (st_order_type t = TEAMBUY_ORDER \<and> so_status so = WAIT_SELLER_SEND_GOODS))
               (get_trade (so_sale_trade so) s)))"

text \<open>\<open>fake_round\<close>: the price of one piece, cut after the second decimal.\<close>

definition fake_round :: "yuan \<Rightarrow> int \<Rightarrow> yuan" where
  "fake_round x y = of_int (py_int (x / of_int y * 100)) / 100"

definition calculate_refund_fee :: "sale_order \<Rightarrow> int \<Rightarrow> py_error + yuan" where
  "calculate_refund_fee so n =
     (if n = 0 then Inr 0
      else if n = so_num so then Inr (so_payment so)
      else if so_num so = 0 then Inl (Exn ''ZeroDivisionError'')
      else Inr (fake_round (so_payment so) (so_num so) * of_int n))"

definition REFUNDABLE_STATUS :: "refund_status list" where
  "REFUNDABLE_STATUS = [REFUND_WAIT_SELLER_AGREE, REFUND_WAIT_RETURN_GOODS, REFUND_CONFIRM_GOODS,
     REFUND_APPROVE, REFUND_SUCCESS]"

definition ORDER_WAIT_CONFIRM_TO_FINISHED_DAYS :: int where
  "ORDER_WAIT_CONFIRM_TO_FINISHED_DAYS = 14"
definition ORDER_SIGNED_TO_FINISHED_DAYS :: int where
  "ORDER_SIGNED_TO_FINISHED_DAYS = 7"

text \<open>\<open>(now - t).days\<close>\<close>

definition days_since :: "time \<Rightarrow> time \<Rightarrow> int" where
  "days_since t today = (today - t) div 86400"

definition is_finishable :: "sale_order \<Rightarrow> shop_db \<Rightarrow> py_error + bool" where
  "is_finishable so s =
     (case item_product so s of
        None \<Rightarrow> Inl AttributeError
      | Some p \<Rightarrow>
          if prod_model_id p \<noteq> 0 \<and> prod_model p = None then Inl AttributeError
          else if prod_model_id p \<noteq> 0 \<and> map_option mp_source_type (prod_model p) = Some 3 then Inr False
          else if so_refund_status so \<in> set REFUNDABLE_STATUS then Inr False
          else
            (let delta_days = (case so_consign_time so of None \<Rightarrow> 0 | Some t \<Rightarrow> days_since t (d_now s)) in
             Inr (so_status so = WAIT_BUYER_CONFIRM_GOODS \<and> delta_days > ORDER_WAIT_CONFIRM_TO_FINISHED_DAYS
               \<or> so_status so = TRADE_BUYER_SIGNED \<and>
                   (case so_sign_time so of
                      None \<Rightarrow> True
                    | Some t \<Rightarrow> days_since t (d_now s) > ORDER_SIGNED_TO_FINISHED_DAYS
                        \<or> delta_days > ORDER_WAIT_CONFIRM_TO_FINISHED_DAYS))))"

section \<open>Steps of an order\<close>

definition set_status_paid :: "sale_order \<Rightarrow> time option \<Rightarrow> (shop_db, sale_order) prog" where
  "set_status_paid so pay_time =
     bindE (liftE (is_deposit so)) (\<lambda>d.
     bindE (save_order (so\<lparr>so_status := (if d then TRADE_FINISHED else WAIT_SELLER_SEND_GOODS),
       so_pay_time := pay_time\<rparr>)) (\<lambda>so.
     thenE (set_order_paid_num (so_sku_id so) (so_num so) STAT_SIGN)
     (ret so)))"

definition order_set_psi_cancel :: "sale_order \<Rightarrow> (shop_db, unit) prog" where
  "order_set_psi_cancel so =
     bindE (asks (package_sku so)) (\<lambda>p.
     case p of None \<Rightarrow> ret () | Some p \<Rightarrow> bindE (set_status_cancel p True) (\<lambda>_. ret ()))"

definition close_order :: "sale_order \<Rightarrow> (shop_db, unit) prog" where
  "close_order so = bindE (save_order (so\<lparr>so_status := TRADE_CLOSED_BY_SYS\<rparr>)) (\<lambda>_. ret ())"

definition NORMAL_ORDER_STATUS :: "trade_status list" where
  "NORMAL_ORDER_STATUS = [WAIT_BUYER_PAY, WAIT_SELLER_SEND_GOODS, WAIT_BUYER_CONFIRM_GOODS,
     TRADE_BUYER_SIGNED, TRADE_FINISHED]"

definition normal_orders :: "pk_id \<Rightarrow> shop_db \<Rightarrow> sale_order list" where
  "normal_orders i s = filter (\<lambda>so. so_status so \<in> set NORMAL_ORDER_STATUS) (orders_of i s)"

definition confirm_sign_order :: "sale_order \<Rightarrow> (shop_db, unit) prog" where
  "confirm_sign_order so =
     (if so_status so = TRADE_BUYER_SIGNED then ret ()
      else if so_status so \<noteq> WAIT_BUYER_CONFIRM_GOODS then raise (Exn ''not sent'')
      else
        bindE now (\<lambda>t.
        thenE (save_order_fields so (\<lambda>x. x\<lparr>so_status := TRADE_BUYER_SIGNED, so_sign_time := Some t\<rparr>))
        (bindE (asks (package_sku so)) (\<lambda>p.
         case p of
           None \<Rightarrow> raise AttributeError
         | Some p \<Rightarrow>
             bindE (set_status_finish p True) (\<lambda>_.
             bindE (liftE (get_trade (so_sale_trade so))) (\<lambda>t.
             bindE (asks (\<lambda>s. filter (\<lambda>x. so_status x \<notin> {TRADE_BUYER_SIGNED, TRADE_FINISHED})
                (normal_orders (st_id t) s))) (\<lambda>unsign.
             whenE (unsign = []) (save_trade_fields t (\<lambda>x. x\<lparr>st_status := TRADE_BUYER_SIGNED\<rparr>)))))))))"

text \<open>
  \<open>tasks_update_sale_trade_status\<close>: the state of a trade after one of its orders was saved.
\<close>

definition orders_status :: "trade_status set \<Rightarrow> trade_status option" where
  "orders_status st =
     (if WAIT_SELLER_SEND_GOODS \<in> st then Some WAIT_SELLER_SEND_GOODS
      else if WAIT_BUYER_CONFIRM_GOODS \<in> st then Some WAIT_BUYER_CONFIRM_GOODS
      else if TRADE_BUYER_SIGNED \<in> st then Some TRADE_BUYER_SIGNED
      else if TRADE_CLOSED \<in> st then Some TRADE_CLOSED
      else if TRADE_FINISHED \<in> st then
        (if st \<subseteq> {TRADE_FINISHED, TRADE_CLOSED_BY_SYS} then Some TRADE_FINISHED else None)
      else if TRADE_CLOSED_BY_SYS \<in> st then
        (if st \<subseteq> {TRADE_CLOSED_BY_SYS} then Some TRADE_CLOSED_BY_SYS else None)
      else None)"

definition tasks_update_sale_trade_status :: "pk_id \<Rightarrow> (shop_db, unit) prog" where
  "tasks_update_sale_trade_status i = modify (\<lambda>s.
     case orders_status (so_status ` set (orders_of i s)) of
       None \<Rightarrow> s
     | Some st \<Rightarrow> s\<lparr>d_trades := q_update (\<lambda>t. st_id t = i) (\<lambda>t. t\<lparr>st_status := st\<rparr>) (d_trades s)\<rparr>)"

end
