(* ===== verification/Coupons.thy ===== *)
theory Coupons
  imports Wallet
begin

text \<open>
  Coupons and their way between sellers: \<open>UserCoupon\<close>, \<open>CouponTransferRecord\<close> and
  \<open>TransferCouponDetail\<close> (\<open>src/flashsale/coupon/models\<close>) with the functions of
  \<open>src/flashsale/coupon/apis/v1\<close> and \<open>tasks\<close> that change them. A coupon is unused, used,
  frozen while a return is pending, past or cancelled; a transfer coupon (\<open>TYPE_TRANSFER\<close>) also
  carries the chain of the sellers it came through. Of templates, virtual products and sellers the
  columns that are read are modelled; names and pictures that are only copied are left out. Functions
  that look up customers take them as arguments.
\<close>

section \<open>Rows\<close>

datatype coupon_type = CT_NORMAL | CT_ORDER_SHARE | CT_MAMA_INVITE | CT_COMPENSATE | CT_ORDER_BENEFIT
  | CT_ACTIVE_SHARE | CT_CASHOUT_EXCHANGE | CT_TRANSFER

datatype coupon_status = UC_UNUSED | UC_USED | UC_FREEZE | UC_PAST | UC_CANCEL

text \<open>The keys of the JSON column \<open>extras\<close> that the code reads are columns: \<open>uc_freeze_type\<close>
  says whether the key \<open>freeze_type\<close> is there with the value 1.\<close>

record user_coupon =
  uc_id :: pk_id
  uc_template_id :: pk_id
  uc_title :: string
  uc_type :: coupon_type
  uc_customer_id :: pk_id
  uc_share_user_id :: "pk_id option"
  uc_order_coupon_id :: "pk_id option"
  uc_coupon_no :: string
  uc_value :: yuan
  uc_trade_tid :: "string option"
  uc_finished_time :: "time option"
  uc_start_use_time :: time
  uc_expires_time :: time
  uc_ufrom :: string
  uc_uniq_id :: string
  uc_status :: coupon_status
  uc_is_buyed :: bool
  uc_is_pushed :: bool
  uc_is_chained :: bool
  uc_transfer_coupon_pk :: "string option"
  uc_chain :: "pk_id list option"
  uc_freeze_by :: "string option"
  uc_freeze_type :: bool
  uc_buy_type :: "nat option"

datatype transfer_type = OUT_CASHOUT | OUT_TRANSFER | OUT_CONSUMED | IN_BUY_COUPON | IN_RETURN_COUPON
  | IN_RETURN_GOODS | IN_GIFT_COUPON | OUT_EXCHG_SALEORDER | IN_RECHARGE | IN_BUY_COUPON_WITH_COIN
  | OUT_CASHOUT_COIN | IN_CANCEL_EXCHG

fun transfer_type_code :: "transfer_type \<Rightarrow> nat" where
  "transfer_type_code OUT_CASHOUT = 1"
| "transfer_type_code OUT_TRANSFER = 2"
| "transfer_type_code OUT_CONSUMED = 3"
| "transfer_type_code IN_BUY_COUPON = 4"
| "transfer_type_code IN_RETURN_COUPON = 5"
| "transfer_type_code IN_RETURN_GOODS = 6"
| "transfer_type_code IN_GIFT_COUPON = 7"
| "transfer_type_code OUT_EXCHG_SALEORDER = 8"
| "transfer_type_code IN_RECHARGE = 9"
| "transfer_type_code IN_BUY_COUPON_WITH_COIN = 10"
| "transfer_type_code OUT_CASHOUT_COIN = 11"
| "transfer_type_code IN_CANCEL_EXCHG = 12"

datatype transfer_status = TR_PENDING | TR_PROCESSED | TR_DELIVERED | TR_CANCELED

fun transfer_status_code :: "transfer_status \<Rightarrow> nat" where
  "transfer_status_code TR_PENDING = 1"
| "transfer_status_code TR_PROCESSED = 2"
| "transfer_status_code TR_DELIVERED = 3"
| "transfer_status_code TR_CANCELED = 4"

record transfer_record =
  tr_id :: pk_id
  tr_from_mama_id :: pk_id
  tr_to_mama_id :: pk_id
  tr_init_from_mama_id :: pk_id
  tr_order_no :: string
  tr_template_id :: pk_id
  tr_coupon_value :: yuan
  tr_coupon_num :: int
  tr_type :: transfer_type
  tr_transfer_status :: transfer_status
  tr_effect :: bool
  tr_uni_key :: string
  tr_date_field :: day
  tr_elite_level :: "string option"
  tr_to_mama_price :: yuan
  tr_from_mama_elite_level :: "string option"
  tr_from_mama_price :: yuan
  tr_elite_score :: int
  tr_product_id :: pk_id

record transfer_detail =
  td_id :: pk_id
  td_transfer_id :: pk_id
  td_transfer_type :: transfer_type
  td_coupon_id :: pk_id

record coupon_template =
  ctp_id :: pk_id
  ctp_value :: yuan
  ctp_valid :: bool
  ctp_use_min_payment :: yuan
  ctp_product_ids :: string
  ctp_category_ids :: string

text \<open>\<open>get_virtual_modelproducts()\<close>: the virtual products on sale, with the template each is
  bound to.\<close>

record agent_product =
  ap_id :: pk_id
  ap_name :: string
  ap_elite_score :: int
  ap_agent_price :: yuan

record virtual_model =
  vm_template_id :: "pk_id option"
  vm_products :: "agent_product list"

datatype referal_from = DIRECT | INDIRECT | NO_REFERAL

datatype mama_status = MM_EFFECT | MM_FROZEN | MM_CANCEL

datatype mama_progress = PG_NONE | PG_PROFILE | PG_PAY | PG_PASS

text \<open>The types of a seller's last renewal are numbers of days, which the code compares.\<close>

definition SCAN :: int where "SCAN = 3"
definition TRIAL :: int where "TRIAL = 15"
definition ELITE :: int where "ELITE = 90"
definition HALF :: int where "HALF = 183"
definition FULL :: int where "FULL = 365"

record mama =
  ma_id :: pk_id
  ma_openid :: string
  ma_elite_score :: int
  ma_status :: mama_status
  ma_charged :: bool
  ma_progress :: mama_progress
  ma_referal_from :: referal_from
  ma_cash :: cents
  ma_hasale :: bool
  ma_hasale_time :: "time option"
  ma_active :: bool
  ma_active_time :: "time option"
  ma_last_renew_type :: int
  ma_agencylevel :: int
  ma_charge_time :: "time option"
  ma_renew_time :: "time option"

definition ma_effect :: "mama \<Rightarrow> bool" where
  "ma_effect m \<longleftrightarrow> ma_status m = MM_EFFECT"

definition ma_in_service :: "mama \<Rightarrow> bool" where
  "ma_in_service m \<longleftrightarrow> ma_progress m \<in> {PG_PAY, PG_PASS}"

record exchange_order =
  xo_id :: pk_id
  xo_order_oid :: string
  xo_has_exchanged :: bool
  xo_can_exchange :: bool
  xo_can_exchg_payment :: cents
  xo_uni_key :: string

record coupon_db =
  cp_coupons :: "user_coupon table"
  cp_records :: "transfer_record table"
  cp_details :: "transfer_detail table"
  cp_templates :: "coupon_template table"
  cp_models :: "virtual_model list"
  cp_mamas :: "mama table"
  cp_exchanges :: "exchange_order table"
  cp_now :: time

interpretation coupon_table: orm_table uc_id "\<lambda>i. uc_id_update (\<lambda>_. i)" by unfold_locales simp
interpretation record_table: orm_table tr_id "\<lambda>i. tr_id_update (\<lambda>_. i)" by unfold_locales simp
interpretation exchange_table: orm_table xo_id "\<lambda>i. xo_id_update (\<lambda>_. i)" by unfold_locales simp

section \<open>Sellers\<close>

definition elite_level :: "mama \<Rightarrow> string" where
  "elite_level m =
     (if ma_elite_score m \<ge> 20000 then ''SP''
      else if ma_elite_score m \<ge> 6000 then ''Partner''
      else if ma_elite_score m \<ge> 2000 then ''VP''
      else if ma_elite_score m \<ge> 600 then ''Director''
      else ''Associate'')"

text \<open>\<open>Customer.mama_id\<close>, \<open>get_xiaolumm\<close>, \<open>get_charged_mama\<close> and
  \<open>getXiaolumm\<close>: the seller of a customer, by the customer's union id.\<close>

definition get_xiaolumm :: "customer \<Rightarrow> coupon_db \<Rightarrow> mama option" where
  "get_xiaolumm c s =
     (if cu_unionid c = '''' then None
      else q_first (filter (\<lambda>m. ma_openid m = cu_unionid c) (cp_mamas s)))"

definition mama_id :: "customer \<Rightarrow> coupon_db \<Rightarrow> pk_id option" where
  "mama_id c s = map_option ma_id (get_xiaolumm c s)"

definition get_charged_mama :: "customer \<Rightarrow> coupon_db \<Rightarrow> mama option" where
  "get_charged_mama c s =
     (if cu_unionid c = '''' then None
      else q_first (filter (\<lambda>m. ma_openid m = cu_unionid c \<and> ma_charged m) (cp_mamas s)))"

definition getXiaolumm :: "customer \<Rightarrow> coupon_db \<Rightarrow> mama option" where
  "getXiaolumm c s =
     (if cu_unionid c = '''' then None
      else q_first (filter (\<lambda>m. ma_openid m = cu_unionid c \<and> ma_effect m \<and> ma_charged m) (cp_mamas s)))"

definition get_mama_by_id :: "pk_id \<Rightarrow> coupon_db \<Rightarrow> py_error + mama" where
  "get_mama_by_id i s = q_get (\<lambda>m. ma_id m = i) (cp_mamas s)"

text \<open>The product, score and price of a template for a seller: of the first virtual product bound to
  the template, the one whose name has the seller's level.\<close>

definition get_elite_score_by_templateid ::
  "pk_id \<Rightarrow> mama option \<Rightarrow> coupon_db \<Rightarrow> py_error + (pk_id \<times> int \<times> yuan)" where
  "get_elite_score_by_templateid templateid m s =
     (case q_first (filter (\<lambda>vm. vm_template_id vm = Some templateid \<and> templateid \<noteq> 0) (cp_models s)) of
        None \<Rightarrow> Inr (0, 0, 0)
      | Some vm \<Rightarrow>
          (case m of
             None \<Rightarrow>
               (case vm_products vm of
                  [] \<Rightarrow> Inl (Exn ''IndexError'')
                | p # _ \<Rightarrow> Inr (ap_id p, ap_elite_score p, ap_agent_price p))
           | Some m \<Rightarrow>
               (case q_first (filter (\<lambda>p. contains_str (elite_level m) (ap_name p)) (vm_products vm)) of
                  None \<Rightarrow> Inr (0, 0, 0)
                | Some p \<Rightarrow> Inr (ap_id p, ap_elite_score p, ap_agent_price p))))"

section \<open>Saving\<close>

text \<open>\<open>coupon.save()\<close> of a stored coupon; \<open>save(update_fields=...)\<close> with the columns
  \<open>f\<close> writes.\<close>

definition save_coupon :: "user_coupon \<Rightarrow> (coupon_db, unit) prog" where
  "save_coupon c = modify (\<lambda>s. s\<lparr>cp_coupons := tbl_save uc_id c (cp_coupons s)\<rparr>)"

definition save_coupon_fields :: "pk_id \<Rightarrow> (user_coupon \<Rightarrow> user_coupon) \<Rightarrow> (coupon_db, unit) prog" where
  "save_coupon_fields i f = (\<lambda>s.
     if q_exists (\<lambda>c. uc_id c = i) (cp_coupons s)
     then (Inr (), s\<lparr>cp_coupons := q_update (\<lambda>c. uc_id c = i) f (cp_coupons s)\<rparr>)
     else (Inl (Exn ''DatabaseError''), s))"

definition insert_record :: "transfer_record \<Rightarrow> (coupon_db, transfer_record) prog" where
  "insert_record r = (\<lambda>s.
     if q_exists (\<lambda>q. tr_uni_key q = tr_uni_key r) (cp_records s) then (Inl IntegrityError, s)
     else (let q = r\<lparr>tr_id := fresh_pk tr_id (cp_records s)\<rparr>
           in (Inr q, s\<lparr>cp_records := cp_records s @ [q]\<rparr>)))"

definition set_transfer_status :: "transfer_record \<Rightarrow> transfer_status \<Rightarrow> (coupon_db, unit) prog" where
  "set_transfer_status r st = (\<lambda>s.
     if q_exists (\<lambda>q. tr_id q = tr_id r) (cp_records s)
     then (Inr (), s\<lparr>cp_records := q_update (\<lambda>q. tr_id q = tr_id r)
       (\<lambda>q. q\<lparr>tr_transfer_status := st\<rparr>) (cp_records s)\<rparr>)
     else (Inl (Exn ''DatabaseError''), s))"

section \<open>The states of a coupon\<close>

definition get_user_coupon_by_id :: "pk_id \<Rightarrow> coupon_db \<Rightarrow> py_error + user_coupon" where
  "get_user_coupon_by_id i s = q_get (\<lambda>c. uc_id c = i) (cp_coupons s)"

definition get_user_coupons_by_ids :: "pk_id list \<Rightarrow> coupon_db \<Rightarrow> user_coupon list" where
  "get_user_coupons_by_ids ids s = filter (\<lambda>c. uc_id c \<in> set ids) (cp_coupons s)"

definition is_transfer_coupon :: "user_coupon \<Rightarrow> bool" where
  "is_transfer_coupon c \<longleftrightarrow> uc_type c = CT_TRANSFER"

definition is_gift_transfer_coupon :: "user_coupon \<Rightarrow> bool" where
  "is_gift_transfer_coupon c \<longleftrightarrow> contains_str ''gift'' (uc_uniq_id c)"

text \<open>An empty chain counts as none.\<close>

definition mama_chain :: "user_coupon \<Rightarrow> pk_id list" where
  "mama_chain c = (case uc_chain c of None \<Rightarrow> [] | Some ch \<Rightarrow> ch)"

definition can_return_sys :: "user_coupon \<Rightarrow> bool" where
  "can_return_sys c \<longleftrightarrow> uc_type c = CT_TRANSFER \<and> \<not> is_gift_transfer_coupon c \<and> mama_chain c = []"

definition can_return_upper_mama :: "user_coupon \<Rightarrow> bool" where
  "can_return_upper_mama c \<longleftrightarrow> uc_type c = CT_TRANSFER \<and> mama_chain c \<noteq> []"

definition coupon_basic_check :: "user_coupon \<Rightarrow> coupon_db \<Rightarrow> py_error + unit" where
  "coupon_basic_check c s =
     (if uc_status c = UC_USED then Inl (AssertionError ''used'')
      else if uc_status c = UC_FREEZE then Inl (AssertionError ''frozen'')
      else if uc_status c = UC_PAST then Inl (AssertionError ''past'')
      else if \<not> cp_now s \<le> uc_expires_time c then Inl (AssertionError ''date'')
      else Inr ())"

definition freeze_coupon :: "user_coupon \<Rightarrow> (coupon_db, unit) prog" where
  "freeze_coupon self =
     bindE (liftE (get_user_coupon_by_id (uc_id self))) (\<lambda>coupon.
     if uc_status coupon \<noteq> UC_UNUSED then raise (AssertionError ''not unused'')
     else save_coupon (self\<lparr>uc_status := UC_FREEZE\<rparr>))"

definition unfreeze_coupon :: "user_coupon \<Rightarrow> (coupon_db, unit) prog" where
  "unfreeze_coupon self =
     bindE (liftE (get_user_coupon_by_id (uc_id self))) (\<lambda>coupon.
     if uc_status coupon \<noteq> UC_FREEZE then raise (AssertionError ''not frozen'')
     else save_coupon (self\<lparr>uc_status := UC_UNUSED\<rparr>))"

definition get_freeze_boutique_coupons_by_transfer :: "pk_id \<Rightarrow> coupon_db \<Rightarrow> user_coupon list" where
  "get_freeze_boutique_coupons_by_transfer i s =
     filter (\<lambda>c. uc_status c = UC_FREEZE \<and> uc_type c = CT_TRANSFER \<and> uc_freeze_by c = Some (str_nat i))
       (cp_coupons s)"

definition rollback_user_coupon_status_2_unused_by_ids :: "pk_id list \<Rightarrow> (coupon_db, unit) prog" where
  "rollback_user_coupon_status_2_unused_by_ids ids = modify (\<lambda>s.
     s\<lparr>cp_coupons := q_update (\<lambda>c. uc_id c \<in> set ids \<and> uc_status c \<noteq> UC_CANCEL)
       (\<lambda>c. c\<lparr>uc_status := UC_UNUSED\<rparr>) (cp_coupons s)\<rparr>)"

text \<open>
  \<open>use_coupon_by_ids\<close>: every coupon that exists is checked, then each is locked, checked for
  use again and marked. The task that counts the uses of the template reads \<open>coupons[0]\<close>.
\<close>

definition use_coupon :: "string \<Rightarrow> pk_id \<Rightarrow> (coupon_db, unit) prog" where
  "use_coupon tid i = atomic (
     bindE (liftE (get_user_coupon_by_id i)) (\<lambda>coupon.
     if uc_status coupon = UC_USED then raise (AssertionError ''used'')
     else modify (\<lambda>s. s\<lparr>cp_coupons := q_update (\<lambda>c. uc_id c = i)
       (\<lambda>c. c\<lparr>uc_status := UC_USED, uc_finished_time := Some (cp_now s), uc_trade_tid := Some tid\<rparr>)
       (cp_coupons s)\<rparr>)))"

definition use_coupon_by_ids :: "pk_id list \<Rightarrow> string \<Rightarrow> (coupon_db, unit) prog" where
  "use_coupon_by_ids ids tid =
     bindE (asks (get_user_coupons_by_ids ids)) (\<lambda>coupons.
     thenE (forE (\<lambda>c. liftE (coupon_basic_check c)) coupons)
     (thenE (forE (use_coupon tid) ids)
     (if coupons = [] then raise (Exn ''IndexError'') else ret ())))"

definition freeze_transfer_coupon :: "pk_id list \<Rightarrow> pk_id \<Rightarrow> (coupon_db, unit) prog" where
  "freeze_transfer_coupon coupon_ids transfer_id =
     bindE (asks (get_user_coupons_by_ids coupon_ids)) (\<lambda>coupons.
     forE (\<lambda>c.
       if uc_status c \<noteq> UC_UNUSED then raise (Exn ''coupon is not unused'')
       else save_coupon_fields (uc_id c) (\<lambda>x. x\<lparr>uc_status := UC_FREEZE, uc_customer_id := uc_customer_id c,
         uc_transfer_coupon_pk := uc_transfer_coupon_pk c, uc_chain := uc_chain c,
         uc_freeze_by := Some (str_nat transfer_id), uc_freeze_type := uc_freeze_type c,
         uc_buy_type := uc_buy_type c\<rparr>)) coupons)"

definition cancel_coupon_by_ids :: "pk_id list \<Rightarrow> (coupon_db, unit) prog" where
  "cancel_coupon_by_ids coupon_ids =
     bindE (asks (get_user_coupons_by_ids coupon_ids)) (\<lambda>coupons.
     forE (\<lambda>c.
       if uc_status c = UC_CANCEL then raise (Exn ''coupon is cancelled'')
       else save_coupon_fields (uc_id c) (\<lambda>x. x\<lparr>uc_status := UC_CANCEL\<rparr>)) coupons)"

definition unfreeze_user_coupon_by_userbudget :: "customer option \<Rightarrow> (coupon_db, unit) prog" where
  "unfreeze_user_coupon_by_userbudget c' =
     (case c' of
        None \<Rightarrow> ret ()
      | Some cust \<Rightarrow>
          bindE (asks (\<lambda>s. filter (\<lambda>c. uc_customer_id c = cu_id cust \<and> uc_type c = CT_TRANSFER
             \<and> uc_status c = UC_FREEZE) (cp_coupons s))) (\<lambda>coupons.
          forE (\<lambda>c. whenE (uc_freeze_type c)
             (save_coupon (c\<lparr>uc_freeze_type := False, uc_status := UC_UNUSED\<rparr>))) coupons))"

definition task_update_user_coupon_status_2_past :: "(coupon_db, unit) prog" where
  "task_update_user_coupon_status_2_past = modify (\<lambda>s.
     s\<lparr>cp_coupons := q_update (\<lambda>c. uc_expires_time c \<le> cp_now s \<and> uc_status c \<in> {UC_UNUSED, UC_FREEZE})
       (\<lambda>c. c\<lparr>uc_status := UC_PAST\<rparr>) (cp_coupons s)\<rparr>)"

definition task_freeze_coupon_by_refund :: "string \<Rightarrow> (coupon_db, unit) prog" where
  "task_freeze_coupon_by_refund trade_tid = modify (\<lambda>s.
     s\<lparr>cp_coupons := q_update (\<lambda>c. uc_trade_tid c = Some trade_tid \<and> uc_status c = UC_UNUSED)
       (\<lambda>c. c\<lparr>uc_status := UC_FREEZE\<rparr>) (cp_coupons s)\<rparr>)"

section \<open>Transfer records\<close>

definition get_transfer_record_by_id :: "pk_id \<Rightarrow> coupon_db \<Rightarrow> py_error + transfer_record" where
  "get_transfer_record_by_id i s = q_get (\<lambda>r. tr_id r = i) (cp_records s)"

definition MAX_DAILY_TRANSFER :: nat where
  "MAX_DAILY_TRANSFER = 60"

definition gen_unikey_with_order_no :: "pk_id \<Rightarrow> pk_id \<Rightarrow> string \<Rightarrow> string" where
  "gen_unikey_with_order_no from_mama to_mama order_no =
     join_with ''-'' [str_nat from_mama, str_nat to_mama, order_no]"

definition transfer_gen_unikey :: "pk_id \<Rightarrow> pk_id \<Rightarrow> pk_id \<Rightarrow> day \<Rightarrow> pk_id \<Rightarrow> coupon_db \<Rightarrow> string option" where
  "transfer_gen_unikey from_mama to_mama template_id d prev_coupon_id s =
     (if prev_coupon_id = 0 then
        (let idx = q_count (\<lambda>r. tr_from_mama_id r = from_mama \<and> tr_to_mama_id r = to_mama
              \<and> tr_template_id r = template_id \<and> tr_date_field r = d
              \<and> transfer_status_code (tr_transfer_status r) \<ge> 2) (cp_records s) + 1
         in if idx > MAX_DAILY_TRANSFER then None
            else Some (join_with ''-'' [str_nat from_mama, str_nat to_mama, str_nat template_id, str_day d,
                         str_nat idx]))
      else Some (join_with ''-'' [str_nat from_mama, str_nat to_mama, str_nat template_id, str_nat prev_coupon_id]))"

definition transfer_gen_order_no :: "pk_id \<Rightarrow> pk_id \<Rightarrow> day \<Rightarrow> coupon_db \<Rightarrow> string option" where
  "transfer_gen_order_no init_mama template_id d s =
     (let idx = q_count (\<lambda>r. tr_init_from_mama_id r = init_mama \<and> tr_template_id r = template_id
           \<and> tr_date_field r = d) (cp_records s) + 1
      in if idx > MAX_DAILY_TRANSFER then None
         else Some (join_with ''-'' [str_nat init_mama, str_nat template_id, str_day d, str_nat idx]))"

definition get_coupon_stock_num :: "pk_id \<Rightarrow> pk_id \<Rightarrow> coupon_db \<Rightarrow> int" where
  "get_coupon_stock_num mama template_id s =
     q_sum tr_coupon_num (\<lambda>r. tr_to_mama_id r = mama \<and> tr_transfer_status r = TR_DELIVERED
        \<and> tr_template_id r = template_id) (cp_records s)
     - q_sum tr_coupon_num (\<lambda>r. tr_from_mama_id r = mama \<and> tr_transfer_status r = TR_DELIVERED
        \<and> tr_template_id r = template_id) (cp_records s)"

definition get_stock_num :: "pk_id \<Rightarrow> coupon_db \<Rightarrow> int \<times> int \<times> int" where
  "get_stock_num mama s =
     (let out_num = q_sum tr_coupon_num (\<lambda>r. tr_from_mama_id r = mama \<and> tr_transfer_status r = TR_DELIVERED)
            (cp_records s);
          in_num = q_sum tr_coupon_num (\<lambda>r. tr_to_mama_id r = mama \<and> tr_transfer_status r = TR_DELIVERED)
            (cp_records s)
      in (in_num - out_num, in_num, out_num))"

definition get_waiting_in_num :: "pk_id \<Rightarrow> coupon_db \<Rightarrow> int" where
  "get_waiting_in_num mama s = q_sum tr_coupon_num (\<lambda>r. tr_to_mama_id r = mama
     \<and> transfer_status_code (tr_transfer_status r) \<le> 2) (cp_records s)"

definition get_waiting_out_num :: "pk_id \<Rightarrow> coupon_db \<Rightarrow> int" where
  "get_waiting_out_num mama s = q_sum tr_coupon_num (\<lambda>r. tr_from_mama_id r = mama
     \<and> tr_transfer_status r = TR_PENDING) (cp_records s)"

definition is_cancelable :: "transfer_record \<Rightarrow> bool" where
  "is_cancelable r \<longleftrightarrow> tr_transfer_status r = TR_PENDING \<and>
     (tr_init_from_mama_id r = tr_to_mama_id r \<and> tr_type r = OUT_TRANSFER \<or> tr_type r = IN_RETURN_GOODS)"

definition is_processable :: "transfer_record \<Rightarrow> bool" where
  "is_processable r \<longleftrightarrow> (tr_type r = OUT_TRANSFER \<or> tr_type r = IN_RETURN_GOODS) \<and> tr_transfer_status r = TR_PENDING"

definition can_cancel :: "transfer_record \<Rightarrow> pk_id \<Rightarrow> bool" where
  "can_cancel r mama \<longleftrightarrow>
     tr_type r = OUT_TRANSFER \<and> tr_transfer_status r = TR_PENDING \<and> tr_init_from_mama_id r = mama
       \<and> tr_init_from_mama_id r = tr_to_mama_id r
     \<or> tr_type r = IN_RETURN_GOODS \<and> tr_transfer_status r = TR_PENDING \<and> tr_from_mama_id r = mama"

definition can_process :: "transfer_record \<Rightarrow> pk_id \<Rightarrow> bool" where
  "can_process r mama \<longleftrightarrow> tr_type r = OUT_TRANSFER \<and> tr_transfer_status r = TR_PENDING \<and> tr_from_mama_id r = mama"

definition set_transfer_status_cancel :: "transfer_record \<Rightarrow> (coupon_db, unit) prog" where
  "set_transfer_status_cancel r = modify (\<lambda>s.
     s\<lparr>cp_records := tbl_save tr_id (r\<lparr>tr_transfer_status := TR_CANCELED\<rparr>) (cp_records s)\<rparr>)"

definition set_transfer_record_complete :: "transfer_record \<Rightarrow> (coupon_db, unit) prog" where
  "set_transfer_record_complete r = set_transfer_status r TR_DELIVERED"

definition cancel_transfer_record_by_trade :: "string \<Rightarrow> (coupon_db, unit) prog" where
  "cancel_transfer_record_by_trade trade_tid =
     bindE (asks (\<lambda>s. q_first (filter (\<lambda>r. tr_uni_key r = trade_tid) (cp_records s)))) (\<lambda>r.
     case r of None \<Rightarrow> ret () | Some r \<Rightarrow> set_transfer_status r TR_CANCELED)"

text \<open>\<open>create_transfer_coupon_detail\<close> goes over the set of the keys; the order only decides the
  keys of the new rows.\<close>

definition create_detail :: "transfer_record \<Rightarrow> pk_id \<Rightarrow> (coupon_db, unit) prog" where
  "create_detail r coupon_id = modify (\<lambda>s. s\<lparr>cp_details :=
     (if q_exists (\<lambda>d. td_transfer_id d = tr_id r \<and> td_coupon_id d = coupon_id) (cp_details s)
      then q_update (\<lambda>d. td_transfer_id d = tr_id r \<and> td_coupon_id d = coupon_id)
             (\<lambda>d. d\<lparr>td_transfer_type := tr_type r\<rparr>) (cp_details s)
      else cp_details s @ [\<lparr>td_id = fresh_pk td_id (cp_details s), td_transfer_id = tr_id r,
             td_transfer_type = tr_type r, td_coupon_id = coupon_id\<rparr>])\<rparr>)"

definition create_transfer_coupon_detail :: "pk_id \<Rightarrow> pk_id list \<Rightarrow> (coupon_db, unit) prog" where
  "create_transfer_coupon_detail transfer_id coupon_ids =
     bindE (liftE (get_transfer_record_by_id transfer_id)) (\<lambda>record.
     forE (create_detail record) (remdups coupon_ids))"

section \<open>Records of the trade\<close>

text \<open>
  \<open>create_consume_record\<close>: the coupons a seller paid a trade with. An existing record of the
  trade is reported with a dictionary (\<open>None\<close> here) instead of a record.
\<close>

definition record_of ::
  "pk_id \<Rightarrow> pk_id \<Rightarrow> pk_id \<Rightarrow> string \<Rightarrow> pk_id \<Rightarrow> yuan \<Rightarrow> int \<Rightarrow> transfer_type \<Rightarrow> string \<Rightarrow> day \<Rightarrow> transfer_record" where
  "record_of from_mama to_mama init_mama order_no template_id v num tt uni_key d =
     \<lparr>tr_id = 0, tr_from_mama_id = from_mama, tr_to_mama_id = to_mama, tr_init_from_mama_id = init_mama,
      tr_order_no = order_no, tr_template_id = template_id, tr_coupon_value = v, tr_coupon_num = num,
      tr_type = tt, tr_transfer_status = TR_DELIVERED, tr_effect = True, tr_uni_key = uni_key,
      tr_date_field = d, tr_elite_level = None, tr_to_mama_price = 0, tr_from_mama_elite_level = None,
      tr_from_mama_price = 0, tr_elite_score = 0, tr_product_id = 0\<rparr>"

definition template_value :: "pk_id \<Rightarrow> coupon_db \<Rightarrow> yuan option" where
  "template_value i s = map_option ctp_value (q_first (filter (\<lambda>t. ctp_id t = i) (cp_templates s)))"

definition out_record :: "mama \<Rightarrow> int \<Rightarrow> string \<Rightarrow> pk_id \<Rightarrow> transfer_type \<Rightarrow> (coupon_db, transfer_record) prog" where
  "out_record from_mama coupon_num order_no template_id tt =
     bindE (asks (template_value template_id)) (\<lambda>v.
     case v of
       None \<Rightarrow> raise AttributeError
     | Some v \<Rightarrow>
         bindE (liftE (get_elite_score_by_templateid template_id (Some from_mama))) (\<lambda>(product_id, score, price).
         bindE (asks cp_now) (\<lambda>t.
         insert_record ((record_of (ma_id from_mama) 0 (ma_id from_mama) order_no template_id v coupon_num tt
             order_no (day_of t))\<lparr>tr_from_mama_elite_level := Some (elite_level from_mama),
             tr_from_mama_price := price, tr_elite_score := score * coupon_num, tr_product_id := product_id\<rparr>))))"

definition create_consume_record ::
  "int \<Rightarrow> customer option \<Rightarrow> string \<Rightarrow> pk_id \<Rightarrow> (coupon_db, transfer_record option) prog" where
  "create_consume_record coupon_num from_customer tid template_id =
     (case from_customer of
        None \<Rightarrow> raise AttributeError
      | Some c \<Rightarrow>
          bindE (asks (\<lambda>s. q_first (filter (\<lambda>m. ma_openid m = cu_unionid c) (cp_mamas s)))) (\<lambda>m.
          case m of
            None \<Rightarrow> raise AttributeError
          | Some from_mama \<Rightarrow>
              bindE (asks (\<lambda>s. q_exists (\<lambda>r. tr_uni_key r = tid) (cp_records s))) (\<lambda>exists.
              if exists then ret None
              else bindE (out_record from_mama coupon_num tid template_id OUT_CONSUMED) (\<lambda>r. ret (Some r)))))"

definition create_exchg_order_record ::
  "customer \<Rightarrow> int \<Rightarrow> string \<Rightarrow> pk_id \<Rightarrow> (coupon_db, transfer_record) prog" where
  "create_exchg_order_record cust coupon_num oid template_id =
     bindE (asks (get_charged_mama cust)) (\<lambda>m.
     case m of
       None \<Rightarrow> raise AttributeError
     | Some from_mama \<Rightarrow> out_record from_mama coupon_num oid template_id OUT_EXCHG_SALEORDER)"

text \<open>Records of coupons the system gives back to the seller of a customer.\<close>

definition in_record ::
  "customer \<Rightarrow> int \<Rightarrow> pk_id \<Rightarrow> string \<Rightarrow> transfer_type \<Rightarrow> (pk_id \<Rightarrow> coupon_db \<Rightarrow> string) \<Rightarrow>
   (coupon_db, transfer_record) prog" where
  "in_record cust coupon_num template_id order_no tt uni_key =
     bindE (asks (mama_id cust)) (\<lambda>to_mama.
     bindE (asks (uni_key (case to_mama of None \<Rightarrow> 0 | Some i \<Rightarrow> i))) (\<lambda>uni_key.
     bindE (liftE (\<lambda>s. q_get (\<lambda>t. ctp_id t = template_id) (cp_templates s))) (\<lambda>template.
     bindE (asks (get_charged_mama cust)) (\<lambda>m.
     bindE (liftE (get_elite_score_by_templateid template_id m)) (\<lambda>(product_id, score, price).
     bindE (asks cp_now) (\<lambda>t.
     case (to_mama, m) of
       (Some i, Some m) \<Rightarrow>
         insert_record ((record_of 0 i i order_no template_id (ctp_value template) coupon_num tt uni_key
           (day_of t))\<lparr>tr_elite_level := Some (elite_level m), tr_to_mama_price := price,
             tr_elite_score := score * coupon_num, tr_product_id := product_id\<rparr>)
     | _ \<Rightarrow> raise AttributeError))))))"

definition gen_return_record ::
  "customer option \<Rightarrow> int \<Rightarrow> pk_id \<Rightarrow> string \<Rightarrow> (coupon_db, transfer_record) prog" where
  "gen_return_record cust coupon_num template_id trade_tid =
     (case cust of
        None \<Rightarrow> raise AttributeError
      | Some c \<Rightarrow>
          in_record c coupon_num template_id trade_tid IN_RETURN_GOODS (\<lambda>i s.
            join_with ''-'' [str_nat i, str_nat (transfer_type_code IN_RETURN_GOODS), trade_tid]))"

definition gen_cancel_exchg_record ::
  "customer \<Rightarrow> int \<Rightarrow> pk_id \<Rightarrow> string \<Rightarrow> (coupon_db, transfer_record) prog" where
  "gen_cancel_exchg_record cust coupon_num template_id order_oid =
     in_record cust coupon_num template_id order_oid IN_CANCEL_EXCHG (\<lambda>i s.
       (let idx = q_count (\<lambda>r. tr_from_mama_id r = 0 \<and> tr_to_mama_id r = i \<and> tr_type r = IN_CANCEL_EXCHG
              \<and> tr_template_id r = template_id \<and> tr_date_field r = day_of (cp_now s)
              \<and> tr_order_no r = order_oid \<and> transfer_status_code (tr_transfer_status r) \<ge> 2) (cp_records s)
        in join_with ''-'' [str_nat i, str_nat (transfer_type_code IN_CANCEL_EXCHG), order_oid,
             str_nat (idx + 1)]))"

text \<open>
  \<open>task_return_user_coupon_by_trade\<close>: up to \<open>num\<close> used coupons of a refunded trade become
  usable again one by one, and one record counts the transfer coupons among them.
\<close>

fun return_coupons :: "nat \<Rightarrow> string \<Rightarrow> user_coupon list \<Rightarrow> (coupon_db, user_coupon list) prog" where
  "return_coupons 0 trade_tid acc = ret acc"
| "return_coupons (Suc n) trade_tid acc =
     bindE (asks (\<lambda>s. q_first (filter (\<lambda>c. uc_trade_tid c = Some trade_tid \<and> uc_status c = UC_USED)
       (cp_coupons s)))) (\<lambda>cou.
     case cou of
       None \<Rightarrow> return_coupons n trade_tid acc
     | Some c \<Rightarrow>
         thenE (rollback_user_coupon_status_2_unused_by_ids [uc_id c])
         (return_coupons n trade_tid (if is_transfer_coupon c then acc @ [c] else acc)))"

definition task_return_user_coupon_by_trade ::
  "string \<Rightarrow> nat \<Rightarrow> (pk_id \<Rightarrow> customer option) \<Rightarrow> (coupon_db, unit) prog" where
  "task_return_user_coupon_by_trade trade_tid num cust =
     bindE (return_coupons num trade_tid []) (\<lambda>cs.
     if cs = [] then ret ()
     else
       bindE (gen_return_record (cust (uc_customer_id (last cs))) (int (length cs))
                (uc_template_id (last cs)) trade_tid) (\<lambda>transfer.
       create_transfer_coupon_detail (tr_id transfer) (map uc_id cs)))"

section \<open>The score of a seller\<close>

definition calc_elite_score :: "pk_id \<Rightarrow> coupon_db \<Rightarrow> int" where
  "calc_elite_score i s =
     q_sum tr_elite_score (\<lambda>r. tr_to_mama_id r = i \<and> tr_transfer_status r = TR_DELIVERED
        \<and> tr_type r \<in> {IN_BUY_COUPON, OUT_TRANSFER, IN_GIFT_COUPON, IN_RECHARGE, IN_BUY_COUPON_WITH_COIN})
       (cp_records s)
     - q_sum tr_elite_score (\<lambda>r. tr_from_mama_id r = i \<and> tr_transfer_status r = TR_DELIVERED
        \<and> tr_type r \<in> {OUT_CASHOUT, IN_RETURN_COUPON}) (cp_records s)"

definition task_calc_xlmm_elite_score :: "pk_id \<Rightarrow> (coupon_db, unit) prog" where
  "task_calc_xlmm_elite_score i = whenE (i > 0) (modify (\<lambda>s.
     s\<lparr>cp_mamas := q_update (\<lambda>m. ma_id m = i) (\<lambda>m. m\<lparr>ma_elite_score := calc_elite_score i s\<rparr>) (cp_mamas s)\<rparr>))"

section \<open>Giving coupons on and back\<close>

text \<open>\<open>transfer_coupons\<close>: the coupons go to another customer, and the sellers they came through
  are appended to their chains.\<close>

definition pass_on :: "pk_id \<Rightarrow> pk_id \<Rightarrow> pk_id list \<Rightarrow> user_coupon \<Rightarrow> user_coupon" where
  "pass_on to_customer_id transfer_record_id chain c = c\<lparr>uc_customer_id := to_customer_id,
     uc_transfer_coupon_pk := Some (str_nat transfer_record_id),
     uc_chain := (case uc_chain c of None \<Rightarrow> Some chain | Some ch \<Rightarrow> Some (ch @ chain)),
     uc_is_chained := True\<rparr>"

definition transfer_coupons :: "user_coupon list \<Rightarrow> pk_id \<Rightarrow> pk_id \<Rightarrow> pk_id list \<Rightarrow> (coupon_db, unit) prog" where
  "transfer_coupons coupons to_customer_id transfer_record_id chain =
     thenE (forE (\<lambda>c. save_coupon (pass_on to_customer_id transfer_record_id chain c)) coupons)
     (create_transfer_coupon_detail transfer_record_id (map uc_id coupons))"

text \<open>
  \<open>return_transfer_coupon\<close>: an agreed return goes through. A coupon whose last seller is not the
  one the record returns to stops everything; coupons are skipped while the seller has no normal customer.
\<close>

definition give_back :: "(string \<Rightarrow> customer option) \<Rightarrow> transfer_record \<Rightarrow> user_coupon \<Rightarrow> (coupon_db, bool) prog" where
  "give_back by_unionid transfer c =
     bindE (liftE (get_mama_by_id (tr_to_mama_id transfer))) (\<lambda>to_mama.
     case by_unionid (ma_openid to_mama) of
       None \<Rightarrow> ret False
     | Some cust \<Rightarrow>
         if mama_chain c = [] \<or> last (mama_chain c) \<noteq> ma_id to_mama then raise (Exn ''coupon record'')
         else
           thenE (save_coupon_fields (uc_id c) (\<lambda>x. x\<lparr>uc_status := UC_UNUSED, uc_customer_id := cu_id cust,
             uc_transfer_coupon_pk := uc_transfer_coupon_pk c, uc_chain := Some (butlast (mama_chain c)),
             uc_freeze_by := uc_freeze_by c, uc_freeze_type := uc_freeze_type c,
             uc_buy_type := uc_buy_type c\<rparr>))
           (ret True))"

fun give_all_back ::
  "(string \<Rightarrow> customer option) \<Rightarrow> transfer_record \<Rightarrow> user_coupon list \<Rightarrow> (coupon_db, bool) prog" where
  "give_all_back by_unionid transfer [] = ret False"
| "give_all_back by_unionid transfer (c # cs) =
     bindE (give_back by_unionid transfer c) (\<lambda>b.
     bindE (give_all_back by_unionid transfer cs) (\<lambda>b'. ret (b \<or> b')))"

definition return_transfer_coupon ::
  "(string \<Rightarrow> customer option) \<Rightarrow> user_coupon list \<Rightarrow> pk_id \<Rightarrow> (coupon_db, unit) prog" where
  "return_transfer_coupon by_unionid coupons transfer_record_id = atomic (
     bindE (liftE (get_transfer_record_by_id transfer_record_id)) (\<lambda>transfer.
     thenE (set_transfer_record_complete transfer)
     (bindE (give_all_back by_unionid transfer coupons) (\<lambda>returned.
      whenE returned
        (forE task_calc_xlmm_elite_score (remdups [tr_to_mama_id transfer, tr_from_mama_id transfer]))))))"

text \<open>
  \<open>apply_pending_return_transfer_coupon\<close>: one pending record for each seller the coupons came
  from last; the coupons are frozen under it. The result is the code of the answer.
\<close>

definition return_upper_key :: "pk_id \<Rightarrow> pk_id \<Rightarrow> coupon_db \<Rightarrow> string" where
  "return_upper_key upper template_id s =
     (let k = ''return-upper-'' @ str_nat upper @ ''-'' @ str_nat template_id @ ''-''
      in k @ str_nat (q_count (\<lambda>r. tr_type r = IN_RETURN_COUPON \<and> contains_str k (tr_uni_key r)) (cp_records s) + 1))"

definition apply_upper ::
  "(string \<Rightarrow> customer option) \<Rightarrow> mama option \<Rightarrow> coupon_template \<Rightarrow> yuan \<Rightarrow> pk_id \<Rightarrow> pk_id list \<Rightarrow> (coupon_db, unit) prog" where
  "apply_upper by_openid mm template from_price upper_mama_id cou_ids =
     bindE (asks (return_upper_key upper_mama_id (ctp_id template))) (\<lambda>uni_key.
     bindE (liftE (get_mama_by_id upper_mama_id)) (\<lambda>upper.
     bindE (liftE (get_elite_score_by_templateid (ctp_id template) (Some upper))) (\<lambda>(product_id, score, price).
     bindE (asks cp_now) (\<lambda>t.
     case (mm, by_openid (ma_openid upper)) of
       (Some m, Some _) \<Rightarrow>
         bindE (insert_record ((record_of (ma_id m) upper_mama_id 0 uni_key (ctp_id template)
             (of_int (py_int (ctp_value template))) (int (length cou_ids)) IN_RETURN_COUPON uni_key (day_of t))
             \<lparr>tr_transfer_status := TR_PENDING, tr_elite_level := Some (elite_level upper),
              tr_to_mama_price := price, tr_from_mama_elite_level := Some (elite_level m),
              tr_from_mama_price := from_price, tr_elite_score := score * int (length cou_ids),
              tr_product_id := product_id\<rparr>)) (\<lambda>new_transfer.
         thenE (freeze_transfer_coupon cou_ids (tr_id new_transfer))
         (create_transfer_coupon_detail (tr_id new_transfer) cou_ids))
     | _ \<Rightarrow> raise AttributeError))))"

definition apply_pending_return_transfer_coupon ::
  "(string \<Rightarrow> customer option) \<Rightarrow> pk_id list \<Rightarrow> customer \<Rightarrow> (coupon_db, nat) prog" where
  "apply_pending_return_transfer_coupon by_openid coupon_ids cust = atomic (
     bindE (asks (get_user_coupons_by_ids coupon_ids)) (\<lambda>coupons.
     bindE (asks (get_xiaolumm cust)) (\<lambda>mm.
     if list_ex (\<lambda>c. \<not> can_return_upper_mama c) coupons then ret 1
     else
       (case remdups (map uc_template_id coupons) of
          [template_id] \<Rightarrow>
            bindE (liftE (\<lambda>s. q_get (\<lambda>t. ctp_id t = template_id) (cp_templates s))) (\<lambda>template.
            bindE (liftE (get_elite_score_by_templateid template_id mm)) (\<lambda>(_, _, from_price).
            thenE (forE (\<lambda>u. apply_upper by_openid mm template from_price u
                (map uc_id (filter (\<lambda>c. last (mama_chain c) = u) coupons)))
              (remdups (map (\<lambda>c. last (mama_chain c)) coupons)))
            (ret 0)))
        | _ \<Rightarrow> ret 2))))"

text \<open>\<open>apply_pending_return_transfer_coupon_2_sys\<close>: coupons bought with coins and coupons bought
  with money go into two records.\<close>

definition return_sys_key :: "pk_id \<Rightarrow> coupon_db \<Rightarrow> string" where
  "return_sys_key i s = ''return-sys-'' @ str_nat i @ ''-'' @
     str_nat (q_count (\<lambda>r. tr_effect r \<and> tr_type r \<in> {OUT_CASHOUT_COIN, OUT_CASHOUT}
       \<and> tr_from_mama_id r = i) (cp_records s))"

definition apply_sys ::
  "mama option \<Rightarrow> coupon_template \<Rightarrow> pk_id \<times> int \<times> yuan \<Rightarrow> transfer_type \<Rightarrow> (yuan \<Rightarrow> string) \<Rightarrow> pk_id list \<Rightarrow>
   (coupon_db, unit) prog" where
  "apply_sys mm template found tt order_no ids =
     (case (found, mm) of
        (_, None) \<Rightarrow> raise AttributeError
      | ((product_id, score, price), Some m) \<Rightarrow>
          bindE (asks (return_sys_key (ma_id m))) (\<lambda>uni_key.
          bindE (asks cp_now) (\<lambda>t.
          bindE (insert_record ((record_of (ma_id m) 0 0 (order_no (price * of_nat (length ids)))
              (ctp_id template) (of_int (py_int (ctp_value template))) (int (length ids)) tt uni_key (day_of t))
              \<lparr>tr_transfer_status := TR_PENDING, tr_from_mama_elite_level := Some (elite_level m),
               tr_from_mama_price := price,
               tr_elite_score := (if tt = OUT_CASHOUT then score * int (length ids) else 0),
               tr_product_id := product_id\<rparr>)) (\<lambda>transfer.
          thenE (freeze_transfer_coupon ids (tr_id transfer))
          (create_transfer_coupon_detail (tr_id transfer) ids)))))"

text \<open>\<open>money\<close> is the printed form of an amount.\<close>

definition apply_pending_return_transfer_coupon_2_sys ::
  "(yuan \<Rightarrow> string) \<Rightarrow> pk_id list \<Rightarrow> customer \<Rightarrow> (coupon_db, nat) prog" where
  "apply_pending_return_transfer_coupon_2_sys money coupon_ids cust = atomic (
     bindE (asks (get_user_coupons_by_ids coupon_ids)) (\<lambda>coupons.
     bindE (asks (get_xiaolumm cust)) (\<lambda>mm.
     if list_ex (\<lambda>c. \<not> can_return_sys c) coupons then ret 1
     else
       (case remdups (map uc_template_id coupons) of
          [template_id] \<Rightarrow>
            bindE (liftE (\<lambda>s. q_get (\<lambda>t. ctp_id t = template_id) (cp_templates s))) (\<lambda>template.
            bindE (liftE (get_elite_score_by_templateid template_id mm)) (\<lambda>found.
            (let coin = map uc_id (filter (\<lambda>c. uc_buy_type c = Some 1) coupons);
                 cash = map uc_id (filter (\<lambda>c. uc_buy_type c \<noteq> Some 1) coupons)
             in thenE (whenE (cash \<noteq> []) (apply_sys mm template found OUT_CASHOUT (\<lambda>x. ''return-money-'' @ money x) cash))
                (thenE (whenE (coin \<noteq> []) (apply_sys mm template found OUT_CASHOUT_COIN (\<lambda>x. ''return-coin-'' @ money x) coin))
                (ret 0)))))
        | _ \<Rightarrow> ret 2))))"

definition check_return_record :: "transfer_record \<Rightarrow> mama option \<Rightarrow> (coupon_db, unit) prog" where
  "check_return_record record m =
     (if tr_type record \<noteq> IN_RETURN_COUPON then raise (Exn ''type'')
      else if tr_transfer_status record \<noteq> TR_PENDING then raise (Exn ''not pending'')
      else (case m of
              None \<Rightarrow> raise AttributeError
            | Some m \<Rightarrow> if tr_to_mama_id record \<noteq> ma_id m then raise (Exn ''wrong seller'') else ret ()))"

definition agree_apply_transfer_record :: "customer \<Rightarrow> pk_id \<Rightarrow> (coupon_db, unit) prog" where
  "agree_apply_transfer_record cust transfer_record_id = atomic (
     bindE (liftE (get_transfer_record_by_id transfer_record_id)) (\<lambda>record.
     bindE (asks (get_xiaolumm cust)) (\<lambda>m.
     thenE (check_return_record record m)
     (thenE (set_transfer_status record TR_PROCESSED)
     (task_calc_xlmm_elite_score (tr_to_mama_id record))))))"

definition reject_apply_transfer_record :: "customer \<Rightarrow> pk_id \<Rightarrow> (coupon_db, unit) prog" where
  "reject_apply_transfer_record cust transfer_record_id = atomic (
     bindE (liftE (get_transfer_record_by_id transfer_record_id)) (\<lambda>record.
     bindE (asks (get_charged_mama cust)) (\<lambda>m.
     thenE (check_return_record record m)
     (thenE (set_transfer_status record TR_CANCELED)
     (bindE (asks (get_freeze_boutique_coupons_by_transfer (tr_id record))) (\<lambda>coupons.
      rollback_user_coupon_status_2_unused_by_ids (map uc_id coupons)))))))"

text \<open>\<open>cancel_return_2_sys_transfer\<close> and \<open>cancel_return_2_upper_transfer\<close> have the same
  body; the second puts only its writes into a transaction.\<close>

definition cancel_return_transfer :: "transfer_record \<Rightarrow> customer option \<Rightarrow> (coupon_db, unit) prog" where
  "cancel_return_transfer record cust = atomic (
     bindE (asks (\<lambda>s. map_option (\<lambda>c. get_xiaolumm c s) cust)) (\<lambda>m.
     case m of
       Some None \<Rightarrow> raise AttributeError
     | _ \<Rightarrow>
         if (case m of Some (Some m) \<Rightarrow> tr_from_mama_id record \<noteq> ma_id m | _ \<Rightarrow> False)
         then raise (Exn ''wrong seller'')
         else
           bindE (asks (get_freeze_boutique_coupons_by_transfer (tr_id record))) (\<lambda>coupons.
           if coupons = [] then raise (Exn ''no coupon'')
           else
             thenE (rollback_user_coupon_status_2_unused_by_ids (map uc_id coupons))
             (set_transfer_status record TR_CANCELED))))"

section \<open>A coupon pays once\<close>

definition used_for :: "string \<Rightarrow> time \<Rightarrow> user_coupon \<Rightarrow> user_coupon" where
  "used_for tid t c = c\<lparr>uc_status := UC_USED, uc_finished_time := Some t, uc_trade_tid := Some tid\<rparr>"

lemma used_for_frame [simp]: "uc_id (used_for tid t c) = uc_id c" "uc_status (used_for tid t c) = UC_USED"
  "used_for tid t (used_for tid t c) = used_for tid t c"
  by (simp_all add: used_for_def)

lemma use_coupon_run:
  assumes "use_coupon tid i k = (Inr (), k')"
  shows "\<exists>c. get_user_coupon_by_id i k = Inr c \<and> uc_status c \<noteq> UC_USED \<and>
    k' = k\<lparr>cp_coupons := map (\<lambda>c. if uc_id c = i then used_for tid (cp_now k) c else c) (cp_coupons k)\<rparr>"
  using assms by (auto simp: use_coupon_def run_ok q_update_def used_for_def split: if_splits)

text \<open>The loop over the keys of the coupons: a key that comes twice stops it.\<close>

lemma use_coupons_run:
  assumes "forE (use_coupon tid) ids k = (Inr (), k')"
  shows "distinct ids \<and> (\<forall>i\<in>set ids. \<exists>c. get_user_coupon_by_id i k = Inr c \<and> uc_status c \<noteq> UC_USED) \<and>
    k' = k\<lparr>cp_coupons := map (\<lambda>c. if uc_id c \<in> set ids then used_for tid (cp_now k) c else c) (cp_coupons k)\<rparr>"
  using assms
proof (induction ids arbitrary: k)
  case Nil
  then show ?case by (simp add: run_ok)
next
  case (Cons i ids)
  let ?f = "\<lambda>c. if uc_id c = i then used_for tid (cp_now k) c else c"
  from Cons.prems obtain u where u: "use_coupon tid i k = (Inr (), u)" and rest: "forE (use_coupon tid) ids u = (Inr (), k')"
    by (auto simp: run_ok)
  from use_coupon_run [OF u] obtain c where c: "get_user_coupon_by_id i k = Inr c" "uc_status c \<noteq> UC_USED"
    and u': "u = k\<lparr>cp_coupons := map ?f (cp_coupons k)\<rparr>" by blast
  note IH = Cons.IH [OF rest]
  have get: "get_user_coupon_by_id j u = map_sum id ?f (get_user_coupon_by_id j k)" for j
  proof -
    have "filter (\<lambda>c. uc_id c = j) (map ?f xs) = map ?f (filter (\<lambda>c. uc_id c = j) xs)" for xs
      by (induction xs) auto
    then show ?thesis by (simp add: u' get_user_coupon_by_id_def q_get_def split: list.split)
  qed
  have "i \<notin> set ids"
  proof
    assume "i \<in> set ids"
    with IH obtain c' where "get_user_coupon_by_id i u = Inr c'" "uc_status c' \<noteq> UC_USED" by blast
    moreover have "uc_id c = i" using c(1) by (auto simp: get_user_coupon_by_id_def dest: q_get_Inr)
    ultimately show False using c(1) get [of i] by auto
  qed
  moreover have "\<exists>c. get_user_coupon_by_id j k = Inr c \<and> uc_status c \<noteq> UC_USED" if "j \<in> set ids" for j
  proof -
    from IH that obtain c' where "get_user_coupon_by_id j u = Inr c'" "uc_status c' \<noteq> UC_USED" by blast
    then show ?thesis using get [of j] by (cases "get_user_coupon_by_id j k") (auto split: if_splits)
  qed
  ultimately show ?case using IH c by (auto simp: u')
qed

lemma use_coupon_by_ids_run:
  assumes "use_coupon_by_ids ids tid k = (Inr (), k')"
  shows "forE (use_coupon tid) ids k = (Inr (), k') \<and>
    (\<forall>c\<in>set (get_user_coupons_by_ids ids k). uc_status c \<in> {UC_UNUSED, UC_CANCEL} \<and> cp_now k \<le> uc_expires_time c)"
proof -
  let ?cs = "get_user_coupons_by_ids ids k"
  from assms obtain u where checks: "forE (\<lambda>c. liftE (coupon_basic_check c)) ?cs k = (Inr (), u)"
    and loop: "forE (use_coupon tid) ids u = (Inr (), k')"
    by (auto simp: use_coupon_by_ids_def run_ok split: if_splits)
  have "u = k \<and> (\<forall>c\<in>set cs. coupon_basic_check c k = Inr ())"
    if "forE (\<lambda>c. liftE (coupon_basic_check c)) cs k = (Inr (), u)" for cs
    using that by (induction cs) (auto simp: run_ok)
  from this [OF checks] have u: "u = k" and c: "\<forall>c\<in>set ?cs. coupon_basic_check c k = Inr ()" by auto
  have "uc_status c \<in> {UC_UNUSED, UC_CANCEL} \<and> cp_now k \<le> uc_expires_time c" if "coupon_basic_check c k = Inr ()" for c
    using that by (cases "uc_status c") (auto simp: coupon_basic_check_def split: if_splits)
  with c loop u show ?thesis by blast
qed

text \<open>
  C28. A coupon pays for one trade: when the coupons of a payment are taken, no key is named twice,
  none of the coupons was used, frozen, past or expired, exactly these are marked with the trade, and a
  later payment with any of them raises. A cancelled coupon is not refused.
\<close>

theorem coupons_pay_once:
  assumes "use_coupon_by_ids ids tid k = (Inr (), k')"
  shows "distinct ids \<and>
    (\<forall>c\<in>set (get_user_coupons_by_ids ids k). uc_status c \<in> {UC_UNUSED, UC_CANCEL} \<and> cp_now k \<le> uc_expires_time c) \<and>
    k' = k\<lparr>cp_coupons := map (\<lambda>c. if uc_id c \<in> set ids then used_for tid (cp_now k) c else c) (cp_coupons k)\<rparr> \<and>
    (\<forall>i\<in>set ids. \<forall>ids' tid'. i \<in> set ids' \<longrightarrow> isl (fst (use_coupon_by_ids ids' tid' k')))"
proof -
  from use_coupon_by_ids_run [OF assms]
  have run: "forE (use_coupon tid) ids k = (Inr (), k')"
    and fit: "\<forall>c\<in>set (get_user_coupons_by_ids ids k). uc_status c \<in> {UC_UNUSED, UC_CANCEL} \<and> cp_now k \<le> uc_expires_time c"
    by blast+
  note taken = use_coupons_run [OF run]
  have "isl (fst (use_coupon_by_ids ids' tid' k'))" if i: "i \<in> set ids" "i \<in> set ids'" for i ids' tid'
  proof (cases "use_coupon_by_ids ids' tid' k'")
    case (Pair res k2)
    show ?thesis
    proof (cases res)
      case (Inr x)
      with Pair have "use_coupon_by_ids ids' tid' k' = (Inr (), k2)" by simp
      from use_coupons_run [OF conjunct1 [OF use_coupon_by_ids_run [OF this]]] i(2)
      obtain c where c: "get_user_coupon_by_id i k' = Inr c" "uc_status c \<noteq> UC_USED" by blast
      then have "c \<in> set (cp_coupons k')" "uc_id c = i" by (auto simp: get_user_coupon_by_id_def dest: q_get_Inr)
      with taken c(2) i(1) show ?thesis by auto
    qed (simp add: Pair)
  qed
  with taken fit show ?thesis by blast
qed

text \<open>One seller and one coupon.\<close>

definition example_coupon :: user_coupon where
  "example_coupon = \<lparr>uc_id = 1, uc_template_id = 5, uc_title = '''', uc_type = CT_TRANSFER,
     uc_customer_id = 1, uc_share_user_id = None, uc_order_coupon_id = None, uc_coupon_no = '''', uc_value = 10,
     uc_trade_tid = None, uc_finished_time = None, uc_start_use_time = 0, uc_expires_time = midnight 736090,
     uc_ufrom = '''', uc_uniq_id = ''5-1'', uc_status = UC_UNUSED, uc_is_buyed = True, uc_is_pushed = False,
     uc_is_chained = False, uc_transfer_coupon_pk = None, uc_chain = None, uc_freeze_by = None,
     uc_freeze_type = False, uc_buy_type = None\<rparr>"

definition example_coupons :: coupon_db where
  "example_coupons = \<lparr>cp_coupons = [example_coupon], cp_records = [], cp_details = [],
     cp_templates = [\<lparr>ctp_id = 5, ctp_value = 10, ctp_valid = True, ctp_use_min_payment = 0,
       ctp_product_ids = '''', ctp_category_ids = ''''\<rparr>], cp_models = [],
     cp_mamas = [\<lparr>ma_id = 44, ma_openid = ''u'', ma_elite_score = 0, ma_status = MM_EFFECT,
       ma_charged = True, ma_progress = PG_PASS, ma_referal_from = DIRECT, ma_cash = 0, ma_hasale = False,
       ma_hasale_time = None, ma_active = False, ma_active_time = None, ma_last_renew_type = ELITE,
       ma_agencylevel = 2, ma_charge_time = None, ma_renew_time = None\<rparr>],
     cp_exchanges = [], cp_now = midnight 736080\<rparr>"

theorem coupons_pay_once_witness:
  "\<exists>k. use_coupon_by_ids [1] ''xd4'' (example_coupons\<lparr>cp_coupons := [example_coupon\<lparr>uc_status := UC_CANCEL\<rparr>]\<rparr>) = (Inr (), k) \<and>
     isl (fst (use_coupon_by_ids [1] ''xd5'' k))"
proof -
  let ?k = "example_coupons\<lparr>cp_coupons := [example_coupon\<lparr>uc_status := UC_CANCEL\<rparr>]\<rparr>"
  have "fst (use_coupon_by_ids [1] ''xd4'' ?k) = Inr ()" by code_simp
  then obtain k where run: "use_coupon_by_ids [1] ''xd4'' ?k = (Inr (), k)" by (cases "use_coupon_by_ids [1] ''xd4'' ?k") simp
  from coupons_pay_once [OF run, THEN conjunct2, THEN conjunct2, THEN conjunct2]
  have "isl (fst (use_coupon_by_ids [1] ''xd5'' k))" by simp
  with run show ?thesis by simp
qed

end
