(* ===== verification/Trades.thy ===== *)
theory Trades
  imports Orders Coin Coupons
begin

unbundle bit_operations_syntax

text \<open>
  Trades (\<open>SaleTrade\<close>, \<open>src/flashsale/pay/models/trade.py\<close>) and team buys
  (\<open>TeamBuy\<close>, \<open>src/flashsale/pay/models/teambuy.py\<close>). Paying or closing a trade moves the
  buyer's wallet, the seller's coins and the coupons besides the shop's tables, so the state here holds
  them all. The queued task \<open>packing_skus\<close> is \<open>batch_merge\<close> of \<open>Packing\<close>. Of the receivers of
  the signal that a trade was paid, the one that notes the customer's first payment is modelled; they run
  with \<open>send_robust\<close>, so an error in them goes no further.
\<close>

section \<open>The tables together\<close>

datatype team_status = TB_OPEN | TB_SUCCESS | TB_FAILED

record team_buy =
  tb_id :: pk_id
  tb_creator :: pk_id
  tb_sku_id :: pk_id
  tb_share_xlmm_id :: "pk_id option"
  tb_limit_time :: time
  tb_limit_days :: int
  tb_limit_person_num :: int
  tb_status :: team_status

record team_detail =
  tbd_id :: pk_id
  tbd_teambuy :: pk_id
  tbd_tid :: string
  tbd_oid :: string
  tbd_customer :: pk_id
  tbd_originizer :: bool

record mall_db =
  ml_shop :: shop_db
  ml_wallet :: wallet_db
  ml_coins :: coin_db
  ml_coupons :: coupon_db
  ml_teambuys :: "team_buy table"
  ml_team_details :: "team_detail table"

definition do_shop :: "(shop_db, 'a) prog \<Rightarrow> (mall_db, 'a) prog" where
  "do_shop = zoom ml_shop (\<lambda>x. ml_shop_update (\<lambda>_. x))"
definition do_wallet :: "(wallet_db, 'a) prog \<Rightarrow> (mall_db, 'a) prog" where
  "do_wallet = zoom ml_wallet (\<lambda>x. ml_wallet_update (\<lambda>_. x))"
definition do_coins :: "(coin_db, 'a) prog \<Rightarrow> (mall_db, 'a) prog" where
  "do_coins = zoom ml_coins (\<lambda>x. ml_coins_update (\<lambda>_. x))"
definition do_coupons :: "(coupon_db, 'a) prog \<Rightarrow> (mall_db, 'a) prog" where
  "do_coupons = zoom ml_coupons (\<lambda>x. ml_coupons_update (\<lambda>_. x))"

interpretation teambuy_table: orm_table tb_id "\<lambda>i. tb_id_update (\<lambda>_. i)" by unfold_locales simp

definition customer_of :: "pk_id \<Rightarrow> mall_db \<Rightarrow> customer option" where
  "customer_of i m = q_first (filter (\<lambda>c. cu_id c = i) (w_customers (ml_wallet m)))"

section \<open>What a trade reads\<close>

definition order_num :: "sale_trade \<Rightarrow> shop_db \<Rightarrow> int" where
  "order_num t s = sum_list (map so_num (orders_of (st_id t) s))"

definition budget_payment :: "sale_trade \<Rightarrow> cents" where
  "budget_payment t = (if st_has_budget_paid t then py_round (st_budget_paid t * 100) else 0)"

definition coin_payment :: "sale_trade \<Rightarrow> cents" where
  "coin_payment t = (if st_has_coin_paid t then py_round (st_coin_paid t * 100) else 0)"

definition get_cash_payment :: "sale_trade \<Rightarrow> cents" where
  "get_cash_payment t = py_round (st_pay_cash t * 100)"

definition trade_can_refund :: "sale_trade \<Rightarrow> bool" where
  "trade_can_refund t \<longleftrightarrow> st_order_type t = SALE_ORDER \<and> st_status t = WAIT_SELLER_SEND_GOODS"

definition trade_is_paid :: "sale_trade \<Rightarrow> bool" where
  "trade_is_paid t \<longleftrightarrow> st_pay_time t \<noteq> None
     \<and> st_status t \<notin> {TRADE_CLOSED, TRADE_NO_CREATE_PAY, WAIT_BUYER_PAY}"

definition is_paid_via_app :: "sale_trade \<Rightarrow> bool" where
  "is_paid_via_app t \<longleftrightarrow> st_channel t \<in> {CH_WX, CH_ALIPAY, CH_BUDGET}"

definition is_effect :: "sale_trade \<Rightarrow> bool" where
  "is_effect t \<longleftrightarrow> st_status t \<in> {WAIT_SELLER_SEND_GOODS, WAIT_BUYER_CONFIRM_GOODS, TRADE_BUYER_SIGNED,
     TRADE_FINISHED}"

definition TIME_FOR_PAYMENT :: int where
  "TIME_FOR_PAYMENT = 25 * 60"

text \<open>\<open>abs(now - created).seconds\<close> is the part of the difference below a day.\<close>

definition is_payable :: "sale_trade \<Rightarrow> time \<Rightarrow> bool" where
  "is_payable t time \<longleftrightarrow> st_status t = WAIT_BUYER_PAY \<and> \<bar>time - st_created t\<bar> mod 86400 < TIME_FOR_PAYMENT"

definition trade_is_closed :: "sale_trade \<Rightarrow> bool" where
  "trade_is_closed t \<longleftrightarrow> st_status t = TRADE_CLOSED_BY_SYS"

definition trade_is_refunded :: "sale_trade \<Rightarrow> bool" where
  "trade_is_refunded t \<longleftrightarrow> st_status t = TRADE_CLOSED"

definition is_Deposite_Order :: "sale_trade \<Rightarrow> shop_db \<Rightarrow> bool" where
  "is_Deposite_Order t s \<longleftrightarrow> list_ex (\<lambda>so. starts_with ''RMB'' (so_outer_id so)) (orders_of (st_id t) s)"

definition is_wallet_paid :: "sale_trade \<Rightarrow> bool" where
  "is_wallet_paid t \<longleftrightarrow> st_channel t = CH_WALLET"

definition is_budget_paid :: "sale_trade \<Rightarrow> bool" where
  "is_budget_paid t \<longleftrightarrow> st_channel t = CH_BUDGET \<or> st_has_budget_paid t"

definition unsign_orders :: "sale_trade \<Rightarrow> shop_db \<Rightarrow> sale_order list" where
  "unsign_orders t s = filter (\<lambda>so. so_status so \<in>
     {WAIT_SELLER_SEND_GOODS, WAIT_BUYER_CONFIRM_GOODS, TRADE_BUYER_SIGNED}) (orders_of (st_id t) s)"

text \<open>\<open>can_change_address\<close>: every error while the products are looked up means no.\<close>

fun third_party_booked :: "sale_order list \<Rightarrow> shop_db \<Rightarrow> py_error + bool" where
  "third_party_booked [] s = Inr False"
| "third_party_booked (so # sos) s =
     (case order_product so s of
        Inl e \<Rightarrow> Inl e
      | Inr p \<Rightarrow>
          if prod_ware_by p = WARE_THIRD
            \<and> (case package_sku so s of None \<Rightarrow> False | Some q \<Rightarrow> psi_is_booked q) then Inr True
          else third_party_booked sos s)"

definition can_change_address :: "sale_trade \<Rightarrow> shop_db \<Rightarrow> py_error + bool" where
  "can_change_address t s =
     (if list_ex (\<lambda>so. case q_get (\<lambda>p. prod_id p = so_item_id so) (d_products s) of
           Inl e \<Rightarrow> True
         | Inr p \<Rightarrow> (case get_product_model p of None \<Rightarrow> False | Some mp \<Rightarrow> mp_source_type mp \<ge> 2))
         (normal_orders (st_id t) s)
      then Inr False
      else if st_status t \<noteq> WAIT_SELLER_SEND_GOODS then Inr False
      else if st_order_type t \<in> {TEAMBUY_ORDER, SALE_ORDER}
        then map_sum id Not (third_party_booked (orders_of (st_id t) s) s)
      else Inr True)"

text \<open>\<open>get_logistics_by_orders\<close> joins the warehouse codes of the orders with a bitwise and.\<close>

fun ware_and :: "nat option \<Rightarrow> nat list \<Rightarrow> nat option" where
  "ware_and w [] = w"
| "ware_and None (c # cs) = ware_and (Some c) cs"
| "ware_and (Some w) (c # cs) = ware_and (Some (w AND c)) cs"

definition get_logistics_by_orders :: "sale_trade \<Rightarrow> shop_db \<Rightarrow> nat" where
  "get_logistics_by_orders t s =
     (case ware_and None (map (ware_code \<circ> prod_ware_by)
        (List.map_filter (\<lambda>so. item_product so s) (orders_of (st_id t) s))) of
        None \<Rightarrow> ware_code WARE_NONE
      | Some w \<Rightarrow> w)"

definition package_orders :: "sale_trade \<Rightarrow> shop_db \<Rightarrow> package_order list" where
  "package_orders t s = remdups (List.map_filter (\<lambda>so. order_package so s) (orders_of (st_id t) s))"

section \<open>Team buys\<close>

definition members_of :: "pk_id \<Rightarrow> mall_db \<Rightarrow> team_detail list" where
  "members_of i m = filter (\<lambda>d. tbd_teambuy d = i) (ml_team_details m)"

text \<open>\<open>teambuy_can_send\<close>: a sent-again order has the number of its first order before the
  dash.\<close>

definition teambuy_can_send :: "sale_order \<Rightarrow> mall_db \<Rightarrow> py_error + bool" where
  "teambuy_can_send so m =
     (case q_get (\<lambda>d. tbd_oid d = hd (split_on CHR ''-'' (so_oid so))) (ml_team_details m) of
        Inl e \<Rightarrow> Inl e
      | Inr d \<Rightarrow> map_sum id (\<lambda>t. tb_status t = TB_SUCCESS) (q_get (\<lambda>t. tb_id t = tbd_teambuy d) (ml_teambuys m)))"

definition need_send :: "sale_order \<Rightarrow> mall_db \<Rightarrow> py_error + bool" where
  "need_send so m =
     (case is_teambuy so (ml_shop m) of
        Inl e \<Rightarrow> Inl e
      | Inr True \<Rightarrow> teambuy_can_send so m
      | Inr False \<Rightarrow> Inr (so_status so = WAIT_SELLER_SEND_GOODS \<and> so_refund_status so \<le> REFUND_REFUSE_BUYER))"

text \<open>\<open>set_psi_paid\<close>: a paid order gets its item, once.\<close>

definition set_psi_paid :: "sale_order \<Rightarrow> (mall_db, unit) prog" where
  "set_psi_paid so =
     bindE (liftE (\<lambda>m. get_trade (so_sale_trade so) (ml_shop m))) (\<lambda>t.
     if st_order_type t \<in> {RESERVE_ORDER, DEPOSITE_ORDER, ELECTRONIC_GOODS_ORDER} then ret ()
     else
       bindE (if st_order_type t = TEAMBUY_ORDER then liftE (teambuy_can_send so) else ret True) (\<lambda>can.
       if \<not> can then ret ()
       else
         bindE (asks (\<lambda>m. q_exists (\<lambda>p. psi_sale_order_id p = Some (so_id so)) (d_psis (ml_shop m)))) (\<lambda>found.
         if found then ret () else bindE (do_shop (psi_create so)) (\<lambda>_. ret ()))))"

text \<open>
  \<open>task_saleorder_update_package_sku_item\<close> (\<open>src/flashsale/pay/tasks.py\<close>) makes the items of
  a team buy. Among the columns it copies from the order is \<open>status\<close>, so the item gets the code
  of the order's state, which is no state of an item (\<open>PSI_TRADE_STATUS\<close>).
\<close>

definition item_by_task :: "sale_order \<Rightarrow> time \<Rightarrow> product_sku \<Rightarrow> product \<Rightarrow> sale_trade \<Rightarrow> bool \<Rightarrow> psi" where
  "item_by_task so pay_time k prd t can = new_psi\<lparr>psi_sale_order_id := Some (so_id so),
     psi_ware_by := prod_ware_by prd, psi_num := so_num so, psi_oid := Some (so_oid so),
     psi_title := so_title so, psi_price := so_price so, psi_sku_id := so_sku_id so,
     psi_total_fee := so_total_fee so, psi_payment := so_payment so,
     psi_discount_fee := so_discount_fee so, psi_refund_status := so_refund_status so,
     psi_pay_time := pay_time, psi_status := PSI_TRADE_STATUS (so_status so), psi_pic_path := so_pic_path so,
     psi_outer_sku_id := ps_outer_id k, psi_outer_id := prod_outer_id prd,
     psi_receiver_mobile := st_receiver_mobile t, psi_sale_trade_id := Some (st_tid t),
     psi_sku_properties_name := so_sku_name so,
     psi_assign_status := (if can then ASSIGNED else NOT_ASSIGNED)\<rparr>"

definition new_item_by_task :: "sale_order \<Rightarrow> (shop_db, unit) prog" where
  "new_item_by_task so =
     bindE (liftE (get_sku (so_sku_id so))) (\<lambda>k.
     bindE (liftE (sku_product k)) (\<lambda>prd.
     bindE (liftE (get_trade (so_sale_trade so))) (\<lambda>t.
     bindE (get_by_sku (so_sku_id so)) (\<lambda>stat.
     case so_pay_time so of
       None \<Rightarrow> raise IntegrityError
     | Some pay_time \<Rightarrow>
         bindE (save_psi (item_by_task so pay_time k prd t (can_assign stat (so_num so)))) (\<lambda>_. ret ())))))"

definition update_item_by_task :: "sale_order \<Rightarrow> psi \<Rightarrow> (mall_db, unit) prog" where
  "update_item_by_task so p =
     (if psi_is_finished p then ret ()
      else if order_is_canceled so \<or> order_is_confirmed so then
        whenE (psi_assign_status p \<noteq> CANCELED)
          (do_shop (bindE (set_assign_status_time (p\<lparr>psi_assign_status := CANCELED\<rparr>)) (\<lambda>p.
             bindE (save_psi p) (\<lambda>_. ret ()))))
      else
        bindE (liftE (need_send so)) (\<lambda>b.
        whenE (b \<and> psi_assign_status p = CANCELED)
          (do_shop (bindE (clear_order_info (p\<lparr>psi_assign_status := NOT_ASSIGNED\<rparr>)) (\<lambda>_. ret ())))))"

definition task_saleorder_update_package_sku_item :: "sale_order \<Rightarrow> (mall_db, unit) prog" where
  "task_saleorder_update_package_sku_item so = atomic (
     bindE (asks (\<lambda>m. package_sku so (ml_shop m))) (\<lambda>p.
     case p of
       Some p \<Rightarrow> update_item_by_task so p
     | None \<Rightarrow>
         bindE (liftE (need_send so)) (\<lambda>b. whenE b (do_shop (new_item_by_task so)))))"

definition trigger_saleorder :: "team_buy \<Rightarrow> (mall_db, unit) prog" where
  "trigger_saleorder tb =
     bindE (asks (\<lambda>m. filter (\<lambda>so. so_oid so \<in> tbd_oid ` set (members_of (tb_id tb) m)) (d_orders (ml_shop m)))) (\<lambda>sos.
     forE task_saleorder_update_package_sku_item sos)"

definition write_team :: "team_buy \<Rightarrow> (mall_db, unit) prog" where
  "write_team tb = modify (\<lambda>m. m\<lparr>ml_teambuys := tbl_save tb_id tb (ml_teambuys m)\<rparr>)"

text \<open>Saving a team that is not open triggers no check, so success is saved and its orders get their
  items; the push message is queued.\<close>

definition set_status_success :: "team_buy \<Rightarrow> (mall_db, team_buy) prog" where
  "set_status_success tb =
     (let tb = tb\<lparr>tb_status := TB_SUCCESS\<rparr> in
      thenE (write_team tb) (thenE (trigger_saleorder tb) (ret tb)))"

definition check_finish_teambuy :: "team_buy \<Rightarrow> (mall_db, team_buy) prog" where
  "check_finish_teambuy tb =
     bindE (asks (\<lambda>m. int (length (members_of (tb_id tb) m)) \<ge> tb_limit_person_num tb)) (\<lambda>full.
     if full then set_status_success tb else ret tb)"

text \<open>\<open>TeamBuy.save\<close> on a new team, with the receiver of \<open>post_save\<close> that checks an open team.\<close>

definition insert_team :: "team_buy \<Rightarrow> (mall_db, team_buy) prog" where
  "insert_team tb =
     bindE (asks (\<lambda>m. tb\<lparr>tb_id := fresh_pk tb_id (ml_teambuys m)\<rparr>)) (\<lambda>tb.
     thenE (modify (\<lambda>m. m\<lparr>ml_teambuys := ml_teambuys m @ [tb]\<rparr>))
     (if tb_status tb = TB_OPEN then check_finish_teambuy tb else ret tb))"

definition set_check :: "team_buy \<Rightarrow> (mall_db, team_buy) prog" where
  "set_check tb =
     bindE (asks (\<lambda>m. tb\<lparr>tb_status := (if int (length (members_of (tb_id tb) m)) \<ge> tb_limit_person_num tb
        then TB_SUCCESS else TB_FAILED)\<rparr>)) (\<lambda>tb.
     thenE (write_team tb) (ret tb))"

definition insert_team_detail :: "team_detail \<Rightarrow> (mall_db, unit) prog" where
  "insert_team_detail d = (\<lambda>m.
     if q_exists (\<lambda>x. tbd_tid x = tbd_tid d \<or> tbd_oid x = tbd_oid d) (ml_team_details m) then (Inl IntegrityError, m)
     else (Inr (), m\<lparr>ml_team_details :=
       ml_team_details m @ [d\<lparr>tbd_id := fresh_pk tbd_id (ml_team_details m)\<rparr>]\<rparr>))"

definition is_available :: "mama \<Rightarrow> bool" where
  "is_available m \<longleftrightarrow> ma_charged m \<and> ma_effect m \<and> ma_in_service m"

text \<open>\<open>create_or_join\<close>: a buyer joins the team the trade names unless it is full or has the buyer
  already, and otherwise opens a team, which the buyer's own seller or the seller of the link shares.\<close>

definition new_team :: "sale_trade \<Rightarrow> sale_order \<Rightarrow> (mall_db, team_buy) prog" where
  "new_team t so =
     bindE (liftE (\<lambda>m. q_get (\<lambda>p. prod_id p = so_item_id so) (d_products (ml_shop m)))) (\<lambda>p.
     case get_product_model p of
       None \<Rightarrow> raise AttributeError
     | Some mp \<Rightarrow>
         bindE (asks (customer_of (st_buyer_id t))) (\<lambda>cust.
         case cust of
           None \<Rightarrow> raise AttributeError
         | Some cust \<Rightarrow>
             bindE (asks (\<lambda>m. get_xiaolumm cust (ml_coupons m))) (\<lambda>xlmm.
             bindE (asks (\<lambda>m. d_now (ml_shop m))) (\<lambda>time.
             insert_team \<lparr>tb_id = 0, tb_creator = st_buyer_id t, tb_sku_id = so_sku_id so,
               tb_share_xlmm_id = (case xlmm of
                  Some x \<Rightarrow> if is_available x then Some (ma_id x) else st_mm_linkid t
                | None \<Rightarrow> st_mm_linkid t),
               tb_limit_time = time + 3600, tb_limit_days = 1,
               tb_limit_person_num = mp_teambuy_person_num mp, tb_status = TB_OPEN\<rparr>))))"

definition team_to_join :: "sale_trade \<Rightarrow> mall_db \<Rightarrow> py_error + team_buy option" where
  "team_to_join t m =
     (case st_teambuy_id t of
        None \<Rightarrow> Inr None
      | Some i \<Rightarrow> map_sum id (\<lambda>tb.
          if int (length (members_of (tb_id tb) m)) \<ge> tb_limit_person_num tb
            \<or> list_ex (\<lambda>d. tbd_customer d = st_buyer_id t) (members_of (tb_id tb) m)
          then None else Some tb) (q_get (\<lambda>tb. tb_id tb = i) (ml_teambuys m)))"

definition create_or_join :: "sale_trade \<Rightarrow> (mall_db, unit) prog" where
  "create_or_join t =
     bindE (asks (\<lambda>m. q_exists (\<lambda>d. tbd_tid d = st_tid t) (ml_team_details m))) (\<lambda>done.
     if done then ret ()
     else
       bindE (liftE (team_to_join t)) (\<lambda>join.
       bindE (asks (\<lambda>m. q_first (orders_of (st_id t) (ml_shop m)))) (\<lambda>so.
       case so of
         None \<Rightarrow> raise AttributeError
       | Some so \<Rightarrow>
           bindE (case join of Some tb \<Rightarrow> ret tb | None \<Rightarrow> new_team t so) (\<lambda>tb.
           thenE (insert_team_detail \<lparr>tbd_id = 0, tbd_teambuy = tb_id tb, tbd_tid = st_tid t,
             tbd_oid = so_oid so, tbd_customer = st_buyer_id t, tbd_originizer = (join = None)\<rparr>)
           (thenE (whenE (st_teambuy_id t \<noteq> Some (tb_id tb))
              (do_shop (save_trade (t\<lparr>st_teambuy_id := Some (tb_id tb)\<rparr>))))
           (bindE (check_finish_teambuy tb) (\<lambda>_. ret ()))))))) "

definition update_teambuy :: "sale_trade \<Rightarrow> (mall_db, unit) prog" where
  "update_teambuy t =
     whenE (st_order_type t = TEAMBUY_ORDER \<and> st_pay_time t \<noteq> None)
       (bindE (asks (\<lambda>m. q_exists (\<lambda>d. tbd_tid d = st_tid t) (ml_team_details m))) (\<lambda>done.
        if done then ret () else create_or_join t))"

section \<open>Paying\<close>

text \<open>\<open>set_coupon_2_use_by_trade_confirm\<close>: the coupons of the trade are used up, and transfer
  coupons are also recorded as consumed by the buyer's seller.\<close>

definition set_coupon_2_use_by_trade_confirm :: "sale_trade \<Rightarrow> (mall_db, unit) prog" where
  "set_coupon_2_use_by_trade_confirm t =
     (let ids = st_coupon_ids t in
      if ids = [] then ret ()
      else
        thenE (do_coupons (use_coupon_by_ids ids (st_tid t)))
        (bindE (asks (\<lambda>m. q_first (filter is_transfer_coupon (get_user_coupons_by_ids ids (ml_coupons m))))) (\<lambda>c.
         case c of
           None \<Rightarrow> ret ()
         | Some c \<Rightarrow>
             if uc_template_id c = 0 then ret ()
             else
               bindE (asks (customer_of (st_buyer_id t))) (\<lambda>cust.
               bindE (do_coupons (create_consume_record (int (length ids)) cust (st_tid t) (uc_template_id c))) (\<lambda>r.
               case r of
                 None \<Rightarrow> raise AttributeError
               | Some r \<Rightarrow> do_coupons (create_transfer_coupon_detail (tr_id r) ids))))))"

text \<open>\<open>confirm_payment\<close>: the receiver \<open>update_customer_first_paytime\<close>.\<close>

definition update_customer_first_paytime :: "sale_trade \<Rightarrow> (mall_db, unit) prog" where
  "update_customer_first_paytime t =
     bindE (liftE (\<lambda>m. get_customer (st_buyer_id t) (ml_wallet m))) (\<lambda>c.
     whenE (cu_first_paytime c = None)
       (do_wallet (modify (\<lambda>w. w\<lparr>w_customers := tbl_save cu_id (c\<lparr>cu_first_paytime := st_pay_time t\<rparr>) (w_customers w)\<rparr>))))"

definition confirm_payment :: "sale_trade \<Rightarrow> (mall_db, unit) prog" where
  "confirm_payment t =
     (if st_pay_time t = None then raise AttributeError
      else tryE (update_customer_first_paytime t) (\<lambda>_. ret ()))"

definition set_order_paid :: "sale_trade \<Rightarrow> (mall_db, unit) prog" where
  "set_order_paid t =
     thenE (if st_order_type t = SALE_ORDER
            then bindE (asks (\<lambda>m. orders_of (st_id t) (ml_shop m))) (forE set_psi_paid)
            else ret ())
     (update_teambuy t)"

text \<open>\<open>charge_confirm\<close>: the payment of a trade that still waits for it. The state, the wallet, the
  coupons and the orders change in one transaction; the items follow after it.\<close>

definition pay_one_order :: "time option \<Rightarrow> sale_order \<Rightarrow> (shop_db, unit) prog" where
  "pay_one_order pay_time so =
     bindE (set_status_paid so pay_time) (\<lambda>so.
     bindE (liftE (is_deposit so)) (\<lambda>d.
     whenE (d \<and> so_status so = WAIT_SELLER_SEND_GOODS)
       (save_order_fields so (\<lambda>x. x\<lparr>so_status := TRADE_FINISHED\<rparr>))))"

definition paid_trade :: "sale_trade \<Rightarrow> time option \<Rightarrow> string \<Rightarrow> time \<Rightarrow> sale_trade" where
  "paid_trade t charge_time charge time = t\<lparr>st_status := WAIT_SELLER_SEND_GOODS,
     st_pay_status := SALE_TRADE_PAY_FINISHED,
     st_pay_time := (case charge_time of None \<Rightarrow> Some time | Some x \<Rightarrow> Some x),
     st_charge := str_or charge (st_charge t)\<rparr>"

definition charge_confirm_block :: "pk_id \<Rightarrow> time option \<Rightarrow> string \<Rightarrow> (mall_db, bool) prog" where
  "charge_confirm_block i charge_time charge = atomic (
     bindE (liftE (\<lambda>m. get_trade i (ml_shop m))) (\<lambda>t.
     if st_status t \<noteq> WAIT_BUYER_PAY then ret False
     else
       bindE (do_shop now) (\<lambda>time.
       (let t = paid_trade t charge_time charge time in
        thenE (do_shop (save_trade_fields t (\<lambda>x. x\<lparr>st_status := st_status t, st_pay_status := st_pay_status t,
            st_pay_time := st_pay_time t, st_charge := st_charge t\<rparr>)))
        (thenE (whenE (st_has_budget_paid t)
            (bindE (liftE (\<lambda>m. get_budget (st_buyer_id t) (ml_wallet m))) (\<lambda>b.
             bindE (do_wallet (charge_confirm b (st_id t))) (\<lambda>_. ret ()))))
        (thenE (set_coupon_2_use_by_trade_confirm t)
        (bindE (asks (\<lambda>m. orders_of i (ml_shop m))) (\<lambda>sos.
         thenE (forE (\<lambda>so. do_shop (pay_one_order (st_pay_time t) so)) sos)
         (ret True)))))))))"

definition trade_charge_confirm :: "pk_id \<Rightarrow> time option \<Rightarrow> string \<Rightarrow> (mall_db, unit) prog" where
  "trade_charge_confirm i charge_time charge =
     bindE (charge_confirm_block i charge_time charge) (\<lambda>paid.
     if \<not> paid then ret ()
     else
       bindE (liftE (\<lambda>m. get_trade i (ml_shop m))) (\<lambda>t.
       thenE (confirm_payment t) (set_order_paid t)))"

definition pay_confirm :: "sale_trade \<Rightarrow> (mall_db, unit) prog" where
  "pay_confirm t =
     bindE (do_shop now) (\<lambda>time.
     (let t = t\<lparr>st_status := WAIT_SELLER_SEND_GOODS, st_pay_time := Some time\<rparr> in
      thenE (do_shop (save_trade t))
      (bindE (asks (\<lambda>m. orders_of (st_id t) (ml_shop m))) (\<lambda>sos.
       thenE (forE (\<lambda>so. do_shop (bindE (set_status_paid so (st_pay_time t)) (\<lambda>_. ret ()))) sos)
       (set_order_paid t)))))"

section \<open>Closing\<close>

definition release_coupon :: "sale_trade \<Rightarrow> (mall_db, unit) prog" where
  "release_coupon t = do_coupons (cancel_transfer_record_by_trade (st_tid t))"

text \<open>\<open>close_trade\<close>: the coins come back only when a log of the trade's consumption is found.\<close>

definition refund_coins :: "sale_trade \<Rightarrow> sale_trade \<Rightarrow> (mall_db, unit) prog" where
  "refund_coins self t =
     whenE (st_has_coin_paid t)
       (bindE (asks (\<lambda>m. map_option (\<lambda>c. getXiaolumm c (ml_coupons m)) (customer_of (st_buyer_id self) m))) (\<lambda>xlmm.
        case xlmm of
          Some (Some x) \<Rightarrow>
            bindE (asks (\<lambda>m. q_first (filter (\<lambda>c. xc_mama_id c = ma_id x) (k_coins (ml_coins m))))) (\<lambda>coin.
            bindE (asks (\<lambda>m. q_exists (\<lambda>l. xl_subject l = COIN_CONSUME \<and> xl_referal_id l = str_nat (st_id self))
               (k_logs (ml_coins m)))) (\<lambda>consumed.
            case coin of
              Some c \<Rightarrow> whenE consumed (do_coins (coin_refund c (coin_payment self) (str_nat (st_id self))))
            | None \<Rightarrow> ret ()))
        | _ \<Rightarrow> raise AttributeError))"

definition close_trade :: "sale_trade \<Rightarrow> (mall_db, unit) prog" where
  "close_trade self = atomic (
     bindE (liftE (\<lambda>m. get_trade (st_id self) (ml_shop m))) (\<lambda>t.
     if st_status t \<noteq> WAIT_BUYER_PAY then ret ()
     else
       (let t = t\<lparr>st_status := TRADE_CLOSED_BY_SYS\<rparr> in
        thenE (do_shop (save_trade t))
        (bindE (asks (\<lambda>m. normal_orders (st_id t) (ml_shop m))) (\<lambda>sos.
         thenE (forE (\<lambda>so. do_shop (close_order so)) sos)
         (thenE (whenE (st_has_budget_paid t)
            (bindE (liftE (\<lambda>m. get_budget (st_buyer_id t) (ml_wallet m))) (\<lambda>b.
             bindE (do_wallet (charge_cancel b (st_id t))) (\<lambda>_. ret ()))))
         (thenE (refund_coins self t)
         (release_coupon t))))))))"

section \<open>Signing\<close>

definition confirm_sign_trade :: "sale_trade \<Rightarrow> (shop_db, unit) prog" where
  "confirm_sign_trade t =
     bindE (liftE (get_trade (st_id t))) (\<lambda>_.
     bindE (asks (unsign_orders t)) (\<lambda>sos.
     thenE (forE confirm_sign_order sos)
     (save_trade (t\<lparr>st_status := TRADE_FINISHED\<rparr>))))"

text \<open>\<open>set_out_sid\<close>: the first waybill found among the sent packages of the trade.\<close>

fun waybill_of_orders :: "sale_order list \<Rightarrow> sale_trade \<Rightarrow> (shop_db, sale_trade) prog" where
  "waybill_of_orders [] t = ret t"
| "waybill_of_orders (so # sos) t =
     bindE (asks (\<lambda>s. q_first (filter (\<lambda>p. psi_sale_order_id p = Some (so_id so)
        \<and> psi_assign_status p = FINISHED \<and> psi_package_order_id p \<noteq> None) (d_psis s)))) (\<lambda>p.
     case p of
       None \<Rightarrow> waybill_of_orders sos t
     | Some p \<Rightarrow>
         bindE (liftE (package_of p)) (\<lambda>po.
         case po of
           None \<Rightarrow> raise AttributeError
         | Some po \<Rightarrow>
             if po_out_sid po \<noteq> '''' \<and> st_out_sid t = '''' then
               (let t = t\<lparr>st_out_sid := po_out_sid po, st_logistics_company := po_logistics_company po\<rparr>
                in thenE (save_trade t) (waybill_of_orders sos t))
             else waybill_of_orders sos t))"

definition trade_set_out_sid :: "sale_trade \<Rightarrow> string \<Rightarrow> int option \<Rightarrow> (shop_db, sale_trade) prog" where
  "trade_set_out_sid t out_sid company =
     (if st_out_sid t \<noteq> '''' then ret t
      else if out_sid \<noteq> '''' then
        (let t = t\<lparr>st_out_sid := out_sid, st_logistics_company := company\<rparr> in thenE (save_trade t) (ret t))
      else bindE (asks (orders_of (st_id t))) (\<lambda>sos. waybill_of_orders sos t))"

section \<open>Sending again and changing\<close>

text \<open>The order that replaces another: the object is reused without its key.\<close>

definition renew :: "sale_order \<Rightarrow> string \<Rightarrow> product_sku \<Rightarrow> product \<Rightarrow> int \<Rightarrow> sale_order" where
  "renew old oid k prd n = old\<lparr>so_id := 0, so_oid := oid, so_status := WAIT_SELLER_SEND_GOODS,
     so_sku_id := ps_id k, so_outer_id := prod_outer_id prd, so_outer_sku_id := ps_outer_id k,
     so_num := n, so_sku_name := ps_properties_alias k, so_title := prod_name prd,
     so_pic_path := prod_pic_path prd, so_refund_id := None, so_refund_fee := 0,
     so_refund_status := NO_REFUND\<rparr>"

definition before_dash :: "string \<Rightarrow> string" where
  "before_dash oid = hd (split_on CHR ''-'' oid)"

definition redeliver_oid :: "sale_trade \<Rightarrow> string \<Rightarrow> shop_db \<Rightarrow> string" where
  "redeliver_oid t oid s =
     (if CHR ''-'' \<in> set oid then
        before_dash oid @ ''-'' @ str_nat (length (filter (\<lambda>so. starts_with oid (so_oid so)) (orders_of (st_id t) s)))
      else oid @ ''-1'')"

text \<open>
  \<open>redeliver_sku_item\<close> closes the old order before it asks whether the order was paid, so the
  old item is never cancelled.
\<close>

definition redeliver_sku_item :: "sale_trade \<Rightarrow> sale_order \<Rightarrow> (mall_db, unit) prog" where
  "redeliver_sku_item t old =
     bindE (liftE (\<lambda>m. get_sku (so_sku_id old) (ml_shop m))) (\<lambda>k.
     bindE (do_shop (save_order (old\<lparr>so_status := TRADE_CLOSED_BY_SYS\<rparr>))) (\<lambda>old.
     thenE (whenE (so_status old = WAIT_SELLER_SEND_GOODS) (do_shop (order_set_psi_cancel old)))
     (bindE (asks (\<lambda>m. redeliver_oid t (so_oid old) (ml_shop m))) (\<lambda>oid.
      bindE (liftE (\<lambda>m. sku_product k (ml_shop m))) (\<lambda>prd.
      bindE (do_shop (save_order (renew old oid k prd (so_num old)))) (\<lambda>new.
      set_psi_paid new))))))"

definition change_sku_item :: "sale_trade \<Rightarrow> sale_order \<Rightarrow> pk_id \<Rightarrow> int \<Rightarrow> (mall_db, unit) prog" where
  "change_sku_item t old sku_id n =
     (if \<not> can_change_sku old then raise (Exn ''sent or refunded'')
      else
        bindE (liftE (\<lambda>m. get_sku sku_id (ml_shop m))) (\<lambda>k.
        bindE (do_shop (save_order (old\<lparr>so_status := TRADE_CLOSED_BY_SYS\<rparr>))) (\<lambda>old.
        thenE (do_shop (order_set_psi_cancel old))
        (bindE (asks (\<lambda>m. before_dash (so_oid old) @ ''-'' @ str_nat (length (orders_of (st_id t) (ml_shop m))))) (\<lambda>oid.
         bindE (liftE (\<lambda>m. sku_product k (ml_shop m))) (\<lambda>prd.
         bindE (do_shop (save_order (renew old oid k prd n))) (\<lambda>new.
         set_psi_paid new)))))))"

text \<open>\<open>reissue_order_by_incomplete_refund\<close>: what a partial refund leaves becomes an order of its
  own, at the rounded price of a piece.\<close>

definition per_piece :: "yuan \<Rightarrow> int \<Rightarrow> yuan" where
  "per_piece x n = py_fmt2 (x / of_int n)"

definition reissue_order_by_incomplete_refund :: "sale_trade \<Rightarrow> sale_order \<Rightarrow> int \<Rightarrow> (mall_db, unit) prog" where
  "reissue_order_by_incomplete_refund t old n =
     bindE (asks (\<lambda>m. before_dash (so_oid old) @ ''-'' @ str_nat (length (orders_of (st_id t) (ml_shop m))))) (\<lambda>oid.
     if so_num old = 0 then raise (Exn ''ZeroDivisionError'')
     else
       bindE (do_shop (save_order (old\<lparr>so_id := 0, so_oid := oid, so_status := WAIT_SELLER_SEND_GOODS,
          so_num := n, so_payment := per_piece (so_payment old) (so_num old) * of_int n,
          so_discount_fee := per_piece (so_discount_fee old) (so_num old) * of_int n,
          so_refund_id := None, so_refund_status := NO_REFUND, so_refund_fee := 0\<rparr>))) (\<lambda>new.
       set_psi_paid new))"

end
