(* ===== verification/Refunds.thy ===== *)
theory Refunds
  imports Trades
begin

text \<open>
  Refunds (\<open>SaleRefund\<close>, \<open>src/flashsale/pay/models/refund.py\<close>) with the functions of
  \<open>src/flashsale/pay/apis/v1/refund.py\<close>, the exchange of orders for coupons
  (\<open>src/flashsale/coupon/apis/v1/transfer.py\<close>) and the failing of a team buy. Saving a refund runs
  the receiver \<open>sync_sale_refund_status\<close> at once, with the values of the saved object. Refunds go
  to the wallet (\<open>is_fastrefund\<close> is always true). Messages to the buyer, the category statistics,
  the rebates of \<open>clickrebeta\<close> and the old \<open>MergeOrder\<close> are left out; the random refund number is
  an argument.
\<close>

section \<open>What a refund reads\<close>

definition refund_order :: "sale_refund \<Rightarrow> shop_db \<Rightarrow> sale_order option" where
  "refund_order r s = q_first (filter (\<lambda>so. so_id so = rf_order_id r) (d_orders s))"

definition refund_trade :: "sale_refund \<Rightarrow> shop_db \<Rightarrow> sale_trade option" where
  "refund_trade r s = q_first (filter (\<lambda>t. st_id t = rf_trade_id r) (d_trades s))"

definition refund_of_order :: "sale_order \<Rightarrow> shop_db \<Rightarrow> sale_refund option" where
  "refund_of_order so s =
     q_first (filter (\<lambda>r. rf_trade_id r = so_sale_trade so \<and> rf_order_id r = so_id so) (d_refunds s))"

definition refundproduct :: "sale_refund \<Rightarrow> shop_db \<Rightarrow> py_error + refund_product option" where
  "refundproduct r s =
     (case refund_trade r s of
        None \<Rightarrow> Inl AttributeError
      | Some t \<Rightarrow> Inr (q_first (filter (\<lambda>p. rp_trade_id p = st_tid t \<and> rp_sku_id p = rf_sku_id r)
          (d_refund_products s))))"

definition is_postrefund :: "sale_refund \<Rightarrow> bool" where
  "is_postrefund r \<longleftrightarrow> rf_good_status r \<in> {BUYER_RECEIVED, BUYER_RETURNED_GOODS}"

definition is_refundapproved :: "sale_refund \<Rightarrow> bool" where
  "is_refundapproved r \<longleftrightarrow> rf_status r \<in> {REFUND_APPROVE, REFUND_SUCCESS}"

definition is_returngoodsable :: "sale_refund \<Rightarrow> bool" where
  "is_returngoodsable r \<longleftrightarrow> rf_status r = REFUND_WAIT_SELLER_AGREE \<and> rf_good_status r = BUYER_RECEIVED"

definition is_modifiable :: "sale_refund \<Rightarrow> bool" where
  "is_modifiable r \<longleftrightarrow> rf_status r \<notin> {NO_REFUND, REFUND_SUCCESS, REFUND_CLOSED}"

section \<open>Saving\<close>

text \<open>\<open>sync_sale_refund_status\<close>: the order takes over the state of its refund. The trade is judged
  by the orders in the table, before this order is written.\<close>

definition synced_order :: "sale_refund \<Rightarrow> sale_order \<Rightarrow> sale_order \<Rightarrow> sale_order" where
  "synced_order r so x =
     (let x = (if rf_refund_num r = so_num so \<and> rf_status r = REFUND_SUCCESS then x\<lparr>so_status := TRADE_CLOSED\<rparr>
               else if rf_refund_num r = so_num so \<and> rf_status r = REFUND_CLOSED then x\<lparr>so_status := TRADE_FINISHED\<rparr>
               else x);
          x = x\<lparr>so_refund_status := rf_status r\<rparr>
      in if so_refund_id so \<in> {None, Some 0}
         then x\<lparr>so_refund_id := Some (rf_id r), so_refund_fee := rf_refund_fee r\<rparr> else x)"

definition trade_settled :: "trade_status \<Rightarrow> sale_trade \<Rightarrow> (shop_db, unit) prog" where
  "trade_settled st t =
     bindE (asks (orders_of (st_id t))) (\<lambda>sos.
     whenE (\<forall>so \<in> set sos. so_status so = st) (save_trade (t\<lparr>st_status := st\<rparr>)))"

definition sync_sale_refund_status :: "sale_refund \<Rightarrow> (shop_db, unit) prog" where
  "sync_sale_refund_status r =
     bindE (liftE (get_order (rf_order_id r))) (\<lambda>so.
     bindE (liftE (get_trade (rf_trade_id r))) (\<lambda>t.
     thenE (whenE (rf_status r = REFUND_SUCCESS) (trade_settled TRADE_CLOSED t))
     (thenE (whenE (rf_status r = REFUND_CLOSED) (trade_settled TRADE_FINISHED t))
     (save_order_fields so (synced_order r so)))))"

text \<open>The receiver \<open>handle_sale_refund_signal\<close> comes first and looks up the trade.\<close>

definition refund_saved :: "sale_refund \<Rightarrow> (shop_db, unit) prog" where
  "refund_saved r = bindE (liftE (get_trade (rf_trade_id r))) (\<lambda>_. sync_sale_refund_status r)"

definition insert_refund :: "sale_refund \<Rightarrow> (shop_db, sale_refund) prog" where
  "insert_refund r =
     bindE (\<lambda>s.
       if q_exists (\<lambda>q. rf_trade_id q = rf_trade_id r \<and> rf_order_id q = rf_order_id r
            \<or> rf_refund_no q = rf_refund_no r) (d_refunds s)
       then (Inl IntegrityError, s)
       else (let q = r\<lparr>rf_id := fresh_pk rf_id (d_refunds s)\<rparr> in (Inr q, s\<lparr>d_refunds := d_refunds s @ [q]\<rparr>)))
     (\<lambda>r. thenE (refund_saved r) (ret r))"

definition save_refund :: "sale_refund \<Rightarrow> (shop_db, unit) prog" where
  "save_refund r =
     thenE (modify (\<lambda>s. s\<lparr>d_refunds := tbl_save rf_id r (d_refunds s)\<rparr>)) (refund_saved r)"

text \<open>\<open>save(update_fields=...)\<close>: the receiver sees the whole object \<open>r\<close>.\<close>

definition save_refund_fields :: "sale_refund \<Rightarrow> (sale_refund \<Rightarrow> sale_refund) \<Rightarrow> (shop_db, unit) prog" where
  "save_refund_fields r f =
     thenE (\<lambda>s. if q_exists (\<lambda>q. rf_id q = rf_id r) (d_refunds s)
                then (Inr (), s\<lparr>d_refunds := q_update (\<lambda>q. rf_id q = rf_id r) f (d_refunds s)\<rparr>)
                else (Inl (Exn ''DatabaseError''), s))
     (refund_saved r)"

section \<open>Applying for a refund\<close>

definition create_salerefund ::
  "sale_order \<Rightarrow> int \<Rightarrow> yuan \<Rightarrow> string \<Rightarrow> good_status option \<Rightarrow> string \<Rightarrow> channel \<Rightarrow> string list \<Rightarrow>
   pk_id option \<Rightarrow> string \<Rightarrow> (shop_db, sale_refund) prog" where
  "create_salerefund so refund_num refund_fee reason good_status desc refund_channel proof_pic creator refund_no =
     bindE (liftE (get_trade (so_sale_trade so))) (\<lambda>t.
     (let good = (case good_status of None \<Rightarrow> SELLER_OUT_STOCK | Some g \<Rightarrow> g) in
      insert_refund \<lparr>rf_id = 0, rf_refund_no = refund_no, rf_trade_id = st_id t, rf_order_id = so_id so,
        rf_buyer_id = so_buyer_id so, rf_buyer_nick = st_buyer_nick t, rf_creator_id = creator,
        rf_mobile = st_receiver_mobile t, rf_phone = st_receiver_mobile t, rf_refund_id = '''',
        rf_charge = st_charge t, rf_channel = st_channel t, rf_refund_channel = refund_channel,
        rf_item_id = so_item_id so, rf_title = so_title so, rf_sku_id = so_sku_id so,
        rf_sku_name = so_sku_name so, rf_ware_by = WARE_NONE, rf_refund_num = refund_num,
        rf_total_fee = so_total_fee so, rf_payment = so_payment so, rf_refund_fee = refund_fee,
        rf_amount_flow = '''', rf_success_time = None, rf_company_name = '''', rf_sid = '''',
        rf_reason = reason, rf_proof_pic = proof_pic, rf_desc = desc, rf_feedback = '''',
        rf_has_good_return = (good \<in> {BUYER_RECEIVED, BUYER_RETURNED_GOODS}), rf_has_good_change = False,
        rf_is_lackrefund = False, rf_lackorder_id = None, rf_good_status = good,
        rf_status = REFUND_WAIT_SELLER_AGREE, rf_postage_num = 0, rf_coupon_num = 0\<rparr>))"

text \<open>\<open>SaleOrder.do_refund\<close>: a number or fee of 0 counts as not given.\<close>

definition do_refund ::
  "sale_order \<Rightarrow> channel \<Rightarrow> string \<Rightarrow> int \<Rightarrow> yuan \<Rightarrow> good_status option \<Rightarrow> string \<Rightarrow> string list \<Rightarrow> string \<Rightarrow>
   (shop_db, sale_refund) prog" where
  "do_refund so refund_channel reason refund_num refund_fee good_status desc proof_pic refund_no =
     bindE (case good_status of
              Some g \<Rightarrow> ret g
            | None \<Rightarrow>
                if so_status so \<in> {WAIT_BUYER_CONFIRM_GOODS, TRADE_BUYER_SIGNED} then ret BUYER_RECEIVED
                else if so_status so = WAIT_SELLER_SEND_GOODS then ret BUYER_NOT_RECEIVED
                else raise (Exn ''state of the order'')) (\<lambda>good.
     create_salerefund so (if refund_num = 0 then so_num so else refund_num)
       (if refund_fee = 0 then so_payment so else refund_fee) reason (Some good) desc refund_channel
       proof_pic None refund_no)"

text \<open>\<open>create_refund_order\<close>: one refund per order; an existing one is returned as it is. The
  extra columns the callers set (\<open>is_lackrefund\<close>, \<open>lackorder_id\<close>) are one argument. The task
  \<open>pushTradeRefundTask\<close> is queued.\<close>

definition create_refund_order ::
  "pk_id \<Rightarrow> string \<Rightarrow> int \<Rightarrow> yuan \<Rightarrow> channel \<Rightarrow> string \<Rightarrow> good_status option \<Rightarrow> string list \<Rightarrow> pk_id option \<Rightarrow> string \<Rightarrow>
   (shop_db, sale_refund) prog" where
  "create_refund_order order_id reason num refund_fee refund_channel desc good_status proof_pic lackorder refund_no =
     bindE (liftE (get_order order_id)) (\<lambda>so.
     bindE (liftE (get_trade (so_sale_trade so))) (\<lambda>_.
     bindE (asks (refund_of_order so)) (\<lambda>found.
     case found of
       Some r \<Rightarrow> ret r
     | None \<Rightarrow>
         bindE (do_refund so refund_channel reason num refund_fee good_status desc proof_pic refund_no) (\<lambda>r.
         (let r' = (case lackorder of None \<Rightarrow> r | Some i \<Rightarrow> r\<lparr>rf_is_lackrefund := True, rf_lackorder_id := Some i\<rparr>) in
          thenE (whenE (lackorder \<noteq> None) (save_refund_fields r' (\<lambda>q. q\<lparr>rf_is_lackrefund := rf_is_lackrefund r',
             rf_lackorder_id := rf_lackorder_id r'\<rparr>)))
          (thenE (whenE (so_refund_id so \<noteq> Some (rf_id r) \<or> so_refund_fee so \<noteq> refund_fee
                   \<or> so_refund_status so \<noteq> REFUND_WAIT_SELLER_AGREE)
             (save_order_fields so (\<lambda>x. x\<lparr>
                so_refund_id := (if so_refund_id so \<noteq> Some (rf_id r) then Some (rf_id r) else so_refund_id x),
                so_refund_fee := (if so_refund_fee so \<noteq> refund_fee then refund_fee else so_refund_fee x),
                so_refund_status := (if so_refund_status so \<noteq> REFUND_WAIT_SELLER_AGREE
                   then REFUND_WAIT_SELLER_AGREE else so_refund_status x)\<rparr>)))
          (ret r')))))))"

definition refund_refuse :: "sale_refund \<Rightarrow> string \<Rightarrow> (shop_db, bool) prog" where
  "refund_refuse r feedback =
     (if rf_status r \<in> {REFUND_WAIT_SELLER_AGREE, REFUND_WAIT_RETURN_GOODS, REFUND_CONFIRM_GOODS} then
        (let r = r\<lparr>rf_status := REFUND_REFUSE_BUYER, rf_feedback := str_or feedback (rf_feedback r)\<rparr> in
         thenE (save_refund_fields r (\<lambda>q. q\<lparr>rf_status := rf_status r, rf_feedback := rf_feedback r\<rparr>)) (ret True))
      else ret False)"

definition agree_return_goods :: "sale_refund \<Rightarrow> (shop_db, bool) prog" where
  "agree_return_goods r =
     (if is_returngoodsable r then
        (let r = r\<lparr>rf_status := REFUND_WAIT_RETURN_GOODS\<rparr> in
         thenE (save_refund_fields r (\<lambda>q. q\<lparr>rf_status := rf_status r\<rparr>)) (ret True))
      else ret False)"

definition update_good_status :: "sale_refund \<Rightarrow> bool \<Rightarrow> (shop_db, sale_refund) prog" where
  "update_good_status r post =
     (let r = (if post then r\<lparr>rf_good_status := (if rf_sid r = '''' then BUYER_RECEIVED else BUYER_RETURNED_GOODS)\<rparr>
               else r)
      in thenE (save_refund_fields r (\<lambda>q. q\<lparr>rf_good_status := rf_good_status r\<rparr>)) (ret r))"

definition refund_postage :: "sale_refund \<Rightarrow> cents \<Rightarrow> bool \<Rightarrow> (mall_db, bool) prog" where
  "refund_postage r postage_num im_execute =
     (let write = postage_num \<noteq> 0 \<and> postage_num \<noteq> rf_postage_num r;
          r = (if write then r\<lparr>rf_postage_num := postage_num\<rparr> else r)
      in thenE (whenE write (do_shop (save_refund_fields r (\<lambda>q. q\<lparr>rf_postage_num := postage_num\<rparr>))))
         (if \<not> im_execute then ret False
          else if 0 < rf_postage_num r \<and> rf_postage_num r \<le> 2000
            then bindE (do_wallet (create_salerefund_postage_log (rf_buyer_id r) (rf_id r) (rf_postage_num r))) (\<lambda>_. ret True)
          else ret False))"

section \<open>Orders exchanged for coupons\<close>

text \<open>
  \<open>coupon_exchange_saleorder\<close>: a seller turns a sent order and as many coupons into money in the
  wallet. The row of \<open>ExchangeSaleOrder\<close> is kept under the number of the order (\<open>oid\<close>).
\<close>

definition exchange_row :: "string \<Rightarrow> coupon_db \<Rightarrow> exchange_order option" where
  "exchange_row k s = q_first (filter (\<lambda>x. xo_order_oid x = k) (cp_exchanges s))"

definition insert_exchange :: "exchange_order \<Rightarrow> (coupon_db, unit) prog" where
  "insert_exchange x = (\<lambda>s.
     if q_exists (\<lambda>y. xo_uni_key y = xo_uni_key x) (cp_exchanges s) then (Inl IntegrityError, s)
     else (Inr (), s\<lparr>cp_exchanges := cp_exchanges s @ [x\<lparr>xo_id := fresh_pk xo_id (cp_exchanges s)\<rparr>]\<rparr>))"

definition write_exchange :: "exchange_order \<Rightarrow> (coupon_db, unit) prog" where
  "write_exchange x = modify (\<lambda>s. s\<lparr>cp_exchanges := tbl_save xo_id x (cp_exchanges s)\<rparr>)"

definition mark_exchanged :: "exchange_order option \<Rightarrow> string \<Rightarrow> (coupon_db, unit) prog" where
  "mark_exchanged x oid =
     (case x of
        None \<Rightarrow> insert_exchange \<lparr>xo_id = 0, xo_order_oid = oid, xo_has_exchanged = True,
          xo_can_exchange = True, xo_can_exchg_payment = 0, xo_uni_key = oid\<rparr>
      | Some x \<Rightarrow> write_exchange (x\<lparr>xo_has_exchanged := True\<rparr>))"

definition mark_unexchangeable :: "exchange_order option \<Rightarrow> string \<Rightarrow> (coupon_db, unit) prog" where
  "mark_unexchangeable x k =
     (case x of
        None \<Rightarrow> insert_exchange \<lparr>xo_id = 0, xo_order_oid = k, xo_has_exchanged = False,
          xo_can_exchange = False, xo_can_exchg_payment = 0, xo_uni_key = k\<rparr>
      | Some x \<Rightarrow> write_exchange (x\<lparr>xo_can_exchange := False\<rparr>))"

fun collect_coupons ::
  "customer \<Rightarrow> string \<Rightarrow> pk_id list \<Rightarrow> nat \<Rightarrow> pk_id list \<Rightarrow> (coupon_db, pk_id list) prog" where
  "collect_coupons cust oid [] left_num acc = ret acc"
| "collect_coupons cust oid (t # ts) left_num acc =
     bindE (asks (\<lambda>s. map uc_id (filter (\<lambda>c. uc_customer_id c = cu_id cust \<and> uc_template_id c = t
        \<and> uc_status c = UC_UNUSED) (cp_coupons s)))) (\<lambda>ids.
     if ids = [] then collect_coupons cust oid ts left_num acc
     else
       (let ids = take left_num ids in
        bindE (create_exchg_order_record cust (int (length ids)) oid t) (\<lambda>transfer.
        thenE (create_transfer_coupon_detail (tr_id transfer) ids)
        (if left_num \<le> length ids then ret (acc @ ids)
         else collect_coupons cust oid ts (left_num - length ids) (acc @ ids)))))"

definition coupon_exchange_saleorder ::
  "customer \<Rightarrow> string \<Rightarrow> pk_id list \<Rightarrow> nat \<Rightarrow> yuan \<Rightarrow> (mall_db, unit) prog" where
  "coupon_exchange_saleorder cust oid template_ids coupon_num exchg_payment =
     bindE (asks (\<lambda>m. exchange_row oid (ml_coupons m))) (\<lambda>x.
     bindE (asks (\<lambda>m. q_first (filter (\<lambda>so. so_oid so = oid) (d_orders (ml_shop m))))) (\<lambda>so.
     case so of
       None \<Rightarrow> raise (Exn ''ValidationError'')
     | Some so \<Rightarrow>
         if so_status so < WAIT_BUYER_CONFIRM_GOODS then raise (Exn ''ValidationError'')
         else if so_exchange so then raise (Exn ''ValidationError'')
         else atomic (
           thenE (do_coupons (mark_exchanged x oid))
           (thenE (do_shop (save_order_fields so (\<lambda>o'. o'\<lparr>so_exchange := so_exchange so,
              so_can_return_num := (case so_can_return_num so of None \<Rightarrow> Some (so_num so) | Some n \<Rightarrow> Some n)\<rparr>)))
           (bindE (do_coupons (collect_coupons cust oid template_ids coupon_num [])) (\<lambda>ids.
            thenE (if length ids = coupon_num then do_coupons (use_coupon_by_ids ids (so_oid so))
                   else raise (Exn ''ValidationError''))
            (let payment = (if exchg_payment \<noteq> 0 then exchg_payment
                 else case x of
                   Some x \<Rightarrow> if xo_can_exchg_payment x > 0 then of_int (xo_can_exchg_payment x div 100)
                     else so_price so * of_nat coupon_num
                 | None \<Rightarrow> so_price so * of_nat coupon_num)
             in bindE (do_wallet (budget_log_create (cu_id cust) BUDGET_IN (py_round (payment * 100))
                  BG_EXCHG_ORDER None (str_nat (so_id so)) (Some BL_CONFIRMED) (Some (so_oid so)))) (\<lambda>_. ret ()))))))))"

text \<open>
  \<open>saleorder_return_coupon_exchange\<close>: when an exchanged order is refunded the seller pays the
  money back and gets the coupons again, frozen while the wallet cannot cover it. The row of the exchange
  is looked up by the key of the order (\<open>order_id\<close>), under which no exchange is kept.
\<close>

definition returned_num :: "sale_order \<Rightarrow> int \<Rightarrow> int" where
  "returned_num so n = (case so_can_return_num so of None \<Rightarrow> so_num so | Some k \<Rightarrow> k) - n"

definition unuse_coupon :: "bool \<Rightarrow> user_coupon \<Rightarrow> (coupon_db, unit) prog" where
  "unuse_coupon poor c = modify (\<lambda>s. s\<lparr>cp_coupons := q_update (\<lambda>x. uc_uniq_id x = uc_uniq_id c)
     (\<lambda>x. if poor
        then x\<lparr>uc_status := UC_FREEZE, uc_trade_tid := Some '''', uc_finished_time := Some (cp_now s),
          uc_transfer_coupon_pk := uc_transfer_coupon_pk c, uc_chain := uc_chain c,
          uc_freeze_by := uc_freeze_by c, uc_freeze_type := True, uc_buy_type := uc_buy_type c\<rparr>
        else x\<lparr>uc_status := UC_UNUSED, uc_trade_tid := Some '''', uc_finished_time := Some (cp_now s)\<rparr>)
     (cp_coupons s)\<rparr>)"

definition undo_exchange ::
  "sale_refund \<Rightarrow> cents \<Rightarrow> sale_order \<Rightarrow> exchange_order option \<Rightarrow> customer \<Rightarrow> cents \<Rightarrow> bool \<Rightarrow> (mall_db, unit) prog" where
  "undo_exchange r payment so x cust exchg_payment poor = atomic (
     thenE (bindE (do_wallet (budget_log_create (cu_id cust) BUDGET_OUT exchg_payment BG_RETURN_EXCHG None
         (str_nat (rf_id r)) (Some BL_CONFIRMED) (Some (rf_refund_no r)))) (\<lambda>_. ret ()))
     (let rest = returned_num so (rf_refund_num r) in
      thenE (do_shop (modify (\<lambda>s. s\<lparr>d_orders := q_update (\<lambda>o'. so_id o' = rf_order_id r)
         (\<lambda>o'. o'\<lparr>so_exchange := so_exchange so, so_can_return_num := Some rest\<rparr>) (d_orders s)\<rparr>)))
      (thenE (whenE (rest = 0) (do_coupons (mark_unexchangeable x (str_nat (rf_order_id r)))))
      (if py_round (so_price so * 100) = 0 then raise (Exn ''ZeroDivisionError'')
       else
         (let n = nat (py_round (of_int payment / of_int (py_round (so_price so * 100)))) in
          bindE (asks (\<lambda>m. filter (\<lambda>c. uc_trade_tid c = Some (so_oid so) \<and> uc_status c = UC_USED)
             (cp_coupons (ml_coupons m)))) (\<lambda>coupons.
          thenE (forE (\<lambda>c. do_coupons (unuse_coupon poor c)) (take n coupons))
          (case coupons of
             [] \<Rightarrow> raise (Exn ''IndexError'')
           | c # _ \<Rightarrow>
               do_coupons (bindE (gen_cancel_exchg_record cust (int n) (uc_template_id c) (so_oid so)) (\<lambda>transfer.
                 create_transfer_coupon_detail (tr_id transfer) (map uc_id (take n coupons)))))))))))"

definition saleorder_return_coupon_exchange :: "sale_refund \<Rightarrow> cents \<Rightarrow> (mall_db, unit) prog" where
  "saleorder_return_coupon_exchange r payment =
     bindE (asks (\<lambda>m. exchange_row (str_nat (rf_order_id r)) (ml_coupons m))) (\<lambda>x.
     bindE (asks (\<lambda>m. refund_order r (ml_shop m))) (\<lambda>so.
     case so of
       None \<Rightarrow> ret ()
     | Some so \<Rightarrow>
         if \<not> (so_exchange so \<or> (case x of None \<Rightarrow> False | Some x \<Rightarrow> xo_has_exchanged x)) then
           thenE (do_coupons (mark_unexchangeable x (str_nat (rf_order_id r))))
           (do_shop (save_order_fields so (\<lambda>o'. o'\<lparr>so_exchange := so_exchange so,
              so_can_return_num := Some (returned_num so (rf_refund_num r))\<rparr>)))
         else
           bindE (asks (\<lambda>m. q_first (filter (\<lambda>t. tr_type t = OUT_EXCHG_SALEORDER \<and> tr_uni_key t = so_oid so
              \<and> tr_transfer_status t = TR_DELIVERED) (cp_records (ml_coupons m))))) (\<lambda>cts.
           case cts of
             None \<Rightarrow> ret ()
           | Some cts \<Rightarrow>
               bindE (asks (\<lambda>m. Option.bind (q_first (filter (\<lambda>x. ma_id x = tr_from_mama_id cts) (cp_mamas (ml_coupons m))))
                  (\<lambda>mm. q_last (filter (\<lambda>c. cu_unionid c = ma_openid mm \<and> cu_status c = NORMAL)
                     (w_customers (ml_wallet m)))))) (\<lambda>cust.
               case cust of
                 None \<Rightarrow> raise AttributeError
               | Some cust \<Rightarrow>
                   bindE (asks (\<lambda>m. q_first (filter (\<lambda>l. bl_customer_id l = cu_id cust \<and> bl_budget_type l = BUDGET_IN
                      \<and> bl_log_type l = BG_EXCHG_ORDER \<and> bl_uni_key l = Some (so_oid so)) (w_logs (ml_wallet m))))) (\<lambda>l.
                   bindE (asks (\<lambda>m. case q_first (filter (\<lambda>b. ub_user b = cu_id cust) (w_budgets (ml_wallet m))) of
                      None \<Rightarrow> False | Some b \<Rightarrow> ub_amount b < payment)) (\<lambda>poor.
                   undo_exchange r payment so x cust (case l of None \<Rightarrow> payment | Some l \<Rightarrow> bl_flow_amount l) poor))))))"

section \<open>Paying a refund\<close>

text \<open>\<open>roll_back_usercoupon\<close>: whether the coupons of the trade are to be returned; the task that
  does it (\<open>task_return_user_coupon_by_trade\<close>) is queued.\<close>

definition roll_back_usercoupon :: "sale_refund \<Rightarrow> shop_db \<Rightarrow> py_error + (string \<times> int) option" where
  "roll_back_usercoupon r s =
     (if rf_status r \<noteq> REFUND_SUCCESS then Inr None
      else
        (case refund_trade r s of
           None \<Rightarrow> Inl AttributeError
         | Some t \<Rightarrow>
             Inr (if st_payment t = sum_list (map rf_refund_fee (filter (\<lambda>q. rf_trade_id q = rf_trade_id r
                  \<and> rf_status q = REFUND_SUCCESS) (d_refunds s)))
                then Some (st_tid t, rf_refund_num r) else None)))"

definition refund_confirm :: "sale_refund \<Rightarrow> (mall_db, unit) prog" where
  "refund_confirm r =
     bindE (liftE (\<lambda>m. q_get (\<lambda>q. rf_id q = rf_id r) (d_refunds (ml_shop m)))) (\<lambda>stored.
     if rf_status stored = REFUND_SUCCESS then ret ()
     else
       bindE (do_shop now) (\<lambda>time.
       (let r = r\<lparr>rf_success_time := Some time, rf_status := REFUND_SUCCESS\<rparr> in
        thenE (do_shop (save_refund r))
        (bindE (liftE (\<lambda>m. get_order (rf_order_id r) (ml_shop m))) (\<lambda>so.
         bindE (liftE (\<lambda>m. get_trade (so_sale_trade so) (ml_shop m))) (\<lambda>t.
         thenE (whenE (so_status so = WAIT_SELLER_SEND_GOODS \<and> so_num so - rf_refund_num r > 0)
            (reissue_order_by_incomplete_refund t so (so_num so - rf_refund_num r)))
         (let st = (if so_status so \<in> {WAIT_SELLER_SEND_GOODS, WAIT_BUYER_CONFIRM_GOODS, TRADE_BUYER_SIGNED}
                    then TRADE_CLOSED else so_status so) in
          thenE (do_shop (save_order_fields so (\<lambda>x. x\<lparr>so_status := st\<rparr>)))
          (bindE (asks (\<lambda>m. normal_orders (st_id t) (ml_shop m))) (\<lambda>live.
           thenE (whenE (live = []) (do_shop (save_trade_fields t (\<lambda>x. x\<lparr>st_status := TRADE_CLOSED\<rparr>))))
           (bindE (liftE (\<lambda>m. roll_back_usercoupon r (ml_shop m))) (\<lambda>_.
            whenE (rf_good_status r \<in> {BUYER_NOT_RECEIVED, SELLER_OUT_STOCK}) (do_shop (order_set_psi_cancel so)))))))))))))"

definition refund_paid :: "sale_refund \<Rightarrow> wallet_db \<Rightarrow> cents" where
  "refund_paid r w = q_sum bl_flow_amount (\<lambda>l. bl_customer_id l = rf_buyer_id r
     \<and> bl_referal_id l = str_nat (rf_id r) \<and> bl_log_type l = BG_REFUND) (w_logs w)"

definition pay_refund :: "sale_refund \<Rightarrow> sale_order \<Rightarrow> cents \<Rightarrow> (mall_db, unit) prog" where
  "pay_refund r so payment = atomic (
     bindE (asks (\<lambda>m. is_post so (ml_shop m))) (\<lambda>post.
     bindE (do_shop (update_good_status r post)) (\<lambda>r.
     thenE (whenE (payment > 0)
        (bindE (do_wallet (create_salerefund_log (rf_buyer_id r) (rf_id r) payment)) (\<lambda>_. ret ())))
     (refund_confirm r))))"

definition refund_payment_2_budget :: "sale_refund \<Rightarrow> (mall_db, unit) prog" where
  "refund_payment_2_budget r =
     bindE (asks (\<lambda>m. refund_order r (ml_shop m))) (\<lambda>so.
     bindE (asks (\<lambda>m. refund_paid r (ml_wallet m))) (\<lambda>paid.
     case so of
       None \<Rightarrow> raise AttributeError
     | Some so \<Rightarrow>
         (let payment = py_round (rf_refund_fee r * 100) in
          if paid + payment > py_round (so_payment so * 100) then raise (Exn ''more than was paid'')
          else
            thenE (pay_refund r so payment)
            (saleorder_return_coupon_exchange r payment))))"

definition refund_fast_approve :: "sale_refund \<Rightarrow> (mall_db, unit) prog" where
  "refund_fast_approve r =
     bindE (asks (\<lambda>m. refund_order r (ml_shop m))) (\<lambda>so.
     case so of
       None \<Rightarrow> raise AttributeError
     | Some so \<Rightarrow>
         bindE (asks (\<lambda>m. is_post so (ml_shop m))) (\<lambda>post.
         thenE (if post then bindE (liftE (\<lambda>m. refundproduct r (ml_shop m))) (\<lambda>p.
                  if p = None then raise (Exn ''goods have not arrived'') else ret ())
                else ret ())
         (refund_payment_2_budget r)))"

definition refund_approve :: "sale_refund \<Rightarrow> (mall_db, unit) prog" where
  "refund_approve r = refund_fast_approve r"

text \<open>\<open>pushTradeRefundTask\<close>: a refund before dispatch is paid at once unless the item is already
  ordered from the supplier.\<close>

definition pushTradeRefundTask :: "pk_id \<Rightarrow> (mall_db, unit) prog" where
  "pushTradeRefundTask refund_id =
     bindE (liftE (\<lambda>m. q_get (\<lambda>q. rf_id q = refund_id) (d_refunds (ml_shop m)))) (\<lambda>r.
     bindE (liftE (\<lambda>m. get_order (rf_order_id r) (ml_shop m))) (\<lambda>so.
     whenE (\<not> is_postrefund r)
       (bindE (asks (\<lambda>m. get_by_oid (so_oid so) (ml_shop m))) (\<lambda>p.
        whenE (\<not> (case p of None \<Rightarrow> False | Some p \<Rightarrow> psi_is_booked p)) (refund_approve r)))))"

section \<open>Failing team buys\<close>

text \<open>\<open>set_status_failed\<close>: every member is refunded; \<open>refund_no\<close> gives the refund numbers, by the key of the member. The item
  rows are marked as cancelled with an update, past the operations of an item.\<close>

fun refund_members :: "(nat \<Rightarrow> string) \<Rightarrow> team_detail list \<Rightarrow> (mall_db, unit) prog" where
  "refund_members refund_no [] = ret ()"
| "refund_members refund_no (d # ds) =
     bindE (asks (\<lambda>m. q_first (filter (\<lambda>so. so_oid so = tbd_oid d) (d_orders (ml_shop m))))) (\<lambda>so.
     case so of
       None \<Rightarrow> raise AttributeError
     | Some so \<Rightarrow>
         bindE (do_shop (do_refund so CH_BUDGET ''other'' 0 0 None ''team failed'' [] (refund_no (tbd_id d)))) (\<lambda>r.
         thenE (whenE (\<not> is_postrefund r)
            (bindE (asks (\<lambda>m. get_by_oid (so_oid so) (ml_shop m))) (\<lambda>p.
             whenE (\<not> (case p of None \<Rightarrow> False | Some p \<Rightarrow> psi_is_booked p)) (refund_approve r))))
         (refund_members refund_no ds)))"

definition set_status_failed :: "(nat \<Rightarrow> string) \<Rightarrow> team_buy \<Rightarrow> (mall_db, team_buy) prog" where
  "set_status_failed refund_no tb =
     bindE (asks (members_of (tb_id tb))) (\<lambda>ds.
     thenE (refund_members refund_no ds)
     (thenE (do_shop (modify (\<lambda>s. s\<lparr>d_psis := q_update (\<lambda>p. psi_oid p \<in> Some ` tbd_oid ` set ds)
        (\<lambda>p. p\<lparr>psi_assign_status := CANCELED\<rparr>) (d_psis s)\<rparr>)))
     (if ds = [] then raise (Exn ''no orders'')
      else (let tb = tb\<lparr>tb_status := TB_FAILED\<rparr> in thenE (write_team tb) (ret tb)))))"

definition end_team :: "(nat \<Rightarrow> string) \<Rightarrow> team_buy \<Rightarrow> (mall_db, unit) prog" where
  "end_team refund_no tb =
     bindE (asks (\<lambda>m. int (length (members_of (tb_id tb) m)) \<ge> tb_limit_person_num tb)) (\<lambda>full.
     if full then bindE (set_status_success tb) (\<lambda>_. ret ())
     else bindE (set_status_failed refund_no tb) (\<lambda>_. ret ()))"

definition task_schedule_check_teambuy :: "(nat \<Rightarrow> string) \<Rightarrow> (mall_db, unit) prog" where
  "task_schedule_check_teambuy refund_no =
     bindE (asks (\<lambda>m. filter (\<lambda>tb. tb_limit_time tb < d_now (ml_shop m) \<and> tb_status tb = TB_OPEN) (ml_teambuys m))) (\<lambda>tbs.
     forE (end_team refund_no) tbs)"

definition end_teambuy :: "(nat \<Rightarrow> string) \<Rightarrow> pk_id \<Rightarrow> (mall_db, unit) prog" where
  "end_teambuy refund_no sku_id =
     bindE (asks (\<lambda>m. filter (\<lambda>tb. tb_sku_id tb = sku_id \<and> tb_status tb = TB_OPEN) (ml_teambuys m))) (\<lambda>tbs.
     forE (end_team refund_no) tbs)"

end
