(* ===== verification/Settlement.thy ===== *)
theory Settlement
  imports Refunds Warehouse
begin

text \<open>
  What happens to the money and the goods of a trade (\<open>Trades\<close>, \<open>Refunds\<close>): a trade that is
  closed gives the held money back and can no longer be paid, sending an order again ships the old item
  too, and what refunds pay.
\<close>

section \<open>Runs of the parts\<close>

lemma do_shop_run [run_ok]:
  "do_shop p m = (r, m') \<longleftrightarrow> (\<exists>s. p (ml_shop m) = (r, s) \<and> m' = m\<lparr>ml_shop := s\<rparr>)"
  by (auto simp: do_shop_def zoom_run split: prod.splits)

lemma do_wallet_run [run_ok]:
  "do_wallet p m = (r, m') \<longleftrightarrow> (\<exists>w. p (ml_wallet m) = (r, w) \<and> m' = m\<lparr>ml_wallet := w\<rparr>)"
  by (auto simp: do_wallet_def zoom_run split: prod.splits)

lemma do_coins_run [run_ok]:
  "do_coins p m = (r, m') \<longleftrightarrow> (\<exists>c. p (ml_coins m) = (r, c) \<and> m' = m\<lparr>ml_coins := c\<rparr>)"
  by (auto simp: do_coins_def zoom_run split: prod.splits)

lemma do_coupons_run [run_ok]:
  "do_coupons p m = (r, m') \<longleftrightarrow> (\<exists>c. p (ml_coupons m) = (r, c) \<and> m' = m\<lparr>ml_coupons := c\<rparr>)"
  by (auto simp: do_coupons_def zoom_run split: prod.splits)

lemma save_order_run:
  assumes "save_order so s = (Inr q, s')" and "so_id so \<noteq> 0"
  shows "\<exists>b. q = so\<lparr>so_buyer_id := b\<rparr> \<and> s' = s\<lparr>d_orders := tbl_save so_id q (d_orders s)\<rparr>"
proof (cases "so_buyer_id so = 0")
  case True
  with assms show ?thesis by (auto simp: save_order_def run_ok bindE_run split: sum.splits if_splits)
next
  case False
  with assms have "q = so" "s' = s\<lparr>d_orders := tbl_save so_id q (d_orders s)\<rparr>"
    by (auto simp: save_order_def bindE_run ret_run split: if_splits)
  then show ?thesis by (intro exI [of _ "so_buyer_id so"]) simp
qed

lemma save_new_order_run:
  assumes "save_order so s = (Inr q, s')" and "so_id so = 0"
  shows "\<exists>b. q = so\<lparr>so_buyer_id := b, so_id := fresh_pk so_id (d_orders s)\<rparr> \<and> s' = s\<lparr>d_orders := d_orders s @ [q]\<rparr>"
proof (cases "so_buyer_id so = 0")
  case True
  with assms show ?thesis
    by (auto simp: save_order_def run_ok bindE_run Let_def split: sum.splits if_splits)
next
  case False
  with assms have "q = so\<lparr>so_id := fresh_pk so_id (d_orders s)\<rparr>" "s' = s\<lparr>d_orders := d_orders s @ [q]\<rparr>"
    by (auto simp: save_order_def bindE_run ret_run Let_def split: if_splits)
  then show ?thesis by (intro exI [of _ "so_buyer_id so"]) simp
qed

section \<open>Examples\<close>

text \<open>The small shop of \<open>Examples\<close> with the funded wallet of \<open>Wallet\<close>, the seller and the
  coupon of \<open>Coupons\<close>.\<close>

definition example_mall :: mall_db where
  "example_mall = \<lparr>ml_shop = pack_shop, ml_wallet = example_funded, ml_coins = example_coins,
     ml_coupons = example_coupons, ml_teambuys = [], ml_team_details = []\<rparr>"

lemmas mall_defs = example_mall_def example_coupons_def pack_shop_defs

text \<open>A trade that waits for its payment and holds three yuan of the wallet.\<close>

definition unpaid_trade :: sale_trade where
  "unpaid_trade = example_trade\<lparr>st_buyer_id := 1, st_has_budget_paid := True, st_status := WAIT_BUYER_PAY\<rparr>"

definition unpaid_mall :: mall_db where
  "unpaid_mall = example_mall\<lparr>ml_shop := pack_shop\<lparr>d_trades := [unpaid_trade],
       d_orders := [example_order\<lparr>so_status := WAIT_BUYER_PAY\<rparr>]\<rparr>,
     ml_wallet := snd (charge_pending example_budget 4 300 example_funded)\<rparr>"

definition example_refund :: sale_refund where
  "example_refund = \<lparr>rf_id = 2, rf_refund_no = ''RF2'', rf_trade_id = 4, rf_order_id = 6, rf_buyer_id = 1,
     rf_buyer_nick = '''', rf_creator_id = None, rf_mobile = '''', rf_phone = '''', rf_refund_id = '''',
     rf_charge = '''', rf_channel = CH_WX, rf_refund_channel = CH_BUDGET, rf_item_id = 4, rf_title = '''',
     rf_sku_id = 8, rf_sku_name = '''', rf_ware_by = WARE_NONE, rf_refund_num = 1, rf_total_fee = 30,
     rf_payment = 30, rf_refund_fee = 10, rf_amount_flow = '''', rf_success_time = None,
     rf_company_name = '''', rf_sid = '''', rf_reason = '''', rf_proof_pic = [], rf_desc = '''',
     rf_feedback = '''', rf_has_good_return = False, rf_has_good_change = False, rf_is_lackrefund = False,
     rf_lackorder_id = None, rf_good_status = BUYER_NOT_RECEIVED, rf_status = REFUND_WAIT_SELLER_AGREE,
     rf_postage_num = 0, rf_coupon_num = 0\<rparr>"

definition refunding_mall :: mall_db where
  "refunding_mall = example_mall\<lparr>ml_shop := pack_shop\<lparr>d_refunds := [example_refund]\<rparr>\<rparr>"

definition sent_mall :: mall_db where
  "sent_mall = example_mall\<lparr>ml_shop := pack_shop\<lparr>d_orders := [example_order\<lparr>so_status := WAIT_BUYER_CONFIRM_GOODS\<rparr>]\<rparr>\<rparr>"

text \<open>A failed team of two with one member, whose order was closed by the refund, and the trade of a
  second buyer.\<close>

definition late_trade :: sale_trade where
  "late_trade = example_trade\<lparr>st_id := 14, st_tid := ''xd14'', st_buyer_id := 1, st_order_type := TEAMBUY_ORDER,
     st_teambuy_id := Some 2\<rparr>"

definition failed_team :: team_buy where
  "failed_team = \<lparr>tb_id = 2, tb_creator = 7, tb_sku_id = 8, tb_share_xlmm_id = None, tb_limit_time = 0,
     tb_limit_days = 1, tb_limit_person_num = 2, tb_status = TB_FAILED\<rparr>"

definition failed_mall :: mall_db where
  "failed_mall = example_mall\<lparr>ml_shop := pack_shop\<lparr>
       d_trades := [example_trade\<lparr>st_order_type := TEAMBUY_ORDER\<rparr>, late_trade],
       d_orders := [example_order\<lparr>so_status := TRADE_CLOSED, so_refund_status := REFUND_SUCCESS\<rparr>,
         example_order\<lparr>so_id := 16, so_oid := ''xo16'', so_sale_trade := 14, so_buyer_id := 1\<rparr>],
       d_psis := []\<rparr>,
     ml_teambuys := [failed_team],
     ml_team_details := [\<lparr>tbd_id = 1, tbd_teambuy = 2, tbd_tid = ''xd4'', tbd_oid = ''xo6'', tbd_customer = 7,
       tbd_originizer = True\<rparr>]\<rparr>"

section \<open>Closing a trade\<close>

lemma saved_or_other: "x \<in> set (tbl_save pk r t) \<Longrightarrow> x = r \<or> x \<in> set t \<and> pk x \<noteq> pk r"
  by (auto simp: tbl_save_def image_iff split: if_splits)

lemma tbl_save_keeps_pks: "pk ` set t \<subseteq> pk ` set (tbl_save pk r t)"
proof -
  have "set (map pk t) \<subseteq> set (map pk (tbl_save pk r t))" by (auto simp only: tbl_save_pks set_append split: if_splits)
  then show ?thesis by simp
qed

text \<open>The loop that closes the orders: afterwards a row is either closed or an old row that was not in
  the list.\<close>

lemma close_orders_run:
  assumes "forE (\<lambda>so. do_shop (close_order so)) sos m = (Inr (), m')"
    and "\<forall>so\<in>set sos. so_sale_trade so = i \<and> so_id so \<noteq> 0"
  shows "\<exists>os. m' = m\<lparr>ml_shop := (ml_shop m)\<lparr>d_orders := os\<rparr>\<rparr> \<and>
    (\<forall>x\<in>set os. so_sale_trade x = i \<and> so_status x = TRADE_CLOSED_BY_SYS
       \<or> x \<in> set (d_orders (ml_shop m)) \<and> so_id x \<notin> so_id ` set sos)"
  using assms
proof (induction sos arbitrary: m)
  case Nil
  then have "m' = m" by (simp add: run_ok)
  then show ?case by (intro exI [of _ "d_orders (ml_shop m)"]) simp
next
  case (Cons so sos)
  from Cons.prems(1) obtain q s where
    sv: "save_order (so\<lparr>so_status := TRADE_CLOSED_BY_SYS\<rparr>) (ml_shop m) = (Inr q, s)"
    and rest: "forE (\<lambda>so. do_shop (close_order so)) sos (m\<lparr>ml_shop := s\<rparr>) = (Inr (), m')"
    by (auto simp: close_order_def run_ok)
  from save_order_run [OF sv] Cons.prems(2) have q: "so_id q = so_id so" "so_sale_trade q = i"
    "so_status q = TRADE_CLOSED_BY_SYS" and s: "s = (ml_shop m)\<lparr>d_orders := tbl_save so_id q (d_orders (ml_shop m))\<rparr>"
    by auto
  from Cons.IH [OF rest] Cons.prems(2) obtain os where
    m': "m' = m\<lparr>ml_shop := (ml_shop m)\<lparr>d_orders := os\<rparr>\<rparr>"
    and os: "\<forall>x\<in>set os. so_sale_trade x = i \<and> so_status x = TRADE_CLOSED_BY_SYS
       \<or> x \<in> set (tbl_save so_id q (d_orders (ml_shop m))) \<and> so_id x \<notin> so_id ` set sos"
    by (auto simp: s)
  have "so_sale_trade x = i \<and> so_status x = TRADE_CLOSED_BY_SYS
       \<or> x \<in> set (d_orders (ml_shop m)) \<and> so_id x \<notin> so_id ` set (so # sos)" if "x \<in> set os" for x
    using os that q saved_or_other [of x so_id q "d_orders (ml_shop m)"] by auto
  with m' show ?case by blast
qed

lemma refund_coins_run:
  assumes "refund_coins self t m = (Inr (), m')"
  shows "\<exists>c. m' = m\<lparr>ml_coins := c\<rparr>"
proof -
  have "\<exists>c. m = m\<lparr>ml_coins := c\<rparr>" by (rule exI [of _ "ml_coins m"]) simp
  with assms show ?thesis
    by (auto simp: refund_coins_def run_ok split: option.splits if_splits)
qed

lemma charge_cancel_cong: "ub_user b = ub_user b' \<Longrightarrow> charge_cancel b i = charge_cancel b' i"
  by (simp add: charge_cancel_def)

lemma close_trade_run:
  assumes "close_trade self m = (Inr (), m')" and t: "get_trade (st_id self) (ml_shop m) = Inr t"
    and "st_status t = WAIT_BUYER_PAY" and "st_has_budget_paid t" and keys: "0 \<notin> so_id ` set (d_orders (ml_shop m))"
  shows "\<exists>os b r w c k. get_budget (st_buyer_id t) (ml_wallet m) = Inr b \<and>
    charge_cancel b (st_id t) (ml_wallet m) = (Inr r, w) \<and>
    m' = m\<lparr>ml_shop := (ml_shop m)\<lparr>d_trades := tbl_save st_id (t\<lparr>st_status := TRADE_CLOSED_BY_SYS\<rparr>) (d_trades (ml_shop m)),
         d_orders := os\<rparr>, ml_wallet := w, ml_coins := c, ml_coupons := k\<rparr> \<and>
    (\<forall>x\<in>set os. so_sale_trade x = st_id t \<longrightarrow> so_status x \<notin> set NORMAL_ORDER_STATUS)"
proof -
  let ?S = "(ml_shop m)\<lparr>d_trades := tbl_save st_id (t\<lparr>st_status := TRADE_CLOSED_BY_SYS\<rparr>) (d_trades (ml_shop m))\<rparr>"
  let ?sos = "normal_orders (st_id t) ?S"
  from assms(1-4) obtain m1 b r w c k where
    loop: "forE (\<lambda>so. do_shop (close_order so)) ?sos (m\<lparr>ml_shop := ?S\<rparr>) = (Inr (), m1)"
    and b: "get_budget (st_buyer_id t) (ml_wallet m1) = Inr b"
    and cc: "charge_cancel b (st_id t) (ml_wallet m1) = (Inr r, w)"
    and m': "m' = m1\<lparr>ml_wallet := w, ml_coins := c, ml_coupons := k\<rparr>"
    by (auto simp: close_trade_def Let_def save_trade_def release_coupon_def run_ok dest!: refund_coins_run)
  have "\<forall>so\<in>set ?sos. so_sale_trade so = st_id t \<and> so_id so \<noteq> 0"
    using keys by (auto simp: normal_orders_def orders_of_def)
  from close_orders_run [OF loop this] obtain os where
    m1: "m1 = m\<lparr>ml_shop := ?S\<lparr>d_orders := os\<rparr>\<rparr>"
    and os: "\<forall>x\<in>set os. so_sale_trade x = st_id t \<and> so_status x = TRADE_CLOSED_BY_SYS
       \<or> x \<in> set (d_orders (ml_shop m)) \<and> so_id x \<notin> so_id ` set ?sos"
    by auto
  have "so_status x \<notin> set NORMAL_ORDER_STATUS" if "x \<in> set os" "so_sale_trade x = st_id t" for x
    using os that by (auto simp: normal_orders_def orders_of_def NORMAL_ORDER_STATUS_def)
  with m1 b cc m' show ?thesis by auto
qed

text \<open>
  C4. A trade paid in part from the wallet that is closed before it is paid returns every wallet to what
  it held before the charge, leaves no live order of the trade, and a payment that arrives later changes
  nothing: the held money is given back once and the goods are not sold.
\<close>

theorem closed_trade_returns_the_money:
  assumes wallet: "wallet_ok w" and b: "b \<in> set (w_budgets w)" "ub_user b = st_buyer_id t"
    and none: "filter (is_consum_log (ub_user b) i) (w_logs w) = []"
    and held: "charge_pending b i p w = (Inr r, ml_wallet m)"
    and t: "get_trade i (ml_shop m) = Inr t" "st_status t = WAIT_BUYER_PAY" "st_has_budget_paid t"
    and keys: "distinct (map st_id (d_trades (ml_shop m)))" "0 \<notin> so_id ` set (d_orders (ml_shop m))"
    and closed: "st_id self = i" "close_trade self m = (Inr (), m')"
  shows "w_budgets (ml_wallet m') = w_budgets w \<and>
    get_trade i (ml_shop m') = Inr (t\<lparr>st_status := TRADE_CLOSED_BY_SYS\<rparr>) \<and>
    normal_orders i (ml_shop m') = [] \<and>
    trade_charge_confirm i pay_time charge m' = (Inr (), m')"
proof -
  have i: "st_id t = i" using t(1) by (auto simp: get_trade_def dest: q_get_Inr)
  from close_trade_run [OF closed(2)] closed(1) t keys(2) i
  obtain os b' r' w' c k where b': "get_budget (st_buyer_id t) (ml_wallet m) = Inr b'"
    and cc: "charge_cancel b' i (ml_wallet m) = (Inr r', w')"
    and m': "m' = m\<lparr>ml_shop := (ml_shop m)\<lparr>d_trades := tbl_save st_id (t\<lparr>st_status := TRADE_CLOSED_BY_SYS\<rparr>)
           (d_trades (ml_shop m)), d_orders := os\<rparr>, ml_wallet := w', ml_coins := c, ml_coupons := k\<rparr>"
    and os: "\<forall>x\<in>set os. so_sale_trade x = i \<longrightarrow> so_status x \<notin> set NORMAL_ORDER_STATUS"
    by auto
  have "ub_user b' = ub_user b" using b' b(2) by (auto simp: get_budget_def dest: q_get_Inr)
  with charge_cancel_restores [OF wallet b(1) refl none held] cc charge_cancel_cong
  have "w_budgets w' = w_budgets w" by (metis snd_conv)
  moreover have trade: "get_trade i (ml_shop m') = Inr (t\<lparr>st_status := TRADE_CLOSED_BY_SYS\<rparr>)"
    using q_get_save [OF keys(1), of "\<lambda>x. st_id x = i" t "t\<lparr>st_status := TRADE_CLOSED_BY_SYS\<rparr>"] t(1) i
    by (simp add: m' get_trade_def)
  moreover have "normal_orders i (ml_shop m') = []"
    using os by (auto simp: m' normal_orders_def orders_of_def filter_empty_conv)
  moreover have "trade_charge_confirm i pay_time charge m' = (Inr (), m')"
    by (simp add: trade_charge_confirm_def charge_confirm_block_def prog_simps trade)
  ultimately show ?thesis by (simp add: m')
qed

theorem closed_trade_returns_the_money_witness:
  "w_budgets (ml_wallet (snd (close_trade unpaid_trade unpaid_mall))) = [example_budget]"
proof -
  have close: "close_trade unpaid_trade unpaid_mall = (Inr (), snd (close_trade unpaid_trade unpaid_mall))"
    by (rule returned) code_simp
  have held: "charge_pending example_budget 4 300 example_funded = (Inr True, ml_wallet unpaid_mall)"
    unfolding unpaid_mall_def by (simp, rule returned) code_simp
  have none: "filter (is_consum_log (ub_user example_budget) 4) (w_logs example_funded) = []"
    by (simp add: example_defs is_consum_log_def)
  have b: "example_budget \<in> set (w_budgets example_funded)" by (simp add: example_defs)
  have u: "ub_user example_budget = st_buyer_id unpaid_trade" by (simp add: example_defs unpaid_trade_def)
  have t: "get_trade 4 (ml_shop unpaid_mall) = Inr unpaid_trade"
    by (simp add: unpaid_mall_def get_trade_def q_get_def unpaid_trade_def example_trade_def)
  have "w_budgets (ml_wallet (snd (close_trade unpaid_trade unpaid_mall))) = w_budgets example_funded"
    using closed_trade_returns_the_money [OF example_funded_ok b u none held t _ _ _ _ _ close]
    by (simp add: unpaid_mall_def unpaid_trade_def example_trade_def example_order_def)
  then show ?thesis by (simp add: example_funded_def)
qed

section \<open>Sending an order again\<close>

lemma item_of_order_sku: "psi_sku_id (item_of_order so pay k prd tr) = so_sku_id so"
  by (simp add: item_of_order_def new_psi_def)

lemma psi_create_new:
  assumes "psi_create so s = (Inr p, t)"
  shows "d_psis t = d_psis s @ [p] \<and> psi_sale_order_id p = Some (so_id so) \<and> psi_num p = so_num so \<and>
    psi_sku_id p = so_sku_id so \<and> psi_assign_status p \<in> {ASSIGNED, NOT_ASSIGNED}"
proof -
  note new = item_of_order_frame item_of_order_sku
  from assms obtain k prd tr pay st u where stock: "get_by_sku (so_sku_id so) s = (Inr st, u)" and
    run: "(if can_assign st (so_num so) then set_status_init_assigned (item_of_order so pay k prd tr)
       else bindE (set_status_init_paid (item_of_order so pay k prd tr)) (\<lambda>p. bindE (gen_arrangement p) (\<lambda>_. ret p))) u = (Inr p, t)"
    by (cases "so_pay_time so") (auto simp: psi_create_def Let_def new bindE_ok liftE_run raise_run)
  let ?p = "item_of_order so pay k prd tr"
  have u: "d_psis u = d_psis s" using keeps_run [OF items_get_by_sku _ stock, of "d_psis s"] by simp
  show ?thesis
  proof (cases "can_assign st (so_num so)")
    case True
    with run obtain n w where sv: "save_and_move (?p\<lparr>psi_status := PSI_ASSIGNED, psi_assign_status := ASSIGNED,
        psi_init_assigned := True, psi_assign_time := Some n, psi_ware_by := w\<rparr>) set_psi_init_assigned STAT_SIGN u = (Inr p, t)"
      by (auto simp: set_status_init_assigned_def now_def run_ok)
    from save_and_move_new [OF _ sv] new u show ?thesis by (auto simp: set_psi_defs move_stock_touches)
  next
    case False
    with run obtain v pa where sv: "save_and_move (?p\<lparr>psi_status := PSI_PAID, psi_assign_status := NOT_ASSIGNED\<rparr>)
        set_psi_init_paid STAT_SIGN u = (Inr p, v)" and arr: "gen_arrangement p v = (Inr pa, t)"
      by (auto simp: set_status_init_paid_def run_ok)
    from arr have "d_psis t = d_psis v"
      by (auto simp: gen_arrangement_def arrangement_create_def save_arrangement_def run_ok Let_def split: if_splits)
    with save_and_move_new [OF _ sv] new u show ?thesis by (auto simp: set_psi_defs move_stock_touches)
  qed
qed

lemma set_psi_paid_run:
  assumes "set_psi_paid so m = (Inr (), m')" and "get_trade (so_sale_trade so) (ml_shop m) = Inr t"
    and "st_order_type t = SALE_ORDER" and "\<forall>q\<in>set (d_psis (ml_shop m)). psi_sale_order_id q \<noteq> Some (so_id so)"
  shows "\<exists>q. d_psis (ml_shop m') = d_psis (ml_shop m) @ [q] \<and> psi_sale_order_id q = Some (so_id so) \<and>
    psi_num q = so_num so \<and> psi_sku_id q = so_sku_id so \<and> psi_assign_status q \<in> {ASSIGNED, NOT_ASSIGNED}"
proof -
  have none: "\<not> q_exists (\<lambda>p. psi_sale_order_id p = Some (so_id so)) (d_psis (ml_shop m))"
    using assms(4) by (auto simp: q_exists_def filter_empty_conv)
  from assms(1-3) obtain p s where "psi_create so (ml_shop m) = (Inr p, s)" and "m' = m\<lparr>ml_shop := s\<rparr>"
    by (auto simp: set_psi_paid_def run_ok none split: if_splits)
  with psi_create_new [OF this(1)] show ?thesis by auto
qed

text \<open>
  \<open>redeliver_sku_item\<close> ships an order a second time: it closes the old order before it asks
  whether the order was paid, so the item of the old order is never cancelled. Every item is still
  there as it was, and the new order has an item for the same goods besides.
\<close>

theorem redelivery_keeps_the_old_item:
  assumes run: "redeliver_sku_item t old m = (Inr (), m')"
    and trade: "get_trade (so_sale_trade old) (ml_shop m) = Inr t" "st_order_type t = SALE_ORDER"
    and old: "so_status old = WAIT_SELLER_SEND_GOODS" "so_id old \<noteq> 0"
    and orders: "\<forall>q\<in>set (d_psis (ml_shop m)). psi_sale_order_id q \<in> {None} \<union> Some ` so_id ` set (d_orders (ml_shop m))"
  shows "\<exists>q. d_psis (ml_shop m') = d_psis (ml_shop m) @ [q] \<and> psi_sku_id q = so_sku_id old \<and>
    psi_num q = so_num old \<and> psi_assign_status q \<in> {ASSIGNED, NOT_ASSIGNED}"
proof -
  from run obtain k o1 s1 oid prd o2 s2 where
    sku: "get_sku (so_sku_id old) (ml_shop m) = Inr k"
    and close: "save_order (old\<lparr>so_status := TRADE_CLOSED_BY_SYS\<rparr>) (ml_shop m) = (Inr o1, s1)"
    and renew: "save_order (renew o1 oid k prd (so_num o1)) s1 = (Inr o2, s2)"
    and paid: "set_psi_paid o2 (m\<lparr>ml_shop := s2\<rparr>) = (Inr (), m')"
  proof -
    from run obtain k o1 s1 where a: "get_sku (so_sku_id old) (ml_shop m) = Inr k"
      "save_order (old\<lparr>so_status := TRADE_CLOSED_BY_SYS\<rparr>) (ml_shop m) = (Inr o1, s1)"
      by (auto simp: redeliver_sku_item_def run_ok)
    from save_order_run [OF a(2)] old have "so_status o1 = TRADE_CLOSED_BY_SYS" by auto
    with run a obtain prd o2 s2 where "save_order (renew o1 (redeliver_oid t (so_oid o1) s1) k prd (so_num o1)) s1 = (Inr o2, s2)"
      "set_psi_paid o2 (m\<lparr>ml_shop := s2\<rparr>) = (Inr (), m')"
      by (auto simp: redeliver_sku_item_def run_ok)
    with a show ?thesis by (rule that)
  qed
  from save_order_run [OF close] old obtain b where o1: "o1 = old\<lparr>so_status := TRADE_CLOSED_BY_SYS, so_buyer_id := b\<rparr>"
    and s1: "s1 = (ml_shop m)\<lparr>d_orders := tbl_save so_id o1 (d_orders (ml_shop m))\<rparr>" by auto
  from save_new_order_run [OF renew] obtain b' where
    o2: "o2 = (renew o1 oid k prd (so_num o1))\<lparr>so_buyer_id := b', so_id := fresh_pk so_id (d_orders s1)\<rparr>"
    and s2: "s2 = s1\<lparr>d_orders := d_orders s1 @ [o2]\<rparr>" by (auto simp: renew_def)
  have sub: "so_id ` set (d_orders (ml_shop m)) \<subseteq> so_id ` set (d_orders s1)"
    by (simp add: s1 tbl_save_keeps_pks)
  have "so_id o2 \<notin> so_id ` set (d_orders (ml_shop m))"
    using sub fresh_pk_notin [of so_id "d_orders s1"] by (auto simp: o2)
  then have fresh: "\<forall>q\<in>set (d_psis (ml_shop m)). psi_sale_order_id q \<noteq> Some (so_id o2)"
  proof (intro ballI notI)
    fix q assume q: "q \<in> set (d_psis (ml_shop m))" and e: "psi_sale_order_id q = Some (so_id o2)"
    from orders q have "psi_sale_order_id q \<in> {None} \<union> Some ` so_id ` set (d_orders (ml_shop m))" by (rule bspec)
    with e have "so_id o2 \<in> so_id ` set (d_orders (ml_shop m))" by (simp add: image_iff)
    with \<open>so_id o2 \<notin> _\<close> show False by (rule notE)
  qed
  have "ps_id k = so_sku_id old" using sku by (auto simp: get_sku_def dest: q_get_Inr)
  then have "so_num o2 = so_num old" "so_sku_id o2 = so_sku_id old" "so_sale_trade o2 = so_sale_trade old"
    by (simp_all add: o2 o1 renew_def)
  with set_psi_paid_run [OF paid, of t] trade fresh show ?thesis
    by (auto simp: s2 s1 get_trade_def)
qed

theorem redelivery_keeps_the_old_item_witness:
  "\<exists>q. d_psis (ml_shop (snd (redeliver_sku_item example_trade example_order example_mall))) = [order_item, q] \<and> psi_num q = 3"
proof -
  have run: "redeliver_sku_item example_trade example_order example_mall =
      (Inr (), snd (redeliver_sku_item example_trade example_order example_mall))"
    by (rule returned) code_simp
  show ?thesis
    using redelivery_keeps_the_old_item [OF run]
    by (auto simp: mall_defs get_trade_def q_get_def)
qed

section \<open>What a refund pays\<close>

lemma keeps_wallet_shop [keeps_intro]: "keeps (\<lambda>m. Q (ml_wallet m)) (do_shop p)"
  unfolding do_shop_def by (rule keepsI) (simp add: zoom_run split: prod.splits)

lemma keeps_coupons_shop [keeps_intro]: "keeps (\<lambda>m. Q (ml_coupons m)) (do_shop p)"
  unfolding do_shop_def by (rule keepsI) (simp add: zoom_run split: prod.splits)

lemma keeps_wallet_coins [keeps_intro]: "keeps (\<lambda>m. Q (ml_wallet m)) (do_coins p)"
  unfolding do_coins_def by (rule keepsI) (simp add: zoom_run split: prod.splits)

lemma keeps_wallet_coupons [keeps_intro]: "keeps (\<lambda>m. Q (ml_wallet m)) (do_coupons p)"
  unfolding do_coupons_def by (rule keepsI) (simp add: zoom_run split: prod.splits)

lemma keeps_wallet_wallet: "keeps Q p \<Longrightarrow> keeps (\<lambda>m. Q (ml_wallet m)) (do_wallet p)"
  unfolding do_wallet_def by (erule keeps_zoom) simp_all

lemma keeps_wallet_paid [keeps_intro]: "keeps (\<lambda>m. Q (ml_wallet m)) (set_psi_paid so)"
  unfolding set_psi_paid_def by (auto intro!: keeps_intro)

lemma keeps_wallet_reissue [keeps_intro]:
  "keeps (\<lambda>m. Q (ml_wallet m)) (reissue_order_by_incomplete_refund t so n)"
  unfolding reissue_order_by_incomplete_refund_def by (auto intro!: keeps_intro)

lemma keeps_wallet_confirm [keeps_intro]: "keeps (\<lambda>m. Q (ml_wallet m)) (refund_confirm r)"
  unfolding refund_confirm_def by (auto intro!: keeps_intro simp: Let_def)

lemma budget_log_create_logs:
  assumes "budget_log_create c bt amount lt d ref st uk w = (Inr l, w')"
  shows "w_logs w' = w_logs w @ [l] \<and> bl_customer_id l = c \<and> bl_flow_amount l = amount \<and>
    bl_log_type l = lt \<and> bl_referal_id l = ref"
  using assms by (rule budget_log_create_run) (simp add: tbl_insert_def)

lemma keeps_paid_other [keeps_intro]:
  assumes "lt \<noteq> BG_REFUND"
  shows "keeps (\<lambda>w. refund_paid r w = x) (budget_log_create c bt amount lt d ref st uk)"
proof (rule keepsI)
  fix w assume x: "refund_paid r w = x"
  show "refund_paid r (snd (budget_log_create c bt amount lt d ref st uk w)) = x"
  proof (cases "budget_log_create c bt amount lt d ref st uk w")
    case (Pair res w')
    with x assms show ?thesis
      by (cases res) (auto simp: refund_paid_def q_sum_def dest: budget_log_create_logs budget_log_create_raises)
  qed
qed

lemma keeps_paid_undo:
  "keeps (\<lambda>m. refund_paid r (ml_wallet m) = x) (undo_exchange q p so e cust n poor)"
  unfolding undo_exchange_def
  by (auto intro!: keeps_intro keeps_wallet_wallet [where Q = "\<lambda>w. refund_paid r w = x"] simp: Let_def split: list.splits)

lemma keeps_paid_return:
  "keeps (\<lambda>m. refund_paid r (ml_wallet m) = x) (saleorder_return_coupon_exchange q p)"
  unfolding saleorder_return_coupon_exchange_def
  by (auto intro!: keeps_intro keeps_paid_undo split: option.split)

lemma pay_refund_paid:
  assumes "pay_refund r so payment m = (res, m')"
  shows "refund_paid r (ml_wallet m') =
    (if res = Inr () then refund_paid r (ml_wallet m) + max 0 payment else refund_paid r (ml_wallet m))"
proof (cases res)
  case (Inl e)
  with assms have "m' = m" by (simp add: pay_refund_def atomic_raises_state)
  with Inl show ?thesis by simp
next
  case (Inr u)
  with assms obtain q m1 m2 where good: "do_shop (update_good_status r (is_post so (ml_shop m))) m = (Inr q, m1)"
    and pay: "whenE (payment > 0) (bindE (do_wallet (create_salerefund_log (rf_buyer_id q) (rf_id q) payment)) (\<lambda>_. ret ())) m1 = (Inr (), m2)"
    and confirm: "refund_confirm q m2 = (Inr (), m')"
    by (auto simp: pay_refund_def run_ok simp del: whenE_ok do_shop_run)
  from good have q: "rf_buyer_id q = rf_buyer_id r" "rf_id q = rf_id r"
    by (auto simp: update_good_status_def run_ok Let_def split: if_splits)
  from good have m1: "ml_wallet m1 = ml_wallet m" by (auto simp: run_ok)
  have "refund_paid r (ml_wallet m2) = refund_paid r (ml_wallet m1) + max 0 payment"
  proof (cases "payment > 0")
    case True
    with pay q obtain l w k where "budget_log_create (rf_buyer_id r) BUDGET_IN payment BG_REFUND None (str_nat (rf_id r))
       (Some BL_CONFIRMED) k (ml_wallet m1) = (Inr l, w)" and "ml_wallet m2 = w"
      by (auto simp: create_salerefund_log_def run_ok)
    with budget_log_create_logs [OF this(1)] True show ?thesis by (simp add: refund_paid_def q_sum_def)
  next
    case False
    with pay show ?thesis by (simp add: run_ok)
  qed
  moreover have "ml_wallet m' = ml_wallet m2"
    using keeps_run [OF keeps_wallet_confirm [of "\<lambda>w. w = ml_wallet m2"] _ confirm] by simp
  ultimately show ?thesis using Inr m1 by simp
qed



section \<open>Refunding an exchanged order\<close>

lemma keeps_exchanges_modify: "(\<And>s. cp_exchanges (f s) = cp_exchanges s) \<Longrightarrow> keeps (\<lambda>k. J (cp_exchanges k)) (modify f)"
  by (rule keepsI) (simp add: prog_simps)

lemma keeps_exchanges_record [keeps_intro]: "keeps (\<lambda>k. J (cp_exchanges k)) (insert_record r)"
  by (rule keepsI) (simp add: insert_record_def Let_def)

lemma keeps_exchanges_details [keeps_intro]: "keeps (\<lambda>k. J (cp_exchanges k)) (create_transfer_coupon_detail i ids)"
  unfolding create_transfer_coupon_detail_def create_detail_def
  by (auto intro!: keeps_intro keeps_exchanges_modify)

lemma keeps_exchanges_exchg [keeps_intro]: "keeps (\<lambda>k. J (cp_exchanges k)) (create_exchg_order_record c n oid t)"
  unfolding create_exchg_order_record_def out_record_def
  by (auto intro!: keeps_intro split: option.split prod.split)

lemma keeps_exchanges_collect [keeps_intro]: "keeps (\<lambda>k. J (cp_exchanges k)) (collect_coupons c oid ts n acc)"
  by (induction c oid ts n acc rule: collect_coupons.induct) (auto intro!: keeps_intro simp: Let_def)

lemma keeps_exchanges_use [keeps_intro]: "keeps (\<lambda>k. J (cp_exchanges k)) (use_coupon_by_ids ids tid)"
  unfolding use_coupon_by_ids_def use_coupon_def
  by (auto intro!: keeps_intro keeps_exchanges_modify)

lemma mark_exchanged_others:
  assumes "\<forall>y\<in>set (cp_exchanges k). xo_order_oid y = K \<longrightarrow> \<not> xo_has_exchanged y" and "oid \<noteq> K"
    and "mark_exchanged (exchange_row oid k) oid k = (Inr (), k')"
  shows "\<forall>y\<in>set (cp_exchanges k'). xo_order_oid y = K \<longrightarrow> \<not> xo_has_exchanged y"
proof (cases "exchange_row oid k")
  case None
  with assms show ?thesis
    by (auto simp: mark_exchanged_def insert_exchange_def split: if_splits)
next
  case (Some x)
  then have "xo_order_oid x = oid" by (auto simp: exchange_row_def dest: q_first_filter)
  with Some assms show ?thesis
    by (auto simp: mark_exchanged_def write_exchange_def run_ok dest!: tbl_save_mem)
qed

lemma q_first_update:
  "q_first (filter P (q_update P f t)) = map_option f (q_first (filter P t))" if "\<And>x. P x \<Longrightarrow> P (f x)"
  using that by (induction t) (auto simp: q_update_def q_first_def)

lemma q_first_unique:
  assumes "distinct (map k t)" and "q_first (filter P t) = Some x"
  shows "q_first (filter (\<lambda>y. k y = k x) t) = Some x"
proof -
  have "x \<in> set t" using assms(2) by (auto dest: q_first_filter)
  with assms(1) show ?thesis by (induction t) (auto simp: q_first_def image_iff)
qed

text \<open>What an exchange that returned has written.\<close>

lemma exchange_run:
  assumes run: "coupon_exchange_saleorder cust oid ts n fee m = (Inr (), m')"
    and so: "q_first (filter (\<lambda>so. so_oid so = oid) (d_orders (ml_shop m))) = Some so"
      "distinct (map so_id (d_orders (ml_shop m)))"
    and marks: "\<forall>y\<in>set (cp_exchanges (ml_coupons m)). xo_order_oid y = K \<longrightarrow> \<not> xo_has_exchanged y" "oid \<noteq> K"
  shows "\<exists>so' l. q_first (filter (\<lambda>x. so_id x = so_id so) (d_orders (ml_shop m'))) = Some so' \<and>
    so_id so' = so_id so \<and> \<not> so_exchange so' \<and>
    w_logs (ml_wallet m') = w_logs (ml_wallet m) @ [l] \<and> bl_customer_id l = cu_id cust \<and> bl_log_type l = BG_EXCHG_ORDER \<and>
    (\<forall>y\<in>set (cp_exchanges (ml_coupons m')). xo_order_oid y = K \<longrightarrow> \<not> xo_has_exchanged y)"
proof -
  let ?J = "\<lambda>xs. \<forall>y\<in>set xs. xo_order_oid y = K \<longrightarrow> \<not> xo_has_exchanged y"
  let ?f = "\<lambda>o'. o'\<lparr>so_exchange := so_exchange so,
              so_can_return_num := (case so_can_return_num so of None \<Rightarrow> Some (so_num so) | Some n \<Rightarrow> Some n)\<rparr>"
  from run so obtain k s ids k2 k3 amount key w l where flag: "\<not> so_exchange so"
    and mark: "mark_exchanged (exchange_row oid (ml_coupons m)) oid (ml_coupons m) = (Inr (), k)"
    and save: "save_order_fields so ?f (ml_shop m) = (Inr (), s)"
    and collect: "collect_coupons cust oid ts n [] k = (Inr ids, k2)"
    and use: "use_coupon_by_ids ids (so_oid so) k2 = (Inr (), k3)"
    and log: "budget_log_create (cu_id cust) BUDGET_IN amount BG_EXCHG_ORDER None (str_nat (so_id so)) (Some BL_CONFIRMED)
       (Some (so_oid so)) (ml_wallet m) = (Inr l, w)"
    and m': "m' = m\<lparr>ml_coupons := k3, ml_shop := s, ml_wallet := w\<rparr>"
    by (auto simp: coupon_exchange_saleorder_def run_ok Let_def split: if_splits)
  from keeps_run [OF keeps_exchanges_use [of ?J] keeps_run [OF keeps_exchanges_collect [of ?J]
      mark_exchanged_others [OF marks mark] collect] use]
  have "?J (cp_exchanges k3)" .
  moreover have "d_orders s = q_update (\<lambda>x. so_id x = so_id so) ?f (d_orders (ml_shop m))"
    using save by (auto simp: save_order_fields_def run_ok split: if_splits)
  with q_first_unique [OF so(2,1)] have "q_first (filter (\<lambda>x. so_id x = so_id so) (d_orders s)) = Some (?f so)"
    by (simp add: q_first_update)
  ultimately show ?thesis using budget_log_create_logs [OF log] flag by (auto simp: m')
qed

text \<open>
  A seller exchanges a sent order and coupons for money, and the buyer gives the goods back: the
  refund looks for the exchange under the key of the order while it is kept under the order's number, so
  the seller keeps the money and the coupons stay used.
\<close>

theorem refund_forgets_the_exchange:
  assumes ex: "coupon_exchange_saleorder cust oid ts n fee m = (Inr (), m1)"
    and so: "q_first (filter (\<lambda>so. so_oid so = oid) (d_orders (ml_shop m))) = Some so"
      "distinct (map so_id (d_orders (ml_shop m)))"
    and marks: "\<forall>y\<in>set (cp_exchanges (ml_coupons m)). xo_order_oid y = str_nat (so_id so) \<longrightarrow> \<not> xo_has_exchanged y"
      "oid \<noteq> str_nat (so_id so)"
    and refund: "rf_order_id r = so_id so" "saleorder_return_coupon_exchange r payment m1 = (res, m2)"
  shows "ml_wallet m2 = ml_wallet m1 \<and> cp_coupons (ml_coupons m2) = cp_coupons (ml_coupons m1) \<and>
    cp_records (ml_coupons m2) = cp_records (ml_coupons m1) \<and>
    (\<exists>l. w_logs (ml_wallet m2) = w_logs (ml_wallet m) @ [l] \<and> bl_customer_id l = cu_id cust \<and> bl_log_type l = BG_EXCHG_ORDER)"
proof -
  from exchange_run [OF ex so marks] obtain so' l where
    so': "q_first (filter (\<lambda>x. so_id x = so_id so) (d_orders (ml_shop m1))) = Some so'" "\<not> so_exchange so'"
    and l: "w_logs (ml_wallet m1) = w_logs (ml_wallet m) @ [l]" "bl_customer_id l = cu_id cust" "bl_log_type l = BG_EXCHG_ORDER"
    and marks': "\<forall>y\<in>set (cp_exchanges (ml_coupons m1)). xo_order_oid y = str_nat (so_id so) \<longrightarrow> \<not> xo_has_exchanged y"
    by blast
  let ?x = "exchange_row (str_nat (so_id so)) (ml_coupons m1)"
  have "\<not> (case ?x of None \<Rightarrow> False | Some x \<Rightarrow> xo_has_exchanged x)"
    using marks' by (auto simp: exchange_row_def dest: q_first_filter split: option.splits)
  with refund so' have run: "thenE (do_coupons (mark_unexchangeable ?x (str_nat (so_id so))))
      (do_shop (save_order_fields so' (\<lambda>o'. o'\<lparr>so_exchange := so_exchange so',
              so_can_return_num := Some (returned_num so' (rf_refund_num r))\<rparr>))) m1 = (res, m2)"
    by (simp add: saleorder_return_coupon_exchange_def refund_order_def prog_simps)
  have mark: "keeps (\<lambda>k. cp_coupons k = cp_coupons (ml_coupons m1) \<and> cp_records k = cp_records (ml_coupons m1)) (mark_unexchangeable x K)" for x K
    by (rule keepsI) (auto simp: mark_unexchangeable_def insert_exchange_def write_exchange_def prog_simps split: option.split)
  have "keeps (\<lambda>m. ml_wallet m = ml_wallet m1) (do_coupons p)" "keeps (\<lambda>m. ml_wallet m = ml_wallet m1) (do_shop q)" for p q
    by (rule keeps_intro)+
  from keeps_run [OF keeps_thenE [OF this] refl run] have "ml_wallet m2 = ml_wallet m1" .
  moreover have "keeps (\<lambda>m. cp_coupons (ml_coupons m) = cp_coupons (ml_coupons m1) \<and>
      cp_records (ml_coupons m) = cp_records (ml_coupons m1)) (do_coupons (mark_unexchangeable x K))" for x K
    unfolding do_coupons_def by (rule keeps_zoom [OF mark]) simp_all
  from keeps_run [OF keeps_thenE [OF this keeps_coupons_shop] _ run]
  have "cp_coupons (ml_coupons m2) = cp_coupons (ml_coupons m1) \<and> cp_records (ml_coupons m2) = cp_records (ml_coupons m1)"
    by simp
  ultimately show ?thesis using l by auto
qed

theorem refund_forgets_the_exchange_witness:
  "ml_wallet (snd (saleorder_return_coupon_exchange example_refund 1000
      (snd (coupon_exchange_saleorder example_customer ''xo6'' [5] 1 0 sent_mall))))
   = ml_wallet (snd (coupon_exchange_saleorder example_customer ''xo6'' [5] 1 0 sent_mall))"
proof -
  let ?m1 = "snd (coupon_exchange_saleorder example_customer ''xo6'' [5] 1 0 sent_mall)"
  have ex: "coupon_exchange_saleorder example_customer ''xo6'' [5] 1 0 sent_mall = (Inr (), ?m1)"
    by (rule returned) code_simp
  obtain res m2 where ret: "saleorder_return_coupon_exchange example_refund 1000 ?m1 = (res, m2)" by fastforce
  have so: "q_first (filter (\<lambda>so. so_oid so = ''xo6'') (d_orders (ml_shop sent_mall)))
      = Some (example_order\<lparr>so_status := WAIT_BUYER_CONFIRM_GOODS\<rparr>)"
    by (simp add: sent_mall_def example_order_def)
  have K: "''xo6'' \<noteq> str_nat (so_id (example_order\<lparr>so_status := WAIT_BUYER_CONFIRM_GOODS\<rparr>))"
    by (simp add: example_order_def str_nat.simps)
  show ?thesis
    using refund_forgets_the_exchange [OF ex so _ _ K _ ret] ret
    by (simp add: sent_mall_def mall_defs example_refund_def)
qed

section \<open>Joining a failed team\<close>

text \<open>The state while a team's orders get their items: the teams, the trades and the keys stay, and
  the orders \<open>X\<close> have items.\<close>

definition items_for :: "sale_trade list \<Rightarrow> pk_id option set \<Rightarrow> shop_db \<Rightarrow> bool" where
  "items_for C X s \<longleftrightarrow> d_trades s = C \<and> distinct (map psi_id (d_psis s)) \<and> X \<subseteq> psi_sale_order_id ` set (d_psis s)"

definition team_items :: "team_buy list \<Rightarrow> team_detail list \<Rightarrow> sale_trade list \<Rightarrow> pk_id option set \<Rightarrow> mall_db \<Rightarrow> bool" where
  "team_items A B C X m \<longleftrightarrow> ml_teambuys m = A \<and> ml_team_details m = B \<and> items_for C X (ml_shop m)"

lemma team_items_shop: "items_for C X s \<Longrightarrow> team_items A B C Y m \<Longrightarrow> team_items A B C X (m\<lparr>ml_shop := s\<rparr>)"
  by (simp add: team_items_def)

lemma items_for_save:
  assumes s: "items_for C X s"
    and p: "psi_id p \<noteq> 0 \<Longrightarrow> \<exists>q\<in>set (d_psis s). psi_id q = psi_id p \<and> psi_sale_order_id q = psi_sale_order_id p"
  shows "items_for C X (snd (save_psi p s))"
proof (cases "psi_id p = 0")
  case True
  with s fresh_pk_notin [of psi_id "d_psis s"] show ?thesis
    by (auto simp: save_psi_def Let_def items_for_def)
next
  case False
  from s have D: "distinct (map psi_id (d_psis s))" by (simp add: items_for_def)
  from p [OF False] obtain q where q: "q \<in> set (d_psis s)" "psi_id q = psi_id p" "psi_sale_order_id q = psi_sale_order_id p"
    by blast
  have "x \<in> psi_sale_order_id ` set (tbl_save psi_id p (d_psis s))" if "x \<in> psi_sale_order_id ` set (d_psis s)" for x
  proof -
    from that obtain z where z: "z \<in> set (d_psis s)" "x = psi_sale_order_id z" by auto
    show ?thesis
    proof (cases "psi_id z = psi_id p")
      case True
      then have "z = q" using D z q by (auto simp: distinct_map inj_on_def)
      then show ?thesis using z q tbl_save_in [of p psi_id "d_psis s"] by auto
    next
      case False
      then have "z \<in> set (tbl_save psi_id p (d_psis s))" using z by (auto simp: tbl_save_def image_iff)
      then show ?thesis using z by blast
    qed
  qed
  moreover have "distinct (map psi_id (tbl_save psi_id p (d_psis s)))" using D by (simp add: tbl_save_pks)
  ultimately show ?thesis using s False by (auto simp: save_psi_def items_for_def)
qed

lemma items_for_get [keeps_intro]: "keeps (items_for C X) (get_by_sku k)"
  by (rule keepsI) (auto simp: get_by_sku_def items_for_def Let_def split: option.split sum.split)

lemma update_item_keeps:
  assumes m: "team_items A B C X m" and p: "p \<in> set (d_psis (ml_shop m))"
  shows "team_items A B C X (snd (update_item_by_task so p m))"
proof -
  have save: "team_items A B C X (m\<lparr>ml_shop := snd (save_psi q (ml_shop m))\<rparr>)"
    if "psi_id q = psi_id p" "psi_sale_order_id q = psi_sale_order_id p" for q
  proof (rule team_items_shop [OF items_for_save m])
    show "items_for C X (ml_shop m)" using m by (simp add: team_items_def)
    show "\<exists>q'\<in>set (d_psis (ml_shop m)). psi_id q' = psi_id q \<and> psi_sale_order_id q' = psi_sale_order_id q"
      using p that by auto
  qed
  have same: "m\<lparr>ml_shop := ml_shop m\<rparr> = m" by simp
  let ?q = "p\<lparr>psi_assign_status := CANCELED\<rparr>" and ?r = "p\<lparr>psi_assign_status := NOT_ASSIGNED\<rparr>"
  have c: "set_assign_status_time ?q s = (Inr ?q, s)" for s
    by (simp add: set_assign_status_time_def now_def prog_simps)
  have cancel: "team_items A B C X (snd (do_shop (bindE (set_assign_status_time ?q) (\<lambda>p. bindE (save_psi p) (\<lambda>_. ret ()))) m))"
    using save [of ?q] by (simp add: do_shop_def zoom_run bindE_run c ret_run split_def split: sum.splits prod.splits)
  have reopen: "team_items A B C X (snd (do_shop (bindE (clear_order_info ?r) (\<lambda>_. ret ())) m))"
    using save by (simp add: do_shop_def zoom_run clear_order_info_def bindE_run ret_run split_def split: sum.splits prod.splits)
  show ?thesis
    using cancel reopen m by (auto simp: update_item_by_task_def whenE_run bindE_run liftE_run ret_run split: sum.splits)
qed

lemma new_item_run:
  assumes "new_item_by_task so s = (r, s')" and s: "items_for C X s"
  shows "items_for C X s' \<and> (r = Inr () \<longrightarrow> items_for C (insert (Some (so_id so)) X) s')"
proof -
  have id: "psi_id (item_by_task so pay k prd t b) = 0"
    "psi_sale_order_id (item_by_task so pay k prd t b) = Some (so_id so)" for pay k prd t b
    by (simp_all add: item_by_task_def new_psi_def)
  obtain r1 u where u: "get_by_sku (so_sku_id so) s = (r1, u)" by (cases "get_by_sku (so_sku_id so) s")
  then have iu: "items_for C X u" using s items_for_get by (auto dest: keeps_run)
  have "items_for C X w" "r2 = Inr q \<Longrightarrow> items_for C (insert (Some (so_id so)) X) w"
    if "save_psi (item_by_task so pay k prd t b) u = (r2, w)" for pay k prd t b r2 w q
  proof -
    show w: "items_for C X w"
      using items_for_save [OF iu, of "item_by_task so pay k prd t b"] id that by simp
    show "items_for C (insert (Some (so_id so)) X) w" if "r2 = Inr q"
      using \<open>save_psi _ u = _\<close> that w saved_psi [of "item_by_task so pay k prd t b" u q w] id by (auto simp: items_for_def)
  qed
  with assms u iu show ?thesis
    by (auto simp: new_item_by_task_def bindE_run liftE_run raise_run ret_run split: sum.splits option.splits prod.splits)
qed

lemma task_keeps: "keeps (team_items A B C X) (task_saleorder_update_package_sku_item so)"
  unfolding task_saleorder_update_package_sku_item_def
proof (intro keeps_atomic keeps_asks_bind)
  fix m assume m: "team_items A B C X m"
  show "team_items A B C X (snd ((case package_sku so (ml_shop m) of Some p \<Rightarrow> update_item_by_task so p
     | None \<Rightarrow> bindE (liftE (need_send so)) (\<lambda>b. whenE b (do_shop (new_item_by_task so)))) m))"
  proof (cases "package_sku so (ml_shop m)")
    case None
    obtain r s where n: "new_item_by_task so (ml_shop m) = (r, s)" by (cases "new_item_by_task so (ml_shop m)")
    then have "items_for C X s" using new_item_run [OF n, of C X] m by (auto simp: team_items_def)
    with None n m show ?thesis
      by (auto simp: bindE_run liftE_run whenE_run do_shop_def zoom_run team_items_shop split: sum.splits)
  next
    case (Some p)
    then have "p \<in> set (d_psis (ml_shop m))" by (auto simp: package_sku_def dest: q_first_filter)
    with Some update_item_keeps [OF m] show ?thesis by simp
  qed
qed

lemma task_makes_item:
  assumes run: "task_saleorder_update_package_sku_item so m = (Inr (), m')" and m: "team_items A B C X m"
    and send: "need_send so m = Inr True"
  shows "team_items A B C (insert (Some (so_id so)) X) m'"
proof (cases "package_sku so (ml_shop m)")
  case None
  with run send obtain s where n: "new_item_by_task so (ml_shop m) = (Inr (), s)" and m': "m' = m\<lparr>ml_shop := s\<rparr>"
    by (auto simp: task_saleorder_update_package_sku_item_def run_ok)
  with new_item_run [OF n, of C X] m show ?thesis by (auto simp: team_items_def)
next
  case (Some p)
  then have "Some (so_id so) \<in> psi_sale_order_id ` set (d_psis (ml_shop m))"
    by (force simp: package_sku_def dest: q_first_filter)
  with m have "team_items A B C (insert (Some (so_id so)) X) m" by (auto simp: team_items_def items_for_def)
  from keeps_run [OF task_keeps this run] show ?thesis .
qed

lemma tasks_make_items:
  assumes "forE task_saleorder_update_package_sku_item sos m = (Inr (), m')" and "team_items A B C X m"
    and "\<And>m. team_items A B C {} m \<Longrightarrow> need_send so m = Inr True"
  shows "team_items A B C (if so \<in> set sos then insert (Some (so_id so)) X else X) m'"
  using assms(1,2)
proof (induction sos arbitrary: m X)
  case Nil
  then show ?case by (simp add: run_ok)
next
  case (Cons x sos)
  then obtain u where u: "task_saleorder_update_package_sku_item x m = (Inr (), u)"
    and rest: "forE task_saleorder_update_package_sku_item sos u = (Inr (), m')" by (auto simp: run_ok)
  have "team_items A B C {} m" using Cons.prems(2) by (simp add: team_items_def items_for_def)
  then have "x = so \<Longrightarrow> team_items A B C (insert (Some (so_id so)) X) u"
    using task_makes_item [OF u Cons.prems(2)] assms(3) by blast
  moreover have "team_items A B C X u" using keeps_run [OF task_keeps Cons.prems(2) u] .
  ultimately show ?case
    using Cons.IH [OF rest, of X] Cons.IH [OF rest, of "insert (Some (so_id so)) X"]
    by (cases "x = so"; cases "so \<in> set sos") simp_all
qed

lemma q_get_unique:
  assumes "distinct (map k t)" and "x \<in> set t"
  shows "q_get (\<lambda>y. k y = k x) t = Inr x"
proof -
  have "filter (\<lambda>y. k y = k x) t = [x]"
    using assms by (induction t) (auto simp: filter_empty_conv image_iff)
  then show ?thesis by (simp add: q_get_def)
qed

text \<open>
  A team buy failed and its members were refunded; a payment that comes later for the last place joins the
  failed team all the same, which then succeeds: every order of the team, the refunded ones too, has an
  item in the warehouse.
\<close>

theorem late_join_ships_refunded_orders:
  assumes join: "create_or_join t m = (Inr (), m')"
    and t: "st_teambuy_id t = Some i" "\<not> q_exists (\<lambda>d. tbd_tid d = st_tid t) (ml_team_details m)"
    and team: "q_get (\<lambda>x. tb_id x = i) (ml_teambuys m) = Inr tb" "tb_status tb = TB_FAILED"
    and place: "tb_limit_person_num tb = int (length (members_of i m)) + 1"
      "st_buyer_id t \<notin> tbd_customer ` set (members_of i m)"
    and member: "d \<in> set (members_of i m)" "so \<in> set (d_orders (ml_shop m))" "so_oid so = tbd_oid d"
      "CHR ''-'' \<notin> set (so_oid so)" "is_teambuy so (ml_shop m) = Inr True"
    and keys: "distinct (map tb_id (ml_teambuys m))" "distinct (map tbd_oid (ml_team_details m))"
      "distinct (map psi_id (d_psis (ml_shop m)))"
  shows "q_get (\<lambda>x. tb_id x = i) (ml_teambuys m') = Inr (tb\<lparr>tb_status := TB_SUCCESS\<rparr>) \<and>
    Some (so_id so) \<in> psi_sale_order_id ` set (d_psis (ml_shop m'))"
proof -
  let ?tb = "tb\<lparr>tb_status := TB_SUCCESS\<rparr>"
  let ?A = "tbl_save tb_id ?tb (ml_teambuys m)"
  have i: "tb_id tb = i" using team(1) by (auto dest: q_get_Inr)
  have "team_to_join t m = Inr (Some tb)"
    using t team place by (auto simp: team_to_join_def i list_ex_iff image_iff)
  with join t obtain o1 where o1: "q_first (orders_of (st_id t) (ml_shop m)) = Some o1"
    by (auto simp: create_or_join_def run_ok split: option.splits)
  define d' where "d' = \<lparr>tbd_id = fresh_pk tbd_id (ml_team_details m), tbd_teambuy = i, tbd_tid = st_tid t,
    tbd_oid = so_oid o1, tbd_customer = st_buyer_id t, tbd_originizer = False\<rparr>"
  have free1: "\<not> q_exists (\<lambda>x. tbd_tid x = st_tid t \<or> tbd_oid x = so_oid o1) (ml_team_details m)"
    and check: "bindE (check_finish_teambuy tb) (\<lambda>_. ret ()) (m\<lparr>ml_team_details := ml_team_details m @ [d']\<rparr>) = (Inr (), m')"
    using join t o1 \<open>team_to_join t m = _\<close>
    by (auto simp: create_or_join_def run_ok insert_team_detail_def i d'_def split: if_splits)
  have d': "tbd_teambuy d' = i" and free: "\<not> q_exists (\<lambda>x. tbd_oid x = tbd_oid d') (ml_team_details m)"
    using free1 by (auto simp: d'_def q_exists_def filter_empty_conv)
  let ?B = "ml_team_details m @ [d']"
  have "members_of i (m\<lparr>ml_team_details := ?B\<rparr>) = members_of i m @ [d']" by (simp add: members_of_def d')
  with place(1) i have "tb_limit_person_num tb \<le> int (length (members_of (tb_id tb) (m\<lparr>ml_team_details := ?B\<rparr>)))" by simp
  with check have "\<exists>x. set_status_success tb (m\<lparr>ml_team_details := ?B\<rparr>) = (Inr x, m')"
    by (auto simp: check_finish_teambuy_def run_ok split: if_splits)
  then have "trigger_saleorder ?tb (m\<lparr>ml_team_details := ?B, ml_teambuys := ?A\<rparr>) = (Inr (), m')"
    by (auto simp: set_status_success_def write_team_def run_ok Let_def)
  then obtain sos where loop: "forE task_saleorder_update_package_sku_item sos (m\<lparr>ml_team_details := ?B, ml_teambuys := ?A\<rparr>) = (Inr (), m')"
    and so: "so \<in> set sos"
    using member i by (auto simp: trigger_saleorder_def run_ok members_of_def)
  have A: "q_get (\<lambda>x. tb_id x = i) ?A = Inr ?tb"
    by (rule q_get_save [OF keys(1) team(1)]) (simp_all add: i)
  have d: "tbd_teambuy d = i" "d \<in> set (ml_team_details m)" using member(1) by (simp_all add: members_of_def)
  have "q_get (\<lambda>x. tbd_oid x = tbd_oid d) (ml_team_details m) = Inr d"
    by (rule q_get_unique [OF keys(2) d(2)])
  moreover have "tbd_oid d' \<noteq> tbd_oid d" using free d(2) by (auto simp: q_exists_def filter_empty_conv)
  ultimately have B: "q_get (\<lambda>x. tbd_oid x = tbd_oid d) ?B = Inr d" by (simp add: q_get_append)
  have "need_send so u = Inr True" if "team_items ?A ?B (d_trades (ml_shop m)) {} u" for u
    using that member A B d(1)
    by (simp add: team_items_def items_for_def need_send_def is_teambuy_def get_trade_def teambuy_can_send_def split_on_no)
  from tasks_make_items [OF loop _ this, where X = "{}"] keys(3) so
  have "team_items ?A ?B (d_trades (ml_shop m)) {Some (so_id so)} m'"
    by (simp add: team_items_def items_for_def)
  with A show ?thesis by (auto simp: team_items_def items_for_def)
qed

theorem late_join_ships_refunded_orders_witness:
  "Some 6 \<in> psi_sale_order_id ` set (d_psis (ml_shop (snd (create_or_join late_trade failed_mall))))"
proof -
  have join: "create_or_join late_trade failed_mall = (Inr (), snd (create_or_join late_trade failed_mall))"
    by (rule returned) code_simp
  let ?d = "\<lparr>tbd_id = 1, tbd_teambuy = 2, tbd_tid = ''xd4'', tbd_oid = ''xo6'', tbd_customer = 7, tbd_originizer = True\<rparr>"
  let ?so = "example_order\<lparr>so_status := TRADE_CLOSED, so_refund_status := REFUND_SUCCESS\<rparr>"
  have "Some (so_id ?so) \<in> psi_sale_order_id ` set (d_psis (ml_shop (snd (create_or_join late_trade failed_mall))))"
    by (rule late_join_ships_refunded_orders [OF join, where d = ?d and i = 2 and tb = failed_team, THEN conjunct2])
      (simp_all add: late_trade_def failed_mall_def failed_team_def members_of_def q_exists_def q_get_def
         is_teambuy_def get_trade_def example_order_def example_trade_def)
  then show ?thesis by (simp add: example_order_def)
qed

section \<open>Refunding a part of an order\<close>

lemma half_even_le: "of_int (half_even x) \<le> x + 1 / 2"
  by (auto simp: half_even_def Let_def) linarith+

lemma py_fmt2_le: "py_fmt2 x \<le> x + 1 / 200"
  using half_even_le [of "x * 100"] by (simp add: py_fmt2_def)

lemma fake_round_bounds:
  assumes "0 \<le> x" and "0 < n"
  shows "0 \<le> fake_round x n" "fake_round x n \<le> x / of_int n" "x / of_int n < fake_round x n + 1 / 100"
proof -
  define z where "z = x / of_int n"
  have z: "0 \<le> z * 100" using assms by (simp add: z_def)
  then have f: "fake_round x n = of_int \<lfloor>z * 100\<rfloor> / 100" by (simp add: fake_round_def py_int_def z_def)
  have "0 \<le> \<lfloor>z * 100\<rfloor>" using z by simp
  then show "0 \<le> fake_round x n" by (simp add: f)
  have "of_int \<lfloor>z * 100\<rfloor> \<le> z * 100" "z * 100 < of_int \<lfloor>z * 100\<rfloor> + 1" by linarith+
  then show "fake_round x n \<le> x / of_int n" "x / of_int n < fake_round x n + 1 / 100"
    by (simp_all add: f flip: z_def)
qed

lemma keeps_orders_get [keeps_intro]: "keeps (\<lambda>s. Q (d_orders s)) (get_by_sku k)"
  by (rule keepsI) (auto simp: get_by_sku_def Let_def split: option.split sum.split)

lemma keeps_orders_move [keeps_intro]:
  "keeps (\<lambda>s. Q (d_orders s)) (set_psi_init_assigned k n st)" "keeps (\<lambda>s. Q (d_orders s)) (set_psi_init_paid k n st)"
proof -
  have "keeps (\<lambda>s. Q (d_orders s)) (move_stock k ds st w)" for ds w
  proof (rule keepsI)
    fix s :: shop_db assume "Q (d_orders s)"
    moreover obtain S where "snd (move_stock k ds st w s) = s\<lparr>d_stocks := S\<rparr>" using move_stock_touches by blast
    ultimately show "Q (d_orders (snd (move_stock k ds st w s)))" by simp
  qed
  then show "keeps (\<lambda>s. Q (d_orders s)) (set_psi_init_assigned k n st)" "keeps (\<lambda>s. Q (d_orders s)) (set_psi_init_paid k n st)"
    by (simp_all add: set_psi_defs)
qed

lemma keeps_orders_psi [keeps_intro]: "keeps (\<lambda>s. Q (d_orders s)) (save_psi p)"
  by (rule keepsI) (simp add: save_psi_def Let_def)

lemma keeps_orders_arrange [keeps_intro]: "keeps (\<lambda>s. Q (d_orders s)) (gen_arrangement p)"
proof -
  have "keeps (\<lambda>s. Q (d_orders s)) (save_arrangement pa)" for pa
    by (rule keepsI) (simp add: save_arrangement_def Let_def)
  then show ?thesis unfolding gen_arrangement_def arrangement_create_def by (auto intro!: keeps_intro)
qed

lemma keeps_orders_create [keeps_intro]: "keeps (\<lambda>s. Q (d_orders s)) (psi_create so)"
  unfolding psi_create_def set_status_init_assigned_def set_status_init_paid_def save_and_move_def now_def
  by (auto intro!: keeps_intro simp: Let_def split: option.split)

lemma keeps_orders_paid: "keeps (\<lambda>m. Q (d_orders (ml_shop m))) (set_psi_paid so)"
proof -
  have "keeps (\<lambda>m. Q (d_orders (ml_shop m))) (do_shop (psi_create so))"
    unfolding do_shop_def by (rule keeps_zoom [OF keeps_orders_create]) simp_all
  then show ?thesis unfolding set_psi_paid_def by (auto intro!: keeps_intro)
qed

text \<open>
  C27. A refund of some pieces of an order pays no more than their share, and what it leaves becomes an
  order over the other pieces. The two together come to what was paid but for half a cent for each piece
  left, which is the most by which they can exceed it.
\<close>

theorem partial_refund_and_rest:
  assumes run: "reissue_order_by_incomplete_refund t so (so_num so - k) m = (Inr (), m')"
    and fee: "calculate_refund_fee so k = Inr fee"
    and num: "0 < k" "k < so_num so" "0 \<le> so_payment so"
  shows "\<exists>new\<in>set (d_orders (ml_shop m')). so_id new \<notin> so_id ` set (d_orders (ml_shop m)) \<and>
    so_sale_trade new = so_sale_trade so \<and> so_num new = so_num so - k \<and>
    0 \<le> fee \<and> fee \<le> so_payment so * of_int k / of_int (so_num so) \<and>
    fee + so_payment new \<le> so_payment so + of_int (so_num so - k) / 200"
proof -
  let ?n = "so_num so" and ?p = "so_payment so"
  from run num obtain oid new s where
    save: "save_order (so\<lparr>so_id := 0, so_oid := oid, so_status := WAIT_SELLER_SEND_GOODS, so_num := ?n - k,
       so_payment := per_piece ?p ?n * of_int (?n - k), so_discount_fee := per_piece (so_discount_fee so) ?n * of_int (?n - k),
       so_refund_id := None, so_refund_status := NO_REFUND, so_refund_fee := 0\<rparr>) (ml_shop m) = (Inr new, s)"
    and paid: "set_psi_paid new (m\<lparr>ml_shop := s\<rparr>) = (Inr (), m')"
    by (auto simp: reissue_order_by_incomplete_refund_def run_ok split: if_splits)
  from save_new_order_run [OF save] have new: "so_id new = fresh_pk so_id (d_orders (ml_shop m))"
    "so_sale_trade new = so_sale_trade so" "so_num new = ?n - k" "so_payment new = per_piece ?p ?n * of_int (?n - k)"
    and s: "new \<in> set (d_orders s)" by auto
  have there: "new \<in> set (d_orders (ml_shop m'))"
    using keeps_run [OF keeps_orders_paid [of "\<lambda>x. new \<in> set x"] _ paid] s by simp
  have fresh: "so_id new \<notin> so_id ` set (d_orders (ml_shop m))"
    using fresh_pk_notin [of so_id "d_orders (ml_shop m)"] by (simp add: new)
  have f: "fee = fake_round ?p ?n * of_int k" using fee num by (simp add: calculate_refund_fee_def split: if_splits)
  have n: "0 < ?n" "(0::rat) < of_int k" "(0::rat) < of_int (?n - k)" using num by simp_all
  note r = fake_round_bounds [OF num(3) n(1)]
  have nonneg: "0 \<le> fee" using r(1) n(2) by (simp add: f)
  have "fee \<le> ?p / of_int ?n * of_int k" unfolding f by (rule mult_right_mono [OF r(2)]) (use n in simp)
  then have share: "fee \<le> ?p * of_int k / of_int ?n" by simp
  have "so_payment new \<le> (?p / of_int ?n + 1 / 200) * of_int (?n - k)"
    unfolding new per_piece_def by (rule mult_right_mono [OF py_fmt2_le]) (use n in simp)
  also have "\<dots> = ?p - ?p * of_int k / of_int ?n + of_int (?n - k) / 200"
    using n(1) by (simp add: field_simps)
  finally have "fee + so_payment new \<le> ?p + of_int (?n - k) / 200" using share by simp
  with there fresh new nonneg share show ?thesis by blast
qed

theorem partial_refund_and_rest_witness:
  "\<exists>new\<in>set (d_orders (ml_shop (snd (reissue_order_by_incomplete_refund example_trade
     (example_order\<lparr>so_num := 6, so_payment := 10\<rparr>) 5 example_mall)))). so_num new = 5 \<and> 166 / 100 + so_payment new \<le> 10 + 5 / 200"
proof -
  let ?so = "example_order\<lparr>so_num := 6, so_payment := 10\<rparr>"
  have run: "reissue_order_by_incomplete_refund example_trade ?so (so_num ?so - 1) example_mall
      = (Inr (), snd (reissue_order_by_incomplete_refund example_trade ?so (so_num ?so - 1) example_mall))"
    by (rule returned) code_simp
  have fee: "calculate_refund_fee ?so 1 = Inr (166 / 100)" by code_simp
  show ?thesis using partial_refund_and_rest [OF run fee] by auto
qed

end
