(* ===== verification/Sellers.thy ===== *)
theory Sellers
  imports Trades Mama_Cash
begin

text \<open>
  Sellers (\<open>XiaoluMama\<close>, \<open>src/flashsale/xiaolumm/models/models.py\<close>): what a seller may
  do, the relations between sellers (\<open>ReferalRelationship\<close>, \<open>PotentialMama\<close>), their fans
  (\<open>XlmmFans\<close>) and the rebate schemes (\<open>AgencyOrderRebetaScheme\<close>). The theory also has the
  rows of the sellers' earnings, which \<open>Carry\<close> works on, and the state that holds them all: tasks
  started with \<open>delay\<close> wait in \<open>sl_jobs\<close> with the objects they were given, as the broker keeps
  them. Objects cached on instances and classes are read afresh, and the texts drawn at random, the pushes
  and the log of the administration are left out.
\<close>

section \<open>Rows\<close>

record referal_ship =
  rr_id :: pk_id
  rr_from_grandma_id :: pk_id
  rr_from_mama_id :: pk_id
  rr_to_mama_id :: pk_id
  rr_nick :: string
  rr_img :: string
  rr_order_id :: string
  rr_type :: int
  rr_valid :: bool
  rr_created :: time

record xlmm_fan =
  xf_id :: pk_id
  xf_xlmm :: pk_id
  xf_xlmm_cusid :: pk_id
  xf_refreal_cusid :: pk_id
  xf_fans_cusid :: pk_id
  xf_nick :: string
  xf_thumbnail :: string
  xf_created :: time

record fans_number =
  fn_xlmm :: pk_id
  fn_xlmm_cusid :: pk_id
  fn_fans_num :: int

record potential_mama =
  pm_id :: pk_id
  pm_potential_mama :: pk_id
  pm_referal_mama :: pk_id
  pm_nick :: string
  pm_thumbnail :: string
  pm_uni_key :: string
  pm_is_full_member :: bool
  pm_last_renew_type :: int
  pm_oid :: "string option"
  pm_cashout_id :: "string option"
  pm_created :: time

text \<open>The JSON objects of a scheme are association lists.\<close>

record rebeta_scheme =
  rs_id :: pk_id
  rs_name :: string
  rs_agency_rebetas :: "(string \<times> rat) list"
  rs_price_rebetas :: "(string \<times> (string \<times> rat) list) list"
  rs_price_active :: bool
  rs_is_default :: bool
  rs_normal :: bool

datatype carry_status = CARRY_PENDING | CARRY_CONFIRMED | CARRY_CANCEL

datatype carry_type = CR_CLICK | CR_ORDER | CR_RECOMMEND

record carry_record =
  cr_id :: pk_id
  cr_mama_id :: pk_id
  cr_carry_num :: cents
  cr_carry_type :: carry_type
  cr_date_field :: day
  cr_uni_key :: string
  cr_status :: carry_status

datatype order_carry_status = OC_STAGING | OC_ESTIMATE | OC_CONFIRM | OC_CANCEL

datatype order_carry_type = WAP_ORDER | APP_ORDER | REFERAL_ORDER | ADVANCED_MAMA_REFERAL_ORDER

fun order_carry_type_code :: "order_carry_type \<Rightarrow> nat" where
  "order_carry_type_code WAP_ORDER = 1"
| "order_carry_type_code APP_ORDER = 2"
| "order_carry_type_code REFERAL_ORDER = 3"
| "order_carry_type_code ADVANCED_MAMA_REFERAL_ORDER = 4"

text \<open>The amount of an object that was not read from the table may have a fraction of a cent; the
  column keeps the whole cents.\<close>

record order_carry =
  oc_id :: pk_id
  oc_mama_id :: pk_id
  oc_order_id :: string
  oc_order_value :: cents
  oc_carry_num :: rat
  oc_carry_type :: order_carry_type
  oc_sku_name :: string
  oc_sku_img :: string
  oc_contributor_nick :: string
  oc_contributor_img :: string
  oc_contributor_id :: pk_id
  oc_carry_plan_name :: string
  oc_agency_level :: int
  oc_date_field :: day
  oc_uni_key :: string
  oc_status :: order_carry_status
  oc_created :: time
  oc_modified :: time

datatype award_type = AWARD_REFERAL | AWARD_GROUP | AWARD_OPEN_COURSE | AWARD_NEW_GUY
  | AWARD_FIRST_ORDER | AWARD_REFERAL_GUIDE | AWARD_INVITE_TRIAL | AWARD_SUBSCRIBE | AWARD_MAMA_SALE
  | AWARD_GROUP_SALE | AWARD_INVITE_FANS | AWARD_INDIRECT_INVITE

fun award_code :: "award_type \<Rightarrow> nat" where
  "award_code AWARD_REFERAL = 1"
| "award_code AWARD_GROUP = 2"
| "award_code AWARD_OPEN_COURSE = 3"
| "award_code AWARD_NEW_GUY = 4"
| "award_code AWARD_FIRST_ORDER = 5"
| "award_code AWARD_REFERAL_GUIDE = 6"
| "award_code AWARD_INVITE_TRIAL = 7"
| "award_code AWARD_SUBSCRIBE = 8"
| "award_code AWARD_MAMA_SALE = 9"
| "award_code AWARD_GROUP_SALE = 10"
| "award_code AWARD_INVITE_FANS = 11"
| "award_code AWARD_INDIRECT_INVITE = 12"

record award_carry =
  aw_id :: pk_id
  aw_mama_id :: pk_id
  aw_carry_num :: cents
  aw_carry_type :: award_type
  aw_contributor_nick :: string
  aw_contributor_img :: string
  aw_contributor_mama_id :: pk_id
  aw_carry_plan_name :: string
  aw_date_field :: day
  aw_uni_key :: string
  aw_status :: carry_status

record daily_stats =
  ds_id :: pk_id
  ds_mama_id :: pk_id
  ds_today_visitor_num :: int
  ds_today_order_num :: int
  ds_today_carry_num :: cents
  ds_uni_key :: string
  ds_date_field :: day
  ds_confirmed :: bool

record unique_visitor =
  uv_mama_id :: pk_id
  uv_date_field :: day

section \<open>The state\<close>

datatype carry_job =
    ORDERCARRY_CARRYRECORD order_carry
  | AWARDCARRY_CARRYRECORD award_carry
  | SECOND_LEVEL_ORDERCARRY referal_ship order_carry
  | MAMAFORTUNE_ORDER_NUM pk_id
  | ORDERCARRY_DAILYSTATS pk_id day
  | CARRYRECORD_DAILYSTATS pk_id day
  | CONFIRM_DAILYSTATS pk_id day
  | CARRYRECORD_ACTIVE_HASALE pk_id
  | XIAOLUMAMA_MAMAFORTUNE pk_id cents
  | MAMAFORTUNE_INVITE_NUM pk_id
  | MAMAFORTUNE_MAMA_LEVEL referal_ship
  | MAMAFORTUNE_FANS_NUM pk_id
  | REFERAL_AWARDCARRY referal_ship

record seller_db =
  sl_mall :: mall_db
  sl_cash :: mama_db
  sl_ships :: "referal_ship table"
  sl_fans :: "xlmm_fan table"
  sl_fans_numbers :: "fans_number table"
  sl_potentials :: "potential_mama table"
  sl_schemes :: "rebeta_scheme table"
  sl_records :: "carry_record table"
  sl_order_carrys :: "order_carry table"
  sl_awards :: "award_carry table"
  sl_dailystats :: "daily_stats table"
  sl_visitors :: "unique_visitor table"
  sl_now :: time
  sl_jobs :: "carry_job list"

abbreviation sl_wallet :: "seller_db \<Rightarrow> wallet_db" where
  "sl_wallet s \<equiv> ml_wallet (sl_mall s)"

abbreviation sl_mamas :: "seller_db \<Rightarrow> mama table" where
  "sl_mamas s \<equiv> cp_mamas (ml_coupons (sl_mall s))"

abbreviation sl_customers :: "seller_db \<Rightarrow> customer table" where
  "sl_customers s \<equiv> w_customers (sl_wallet s)"

abbreviation sl_fortunes :: "seller_db \<Rightarrow> mama_fortune table" where
  "sl_fortunes s \<equiv> m_fortunes (sl_cash s)"

abbreviation sl_today :: "seller_db \<Rightarrow> day" where
  "sl_today s \<equiv> day_of (sl_now s)"

interpretation ship_table: orm_table rr_id "\<lambda>i. rr_id_update (\<lambda>_. i)" by unfold_locales simp
interpretation order_carry_table: orm_table oc_id "\<lambda>i. oc_id_update (\<lambda>_. i)" by unfold_locales simp
interpretation award_table: orm_table aw_id "\<lambda>i. aw_id_update (\<lambda>_. i)" by unfold_locales simp
interpretation carry_table: orm_table cr_id "\<lambda>i. cr_id_update (\<lambda>_. i)" by unfold_locales simp

definition do_mall :: "(mall_db, 'a) prog \<Rightarrow> (seller_db, 'a) prog" where
  "do_mall = zoom sl_mall (\<lambda>x. sl_mall_update (\<lambda>_. x))"

definition do_budget :: "(wallet_db, 'a) prog \<Rightarrow> (seller_db, 'a) prog" where
  "do_budget m = do_mall (do_wallet m)"

text \<open>\<open>task.delay(...)\<close>\<close>

definition delay :: "carry_job \<Rightarrow> (seller_db, unit) prog" where
  "delay j = modify (\<lambda>s. s\<lparr>sl_jobs := sl_jobs s @ [j]\<rparr>)"

definition delay_when :: "bool \<Rightarrow> carry_job \<Rightarrow> (seller_db, unit) prog" where
  "delay_when b j = whenE b (delay j)"

section \<open>Finding sellers and customers\<close>

definition find_mama :: "pk_id \<Rightarrow> seller_db \<Rightarrow> mama option" where
  "find_mama i s = q_first (filter (\<lambda>m. ma_id m = i) (sl_mamas s))"

definition get_mama :: "pk_id \<Rightarrow> seller_db \<Rightarrow> py_error + mama" where
  "get_mama i s = q_get (\<lambda>m. ma_id m = i) (sl_mamas s)"

definition charged_mama :: "pk_id \<Rightarrow> seller_db \<Rightarrow> mama option" where
  "charged_mama i s = q_first (filter (\<lambda>m. ma_id m = i \<and> ma_effect m \<and> ma_charged m) (sl_mamas s))"

definition find_customer :: "pk_id \<Rightarrow> seller_db \<Rightarrow> customer option" where
  "find_customer i s = q_first (filter (\<lambda>c. cu_id c = i) (sl_customers s))"

definition mama_get_customer :: "mama \<Rightarrow> seller_db \<Rightarrow> customer option" where
  "mama_get_customer m s = q_first (filter (\<lambda>c. cu_unionid c = ma_openid m) (sl_customers s))"

definition get_mama_customer :: "mama \<Rightarrow> seller_db \<Rightarrow> customer option" where
  "get_mama_customer m s =
     q_first (filter (\<lambda>c. cu_unionid c = ma_openid m \<and> cu_status c = NORMAL) (sl_customers s))"

definition mama_customer_id :: "mama \<Rightarrow> seller_db \<Rightarrow> pk_id" where
  "mama_customer_id m s = (case get_mama_customer m s of None \<Rightarrow> 0 | Some c \<Rightarrow> cu_id c)"

definition mama_nick :: "mama \<Rightarrow> seller_db \<Rightarrow> string" where
  "mama_nick m s = (case get_mama_customer m s of None \<Rightarrow> '''' | Some c \<Rightarrow> cu_nick c)"

definition mama_thumbnail :: "mama \<Rightarrow> seller_db \<Rightarrow> string" where
  "mama_thumbnail m s = (case get_mama_customer m s of None \<Rightarrow> '''' | Some c \<Rightarrow> cu_thumbnail c)"

text \<open>\<open>get_customer_by_mama_id\<close> and its companions of \<open>src/flashsale/xiaolumm/apis/v1\<close>\<close>

definition get_customer_by_mama_id :: "pk_id \<Rightarrow> seller_db \<Rightarrow> customer option" where
  "get_customer_by_mama_id i s = Option.bind (find_mama i s) (\<lambda>m. get_mama_customer m s)"

definition get_customer_id_by_mama_id :: "pk_id \<Rightarrow> seller_db \<Rightarrow> pk_id option" where
  "get_customer_id_by_mama_id i s = map_option (\<lambda>m. mama_customer_id m s) (find_mama i s)"

definition get_mama_by_customer_id :: "pk_id \<Rightarrow> seller_db \<Rightarrow> mama option" where
  "get_mama_by_customer_id i s =
     Option.bind (find_customer i s) (\<lambda>c. get_xiaolumm c (ml_coupons (sl_mall s)))"

definition get_mama_id_by_customer_id :: "pk_id \<Rightarrow> seller_db \<Rightarrow> pk_id option" where
  "get_mama_id_by_customer_id i s =
     Option.bind (find_customer i s) (\<lambda>c. mama_id c (ml_coupons (sl_mall s)))"

definition get_mama_by_openid :: "string \<Rightarrow> seller_db \<Rightarrow> py_error + mama" where
  "get_mama_by_openid openid s = q_get (\<lambda>m. ma_openid m = openid) (sl_mamas s)"

section \<open>What a seller may do\<close>

definition INNER_LEVEL :: int where "INNER_LEVEL = 1"
definition VIP_LEVEL :: int where "VIP_LEVEL = 2"
definition VIP2_LEVEL :: int where "VIP2_LEVEL = 3"
definition VIP3_LEVEL :: int where "VIP3_LEVEL = 4"
definition VIP4_LEVEL :: int where "VIP4_LEVEL = 5"
definition VIP5_LEVEL :: int where "VIP5_LEVEL = 6"

definition is_available_rank :: "mama \<Rightarrow> bool" where
  "is_available_rank m \<longleftrightarrow> ma_charged m \<and> ma_status m \<in> {MM_EFFECT, MM_FROZEN} \<and> ma_in_service m"

definition is_chargeable :: "mama \<Rightarrow> bool" where
  "is_chargeable m \<longleftrightarrow> \<not> ma_charged m"

definition is_direct_pay :: "mama \<Rightarrow> bool" where
  "is_direct_pay m \<longleftrightarrow> \<not> (ma_charged m \<and> ma_last_renew_type m \<in> {HALF, FULL} \<and> ma_in_service m)"

definition is_trialable :: "mama \<Rightarrow> bool" where
  "is_trialable m \<longleftrightarrow> \<not> ma_charged m \<or> ma_status m = MM_FROZEN \<and> ma_last_renew_type m \<in> {TRIAL, SCAN}"

definition is_renewable :: "mama \<Rightarrow> bool" where
  "is_renewable m \<longleftrightarrow> ma_charged m \<and> ma_last_renew_type m \<notin> {TRIAL, SCAN} \<and> ma_in_service m"

definition is_cashoutable :: "mama \<Rightarrow> bool" where
  "is_cashoutable m \<longleftrightarrow> ma_agencylevel m \<ge> VIP_LEVEL \<and> ma_charged m \<and> ma_effect m
     \<and> ma_last_renew_type m > TRIAL"

definition is_noaudit_cashoutable :: "mama \<Rightarrow> bool" where
  "is_noaudit_cashoutable m \<longleftrightarrow> ma_agencylevel m \<ge> VIP_LEVEL \<and> ma_charged m \<and> ma_effect m"

definition is_relationshipable :: "mama \<Rightarrow> bool" where
  "is_relationshipable m \<longleftrightarrow> ma_agencylevel m \<ge> VIP_LEVEL \<and> ma_charged m \<and> ma_effect m"

definition is_click_countable :: "mama \<Rightarrow> bool" where
  "is_click_countable m \<longleftrightarrow> ma_agencylevel m \<ge> VIP_LEVEL \<and> ma_charged m \<and> ma_effect m"

definition can_buy_transfer_coupon :: "mama \<Rightarrow> bool" where
  "can_buy_transfer_coupon m \<longleftrightarrow> ma_referal_from m = DIRECT"

definition is_elite_mama :: "mama \<Rightarrow> bool" where
  "is_elite_mama m \<longleftrightarrow> ma_referal_from m = DIRECT \<or> ma_referal_from m = INDIRECT"

definition next_agencylevel_info :: "mama \<Rightarrow> py_error + (int \<times> string)" where
  "next_agencylevel_info m =
     (case map_of [(INNER_LEVEL, (VIP_LEVEL, ''VIP1'')), (VIP_LEVEL, (VIP2_LEVEL, ''VIP2'')),
          (VIP2_LEVEL, (VIP3_LEVEL, ''VIP4'')), (VIP3_LEVEL, (VIP4_LEVEL, ''VIP6'')),
          (VIP4_LEVEL, (VIP5_LEVEL, ''VIP8'')), (VIP5_LEVEL, (VIP5_LEVEL, ''VIP8''))] (ma_agencylevel m) of
        None \<Rightarrow> Inl KeyError
      | Some r \<Rightarrow> Inr r)"

text \<open>\<open>ELITEMM_DESC_INFO\<close>: the lowest score of every level.\<close>

definition ELITEMM_MIN_SCORE :: "(string \<times> int) list" where
  "ELITEMM_MIN_SCORE = [(''Associate'', 0), (''Director'', 600), (''VP'', 2000), (''Partner'', 6000),
     (''SP'', 20000)]"

definition next_elite_level :: "mama \<Rightarrow> string" where
  "next_elite_level m =
     the (map_of [(''Associate'', ''Director''), (''Director'', ''VP''), (''VP'', ''Partner''),
       (''Partner'', ''SP''), (''SP'', ''SP'')] (elite_level m))"

definition get_level_lowest_elite :: "mama \<Rightarrow> int" where
  "get_level_lowest_elite m = the (map_of ELITEMM_MIN_SCORE (elite_level m))"

text \<open>Below every level the function ends without a \<open>return\<close>.\<close>

definition get_upgrade_score :: "mama \<Rightarrow> int option" where
  "get_upgrade_score m =
     (let score = ma_elite_score m in
      if score \<ge> 20000 then Some 0
      else if score \<ge> 6000 then Some (20000 - score)
      else if score \<ge> 2000 then Some (6000 - score)
      else if score \<ge> 600 then Some (2000 - score)
      else if score \<ge> 0 then Some (600 - score)
      else None)"

text \<open>\<open>xlmm_recharge_cacl_score\<close> and \<open>get_xlmm_xiaolu_coin\<close>\<close>

definition xlmm_recharge_cacl_score :: "int \<Rightarrow> int" where
  "xlmm_recharge_cacl_score price =
     (if price = 100 then 10 else if price = 365 then 100 else if price = 600 then 100
      else if price = 3000 then 600 else if price = 9000 then 2000
      else if price = 25000 then 6000 else if price = 80000 then 20000 else 0)"

section \<open>Saving sellers\<close>

text \<open>The receiver of \<open>post_save\<close> sends the seller's old account to the fortune.\<close>

definition modify_mamas :: "(mama table \<Rightarrow> mama table) \<Rightarrow> (seller_db, unit) prog" where
  "modify_mamas f = modify (\<lambda>s. s\<lparr>sl_mall := ml_coupons_update (cp_mamas_update f) (sl_mall s)\<rparr>)"

definition save_mama :: "mama \<Rightarrow> (seller_db, unit) prog" where
  "save_mama m =
     thenE (modify_mamas (tbl_save ma_id m)) (delay (XIAOLUMAMA_MAMAFORTUNE (ma_id m) (ma_cash m)))"

definition save_mama_fields :: "mama \<Rightarrow> (mama \<Rightarrow> mama) \<Rightarrow> (seller_db, unit) prog" where
  "save_mama_fields m f =
     bindE (asks (\<lambda>s. q_exists (\<lambda>x. ma_id x = ma_id m) (sl_mamas s))) (\<lambda>found.
     if \<not> found then raise (Exn ''DatabaseError'')
     else
       thenE (modify_mamas (q_update (\<lambda>x. ma_id x = ma_id m) f))
       (delay (XIAOLUMAMA_MAMAFORTUNE (ma_id m) (ma_cash m))))"

definition mama_set_active :: "mama \<Rightarrow> (seller_db, mama) prog" where
  "mama_set_active m =
     bindE (asks (\<lambda>s. m\<lparr>ma_active := True, ma_active_time := Some (sl_now s)\<rparr>)) (\<lambda>m.
     thenE (save_mama m) (ret m))"

definition mama_set_hasale :: "mama \<Rightarrow> (seller_db, mama) prog" where
  "mama_set_hasale m =
     bindE (asks (\<lambda>s. m\<lparr>ma_hasale := True, ma_hasale_time := Some (sl_now s)\<rparr>)) (\<lambda>m.
     thenE (save_mama m) (ret m))"

definition deposit_pay :: "mama \<Rightarrow> (seller_db, bool) prog" where
  "deposit_pay m =
     (if ma_progress m \<noteq> PG_PAY
      then thenE (save_mama_fields m (\<lambda>x. x\<lparr>ma_progress := PG_PAY\<rparr>)) (ret True)
      else ret False)"

definition chargemama :: "mama \<Rightarrow> (seller_db, bool \<times> mama) prog" where
  "chargemama m =
     bindE (asks (\<lambda>s. \<lambda>x :: mama. x\<lparr>ma_charge_time := Some (sl_now s),
       ma_charged := (\<not> ma_charged m \<or> ma_charged x),
       ma_agencylevel := (if ma_agencylevel m < VIP_LEVEL then VIP_LEVEL else ma_agencylevel x)\<rparr>)) (\<lambda>f.
     thenE (save_mama_fields m f) (ret (True, f m)))"

definition upgrade_agencylevel_by_cashout :: "mama \<Rightarrow> (seller_db, bool option) prog" where
  "upgrade_agencylevel_by_cashout m =
     (if ma_agencylevel m < VIP_LEVEL then ret (Some False)
      else if \<not> ma_charged m then ret (Some False)
      else if \<not> ma_effect m then ret (Some False)
      else if ma_agencylevel m = VIP_LEVEL then
        thenE (save_mama_fields m (\<lambda>x. x\<lparr>ma_agencylevel := VIP2_LEVEL\<rparr>)) (ret (Some True))
      else ret None)"

text \<open>The map of \<open>upgrade_agencylevel_by_exam\<close> is built from \<open>XiaoluMama.A_LEVEL\<close>,
  \<open>VIP6_LEVEL\<close> and \<open>VIP8_LEVEL\<close>, which the class does not have.\<close>

definition upgrade_agencylevel_by_exam :: "mama \<Rightarrow> int \<Rightarrow> (seller_db, bool) prog" where
  "upgrade_agencylevel_by_exam m level = raise AttributeError"

text \<open>\<open>update_renew_day\<close>: a renewal adds its days, and one more, to what is left; the second
  half-year in a row counts as a year.\<close>

definition renewal_days :: "int \<Rightarrow> time" where
  "renewal_days days = (days + 1) * 86400"

definition update_renew_day :: "mama \<Rightarrow> int \<Rightarrow> (seller_db, bool) prog" where
  "update_renew_day m days =
     (if days \<notin> {SCAN, TRIAL, HALF, FULL} then raise (AssertionError ''renew days'')
      else
        bindE (asks sl_now) (\<lambda>t.
        let renew_time = (case ma_renew_time m of
              None \<Rightarrow> t + renewal_days days
            | Some r \<Rightarrow> max (r + renewal_days days) (t + renewal_days days));
            thaw = renew_time > t \<and> ma_status m = MM_FROZEN;
            last_renew_type = (if ma_last_renew_type m = HALF \<and> days = HALF then FULL else days)
        in thenE (save_mama_fields m (\<lambda>x. x\<lparr>ma_renew_time := Some renew_time,
             ma_status := (if thaw then MM_EFFECT else ma_status x),
             ma_last_renew_type :=
               (if ma_last_renew_type m \<noteq> last_renew_type then last_renew_type else ma_last_renew_type x)\<rparr>))
           (ret True)))"

section \<open>Relations between sellers\<close>

definition ship_is_confirmed :: "referal_ship \<Rightarrow> bool" where
  "ship_is_confirmed r \<longleftrightarrow> rr_type r = FULL \<or> rr_type r = HALF \<or> rr_type r = ELITE"

definition get_refer_to_relationships :: "pk_id \<Rightarrow> seller_db \<Rightarrow> referal_ship option" where
  "get_refer_to_relationships i s = q_first (filter (\<lambda>r. rr_to_mama_id r = i) (sl_ships s))"

definition get_relationship_by_mama_id :: "pk_id \<Rightarrow> seller_db \<Rightarrow> referal_ship option" where
  "get_relationship_by_mama_id i s = q_first (filter (\<lambda>r. rr_to_mama_id r = i \<and> rr_valid r) (sl_ships s))"

definition get_potential_mama_by_mama_id :: "pk_id \<Rightarrow> seller_db \<Rightarrow> potential_mama option" where
  "get_potential_mama_by_mama_id i s = q_first (filter (\<lambda>p. pm_potential_mama p = i) (sl_potentials s))"

definition get_referal_from_mama :: "mama \<Rightarrow> seller_db \<Rightarrow> mama option" where
  "get_referal_from_mama m s =
     (case get_refer_to_relationships (ma_id m) s of
        None \<Rightarrow> None
      | Some r \<Rightarrow> if rr_from_mama_id r = 0 then None else find_mama (rr_from_mama_id r) s)"

definition get_parent_mama_ids :: "mama \<Rightarrow> seller_db \<Rightarrow> pk_id list" where
  "get_parent_mama_ids m s =
     (case get_refer_to_relationships (ma_id m) s of None \<Rightarrow> [] | Some r \<Rightarrow> [rr_from_mama_id r])
     @ (if ma_last_renew_type m = TRIAL then
          (case get_potential_mama_by_mama_id (ma_id m) s of None \<Rightarrow> [] | Some p \<Rightarrow> [pm_referal_mama p])
        else [])"

definition referred_by :: "pk_id set \<Rightarrow> seller_db \<Rightarrow> pk_id list" where
  "referred_by ids s = map rr_to_mama_id (filter (\<lambda>r. rr_from_mama_id r \<in> ids) (sl_ships s))"

definition get_lv_team_member_ids :: "mama \<Rightarrow> seller_db \<Rightarrow> pk_id list \<times> pk_id list \<times> pk_id list" where
  "get_lv_team_member_ids m s =
     (let lv2 = referred_by {ma_id m} s in ([ma_id m], lv2, referred_by (set lv2) s))"

definition get_team_member_ids :: "mama \<Rightarrow> seller_db \<Rightarrow> pk_id list" where
  "get_team_member_ids m s = ma_id m # referred_by {ma_id m} s"

definition get_family_memeber_ids :: "mama \<Rightarrow> seller_db \<Rightarrow> pk_id list" where
  "get_family_memeber_ids m s =
     ma_id m #
       (case get_refer_to_relationships (ma_id m) s of
          None \<Rightarrow> []
        | Some r \<Rightarrow> (if rr_from_mama_id r = 0 then [] else [rr_from_mama_id r])
            @ (if rr_from_grandma_id r = 0 then [] else [rr_from_grandma_id r]))"

definition get_invite_normal_mama_ids :: "mama \<Rightarrow> seller_db \<Rightarrow> pk_id list" where
  "get_invite_normal_mama_ids m s = referred_by {ma_id m} s"

definition get_invite_potential_mama_ids :: "mama \<Rightarrow> seller_db \<Rightarrow> pk_id list" where
  "get_invite_potential_mama_ids m s =
     map pm_potential_mama (filter (\<lambda>p. pm_referal_mama p = ma_id m) (sl_potentials s))"

definition carry_of :: "pk_id \<Rightarrow> seller_db \<Rightarrow> cents" where
  "carry_of i s = q_sum cr_carry_num (\<lambda>r. cr_mama_id r = i) (sl_records s)"

definition get_activite_num :: "mama \<Rightarrow> seller_db \<Rightarrow> nat" where
  "get_activite_num m s =
     length (filter (\<lambda>i. carry_of i s > 0) (get_invite_normal_mama_ids m s @ get_invite_potential_mama_ids m s))"

definition get_active_invite_potential_mama_ids :: "mama \<Rightarrow> seller_db \<Rightarrow> pk_id list" where
  "get_active_invite_potential_mama_ids m s =
     filter (\<lambda>i. carry_of i s > 0) (get_invite_potential_mama_ids m s)"

text \<open>\<open>get_carry\<close>: a sum over no rows is \<open>None\<close>.\<close>

definition carry_total :: "pk_id \<Rightarrow> carry_status \<Rightarrow> seller_db \<Rightarrow> cents option" where
  "carry_total i st s =
     (let P = (\<lambda>r. cr_mama_id r = i \<and> cr_status r = st)
      in if q_exists P (sl_records s) then Some (q_sum cr_carry_num P (sl_records s)) else None)"

definition get_carry :: "mama \<Rightarrow> seller_db \<Rightarrow> cents option \<times> cents option" where
  "get_carry m s = (carry_total (ma_id m) CARRY_CONFIRMED s, carry_total (ma_id m) CARRY_PENDING s)"

definition get_referal_award :: "referal_ship \<Rightarrow> seller_db \<Rightarrow> award_carry option" where
  "get_referal_award r s =
     q_first (filter (\<lambda>a. aw_mama_id a = rr_from_mama_id r \<and> aw_contributor_mama_id a = rr_to_mama_id r)
       (sl_awards s))"

text \<open>\<open>get_referal_dict\<close>: a seller without relations has no entry.\<close>

definition get_referal_dict :: "pk_id list \<Rightarrow> seller_db \<Rightarrow> pk_id \<Rightarrow> pk_id list option" where
  "get_referal_dict ids s i =
     (let subs = referred_by {i} s in if i \<in> set ids \<and> subs \<noteq> [] then Some subs else None)"

text \<open>
  \<open>get_ship_chain\<close> climbs from a seller to one above, at most ten steps. A step that finds no
  relation changes nothing, so the loop then goes round for ever: the value is \<open>None\<close>.
\<close>

partial_function (option) ship_chain ::
  "referal_ship table \<Rightarrow> pk_id \<Rightarrow> pk_id \<Rightarrow> pk_id list \<Rightarrow> nat \<Rightarrow> pk_id list option" where
  "ship_chain ships lower upper chain c_count =
     (if lower = upper then Some chain
      else
        (case q_first (filter (\<lambda>r. rr_to_mama_id r = lower \<and> rr_valid r) ships) of
           None \<Rightarrow> if c_count \<ge> 10 then Some chain else ship_chain ships lower upper chain c_count
         | Some r \<Rightarrow>
             if c_count + 1 \<ge> 10 then Some (rr_from_mama_id r # chain)
             else ship_chain ships (rr_from_mama_id r) upper (rr_from_mama_id r # chain) (c_count + 1)))"

definition get_ship_chain :: "pk_id \<Rightarrow> pk_id \<Rightarrow> seller_db \<Rightarrow> pk_id list option" where
  "get_ship_chain lower upper s = ship_chain (sl_ships s) lower upper [] 0"

section \<open>Fans\<close>

definition fan_of_customer :: "pk_id \<Rightarrow> seller_db \<Rightarrow> xlmm_fan option" where
  "fan_of_customer i s = q_first (filter (\<lambda>f. xf_fans_cusid f = i) (sl_fans s))"

text \<open>A new fan counts for the fortune of its seller.\<close>

definition insert_fan :: "xlmm_fan \<Rightarrow> (seller_db, unit) prog" where
  "insert_fan f =
     bindE (asks (\<lambda>s. q_exists (\<lambda>g. xf_fans_cusid g = xf_fans_cusid f) (sl_fans s))) (\<lambda>taken.
     if taken then raise IntegrityError
     else
       thenE (modify (\<lambda>s. s\<lparr>sl_fans := sl_fans s
         @ [f\<lparr>xf_id := fresh_pk xf_id (sl_fans s), xf_created := sl_now s\<rparr>]\<rparr>))
       (delay (MAMAFORTUNE_FANS_NUM (xf_xlmm f))))"

definition new_fan :: "pk_id \<Rightarrow> pk_id \<Rightarrow> pk_id \<Rightarrow> customer \<Rightarrow> xlmm_fan" where
  "new_fan xlmm xlmm_cusid refreal_cusid c =
     \<lparr>xf_id = 0, xf_xlmm = xlmm, xf_xlmm_cusid = xlmm_cusid, xf_refreal_cusid = refreal_cusid,
      xf_fans_cusid = cu_id c, xf_nick = cu_nick c, xf_thumbnail = cu_thumbnail c, xf_created = 0\<rparr>"

definition record_fans_num :: "pk_id \<Rightarrow> pk_id \<Rightarrow> (seller_db, unit) prog" where
  "record_fans_num xlmm xlmm_cusid = modify (\<lambda>s.
     let P = (\<lambda>n. fn_xlmm n = xlmm \<and> fn_xlmm_cusid n = xlmm_cusid) in
     s\<lparr>sl_fans_numbers :=
       (if q_exists P (sl_fans_numbers s)
        then q_update P (\<lambda>n. n\<lparr>fn_fans_num := fn_fans_num n + 1\<rparr>) (sl_fans_numbers s)
        else sl_fans_numbers s @ [\<lparr>fn_xlmm = xlmm, fn_xlmm_cusid = xlmm_cusid, fn_fans_num = 1\<rparr>])\<rparr>)"

definition get_customer_row :: "pk_id \<Rightarrow> seller_db \<Rightarrow> py_error + customer" where
  "get_customer_row i s = q_get (\<lambda>c. cu_id c = i) (sl_customers s)"

text \<open>\<open>createFansRecord\<close>: a fan of a fan becomes a fan of the same seller.\<close>

definition createFansRecord :: "pk_id \<Rightarrow> pk_id \<Rightarrow> (seller_db, unit) prog" where
  "createFansRecord from_customer customer =
     (if from_customer = customer then ret ()
      else
        bindE (liftE (get_customer_row customer)) (\<lambda>current_cu.
        bindE (liftE (get_customer_row from_customer)) (\<lambda>from_cu.
        bindE (asks (\<lambda>s. getXiaolumm current_cu (ml_coupons (sl_mall s)))) (\<lambda>xlmm.
        if xlmm \<noteq> None then ret ()
        else
          bindE (asks (\<lambda>s. getXiaolumm from_cu (ml_coupons (sl_mall s)))) (\<lambda>from_xlmm.
          case from_xlmm of
            Some m \<Rightarrow>
              thenE (insert_fan (new_fan (ma_id m) (cu_id from_cu) from_customer current_cu))
              (record_fans_num (ma_id m) (cu_id from_cu))
          | None \<Rightarrow>
              bindE (asks (fan_of_customer (cu_id from_cu))) (\<lambda>fans.
              case fans of
                None \<Rightarrow> ret ()
              | Some f \<Rightarrow>
                  thenE (insert_fan (new_fan (xf_xlmm f) (xf_xlmm_cusid f) from_customer current_cu))
                  (record_fans_num (xf_xlmm f) (xf_xlmm_cusid f))))))))"

definition bind_mama :: "customer \<Rightarrow> mama \<Rightarrow> (seller_db, unit) prog" where
  "bind_mama customer m =
     bindE (asks (\<lambda>s. getXiaolumm customer (ml_coupons (sl_mall s)))) (\<lambda>xlmm.
     if xlmm \<noteq> None then raise (Exn ''a seller is no fan'')
     else
       bindE (asks (fan_of_customer (cu_id customer))) (\<lambda>fan.
       if fan \<noteq> None then raise (Exn ''bound already'')
       else
         bindE (asks (get_mama_customer m)) (\<lambda>c.
         case c of
           None \<Rightarrow> raise AttributeError
         | Some c \<Rightarrow>
             if cu_id c = cu_id customer then raise (Exn ''own fan'')
             else insert_fan (new_fan (ma_id m) (cu_id c) (cu_id c) customer))))"

text \<open>\<open>change_mama\<close> saves the fan and then builds the record of the change from positional
  arguments: the first field of a model is its key, and the fan is no number.\<close>

definition change_mama :: "xlmm_fan \<Rightarrow> mama \<Rightarrow> (seller_db, unit) prog" where
  "change_mama fan m =
     bindE (asks (get_mama_customer m)) (\<lambda>c.
     case c of
       None \<Rightarrow> raise AttributeError
     | Some c \<Rightarrow>
         thenE (modify (\<lambda>s. s\<lparr>sl_fans :=
           tbl_save xf_id (fan\<lparr>xf_xlmm := ma_id m, xf_xlmm_cusid := cu_id c\<rparr>) (sl_fans s)\<rparr>))
         (raise TypeError))"

definition update_nick_thumbnail :: "xlmm_fan \<Rightarrow> string \<Rightarrow> string \<Rightarrow> (seller_db, bool) prog" where
  "update_nick_thumbnail fan nick thumbnail =
     (let nick_new = nick \<noteq> '''' \<and> xf_nick fan \<noteq> nick;
          thumbnail_new = thumbnail \<noteq> '''' \<and> xf_thumbnail fan \<noteq> thumbnail
      in if \<not> nick_new \<and> \<not> thumbnail_new then ret False
         else
           thenE (\<lambda>s. if q_exists (\<lambda>f. xf_id f = xf_id fan) (sl_fans s)
             then (Inr (), s\<lparr>sl_fans := q_update (\<lambda>f. xf_id f = xf_id fan)
               (\<lambda>f. f\<lparr>xf_nick := (if nick_new then nick else xf_nick f),
                 xf_thumbnail := (if thumbnail_new then thumbnail else xf_thumbnail f)\<rparr>) (sl_fans s)\<rparr>)
             else (Inl (Exn ''DatabaseError''), s)) (ret True))"

definition get_fans_referrer_mama_id :: "mama \<Rightarrow> seller_db \<Rightarrow> pk_id" where
  "get_fans_referrer_mama_id m s =
     (case mama_get_customer m s of
        None \<Rightarrow> 0
      | Some c \<Rightarrow> (case fan_of_customer (cu_id c) s of None \<Rightarrow> 0 | Some f \<Rightarrow> xf_xlmm f))"

section \<open>Writing relations\<close>

definition MAMA_FORTUNE_HISTORY_LAST_DAY :: day where
  "MAMA_FORTUNE_HISTORY_LAST_DAY = 736047"

text \<open>\<open>update_mama_fans\<close>, a receiver that runs while a new relation is saved: the referred seller
  becomes a fan of the referring one.\<close>

definition update_mama_fans :: "referal_ship \<Rightarrow> (seller_db, unit) prog" where
  "update_mama_fans r =
     bindE (asks (find_mama (rr_to_mama_id r))) (\<lambda>m.
     case m of
       None \<Rightarrow> ret ()
     | Some m \<Rightarrow>
         bindE (asks (get_mama_customer m)) (\<lambda>c.
         case c of
           None \<Rightarrow> raise AttributeError
         | Some c \<Rightarrow>
             bindE (asks (fan_of_customer (cu_id c))) (\<lambda>fan.
             if fan \<noteq> None then ret ()
             else
               bindE (asks (find_mama (rr_from_mama_id r))) (\<lambda>from_mama.
               case from_mama of
                 None \<Rightarrow> ret ()
               | Some fm \<Rightarrow>
                   bindE (asks (get_mama_customer fm)) (\<lambda>from_customer.
                   case from_customer of
                     None \<Rightarrow> ret ()
                   | Some fc \<Rightarrow> insert_fan (new_fan (rr_from_mama_id r) (cu_id fc) (cu_id fc) c))))))"

definition ship_saved :: "bool \<Rightarrow> referal_ship \<Rightarrow> (seller_db, unit) prog" where
  "ship_saved created r =
     thenE (delay (MAMAFORTUNE_INVITE_NUM (rr_from_mama_id r)))
     (thenE (delay (MAMAFORTUNE_MAMA_LEVEL r))
     (thenE (whenE created (update_mama_fans r))
     (delay_when (day_of (rr_created r) > MAMA_FORTUNE_HISTORY_LAST_DAY) (REFERAL_AWARDCARRY r))))"

definition insert_ship :: "referal_ship \<Rightarrow> (seller_db, referal_ship) prog" where
  "insert_ship r =
     bindE (asks (\<lambda>s. q_exists (\<lambda>x. rr_to_mama_id x = rr_to_mama_id r) (sl_ships s))) (\<lambda>taken.
     if taken then raise IntegrityError
     else
       bindE (asks (\<lambda>s. r\<lparr>rr_id := fresh_pk rr_id (sl_ships s), rr_created := sl_now s\<rparr>)) (\<lambda>r.
       thenE (modify (\<lambda>s. s\<lparr>sl_ships := sl_ships s @ [r]\<rparr>))
       (thenE (ship_saved True r) (ret r))))"

text \<open>\<open>r.save(update_fields=...)\<close> after the changes \<open>f\<close> of the columns.\<close>

definition save_ship_fields :: "referal_ship \<Rightarrow> (referal_ship \<Rightarrow> referal_ship) \<Rightarrow> (seller_db, unit) prog" where
  "save_ship_fields r f =
     bindE (asks (\<lambda>s. q_exists (\<lambda>x. rr_id x = rr_id r) (sl_ships s))) (\<lambda>found.
     if \<not> found then raise (Exn ''DatabaseError'')
     else
       thenE (modify (\<lambda>s. s\<lparr>sl_ships := q_update (\<lambda>x. rr_id x = rr_id r) f (sl_ships s)\<rparr>))
       (ship_saved False (f r)))"

definition grandma_of :: "pk_id \<Rightarrow> seller_db \<Rightarrow> pk_id" where
  "grandma_of i s = (case get_refer_to_relationships i s of None \<Rightarrow> 0 | Some r \<Rightarrow> rr_from_mama_id r)"

definition new_ship :: "pk_id \<Rightarrow> pk_id \<Rightarrow> pk_id \<Rightarrow> string \<Rightarrow> string \<Rightarrow> int \<Rightarrow> string \<Rightarrow> referal_ship" where
  "new_ship grandma from_mama to_mama nick img ty order_id =
     \<lparr>rr_id = 0, rr_from_grandma_id = grandma, rr_from_mama_id = from_mama, rr_to_mama_id = to_mama,
      rr_nick = nick, rr_img = img, rr_order_id = order_id, rr_type = ty, rr_valid = True, rr_created = 0\<rparr>"

text \<open>The number of the order, or of the cash-out, that paid for a potential seller.\<close>

definition potential_order_id :: "potential_mama \<Rightarrow> string" where
  "potential_order_id p =
     (case pm_oid p of
        None \<Rightarrow> ''cashout_id_'' @ (case pm_cashout_id p of None \<Rightarrow> '''' | Some c \<Rightarrow> c)
      | Some oid \<Rightarrow>
          if oid = '''' then ''cashout_id_'' @ (case pm_cashout_id p of None \<Rightarrow> '''' | Some c \<Rightarrow> c) else oid)"

definition create_relationship_by_potential :: "potential_mama \<Rightarrow> (seller_db, referal_ship) prog" where
  "create_relationship_by_potential p =
     bindE (asks (grandma_of (pm_referal_mama p))) (\<lambda>grandma.
     insert_ship (new_ship grandma (pm_referal_mama p) (pm_potential_mama p) (pm_nick p) (pm_thumbnail p)
       (pm_last_renew_type p) (potential_order_id p)))"

text \<open>\<open>update_referal_relationship\<close> gives \<open>None\<close> for a relation that is confirmed with a
  higher type.\<close>

definition update_referal_relationship :: "referal_ship \<Rightarrow> potential_mama \<Rightarrow> (seller_db, bool option) prog" where
  "update_referal_relationship r p =
     (if ship_is_confirmed r \<and> rr_type r > pm_last_renew_type p then ret None
      else
        bindE (asks (grandma_of (pm_referal_mama p))) (\<lambda>grandma.
        let moved = rr_from_mama_id r \<noteq> pm_referal_mama p;
            retyped = rr_type r \<noteq> pm_last_renew_type p;
            reordered = rr_order_id r \<noteq> potential_order_id p
        in if \<not> moved \<and> \<not> retyped \<and> \<not> reordered then ret (Some False)
           else
             thenE (save_ship_fields r (\<lambda>x. x
               \<lparr>rr_from_grandma_id := (if moved then grandma else rr_from_grandma_id x),
                rr_from_mama_id := (if moved then pm_referal_mama p else rr_from_mama_id x),
                rr_type := (if retyped then pm_last_renew_type p else rr_type x),
                rr_order_id := (if reordered then potential_order_id p else rr_order_id x)\<rparr>))
             (ret (Some True))))"

definition change_referal_mama :: "referal_ship \<Rightarrow> pk_id \<Rightarrow> bool \<Rightarrow> (seller_db, bool) prog" where
  "change_referal_mama r upper_mama is_elite =
     bindE (asks (get_relationship_by_mama_id upper_mama)) (\<lambda>upper.
     let grandma = (case upper of None \<Rightarrow> 0 | Some u \<Rightarrow> rr_from_mama_id u);
         moved = rr_from_mama_id r \<noteq> upper_mama;
         grandma_new = rr_from_grandma_id r \<noteq> grandma
     in if \<not> moved \<and> \<not> grandma_new then ret False
        else
          thenE (save_ship_fields r (\<lambda>x. x
            \<lparr>rr_from_mama_id := (if moved then upper_mama else rr_from_mama_id x),
             rr_from_grandma_id := (if grandma_new then grandma else rr_from_grandma_id x),
             rr_type := (if is_elite then ELITE else rr_type x)\<rparr>))
          (ret True))"

section \<open>Potential sellers and deposits\<close>

definition create_potential_mama :: "mama \<Rightarrow> pk_id \<Rightarrow> (seller_db, potential_mama) prog" where
  "create_potential_mama m referrer =
     bindE (asks (\<lambda>s. if referrer = 0 then get_fans_referrer_mama_id m s else referrer)) (\<lambda>referrer.
     bindE (asks (mama_get_customer m)) (\<lambda>c.
     bindE (asks (get_potential_mama_by_mama_id (ma_id m))) (\<lambda>p.
     case p of
       Some p \<Rightarrow> ret p
     | None \<Rightarrow>
         (\<lambda>s. let uni_key = str_nat (ma_id m) @ ''/'' @ str_nat referrer;
                p = \<lparr>pm_id = fresh_pk pm_id (sl_potentials s), pm_potential_mama = ma_id m,
                     pm_referal_mama = referrer, pm_nick = (case c of None \<Rightarrow> '''' | Some c \<Rightarrow> cu_nick c),
                     pm_thumbnail = (case c of None \<Rightarrow> '''' | Some c \<Rightarrow> cu_thumbnail c),
                     pm_uni_key = uni_key, pm_is_full_member = False, pm_last_renew_type = TRIAL,
                     pm_oid = None, pm_cashout_id = None, pm_created = sl_now s\<rparr>
            in if q_exists (\<lambda>q. pm_uni_key q = uni_key) (sl_potentials s) then (Inl IntegrityError, s)
               else (Inr p, s\<lparr>sl_potentials := sl_potentials s @ [p]\<rparr>)))))"

text \<open>\<open>update_potential_by_deposit\<close> puts the dictionary itself, not its name, into
  \<open>update_fields\<close>, of which \<open>save\<close> makes a set; a dictionary cannot be an element.\<close>

definition update_potential_by_deposit :: "pk_id \<Rightarrow> (seller_db, unit) prog" where
  "update_potential_by_deposit i =
     bindE (asks (get_potential_mama_by_mama_id i)) (\<lambda>p.
     case p of None \<Rightarrow> ret () | Some _ \<Rightarrow> raise TypeError)"

text \<open>\<open>get_by_saletrade\<close> and \<open>get_sale_order_mama_id\<close>: the seller whose link the trade came
  through, 0 for none.\<close>

definition trade_mama_id :: "sale_trade \<Rightarrow> pk_id" where
  "trade_mama_id t = (case st_mm_linkid t of None \<Rightarrow> 0 | Some i \<Rightarrow> i)"

definition get_by_saletrade :: "sale_trade \<Rightarrow> seller_db \<Rightarrow> mama option" where
  "get_by_saletrade t s = find_mama (trade_mama_id t) s"

definition referrer_of :: "sale_trade \<Rightarrow> mama \<Rightarrow> customer \<Rightarrow> seller_db \<Rightarrow> pk_id" where
  "referrer_of t m customer s =
     (let i = trade_mama_id t in
      if i \<noteq> 0 \<and> i \<noteq> ma_id m then i
      else
        (let i = (case get_potential_mama_by_mama_id (ma_id m) s of
                    Some p \<Rightarrow> if pm_referal_mama p \<noteq> ma_id m then pm_referal_mama p else i
                  | None \<Rightarrow> i)
         in if i \<noteq> 0 \<and> i \<noteq> ma_id m then i
            else (case fan_of_customer (cu_id customer) s of None \<Rightarrow> 0 | Some f \<Rightarrow> xf_xlmm f)))"

definition relate_by_deposit :: "mama \<Rightarrow> customer \<Rightarrow> pk_id \<Rightarrow> int \<Rightarrow> string \<Rightarrow> (seller_db, unit) prog" where
  "relate_by_deposit m customer link ty oid =
     bindE (asks (get_refer_to_relationships (ma_id m))) (\<lambda>r.
     bindE (asks (grandma_of link)) (\<lambda>grandma.
     case r of
       None \<Rightarrow>
         bindE (insert_ship (new_ship grandma link (ma_id m) (cu_nick customer) (cu_thumbnail customer) ty oid))
         (\<lambda>_. ret ())
     | Some r \<Rightarrow>
         whenE (rr_type r \<le> ty)
           (let moved = rr_from_mama_id r \<noteq> link in
            save_ship_fields r (\<lambda>x. x
              \<lparr>rr_type := ty,
               rr_order_id := (if rr_order_id r \<noteq> oid then oid else rr_order_id x),
               rr_from_mama_id := (if moved then link else rr_from_mama_id x),
               rr_from_grandma_id :=
                 (if moved \<and> rr_from_grandma_id r \<noteq> grandma then grandma else rr_from_grandma_id x)\<rparr>))))"

text \<open>\<open>task_update_referal_relationship\<close>: the deposit of 99 or 188 of a seller-to-be makes or raises
  the relation to the seller above. The deposit of 1 passes the first test but not the last.\<close>

definition deposit_type :: "sale_order \<Rightarrow> shop_db \<Rightarrow> py_error + int option" where
  "deposit_type so s =
     (case is_1_deposit so s of
        Inl e \<Rightarrow> Inl e
      | Inr True \<Rightarrow> Inr (Some TRIAL)
      | Inr False \<Rightarrow>
          (case is_99_deposit so s of
             Inl e \<Rightarrow> Inl e
           | Inr True \<Rightarrow> Inr (Some HALF)
           | Inr False \<Rightarrow> map_sum id (\<lambda>b. if b then Some FULL else None) (is_188_deposit so s)))"

definition task_update_referal_relationship :: "sale_order \<Rightarrow> (seller_db, unit) prog" where
  "task_update_referal_relationship so =
     bindE (liftE (\<lambda>s. get_trade (so_sale_trade so) (ml_shop (sl_mall s)))) (\<lambda>t.
     bindE (liftE (get_customer_row (st_buyer_id t))) (\<lambda>customer.
     bindE (liftE (\<lambda>s. deposit_type so (ml_shop (sl_mall s)))) (\<lambda>ty.
     case ty of
       None \<Rightarrow> ret ()
     | Some ty \<Rightarrow>
         bindE (asks (\<lambda>s. q_first (filter (\<lambda>m. ma_openid m = cu_unionid customer) (sl_mamas s)))) (\<lambda>m.
         case m of
           None \<Rightarrow> ret ()
         | Some m \<Rightarrow>
             bindE (asks (\<lambda>s. find_mama (referrer_of t m customer s) s)) (\<lambda>referal_mm.
             case referal_mm of
               None \<Rightarrow> ret ()
             | Some rm \<Rightarrow>
                 if \<not> is_relationshipable rm \<or> ma_id rm = ma_id m \<or> ty = TRIAL then ret ()
                 else relate_by_deposit m customer (ma_id rm) ty (so_oid so))))))"

text \<open>\<open>change_mama_follow_elite_mama\<close> moves a seller under an elite seller.\<close>

definition change_mama_follow_elite_mama :: "pk_id \<Rightarrow> pk_id \<Rightarrow> referal_from \<Rightarrow> (seller_db, bool) prog" where
  "change_mama_follow_elite_mama i upper direct_info =
     bindE (liftE (get_mama i)) (\<lambda>mm.
     bindE (liftE (get_mama upper)) (\<lambda>um.
     if ma_last_renew_type um < ELITE \<or> \<not> is_elite_mama um then raise (Exn ''not an elite seller'')
     else
       bindE (asks (get_relationship_by_mama_id (ma_id mm))) (\<lambda>relationship.
       thenE
         (whenE (relationship = None)
           (bindE (asks (\<lambda>s. new_ship (grandma_of (ma_id um) s) upper i (mama_nick mm s) (mama_thumbnail mm s)
              ELITE '''')) (\<lambda>r. bindE (insert_ship r) (\<lambda>_. ret ()))))
         (atomic
           (bindE (if ma_charged mm then ret mm else bindE (chargemama mm) (\<lambda>r. ret (snd r))) (\<lambda>mm.
            thenE (save_mama (mm\<lparr>ma_last_renew_type :=
                (if ma_last_renew_type mm \<in> {TRIAL, SCAN} then ELITE else ma_last_renew_type mm),
                ma_referal_from := direct_info\<rparr>))
            (thenE (case relationship of
                None \<Rightarrow> ret ()
              | Some r \<Rightarrow> bindE (change_referal_mama r upper True) (\<lambda>_. ret ()))
            (ret True)))))))) "

section \<open>Tables of awards and targets\<close>

text \<open>The loop counts the entries up to the number; at 0 the index of the result is that of the last
  entry.\<close>

fun entries_upto :: "(int \<times> int) list \<Rightarrow> int \<Rightarrow> nat" where
  "entries_upto [] num = 0"
| "entries_upto (e # es) num = (if num < fst e then 0 else Suc (entries_upto es num))"

definition entry_at :: "(int \<times> int) list \<Rightarrow> nat \<Rightarrow> int" where
  "entry_at es idx = snd (if idx = 0 then last es else es ! (idx - 1))"

definition award_carry_array99 :: "(int \<times> int) list" where
  "award_carry_array99 = [(0, 0), (1, 1500), (4, 2000), (8, 2500), (21, 3500), (41, 4500), (101, 5500)]"

definition award_carry_array188 :: "(int \<times> int) list" where
  "award_carry_array188 = [(0, 0), (1, 3000), (4, 4000), (8, 5000), (21, 7000), (41, 9000), (101, 11000)]"

definition group_carry_array :: "(int \<times> int) list" where
  "group_carry_array = [(0, 0), (50, 1000), (200, 1500), (500, 2000), (1000, 3000)]"

definition get_award_carry_num :: "int \<Rightarrow> int \<Rightarrow> cents" where
  "get_award_carry_num num referal_type =
     (let es = (if referal_type = HALF then award_carry_array99 else award_carry_array188)
      in entry_at es (entries_upto es num))"

definition get_group_carry_num :: "int \<Rightarrow> cents" where
  "get_group_carry_num num = entry_at group_carry_array (entries_upto group_carry_array num)"

definition get_mama_target_stage :: "int \<Rightarrow> int" where
  "get_mama_target_stage value =
     (if value < 3000 then 0
      else if value \<le> 50000 then (value - 3000) div 10000 + 1
      else (value - 50000) div 12000 + 5)"

definition get_mama_stage_target :: "int \<Rightarrow> int" where
  "get_mama_stage_target stage =
     (if stage < 1 then 10000 else if stage < 6 then stage * 10000 else 50000 + (stage - 5) * 12000)"

definition get_mama_sale_grade_award :: "int \<Rightarrow> cents" where
  "get_mama_sale_grade_award grade = grade div 30000 * 1500"

definition get_mama_sale_combo_award :: "int \<Rightarrow> cents" where
  "get_mama_sale_combo_award n = n * 1500"

section \<open>Rebate schemes\<close>

definition get_default_scheme :: "seller_db \<Rightarrow> rebeta_scheme option" where
  "get_default_scheme s = q_first (filter (\<lambda>r. rs_normal r \<and> rs_is_default r) (sl_schemes s))"

definition get_rebeta_scheme :: "pk_id \<Rightarrow> seller_db \<Rightarrow> rebeta_scheme option" where
  "get_rebeta_scheme i s =
     (case q_first (filter (\<lambda>r. rs_normal r \<and> rs_id r = i) (sl_schemes s)) of
        None \<Rightarrow> get_default_scheme s
      | Some r \<Rightarrow> Some r)"

definition get_Mama_Order_Rebeta_Scheme :: "product \<Rightarrow> seller_db \<Rightarrow> rebeta_scheme option" where
  "get_Mama_Order_Rebeta_Scheme p s =
     get_rebeta_scheme (case prod_model p of None \<Rightarrow> 0 | Some mp \<Rightarrow> mp_rebeta_scheme_id mp) s"

definition get_scheme_rebeta :: "rebeta_scheme \<Rightarrow> int \<Rightarrow> yuan \<Rightarrow> py_error + yuan" where
  "get_scheme_rebeta sch agencylevel payment =
     (let rebeta_rate = (case map_of (rs_agency_rebetas sch) (str_int agencylevel) of None \<Rightarrow> 0 | Some r \<Rightarrow> r);
          rebeta_amount = payment * rebeta_rate
      in if rebeta_amount > payment then Inl (Exn ''rebate above the payment'') else Inr rebeta_amount)"

definition MAX_PAYMENT :: int where "MAX_PAYMENT = 200"

text \<open>\<open>int(s)\<close> of digits with an optional minus sign; other strings raise \<open>ValueError\<close>.\<close>

definition int_of_str :: "string \<Rightarrow> int option" where
  "int_of_str s =
     (case s of
        [] \<Rightarrow> None
      | c # cs \<Rightarrow> if c = CHR ''-'' then map_option (\<lambda>n. - int n) (nat_of_str cs)
                 else map_option int (nat_of_str s))"

text \<open>The loop over the sorted keys: the index of the last one before the first above the payment.\<close>

fun real_index :: "int \<Rightarrow> int \<Rightarrow> int \<Rightarrow> int list \<Rightarrow> int" where
  "real_index payment index found [] = found"
| "real_index payment index found (key # keys) =
     (if key > payment then found else real_index payment (index + 1) index keys)"

definition price_step :: "yuan \<Rightarrow> int" where
  "price_step price = min (py_round (of_int (py_int price) / 10) * 10) MAX_PAYMENT"

definition price_carry :: "(string \<times> rat) list \<Rightarrow> int \<Rightarrow> py_error + rat option" where
  "price_carry carry_rules payment =
     (case those (map (\<lambda>kv. int_of_str (fst kv)) carry_rules) of
        None \<Rightarrow> Inl (Exn ''ValueError'')
      | Some keys \<Rightarrow>
          (let key_list = sort keys;
               i = real_index payment 0 (- 1) key_list
           in if i \<ge> 0 then Inr (map_of carry_rules (str_int (key_list ! nat i))) else Inr (Some 0)))"

text \<open>\<open>calculate_carry\<close>: what a seller of a level earns on a product of this price; \<open>None\<close>
  when the text of a key is not that of its number.\<close>

definition calculate_carry :: "rebeta_scheme \<Rightarrow> int \<Rightarrow> yuan \<Rightarrow> py_error + rat option" where
  "calculate_carry sch agencylevel price =
     (if \<not> rs_price_active sch then map_sum id Some (get_scheme_rebeta sch agencylevel price)
      else
        (case map_of (rs_price_rebetas sch) (str_int agencylevel) of
           None \<Rightarrow> Inr (Some 0)
         | Some carry_rules \<Rightarrow> if carry_rules = [] then Inr (Some 0) else price_carry carry_rules (price_step price)))"

end
