(* ===== verification/Carry.thy ===== *)
theory Carry
  imports Sellers
begin

text \<open>
  The earnings of sellers (\<open>src/flashsale/xiaolumm/models/models_fortune.py\<close> and
  \<open>src/flashsale/xiaolumm/tasks\<close>). An \<open>OrderCarry\<close> is what a seller earns on an order, an
  \<open>AwardCarry\<close> a bonus; each is mirrored, by its \<open>uni_key\<close>, in a \<open>CarryRecord\<close>, and
  a record of a positive amount in a movement of the seller's wallet. The mirrors are written by tasks
  that hold the object as it was when it was saved, so they may run late and in any order. The first part
  has the records, the statistics and the counters of the fortune, the second the order and award
  earnings, the third the queue of tasks.
\<close>

section \<open>Carry records\<close>

text \<open>The receivers of \<open>post_save\<close>.\<close>

definition carry_saved :: "carry_record \<Rightarrow> (seller_db, unit) prog" where
  "carry_saved r =
     thenE (delay (CARRYRECORD_DAILYSTATS (cr_mama_id r) (cr_date_field r)))
     (bindE (asks (find_mama (cr_mama_id r))) (\<lambda>m.
      delay_when (case m of None \<Rightarrow> False | Some m \<Rightarrow> \<not> ma_active m)
        (CARRYRECORD_ACTIVE_HASALE (cr_mama_id r))))"

definition insert_carry :: "carry_record \<Rightarrow> (seller_db, carry_record) prog" where
  "insert_carry r =
     bindE (asks (\<lambda>s. q_exists (\<lambda>q. cr_uni_key q = cr_uni_key r) (sl_records s))) (\<lambda>taken.
     if taken then raise IntegrityError
     else
       bindE (asks (\<lambda>s. r\<lparr>cr_id := fresh_pk cr_id (sl_records s)\<rparr>)) (\<lambda>r.
       thenE (modify (\<lambda>s. s\<lparr>sl_records := sl_records s @ [r]\<rparr>))
       (thenE (carry_saved r) (ret r))))"

definition save_carry :: "carry_record \<Rightarrow> (seller_db, unit) prog" where
  "save_carry r =
     thenE (modify (\<lambda>s. s\<lparr>sl_records := tbl_save cr_id r (sl_records s)\<rparr>)) (carry_saved r)"

fun budget_log_status_map :: "carry_status \<Rightarrow> budget_status" where
  "budget_log_status_map CARRY_PENDING = BL_PENDING"
| "budget_log_status_map CARRY_CONFIRMED = BL_CONFIRMED"
| "budget_log_status_map CARRY_CANCEL = BL_CANCELED"

fun budget_log_type_map :: "carry_type \<Rightarrow> budget_log_type" where
  "budget_log_type_map CR_CLICK = BG_CLICK"
| "budget_log_type_map CR_ORDER = BG_ORDER"
| "budget_log_type_map CR_RECOMMEND = BG_AWARD"

definition carry_referal_id :: "pk_id \<Rightarrow> string" where
  "carry_referal_id i = ''carryrecord-'' @ str_nat i"

text \<open>The movement of a record: \<open>BudgetLog.objects.filter(referal_id=...).first()\<close>.\<close>

definition carry_log :: "pk_id \<Rightarrow> seller_db \<Rightarrow> budget_log option" where
  "carry_log i s = q_first (filter (\<lambda>l. bl_referal_id l = carry_referal_id i) (w_logs (sl_wallet s)))"

definition pay_carry :: "carry_record \<Rightarrow> customer option \<Rightarrow> (seller_db, unit) prog" where
  "pay_carry r customer =
     (case customer of
        None \<Rightarrow> raise AttributeError
      | Some c \<Rightarrow>
          bindE (do_budget (budget_log_create (cu_id c) BUDGET_IN (cr_carry_num r)
            (budget_log_type_map (cr_carry_type r)) None (carry_referal_id (cr_id r))
            (Some (budget_log_status_map (cr_status r))) None)) (\<lambda>_. ret ()))"

text \<open>
  \<open>CarryRecord.create\<close>. The amount may have a fraction of a cent; the record and the movement
  keep the whole cents, while the test for a positive amount is made on the fraction.
\<close>

definition carry_create ::
  "pk_id \<Rightarrow> rat \<Rightarrow> carry_type \<Rightarrow> string option \<Rightarrow> carry_status option \<Rightarrow>
   (seller_db, carry_record option) prog" where
  "carry_create mid num ty uni_key status =
     (if status = Some CARRY_CANCEL then ret None
      else
        bindE (asks (\<lambda>s. \<lparr>cr_id = 0, cr_mama_id = mid, cr_carry_num = py_int num, cr_carry_type = ty,
          cr_date_field = sl_today s, cr_uni_key = arg_or uni_key '''',
          cr_status = (case status of None \<Rightarrow> CARRY_CONFIRMED | Some st \<Rightarrow> st)\<rparr>)) (\<lambda>r.
        bindE (insert_carry r) (\<lambda>r.
        bindE (liftE (get_mama mid)) (\<lambda>m.
        bindE (asks (get_mama_customer m)) (\<lambda>customer.
        thenE (whenE (num > 0) (pay_carry r customer)) (ret (Some r)))))))"

text \<open>\<open>self.mama.get_mama_customer()\<close>\<close>

definition carry_customer :: "carry_record \<Rightarrow> seller_db \<Rightarrow> py_error + customer option" where
  "carry_customer r s =
     (case find_mama (cr_mama_id r) s of None \<Rightarrow> Inl AttributeError | Some m \<Rightarrow> Inr (get_mama_customer m s))"

definition carry_confirm :: "carry_record \<Rightarrow> (seller_db, unit) prog" where
  "carry_confirm self =
     (if cr_status self \<noteq> CARRY_PENDING then ret ()
      else
        (let r = self\<lparr>cr_status := CARRY_CONFIRMED\<rparr> in
         thenE (save_carry r)
         (bindE (liftE (carry_customer r)) (\<lambda>customer.
          atomic
            (bindE (asks (carry_log (cr_id r))) (\<lambda>bg.
             case bg of
               Some bg \<Rightarrow> bindE (do_budget (confirm_budget_log bg)) (\<lambda>_. ret ())
             | None \<Rightarrow> whenE (cr_carry_num r > 0) (pay_carry r customer)))))))"

text \<open>A cancelled record confirms its movement, if it has one, and takes the same amount out.\<close>

definition carry_cancel :: "carry_record \<Rightarrow> (seller_db, unit) prog" where
  "carry_cancel self =
     (if cr_status self = CARRY_CANCEL then ret ()
      else
        (let r = self\<lparr>cr_status := CARRY_CANCEL\<rparr> in
         thenE (save_carry r)
         (bindE (asks (carry_log (cr_id r))) (\<lambda>bg.
          case bg of
            None \<Rightarrow> ret ()
          | Some bg \<Rightarrow>
              thenE (do_budget (confirm_budget_log bg))
              (bindE (do_budget (budget_log_create (bl_customer_id bg) BUDGET_OUT (bl_flow_amount bg)
                 BG_CARRY_CANCEL None '''' None None)) (\<lambda>_. ret ()))))))"

definition changePendingCarryAmount :: "carry_record \<Rightarrow> cents \<Rightarrow> (seller_db, unit) prog" where
  "changePendingCarryAmount self new_value =
     (if cr_status self \<noteq> CARRY_PENDING then ret ()
      else
        (let r = self\<lparr>cr_carry_num := new_value\<rparr> in
         thenE (save_carry r)
         (bindE (liftE (carry_customer r)) (\<lambda>customer.
          atomic
            (bindE (asks (carry_log (cr_id r))) (\<lambda>bg.
             case bg of
               Some bg \<Rightarrow> do_budget (chnage_peding_income_amount bg new_value)
             | None \<Rightarrow> whenE (cr_carry_num r > 0) (pay_carry r customer)))))))"

definition record_by_key :: "string \<Rightarrow> seller_db \<Rightarrow> carry_record option" where
  "record_by_key k s = q_first (filter (\<lambda>r. cr_uni_key r = k) (sl_records s))"

definition set_carry_status :: "carry_record \<Rightarrow> carry_status \<Rightarrow> (seller_db, unit) prog" where
  "set_carry_status r st =
     thenE (whenE (st = CARRY_CONFIRMED) (carry_confirm r))
     (whenE (st = CARRY_CANCEL) (carry_cancel r))"

definition task_awardcarry_update_carryrecord :: "award_carry \<Rightarrow> (seller_db, unit) prog" where
  "task_awardcarry_update_carryrecord carry =
     (if aw_mama_id carry = 0 then ret ()
      else
        bindE (asks (record_by_key (aw_uni_key carry))) (\<lambda>r.
        case r of
          Some r \<Rightarrow>
            if cr_status r \<noteq> aw_status carry then set_carry_status r (aw_status carry)
            else if cr_carry_num r \<noteq> aw_carry_num carry then
              whenE (cr_status r = CARRY_PENDING) (changePendingCarryAmount r (aw_carry_num carry))
            else ret ()
        | None \<Rightarrow>
            whenE (aw_carry_num carry > 0)
              (bindE (carry_create (aw_mama_id carry) (of_int (aw_carry_num carry)) CR_RECOMMEND
                 (Some (aw_uni_key carry)) (Some (aw_status carry))) (\<lambda>_. ret ()))))"

fun carry_record_status :: "order_carry_status \<Rightarrow> carry_status" where
  "carry_record_status OC_STAGING = CARRY_PENDING"
| "carry_record_status OC_ESTIMATE = CARRY_PENDING"
| "carry_record_status OC_CONFIRM = CARRY_CONFIRMED"
| "carry_record_status OC_CANCEL = CARRY_CANCEL"

definition task_ordercarry_update_carryrecord :: "order_carry \<Rightarrow> (seller_db, unit) prog" where
  "task_ordercarry_update_carryrecord carry =
     (if oc_mama_id carry = 0 then ret ()
      else
        (let st = carry_record_status (oc_status carry) in
         bindE (asks (record_by_key (oc_uni_key carry))) (\<lambda>r.
         case r of
           Some r \<Rightarrow> whenE (cr_status r \<noteq> st) (set_carry_status r st)
         | None \<Rightarrow>
             bindE (carry_create (oc_mama_id carry) (oc_carry_num carry) CR_ORDER
               (Some (oc_uni_key carry)) (Some st)) (\<lambda>_. ret ()))))"

section \<open>Daily statistics\<close>

definition gen_dailystats_unikey :: "pk_id \<Rightarrow> day \<Rightarrow> string" where
  "gen_dailystats_unikey mid d = str_nat mid @ ''-'' @ str_day d"

text \<open>What a seller earned on a day, whatever became of it except cancelled.\<close>

definition carry_of_day :: "pk_id \<Rightarrow> day \<Rightarrow> seller_db \<Rightarrow> cents" where
  "carry_of_day mid d s =
     q_sum cr_carry_num (\<lambda>r. cr_mama_id r = mid \<and> cr_date_field r = d \<and> cr_status r \<noteq> CARRY_CANCEL)
       (sl_records s)"

definition create_dailystats ::
  "pk_id \<Rightarrow> day \<Rightarrow> (daily_stats \<Rightarrow> daily_stats) \<Rightarrow> (seller_db, unit) prog" where
  "create_dailystats mid d f =
     thenE (modify (\<lambda>s. s\<lparr>sl_dailystats := sl_dailystats s
       @ [f \<lparr>ds_id = fresh_pk ds_id (sl_dailystats s), ds_mama_id = mid, ds_today_visitor_num = 0,
             ds_today_order_num = 0, ds_today_carry_num = 0, ds_uni_key = gen_dailystats_unikey mid d,
             ds_date_field = d, ds_confirmed = False\<rparr>]\<rparr>))
     (delay (CONFIRM_DAILYSTATS mid d))"

text \<open>The three tasks on the statistics of a day write the row of the day's key, or a new row.\<close>

definition write_dailystats ::
  "pk_id \<Rightarrow> day \<Rightarrow> (daily_stats \<Rightarrow> daily_stats) \<Rightarrow> (seller_db, unit) prog" where
  "write_dailystats mid d f =
     bindE (asks (\<lambda>s. q_exists (\<lambda>x. ds_uni_key x = gen_dailystats_unikey mid d) (sl_dailystats s))) (\<lambda>found.
     if found then modify (\<lambda>s. s\<lparr>sl_dailystats :=
       q_update (\<lambda>x. ds_uni_key x = gen_dailystats_unikey mid d) f (sl_dailystats s)\<rparr>)
     else create_dailystats mid d f)"

definition task_carryrecord_update_dailystats :: "pk_id \<Rightarrow> day \<Rightarrow> (seller_db, unit) prog" where
  "task_carryrecord_update_dailystats mid d =
     bindE (asks (carry_of_day mid d)) (\<lambda>n. write_dailystats mid d (\<lambda>x. x\<lparr>ds_today_carry_num := n\<rparr>))"

definition task_ordercarry_increment_dailystats :: "pk_id \<Rightarrow> day \<Rightarrow> (seller_db, unit) prog" where
  "task_ordercarry_increment_dailystats mid d =
     write_dailystats mid d (\<lambda>x. x\<lparr>ds_today_order_num := ds_today_order_num x + 1\<rparr>)"

definition task_visitor_increment_dailystats :: "pk_id \<Rightarrow> day \<Rightarrow> (seller_db, unit) prog" where
  "task_visitor_increment_dailystats mid d =
     write_dailystats mid d (\<lambda>x. x\<lparr>ds_today_visitor_num := ds_today_visitor_num x + 1\<rparr>)"

definition confirmed_stats :: "seller_db \<Rightarrow> daily_stats \<Rightarrow> daily_stats" where
  "confirmed_stats s x =
     (let mid = ds_mama_id x; d = ds_date_field x in
      x\<lparr>ds_today_visitor_num := int (q_count (\<lambda>v. uv_mama_id v = mid \<and> uv_date_field v = d) (sl_visitors s)),
        ds_today_order_num := int (q_count (\<lambda>o'. oc_mama_id o' = mid \<and> oc_date_field o' = d) (sl_order_carrys s)),
        ds_today_carry_num := carry_of_day mid d s, ds_confirmed := True\<rparr>)"

definition task_confirm_previous_dailystats :: "pk_id \<Rightarrow> day \<Rightarrow> int \<Rightarrow> (seller_db, unit) prog" where
  "task_confirm_previous_dailystats mid today num_days =
     bindE (asks (\<lambda>s. take 7 (sort_key (\<lambda>x. - ds_date_field x)
       (filter (\<lambda>x. ds_mama_id x = mid \<and> ds_date_field x \<le> today - num_days \<and> \<not> ds_confirmed x)
          (sl_dailystats s))))) (\<lambda>records.
     forE (\<lambda>x. modify (\<lambda>s. s\<lparr>sl_dailystats := tbl_save ds_id (confirmed_stats s x) (sl_dailystats s)\<rparr>)) records)"

section \<open>Counters of the fortune\<close>

definition new_fortune :: "pk_id \<Rightarrow> seller_db \<Rightarrow> mama_fortune" where
  "new_fortune mid s =
     \<lparr>mf_id = fresh_pk mf_id (sl_fortunes s), mf_mama_id = mid, mf_mama_name = '''', mf_mama_level = 0,
      mf_fans_num = 0, mf_invite_num = 0, mf_invite_trial_num = 0, mf_invite_all_num = 0,
      mf_active_normal_num = 0, mf_active_trial_num = 0, mf_active_all_num = 0, mf_hasale_normal_num = 0,
      mf_hasale_trial_num = 0, mf_hasale_all_num = 0, mf_order_num = 0, mf_carry_pending = 0,
      mf_carry_confirmed = 0, mf_carry_cashout = 0, mf_history_pending = 0, mf_history_confirmed = 0,
      mf_history_cashout = 0, mf_history_last_day = MAMA_FORTUNE_HISTORY_LAST_DAY,
      mf_active_value_num = 0, mf_today_visitor_num = 0, mf_extras = ''''\<rparr>"

definition modify_fortunes :: "(mama_fortune table \<Rightarrow> mama_fortune table) \<Rightarrow> (seller_db, unit) prog" where
  "modify_fortunes f = modify (\<lambda>s. s\<lparr>sl_cash := m_fortunes_update f (sl_cash s)\<rparr>)"

text \<open>The tasks on a fortune update its row, or make it with \<open>create_mamafortune_with_integrity\<close>.\<close>

definition write_fortune :: "pk_id \<Rightarrow> (mama_fortune \<Rightarrow> mama_fortune) \<Rightarrow> (seller_db, unit) prog" where
  "write_fortune mid f =
     bindE (asks (\<lambda>s. q_exists (\<lambda>x. mf_mama_id x = mid) (sl_fortunes s))) (\<lambda>found.
     if found then modify_fortunes (q_update (\<lambda>x. mf_mama_id x = mid) f)
     else bindE (asks (new_fortune mid)) (\<lambda>x. modify_fortunes (\<lambda>t. t @ [f x])))"

definition task_xiaolumama_update_mamafortune :: "pk_id \<Rightarrow> cents \<Rightarrow> (seller_db, unit) prog" where
  "task_xiaolumama_update_mamafortune mid cash = write_fortune mid (\<lambda>x. x\<lparr>mf_history_confirmed := cash\<rparr>)"

definition live_orders_of :: "pk_id \<Rightarrow> seller_db \<Rightarrow> nat" where
  "live_orders_of mid s = q_count (\<lambda>o'. oc_mama_id o' = mid \<and> oc_status o' \<noteq> OC_CANCEL) (sl_order_carrys s)"

definition task_update_mamafortune_order_num :: "pk_id \<Rightarrow> (seller_db, unit) prog" where
  "task_update_mamafortune_order_num mid =
     bindE (asks (live_orders_of mid)) (\<lambda>n. write_fortune mid (\<lambda>x. x\<lparr>mf_order_num := int n\<rparr>))"

definition task_update_mamafortune_fans_num :: "pk_id \<Rightarrow> (seller_db, unit) prog" where
  "task_update_mamafortune_fans_num mid =
     bindE (asks (\<lambda>s. q_count (\<lambda>f. xf_xlmm f = mid) (sl_fans s))) (\<lambda>n.
     write_fortune mid (\<lambda>x. x\<lparr>mf_fans_num := int n\<rparr>))"

definition invites_of :: "pk_id \<Rightarrow> seller_db \<Rightarrow> int \<times> int" where
  "invites_of mid s =
     (int (q_count (\<lambda>r. rr_from_mama_id r = mid \<and> \<not> rr_type r < ELITE) (sl_ships s)),
      int (q_count (\<lambda>r. rr_from_mama_id r = mid \<and> rr_type r < ELITE) (sl_ships s)))"

definition task_update_mamafortune_invite_num :: "pk_id \<Rightarrow> (seller_db, unit) prog" where
  "task_update_mamafortune_invite_num mid =
     bindE (asks (invites_of mid)) (\<lambda>(invite, trial).
     write_fortune mid (\<lambda>x. x\<lparr>mf_invite_num := invite, mf_invite_trial_num := trial,
       mf_invite_all_num := invite + trial\<rparr>))"

text \<open>\<open>task_update_mamafortune_mama_level\<close> counts but gives every seller level 0.\<close>

definition task_update_mamafortune_mama_level :: "referal_ship \<Rightarrow> (seller_db, unit) prog" where
  "task_update_mamafortune_mama_level r =
     write_fortune (rr_from_grandma_id r) (\<lambda>x. x\<lparr>mf_mama_level := 0\<rparr>)"

text \<open>\<open>MamaFortune.get_by_mamaid\<close>\<close>

definition get_by_mamaid :: "pk_id \<Rightarrow> (seller_db, mama_fortune) prog" where
  "get_by_mamaid mid =
     bindE (asks (\<lambda>s. q_first (filter (\<lambda>f. mf_mama_id f = mid) (sl_fortunes s)))) (\<lambda>f.
     case f of
       Some f \<Rightarrow> ret f
     | None \<Rightarrow>
         bindE (asks (find_mama mid)) (\<lambda>m.
         if m = None then raise (Exn ''no such seller'')
         else
           bindE (asks (new_fortune mid)) (\<lambda>f.
           thenE (modify_fortunes (\<lambda>t. t @ [f])) (ret f))))"

definition get_wallet_cash :: "mama \<Rightarrow> (seller_db, cents) prog" where
  "get_wallet_cash m = bindE (get_by_mamaid (ma_id m)) (\<lambda>f. ret (cash_num_cents f))"

definition invited_count :: "mama \<Rightarrow> (mama \<Rightarrow> bool) \<Rightarrow> seller_db \<Rightarrow> int" where
  "invited_count m P s =
     (let ids = get_invite_normal_mama_ids m s @ get_invite_potential_mama_ids m s
      in int (q_count (\<lambda>x. ma_id x \<in> set ids \<and> P x) (sl_mamas s)))"

definition task_update_mamafortune_active_num :: "pk_id \<Rightarrow> (seller_db, unit) prog" where
  "task_update_mamafortune_active_num mid =
     bindE (get_by_mamaid mid) (\<lambda>f.
     bindE (asks (find_mama mid)) (\<lambda>m.
     case m of
       None \<Rightarrow> raise AttributeError
     | Some m \<Rightarrow>
         bindE (asks (\<lambda>s. f
           \<lparr>mf_active_normal_num := invited_count m (\<lambda>x. ma_active x \<and> ma_last_renew_type x \<in> {365, 183}) s,
            mf_active_trial_num := invited_count m (\<lambda>x. ma_active x \<and> ma_last_renew_type x = 15) s,
            mf_active_all_num := invited_count m ma_active s\<rparr>)) (\<lambda>g.
         whenE (g \<noteq> f) (modify_fortunes (tbl_save mf_id g)))))"

definition task_update_mamafortune_hasale_num :: "pk_id \<Rightarrow> (seller_db, unit) prog" where
  "task_update_mamafortune_hasale_num mid =
     bindE (get_by_mamaid mid) (\<lambda>f.
     bindE (asks (find_mama mid)) (\<lambda>m.
     case m of
       None \<Rightarrow> raise AttributeError
     | Some m \<Rightarrow>
         bindE (asks (\<lambda>s. f
           \<lparr>mf_hasale_normal_num := invited_count m (\<lambda>x. ma_hasale x \<and> ma_last_renew_type x \<in> {365, 183}) s,
            mf_hasale_trial_num := invited_count m (\<lambda>x. ma_hasale x \<and> ma_last_renew_type x = 15) s,
            mf_hasale_all_num := invited_count m ma_hasale s\<rparr>)) (\<lambda>g.
         whenE (g \<noteq> f) (modify_fortunes (tbl_save mf_id g)))))"

text \<open>\<open>carryrecord_update_xiaolumama_active_hasale\<close>: the first live earning of a kind makes a
  seller active or selling, and the seller above counts again.\<close>

definition has_carry :: "pk_id \<Rightarrow> carry_type \<Rightarrow> seller_db \<Rightarrow> bool" where
  "has_carry mid ty s \<longleftrightarrow>
     q_exists (\<lambda>r. cr_mama_id r = mid \<and> cr_carry_type r = ty \<and> cr_status r \<noteq> CARRY_CANCEL) (sl_records s)"

definition carryrecord_update_xiaolumama_active_hasale :: "pk_id \<Rightarrow> (seller_db, unit) prog" where
  "carryrecord_update_xiaolumama_active_hasale mid =
     bindE (liftE (get_mama mid)) (\<lambda>m.
     bindE (asks (\<lambda>s. \<not> ma_active m \<and> has_carry mid CR_CLICK s)) (\<lambda>active.
     bindE (if active then mama_set_active m else ret m) (\<lambda>m.
     bindE (asks (\<lambda>s. \<not> ma_hasale m \<and> has_carry mid CR_ORDER s)) (\<lambda>hasale.
     bindE (if hasale then mama_set_hasale m else ret m) (\<lambda>m.
     bindE (asks (get_parent_mama_ids m)) (\<lambda>parents.
     forE (\<lambda>i. whenE (i > 0) (task_update_mamafortune_active_num i)) parents))))))"

section \<open>Earnings on orders\<close>

definition gen_ordercarry_unikey :: "order_carry_type \<Rightarrow> string \<Rightarrow> string" where
  "gen_ordercarry_unikey ty order_id =
     join_with ''-'' [''order'', str_nat (if ty \<in> {WAP_ORDER, APP_ORDER} then 1 else order_carry_type_code ty),
       order_id]"

definition is_direct_or_fans_carry :: "order_carry \<Rightarrow> bool" where
  "is_direct_or_fans_carry oc \<longleftrightarrow> oc_carry_type oc \<in> {WAP_ORDER, APP_ORDER}"

text \<open>The receivers of \<open>post_save\<close>, which hand the object on as it is. A relation counts when it is
  older than the earning.\<close>

definition upper_ship :: "order_carry \<Rightarrow> seller_db \<Rightarrow> referal_ship option" where
  "upper_ship oc s =
     q_first (filter (\<lambda>r. rr_to_mama_id r = oc_mama_id oc \<and> rr_created r < oc_created oc) (sl_ships s))"

definition order_carry_saved :: "bool \<Rightarrow> order_carry \<Rightarrow> (seller_db, unit) prog" where
  "order_carry_saved created oc =
     thenE (delay (ORDERCARRY_CARRYRECORD oc))
     (thenE (whenE (is_direct_or_fans_carry oc)
        (bindE (asks (upper_ship oc)) (\<lambda>r.
         case r of None \<Rightarrow> ret () | Some r \<Rightarrow> delay (SECOND_LEVEL_ORDERCARRY r oc))))
     (thenE (delay (MAMAFORTUNE_ORDER_NUM (oc_mama_id oc)))
     (delay_when created (ORDERCARRY_DAILYSTATS (oc_mama_id oc) (oc_date_field oc)))))"

definition whole_cents :: "order_carry \<Rightarrow> order_carry" where
  "whole_cents oc = oc\<lparr>oc_carry_num := of_int (py_int (oc_carry_num oc))\<rparr>"

definition insert_order_carry :: "order_carry \<Rightarrow> (seller_db, unit) prog" where
  "insert_order_carry oc =
     bindE (asks (\<lambda>s. q_exists (\<lambda>x. oc_uni_key x = oc_uni_key oc) (sl_order_carrys s))) (\<lambda>taken.
     if taken then raise IntegrityError
     else
       bindE (asks (\<lambda>s. oc\<lparr>oc_id := fresh_pk oc_id (sl_order_carrys s), oc_created := sl_now s,
         oc_modified := sl_now s\<rparr>)) (\<lambda>oc.
       thenE (modify (\<lambda>s. s\<lparr>sl_order_carrys := sl_order_carrys s @ [whole_cents oc]\<rparr>))
       (order_carry_saved True oc)))"

definition save_order_carry_fields :: "order_carry \<Rightarrow> (order_carry \<Rightarrow> order_carry) \<Rightarrow> (seller_db, unit) prog" where
  "save_order_carry_fields oc f =
     bindE (asks (\<lambda>s. q_exists (\<lambda>x. oc_id x = oc_id oc) (sl_order_carrys s))) (\<lambda>found.
     if \<not> found then raise (Exn ''DatabaseError'')
     else
       bindE (asks (\<lambda>s x. (f x)\<lparr>oc_modified := sl_now s\<rparr>)) (\<lambda>f.
       thenE (modify (\<lambda>s. s\<lparr>sl_order_carrys :=
         q_update (\<lambda>x. oc_id x = oc_id oc) (\<lambda>x. whole_cents (f x)) (sl_order_carrys s)\<rparr>))
       (order_carry_saved False (f oc))))"

definition set_order_carry_status :: "order_carry \<Rightarrow> order_carry_status \<Rightarrow> (seller_db, unit) prog" where
  "set_order_carry_status oc st =
     whenE (oc_status oc \<noteq> st) (save_order_carry_fields oc (\<lambda>x. x\<lparr>oc_status := st\<rparr>))"

definition order_carry_by_key :: "string \<Rightarrow> seller_db \<Rightarrow> order_carry option" where
  "order_carry_by_key k s = q_first (filter (\<lambda>x. oc_uni_key x = k) (sl_order_carrys s))"

text \<open>\<open>except IntegrityError: logger.warn(...)\<close>\<close>

definition unless_taken :: "(seller_db, unit) prog \<Rightarrow> (seller_db, unit) prog" where
  "unless_taken m = tryE m (\<lambda>e. if e = IntegrityError then ret () else raise e)"

text \<open>\<open>task_update_ordercarry\<close>: the earning of the seller a buyer came through.\<close>

definition order_carry_state :: "sale_order \<Rightarrow> mall_db \<Rightarrow> py_error + order_carry_status" where
  "order_carry_state so m =
     map_sum id (\<lambda>send. if send then OC_ESTIMATE
       else if order_is_confirmed so then OC_CONFIRM
       else if order_is_canceled so then OC_CANCEL else OC_STAGING) (need_send so m)"

definition task_update_ordercarry ::
  "pk_id \<Rightarrow> sale_order \<Rightarrow> pk_id \<Rightarrow> rat \<Rightarrow> int \<Rightarrow> string \<Rightarrow> bool \<Rightarrow> (seller_db, unit) prog" where
  "task_update_ordercarry mid so customer_pk carry_amount agency_level plan via_app =
     bindE (liftE (\<lambda>s. order_carry_state so (sl_mall s))) (\<lambda>st.
     let ty = (if via_app then APP_ORDER else WAP_ORDER);
         uni_key = gen_ordercarry_unikey ty (so_oid so) in
     bindE (asks (order_carry_by_key uni_key)) (\<lambda>oc.
     case oc of
       Some oc \<Rightarrow> set_order_carry_status oc st
     | None \<Rightarrow>
         unless_taken
           (bindE (liftE (get_customer_row customer_pk)) (\<lambda>customer.
            insert_order_carry
              \<lparr>oc_id = 0, oc_mama_id = mid, oc_order_id = so_oid so,
               oc_order_value = py_round (so_payment so * 100), oc_carry_num = carry_amount,
               oc_carry_type = ty, oc_sku_name = so_title so, oc_sku_img = so_pic_path so,
               oc_contributor_nick = cu_nick customer, oc_contributor_img = cu_thumbnail customer,
               oc_contributor_id = customer_pk, oc_carry_plan_name = plan, oc_agency_level = agency_level,
               oc_date_field = day_of (case so_pay_time so of None \<Rightarrow> so_created so | Some t \<Rightarrow> t),
               oc_uni_key = uni_key, oc_status = st, oc_created = 0, oc_modified = 0\<rparr>))))"

text \<open>
  \<open>gen_ordercarry\<close>: the share of the seller above. A share of a share has a key with its level at
  the end, one above that of the share it is taken from.
\<close>

definition referal_key :: "order_carry_type \<Rightarrow> order_carry \<Rightarrow> py_error + string" where
  "referal_key ty oc =
     (let l2 = gen_ordercarry_unikey REFERAL_ORDER (oc_order_id oc);
          level = (\<lambda>n. join_with ''-'' [''order'', str_nat (order_carry_type_code ty), oc_order_id oc, str_nat n])
      in if ty \<noteq> REFERAL_ORDER then Inr (gen_ordercarry_unikey ty (oc_order_id oc))
         else if is_direct_or_fans_carry oc then Inr l2
         else if oc_uni_key oc = l2 then Inr (level 3)
         else (case nat_of_str (last (split_on CHR ''-'' (oc_uni_key oc))) of
                 None \<Rightarrow> Inl (Exn ''ValueError'')
               | Some n \<Rightarrow> Inr (level (n + 1))))"

definition gen_ordercarry :: "referal_ship \<Rightarrow> order_carry \<Rightarrow> order_carry_type \<Rightarrow> rat \<Rightarrow> (seller_db, unit) prog" where
  "gen_ordercarry r oc ty carry_num =
     bindE (liftE (\<lambda>_. referal_key ty oc)) (\<lambda>uni_key.
     bindE (asks (order_carry_by_key uni_key)) (\<lambda>found.
     case found of
       Some x \<Rightarrow>
         thenE (set_order_carry_status x (oc_status oc))
         (whenE (oc_carry_num x \<noteq> carry_num)
            (save_order_carry_fields (x\<lparr>oc_status := oc_status oc\<rparr>) (\<lambda>x. x\<lparr>oc_carry_num := carry_num\<rparr>)))
     | None \<Rightarrow>
         if rr_from_mama_id r = rr_to_mama_id r then ret ()
         else
           unless_taken (insert_order_carry (oc
             \<lparr>oc_mama_id := rr_from_mama_id r, oc_carry_num := carry_num, oc_carry_type := ty,
              oc_contributor_nick := rr_nick r, oc_contributor_img := rr_img r,
              oc_contributor_id := rr_to_mama_id r, oc_uni_key := uni_key\<rparr>))))"

definition task_update_second_level_ordercarry :: "referal_ship \<Rightarrow> order_carry \<Rightarrow> (seller_db, unit) prog" where
  "task_update_second_level_ordercarry r oc =
     bindE (asks (\<lambda>s. filter (\<lambda>x. oc_order_id x = oc_order_id oc \<and> oc_carry_type x = REFERAL_ORDER)
       (sl_order_carrys s))) (\<lambda>records.
     if records \<noteq> [] then forE (\<lambda>x. set_order_carry_status x (oc_status oc)) records
     else
       bindE (asks (\<lambda>s. q_first (filter (\<lambda>so. so_oid so = oc_order_id oc) (d_orders (ml_shop (sl_mall s)))))) (\<lambda>so.
       case so of
         None \<Rightarrow> raise AttributeError
       | Some so \<Rightarrow>
           bindE (asks (\<lambda>s. item_product so (ml_shop (sl_mall s)))) (\<lambda>p.
           whenE (p \<noteq> None) (gen_ordercarry r oc REFERAL_ORDER (oc_carry_num oc / 10)))))"

text \<open>\<open>task_update_second_level_ordercarry_by_trial\<close> takes a fifth, and follows only newer states.\<close>

definition task_update_second_level_ordercarry_by_trial ::
  "potential_mama \<Rightarrow> order_carry \<Rightarrow> (seller_db, unit) prog" where
  "task_update_second_level_ordercarry_by_trial p oc =
     (let uni_key = gen_ordercarry_unikey REFERAL_ORDER (oc_order_id oc) in
      bindE (asks (order_carry_by_key uni_key)) (\<lambda>found.
      case found of
        Some x \<Rightarrow> whenE (oc_modified oc > oc_modified x) (set_order_carry_status x (oc_status oc))
      | None \<Rightarrow>
          whenE (pm_referal_mama p \<noteq> pm_potential_mama p)
            (insert_order_carry (oc
              \<lparr>oc_mama_id := pm_referal_mama p, oc_carry_num := oc_carry_num oc / 5,
               oc_carry_type := REFERAL_ORDER, oc_contributor_nick := pm_nick p,
               oc_contributor_img := pm_thumbnail p, oc_contributor_id := pm_potential_mama p,
               oc_uni_key := uni_key\<rparr>))))"

text \<open>
  \<open>validate_self_mama\<close> compares the state of a seller, a text, with the numbers of the renewal
  types. The two sides are Python objects, which are equal only when they have the same type.
\<close>

datatype py_object = PyStr string | PyInt int

fun status_text :: "mama_status \<Rightarrow> string" where
  "status_text MM_EFFECT = ''effect''"
| "status_text MM_FROZEN = ''forzen''"
| "status_text MM_CANCEL = ''cancel''"

definition validate_self_mama :: "mama option \<Rightarrow> time \<Rightarrow> bool" where
  "validate_self_mama mm order_created_time =
     (case mm of
        None \<Rightarrow> False
      | Some m \<Rightarrow>
          PyStr (status_text (ma_status m)) = PyInt TRIAL \<and> ma_charged m
            \<and> (case ma_charge_time m of None \<Rightarrow> False | Some t \<Rightarrow> t < order_created_time)
            \<and> (case ma_renew_time m of None \<Rightarrow> False | Some t \<Rightarrow> t > order_created_time)
          \<or> PyStr (status_text (ma_status m)) = PyInt FULL \<and> ma_charged m \<and> ma_last_renew_type m = ELITE)"

definition mama_of_fan :: "pk_id \<Rightarrow> time \<Rightarrow> seller_db \<Rightarrow> mama option option" where
  "mama_of_fan customer_id created s =
     map_option (\<lambda>f. q_first (filter (\<lambda>m. ma_id m = xf_xlmm f \<and> ma_effect m \<and> ma_charged m
         \<and> (case ma_charge_time m of None \<Rightarrow> False | Some t \<Rightarrow> t \<le> created)) (sl_mamas s)))
       (q_first (filter (\<lambda>f. xf_fans_cusid f = customer_id \<and> xf_created f < created) (sl_fans s)))"

text \<open>Who earns on an order: the buyer as a seller, else on the app the seller the buyer is a fan of,
  else the seller of the link, else again the seller of the fan.\<close>

definition earning_mama :: "sale_trade \<Rightarrow> sale_order \<Rightarrow> customer \<Rightarrow> seller_db \<Rightarrow> mama option" where
  "earning_mama t so customer s =
     (let self_mama = (if cu_unionid customer = '''' then None
            else q_first (filter (\<lambda>m. ma_openid m = cu_unionid customer) (sl_mamas s)));
          link = get_by_saletrade t s;
          link = (case (self_mama, link) of (Some a, Some b) \<Rightarrow> if ma_id a = ma_id b then None else link
                  | _ \<Rightarrow> link);
          valid = validate_self_mama self_mama (case so_pay_time so of None \<Rightarrow> so_created so | Some p \<Rightarrow> p);
          by_fan = mama_of_fan (st_buyer_id t) (so_created so) s
      in if self_mama \<noteq> None \<and> valid then self_mama
         else if is_paid_via_app t then (case by_fan of None \<Rightarrow> link | Some m \<Rightarrow> m)
         else if link = None then (case by_fan of None \<Rightarrow> None | Some m \<Rightarrow> m)
         else link)"

definition task_order_trigger :: "sale_order \<Rightarrow> (seller_db, unit) prog" where
  "task_order_trigger so =
     bindE (liftE (\<lambda>s. get_trade (so_sale_trade so) (ml_shop (sl_mall s)))) (\<lambda>t.
     bindE (liftE (get_customer_row (st_buyer_id t))) (\<lambda>customer.
     bindE (asks (earning_mama t so customer)) (\<lambda>mm.
     bindE (asks (\<lambda>s. item_product so (ml_shop (sl_mall s)))) (\<lambda>p.
     case (mm, p) of
       (Some m, Some p) \<Rightarrow>
         bindE (asks (get_Mama_Order_Rebeta_Scheme p)) (\<lambda>scheme.
         case scheme of
           None \<Rightarrow> raise AttributeError
         | Some scheme \<Rightarrow>
             (let num = (if so_num so > 1 then so_num so else 1);
                  payment = so_payment so / of_int num in
              bindE (liftE (\<lambda>_. calculate_carry scheme (ma_agencylevel m) payment)) (\<lambda>carry.
              case carry of
                None \<Rightarrow> raise TypeError
              | Some c \<Rightarrow>
                  task_update_ordercarry (ma_id m) so (st_buyer_id t) (c * 100 * of_int num)
                    (ma_agencylevel m) (rs_name scheme) (is_paid_via_app t))))
     | _ \<Rightarrow> ret ()))))"

section \<open>Awards\<close>

definition award_gen_uni_key :: "pk_id \<Rightarrow> award_type \<Rightarrow> string" where
  "award_gen_uni_key contributor_mama_id ty =
     ''awardcarry-'' @ str_nat contributor_mama_id @ ''-'' @ str_nat (award_code ty)"

definition award_by_key :: "string \<Rightarrow> seller_db \<Rightarrow> award_carry option" where
  "award_by_key k s = q_first (filter (\<lambda>a. aw_uni_key a = k) (sl_awards s))"

definition insert_award :: "award_carry \<Rightarrow> (seller_db, award_carry) prog" where
  "insert_award a =
     bindE (asks (award_by_key (aw_uni_key a))) (\<lambda>taken.
     if taken \<noteq> None then raise IntegrityError
     else
       bindE (asks (\<lambda>s. a\<lparr>aw_id := fresh_pk aw_id (sl_awards s)\<rparr>)) (\<lambda>a.
       thenE (modify (\<lambda>s. s\<lparr>sl_awards := sl_awards s @ [a]\<rparr>))
       (thenE (delay (AWARDCARRY_CARRYRECORD a)) (ret a))))"

definition save_award :: "award_carry \<Rightarrow> (seller_db, unit) prog" where
  "save_award a =
     thenE (modify (\<lambda>s. s\<lparr>sl_awards := tbl_save aw_id a (sl_awards s)\<rparr>)) (delay (AWARDCARRY_CARRYRECORD a))"

definition cancel_award :: "award_carry \<Rightarrow> (seller_db, unit) prog" where
  "cancel_award a = save_award (a\<lparr>aw_status := CARRY_CANCEL\<rparr>)"

definition confirm_award :: "award_carry \<Rightarrow> (seller_db, unit) prog" where
  "confirm_award a = save_award (a\<lparr>aw_status := CARRY_CONFIRMED\<rparr>)"

text \<open>\<open>send_award\<close>: a key is awarded once. The contributor is the seller unless given.\<close>

definition send_award ::
  "mama \<Rightarrow> rat \<Rightarrow> string \<Rightarrow> string \<Rightarrow> carry_status \<Rightarrow> award_type \<Rightarrow>
   (string \<times> string \<times> pk_id) option \<Rightarrow> (seller_db, award_carry) prog" where
  "send_award m num plan uni_key st ty contributor =
     bindE (asks (award_by_key uni_key)) (\<lambda>repeat_one.
     case repeat_one of
       Some a \<Rightarrow> ret a
     | None \<Rightarrow>
         bindE (asks (get_mama_customer m)) (\<lambda>c.
         let (nick, img, cid) = (case contributor of None \<Rightarrow> ('''', '''', 0) | Some x \<Rightarrow> x) in
         if (nick = '''' \<or> img = '''') \<and> c = None then raise AttributeError
         else
           bindE (asks (\<lambda>s. \<lparr>aw_id = 0, aw_mama_id = ma_id m, aw_carry_num = py_int (num * 100),
             aw_carry_type = ty,
             aw_contributor_nick = (case c of None \<Rightarrow> nick | Some c \<Rightarrow> str_or nick (cu_nick c)),
             aw_contributor_img = (case c of None \<Rightarrow> img | Some c \<Rightarrow> str_or img (cu_thumbnail c)),
             aw_contributor_mama_id = (if cid = 0 then ma_id m else cid), aw_carry_plan_name = plan,
             aw_date_field = sl_today s, aw_uni_key = uni_key, aw_status = st\<rparr>)) insert_award))"

text \<open>The awards for a new seller's first steps.\<close>

definition task_subscribe_weixin_send_award :: "mama \<Rightarrow> (seller_db, unit) prog" where
  "task_subscribe_weixin_send_award m =
     bindE (send_award m 5 '''' (''new_guy_task_subscribe_weixin_award_5_'' @ str_nat (ma_id m))
       CARRY_CONFIRMED AWARD_SUBSCRIBE None) (\<lambda>_. ret ())"

definition task_first_order_send_award :: "mama \<Rightarrow> time \<Rightarrow> (seller_db, unit) prog" where
  "task_first_order_send_award m created =
     bindE (asks (\<lambda>s. q_exists (\<lambda>x. oc_mama_id x = ma_id m \<and> oc_created x \<ge> created
       \<and> oc_carry_type x \<noteq> REFERAL_ORDER \<and> oc_status x \<notin> {OC_STAGING, OC_CANCEL}) (sl_order_carrys s))) (\<lambda>found.
     let uni_key = ''trial_first_order_award_'' @ str_nat (ma_id m) in
     bindE (asks (award_by_key uni_key)) (\<lambda>repeat.
     if \<not> found \<or> repeat \<noteq> None then ret ()
     else bindE (send_award m 5 '''' uni_key CARRY_CONFIRMED AWARD_FIRST_ORDER None) (\<lambda>_. ret ())))"

definition task_new_guy_task_complete_send_award :: "mama \<Rightarrow> (seller_db, unit) prog" where
  "task_new_guy_task_complete_send_award m =
     (if ma_charge_time m = None then ret ()
      else
        bindE (send_award m 10 '''' (''new_guy_task_complete_award_5_'' @ str_nat (ma_id m))
          CARRY_CONFIRMED AWARD_NEW_GUY None) (\<lambda>_.
        bindE (asks (get_refer_to_relationships (ma_id m))) (\<lambda>r.
        bindE (asks (\<lambda>s. case r of None \<Rightarrow> None | Some r \<Rightarrow> find_mama (rr_from_mama_id r) s)) (\<lambda>upper.
        bindE (if upper \<noteq> None then ret upper
               else
                 bindE (asks (\<lambda>s. q_first (sort_key pm_created
                   (filter (\<lambda>p. pm_potential_mama p = ma_id m) (sl_potentials s))))) (\<lambda>p.
                 case p of
                   None \<Rightarrow> raise AttributeError
                 | Some p \<Rightarrow> asks (find_mama (pm_referal_mama p)))) (\<lambda>upper.
        case upper of
          None \<Rightarrow> ret ()
        | Some u \<Rightarrow>
            bindE (asks (get_mama_customer m)) (\<lambda>c.
            case c of
              None \<Rightarrow> raise AttributeError
            | Some c \<Rightarrow>
                bindE (send_award u 10 '''' (''new_guy_task_complete_award_10_'' @ str_nat (ma_id m))
                  CARRY_CONFIRMED AWARD_REFERAL_GUIDE (Some (cu_nick c, cu_thumbnail c, ma_id m)))
                (\<lambda>_. ret ())))))))"

text \<open>\<open>task_send_activate_award\<close>: bonuses for the 2nd, 5th and every further 5th invitation.\<close>

definition activate_award_num :: "nat \<Rightarrow> int option" where
  "activate_award_num trial_num =
     (case map_of [(2, 5), (5, 10), (10, 15)] trial_num of
        Some n \<Rightarrow> Some n
      | None \<Rightarrow> if trial_num mod 5 = 0 then Some 10 else None)"

definition task_send_activate_award :: "potential_mama \<Rightarrow> (seller_db, unit) prog" where
  "task_send_activate_award p =
     bindE (asks (find_mama (pm_referal_mama p))) (\<lambda>m.
     case m of
       None \<Rightarrow> ret ()
     | Some m \<Rightarrow>
         bindE (asks (\<lambda>s. q_count (\<lambda>q. pm_referal_mama q = ma_id m \<and> pm_created q < pm_created p)
           (sl_potentials s) + 1)) (\<lambda>trial_num.
         case activate_award_num trial_num of
           None \<Rightarrow> ret ()
         | Some n \<Rightarrow>
             bindE (send_award m (of_int n) ''''
               (''activite_award_'' @ str_nat trial_num @ ''_'' @ str_nat (ma_id m))
               CARRY_CONFIRMED AWARD_INVITE_TRIAL None) (\<lambda>_. ret ())))"

text \<open>
  \<open>task_referal_update_awardcarry\<close>: 100 yuan for a direct referral. A known award only follows the
  relation's state. The second part is meant for the seller above, who would get 25 yuan, but it asks for
  an award of its own under the variable of the first one, which is set by then; without a relation
  above, a variable is read before it is set.
\<close>

definition referal_award :: "referal_ship \<Rightarrow> carry_status \<Rightarrow> award_carry" where
  "referal_award r st =
     \<lparr>aw_id = 0, aw_mama_id = rr_from_mama_id r, aw_carry_num = 10000, aw_carry_type = AWARD_REFERAL,
      aw_contributor_nick = rr_nick r, aw_contributor_img = rr_img r,
      aw_contributor_mama_id = rr_to_mama_id r, aw_carry_plan_name = '''',
      aw_date_field = day_of (rr_created r), aw_uni_key = award_gen_uni_key (rr_to_mama_id r) AWARD_REFERAL,
      aw_status = st\<rparr>"

definition follow_award :: "award_carry \<Rightarrow> carry_status \<Rightarrow> (seller_db, unit) prog" where
  "follow_award a st =
     whenE (aw_status a \<noteq> st)
       (bindE (asks (\<lambda>s. a\<lparr>aw_status := st,
          aw_date_field := (if st = CARRY_CONFIRMED then sl_today s else aw_date_field a)\<rparr>)) save_award)"

definition indirect_award :: "referal_ship \<Rightarrow> award_carry \<Rightarrow> (seller_db, unit) prog" where
  "indirect_award second_r a =
     bindE (asks (find_mama (rr_from_mama_id second_r))) (\<lambda>level_2_mama.
     if level_2_mama = None then ret ()
     else
       (let st = (if ship_is_confirmed second_r then CARRY_CONFIRMED else CARRY_PENDING);
            uni_key = award_gen_uni_key (rr_to_mama_id second_r) AWARD_INDIRECT_INVITE in
        bindE (asks (award_by_key uni_key)) (\<lambda>second_award_carry.
        whenE (second_award_carry \<noteq> None) (follow_award a st))))"

definition task_referal_update_awardcarry :: "referal_ship \<Rightarrow> (seller_db, unit) prog" where
  "task_referal_update_awardcarry r =
     (let st = (if ship_is_confirmed r then CARRY_CONFIRMED else CARRY_PENDING) in
      bindE (asks (award_by_key (award_gen_uni_key (rr_to_mama_id r) AWARD_REFERAL))) (\<lambda>found.
      case found of
        Some a \<Rightarrow> follow_award a st
      | None \<Rightarrow>
          bindE (insert_award (referal_award r st)) (\<lambda>a.
          bindE (asks (get_refer_to_relationships (rr_from_mama_id r))) (\<lambda>second_r.
          case second_r of
            None \<Rightarrow> raise (Exn ''UnboundLocalError'')
          | Some r2 \<Rightarrow>
              if rr_from_mama_id r2 = 0 then raise (Exn ''UnboundLocalError'') else indirect_award r2 a))))"

text \<open>\<open>task_update_group_awardcarry\<close>: a bonus by the size of the group two levels down.\<close>

definition group_award_num :: "referal_ship \<Rightarrow> seller_db \<Rightarrow> cents" where
  "group_award_num r s =
     (let g = rr_from_grandma_id r;
          direct = q_count (\<lambda>x. rr_from_mama_id x = g \<and> rr_type x \<ge> HALF) (sl_ships s);
          group = q_count (\<lambda>x. rr_from_grandma_id x = g \<and> rr_type x \<ge> HALF
                    \<and> rr_to_mama_id x \<noteq> rr_to_mama_id r) (sl_ships s);
          n = get_group_carry_num (int (direct + group + 1))
      in if n \<le> 0 \<and> direct \<ge> 15 then 1000 else n)"

text \<open>\<open>text_new\<close>: whether the description drawn at random differs from the one the award has.\<close>

definition task_update_group_awardcarry :: "bool \<Rightarrow> referal_ship \<Rightarrow> (seller_db, unit) prog" where
  "task_update_group_awardcarry text_new r =
     (if rr_type r = ELITE \<or> \<not> ship_is_confirmed r then ret ()
      else
        bindE (asks (group_award_num r)) (\<lambda>n.
        if n \<le> 0 then ret ()
        else
          (let uni_key = award_gen_uni_key (rr_to_mama_id r) AWARD_GROUP in
           bindE (asks (award_by_key uni_key)) (\<lambda>found.
           case found of
             Some a \<Rightarrow>
               bindE (asks (\<lambda>s. a\<lparr>aw_mama_id := rr_from_grandma_id r, aw_carry_num := n,
                 aw_status := CARRY_CONFIRMED,
                 aw_date_field := (if aw_status a \<noteq> CARRY_CONFIRMED then sl_today s else aw_date_field a)\<rparr>)) (\<lambda>b.
               whenE (b \<noteq> a \<or> text_new) (save_award b))
           | None \<Rightarrow>
               bindE (insert_award ((referal_award r CARRY_CONFIRMED)\<lparr>aw_mama_id := rr_from_grandma_id r,
                 aw_carry_num := n, aw_carry_type := AWARD_GROUP, aw_uni_key := uni_key\<rparr>)) (\<lambda>_. ret ())))))"

section \<open>The queue\<close>

text \<open>What a worker does with a task. A task that raised an exception is gone from the queue; what it
  wrote before stays.\<close>

fun run_job :: "carry_job \<Rightarrow> (seller_db, unit) prog" where
  "run_job (ORDERCARRY_CARRYRECORD oc) = task_ordercarry_update_carryrecord oc"
| "run_job (AWARDCARRY_CARRYRECORD a) = task_awardcarry_update_carryrecord a"
| "run_job (SECOND_LEVEL_ORDERCARRY r oc) = task_update_second_level_ordercarry r oc"
| "run_job (MAMAFORTUNE_ORDER_NUM i) = task_update_mamafortune_order_num i"
| "run_job (ORDERCARRY_DAILYSTATS i d) = task_ordercarry_increment_dailystats i d"
| "run_job (CARRYRECORD_DAILYSTATS i d) = task_carryrecord_update_dailystats i d"
| "run_job (CONFIRM_DAILYSTATS i d) = task_confirm_previous_dailystats i d 2"
| "run_job (CARRYRECORD_ACTIVE_HASALE i) = carryrecord_update_xiaolumama_active_hasale i"
| "run_job (XIAOLUMAMA_MAMAFORTUNE i cash) = task_xiaolumama_update_mamafortune i cash"
| "run_job (MAMAFORTUNE_INVITE_NUM i) = task_update_mamafortune_invite_num i"
| "run_job (MAMAFORTUNE_MAMA_LEVEL r) = task_update_mamafortune_mama_level r"
| "run_job (MAMAFORTUNE_FANS_NUM i) = task_update_mamafortune_fans_num i"
| "run_job (REFERAL_AWARDCARRY r) = task_referal_update_awardcarry r"

text \<open>A worker takes any task of the queue; saved orders, awards and relations add new ones, and the
  clock goes on.\<close>

inductive carry_step :: "seller_db \<Rightarrow> seller_db \<Rightarrow> bool" where
  run: "sl_jobs s = js @ j # ks \<Longrightarrow> carry_step s (snd (run_job j (s\<lparr>sl_jobs := js @ ks\<rparr>)))"
| order: "carry_step s (snd (task_order_trigger so s))"
| send: "carry_step s (snd (send_award m num plan k st ty c s))"
| cancel: "a \<in> set (sl_awards s) \<Longrightarrow> carry_step s (snd (cancel_award a s))"
| confirm: "a \<in> set (sl_awards s) \<Longrightarrow> carry_step s (snd (confirm_award a s))"
| relate: "carry_step s (snd (task_update_referal_relationship so s))"
| tick: "t \<ge> sl_now s \<Longrightarrow> carry_step s (s\<lparr>sl_now := t\<rparr>)"

inductive_cases carry_stepE: "carry_step s t"

end
