(* ===== verification/Earnings.thy ===== *)
theory Earnings
  imports Carry Examples
begin

text \<open>
  What holds of the earnings of sellers (theories \<open>Sellers\<close> and \<open>Carry\<close>): the records follow
  the saved earnings, the rows keep their keys, the counters are right once the queue is done, and what
  the tasks on relations and rebates do.
\<close>

section \<open>Invariants of the tables of earnings\<close>

text \<open>An invariant that the rest of the state has no part in, and that more waiting tasks do not break, is
  kept by every program that does not write to the tables of earnings.\<close>

locale earnings_invariant =
  fixes I :: "seller_db \<Rightarrow> bool"
  assumes later: "I s \<Longrightarrow> I (s\<lparr>sl_jobs := sl_jobs s @ [j]\<rparr>)"
    and mall: "I s \<Longrightarrow> I (sl_mall_update g s)"
    and fans: "I s \<Longrightarrow> I (sl_fans_update h s)"
    and ships: "I s \<Longrightarrow> I (sl_ships_update k s)"
    and stats: "I s \<Longrightarrow> I (sl_dailystats_update l s)"
    and clock: "I s \<Longrightarrow> I (sl_now_update n s)"
begin

lemma keeps_delay: "keeps I (delay j)"
  by (simp add: delay_def keeps_modify later)

lemma keeps_delay_when: "keeps I (delay_when b j)"
  by (simp add: delay_when_def keeps_whenE keeps_delay)

lemma keeps_do_mall: "keeps I (do_mall m)"
  unfolding do_mall_def by (rule keepsI) (auto simp: zoom_run mall split: prod.splits)

lemma keeps_do_budget: "keeps I (do_budget m)"
  by (simp add: do_budget_def keeps_do_mall)

lemma keeps_modify_mamas: "keeps I (modify_mamas f)"
  by (simp add: modify_mamas_def keeps_modify mall)

lemmas keeps_writes = keeps_intro keeps_delay keeps_delay_when keeps_do_mall keeps_do_budget keeps_modify_mamas

lemma keeps_save_mama: "keeps I (save_mama m)"
  by (auto simp: save_mama_def intro!: keeps_writes)

lemma keeps_mama_set: "keeps I (mama_set_active m)" "keeps I (mama_set_hasale m)"
  by (auto simp: mama_set_active_def mama_set_hasale_def intro!: keeps_writes keeps_save_mama)

lemma keeps_insert_fan: "keeps I (insert_fan f)"
  by (auto simp: insert_fan_def intro!: keeps_writes keeps_modify fans)

lemma keeps_update_mama_fans: "keeps I (update_mama_fans r)"
  by (auto simp: update_mama_fans_def intro!: keeps_writes keeps_insert_fan split: option.splits)

lemma keeps_ship_saved: "keeps I (ship_saved b r)"
  by (auto simp: ship_saved_def intro!: keeps_writes keeps_update_mama_fans)

lemma keeps_insert_ship: "keeps I (insert_ship r)"
  by (auto simp: insert_ship_def intro!: keeps_writes keeps_modify ships keeps_ship_saved)

lemma keeps_save_ship: "keeps I (save_ship_fields r f)"
  by (auto simp: save_ship_fields_def intro!: keeps_writes keeps_modify ships keeps_ship_saved)

lemma keeps_relate: "keeps I (task_update_referal_relationship so)"
  by (auto simp: task_update_referal_relationship_def relate_by_deposit_def Let_def
        intro!: keeps_writes keeps_insert_ship keeps_save_ship split: option.splits)

lemma keeps_write_dailystats: "keeps I (write_dailystats mid d f)"
  by (auto simp: write_dailystats_def create_dailystats_def intro!: keeps_writes keeps_modify stats)

lemma keeps_daily_tasks:
  "keeps I (task_carryrecord_update_dailystats mid d)"
  "keeps I (task_ordercarry_increment_dailystats mid d)"
  "keeps I (task_confirm_previous_dailystats mid d n)"
  by (auto simp: task_carryrecord_update_dailystats_def task_ordercarry_increment_dailystats_def
        task_confirm_previous_dailystats_def intro!: keeps_writes keeps_write_dailystats keeps_modify stats)

lemma keeps_carry_saved: "keeps I (carry_saved r)"
  by (auto simp: carry_saved_def intro!: keeps_writes)

lemma keeps_pay_carry: "keeps I (pay_carry r c)"
  by (auto simp: pay_carry_def intro!: keeps_writes split: option.splits)

lemma keeps_order_carry_saved: "keeps I (order_carry_saved b oc)"
  by (auto simp: order_carry_saved_def intro!: keeps_writes split: option.splits)

end

section \<open>Invariants that leave out a table\<close>

locale award_free = earnings_invariant +
  assumes awards: "I s \<Longrightarrow> I (sl_awards_update a s)"
begin

lemma keeps_save_award: "keeps I (save_award x)"
  by (auto simp: save_award_def intro!: keeps_writes keeps_modify awards)

lemma keeps_insert_award: "keeps I (insert_award x)"
  by (auto simp: insert_award_def intro!: keeps_writes keeps_modify awards)

lemma keeps_send_award: "keeps I (send_award m num plan k st ty c)"
  by (auto simp: send_award_def Let_def intro!: keeps_writes keeps_insert_award split: option.splits prod.splits)

lemma keeps_award_steps: "keeps I (cancel_award x)" "keeps I (confirm_award x)" "keeps I (follow_award x st)"
  by (auto simp: cancel_award_def confirm_award_def follow_award_def intro!: keeps_writes keeps_save_award)

lemma keeps_referal_award: "keeps I (task_referal_update_awardcarry r)"
  by (auto simp: task_referal_update_awardcarry_def indirect_award_def Let_def
        intro!: keeps_writes keeps_insert_award keeps_award_steps split: option.splits)

end

locale record_free = earnings_invariant +
  assumes records: "I s \<Longrightarrow> I (sl_records_update r s)"
begin

lemma keeps_save_carry: "keeps I (save_carry x)"
  by (auto simp: save_carry_def intro!: keeps_writes keeps_modify records keeps_carry_saved)

lemma keeps_insert_carry: "keeps I (insert_carry x)"
  by (auto simp: insert_carry_def intro!: keeps_writes keeps_modify records keeps_carry_saved)

lemma keeps_carry_create: "keeps I (carry_create mid num ty k st)"
  by (auto simp: carry_create_def intro!: keeps_writes keeps_insert_carry keeps_pay_carry)

lemma keeps_set_carry: "keeps I (set_carry_status x st)" "keeps I (changePendingCarryAmount x n)"
  by (auto simp: set_carry_status_def carry_confirm_def carry_cancel_def changePendingCarryAmount_def Let_def
        intro!: keeps_writes keeps_save_carry keeps_pay_carry split: option.splits)

lemma keeps_record_tasks:
  "keeps I (task_ordercarry_update_carryrecord oc)"
  "keeps I (task_awardcarry_update_carryrecord x)"
  by (auto simp: task_ordercarry_update_carryrecord_def task_awardcarry_update_carryrecord_def Let_def
        intro!: keeps_writes keeps_carry_create keeps_set_carry split: option.splits)

end

locale order_free = earnings_invariant +
  assumes orders: "I s \<Longrightarrow> I (sl_order_carrys_update u s)"
begin

lemma keeps_insert_order: "keeps I (insert_order_carry oc)"
  by (auto simp: insert_order_carry_def intro!: keeps_writes keeps_modify orders keeps_order_carry_saved)

lemma keeps_save_order: "keeps I (save_order_carry_fields oc f)"
  by (auto simp: save_order_carry_fields_def intro!: keeps_writes keeps_modify orders keeps_order_carry_saved)

lemma keeps_set_order_status: "keeps I (set_order_carry_status oc st)"
  by (auto simp: set_order_carry_status_def intro!: keeps_writes keeps_save_order)

lemma keeps_second_level: "keeps I (task_update_second_level_ordercarry r oc)"
  by (auto simp: task_update_second_level_ordercarry_def gen_ordercarry_def unless_taken_def
        intro!: keeps_writes keeps_insert_order keeps_save_order keeps_set_order_status split: option.splits)

lemma keeps_order_trigger: "keeps I (task_order_trigger so)"
  by (auto simp: task_order_trigger_def task_update_ordercarry_def unless_taken_def Let_def
        intro!: keeps_writes keeps_insert_order keeps_set_order_status split: option.splits)

end

locale fortune_free = earnings_invariant +
  assumes fortunes: "I s \<Longrightarrow> I (sl_cash_update f s)"
begin

lemma keeps_modify_fortunes: "keeps I (modify_fortunes h)"
  unfolding modify_fortunes_def by (rule keeps_modify) (use fortunes in force)

lemma keeps_write_fortune: "keeps I (write_fortune mid f)"
  by (auto simp: write_fortune_def intro!: keeps_writes keeps_modify_fortunes)

lemma keeps_active_num: "keeps I (task_update_mamafortune_active_num mid)"
  by (auto simp: task_update_mamafortune_active_num_def get_by_mamaid_def
        intro!: keeps_writes keeps_modify_fortunes split: option.splits)

lemma keeps_active_hasale: "keeps I (carryrecord_update_xiaolumama_active_hasale mid)"
  by (auto simp: carryrecord_update_xiaolumama_active_hasale_def
        intro!: keeps_writes keeps_mama_set keeps_active_num)

lemma keeps_fortune_tasks:
  "keeps I (task_update_mamafortune_order_num mid)"
  "keeps I (task_xiaolumama_update_mamafortune mid cash)"
  "keeps I (task_update_mamafortune_invite_num mid)"
  "keeps I (task_update_mamafortune_mama_level r)"
  "keeps I (task_update_mamafortune_fans_num mid)"
  by (auto simp: task_update_mamafortune_order_num_def task_xiaolumama_update_mamafortune_def
        task_update_mamafortune_invite_num_def task_update_mamafortune_mama_level_def
        task_update_mamafortune_fans_num_def intro!: keeps_writes keeps_write_fortune)

end

section \<open>Carry records follow what they mirror\<close>

definition records_ok :: "seller_db \<Rightarrow> bool" where
  "records_ok s \<longleftrightarrow> distinct (map cr_id (sl_records s)) \<and> distinct (map cr_uni_key (sl_records s))"

interpretation records: earnings_invariant "\<lambda>s. sl_records s = R" for R
  by unfold_locales simp_all

lemma carry_saved_run:
  "\<exists>js. carry_saved r s = (Inr (), s\<lparr>sl_jobs := js\<rparr>)"
  by (auto simp: carry_saved_def delay_def delay_when_def prog_simps)

lemma save_carry_run:
  "\<exists>js. save_carry r s = (Inr (), s\<lparr>sl_records := tbl_save cr_id r (sl_records s), sl_jobs := js\<rparr>)"
  using carry_saved_run [of r "s\<lparr>sl_records := tbl_save cr_id r (sl_records s)\<rparr>"]
  by (auto simp: save_carry_def prog_simps)

lemma save_carry_then:
  assumes "\<And>R. keeps (\<lambda>s. sl_records s = R) m"
  shows "sl_records (snd (thenE (save_carry r) m s)) = tbl_save cr_id r (sl_records s)"
proof -
  from save_carry_run [of r s] obtain js
    where "save_carry r s = (Inr (), s\<lparr>sl_records := tbl_save cr_id r (sl_records s), sl_jobs := js\<rparr>)" ..
  with keepsD [OF assms, of "s\<lparr>sl_records := tbl_save cr_id r (sl_records s), sl_jobs := js\<rparr>"]
  show ?thesis by (simp add: prog_simps)
qed

lemma carry_confirm_records:
  "sl_records (snd (carry_confirm r s))
   = (if cr_status r = CARRY_PENDING then tbl_save cr_id (r\<lparr>cr_status := CARRY_CONFIRMED\<rparr>) (sl_records s)
      else sl_records s)"
  by (auto simp: carry_confirm_def ret_run Let_def
        intro!: save_carry_then records.keeps_writes records.keeps_pay_carry split: option.splits)

lemma carry_cancel_records:
  "sl_records (snd (carry_cancel r s))
   = (if cr_status r = CARRY_CANCEL then sl_records s
      else tbl_save cr_id (r\<lparr>cr_status := CARRY_CANCEL\<rparr>) (sl_records s))"
  by (auto simp: carry_cancel_def ret_run Let_def
        intro!: save_carry_then records.keeps_writes split: option.splits)

lemma change_pending_records:
  "sl_records (snd (changePendingCarryAmount r n s))
   = (if cr_status r = CARRY_PENDING then tbl_save cr_id (r\<lparr>cr_carry_num := n\<rparr>) (sl_records s)
      else sl_records s)"
  by (auto simp: changePendingCarryAmount_def ret_run Let_def
        intro!: save_carry_then records.keeps_writes records.keeps_pay_carry split: option.splits)

text \<open>The state of a record, and how it follows the state of what it mirrors.\<close>

definition record_state :: "string \<Rightarrow> seller_db \<Rightarrow> carry_status option" where
  "record_state k s = map_option cr_status (record_by_key k s)"

fun follow :: "carry_status option \<Rightarrow> carry_status \<Rightarrow> carry_status option" where
  "follow None st = (if st = CARRY_CANCEL then None else Some st)"
| "follow (Some CARRY_PENDING) st = Some st"
| "follow (Some CARRY_CONFIRMED) st = Some (if st = CARRY_CANCEL then CARRY_CANCEL else CARRY_CONFIRMED)"
| "follow (Some CARRY_CANCEL) st = Some CARRY_CANCEL"

lemma record_by_key_save:
  assumes "records_ok s" and "record_by_key k s = Some r" and "cr_id r' = cr_id r" and "cr_uni_key r' = cr_uni_key r"
    and "sl_records t = tbl_save cr_id r' (sl_records s)"
  shows "record_by_key k t = Some r'"
  using assms by (auto simp: record_by_key_def records_ok_def intro!: q_first_save dest: q_first_filter)

lemma filter_map_elsewhere:
  "(\<And>x. x \<in> set t \<Longrightarrow> P x \<Longrightarrow> \<not> Q x) \<Longrightarrow> \<not> Q r \<Longrightarrow>
    filter Q (map (\<lambda>x. if P x then r else x) t) = filter Q t"
  by (induction t) auto

lemma record_by_key_other:
  assumes "records_ok s" and "r \<in> set (sl_records s)" and "cr_id r' = cr_id r" and "cr_uni_key r' = cr_uni_key r"
    and "sl_records t = tbl_save cr_id r' (sl_records s)" and "k \<noteq> cr_uni_key r"
  shows "record_by_key k t = record_by_key k s"
proof -
  have "\<And>x. x \<in> set (sl_records s) \<Longrightarrow> cr_id x = cr_id r \<Longrightarrow> x = r"
    using assms(1,2) by (auto simp: records_ok_def distinct_map inj_on_def)
  with assms(4,6) have "filter (\<lambda>x. cr_uni_key x = k) (map (\<lambda>x. if cr_id x = cr_id r then r' else x) (sl_records s))
      = filter (\<lambda>x. cr_uni_key x = k) (sl_records s)"
    by (intro filter_map_elsewhere) auto
  with assms(2,3,5) show ?thesis by (auto simp: record_by_key_def tbl_save_def)
qed

lemma save_distinct:
  assumes "distinct (map pk t)" and "distinct (map key t)" and "old \<in> set t"
    and "pk new = pk old" and "key new = key old"
  shows "distinct (map pk (tbl_save pk new t))" and "distinct (map key (tbl_save pk new t))"
proof -
  have "\<And>x. x \<in> set t \<Longrightarrow> pk x = pk old \<Longrightarrow> x = old"
    using assms(1,3) by (auto simp: distinct_map inj_on_def)
  with assms(3-5) have "map key (tbl_save pk new t) = map key t" "map pk (tbl_save pk new t) = map pk t"
    by (auto simp: tbl_save_def)
  with assms(1,2) show "distinct (map pk (tbl_save pk new t))" "distinct (map key (tbl_save pk new t))"
    by auto
qed

lemma records_ok_save:
  assumes "records_ok s" and "r \<in> set (sl_records s)" and "cr_id r' = cr_id r" and "cr_uni_key r' = cr_uni_key r"
    and "sl_records t = tbl_save cr_id r' (sl_records s)"
  shows "records_ok t"
  using assms save_distinct [of cr_id "sl_records s" cr_uni_key r r'] by (simp add: records_ok_def)

lemma insert_carry_new:
  assumes "\<not> q_exists (\<lambda>q. cr_uni_key q = cr_uni_key r) (sl_records s)"
  obtains js where "insert_carry r s = (Inr (r\<lparr>cr_id := fresh_pk cr_id (sl_records s)\<rparr>),
    s\<lparr>sl_records := sl_records s @ [r\<lparr>cr_id := fresh_pk cr_id (sl_records s)\<rparr>], sl_jobs := js\<rparr>)"
proof -
  let ?r = "r\<lparr>cr_id := fresh_pk cr_id (sl_records s)\<rparr>"
  from carry_saved_run [of ?r "s\<lparr>sl_records := sl_records s @ [?r]\<rparr>"] assms that
  show thesis by (auto simp: insert_carry_def prog_simps)
qed

lemma q_exists_by_key: "q_exists (\<lambda>q. cr_uni_key q = k) (sl_records s) \<longleftrightarrow> record_by_key k s \<noteq> None"
  by (auto simp: q_exists_def record_by_key_def)

text \<open>What becomes of the records when one is made, whether or not its movement can be written.\<close>

lemma carry_create_records:
  assumes "records_ok s" and "record_by_key k s = None" and "t = snd (carry_create mid num ty (Some k) (Some st) s)"
  shows "record_state k t = follow None st" and "records_ok t" and "k' \<noteq> k \<Longrightarrow> record_state k' t = record_state k' s"
proof -
  have "record_state k t = follow None st \<and> records_ok t \<and> (k' \<noteq> k \<longrightarrow> record_state k' t = record_state k' s)"
  proof (cases "st = CARRY_CANCEL")
    case True
    with assms show ?thesis by (simp add: carry_create_def prog_simps record_state_def)
  next
    case False
    define r where "r = \<lparr>cr_id = 0, cr_mama_id = mid, cr_carry_num = py_int num, cr_carry_type = ty,
          cr_date_field = sl_today s, cr_uni_key = k, cr_status = st\<rparr>"
    define r' where "r' = r\<lparr>cr_id := fresh_pk cr_id (sl_records s)\<rparr>"
    define rest where "rest = bindE (liftE (get_mama mid)) (\<lambda>m.
        bindE (asks (get_mama_customer m)) (\<lambda>customer.
        thenE (whenE (num > 0) (pay_carry r' customer)) (ret (Some r'))))"
    from assms(2) have free: "\<not> q_exists (\<lambda>q. cr_uni_key q = cr_uni_key r) (sl_records s)"
      by (simp add: q_exists_by_key r_def)
    then obtain js where ins: "insert_carry r s = (Inr r', s\<lparr>sl_records := sl_records s @ [r'], sl_jobs := js\<rparr>)"
      unfolding r'_def by (rule insert_carry_new)
    have "keeps (\<lambda>s. sl_records s = R) rest" for R
      by (auto simp: rest_def intro!: records.keeps_writes records.keeps_pay_carry)
    from keepsD [OF this, of "s\<lparr>sl_records := sl_records s @ [r'], sl_jobs := js\<rparr>"]
    have t: "sl_records t = sl_records s @ [r']"
      using False ins assms(3)
      by (simp add: carry_create_def prog_simps arg_or_def str_or_def rest_def r_def [symmetric])
    have "cr_id r' \<notin> cr_id ` set (sl_records s)"
      using fresh_pk_notin [of cr_id "sl_records s"] by (simp add: r'_def)
    moreover have "k \<notin> cr_uni_key ` set (sl_records s)"
      using assms(2) by (auto simp: record_by_key_def filter_empty_conv)
    ultimately show ?thesis
      using assms(1,2) False t
      by (auto simp: record_state_def record_by_key_def records_ok_def r'_def r_def)
  qed
  then show "record_state k t = follow None st" and "records_ok t"
    and "k' \<noteq> k \<Longrightarrow> record_state k' t = record_state k' s" by auto
qed

lemma set_carry_status_run:
  "set_carry_status r st s =
     (case st of CARRY_PENDING \<Rightarrow> (Inr (), s) | CARRY_CONFIRMED \<Rightarrow> carry_confirm r s | CARRY_CANCEL \<Rightarrow> carry_cancel r s)"
  by (cases st) (auto simp: set_carry_status_def prog_simps split: prod.splits sum.splits)

lemma set_carry_status_records:
  assumes ok: "records_ok s" and r: "record_by_key k s = Some r" and new: "cr_status r \<noteq> st"
    and t: "t = snd (set_carry_status r st s)"
  shows "record_state k t = follow (Some (cr_status r)) st" and "records_ok t"
    and "k' \<noteq> k \<Longrightarrow> record_state k' t = record_state k' s"
proof -
  from r have mem: "r \<in> set (sl_records s)" and key: "cr_uni_key r = k"
    by (auto simp: record_by_key_def dest: q_first_filter)
  have "sl_records t = (if follow (Some (cr_status r)) st = Some (cr_status r) then sl_records s
      else tbl_save cr_id (r\<lparr>cr_status := st\<rparr>) (sl_records s))"
    by (cases st; cases "cr_status r")
       (use new in \<open>auto simp: t set_carry_status_run carry_confirm_records carry_cancel_records\<close>)
  note recs = this
  have "record_state k t = follow (Some (cr_status r)) st \<and> records_ok t
    \<and> (k' \<noteq> k \<longrightarrow> record_state k' t = record_state k' s)"
  proof (cases "follow (Some (cr_status r)) st = Some (cr_status r)")
    case True
    with recs have "sl_records t = sl_records s" by simp
    with True ok r show ?thesis by (simp add: record_state_def record_by_key_def records_ok_def)
  next
    case False
    then have st: "follow (Some (cr_status r)) st = Some st"
      by (cases "cr_status r"; cases st; simp)
    from False recs have save: "sl_records t = tbl_save cr_id (r\<lparr>cr_status := st\<rparr>) (sl_records s)" by simp
    have "record_by_key k t = Some (r\<lparr>cr_status := st\<rparr>)"
      by (rule record_by_key_save [OF ok r _ _ save]) simp_all
    moreover have "records_ok t"
      by (rule records_ok_save [OF ok mem _ _ save]) simp_all
    moreover have "record_by_key k' t = record_by_key k' s" if "k' \<noteq> k"
      by (rule record_by_key_other [OF ok mem _ _ save]) (use that key in simp_all)
    ultimately show ?thesis using st by (simp add: record_state_def)
  qed
  then show "record_state k t = follow (Some (cr_status r)) st" and "records_ok t"
    and "k' \<noteq> k \<Longrightarrow> record_state k' t = record_state k' s" by auto
qed


text \<open>One run of each of the two tasks, whether it returns or raises.\<close>

lemma order_task_run:
  "snd (task_ordercarry_update_carryrecord oc s) =
     (if oc_mama_id oc = 0 then s
      else (case record_by_key (oc_uni_key oc) s of
        None \<Rightarrow> snd (carry_create (oc_mama_id oc) (oc_carry_num oc) CR_ORDER (Some (oc_uni_key oc))
          (Some (carry_record_status (oc_status oc))) s)
      | Some r \<Rightarrow> if cr_status r = carry_record_status (oc_status oc) then s
          else snd (set_carry_status r (carry_record_status (oc_status oc)) s)))"
  by (auto simp: task_ordercarry_update_carryrecord_def Let_def prog_simps split: option.splits prod.splits sum.splits)

lemma award_task_run:
  "snd (task_awardcarry_update_carryrecord a s) =
     (if aw_mama_id a = 0 then s
      else (case record_by_key (aw_uni_key a) s of
        None \<Rightarrow> if aw_carry_num a > 0 then snd (carry_create (aw_mama_id a) (of_int (aw_carry_num a)) CR_RECOMMEND
            (Some (aw_uni_key a)) (Some (aw_status a)) s) else s
      | Some r \<Rightarrow> if cr_status r \<noteq> aw_status a then snd (set_carry_status r (aw_status a) s)
          else if cr_carry_num r \<noteq> aw_carry_num a \<and> cr_status r = CARRY_PENDING
          then snd (changePendingCarryAmount r (aw_carry_num a) s) else s))"
  by (auto simp: task_awardcarry_update_carryrecord_def prog_simps split: option.splits prod.splits sum.splits)

lemma follow_same [simp]: "follow (Some st) st = Some st"
  by (cases st) simp_all

lemma order_task_records:
  assumes ok: "records_ok s" and t: "t = snd (task_ordercarry_update_carryrecord oc s)"
  shows "records_ok t \<and> record_state k t =
    (if oc_mama_id oc \<noteq> 0 \<and> oc_uni_key oc = k then follow (record_state k s) (carry_record_status (oc_status oc))
     else record_state k s)"
proof (cases "record_by_key (oc_uni_key oc) s")
  case None
  from carry_create_records [OF ok None refl] ok None show ?thesis
    by (auto simp: t order_task_run record_state_def)
next
  case (Some r)
  from set_carry_status_records [OF ok Some _ refl] ok Some show ?thesis
    by (auto simp: t order_task_run record_state_def)
qed

lemma change_pending_states:
  assumes ok: "records_ok s" and r: "record_by_key k s = Some r" and "cr_status r = CARRY_PENDING"
    and t: "t = snd (changePendingCarryAmount r n s)"
  shows "records_ok t" and "record_state k' t = record_state k' s"
proof -
  from r have mem: "r \<in> set (sl_records s)" and key: "cr_uni_key r = k"
    by (auto simp: record_by_key_def dest: q_first_filter)
  have save: "sl_records t = tbl_save cr_id (r\<lparr>cr_carry_num := n\<rparr>) (sl_records s)"
    using assms(3) by (simp add: t change_pending_records)
  show "records_ok t" by (rule records_ok_save [OF ok mem _ _ save]) simp_all
  show "record_state k' t = record_state k' s"
    using record_by_key_save [OF ok r _ _ save] record_by_key_other [OF ok mem _ _ save] r key
    by (cases "k' = k") (simp_all add: record_state_def)
qed

lemma award_task_records:
  assumes ok: "records_ok s" and t: "t = snd (task_awardcarry_update_carryrecord a s)"
  shows "records_ok t \<and> record_state k t \<in> {record_state k s, follow (record_state k s) (aw_status a)}"
proof (cases "record_by_key (aw_uni_key a) s")
  case None
  from carry_create_records [OF ok None refl] ok None show ?thesis
    by (cases "k = aw_uni_key a") (auto simp: t award_task_run record_state_def)
next
  case (Some r)
  then have "record_state (aw_uni_key a) s = Some (cr_status r)" by (simp add: record_state_def)
  with set_carry_status_records [OF ok Some _ refl] change_pending_states [OF ok Some _ refl] ok Some show ?thesis
    by (cases "k = aw_uni_key a") (auto simp: t award_task_run)
qed

text \<open>Every step of the queue keeps the rows of records, and moves a record along \<open>follow\<close>.\<close>

definition record_inv :: "(carry_status option \<Rightarrow> bool) \<Rightarrow> string \<Rightarrow> seller_db \<Rightarrow> bool" where
  "record_inv P k s \<longleftrightarrow> records_ok s \<and> P (record_state k s)"

interpretation record_inv: earnings_invariant "record_inv P k" for P k
  by unfold_locales (simp_all add: record_inv_def records_ok_def record_state_def record_by_key_def)

interpretation record_awards: award_free "record_inv P k" for P k
  by unfold_locales (simp_all add: record_inv_def records_ok_def record_state_def record_by_key_def)

interpretation record_orders: order_free "record_inv P k" for P k
  by unfold_locales (simp_all add: record_inv_def records_ok_def record_state_def record_by_key_def)

interpretation record_fortunes: fortune_free "record_inv P k" for P k
  by unfold_locales (simp_all add: record_inv_def records_ok_def record_state_def record_by_key_def)

lemma record_inv_job:
  assumes P: "\<And>x st. P x \<Longrightarrow> P (follow x st)"
  shows "keeps (record_inv P k) (run_job j)"
proof (cases j)
  case (ORDERCARRY_CARRYRECORD oc)
  have "record_inv P k (snd (task_ordercarry_update_carryrecord oc s))" if "record_inv P k s" for s
    using that P order_task_records [of s _ oc k] by (simp add: record_inv_def)
  with ORDERCARRY_CARRYRECORD show ?thesis by (simp add: keepsI)
next
  case (AWARDCARRY_CARRYRECORD a)
  have "record_inv P k (snd (task_awardcarry_update_carryrecord a s))" if "record_inv P k s" for s
    using that P award_task_records [of s _ a k] unfolding record_inv_def by fastforce
  with AWARDCARRY_CARRYRECORD show ?thesis by (simp add: keepsI)
qed (simp_all add: record_inv.keeps_daily_tasks record_orders.keeps_second_level
    record_fortunes.keeps_fortune_tasks record_fortunes.keeps_active_hasale record_awards.keeps_referal_award)

lemma record_inv_step:
  assumes P: "\<And>x st. P x \<Longrightarrow> P (follow x st)" and "carry_step s t" and inv: "record_inv P k s"
  shows "record_inv P k t"
  using assms(2)
proof (cases rule: carry_step.cases)
  case (run js j ks)
  have "record_inv P k (s\<lparr>sl_jobs := js @ ks\<rparr>)"
    using inv by (simp add: record_inv_def records_ok_def record_state_def record_by_key_def)
  with run P record_inv_job show ?thesis by (metis keepsD)
qed (use inv in \<open>auto intro: keepsD record_orders.keeps_order_trigger record_awards.keeps_send_award
       record_awards.keeps_award_steps record_inv.keeps_relate record_inv.clock\<close>)

lemma record_inv_steps:
  "carry_step\<^sup>*\<^sup>* s t \<Longrightarrow> (\<And>x st. P x \<Longrightarrow> P (follow x st)) \<Longrightarrow> record_inv P k s \<Longrightarrow> record_inv P k t"
  by (induction rule: rtranclp_induct) (auto intro: record_inv_step)

section \<open>The money of a record\<close>

lemma do_budget_run: "do_budget p s = (case p (sl_wallet s) of (r, w) \<Rightarrow>
    (r, s\<lparr>sl_mall := (sl_mall s)\<lparr>ml_wallet := w\<rparr>\<rparr>))"
  by (simp add: do_budget_def do_mall_def do_wallet_def zoom_run split: prod.splits)

lemma create_out_returns:
  assumes ok: "wallet_ok s" and w: "w \<in> set (w_budgets s)" "ub_user w = c" and cust: "get_customer c s = Inr cust"
    and free: "\<not> q_exists (\<lambda>x. bl_uni_key x = Some (gen_uni_key c BUDGET_OUT lt s)) (w_logs s)"
  obtains l t where "budget_log_create c BUDGET_OUT p lt None '''' None None s = (Inr l, t)"
    and "w_budgets t = tbl_save ub_id (budget_add (- p) 0 p w) (w_budgets s)" and "wallet_ok t"
proof -
  have cid: "cu_id cust = c" using cust by (auto simp: get_customer_def dest: q_get_Inr)
  have g1: "get_budget c s = Inr w"
    using ok w by (intro get_budget_member) (auto simp: wallet_ok_def)
  obtain es n where es: "create_entries c BUDGET_OUT lt BL_CONFIRMED p s = (Inr (), s\<lparr>w_entries := es, w_draws := n\<rparr>)"
    using postsE [OF posts_create_entries] .
  define w' where "w' = create_budget_change BUDGET_OUT BL_CONFIRMED p w"
  define u where "u = s\<lparr>w_entries := es, w_draws := n, w_budgets := tbl_save ub_id w' (w_budgets s)\<rparr>"
  have "map ub_user (w_budgets u) = map ub_user (w_budgets s)"
    using ok w by (simp add: u_def w'_def wallet_ok_def save_user_keys)
  then have "get_budget c u = Inr w'"
    using ok w by (intro get_budget_member) (auto simp: u_def w'_def tbl_save_in wallet_ok_def)
  with g1 es cust cid free obtain l t where
    run: "budget_log_create c BUDGET_OUT p lt None '''' None None s = (Inr l, t)"
    and t: "w_budgets t = tbl_save ub_id w' (w_budgets s)"
    by (auto simp: budget_log_create_def prog_simps Let_def budget_get_or_create_def arg_or_def insert_log_def
        u_def w'_def)
  moreover have "w' = budget_add (- p) 0 p w" by (simp add: w'_def create_budget_change_def)
  ultimately show thesis using that wallet_ok_create [OF ok run] by simp
qed

lemma settle_other_logs:
  assumes ok: "wallet_ok s" and l: "l \<in> set (w_logs s)" "bl_budget_type l = BUDGET_IN"
    and settles: "settles m l change st s t l'"
  shows "gen_uni_key c BUDGET_OUT lt t = gen_uni_key c BUDGET_OUT lt s"
    and "q_exists (\<lambda>x. bl_uni_key x = k) (w_logs t) = q_exists (\<lambda>x. bl_uni_key x = k) (w_logs s)"
    and "w_customers t = w_customers s"
proof -
  from settle_log [OF settles] obtain x where l': "l' = l\<lparr>bl_balance := x, bl_status := st\<rparr>"
    and logs: "w_logs t = tbl_save bl_id l' (w_logs s)" by auto
  from settles have now: "w_now t = w_now s" and "w_customers t = w_customers s"
    by (auto elim!: settlesE)
  then show "w_customers t = w_customers s" by simp
  have same: "\<And>y. y \<in> set (w_logs s) \<Longrightarrow> bl_id y = bl_id l \<Longrightarrow> y = l"
    using ok l by (auto simp: wallet_ok_def distinct_map inj_on_def)
  have t: "w_logs t = map (\<lambda>y. if bl_id y = bl_id l then l' else y) (w_logs s)"
    using l by (auto simp: logs tbl_save_def l')
  have "filter (\<lambda>y. bl_customer_id y = c \<and> bl_budget_type y = BUDGET_OUT \<and> bl_log_type y = lt \<and> P y) (w_logs t)
      = filter (\<lambda>y. bl_customer_id y = c \<and> bl_budget_type y = BUDGET_OUT \<and> bl_log_type y = lt \<and> P y) (w_logs s)" for P
    unfolding t by (intro filter_map_elsewhere) (use l l' in \<open>auto dest: same\<close>)
  then show "gen_uni_key c BUDGET_OUT lt t = gen_uni_key c BUDGET_OUT lt s"
    by (simp add: gen_uni_key_def q_count_def now Let_def)
  have "map bl_uni_key (w_logs t) = map bl_uni_key (w_logs s)"
    unfolding t by (auto simp: l' dest: same)
  then have "bl_uni_key ` set (w_logs t) = bl_uni_key ` set (w_logs s)" by (metis set_map)
  then show "q_exists (\<lambda>x. bl_uni_key x = k) (w_logs t) = q_exists (\<lambda>x. bl_uni_key x = k) (w_logs s)"
    by (auto simp: q_exists_def filter_empty_conv) (metis image_iff)+
qed


text \<open>A cancelled record first has its movement confirmed, then takes the amount out again.\<close>

lemma carry_cancel_run:
  assumes ok: "wallet_ok (sl_wallet s)" and w: "w \<in> set (w_budgets (sl_wallet s))" "ub_user w = bl_customer_id l"
    and cust: "get_customer (bl_customer_id l) (sl_wallet s) = Inr c"
    and live: "cr_status r \<noteq> CARRY_CANCEL"
    and log: "carry_log (cr_id r) s = Some l" "bl_budget_type l = BUDGET_IN" "bl_status l \<noteq> BL_CANCELED"
    and free: "\<not> q_exists (\<lambda>x. bl_uni_key x = Some (gen_uni_key (bl_customer_id l) BUDGET_OUT BG_CARRY_CANCEL (sl_wallet s)))
      (w_logs (sl_wallet s))"
  shows "\<exists>t. carry_cancel r s = (Inr (), t) \<and> wallet_ok (sl_wallet t) \<and>
    w_budgets (sl_wallet t) = tbl_save ub_id
      (if bl_status l = BL_CONFIRMED then budget_add (- bl_flow_amount l) 0 (bl_flow_amount l) w
       else budget_add 0 (bl_flow_amount l) (bl_flow_amount l) w) (w_budgets (sl_wallet s))"
proof -
  let ?n = "bl_flow_amount l" and ?c = "bl_customer_id l" and ?W = "sl_wallet s"
  from log(1) have l: "l \<in> set (w_logs ?W)" by (auto simp: carry_log_def dest: q_first_filter)
  obtain js where save: "save_carry (r\<lparr>cr_status := CARRY_CANCEL\<rparr>) s
      = (Inr (), s\<lparr>sl_records := tbl_save cr_id (r\<lparr>cr_status := CARRY_CANCEL\<rparr>) (sl_records s), sl_jobs := js\<rparr>)"
    using save_carry_run by blast
  have "\<exists>v r1 v1. confirm_budget_log l ?W = (Inr r1, v1) \<and> wallet_ok v1 \<and>
      v \<in> set (w_budgets v1) \<and> ub_id v = ub_id w \<and> ub_user v = ?c \<and> w_customers v1 = w_customers ?W \<and>
      gen_uni_key ?c BUDGET_OUT BG_CARRY_CANCEL v1 = gen_uni_key ?c BUDGET_OUT BG_CARRY_CANCEL ?W \<and>
      (\<forall>k. q_exists (\<lambda>x. bl_uni_key x = k) (w_logs v1) = q_exists (\<lambda>x. bl_uni_key x = k) (w_logs ?W)) \<and>
      w_budgets v1 = tbl_save ub_id v (w_budgets ?W) \<and>
      v = (if bl_status l = BL_CONFIRMED then w else budget_add ?n ?n 0 w)"
  proof (cases "bl_status l = BL_CONFIRMED")
    case True
    with ok w show ?thesis
      by (intro exI [where x = w] exI [where x = "(False, l)"] exI [where x = ?W])
         (simp add: confirm_budget_log_def ret_run save_same_row wallet_ok_def)
  next
    case False
    obtain l' t where run: "confirm_budget_log l ?W = (Inr (True, l'), t)"
      and settles: "settles (confirm_entries l) l (confirm_budget_change l) BL_CONFIRMED ?W t l'"
      using confirm_returns [OF ok w] False by auto
    have "confirm_budget_change l w = budget_add ?n ?n 0 w"
      using False log(2,3) by (cases "bl_status l") (simp_all add: confirm_budget_change_def)
    with settle_budgets [OF ok w settles] settle_other_logs [OF ok l log(2) settles] run
      wallet_ok_settle [OF ok l False _ settles] False w
    show ?thesis
      by (intro exI [where x = "budget_add ?n ?n 0 w"] exI [where x = "(True, l')"] exI [where x = t]) (simp add: tbl_save_in budget_add_def)
  qed
  then obtain v r1 v1 where conf: "confirm_budget_log l ?W = (Inr r1, v1)" and ok1: "wallet_ok v1"
    and v: "v \<in> set (w_budgets v1)" "ub_user v = ?c" and vid: "ub_id v = ub_id w"
    and cust1: "w_customers v1 = w_customers ?W"
    and keys: "gen_uni_key ?c BUDGET_OUT BG_CARRY_CANCEL v1 = gen_uni_key ?c BUDGET_OUT BG_CARRY_CANCEL ?W"
      "\<And>k. q_exists (\<lambda>x. bl_uni_key x = k) (w_logs v1) = q_exists (\<lambda>x. bl_uni_key x = k) (w_logs ?W)"
    and b1: "w_budgets v1 = tbl_save ub_id v (w_budgets ?W)"
    and vdef: "v = (if bl_status l = BL_CONFIRMED then w else budget_add ?n ?n 0 w)"
    by blast
  have "get_customer ?c v1 = Inr c" using cust cust1 by (simp add: get_customer_def)
  moreover have "\<not> q_exists (\<lambda>x. bl_uni_key x = Some (gen_uni_key ?c BUDGET_OUT BG_CARRY_CANCEL v1)) (w_logs v1)"
    using free by (simp add: keys)
  ultimately obtain l2 t where out: "budget_log_create ?c BUDGET_OUT ?n BG_CARRY_CANCEL None '''' None None v1 = (Inr l2, t)"
    and bt: "w_budgets t = tbl_save ub_id (budget_add (- ?n) 0 ?n v) (w_budgets v1)" and okt: "wallet_ok t"
    using create_out_returns [OF ok1 v] by blast
  have "w_budgets t = tbl_save ub_id (budget_add (- ?n) 0 ?n v) (w_budgets ?W)"
    by (simp add: bt b1 save_twice budget_add_def)
  moreover have "budget_add (- ?n) 0 ?n v = (if bl_status l = BL_CONFIRMED
      then budget_add (- ?n) 0 ?n w else budget_add 0 ?n ?n w)"
    by (simp add: vdef budget_add_def)
  ultimately show ?thesis
    using save conf out okt live log(1)
    by (auto simp: carry_cancel_def Let_def prog_simps do_budget_run carry_log_def)
qed

section \<open>Climbing to a seller above\<close>

definition parent_of :: "referal_ship table \<Rightarrow> pk_id \<Rightarrow> pk_id option" where
  "parent_of ships i = map_option rr_from_mama_id (q_first (filter (\<lambda>r. rr_to_mama_id r = i \<and> rr_valid r) ships))"

text \<open>The seller \<open>upper\<close> is met, or \<open>n\<close> steps are made, before a seller without a relation.\<close>

fun climbs :: "referal_ship table \<Rightarrow> nat \<Rightarrow> pk_id \<Rightarrow> pk_id \<Rightarrow> bool" where
  "climbs ships 0 lower upper = True"
| "climbs ships (Suc n) lower upper \<longleftrightarrow>
     lower = upper \<or> (case parent_of ships lower of None \<Rightarrow> False | Some x \<Rightarrow> climbs ships n x upper)"

lemma climbs_returns:
  "n > 0 \<Longrightarrow> c + n = 10 \<Longrightarrow> climbs ships n lower upper \<Longrightarrow> \<exists>ch. ship_chain ships lower upper chain c = Some ch"
proof (induction n arbitrary: lower chain c)
  case (Suc n)
  show ?case
  proof (cases "lower = upper")
    case True
    then show ?thesis by (subst ship_chain.simps) simp
  next
    case False
    with Suc.prems obtain r where r: "q_first (filter (\<lambda>r. rr_to_mama_id r = lower \<and> rr_valid r) ships) = Some r"
      and "climbs ships n (rr_from_mama_id r) upper"
      by (auto simp: parent_of_def split: option.splits)
    with Suc.IH [of "Suc c" "rr_from_mama_id r"] Suc.prems False show ?thesis
      by (subst ship_chain.simps) (cases n, auto)
  qed
qed simp

lemma returned_climbs:
  assumes "ship_chain ships lower upper chain c = Some ch" and "c < 10"
  shows "climbs ships (10 - c) lower upper"
proof -
  have "c < 10 \<longrightarrow> climbs ships (10 - c) lower upper"
  proof (rule ship_chain.raw_induct [where P = "\<lambda>ships lower upper chain c ch. c < 10 \<longrightarrow> climbs ships (10 - c) lower upper",
      OF _ assms(1)])
    fix f :: "referal_ship table \<Rightarrow> pk_id \<Rightarrow> pk_id \<Rightarrow> pk_id list \<Rightarrow> nat \<Rightarrow> pk_id list option"
    fix ships lower upper chain c ch
    assume IH: "\<And>ships lower upper chain c ch. f ships lower upper chain c = Some ch \<Longrightarrow>
        c < 10 \<longrightarrow> climbs ships (10 - c) lower upper"
      and body: "(if lower = upper then Some chain
        else (case q_first (filter (\<lambda>r. rr_to_mama_id r = lower \<and> rr_valid r) ships) of
            None \<Rightarrow> if c \<ge> 10 then Some chain else f ships lower upper chain c
          | Some r \<Rightarrow> if c + 1 \<ge> 10 then Some (rr_from_mama_id r # chain)
              else f ships (rr_from_mama_id r) upper (rr_from_mama_id r # chain) (c + 1))) = Some ch"
    show "c < 10 \<longrightarrow> climbs ships (10 - c) lower upper"
    proof
      assume c: "c < 10"
      then obtain n where n: "10 - c = Suc n" by (metis Suc_diff_Suc)
      show "climbs ships (10 - c) lower upper"
      proof (cases "lower = upper \<or> n = 0 \<and> parent_of ships lower \<noteq> None")
        case True
        then show ?thesis by (auto simp: n split: option.splits)
      next
        case False
        with body c n consider (up) r where "q_first (filter (\<lambda>r. rr_to_mama_id r = lower \<and> rr_valid r) ships) = Some r"
              "f ships (rr_from_mama_id r) upper (rr_from_mama_id r # chain) (c + 1) = Some ch" "c + 1 < 10"
          | (stuck) "f ships lower upper chain c = Some ch"
          by (fastforce simp: parent_of_def split: option.splits if_splits)
        then show ?thesis
        proof cases
          case up
          from up(2) have "c + 1 < 10 \<longrightarrow> climbs ships (10 - (c + 1)) (rr_from_mama_id r) upper"
            by (rule IH)
          moreover from n have "10 - (c + 1) = n" by simp
          ultimately show ?thesis using up n by (auto simp: parent_of_def)
        next
          case stuck
          then have "c < 10 \<longrightarrow> climbs ships (10 - c) lower upper" by (rule IH)
          with c show ?thesis by simp
        qed
      qed
    qed
  qed
  with assms(2) show ?thesis by simp
qed

section \<open>Prices and what they earn\<close>

lemma real_index_takeWhile:
  "real_index p i j keys =
     (if takeWhile (\<lambda>k. k \<le> p) keys = [] then j else i + int (length (takeWhile (\<lambda>k. k \<le> p) keys)) - 1)"
  by (induction keys arbitrary: i j) auto

lemma sorted_takeWhile_set: "sorted keys \<Longrightarrow> set (takeWhile (\<lambda>k. k \<le> p) keys) = {k \<in> set keys. k \<le> (p::int)}"
  by (induction keys) auto

lemma sorted_takeWhile_Max:
  assumes "sorted keys" and "takeWhile (\<lambda>k. k \<le> p) keys \<noteq> []"
  shows "keys ! (length (takeWhile (\<lambda>k. k \<le> p) keys) - 1) = Max {k \<in> set keys. k \<le> (p::int)}"
proof -
  let ?ts = "takeWhile (\<lambda>k. k \<le> p) keys"
  have "sorted ?ts" using assms(1) by (rule sorted_takeWhile)
  then have "x \<le> last ?ts" if "x \<in> set ?ts" for x
    using that assms(2) by (auto simp: sorted_iff_nth_mono last_conv_nth in_set_conv_nth)
  then have "last ?ts = Max (set ?ts)"
    using assms(2) by (intro Max_eqI [symmetric]) auto
  moreover have "keys ! (length ?ts - 1) = last ?ts"
    using assms(2) by (simp add: last_conv_nth takeWhile_nth)
  ultimately show ?thesis by (simp add: sorted_takeWhile_set [OF assms(1)])
qed

section \<open>Rows of earnings and of awards\<close>

definition order_rows_ok :: "seller_db \<Rightarrow> bool" where
  "order_rows_ok s \<longleftrightarrow> distinct (map oc_id (sl_order_carrys s)) \<and> distinct (map oc_uni_key (sl_order_carrys s)) \<and>
     (\<forall>oc\<in>set (sl_order_carrys s). oc_carry_num oc \<in> \<int>)"

definition award_rows_ok :: "seller_db \<Rightarrow> bool" where
  "award_rows_ok s \<longleftrightarrow> distinct (map aw_id (sl_awards s)) \<and> distinct (map aw_uni_key (sl_awards s))"

interpretation order_rows: earnings_invariant order_rows_ok
  by unfold_locales (simp_all add: order_rows_ok_def)

interpretation order_rows_awards: award_free order_rows_ok
  by unfold_locales (simp add: order_rows_ok_def)

interpretation order_rows_records: record_free order_rows_ok
  by unfold_locales (simp add: order_rows_ok_def)

interpretation order_rows_fortunes: fortune_free order_rows_ok
  by unfold_locales (simp add: order_rows_ok_def)

interpretation award_rows: earnings_invariant award_rows_ok
  by unfold_locales (simp_all add: award_rows_ok_def)

interpretation award_rows_orders: order_free award_rows_ok
  by unfold_locales (simp add: award_rows_ok_def)

interpretation award_rows_records: record_free award_rows_ok
  by unfold_locales (simp add: award_rows_ok_def)

interpretation award_rows_fortunes: fortune_free award_rows_ok
  by unfold_locales (simp add: award_rows_ok_def)

lemma whole_cents_simps [simp]:
  "oc_id (whole_cents oc) = oc_id oc" "oc_uni_key (whole_cents oc) = oc_uni_key oc"
  "oc_mama_id (whole_cents oc) = oc_mama_id oc" "oc_status (whole_cents oc) = oc_status oc"
  "oc_carry_num (whole_cents oc) \<in> \<int>"
  by (simp_all add: whole_cents_def)

lemma keeps_insert_order_rows: "keeps order_rows_ok (insert_order_carry oc)"
proof (rule keepsI)
  fix s assume ok: "order_rows_ok s"
  let ?oc = "oc\<lparr>oc_id := fresh_pk oc_id (sl_order_carrys s), oc_created := sl_now s, oc_modified := sl_now s\<rparr>"
  have "order_rows_ok (s\<lparr>sl_order_carrys := sl_order_carrys s @ [whole_cents ?oc]\<rparr>)"
    if "\<not> q_exists (\<lambda>x. oc_uni_key x = oc_uni_key oc) (sl_order_carrys s)"
    using ok that fresh_pk_notin [of oc_id "sl_order_carrys s"]
    by (auto simp: order_rows_ok_def q_exists_def filter_empty_conv)
  then show "order_rows_ok (snd (insert_order_carry oc s))"
    using ok keepsD [OF order_rows.keeps_order_carry_saved]
    by (auto simp: insert_order_carry_def prog_simps)
qed

text \<open>Saving some columns of a row: the key and the number stay.\<close>

lemma keeps_save_order_rows:
  assumes f: "\<And>x. oc_id (f x) = oc_id x" "\<And>x. oc_uni_key (f x) = oc_uni_key x"
  shows "keeps order_rows_ok (save_order_carry_fields oc f)"
proof (rule keepsI)
  fix s assume ok: "order_rows_ok s"
  let ?f = "\<lambda>x. if oc_id x = oc_id oc then whole_cents ((f x)\<lparr>oc_modified := sl_now s\<rparr>) else x"
  have "map oc_id (map ?f (sl_order_carrys s)) = map oc_id (sl_order_carrys s)"
    "map oc_uni_key (map ?f (sl_order_carrys s)) = map oc_uni_key (sl_order_carrys s)"
    by (simp_all add: f)
  with ok have "distinct (map oc_id (map ?f (sl_order_carrys s)))" "distinct (map oc_uni_key (map ?f (sl_order_carrys s)))"
    unfolding order_rows_ok_def by (simp_all only: conj_commute)
  with ok have "order_rows_ok (s\<lparr>sl_order_carrys := map ?f (sl_order_carrys s)\<rparr>)"
    by (auto simp: order_rows_ok_def simp del: map_map)
  with ok show "order_rows_ok (snd (save_order_carry_fields oc f s))"
    using keepsD [OF order_rows.keeps_order_carry_saved]
    by (auto simp: save_order_carry_fields_def prog_simps q_update_def)
qed

lemma keeps_set_order_rows: "keeps order_rows_ok (set_order_carry_status oc st)"
  by (auto simp: set_order_carry_status_def intro!: keeps_intro keeps_save_order_rows)

lemma keeps_second_level_rows: "keeps order_rows_ok (task_update_second_level_ordercarry r oc)"
  by (auto simp: task_update_second_level_ordercarry_def gen_ordercarry_def unless_taken_def
        intro!: keeps_intro keeps_insert_order_rows keeps_save_order_rows keeps_set_order_rows split: option.splits)

lemma keeps_order_trigger_rows: "keeps order_rows_ok (task_order_trigger so)"
  by (auto simp: task_order_trigger_def task_update_ordercarry_def unless_taken_def Let_def
        intro!: keeps_intro keeps_insert_order_rows keeps_set_order_rows split: option.splits)

lemma keeps_insert_award_rows: "keeps award_rows_ok (insert_award a)"
proof (rule keepsI)
  fix s assume ok: "award_rows_ok s"
  have "award_rows_ok (s\<lparr>sl_awards := sl_awards s @ [a\<lparr>aw_id := fresh_pk aw_id (sl_awards s)\<rparr>]\<rparr>)"
    if "award_by_key (aw_uni_key a) s = None"
    using ok that fresh_pk_notin [of aw_id "sl_awards s"]
    by (auto simp: award_rows_ok_def award_by_key_def filter_empty_conv)
  then show "award_rows_ok (snd (insert_award a s))"
    using ok by (auto simp: insert_award_def delay_def prog_simps award_rows_ok_def)
qed

lemma keeps_send_award_rows: "keeps award_rows_ok (send_award m num plan k st ty c)"
  by (auto simp: send_award_def Let_def intro!: keeps_intro keeps_insert_award_rows split: option.splits prod.splits)

lemma save_award_rows:
  assumes "award_rows_ok s" and "a \<in> set (sl_awards s)" and "aw_id b = aw_id a" and "aw_uni_key b = aw_uni_key a"
  shows "award_rows_ok (snd (save_award b s))"
  using assms save_distinct [of aw_id "sl_awards s" aw_uni_key a b] keepsD [OF award_rows.keeps_delay]
  by (simp add: save_award_def prog_simps award_rows_ok_def)

lemma award_by_key_member: "award_by_key k s = Some a \<Longrightarrow> a \<in> set (sl_awards s)"
  by (auto simp: award_by_key_def dest: q_first_filter)

lemma follow_award_rows:
  "award_rows_ok s \<Longrightarrow> a \<in> set (sl_awards s) \<Longrightarrow> award_rows_ok (snd (follow_award a st s))"
  by (auto simp: follow_award_def prog_simps intro!: save_award_rows)

lemma indirect_award_rows:
  "award_rows_ok s \<Longrightarrow> a \<in> set (sl_awards s) \<Longrightarrow> award_rows_ok (snd (indirect_award r a s))"
  by (auto simp: indirect_award_def Let_def prog_simps follow_award_rows)

lemma insert_award_member: "insert_award a s = (Inr b, t) \<Longrightarrow> b \<in> set (sl_awards t)"
  by (auto simp: insert_award_def delay_def prog_simps split: if_splits)

lemma referal_award_rows:
  assumes ok: "award_rows_ok s"
  shows "award_rows_ok (snd (task_referal_update_awardcarry r s))"
proof (cases "award_by_key (award_gen_uni_key (rr_to_mama_id r) AWARD_REFERAL) s")
  case None
  let ?a = "referal_award r (if ship_is_confirmed r then CARRY_CONFIRMED else CARRY_PENDING)"
  obtain x t where ins: "insert_award ?a s = (x, t)" by fastforce
  then have "award_rows_ok t" using keepsD [OF keeps_insert_award_rows ok] by (metis snd_conv)
  with None ins insert_award_member show ?thesis
    by (cases x) (auto simp: task_referal_update_awardcarry_def Let_def prog_simps intro!: indirect_award_rows
        split: option.splits)
next
  case (Some a)
  with ok show ?thesis
    by (auto simp: task_referal_update_awardcarry_def Let_def prog_simps dest: award_by_key_member
        intro!: follow_award_rows)
qed

lemma order_rows_job: "keeps order_rows_ok (run_job j)"
  by (cases j) (simp_all add: order_rows.keeps_daily_tasks order_rows_records.keeps_record_tasks keeps_second_level_rows
    order_rows_fortunes.keeps_fortune_tasks order_rows_fortunes.keeps_active_hasale order_rows_awards.keeps_referal_award)

lemma award_rows_job: "keeps award_rows_ok (run_job j)"
  by (cases j) (simp_all add: award_rows.keeps_daily_tasks award_rows_records.keeps_record_tasks
    award_rows_orders.keeps_second_level award_rows_fortunes.keeps_fortune_tasks
    award_rows_fortunes.keeps_active_hasale keepsI referal_award_rows)

lemma order_rows_step:
  assumes "carry_step s t" and ok: "order_rows_ok s"
  shows "order_rows_ok t"
  using assms(1)
proof (cases rule: carry_step.cases)
  case (run js j ks)
  have "order_rows_ok (s\<lparr>sl_jobs := js @ ks\<rparr>)" using ok by (simp add: order_rows_ok_def)
  with run keepsD [OF order_rows_job] show ?thesis by simp
qed (use ok in \<open>auto intro: keepsD keeps_order_trigger_rows order_rows_awards.keeps_send_award
       order_rows_awards.keeps_award_steps order_rows.keeps_relate order_rows.clock\<close>)

lemma award_rows_step:
  assumes "carry_step s t" and ok: "award_rows_ok s"
  shows "award_rows_ok t"
  using assms(1)
proof (cases rule: carry_step.cases)
  case (run js j ks)
  have "award_rows_ok (s\<lparr>sl_jobs := js @ ks\<rparr>)" using ok by (simp add: award_rows_ok_def)
  with run keepsD [OF award_rows_job] show ?thesis by simp
qed (use ok in \<open>auto simp: cancel_award_def confirm_award_def intro: keepsD award_rows_orders.keeps_order_trigger
       keeps_send_award_rows save_award_rows award_rows.keeps_relate award_rows.clock\<close>)

definition earning_rows_ok :: "seller_db \<Rightarrow> bool" where
  "earning_rows_ok s \<longleftrightarrow> records_ok s \<and> order_rows_ok s \<and> award_rows_ok s"

lemma earning_rows_step: "carry_step s t \<Longrightarrow> earning_rows_ok s \<Longrightarrow> earning_rows_ok t"
  using record_inv_step [of "\<lambda>_. True" s t "''''"] order_rows_step award_rows_step
  by (simp add: earning_rows_ok_def record_inv_def)

lemma earning_rows_steps: "carry_step\<^sup>*\<^sup>* s t \<Longrightarrow> earning_rows_ok s \<Longrightarrow> earning_rows_ok t"
  by (induction rule: rtranclp_induct) (auto intro: earning_rows_step)

section \<open>Counting orders\<close>

text \<open>The counter of a seller's fortune, 0 where there is none yet, and when a recount is waiting.\<close>

definition order_num_of :: "pk_id \<Rightarrow> seller_db \<Rightarrow> int" where
  "order_num_of i s = (case q_first (filter (\<lambda>f. mf_mama_id f = i) (sl_fortunes s)) of None \<Rightarrow> 0 | Some f \<Rightarrow> mf_order_num f)"

definition order_num_counted :: "pk_id \<Rightarrow> seller_db \<Rightarrow> bool" where
  "order_num_counted i s \<longleftrightarrow> order_num_of i s = int (live_orders_of i s) \<or> MAMAFORTUNE_ORDER_NUM i \<in> set (sl_jobs s)"

text \<open>What the invariant needs of the rows: keys, and that the objects \<open>X\<close> a task still holds
  name the sellers their rows have.\<close>

definition count_inv :: "pk_id \<Rightarrow> order_carry set \<Rightarrow> seller_db \<Rightarrow> bool" where
  "count_inv i X s \<longleftrightarrow> distinct (map mf_id (sl_fortunes s)) \<and> distinct (map oc_id (sl_order_carrys s)) \<and>
     (\<forall>x\<in>X. \<forall>oc\<in>set (sl_order_carrys s). oc_id oc = oc_id x \<longrightarrow> oc_mama_id oc = oc_mama_id x) \<and>
     order_num_counted i s"

lemmas count_defs = count_inv_def order_num_counted_def order_num_of_def live_orders_of_def

interpretation counts: earnings_invariant "count_inv i X" for i X
  by unfold_locales (auto simp: count_defs)

interpretation counts_records: record_free "count_inv i X" for i X
  by unfold_locales (simp add: count_defs)

interpretation counts_awards: award_free "count_inv i X" for i X
  by unfold_locales (simp add: count_defs)

lemma order_num_cong:
  assumes "map (\<lambda>f. (mf_mama_id f, mf_order_num f)) (sl_fortunes t) = map (\<lambda>f. (mf_mama_id f, mf_order_num f)) (sl_fortunes s)"
  shows "order_num_of i t = order_num_of i s"
proof -
  have proj: "order_num_of i s = (case q_first (filter (\<lambda>p. fst p = i)
      (map (\<lambda>f. (mf_mama_id f, mf_order_num f)) (sl_fortunes s))) of None \<Rightarrow> 0 | Some p \<Rightarrow> snd p)" for s
    unfolding order_num_of_def by (induction "sl_fortunes s") (auto simp: order_num_of_def filter_map comp_def q_first_def
      split: option.splits list.splits)
  show ?thesis by (simp only: proj assms)
qed

lemma order_num_other_row:
  "mf_mama_id f \<noteq> i \<or> mf_order_num f = 0 \<and> order_num_of i s = 0 \<Longrightarrow>
    order_num_of i (s\<lparr>sl_cash := m_fortunes_update (\<lambda>t. t @ [f]) (sl_cash s)\<rparr>) = order_num_of i s"
  by (cases "filter (\<lambda>f. mf_mama_id f = i) (sl_fortunes s)") (auto simp: order_num_of_def q_first_def)

lemma count_inv_fortunes:
  assumes "count_inv i X s" and "distinct (map mf_id (g (sl_fortunes s)))"
    and "order_num_of i (s\<lparr>sl_cash := m_fortunes_update g (sl_cash s)\<rparr>) = order_num_of i s"
  shows "count_inv i X (snd (modify_fortunes g s))"
  using assms by (simp add: modify_fortunes_def prog_simps count_inv_def order_num_counted_def live_orders_of_def)

lemma order_carry_saved_run:
  "\<exists>js. order_carry_saved b oc s = (Inr (), s\<lparr>sl_jobs := sl_jobs s @ js\<rparr>) \<and> MAMAFORTUNE_ORDER_NUM (oc_mama_id oc) \<in> set js"
  by (auto simp: order_carry_saved_def delay_def delay_when_def prog_simps split: option.splits)

text \<open>Writing to a fortune other than its counter of orders.\<close>

lemma new_fortune_simps [simp]:
  "mf_mama_id (new_fortune mid s) = mid" "mf_order_num (new_fortune mid s) = 0"
  "mf_id (new_fortune mid s) = fresh_pk mf_id (sl_fortunes s)"
  by (simp_all add: new_fortune_def)

lemma no_fortune_no_orders: "\<forall>f\<in>set (sl_fortunes s). mf_mama_id f \<noteq> i \<Longrightarrow> order_num_of i s = 0"
  by (simp add: order_num_of_def)

lemma count_inv_update:
  assumes inv: "count_inv i X s" and f: "\<And>x. mf_id (f x) = mf_id x" "\<And>x. mf_mama_id (f x) = mf_mama_id x"
    and num: "mid \<noteq> i \<or> (\<forall>x. mf_order_num (f x) = mf_order_num x)"
  shows "count_inv i X (snd (modify_fortunes (q_update (\<lambda>x. mf_mama_id x = mid) f) s))"
proof (rule count_inv_fortunes [OF inv])
  have "map mf_id (q_update (\<lambda>x. mf_mama_id x = mid) f t) = map mf_id t" for t
    by (induction t) (auto simp: q_update_def f)
  with inv show "distinct (map mf_id (q_update (\<lambda>x. mf_mama_id x = mid) f (sl_fortunes s)))"
    by (simp add: count_inv_def)
  have "q_first (filter (\<lambda>x. mf_mama_id x = i) (q_update (\<lambda>x. mf_mama_id x = mid) f t))
      = map_option (\<lambda>x. if mf_mama_id x = mid then f x else x) (q_first (filter (\<lambda>x. mf_mama_id x = i) t))" for t
    by (induction t) (auto simp: q_update_def f)
  with num show "order_num_of i (s\<lparr>sl_cash := m_fortunes_update (q_update (\<lambda>x. mf_mama_id x = mid) f) (sl_cash s)\<rparr>)
      = order_num_of i s"
    by (auto simp: order_num_of_def split: option.splits dest: q_first_filter)
qed

lemma count_inv_new_fortune:
  assumes inv: "count_inv i X s" and new: "\<forall>f\<in>set (sl_fortunes s). mf_mama_id f \<noteq> mid"
    and f: "mf_id f = fresh_pk mf_id (sl_fortunes s)" "mf_mama_id f = mid" "mid \<noteq> i \<or> mf_order_num f = 0"
  shows "count_inv i X (snd (modify_fortunes (\<lambda>t. t @ [f]) s))"
proof (rule count_inv_fortunes [OF inv])
  show "distinct (map mf_id (sl_fortunes s @ [f]))"
    using inv fresh_pk_notin [of mf_id "sl_fortunes s"] by (simp add: count_inv_def f)
  show "order_num_of i (s\<lparr>sl_cash := m_fortunes_update (\<lambda>t. t @ [f]) (sl_cash s)\<rparr>) = order_num_of i s"
    using new f no_fortune_no_orders [of s i] by (intro order_num_other_row) auto
qed

lemma keeps_count_write:
  assumes f: "\<And>x. mf_id (f x) = mf_id x" "\<And>x. mf_mama_id (f x) = mf_mama_id x"
    and num: "mid \<noteq> i \<or> (\<forall>x. mf_order_num (f x) = mf_order_num x)"
  shows "keeps (count_inv i X) (write_fortune mid f)"
proof (rule keepsI)
  fix s assume inv: "count_inv i X s"
  show "count_inv i X (snd (write_fortune mid f s))"
  proof (cases "q_exists (\<lambda>x. mf_mama_id x = mid) (sl_fortunes s)")
    case True
    with count_inv_update [OF inv f num] show ?thesis by (simp add: write_fortune_def prog_simps)
  next
    case False
    then have "count_inv i X (snd (modify_fortunes (\<lambda>t. t @ [f (new_fortune mid s)]) s))"
      using num by (intro count_inv_new_fortune [OF inv]) (auto simp: q_exists_def filter_empty_conv f)
    with False show ?thesis by (simp add: write_fortune_def prog_simps)
  qed
qed

lemma keeps_count_fortune_tasks:
  "keeps (count_inv i X) (task_xiaolumama_update_mamafortune mid cash)"
  "keeps (count_inv i X) (task_update_mamafortune_invite_num mid)"
  "keeps (count_inv i X) (task_update_mamafortune_mama_level r)"
  "keeps (count_inv i X) (task_update_mamafortune_fans_num mid)"
  "mid \<noteq> i \<Longrightarrow> keeps (count_inv i X) (task_update_mamafortune_order_num mid)"
  by (auto simp: task_update_mamafortune_order_num_def task_xiaolumama_update_mamafortune_def
        task_update_mamafortune_invite_num_def task_update_mamafortune_mama_level_def
        task_update_mamafortune_fans_num_def intro!: keeps_intro keeps_count_write)

lemma get_by_mamaid_run:
  assumes inv: "count_inv i X s" and run: "get_by_mamaid mid s = (x, t)"
  shows "count_inv i X t \<and> (\<forall>f. x = Inr f \<longrightarrow> f \<in> set (sl_fortunes t))"
proof (cases "filter (\<lambda>f. mf_mama_id f = mid) (sl_fortunes s)")
  case Nil
  then have "count_inv i X (snd (modify_fortunes (\<lambda>t. t @ [new_fortune mid s]) s))"
    by (intro count_inv_new_fortune [OF inv]) (auto simp: filter_empty_conv)
  with Nil inv run show ?thesis
    by (auto simp: get_by_mamaid_def modify_fortunes_def prog_simps split: if_splits)
next
  case (Cons f fs)
  then have "f \<in> set (sl_fortunes s)" by (auto simp: filter_eq_Cons_iff)
  with Cons inv run show ?thesis by (auto simp: get_by_mamaid_def prog_simps)
qed

lemma count_inv_save:
  assumes inv: "count_inv i X s" and f: "f \<in> set (sl_fortunes s)"
    and g: "mf_id g = mf_id f" "mf_mama_id g = mf_mama_id f" "mf_order_num g = mf_order_num f"
  shows "count_inv i X (snd (modify_fortunes (tbl_save mf_id g) s))"
proof (rule count_inv_fortunes [OF inv])
  have same: "\<And>x. x \<in> set (sl_fortunes s) \<Longrightarrow> mf_id x = mf_id f \<Longrightarrow> x = f"
    using inv f by (auto simp: count_inv_def distinct_map inj_on_def)
  have save: "tbl_save mf_id g (sl_fortunes s) = map (\<lambda>x. if mf_id x = mf_id f then g else x) (sl_fortunes s)"
    using f g by (auto simp: tbl_save_def)
  have "map mf_id (tbl_save mf_id g (sl_fortunes s)) = map mf_id (sl_fortunes s)"
    unfolding save by (auto simp: g)
  with inv show "distinct (map mf_id (tbl_save mf_id g (sl_fortunes s)))" by (simp add: count_inv_def)
  show "order_num_of i (s\<lparr>sl_cash := m_fortunes_update (tbl_save mf_id g) (sl_cash s)\<rparr>) = order_num_of i s"
    by (rule order_num_cong) (auto simp: save g dest: same)
qed

lemma keeps_count_active_num: "keeps (count_inv i X) (task_update_mamafortune_active_num mid)"
proof (rule keepsI)
  fix s assume inv: "count_inv i X s"
  obtain x t where run: "get_by_mamaid mid s = (x, t)" by fastforce
  note got = get_by_mamaid_run [OF inv run]
  show "count_inv i X (snd (task_update_mamafortune_active_num mid s))"
  proof (cases x)
    case (Inl e)
    with got run show ?thesis by (simp add: task_update_mamafortune_active_num_def prog_simps)
  next
    case (Inr f)
    with got run show ?thesis
      by (auto simp: task_update_mamafortune_active_num_def prog_simps intro!: count_inv_save [of _ _ _ f] split: option.splits)
  qed
qed

lemma keeps_count_active_hasale: "keeps (count_inv i X) (carryrecord_update_xiaolumama_active_hasale mid)"
  by (auto simp: carryrecord_update_xiaolumama_active_hasale_def
        intro!: keeps_intro counts.keeps_mama_set keeps_count_active_num)

text \<open>Writing to the earnings: every write is followed by a recount for the seller of the row.\<close>

lemma count_inv_saved:
  assumes "distinct (map mf_id (sl_fortunes s))" and "distinct (map oc_id (sl_order_carrys s))"
    and "\<forall>x\<in>X. \<forall>y\<in>set (sl_order_carrys s). oc_id y = oc_id x \<longrightarrow> oc_mama_id y = oc_mama_id x"
    and "oc_mama_id oc = i \<or> order_num_counted i s"
  shows "count_inv i X (snd (order_carry_saved b oc s))"
proof -
  obtain js where run: "order_carry_saved b oc s = (Inr (), s\<lparr>sl_jobs := sl_jobs s @ js\<rparr>)"
    "MAMAFORTUNE_ORDER_NUM (oc_mama_id oc) \<in> set js"
    using order_carry_saved_run by blast
  with assms show ?thesis by (auto simp: count_defs)
qed

lemma keeps_count_insert: "keeps (count_inv i {}) (insert_order_carry oc)"
proof (rule keepsI)
  fix s assume inv: "count_inv i {} s"
  let ?oc = "oc\<lparr>oc_id := fresh_pk oc_id (sl_order_carrys s), oc_created := sl_now s, oc_modified := sl_now s\<rparr>"
  let ?s = "s\<lparr>sl_order_carrys := sl_order_carrys s @ [whole_cents ?oc]\<rparr>"
  have "count_inv i {} (snd (order_carry_saved True ?oc ?s))"
    using inv fresh_pk_notin [of oc_id "sl_order_carrys s"]
    by (intro count_inv_saved) (auto simp: count_defs q_count_def)
  with inv show "count_inv i {} (snd (insert_order_carry oc s))"
    by (simp add: insert_order_carry_def prog_simps)
qed

lemma keeps_count_save:
  assumes x: "x \<in> X" and f: "\<And>y. oc_id (f y) = oc_id y" "\<And>y. oc_mama_id (f y) = oc_mama_id y"
  shows "keeps (count_inv i X) (save_order_carry_fields x f)"
proof (rule keepsI)
  fix s assume inv: "count_inv i X s"
  let ?g = "\<lambda>y. (f y)\<lparr>oc_modified := sl_now s\<rparr>"
  let ?h = "\<lambda>y. if oc_id y = oc_id x then whole_cents (?g y) else y"
  let ?s = "s\<lparr>sl_order_carrys := map ?h (sl_order_carrys s)\<rparr>"
  have ids: "map oc_id (map ?h (sl_order_carrys s)) = map oc_id (sl_order_carrys s)" by (simp add: f)
  have other: "filter (\<lambda>y. oc_mama_id y = i \<and> oc_status y \<noteq> OC_CANCEL) (map ?h t)
      = filter (\<lambda>y. oc_mama_id y = i \<and> oc_status y \<noteq> OC_CANCEL) t"
    if "oc_mama_id x \<noteq> i" "\<forall>y\<in>set t. oc_id y = oc_id x \<longrightarrow> oc_mama_id y = oc_mama_id x" for t
    using that by (induction t) (auto simp: f)
  have "count_inv i X (snd (order_carry_saved False (?g x) ?s))"
  proof (rule count_inv_saved)
    show "distinct (map mf_id (sl_fortunes ?s))" using inv by (simp add: count_inv_def)
    show "distinct (map oc_id (sl_order_carrys ?s))" using inv ids by (simp add: count_inv_def del: map_map)
    show "\<forall>x\<in>X. \<forall>y\<in>set (sl_order_carrys ?s). oc_id y = oc_id x \<longrightarrow> oc_mama_id y = oc_mama_id x"
      using inv by (auto simp: count_inv_def f)
    have "live_orders_of i ?s = live_orders_of i s" if "oc_mama_id x \<noteq> i"
      using inv x other [of "sl_order_carrys s"] that
      by (simp add: live_orders_of_def q_count_def count_inv_def del: length_filter_map)
    then show "oc_mama_id (?g x) = i \<or> order_num_counted i ?s"
      using inv by (auto simp: f count_inv_def order_num_counted_def order_num_of_def)
  qed
  with inv show "count_inv i X (snd (save_order_carry_fields x f s))"
    by (simp add: save_order_carry_fields_def prog_simps q_update_def)
qed

lemma keeps_count_status: "x \<in> X \<Longrightarrow> keeps (count_inv i X) (set_order_carry_status x st)"
  by (auto simp: set_order_carry_status_def intro!: keeps_intro keeps_count_save)

lemma count_inv_held:
  assumes inv: "count_inv i {} s" and X: "X \<subseteq> set (sl_order_carrys s)"
  shows "count_inv i X s"
proof -
  have "inj_on oc_id (set (sl_order_carrys s))" using inv by (simp add: count_inv_def distinct_map)
  with X have "\<forall>x\<in>X. \<forall>y\<in>set (sl_order_carrys s). oc_id y = oc_id x \<longrightarrow> oc_mama_id y = oc_mama_id x"
    by (auto dest: inj_onD)
  with inv show ?thesis by (simp add: count_inv_def)
qed

lemma count_inv_dropped: "count_inv i X s \<Longrightarrow> count_inv i {} s"
  by (simp add: count_inv_def)

lemma count_with_held:
  assumes "keeps (count_inv i X) m" and "count_inv i {} s" and "X \<subseteq> set (sl_order_carrys s)"
  shows "count_inv i {} (snd (m s))"
  using assms count_inv_held count_inv_dropped keepsD by metis

lemma order_carry_by_key_member: "order_carry_by_key k s = Some x \<Longrightarrow> {x} \<subseteq> set (sl_order_carrys s)"
  by (auto simp: order_carry_by_key_def dest: q_first_filter)

text \<open>A program that asks for the row of a key, and writes to it or inserts one.\<close>

lemma keeps_count_lookup:
  assumes "\<And>x. \<exists>X. keeps (count_inv i X) (f x) \<and> (\<forall>s. count_inv i {x} s \<longrightarrow> count_inv i X s)"
    and "keeps (count_inv i {}) n"
  shows "keeps (count_inv i {}) (bindE (asks (order_carry_by_key k)) (\<lambda>found. case found of None \<Rightarrow> n | Some x \<Rightarrow> f x))"
proof (rule keeps_asks_bind)
  fix s assume inv: "count_inv i {} s"
  show "count_inv i {} (snd ((case order_carry_by_key k s of None \<Rightarrow> n | Some x \<Rightarrow> f x) s))"
  proof (cases "order_carry_by_key k s")
    case None
    with inv assms(2) show ?thesis by (simp add: keepsD)
  next
    case (Some x)
    with assms(1) [of x] count_inv_held [OF inv order_carry_by_key_member [OF Some]] show ?thesis
      by (auto dest: keepsD intro: count_inv_dropped)
  qed
qed

lemma keeps_count_gen: "keeps (count_inv i {}) (gen_ordercarry r oc ty num)"
proof -
  have "keeps (count_inv i {x, x\<lparr>oc_status := oc_status oc\<rparr>}) (thenE (set_order_carry_status x (oc_status oc))
      (whenE (oc_carry_num x \<noteq> num)
        (save_order_carry_fields (x\<lparr>oc_status := oc_status oc\<rparr>) (\<lambda>x. x\<lparr>oc_carry_num := num\<rparr>))))" for x
    by (intro keeps_intro keeps_count_status keeps_count_save) auto
  then have "\<exists>X. keeps (count_inv i X) (thenE (set_order_carry_status x (oc_status oc))
      (whenE (oc_carry_num x \<noteq> num)
        (save_order_carry_fields (x\<lparr>oc_status := oc_status oc\<rparr>) (\<lambda>x. x\<lparr>oc_carry_num := num\<rparr>))))
      \<and> (\<forall>s. count_inv i {x} s \<longrightarrow> count_inv i X s)" for x
    by (intro exI [where x = "{x, x\<lparr>oc_status := oc_status oc\<rparr>}"]) (auto simp: count_inv_def)
  moreover have "keeps (count_inv i {}) (if b then ret () else unless_taken (insert_order_carry y))" for b y
    by (auto simp: unless_taken_def intro!: keeps_intro keeps_count_insert)
  ultimately show ?thesis
    unfolding gen_ordercarry_def by - (rule keeps_bindE [OF keeps_liftE], rule keeps_count_lookup)
qed

lemma keeps_count_second_level: "keeps (count_inv i {}) (task_update_second_level_ordercarry r oc)"
  unfolding task_update_second_level_ordercarry_def
proof (rule keeps_asks_bind)
  fix s assume inv: "count_inv i {} s"
  let ?rs = "filter (\<lambda>x. oc_order_id x = oc_order_id oc \<and> oc_carry_type x = REFERAL_ORDER) (sl_order_carrys s)"
  have "count_inv i {} (snd (forE (\<lambda>x. set_order_carry_status x (oc_status oc)) ?rs s))"
    by (rule count_with_held [of _ "set ?rs", OF _ inv]) (auto intro!: keeps_intro keeps_count_status)
  moreover have "keeps (count_inv i {}) (bindE (asks (\<lambda>s. q_first (filter (\<lambda>so. so_oid so = oc_order_id oc) (d_orders (ml_shop (sl_mall s)))))) (\<lambda>so.
       case so of
         None \<Rightarrow> raise AttributeError
       | Some so \<Rightarrow>
           bindE (asks (\<lambda>s. item_product so (ml_shop (sl_mall s)))) (\<lambda>p.
           whenE (p \<noteq> None) (gen_ordercarry r oc REFERAL_ORDER (oc_carry_num oc / 10)))))"
    by (auto intro!: keeps_intro keeps_count_gen split: option.splits)
  ultimately show "count_inv i {} (snd ((if ?rs \<noteq> [] then forE (\<lambda>x. set_order_carry_status x (oc_status oc)) ?rs
     else
       bindE (asks (\<lambda>s. q_first (filter (\<lambda>so. so_oid so = oc_order_id oc) (d_orders (ml_shop (sl_mall s)))))) (\<lambda>so.
       case so of
         None \<Rightarrow> raise AttributeError
       | Some so \<Rightarrow>
           bindE (asks (\<lambda>s. item_product so (ml_shop (sl_mall s)))) (\<lambda>p.
           whenE (p \<noteq> None) (gen_ordercarry r oc REFERAL_ORDER (oc_carry_num oc / 10))))) s))"
    using inv by (auto dest: keepsD)
qed

lemma keeps_count_ordercarry: "keeps (count_inv i {}) (task_update_ordercarry mid so c n lv plan app)"
proof -
  have "\<exists>X. keeps (count_inv i X) (set_order_carry_status x st) \<and> (\<forall>s. count_inv i {x} s \<longrightarrow> count_inv i X s)" for x st
    using keeps_count_status [of x "{x}"] by blast
  then show ?thesis
    unfolding task_update_ordercarry_def Let_def
    by - (rule keeps_bindE [OF keeps_liftE], rule keeps_count_lookup,
      auto simp: unless_taken_def intro!: keeps_intro keeps_count_insert)
qed

lemma keeps_count_trigger: "keeps (count_inv i {}) (task_order_trigger so)"
  by (auto simp: task_order_trigger_def Let_def intro!: keeps_intro keeps_count_ordercarry split: option.splits)

lemma order_num_recount:
  assumes D: "distinct (map mf_id (sl_fortunes s))" "distinct (map oc_id (sl_order_carrys s))"
  shows "count_inv i {} (snd (task_update_mamafortune_order_num i s))"
proof -
  let ?n = "int (live_orders_of i s)"
  let ?f = "\<lambda>x. x\<lparr>mf_order_num := ?n\<rparr>"
  have ids: "map mf_id (q_update (\<lambda>x. mf_mama_id x = i) ?f t) = map mf_id t" for t
    by (induction t) (auto simp: q_update_def)
  have first: "q_first (filter (\<lambda>x. mf_mama_id x = i) (q_update (\<lambda>x. mf_mama_id x = i) ?f t))
      = map_option ?f (q_first (filter (\<lambda>x. mf_mama_id x = i) t))" for t
    by (induction t) (auto simp: q_update_def)
  show ?thesis
  proof (cases "q_exists (\<lambda>x. mf_mama_id x = i) (sl_fortunes s)")
    case True
    then obtain f fs where "filter (\<lambda>x. mf_mama_id x = i) (sl_fortunes s) = f # fs"
      by (auto simp: q_exists_def neq_Nil_conv)
    with True D first [of "sl_fortunes s"] ids [of "sl_fortunes s"] show ?thesis
      by (simp add: task_update_mamafortune_order_num_def write_fortune_def modify_fortunes_def prog_simps
          count_inv_def order_num_counted_def order_num_of_def live_orders_of_def)
  next
    case False
    with D fresh_pk_notin [of mf_id "sl_fortunes s"] show ?thesis
      by (simp add: task_update_mamafortune_order_num_def write_fortune_def modify_fortunes_def prog_simps
          count_inv_def order_num_counted_def order_num_of_def live_orders_of_def q_exists_def)
  qed
qed

lemma count_inv_job: "j \<noteq> MAMAFORTUNE_ORDER_NUM i \<Longrightarrow> keeps (count_inv i {}) (run_job j)"
  by (cases j) (auto intro: counts.keeps_daily_tasks counts_records.keeps_record_tasks keeps_count_second_level
    keeps_count_fortune_tasks keeps_count_active_hasale counts_awards.keeps_referal_award)

lemma count_inv_step:
  assumes "carry_step s t" and inv: "count_inv i {} s"
  shows "count_inv i {} t"
  using assms(1)
proof (cases rule: carry_step.cases)
  case (run js j ks)
  show ?thesis
  proof (cases "j = MAMAFORTUNE_ORDER_NUM i")
    case True
    with run(1) inv order_num_recount [of "s\<lparr>sl_jobs := js @ ks\<rparr>" i] show ?thesis by (simp add: count_inv_def)
  next
    case False
    with run(2) inv have "count_inv i {} (s\<lparr>sl_jobs := js @ ks\<rparr>)" by (auto simp: count_defs)
    with run(1) False count_inv_job show ?thesis by (simp add: keepsD)
  qed
qed (use inv in \<open>auto intro: keepsD keeps_count_trigger counts_awards.keeps_send_award
       counts_awards.keeps_award_steps counts.keeps_relate counts.clock\<close>)

lemma count_inv_steps: "carry_step\<^sup>*\<^sup>* s t \<Longrightarrow> count_inv i {} s \<Longrightarrow> count_inv i {} t"
  by (induction rule: rtranclp_induct) (auto intro: count_inv_step)

lemma follow_award_types:
  "\<forall>x\<in>set (sl_awards s). aw_carry_type x \<noteq> ty \<Longrightarrow> aw_carry_type a \<noteq> ty \<Longrightarrow>
    \<forall>x\<in>set (sl_awards (snd (follow_award a st s))). aw_carry_type x \<noteq> ty"
  by (auto simp: follow_award_def save_award_def delay_def prog_simps dest!: tbl_save_mem)

lemma referal_award_types:
  assumes types: "\<forall>a\<in>set (sl_awards s). aw_carry_type a \<noteq> AWARD_INDIRECT_INVITE"
  shows "\<forall>a\<in>set (sl_awards (snd (task_referal_update_awardcarry r s))). aw_carry_type a \<noteq> AWARD_INDIRECT_INVITE"
proof (cases "award_by_key (award_gen_uni_key (rr_to_mama_id r) AWARD_REFERAL) s")
  case None
  let ?a = "referal_award r (if ship_is_confirmed r then CARRY_CONFIRMED else CARRY_PENDING)"
  obtain x t where ins: "insert_award ?a s = (x, t)" by fastforce
  with types have t: "\<forall>a\<in>set (sl_awards t). aw_carry_type a \<noteq> AWARD_INDIRECT_INVITE"
    and b: "\<And>b. x = Inr b \<Longrightarrow> aw_carry_type b \<noteq> AWARD_INDIRECT_INVITE"
    by (auto simp: insert_award_def delay_def prog_simps referal_award_def split: if_splits)
  with None ins follow_award_types [OF t] show ?thesis
    by (cases x) (auto simp: task_referal_update_awardcarry_def indirect_award_def Let_def prog_simps
        split: option.splits)
next
  case (Some a)
  with types have "aw_carry_type a \<noteq> AWARD_INDIRECT_INVITE" by (auto dest: award_by_key_member)
  with Some follow_award_types [OF types] show ?thesis
    by (simp add: task_referal_update_awardcarry_def Let_def prog_simps)
qed

lemma referal_award_unbound:
  assumes "award_by_key (award_gen_uni_key (rr_to_mama_id r) AWARD_REFERAL) s = None"
    and "get_refer_to_relationships (rr_from_mama_id r) s = None"
  shows "fst (task_referal_update_awardcarry r s) = Inl (Exn ''UnboundLocalError'') \<and>
    award_by_key (award_gen_uni_key (rr_to_mama_id r) AWARD_REFERAL) (snd (task_referal_update_awardcarry r s)) \<noteq> None"
  using assms
  by (auto simp: task_referal_update_awardcarry_def insert_award_def delay_def prog_simps Let_def
      referal_award_def award_by_key_def get_refer_to_relationships_def)

section \<open>Properties of the earnings\<close>

text \<open>The seller of the coupons' example, her fortune, and one earning of three yuan.\<close>

definition example_sellers :: seller_db where
  "example_sellers =
     \<lparr>sl_mall = \<lparr>ml_shop = pack_shop, ml_wallet = example_funded, ml_coins = example_coins,
        ml_coupons = example_coupons, ml_teambuys = [], ml_team_details = []\<rparr>,
      sl_cash = example_mama, sl_ships = [], sl_fans = [], sl_fans_numbers = [], sl_potentials = [],
      sl_schemes = [], sl_records = [], sl_order_carrys = [], sl_awards = [], sl_dailystats = [],
      sl_visitors = [], sl_now = midnight 736080, sl_jobs = []\<rparr>"

definition example_earning :: order_carry where
  "example_earning = \<lparr>oc_id = 1, oc_mama_id = 44, oc_order_id = ''xo6'', oc_order_value = 3000, oc_carry_num = 300,
     oc_carry_type = WAP_ORDER, oc_sku_name = '''', oc_sku_img = '''', oc_contributor_nick = '''',
     oc_contributor_img = '''', oc_contributor_id = 7, oc_carry_plan_name = '''', oc_agency_level = 2,
     oc_date_field = 736080, oc_uni_key = ''order-1-xo6'', oc_status = OC_ESTIMATE, oc_created = 0, oc_modified = 0\<rparr>"

definition example_record :: carry_record where
  "example_record = \<lparr>cr_id = 1, cr_mama_id = 44, cr_carry_num = 300, cr_carry_type = CR_ORDER,
     cr_date_field = 736080, cr_uni_key = ''order-1-xo6'', cr_status = CARRY_CONFIRMED\<rparr>"

lemmas sellers_defs = example_sellers_def example_earning_def example_record_def example_mama_def example_fortune_def

lemma example_rows_ok: "earning_rows_ok example_sellers"
  by (simp add: earning_rows_ok_def records_ok_def order_rows_ok_def award_rows_ok_def example_sellers_def)

text \<open>
  C34. The record of an earning is the state machine \<open>follow\<close> run over the snapshots that the queue
  delivers, whatever their order and whichever of the tasks raise: no record is made for an earning
  first seen cancelled, a pending one takes any state, a confirmed one can only be cancelled, a
  cancelled one is final.
\<close>

theorem order_record_follows_snapshots:
  assumes "records_ok s" and "\<forall>oc\<in>set ocs. oc_uni_key oc = k \<and> oc_mama_id oc \<noteq> 0"
  shows "record_state k (fold (\<lambda>oc s. snd (run_job (ORDERCARRY_CARRYRECORD oc) s)) ocs s)
       = fold (\<lambda>oc x. follow x (carry_record_status (oc_status oc))) ocs (record_state k s)"
  using assms
proof (induction ocs arbitrary: s)
  case (Cons oc ocs)
  from order_task_records [OF Cons.prems(1) refl, of oc k] Cons.prems(2) Cons.IH show ?case
    by simp
qed simp

theorem order_record_follows_snapshots_witness:
  "record_state ''order-1-xo6'' (fold (\<lambda>oc s. snd (run_job (ORDERCARRY_CARRYRECORD oc) s))
     [example_earning, example_earning\<lparr>oc_status := OC_CONFIRM\<rparr>, example_earning\<lparr>oc_status := OC_CANCEL\<rparr>] example_sellers)
   = Some CARRY_CANCEL"
  using order_record_follows_snapshots [of example_sellers
      "[example_earning, example_earning\<lparr>oc_status := OC_CONFIRM\<rparr>, example_earning\<lparr>oc_status := OC_CANCEL\<rparr>]"
      "''order-1-xo6''"] example_rows_ok
  by (simp add: earning_rows_ok_def record_state_def record_by_key_def sellers_defs)

text \<open>
  C40. The snapshots carry no order: when the task of a cancelled earning overtakes that of its
  estimate, the record ends up pending, with the money of a cancelled order announced to the seller,
  where the order of saving would have left no record or a cancelled one.
\<close>

theorem overtaken_cancel_leaves_pending_record:
  assumes "records_ok s" and "record_by_key (oc_uni_key oc) s = None" and "oc_mama_id oc \<noteq> 0"
  shows "record_state (oc_uni_key oc) (fold (\<lambda>oc s. snd (task_ordercarry_update_carryrecord oc s))
      [oc\<lparr>oc_status := OC_CANCEL\<rparr>, oc\<lparr>oc_status := OC_ESTIMATE\<rparr>] s) = Some CARRY_PENDING \<and>
    record_state (oc_uni_key oc) (fold (\<lambda>oc s. snd (task_ordercarry_update_carryrecord oc s))
      [oc\<lparr>oc_status := OC_ESTIMATE\<rparr>, oc\<lparr>oc_status := OC_CANCEL\<rparr>] s) = Some CARRY_CANCEL"
proof -
  let ?c = "oc\<lparr>oc_status := OC_CANCEL\<rparr>" and ?e = "oc\<lparr>oc_status := OC_ESTIMATE\<rparr>" and ?k = "oc_uni_key oc"
  have none: "record_state ?k s = None" by (simp add: record_state_def assms(2))
  from order_task_records [OF assms(1) refl, of ?c ?k] order_task_records [OF assms(1) refl, of ?e ?k] none assms(3)
    order_task_records [of "snd (task_ordercarry_update_carryrecord ?c s)", OF _ refl, of ?e ?k]
    order_task_records [of "snd (task_ordercarry_update_carryrecord ?e s)", OF _ refl, of ?c ?k]
  show "record_state ?k (fold (\<lambda>oc s. snd (task_ordercarry_update_carryrecord oc s)) [?c, ?e] s) = Some CARRY_PENDING \<and>
    record_state ?k (fold (\<lambda>oc s. snd (task_ordercarry_update_carryrecord oc s)) [?e, ?c] s) = Some CARRY_CANCEL"
    by simp
qed

theorem overtaken_cancel_leaves_pending_record_witness:
  "map cr_status (sl_records (fold (\<lambda>oc s. snd (task_ordercarry_update_carryrecord oc s))
      [example_earning\<lparr>oc_status := OC_CANCEL\<rparr>, example_earning\<lparr>oc_status := OC_ESTIMATE\<rparr>] example_sellers)) = [CARRY_PENDING]
   \<and> record_state (oc_uni_key example_earning) (fold (\<lambda>oc s. snd (task_ordercarry_update_carryrecord oc s))
      [example_earning\<lparr>oc_status := OC_CANCEL\<rparr>, example_earning\<lparr>oc_status := OC_ESTIMATE\<rparr>] example_sellers) = Some CARRY_PENDING"
proof
  show "map cr_status (sl_records (fold (\<lambda>oc s. snd (task_ordercarry_update_carryrecord oc s))
      [example_earning\<lparr>oc_status := OC_CANCEL\<rparr>, example_earning\<lparr>oc_status := OC_ESTIMATE\<rparr>] example_sellers)) = [CARRY_PENDING]"
    by code_simp
  show "record_state (oc_uni_key example_earning) (fold (\<lambda>oc s. snd (task_ordercarry_update_carryrecord oc s))
      [example_earning\<lparr>oc_status := OC_CANCEL\<rparr>, example_earning\<lparr>oc_status := OC_ESTIMATE\<rparr>] example_sellers) = Some CARRY_PENDING"
    by (rule overtaken_cancel_leaves_pending_record [THEN conjunct1])
       (simp_all add: sellers_defs records_ok_def record_by_key_def)
qed

text \<open>
  C36. However the tasks of the earnings interleave, a cancelled record stays cancelled, and a confirmed
  one is never pending again.
\<close>

theorem earned_never_reverts:
  assumes "carry_step\<^sup>*\<^sup>* s t" and "records_ok s" and "record_state k s \<noteq> None" and "record_state k s \<noteq> Some CARRY_PENDING"
  shows "record_state k t = record_state k s \<or> record_state k t = Some CARRY_CANCEL"
proof (cases "record_state k s = Some CARRY_CANCEL")
  case True
  have "record_inv (\<lambda>x. x = Some CARRY_CANCEL) k t"
    by (rule record_inv_steps [OF assms(1)]) (use True assms(2) in \<open>auto simp: record_inv_def\<close>)
  with True show ?thesis by (simp add: record_inv_def)
next
  case False
  then have conf: "record_state k s = Some CARRY_CONFIRMED"
    using assms(3,4) carry_status.exhaust by (cases "record_state k s") auto
  have "follow x st \<in> {Some CARRY_CONFIRMED, Some CARRY_CANCEL}" if "x \<in> {Some CARRY_CONFIRMED, Some CARRY_CANCEL}" for x st
    using that by auto
  then have "record_inv (\<lambda>x. x \<in> {Some CARRY_CONFIRMED, Some CARRY_CANCEL}) k t"
    by (intro record_inv_steps [OF assms(1)]) (use conf assms(2) in \<open>auto simp: record_inv_def\<close>)
  with conf show ?thesis by (auto simp: record_inv_def)
qed

theorem earned_never_reverts_witness:
  "\<exists>t. carry_step (example_sellers\<lparr>sl_records := [example_record],
       sl_jobs := [ORDERCARRY_CARRYRECORD example_earning]\<rparr>) t \<and>
     (record_state ''order-1-xo6'' t = Some CARRY_CONFIRMED \<or> record_state ''order-1-xo6'' t = Some CARRY_CANCEL)"
proof -
  let ?s = "example_sellers\<lparr>sl_records := [example_record], sl_jobs := [ORDERCARRY_CARRYRECORD example_earning]\<rparr>"
  have step: "carry_step ?s (snd (run_job (ORDERCARRY_CARRYRECORD example_earning) (?s\<lparr>sl_jobs := [] @ []\<rparr>)))"
    by (rule carry_step.run) simp
  have "records_ok ?s" "record_state ''order-1-xo6'' ?s = Some CARRY_CONFIRMED"
    by (simp_all add: records_ok_def record_state_def record_by_key_def example_record_def)
  with earned_never_reverts [OF r_into_rtranclp [of carry_step, OF step], of "''order-1-xo6''"] step
  show ?thesis by (intro exI conjI) auto
qed

text \<open>
  Cancelling a record, pending or confirmed, returns and leaves the seller's wallet with what it had
  before the record paid: a confirmed movement is taken out again, a pending one is first confirmed and
  then taken out. The amount is right in both cases, but a pending earning that was never paid counts
  as income and as expense.
\<close>

theorem cancelled_record_is_taken_back:
  assumes "wallet_ok (sl_wallet s)" and "w \<in> set (w_budgets (sl_wallet s))" and "ub_user w = bl_customer_id l"
    and "get_customer (bl_customer_id l) (sl_wallet s) = Inr c"
    and "cr_status r \<noteq> CARRY_CANCEL"
    and "carry_log (cr_id r) s = Some l" and "bl_budget_type l = BUDGET_IN" and "bl_status l \<noteq> BL_CANCELED"
    and "\<not> q_exists (\<lambda>x. bl_uni_key x = Some (gen_uni_key (bl_customer_id l) BUDGET_OUT BG_CARRY_CANCEL (sl_wallet s)))
      (w_logs (sl_wallet s))"
  shows "\<exists>t. carry_cancel r s = (Inr (), t) \<and> wallet_ok (sl_wallet t) \<and>
    w_budgets (sl_wallet t) = tbl_save ub_id
      (if bl_status l = BL_CONFIRMED then budget_add (- bl_flow_amount l) 0 (bl_flow_amount l) w
       else budget_add 0 (bl_flow_amount l) (bl_flow_amount l) w) (w_budgets (sl_wallet s))"
  by (rule carry_cancel_run [OF assms])

definition pending_record :: carry_record where
  "pending_record = example_record\<lparr>cr_status := CARRY_PENDING\<rparr>"

definition pending_movement :: budget_log where
  "pending_movement = \<lparr>bl_id = 2, bl_customer_id = 1, bl_flow_amount = 300, bl_balance = 500,
     bl_budget_type = BUDGET_IN, bl_log_type = BG_ORDER, bl_budget_date = 1, bl_referal_id = ''carryrecord-1'',
     bl_status = BL_PENDING, bl_uni_key = Some ''order-0-1-1|0001-01-01''\<rparr>"

definition example_pending :: seller_db where
  "example_pending = example_sellers\<lparr>sl_records := [pending_record],
     sl_mall := ml_wallet_update (w_logs_update (\<lambda>_. [example_income, pending_movement])) (sl_mall example_sellers)\<rparr>"

theorem cancelled_record_is_taken_back_witness:
  "\<exists>t. carry_cancel pending_record example_pending = (Inr (), t) \<and>
    map ub_amount (w_budgets (sl_wallet t)) = [500] \<and> map ub_total_income (w_budgets (sl_wallet t)) = [800] \<and>
    map ub_total_expense (w_budgets (sl_wallet t)) = [300]"
proof -
  have W: "sl_wallet example_pending = example_funded\<lparr>w_logs := [example_income, pending_movement]\<rparr>"
    by (simp add: example_pending_def example_sellers_def)
  have ok: "wallet_ok (sl_wallet example_pending)"
    by (simp add: W pending_movement_def example_defs wallet_ok_def keyed_ok_def wallet_sync_def in_sync_def effect_defs)
  have cust: "get_customer (bl_customer_id pending_movement) (sl_wallet example_pending) = Inr example_customer"
    and log: "carry_log (cr_id pending_record) example_pending = Some pending_movement"
    and free: "\<not> q_exists (\<lambda>x. bl_uni_key x = Some (gen_uni_key (bl_customer_id pending_movement) BUDGET_OUT BG_CARRY_CANCEL
      (sl_wallet example_pending))) (w_logs (sl_wallet example_pending))"
    by code_simp+
  from cancelled_record_is_taken_back [where w = example_budget and r = pending_record, OF ok _ _ cust _ log _ _ free]
  show ?thesis
    by (force simp: W pending_record_def pending_movement_def example_record_def example_defs tbl_save_def budget_add_def)
qed

text \<open>
  C38. \<open>get_ship_chain\<close> returns exactly when the climb meets the upper seller, or makes its ten steps,
  before it comes to a seller without a relation; there the loop goes round for ever.
\<close>

theorem ship_chain_returns_iff_climbs:
  "(\<exists>chain. get_ship_chain lower upper s = Some chain) \<longleftrightarrow> climbs (sl_ships s) 10 lower upper"
  unfolding get_ship_chain_def
  using climbs_returns [of 10 0 "sl_ships s" lower upper "[]"] returned_climbs [of "sl_ships s" lower upper "[]" 0]
  by auto

text \<open>
  A seller earns nothing on an order of her own: the check that would let her compares the text of
  her state with numbers and fails for every seller, and her own link is taken off the order. Unless
  she is somebody's fan, no task on her order writes anything.
\<close>

theorem own_order_earns_nothing:
  assumes "get_trade (so_sale_trade so) (ml_shop (sl_mall s)) = Inr t"
    and "get_customer_row (st_buyer_id t) s = Inr c" and "cu_unionid c \<noteq> ''''"
    and "q_first (filter (\<lambda>m. ma_openid m = cu_unionid c) (sl_mamas s)) = Some m"
    and "get_by_saletrade t s = Some m" and "mama_of_fan (st_buyer_id t) (so_created so) s = None"
  shows "task_order_trigger so s = (Inr (), s)"
proof -
  have "\<not> validate_self_mama (Some m) n" for n by (simp add: validate_self_mama_def)
  then have "earning_mama t so c s = None"
    using assms(3-6) by (simp add: earning_mama_def Let_def)
  with assms(1,2) show ?thesis by (simp add: task_order_trigger_def prog_simps)
qed

theorem own_order_earns_nothing_witness:
  "task_order_trigger (example_order\<lparr>so_buyer_id := 1\<rparr>) (example_sellers\<lparr>sl_mall := ml_shop_update
      (d_trades_update (\<lambda>_. [example_trade\<lparr>st_buyer_id := 1, st_mm_linkid := Some 44\<rparr>])) (sl_mall example_sellers)\<rparr>)
   = (Inr (), example_sellers\<lparr>sl_mall := ml_shop_update
      (d_trades_update (\<lambda>_. [example_trade\<lparr>st_buyer_id := 1, st_mm_linkid := Some 44\<rparr>])) (sl_mall example_sellers)\<rparr>)"
proof -
  let ?t = "example_trade\<lparr>st_buyer_id := 1, st_mm_linkid := Some 44\<rparr>" and ?o = "example_order\<lparr>so_buyer_id := 1\<rparr>"
  let ?s = "example_sellers\<lparr>sl_mall := ml_shop_update (d_trades_update (\<lambda>_. [?t])) (sl_mall example_sellers)\<rparr>"
  let ?m = "hd (cp_mamas example_coupons)"
  have "get_trade (so_sale_trade ?o) (ml_shop (sl_mall ?s)) = Inr ?t" "get_customer_row (st_buyer_id ?t) ?s = Inr example_customer"
    "q_first (filter (\<lambda>m. ma_openid m = cu_unionid example_customer) (sl_mamas ?s)) = Some ?m"
    "get_by_saletrade ?t ?s = Some ?m" "mama_of_fan (st_buyer_id ?t) (so_created ?o) ?s = None"
    by code_simp+
  from own_order_earns_nothing [OF this(1,2) _ this(3-5)] show ?thesis by (simp add: example_customer_def)
qed

text \<open>
  The award for an indirect invitation is never made: the second part of the task on referrals
  asks for it only to set the state of the first award. Without a relation above, the task raises after
  the first award is saved.
\<close>

theorem indirect_award_is_never_made:
  assumes "\<forall>a\<in>set (sl_awards s). aw_carry_type a \<noteq> AWARD_INDIRECT_INVITE"
  shows "(\<forall>a\<in>set (sl_awards (snd (task_referal_update_awardcarry r s))). aw_carry_type a \<noteq> AWARD_INDIRECT_INVITE) \<and>
    (award_by_key (award_gen_uni_key (rr_to_mama_id r) AWARD_REFERAL) s = None \<and>
     get_refer_to_relationships (rr_from_mama_id r) s = None \<longrightarrow>
     fst (task_referal_update_awardcarry r s) = Inl (Exn ''UnboundLocalError'') \<and>
     award_by_key (award_gen_uni_key (rr_to_mama_id r) AWARD_REFERAL) (snd (task_referal_update_awardcarry r s)) \<noteq> None)"
  using assms referal_award_types referal_award_unbound by blast

theorem indirect_award_is_never_made_witness:
  "\<forall>a\<in>set (sl_awards (snd (task_referal_update_awardcarry (new_ship 5 6 44 '''' '''' ELITE '''') example_sellers))).
     aw_carry_type a \<noteq> AWARD_INDIRECT_INVITE"
  by (rule indirect_award_is_never_made [THEN conjunct1]) (simp add: example_sellers_def)

text \<open>
  C39. The loop over the sorted steps of a rebate scheme finds the greatest step that is not above the
  payment, and a payment below all of them earns nothing.
\<close>

theorem price_carry_is_floor:
  assumes "those (map (\<lambda>kv. int_of_str (fst kv)) rules) = Some keys"
  shows "price_carry rules p = Inr (if \<exists>k\<in>set keys. k \<le> p
      then map_of rules (str_int (Max {k \<in> set keys. k \<le> p})) else Some 0)"
proof -
  let ?ts = "takeWhile (\<lambda>k. k \<le> p) (sort keys)"
  have some: "?ts \<noteq> [] \<longleftrightarrow> (\<exists>k\<in>set keys. k \<le> p)"
  proof -
    have "set ?ts = {k \<in> set (sort keys). k \<le> p}" by (rule sorted_takeWhile_set) simp
    then show ?thesis by (auto simp flip: set_empty)
  qed
  show ?thesis
  proof (cases "?ts = []")
    case True
    with some assms show ?thesis by (auto simp: price_carry_def real_index_takeWhile)
  next
    case False
    then have "nat (real_index p 0 (- 1) (sort keys)) = length ?ts - 1" "real_index p 0 (- 1) (sort keys) \<ge> 0"
      by (cases ?ts; simp add: real_index_takeWhile)+
    with sorted_takeWhile_Max [of "sort keys" p] False some assms show ?thesis
      by (simp add: price_carry_def Let_def)
  qed
qed

theorem price_carry_is_floor_witness:
  "price_carry [(''50'', 3), (''100'', 5), (''150'', 8)] 120 = Inr (Some 5)"
proof -
  have "those (map (\<lambda>kv. int_of_str (fst kv)) [(''50'', 3::rat), (''100'', 5), (''150'', 8)]) = Some [50, 100, 150]"
    by code_simp
  from price_carry_is_floor [OF this, of 120]
  have "price_carry [(''50'', 3), (''100'', 5), (''150'', 8)] 120
      = Inr (map_of [(''50'', 3), (''100'', 5), (''150'', 8)] (str_int (Max {k \<in> {50, 100, 150}. k \<le> 120})))"
    by simp
  also have "{k \<in> {50, 100, 150}. k \<le> (120::int)} = {50, 100}" by auto
  also have "map_of [(''50'', 3), (''100'', 5), (''150'', 8)] (str_int (Max {50, 100})) = Some (5::rat)"
    by simp code_simp
  finally show ?thesis .
qed



text \<open>
  C35. The counter of a seller's orders in her fortune is the number of her live earnings, or a recount
  is waiting in the queue: no interleaving of the tasks loses an update.
\<close>

theorem stale_order_num_is_queued:
  assumes "carry_step\<^sup>*\<^sup>* s t" and "distinct (map mf_id (sl_fortunes s))" and "distinct (map oc_id (sl_order_carrys s))"
    and "order_num_of i s = int (live_orders_of i s) \<or> MAMAFORTUNE_ORDER_NUM i \<in> set (sl_jobs s)"
  shows "order_num_of i t = int (live_orders_of i t) \<or> MAMAFORTUNE_ORDER_NUM i \<in> set (sl_jobs t)"
proof -
  have "count_inv i {} s" using assms(2-4) by (simp add: count_inv_def order_num_counted_def)
  from count_inv_steps [OF assms(1) this] show ?thesis by (simp add: count_inv_def order_num_counted_def)
qed

theorem stale_order_num_is_queued_witness:
  "order_num_of 44 (snd (run_job (MAMAFORTUNE_ORDER_NUM 44) (example_sellers\<lparr>sl_order_carrys := [example_earning], sl_jobs := [] @ []\<rparr>))) = 1"
proof -
  let ?s = "example_sellers\<lparr>sl_order_carrys := [example_earning], sl_jobs := [MAMAFORTUNE_ORDER_NUM 44]\<rparr>"
  let ?t = "snd (run_job (MAMAFORTUNE_ORDER_NUM 44) (example_sellers\<lparr>sl_order_carrys := [example_earning], sl_jobs := [] @ []\<rparr>))"
  have "carry_step ?s ?t"
    using carry_step.run [of ?s "[]" "MAMAFORTUNE_ORDER_NUM 44" "[]"] by simp
  then have "order_num_of 44 ?t = int (live_orders_of 44 ?t) \<or> MAMAFORTUNE_ORDER_NUM 44 \<in> set (sl_jobs ?t)"
    by - (rule stale_order_num_is_queued [of ?s], auto simp: sellers_defs)
  moreover have "live_orders_of 44 ?t = 1" "sl_jobs ?t = []"
    by (simp_all add: task_update_mamafortune_order_num_def write_fortune_def modify_fortunes_def prog_simps
        live_orders_of_def q_count_def sellers_defs)
  ultimately show ?thesis by simp
qed

end
