(* ===== verification/Payments.thy ===== *)
theory Payments
  imports Trades Sellers
begin

text \<open>
  Paying for a trade: the charges of \<open>src/flashsale/xiaolupay\<close> (\<open>ChargeOrder\<close>, \<open>Credential\<close>) with
  the tasks that confirm a trade when its charge is paid (\<open>src/flashsale/pay/tasks.py\<close>,
  \<open>src/flashsale/pay/listeners.py\<close>), the text of payment extras
  (\<open>src/flashsale/pay/apis/v1/order.py\<close>), and the three ways to pay of \<open>SaleTradeViewSet\<close>
  (\<open>src/flashsale/restpro/v2/views/trade.py\<close>): the seller's wallet, the wallet or the coins, and a
  payment service that may be combined with either. What the payment services answer, the WeChat
  identity of a customer and the address the buyer returns to are arguments, in a record. A task that is
  sent to the queue is a job in it. \<open>FlashSaleService.payTrade\<close>, which runs after a confirmation, changes
  nothing: \<open>createMergeTrade\<close> returns at once.
\<close>

section \<open>Numbers in texts\<close>

text \<open>\<open>float(s)\<close> of a decimal number with spaces around it. A text with an exponent, an infinity
  or a NaN is outside the model and counts as no number.\<close>

definition strip :: "string \<Rightarrow> string" where
  "strip s = (let blank = (\<lambda>c. c \<in> {CHR '' '', CHR 0x09, CHR 0x0A, CHR 0x0B, CHR 0x0C, CHR 0x0D}) in
     rev (dropWhile blank (rev (dropWhile blank s))))"

definition unsigned_float :: "string \<Rightarrow> rat option" where
  "unsigned_float s =
     (case split_on CHR ''.'' s of
        [a] \<Rightarrow> map_option of_nat (nat_of_str a)
      | [a, b] \<Rightarrow> map_option (\<lambda>n. of_nat n / 10 ^ length b) (nat_of_str (a @ b))
      | _ \<Rightarrow> None)"

definition py_float :: "string \<Rightarrow> py_error + rat" where
  "py_float s =
     (case (case strip s of
              [] \<Rightarrow> None
            | c # cs \<Rightarrow> if c = CHR ''-'' then map_option uminus (unsigned_float cs)
                       else if c = CHR ''+'' then unsigned_float cs else unsigned_float (strip s)) of
        None \<Rightarrow> Inl (Exn ''ValueError'')
      | Some x \<Rightarrow> Inr x)"

section \<open>The text of payment extras\<close>

text \<open>\<open>pid:2:couponid:305463/305464:value:50.00;pid:3:budget:46.00\<close>: entries between commas or
  semicolons, each a list of keys and values between colons. A later value of a key replaces an earlier
  one, a key without a value is dropped, and the second entry with a \<open>pid\<close> is ignored.\<close>

type_synonym entry = "(string \<times> string) list"

fun key_values :: "string list \<Rightarrow> entry" where
  "key_values (k # v # rest) = (k, v) # key_values rest"
| "key_values _ = []"

definition entry_get :: "string \<Rightarrow> entry \<Rightarrow> string option" where
  "entry_get k e = map_of (rev e) k"

definition split_entries :: "string \<Rightarrow> string list" where
  "split_entries s = filter (\<lambda>e. strip e \<noteq> []) (concat (map (split_on CHR '';'') (split_on CHR '','' s)))"

fun first_of_each_pid :: "string list \<Rightarrow> entry list \<Rightarrow> entry list" where
  "first_of_each_pid seen [] = []"
| "first_of_each_pid seen (e # es) =
     (case entry_get ''pid'' e of
        None \<Rightarrow> first_of_each_pid seen es
      | Some pid \<Rightarrow> if pid = [] \<or> pid \<in> set seen then first_of_each_pid seen es
                   else e # first_of_each_pid (pid # seen) es)"

definition parse_entry_params :: "string \<Rightarrow> entry list" where
  "parse_entry_params s = first_of_each_pid [] (map (key_values \<circ> split_on CHR '':'') (split_entries s))"

definition parse_pay_extras_to_dict :: "string \<Rightarrow> string \<Rightarrow> entry option" where
  "parse_pay_extras_to_dict s pid = q_first (filter (\<lambda>e. entry_get ''pid'' e = Some pid) (parse_entry_params s))"

definition ETS_APPCUT :: string where "ETS_APPCUT = ''1''"
definition ETS_COUPON :: string where "ETS_COUPON = ''2''"
definition ETS_BUDGET :: string where "ETS_BUDGET = ''3''"
definition ETS_XIAOLUCOIN :: string where "ETS_XIAOLUCOIN = ''4''"

definition parse_coupon_ids_from_pay_extras :: "string \<Rightarrow> string list" where
  "parse_coupon_ids_from_pay_extras s =
     (case parse_pay_extras_to_dict s ETS_COUPON of
        None \<Rightarrow> []
      | Some e \<Rightarrow> (case entry_get ''couponid'' e of
            None \<Rightarrow> []
          | Some ids \<Rightarrow> filter (\<lambda>i. i \<noteq> []) (split_on CHR ''/'' ids)))"

text \<open>\<open>get_pay_type_from_trade\<close>: the shares of wallet and coins in yuan, from \<open>value\<close> or else
  \<open>budget\<close>. A text is never equal to the number 0, so a \<open>value\<close> that is there is used.\<close>

definition pay_share :: "string \<Rightarrow> string \<Rightarrow> py_error + yuan" where
  "pay_share s pid =
     (case parse_pay_extras_to_dict s pid of
        None \<Rightarrow> Inr 0
      | Some e \<Rightarrow> (case entry_get ''value'' e of
            Some v \<Rightarrow> py_float v
          | None \<Rightarrow> (case entry_get ''budget'' e of Some v \<Rightarrow> py_float v | None \<Rightarrow> Inr 0)))"

definition get_pay_type_from_trade :: "sale_trade \<Rightarrow> py_error + yuan \<times> yuan" where
  "get_pay_type_from_trade t =
     (case pay_share (st_pay_extras t) ETS_BUDGET of
        Inl e \<Rightarrow> Inl e
      | Inr b \<Rightarrow> (case pay_share (st_pay_extras t) ETS_XIAOLUCOIN of Inl e \<Rightarrow> Inl e | Inr c \<Rightarrow> Inr (b, c)))"

section \<open>Charges\<close>

text \<open>The additional parameters of a charge: the WeChat identity of the payer, or where the buyer
  returns to.\<close>

datatype charge_extra = No_extra | Open_id string | Success_url string | Result_url string

record charge_order =
  ch_id :: pk_id
  ch_order_no :: string
  ch_channel :: channel
  ch_paid :: bool
  ch_amount :: cents
  ch_extra :: charge_extra
  ch_time_paid :: "time option"
  ch_time_expire :: time
  ch_transaction_no :: string
  ch_failure_code :: string
  ch_failure_msg :: string

record credential =
  cr_order_no :: string
  cr_channel :: channel
  cr_extra :: string

record trade_charge =
  tc_id :: pk_id
  tc_order_no :: string
  tc_charge :: string
  tc_paid :: bool
  tc_channel :: channel
  tc_amount :: cents
  tc_transaction_no :: string
  tc_time_paid :: "time option"

text \<open>\<open>CarryLog\<close>, the log of the old seller's wallet.\<close>

record old_carry_log =
  ocl_xlmm :: pk_id
  ocl_order_num :: pk_id
  ocl_buyer_nick :: string
  ocl_value :: cents

datatype pay_job = Confirm_trade pk_id "time option" string | Notify_trade_pay charge_order

record pay_db =
  pay_mall :: mall_db
  pay_charges :: "charge_order table"
  pay_credentials :: "credential list"
  pay_trade_charges :: "trade_charge table"
  pay_carry_logs :: "old_carry_log list"
  pay_jobs :: "pay_job list"

text \<open>What the payment services answer, the credential for a new charge and the state of a charge;
  whether a name belongs to the number of an identity card; the number of the next order, from how many
  there are; and the value the entry of the discount of the app has in \<open>PAY_EXTRAS\<close>: 2 when the process
  starts, 0 once it has answered \<open>get_payextras\<close> for an app, which writes 0 into the shared dictionary.\<close>

datatype pay_answer = Pay_success "time option" string | Pay_failure string

record pay_env =
  env_openid :: "customer \<Rightarrow> channel \<Rightarrow> string"
  env_payback_url :: "sale_trade \<Rightarrow> string"
  env_credential :: "charge_order \<Rightarrow> py_error + string"
  env_query :: "charge_order \<Rightarrow> py_error + pay_answer"
  env_check_name :: "string \<Rightarrow> string \<Rightarrow> py_error + bool"
  env_new_oid :: "nat \<Rightarrow> string"
  env_appcut_value :: int

interpretation charge_table: orm_table ch_id "\<lambda>i. ch_id_update (\<lambda>_. i)" by unfold_locales simp

definition in_mall :: "(mall_db, 'a) prog \<Rightarrow> (pay_db, 'a) prog" where
  "in_mall = zoom pay_mall (\<lambda>x. pay_mall_update (\<lambda>_. x))"

definition pay_now :: "pay_db \<Rightarrow> time" where
  "pay_now s = d_now (ml_shop (pay_mall s))"

definition pay_later :: "pay_job \<Rightarrow> (pay_db, unit) prog" where
  "pay_later j = modify (\<lambda>s. s\<lparr>pay_jobs := pay_jobs s @ [j]\<rparr>)"

definition TIME_EXPIRED :: int where
  "TIME_EXPIRED = 25 * 60"

definition charge_of :: "string \<Rightarrow> pay_db \<Rightarrow> charge_order option" where
  "charge_of order_no s = q_first (filter (\<lambda>c. ch_order_no c = order_no) (pay_charges s))"

definition save_charge_fields :: "charge_order \<Rightarrow> (charge_order \<Rightarrow> charge_order) \<Rightarrow> (pay_db, unit) prog" where
  "save_charge_fields c f = (\<lambda>s.
     if q_exists (\<lambda>x. ch_id x = ch_id c) (pay_charges s)
     then (Inr (), s\<lparr>pay_charges := q_update (\<lambda>x. ch_id x = ch_id c) f (pay_charges s)\<rparr>)
     else (Inl (Exn ''DatabaseError''), s))"

text \<open>\<open>get_or_create_credential\<close>: the service is asked once per order number and channel; a
  failure is noted on the charge and returned as nothing.\<close>

definition get_or_create_credential :: "pay_env \<Rightarrow> charge_order \<Rightarrow> (pay_db, unit) prog" where
  "get_or_create_credential env c =
     (let mine = (\<lambda>x. cr_order_no x = ch_order_no c \<and> cr_channel x = ch_channel c) in
      thenE (modify (\<lambda>s. if q_exists mine (pay_credentials s) then s
               else s\<lparr>pay_credentials := pay_credentials s
                 @ [\<lparr>cr_order_no = ch_order_no c, cr_channel = ch_channel c, cr_extra = ''''\<rparr>]\<rparr>))
      (atomic
        (bindE (liftE (\<lambda>s. q_get mine (pay_credentials s))) (\<lambda>x.
         if cr_extra x \<noteq> '''' then ret ()
         else case env_credential env c of
             Inl e \<Rightarrow> save_charge_fields c (\<lambda>y. y\<lparr>ch_failure_code := ''credential_create_error'',
               ch_failure_msg := ''''\<rparr>)
           | Inr text \<Rightarrow> modify (\<lambda>s. s\<lparr>pay_credentials :=
               q_update mine (\<lambda>y. y\<lparr>cr_extra := text\<rparr>) (pay_credentials s)\<rparr>)))))"

text \<open>\<open>create_charge\<close>: one charge per order number, with the amount of the first call; a later call
  may change the channel. No other charge with the number can come between the look-up and the insertion,
  which hold the lock.\<close>

definition find_charge :: "string \<Rightarrow> cents \<Rightarrow> channel \<Rightarrow> charge_extra \<Rightarrow> (pay_db, charge_order) prog" where
  "find_charge order_no amount ch extra =
     bindE (asks (charge_of order_no)) (\<lambda>found.
     case found of
       Some c \<Rightarrow> ret c
     | None \<Rightarrow>
         if ch \<in> {CH_WX_PUB, CH_WEAPP} \<and> \<not> (case extra of Open_id i \<Rightarrow> i \<noteq> '''' | _ \<Rightarrow> False)
         then raise (Exn ''XiaoluPayException'')
         else (\<lambda>s. let c = \<lparr>ch_id = fresh_pk ch_id (pay_charges s), ch_order_no = order_no, ch_channel = ch,
                 ch_paid = False, ch_amount = amount, ch_extra = extra, ch_time_paid = None,
                 ch_time_expire = pay_now s + TIME_EXPIRED, ch_transaction_no = '''', ch_failure_code = '''',
                 ch_failure_msg = ''''\<rparr>
               in (Inr c, s\<lparr>pay_charges := pay_charges s @ [c]\<rparr>)))"

definition create_charge ::
  "pay_env \<Rightarrow> string \<Rightarrow> cents \<Rightarrow> channel \<Rightarrow> charge_extra \<Rightarrow> (pay_db, charge_order) prog" where
  "create_charge env order_no amount ch extra =
     bindE (atomic
       (bindE (find_charge order_no amount ch extra) (\<lambda>c.
        if ch_channel c = ch \<and> ch_extra c = extra then ret c
        else
          bindE (asks pay_now) (\<lambda>t.
          (let f = (\<lambda>x. x\<lparr>ch_channel := ch, ch_extra := extra, ch_time_expire := t + TIME_EXPIRED\<rparr>)
           in thenE (save_charge_fields c f) (ret (f c))))))) (\<lambda>c.
     thenE (get_or_create_credential env c) (ret c))"

text \<open>\<open>confirm_paid\<close> notes the payment and signals it; the receiver sends the confirmation of the
  trade to the queue, and an error in it (no such trade) goes no further. \<open>failure_paid\<close> writes neither
  the code nor the message of the failure.\<close>

definition confirm_paid :: "charge_order \<Rightarrow> time option \<Rightarrow> channel \<Rightarrow> string \<Rightarrow> (pay_db, charge_order) prog" where
  "confirm_paid c time_paid ch transaction_no =
     (let f = (\<lambda>x. x\<lparr>ch_paid := True, ch_time_paid := time_paid,
            ch_channel := (if ch = CH_NONE then ch_channel c else ch),
            ch_transaction_no := str_or transaction_no (ch_transaction_no x)\<rparr>)
      in thenE (save_charge_fields c f)
         (bindE (asks (\<lambda>s. q_get (\<lambda>t. st_tid t = ch_order_no c) (d_trades (ml_shop (pay_mall s))))) (\<lambda>t.
          thenE (case t of Inl _ \<Rightarrow> ret () | Inr t \<Rightarrow> pay_later (Confirm_trade (st_id t) time_paid (str_nat (ch_id c))))
          (ret (f c)))))"

definition failure_paid :: "charge_order \<Rightarrow> string \<Rightarrow> (pay_db, charge_order) prog" where
  "failure_paid c transaction_no =
     (let f = (\<lambda>x. x\<lparr>ch_paid := ch_paid c, ch_time_paid := ch_time_paid c, ch_transaction_no := transaction_no\<rparr>)
      in thenE (save_charge_fields c f) (ret (f c)))"

text \<open>\<open>Charge.retrieve\<close>: a number of digits may also be the key of the charge. A charge that is not
  paid yet is looked up at the service of its channel.\<close>

definition retrieve_or_update_order :: "pay_env \<Rightarrow> string \<Rightarrow> (pay_db, charge_order option) prog" where
  "retrieve_or_update_order env order_no = atomic
     (bindE (asks (\<lambda>s. q_first (filter (\<lambda>c. ch_order_no c = order_no \<or> nat_of_str order_no = Some (ch_id c))
        (pay_charges s)))) (\<lambda>found.
      case found of
        None \<Rightarrow> ret None
      | Some c \<Rightarrow>
          if ch_paid c then ret (Some c)
          else if ch_channel c \<in> {CH_ALIPAY, CH_ALIPAY_WAP, CH_WX, CH_WX_PUB, CH_WEAPP} then
            (case env_query env c of
               Inl e \<Rightarrow> raise e
             | Inr (Pay_success time_paid transaction_no) \<Rightarrow>
                 bindE (confirm_paid c time_paid (ch_channel c) transaction_no) (\<lambda>c. ret (Some c))
             | Inr (Pay_failure transaction_no) \<Rightarrow> bindE (failure_paid c transaction_no) (\<lambda>c. ret (Some c)))
          else bindE (failure_paid c '''') (\<lambda>c. ret (Some c))))"

section \<open>Confirming a trade\<close>

definition confirmTradeChargeTask :: "pk_id \<Rightarrow> time option \<Rightarrow> string \<Rightarrow> (mall_db, unit) prog" where
  "confirmTradeChargeTask i charge_time charge =
     bindE (liftE (\<lambda>m. get_trade i (ml_shop m))) (\<lambda>t. trade_charge_confirm (st_id t) charge_time charge)"

text \<open>\<open>notifyTradePayTask\<close>: every error sends the task back to the queue.\<close>

definition noted_charge :: "charge_order \<Rightarrow> (pay_db, trade_charge) prog" where
  "noted_charge c =
     bindE (asks (\<lambda>s. q_first (filter (\<lambda>x. tc_order_no x = ch_order_no c \<and> tc_charge x = str_nat (ch_id c))
        (pay_trade_charges s)))) (\<lambda>found.
     case found of
       Some x \<Rightarrow> ret x
     | None \<Rightarrow> (\<lambda>s. let x = \<lparr>tc_id = fresh_pk tc_id (pay_trade_charges s), tc_order_no = ch_order_no c,
            tc_charge = str_nat (ch_id c), tc_paid = False, tc_channel = CH_NONE, tc_amount = 0,
            tc_transaction_no = '''', tc_time_paid = None\<rparr>
          in (Inr x, s\<lparr>pay_trade_charges := pay_trade_charges s @ [x]\<rparr>)))"

definition notify_body :: "charge_order \<Rightarrow> (pay_db, unit) prog" where
  "notify_body c =
     (if \<not> ch_paid c then ret ()
      else
        bindE (noted_charge c) (\<lambda>x.
        bindE (if tc_paid x then ret x
               else (let x = x\<lparr>tc_paid := ch_paid c, tc_channel := ch_channel c, tc_amount := ch_amount c,
                       tc_transaction_no := ch_transaction_no c, tc_time_paid := ch_time_paid c\<rparr>
                     in thenE (modify (\<lambda>s. s\<lparr>pay_trade_charges := tbl_save tc_id x (pay_trade_charges s)\<rparr>)) (ret x))) (\<lambda>x.
        bindE (liftE (\<lambda>s. q_get (\<lambda>t. st_tid t = ch_order_no c) (d_trades (ml_shop (pay_mall s))))) (\<lambda>t.
        in_mall (confirmTradeChargeTask (st_id t) (tc_time_paid x) (tc_charge x))))))"

definition notifyTradePayTask :: "charge_order \<Rightarrow> (pay_db, unit) prog" where
  "notifyTradePayTask c = tryE (notify_body c) (\<lambda>_. pay_later (Notify_trade_pay c))"

fun run_pay_job :: "pay_job \<Rightarrow> (pay_db, unit) prog" where
  "run_pay_job (Confirm_trade i charge_time charge) = in_mall (confirmTradeChargeTask i charge_time charge)"
| "run_pay_job (Notify_trade_pay c) = notifyTradePayTask c"

section \<open>The ways to pay\<close>

definition check_before_charge :: "sale_trade \<Rightarrow> (mall_db, unit) prog" where
  "check_before_charge t =
     forE (\<lambda>i.
       bindE (liftE (\<lambda>m. q_get (\<lambda>c. uc_id c = i \<and> uc_customer_id c = st_buyer_id t) (cp_coupons (ml_coupons m)))) (\<lambda>c.
       whenE (uc_trade_tid c \<noteq> Some (st_tid t)) (liftE (\<lambda>m. coupon_basic_check c (ml_coupons m)))))
     (st_coupon_ids t)"

definition trade_cents :: "sale_trade \<Rightarrow> cents" where
  "trade_cents t = py_round (st_payment t * 100)"

text \<open>\<open>wallet_charge\<close>: the old wallet of a seller. The confirmation is queued, and nothing but it
  changes the state of the trade.\<close>

definition wallet_charge :: "sale_trade \<Rightarrow> bool \<Rightarrow> (pay_db, unit) prog" where
  "wallet_charge t check_coupon =
     thenE (in_mall (whenE check_coupon (check_before_charge t)))
     (bindE (liftE (\<lambda>s. get_customer (st_buyer_id t) (ml_wallet (pay_mall s)))) (\<lambda>buyer.
      bindE (liftE (\<lambda>s. q_get (\<lambda>m. ma_openid m = cu_unionid buyer) (cp_mamas (ml_coupons (pay_mall s))))) (\<lambda>xlmm.
      (let payment = trade_cents t;
           can_pay = (\<lambda>m. ma_openid m = cu_unionid buyer \<and> ma_cash m \<ge> payment) in
       bindE (asks (\<lambda>s. q_exists can_pay (cp_mamas (ml_coupons (pay_mall s))))) (\<lambda>able.
       thenE (in_mall (do_coupons (modify (\<lambda>k. k\<lparr>cp_mamas :=
         q_update can_pay (\<lambda>m. m\<lparr>ma_cash := ma_cash m - payment\<rparr>) (cp_mamas k)\<rparr>))))
       (if \<not> able then raise (Exn ''the wallet of the seller is too small'')
        else
          thenE (modify (\<lambda>s. s\<lparr>pay_carry_logs := pay_carry_logs s @ [\<lparr>ocl_xlmm = ma_id xlmm,
            ocl_order_num = st_id t, ocl_buyer_nick = st_buyer_nick t, ocl_value = payment\<rparr>]\<rparr>))
          (pay_later (Confirm_trade (st_id t) None ''''))))))))"

definition consume_coins :: "sale_trade \<Rightarrow> customer \<Rightarrow> (mall_db, unit) prog" where
  "consume_coins t buyer =
     bindE (asks (\<lambda>m. getXiaolumm buyer (ml_coupons m))) (\<lambda>xlmm.
     case xlmm of
       None \<Rightarrow> raise (Exn ''no seller'')
     | Some x \<Rightarrow>
         bindE (asks (\<lambda>m. q_first (filter (\<lambda>c. xc_mama_id c = ma_id x) (k_coins (ml_coins m))))) (\<lambda>coin.
         case coin of
           None \<Rightarrow> raise (Exn ''not enough coins'')
         | Some c \<Rightarrow>
             if xc_amount c \<ge> coin_payment t then do_coins (coin_consume c (coin_payment t) (str_nat (st_id t)))
             else raise (Exn ''not enough coins'')))"

text \<open>\<open>budget_charge\<close>: when the text of the trade names coins the coin share of the trade is consumed,
  otherwise the wallet pays all of it. A log of the trade that is there already is taken for its payment.
  Then the trade is confirmed.\<close>

definition pay_by_wallet :: "sale_trade \<Rightarrow> customer \<Rightarrow> (mall_db, unit) prog" where
  "pay_by_wallet t buyer =
     bindE (asks (\<lambda>m. q_first (filter (\<lambda>b. ub_user b = cu_id buyer \<and> ub_amount b \<ge> trade_cents t)
       (w_budgets (ml_wallet m))))) (\<lambda>b.
     if b = None then raise (Exn ''the wallet is too small'')
     else
       tryE (bindE (do_wallet (budget_log_create (cu_id buyer) BUDGET_OUT (trade_cents t) BG_CONSUM None
               (str_nat (st_id t)) (Some BL_CONFIRMED) (Some (''st_'' @ str_nat (st_id t))))) (\<lambda>_. ret ()))
         (\<lambda>e. if e = IntegrityError then ret () else raise e))"

definition budget_charge_block :: "sale_trade \<Rightarrow> bool \<Rightarrow> (mall_db, unit) prog" where
  "budget_charge_block t check_coupon = atomic
     (bindE (liftE (\<lambda>m. get_customer (st_buyer_id t) (ml_wallet m))) (\<lambda>buyer.
      thenE (whenE check_coupon (check_before_charge t))
      (bindE (liftE (\<lambda>_. get_pay_type_from_trade t)) (\<lambda>(budget_pay, coin_pay).
       if trade_cents t > 0 then
         if coin_pay > 0 then consume_coins t buyer else pay_by_wallet t buyer
       else ret ()))))"

definition budget_charge :: "sale_trade \<Rightarrow> bool \<Rightarrow> (mall_db, unit) prog" where
  "budget_charge t check_coupon =
     bindE (liftE (\<lambda>m. get_trade (st_id t) (ml_shop m))) (\<lambda>st.
     if st_status st \<noteq> WAIT_BUYER_PAY then raise (Exn ''the trade does not wait for payment'')
     else thenE (budget_charge_block t check_coupon) (confirmTradeChargeTask (st_id t) None ''''))"

text \<open>\<open>pingpp_charge\<close>: the shares of wallet and coins are taken first, then the service is charged with
  the rest.\<close>

definition take_budget_share :: "sale_trade \<Rightarrow> (mall_db, unit) prog" where
  "take_budget_share t = atomic
     (bindE (asks (\<lambda>m. q_first (filter (\<lambda>b. ub_user b = st_buyer_id t) (w_budgets (ml_wallet m))))) (\<lambda>b.
      case b of
        None \<Rightarrow> raise AttributeError
      | Some b \<Rightarrow>
          bindE (do_wallet (charge_pending b (st_id t) (budget_payment t))) (\<lambda>ok.
          if ok then ret () else raise (Exn ''the wallet is too small''))))"

definition charge_extra_of :: "pay_env \<Rightarrow> sale_trade \<Rightarrow> string \<Rightarrow> charge_extra" where
  "charge_extra_of env t openid =
     (if st_channel t \<in> {CH_WX_PUB, CH_WEAPP} then Open_id openid
      else if st_channel t = CH_ALIPAY_WAP then Success_url (env_payback_url env t)
      else if st_channel t = CH_UPMP_WAP then Result_url (env_payback_url env t)
      else No_extra)"

definition pingpp_charge :: "pay_env \<Rightarrow> sale_trade \<Rightarrow> bool \<Rightarrow> (pay_db, charge_order) prog" where
  "pingpp_charge env t check_coupon =
     thenE (in_mall (whenE check_coupon (check_before_charge t)))
     (if get_cash_payment t \<le> 0 then raise (Exn ''nothing to pay'')
      else
        bindE (liftE (\<lambda>s. get_customer (st_buyer_id t) (ml_wallet (pay_mall s)))) (\<lambda>customer.
        (let openid = (if st_channel t \<in> {CH_WX_PUB, CH_WEAPP}
                       then str_or (env_openid env customer (st_channel t)) (st_openid t) else '''') in
         if st_channel t \<in> {CH_WX_PUB, CH_WEAPP} \<and> openid = '''' then raise (Exn ''ValueError'')
         else
           thenE (in_mall (whenE (st_has_budget_paid t) (take_budget_share t)))
           (thenE (in_mall (whenE (st_has_coin_paid t) (atomic (consume_coins t customer))))
           (bindE (create_charge env (st_tid t) (get_cash_payment t) (st_channel t) (charge_extra_of env t openid)) (\<lambda>c.
            thenE (in_mall (do_shop (modify (\<lambda>s. s\<lparr>d_trades := q_update (\<lambda>x. st_id x = st_id t)
              (\<lambda>x. x\<lparr>st_charge := str_nat (ch_id c)\<rparr>) (d_trades s)\<rparr>))))
            (ret c)))))))"

section \<open>The pages of a trade\<close>

definition pay_finished :: "sale_trade \<Rightarrow> (pay_db, unit) prog" where
  "pay_finished t =
     in_mall (do_shop (save_trade_fields t (\<lambda>x. x\<lparr>st_pay_status := SALE_TRADE_PAY_FINISHED\<rparr>)))"

text \<open>The end of \<open>charge\<close> and of the two pages that create a trade: the answer 0, 9 for a payment that
  is there already and 6 for every other error, after which the trade can be paid again.\<close>

definition charged :: "sale_trade \<Rightarrow> (pay_db, unit) prog \<Rightarrow> (pay_db, nat) prog" where
  "charged t pay =
     tryE (thenE pay (thenE (pay_finished t) (ret 0)))
       (\<lambda>e. thenE (pay_finished t) (ret (if e = IntegrityError then 9 else 6)))"

definition pay_by_channel :: "pay_env \<Rightarrow> sale_trade \<Rightarrow> bool \<Rightarrow> (pay_db, unit) prog" where
  "pay_by_channel env t check_coupon =
     (if st_channel t = CH_BUDGET then in_mall (budget_charge t check_coupon)
      else bindE (pingpp_charge env t check_coupon) (\<lambda>_. ret ()))"

definition charge :: "pay_env \<Rightarrow> pk_id \<Rightarrow> channel option \<Rightarrow> (pay_db, nat) prog" where
  "charge env i ch =
     bindE (liftE (\<lambda>s. get_trade i (ml_shop (pay_mall s)))) (\<lambda>t.
     bindE (case ch of
              None \<Rightarrow> ret t
            | Some ch \<Rightarrow> if ch = st_channel t then ret t
                else thenE (in_mall (do_shop (save_trade_fields t (\<lambda>x. x\<lparr>st_channel := ch\<rparr>))))
                     (ret (t\<lparr>st_channel := ch\<rparr>))) (\<lambda>t.
     bindE (asks pay_now) (\<lambda>time.
     if st_status t \<noteq> WAIT_BUYER_PAY then ret 1
     else if \<not> is_payable t time then ret 2
     else if st_pay_status t = SALE_TRADE_PAYING then ret 3
     else charged t (if st_channel t = CH_WALLET then wallet_charge t False else pay_by_channel env t False))))"

text \<open>\<open>destroy\<close> and \<open>undisplay\<close>: a trade whose charge is paid after all is confirmed instead of closed.
  Only the first one waits until the payment has ended.\<close>

definition destroy :: "pay_env \<Rightarrow> pk_id \<Rightarrow> (pay_db, nat) prog" where
  "destroy env i =
     bindE (liftE (\<lambda>s. get_trade i (ml_shop (pay_mall s)))) (\<lambda>t.
     bindE (retrieve_or_update_order env (st_tid t)) (\<lambda>c.
     case c of
       Some c \<Rightarrow>
         if ch_paid c then thenE (pay_later (Notify_trade_pay c)) (ret 1)
         else if st_pay_status t \<noteq> SALE_TRADE_PAY_FINISHED then ret 2
         else thenE (in_mall (close_trade t)) (ret 0)
     | None \<Rightarrow>
         if st_pay_status t \<noteq> SALE_TRADE_PAY_FINISHED then ret 2
         else thenE (in_mall (close_trade t)) (ret 0)))"

definition undisplay :: "pay_env \<Rightarrow> pk_id \<Rightarrow> (pay_db, nat) prog" where
  "undisplay env i =
     bindE (liftE (\<lambda>s. get_trade i (ml_shop (pay_mall s)))) (\<lambda>t.
     bindE (retrieve_or_update_order env (st_tid t)) (\<lambda>c.
     case c of
       Some c \<Rightarrow>
         if ch_paid c then thenE (pay_later (Notify_trade_pay c)) (ret 1)
         else thenE (in_mall (close_trade t)) (ret 0)
     | None \<Rightarrow> thenE (in_mall (close_trade t)) (ret 0)))"

text \<open>\<open>retrieve\<close> looks at the service when a trade that can be paid is shown; its errors are logged.\<close>

definition retrieve_trade :: "pay_env \<Rightarrow> pk_id \<Rightarrow> (pay_db, bool) prog" where
  "retrieve_trade env i =
     bindE (liftE (\<lambda>s. get_trade i (ml_shop (pay_mall s)))) (\<lambda>t.
     bindE (asks pay_now) (\<lambda>time.
     if is_payable t time \<and> st_charge t \<noteq> '''' then
       tryE (bindE (retrieve_or_update_order env (st_tid t)) (\<lambda>c.
             case c of
               Some c \<Rightarrow> if ch_paid c then thenE (pay_later (Notify_trade_pay c)) (ret True)
                         else ret (trade_is_paid t)
             | None \<Rightarrow> ret (trade_is_paid t)))
         (\<lambda>_. ret (trade_is_paid t))
     else ret (trade_is_paid t)))"

text \<open>\<open>confirm_sign\<close>: the sent orders of a trade are signed one after the other; an error stops the
  loop, and is the answer.\<close>

definition confirm_sign :: "pk_id \<Rightarrow> (pay_db, nat) prog" where
  "confirm_sign i =
     bindE (liftE (\<lambda>s. get_trade i (ml_shop (pay_mall s)))) (\<lambda>t.
     bindE (asks (\<lambda>s. filter (\<lambda>so. so_status so = WAIT_BUYER_CONFIRM_GOODS)
       (orders_of (st_id t) (ml_shop (pay_mall s))))) (\<lambda>sos.
     if sos = [] then ret 1
     else tryE (thenE (in_mall (do_shop (forE confirm_sign_order sos))) (ret 0)) (\<lambda>_. ret 1)))"

end
