(* ===== verification/Checkout.thy ===== *)
theory Checkout
  imports Payments
begin

text \<open>
  The shopping cart (\<open>src/flashsale/pay/models/shoppingcart.py\<close>,
  \<open>src/flashsale/restpro/v2/views/shoppingcart.py\<close>) and the two pages that make a trade of carts or of a
  single SKU (\<open>shoppingcart_create\<close> and \<open>buynow_create\<close> of
  \<open>src/flashsale/restpro/v2/views/trade.py\<close>) with the checks before it: whether the goods can be had,
  what coupons are worth, whether the sums the client sends agree with the prices, who may buy virtual
  goods, and where the parcel goes. A page answers with a code, 0 for success. The fields of a request
  that hold numbers are numbers here, finite ones. Messages, logs and the order of the counters of
  \<open>statsd\<close> are left out, as is the preference of a carrier that is queued for the address.
\<close>

section \<open>Stock and limits\<close>

text \<open>\<open>ProductSku.free_num\<close> reads the lock of the stock row into the object, and makes the row when there
  is none.\<close>

definition stock_lock_num :: "sku_stock \<Rightarrow> product_sku \<Rightarrow> int" where
  "stock_lock_num st k =
     (case ps_salestat k of
        Some n \<Rightarrow> n + attr st Waitingpay_num
      | None \<Rightarrow> attr st Sold_num - attr st Return_quantity + attr st Waitingpay_num)"

definition load_lock :: "product_sku \<Rightarrow> (shop_db, product_sku) prog" where
  "load_lock k = bindE (get_by_sku (ps_id k)) (\<lambda>st. ret (k\<lparr>ps_lock_num := stock_lock_num st k\<rparr>))"

definition free_of :: "product_sku \<Rightarrow> int" where
  "free_of k = max (ps_remain_num k - max (ps_lock_num k) 0) 0"

definition sku_free_num :: "product_sku \<Rightarrow> (shop_db, int) prog" where
  "sku_free_num k = bindE (load_lock k) (\<lambda>k. ret (free_of k))"

definition sku_or_404 :: "pk_id \<Rightarrow> shop_db \<Rightarrow> py_error + product_sku" where
  "sku_or_404 i s = (case get_sku i s of Inl _ \<Rightarrow> Inl (Exn ''Http404'') | Inr k \<Rightarrow> Inr k)"

definition releaseLockQuantity :: "product_sku \<Rightarrow> int \<Rightarrow> (shop_db, unit) prog" where
  "releaseLockQuantity k num =
     (let num = (if ps_lock_num k < num then ps_lock_num k else num) in
      modify (\<lambda>s. s\<lparr>d_skus := q_update (\<lambda>x. ps_id x = ps_id k)
        (\<lambda>x. x\<lparr>ps_lock_num := ps_lock_num x - num\<rparr>) (d_skus s)\<rparr>))"

definition isQuantityLockable :: "product_sku \<Rightarrow> int \<Rightarrow> shop_db \<Rightarrow> bool" where
  "isQuantityLockable k num s =
     (case sku_product k s of
        Inl e \<Rightarrow> True
      | Inr p \<Rightarrow> (case prod_model p of
            None \<Rightarrow> True
          | Some mp \<Rightarrow> (case mp_buy_limit mp of None \<Rightarrow> True | Some n \<Rightarrow> n \<ge> num)))"

text \<open>\<open>get_user_skunum_by_last24hours\<close> looks back two days; an order without a time of payment is not
  counted.\<close>

definition get_user_skunum_by_last24hours :: "customer \<Rightarrow> product_sku \<Rightarrow> shop_db \<Rightarrow> int" where
  "get_user_skunum_by_last24hours u k s =
     q_sum so_num (\<lambda>so. so_buyer_id so = cu_id u \<and> so_sku_id so = ps_id k
       \<and> so_status so \<in> {WAIT_BUYER_PAY, WAIT_SELLER_SEND_GOODS, WAIT_BUYER_CONFIRM_GOODS}
       \<and> so_refund_status so = NO_REFUND
       \<and> (case so_pay_time so of None \<Rightarrow> False | Some t \<Rightarrow> t \<ge> d_now s - 2 * 86400)) (d_orders s)"

text \<open>\<open>ProductSku.calc_discount_fee\<close>, in yuan: sellers of a level pay less where the product says so.\<close>

definition calc_discount_fee :: "product_sku \<Rightarrow> mama option \<Rightarrow> shop_db \<Rightarrow> yuan" where
  "calc_discount_fee k xlmm s =
     (case xlmm of
        None \<Rightarrow> 0
      | Some m \<Rightarrow>
          if ma_agencylevel m < 2 then 0
          else (case sku_product k s of
                  Inl _ \<Rightarrow> 0
                | Inr p \<Rightarrow> (case prod_mama_discount p of
                      None \<Rightarrow> 0
                    | Some d \<Rightarrow> py_fmt2 (of_int (100 - max 0 (min d 100)) / 100 * ps_agent_price k))))"

section \<open>Carts\<close>

definition cart_product :: "shopping_cart \<Rightarrow> shop_db \<Rightarrow> product option" where
  "cart_product c s = q_first (filter (\<lambda>p. prod_id p = sc_item_id c) (d_products s))"

definition cart_modelproduct :: "shopping_cart \<Rightarrow> shop_db \<Rightarrow> py_error + model_product option" where
  "cart_modelproduct c s =
     (case cart_product c s of None \<Rightarrow> Inl AttributeError | Some p \<Rightarrow> Inr (get_product_model p))"

definition is_boutique_coupon :: "model_product \<Rightarrow> bool" where
  "is_boutique_coupon mp \<longleftrightarrow> mp_product_type mp = 1 \<and> mp_is_boutique mp"

definition is_good_enough :: "shopping_cart \<Rightarrow> (shop_db, bool) prog" where
  "is_good_enough c =
     bindE (liftE (get_sku (sc_sku_id c))) (\<lambda>k.
     bindE (liftE (sku_product k)) (\<lambda>p.
     if \<not> prod_on_shelf p then ret False
     else bindE (sku_free_num k) (\<lambda>n. ret (n \<ge> sc_num c))))"

text \<open>The receivers of \<open>post_save\<close> of a cart, after the commit: a new cart adds its number to the stock
  row and closes the carts of the SKU whose time is over; every other save counts again.\<close>

definition task_shoppingcart_update_productskustats_shoppingcart_num :: "pk_id \<Rightarrow> (shop_db, unit) prog" where
  "task_shoppingcart_update_productskustats_shoppingcart_num sku_id =
     bindE (asks (\<lambda>s. q_sum sc_num (\<lambda>c. sc_sku_id c = sku_id \<and> sc_normal c) (d_carts s))) (\<lambda>total.
     bindE (get_by_sku sku_id) (\<lambda>st.
     whenE (attr st Shoppingcart_num \<noteq> total)
       (save_stock_fields [Shoppingcart_num] (attr_update Shoppingcart_num total st))))"

definition timed_out :: "time \<Rightarrow> shopping_cart \<Rightarrow> bool" where
  "timed_out t c \<longleftrightarrow> sc_normal c \<and> (case sc_remain_time c of None \<Rightarrow> False | Some r \<Rightarrow> r \<le> t)"

definition close_timeout_carts :: "pk_id list \<Rightarrow> (shop_db, unit) prog" where
  "close_timeout_carts skus =
     thenE (modify (\<lambda>s. s\<lparr>d_carts := q_update (\<lambda>c. sc_sku_id c \<in> set skus \<and> timed_out (d_now s) c)
       (\<lambda>c. c\<lparr>sc_normal := False\<rparr>) (d_carts s)\<rparr>))
     (forE task_shoppingcart_update_productskustats_shoppingcart_num skus)"

definition update_skustock_and_close_carts :: "pk_id \<Rightarrow> int \<Rightarrow> (shop_db, unit) prog" where
  "update_skustock_and_close_carts sku_id num =
     bindE (get_by_sku sku_id) (\<lambda>st.
     thenE (modify (\<lambda>s. s\<lparr>d_stocks := q_update (\<lambda>x. ss_sku_id x = ss_sku_id st)
       (\<lambda>x. attr_update Shoppingcart_num (attr x Shoppingcart_num + num) x) (d_stocks s)\<rparr>))
     (close_timeout_carts [sku_id]))"

text \<open>\<open>close_cart\<close> of a cart that was read before; the count follows the commit.\<close>

definition shut_cart :: "shopping_cart \<Rightarrow> bool \<Rightarrow> (shop_db, bool) prog" where
  "shut_cart c release_locknum =
     bindE (asks (q_exists (\<lambda>x. sc_id x = sc_id c \<and> sc_normal x) \<circ> d_carts)) (\<lambda>open.
     if \<not> open then ret False
     else
       thenE (modify (\<lambda>s. s\<lparr>d_carts := tbl_save sc_id (c\<lparr>sc_normal := False\<rparr>) (d_carts s)\<rparr>))
       (thenE (whenE release_locknum
          (bindE (liftE (sku_or_404 (sc_sku_id c))) (\<lambda>k. releaseLockQuantity k (sc_num c))))
       (ret True)))"

definition close_cart :: "shopping_cart \<Rightarrow> bool \<Rightarrow> (shop_db, unit) prog" where
  "close_cart c release_locknum =
     bindE (atomic (shut_cart c release_locknum)) (\<lambda>saved.
     whenE saved (task_shoppingcart_update_productskustats_shoppingcart_num (sc_sku_id c)))"

section \<open>The pages of the cart\<close>

definition live_customer :: "pk_id \<Rightarrow> wallet_db \<Rightarrow> customer option" where
  "live_customer user w = q_first (filter (\<lambda>c. cu_user c = user \<and> cu_status c \<noteq> DELETE) (w_customers w))"

text \<open>The SKU the buyer means: when it belongs to another product, the one of this product with the same
  name.\<close>

definition sku_of_product :: "product \<Rightarrow> pk_id \<Rightarrow> shop_db \<Rightarrow> product_sku option" where
  "sku_of_product p sku_id s =
     (case q_first (filter (\<lambda>k. ps_id k = sku_id) (d_skus s)) of
        None \<Rightarrow> None
      | Some k \<Rightarrow>
          if ps_product_id k = prod_id p then Some k
          else (let name = str_or (ps_properties_name k) (ps_properties_alias k) in
                q_first (filter (\<lambda>x. ps_product_id x = prod_id p \<and> ps_normal x
                  \<and> (ps_properties_name x = name \<or> ps_properties_alias x = name)) (d_skus s))))"

definition new_cart :: "customer \<Rightarrow> product \<Rightarrow> product_sku \<Rightarrow> int \<Rightarrow> cart_type \<Rightarrow> yuan \<Rightarrow> time \<Rightarrow> shopping_cart" where
  "new_cart cust p k num typ price t =
     \<lparr>sc_id = 0, sc_buyer_id = cu_id cust, sc_buyer_nick = cu_nick cust, sc_item_id = prod_id p,
      sc_title = prod_name p, sc_price = price, sc_std_sale_price = ps_std_sale_price k, sc_sku_id = ps_id k,
      sc_num = num, sc_total_fee = ps_agent_price k * of_int num,
      sc_sku_name = str_or (ps_properties_alias k) (ps_properties_name k), sc_pic_path = prod_pic_path p,
      sc_remain_time = Some (t + 20 * 60), sc_normal = True, sc_type = typ\<rparr>"

definition insert_cart :: "shopping_cart \<Rightarrow> (shop_db, unit) prog" where
  "insert_cart c =
     thenE (modify (\<lambda>s. s\<lparr>d_carts := tbl_insert sc_id (\<lambda>i. sc_id_update (\<lambda>_. i)) c (d_carts s)\<rparr>))
     (update_skustock_and_close_carts (sc_sku_id c) (sc_num c))"

text \<open>\<open>create\<close>: of the codes, 3 is a product off the shelf, 4 the limit per buyer, 5 too little stock, 6 a
  cart that is there already, 7 no customer and 8 an SKU that is not of the product. The number was tested
  to be made of digits. The cart lasts twenty minutes, and so do the buyer's other carts from then on.\<close>

definition add_cart :: "customer \<Rightarrow> product \<Rightarrow> product_sku \<Rightarrow> nat \<Rightarrow> cart_type \<Rightarrow> (shop_db, nat) prog" where
  "add_cart cust p k num typ =
     bindE (asks (\<lambda>s. isQuantityLockable k (int num + get_user_skunum_by_last24hours cust k s) s)) (\<lambda>lockable.
     if \<not> lockable then ret 4
     else
       bindE (asks (\<lambda>s. q_exists (\<lambda>c. sc_item_id c = prod_id p \<and> sc_buyer_id c = cu_id cust
         \<and> sc_sku_id c = ps_id k \<and> sc_normal c \<and> sc_type c = typ) (d_carts s))) (\<lambda>there.
       if typ \<in> {FLASHSALE, BOUTIQUEBUY, VIRTUALBUY} \<and> there then ret 6
       else
         bindE (sku_free_num k) (\<lambda>free.
         if free < int num then ret 5
         else
           bindE (if typ = TEAMBUY
                  then bindE (liftE (sku_product k)) (\<lambda>q. case get_product_model q of
                         None \<Rightarrow> raise AttributeError | Some mp \<Rightarrow> ret (mp_teambuy_price mp))
                  else ret (ps_agent_price k)) (\<lambda>price.
           bindE now (\<lambda>t.
           thenE (insert_cart (new_cart cust p k (int num) typ price t))
           (thenE (modify (\<lambda>s. s\<lparr>d_carts := q_update (\<lambda>c. sc_buyer_id c = cu_id cust \<and> sc_normal c)
              (\<lambda>c. c\<lparr>sc_remain_time := Some (t + 20 * 60)\<rparr>) (d_carts s)\<rparr>))
           (ret 0)))))))"

definition create_cart ::
  "pk_id \<Rightarrow> pk_id \<Rightarrow> pk_id \<Rightarrow> nat \<Rightarrow> bool \<Rightarrow> cart_type \<Rightarrow> (mall_db, nat) prog" where
  "create_cart user product_id sku_id num again typ =
     bindE (asks (\<lambda>m. live_customer user (ml_wallet m))) (\<lambda>cust.
     case cust of
       None \<Rightarrow> ret 7
     | Some cust \<Rightarrow> do_shop (
         bindE (asks (\<lambda>s. q_first (filter (\<lambda>p. prod_id p = product_id) (d_products s)))) (\<lambda>p.
         case p of
           None \<Rightarrow> ret 2
         | Some p \<Rightarrow>
             if prod_is_seckill p then ret 2
             else if \<not> prod_on_shelf p then ret 3
             else
               bindE (asks (sku_of_product p sku_id)) (\<lambda>k.
               case k of
                 None \<Rightarrow> ret 8
               | Some k \<Rightarrow>
                   thenE (whenE again (modify (\<lambda>s. s\<lparr>d_carts := filter (\<lambda>c. \<not> (sc_item_id c = product_id
                     \<and> sc_sku_id c = ps_id k \<and> \<not> sc_normal c \<and> sc_buyer_id c = cu_id cust)) (d_carts s)\<rparr>)))
                   (add_cart cust p k num typ)))))"

text \<open>\<open>delete_carts\<close> finds the cart among the buyer's open ones, \<open>plus_product_carts\<close> too, and
  \<open>minus_product_carts\<close> among all carts. The database computes \<open>total_fee\<close> from the number it has just
  written.\<close>

definition open_cart :: "pk_id \<Rightarrow> pk_id \<Rightarrow> shop_db \<Rightarrow> py_error + shopping_cart" where
  "open_cart i buyer s =
     (case q_get (\<lambda>c. sc_id c = i \<and> sc_buyer_id c = buyer \<and> sc_normal c) (d_carts s) of
        Inl _ \<Rightarrow> Inl (Exn ''Http404'') | Inr c \<Rightarrow> Inr c)"

definition delete_carts :: "customer \<Rightarrow> pk_id \<Rightarrow> (shop_db, nat) prog" where
  "delete_carts cust i =
     bindE (liftE (open_cart i (cu_id cust))) (\<lambda>c. thenE (close_cart c True) (ret 0))"

definition change_cart_num :: "shopping_cart \<Rightarrow> int \<Rightarrow> (shop_db, unit) prog" where
  "change_cart_num c d = modify (\<lambda>s. s\<lparr>d_carts := q_update (\<lambda>x. sc_id x = sc_id c)
     (\<lambda>x. x\<lparr>sc_num := sc_num x + d, sc_total_fee := of_int (sc_num x + d) * sc_price c\<rparr>) (d_carts s)\<rparr>)"

definition plus_product_carts :: "customer \<Rightarrow> pk_id \<Rightarrow> (shop_db, nat) prog" where
  "plus_product_carts cust i =
     bindE (atomic (
       bindE (liftE (open_cart i (cu_id cust))) (\<lambda>c.
       bindE (liftE (sku_or_404 (sc_sku_id c))) (\<lambda>k.
       bindE (asks (\<lambda>s. isQuantityLockable k (sc_num c + get_user_skunum_by_last24hours cust k s + 1) s)) (\<lambda>lockable.
       if \<not> lockable then ret (1, sc_sku_id c)
       else
         bindE (sku_free_num k) (\<lambda>free.
         if free \<le> sc_num c then ret (2, sc_sku_id c)
         else thenE (change_cart_num c 1) (ret (0, sc_sku_id c)))))))) (\<lambda>(code, sku_id).
     thenE (whenE (code = 0) (task_shoppingcart_update_productskustats_shoppingcart_num sku_id))
     (ret code))"

definition minus_product_carts :: "pk_id \<Rightarrow> (shop_db, nat) prog" where
  "minus_product_carts i =
     bindE (atomic (
       bindE (liftE (\<lambda>s. case q_get (\<lambda>c. sc_id c = i) (d_carts s) of Inl _ \<Rightarrow> Inl (Exn ''Http404'') | Inr c \<Rightarrow> Inr c)) (\<lambda>c.
       if sc_num c \<le> 1 then ret (1, sc_sku_id c)
       else
         thenE (change_cart_num c (- 1))
         (bindE (asks (\<lambda>s. q_first (filter (\<lambda>k. ps_id k = sc_sku_id c) (d_skus s)))) (\<lambda>k.
          case k of
            None \<Rightarrow> raise AttributeError
          | Some k \<Rightarrow> thenE (releaseLockQuantity k 1) (ret (0, sc_sku_id c))))))) (\<lambda>(code, sku_id).
     thenE (whenE (code = 0) (task_shoppingcart_update_productskustats_shoppingcart_num sku_id))
     (ret code))"

definition sku_num_enough :: "pk_id \<Rightarrow> nat \<Rightarrow> (shop_db, nat) prog" where
  "sku_num_enough sku_id num =
     bindE (liftE (sku_or_404 sku_id)) (\<lambda>k.
     bindE (asks (isQuantityLockable k (int num))) (\<lambda>lockable.
     if \<not> lockable then ret 2
     else bindE (sku_free_num k) (\<lambda>free. ret (if free < int num then 3 else 0))))"

text \<open>\<open>carts_payinfo\<close> and \<open>now_payinfo\<close>: the sums shown before a trade is made.\<close>

definition payinfo :: "yuan \<Rightarrow> yuan \<Rightarrow> yuan \<times> yuan \<times> yuan" where
  "payinfo total_fee discount =
     (let discount_fee = min discount total_fee; r = (\<lambda>x. of_int (py_round (x * 100)) / 100)
      in (r total_fee, r discount_fee, r (total_fee - discount_fee)))"

fun cart_sums :: "mama option \<Rightarrow> shopping_cart list \<Rightarrow> shop_db \<Rightarrow> py_error + yuan \<times> yuan" where
  "cart_sums xlmm [] s = Inr (0, 0)"
| "cart_sums xlmm (c # cs) s =
     (case get_sku (sc_sku_id c) s of
        Inl e \<Rightarrow> Inl e
      | Inr k \<Rightarrow> map_sum id (\<lambda>(fee, disc). (sc_price c * of_int (sc_num c) + fee, calc_discount_fee k xlmm s + disc))
          (cart_sums xlmm cs s))"

definition carts_payinfo :: "mama option \<Rightarrow> shopping_cart list \<Rightarrow> shop_db \<Rightarrow> py_error + yuan \<times> yuan \<times> yuan" where
  "carts_payinfo xlmm cs s = map_sum id (\<lambda>(fee, disc). payinfo fee disc) (cart_sums xlmm cs s)"

definition now_payinfo :: "mama option \<Rightarrow> product_sku \<Rightarrow> int \<Rightarrow> shop_db \<Rightarrow> yuan \<times> yuan \<times> yuan" where
  "now_payinfo xlmm k num s = payinfo (ps_agent_price k * of_int num) (calc_discount_fee k xlmm s)"

section \<open>What coupons and extras are worth\<close>

text \<open>\<open>UserCoupon.check_user_coupon\<close> with the checks of the template. The models of the products are
  the rows with their keys, so a product without a row of its model has none here.\<close>

definition products_by_ids :: "pk_id list \<Rightarrow> shop_db \<Rightarrow> product list" where
  "products_by_ids ids s = filter (\<lambda>p. prod_id p \<in> set ids) (d_products s)"

definition check_category :: "coupon_template \<Rightarrow> pk_id list \<Rightarrow> shop_db \<Rightarrow> py_error + unit" where
  "check_category tpl ids s =
     (if ctp_category_ids tpl = '''' then Inr ()
      else if list_ex (\<lambda>p. prod_category p \<in> set (split_on CHR '','' (strip (ctp_category_ids tpl)))) (products_by_ids ids s)
        then Inr ()
      else Inl (AssertionError ''category''))"

definition check_bind_pros :: "coupon_template \<Rightarrow> pk_id list \<Rightarrow> shop_db \<Rightarrow> py_error + unit" where
  "check_bind_pros tpl ids s =
     (let models = List.map_filter prod_model (products_by_ids ids s);
          bound = remove_all '' '' (ctp_product_ids tpl) in
      if list_ex (\<lambda>mp. mp_coupon_only mp \<and> ctp_id tpl \<notin> set (mp_coupon_templates mp)) models
        then Inl (AssertionError ''the product takes other coupons'')
      else if models = [] then Inl TypeError
      else if list_all mp_coupon_deny models then Inl (AssertionError ''the product takes no coupons'')
      else if bound = '''' then check_category tpl ids s
      else if list_ex (\<lambda>i. str_nat i \<in> set (split_on CHR '','' (strip bound))) ids then check_category tpl ids s
      else Inl (AssertionError ''the product takes no coupons''))"

definition usefee_check :: "coupon_template \<Rightarrow> yuan \<Rightarrow> py_error + unit" where
  "usefee_check tpl fee =
     (if ctp_use_min_payment tpl \<noteq> 0 \<and> ctp_use_min_payment tpl > fee then Inl (AssertionError ''fee'') else Inr ())"

definition check_user_coupon :: "user_coupon \<Rightarrow> pk_id list \<Rightarrow> yuan \<Rightarrow> (mall_db, unit) prog" where
  "check_user_coupon c ids fee =
     bindE (liftE (\<lambda>m. q_get (\<lambda>t. ctp_id t = uc_template_id c) (cp_templates (ml_coupons m)))) (\<lambda>tpl.
     thenE (liftE (\<lambda>m. check_bind_pros tpl ids (ml_shop m)))
     (thenE (liftE (\<lambda>_. if ctp_valid tpl then Inr () else Inl (AssertionError ''invalid template'')))
     (thenE (liftE (\<lambda>_. usefee_check tpl fee))
     (liftE (\<lambda>m. coupon_basic_check c (ml_coupons m))))))"

text \<open>What the discount is computed for: the products, the buyer, the price in cents and the number of
  the trade.\<close>

record discount_for =
  df_item_ids :: "pk_id list"
  df_buyer_id :: pk_id
  df_payment :: rat
  df_order_no :: string

definition calc_counpon_discount :: "pk_id \<Rightarrow> discount_for \<Rightarrow> (mall_db, cents) prog" where
  "calc_counpon_discount i d =
     bindE (asks (\<lambda>m. q_first (filter (\<lambda>c. uc_id c = i \<and> uc_customer_id c = df_buyer_id d)
       (cp_coupons (ml_coupons m))))) (\<lambda>c.
     case c of
       None \<Rightarrow> raise (Exn ''coupon not found'')
     | Some c \<Rightarrow>
         thenE (if uc_trade_tid c = Some (df_order_no d) then ret ()
                else check_user_coupon c (df_item_ids d) (df_payment d / 100))
         (ret (py_round (uc_value c * 100))))"

text \<open>\<open>get_coupon_template_ids\<close> asks for the coupons with the numbers in the text; a text that is no
  number is an error.\<close>

definition int_text :: "string \<Rightarrow> int option" where
  "int_text s = (case strip s of
     c # cs \<Rightarrow> if c = CHR ''+'' then map_option int (nat_of_str cs) else int_of_str (c # cs)
   | [] \<Rightarrow> None)"

definition coupon_templates_of :: "string list \<Rightarrow> coupon_db \<Rightarrow> py_error + pk_id list" where
  "coupon_templates_of ids k =
     (if list_ex (\<lambda>i. int_text i = None) ids then Inl (Exn ''ValueError'')
      else Inr (remdups (map uc_template_id
        (filter (\<lambda>c. Some (int (uc_id c)) \<in> int_text ` set ids) (cp_coupons k)))))"

definition add_cents :: "(mall_db, cents) prog \<Rightarrow> (mall_db, cents) prog \<Rightarrow> (mall_db, cents) prog" where
  "add_cents a b = bindE a (\<lambda>x. bindE b (\<lambda>y. ret (x + y)))"

fun coupons_discount :: "string list \<Rightarrow> discount_for \<Rightarrow> (mall_db, cents) prog" where
  "coupons_discount [] d = ret 0"
| "coupons_discount (i # is) d =
     (case nat_of_str i of
        None \<Rightarrow> coupons_discount is d
      | Some n \<Rightarrow> add_cents (calc_counpon_discount n d) (coupons_discount is d))"

definition entry_discount :: "pay_env \<Rightarrow> entry \<Rightarrow> discount_for \<Rightarrow> (mall_db, cents) prog" where
  "entry_discount env e d =
     (if entry_get ''pid'' e = Some ETS_COUPON then
        (let ids = split_on CHR ''/'' (case entry_get ''couponid'' e of None \<Rightarrow> '''' | Some t \<Rightarrow> t) in
         bindE (liftE (\<lambda>m. coupon_templates_of ids (ml_coupons m))) (\<lambda>tpls.
         if length tpls > 1 then raise (Exn ''coupons of several templates'') else coupons_discount ids d))
      else if entry_get ''pid'' e = Some ETS_APPCUT then
        (case entry_get ''value'' e of
           None \<Rightarrow> raise KeyError
         | Some v \<Rightarrow> bindE (liftE (\<lambda>_. py_float v)) (\<lambda>x. ret (if x > 0 then env_appcut_value env * 100 else 0)))
      else ret 0)"

fun entries_discount :: "pay_env \<Rightarrow> entry list \<Rightarrow> discount_for \<Rightarrow> (mall_db, cents) prog" where
  "entries_discount env [] d = ret 0"
| "entries_discount env (e # es) d = add_cents (entry_discount env e d) (entries_discount env es d)"

definition calc_extra_discount :: "pay_env \<Rightarrow> string \<Rightarrow> discount_for \<Rightarrow> (mall_db, cents) prog" where
  "calc_extra_discount env pay_extras d = entries_discount env (parse_entry_params pay_extras) d"

text \<open>\<open>calc_extra_budget\<close>: the shares of wallet and coins in cents. An empty text counts as absent.\<close>

definition share_cents :: "string \<Rightarrow> string \<Rightarrow> py_error + cents" where
  "share_cents s pid =
     (case parse_pay_extras_to_dict s pid of
        None \<Rightarrow> Inr 0
      | Some e \<Rightarrow>
          (let text = (\<lambda>k. case entry_get k e of None \<Rightarrow> '''' | Some t \<Rightarrow> t);
               v = str_or (text ''budget'') (text ''value'')
           in if v = '''' then Inr 0 else map_sum id (\<lambda>x. py_round (x * 100)) (py_float v)))"

definition calc_extra_budget :: "string \<Rightarrow> py_error + cents \<times> cents" where
  "calc_extra_budget s =
     (case share_cents s ETS_BUDGET of
        Inl e \<Rightarrow> Inl e
      | Inr b \<Rightarrow> (case share_cents s ETS_XIAOLUCOIN of Inl e \<Rightarrow> Inl e | Inr c \<Rightarrow> Inr (b, c)))"

section \<open>Who may buy virtual goods\<close>

text \<open>The rule both pages share: a seller who was referred directly and is above the lowest level must
  buy five pieces or thirty points, unless coins pay for everything.\<close>

definition direct_rule :: "mama option \<Rightarrow> cents \<Rightarrow> cents \<Rightarrow> cents \<Rightarrow> int \<Rightarrow> int \<Rightarrow> nat option" where
  "direct_rule mm payment budget coin goods_num elite_score =
     (case mm of
        None \<Rightarrow> None
      | Some mm \<Rightarrow>
          if ma_referal_from mm \<noteq> DIRECT then None
          else
            (let small = elite_level mm \<noteq> ''Associate'' \<and> goods_num < 5 \<and> elite_score < 30 in
             if coin > 0 then
               (if (payment - budget - coin > 0 \<or> budget > 0) \<and> small then Some 27 else None)
             else if small then Some 28 else None))"

definition check_virtual_goods ::
  "product \<Rightarrow> int \<Rightarrow> customer \<Rightarrow> string \<Rightarrow> cents \<Rightarrow> (mall_db, nat option) prog" where
  "check_virtual_goods p sku_num cust pay_extras payment =
     bindE (liftE (\<lambda>_. calc_extra_budget pay_extras)) (\<lambda>(budget, coin).
     case get_product_model p of
       Some mp \<Rightarrow>
         if mp_product_type mp \<noteq> 1 then ret (if coin > 0 then Some 29 else None)
         else bindE (asks (\<lambda>m. getXiaolumm cust (ml_coupons m))) (\<lambda>mm.
           ret (direct_rule mm payment budget coin sku_num (sku_num * prod_elite_score p)))
     | None \<Rightarrow>
         bindE (asks (\<lambda>m. getXiaolumm cust (ml_coupons m))) (\<lambda>mm.
         if map_option ma_referal_from mm = Some INDIRECT then raise AttributeError
         else ret (direct_rule mm payment budget coin sku_num (sku_num * prod_elite_score p))))"

text \<open>The carts with virtual goods: how many, their pieces and score, and the price of the products whose
  name has the level of the seller.\<close>

definition level_price :: "mama option \<Rightarrow> product \<Rightarrow> int \<Rightarrow> shop_db \<Rightarrow> yuan" where
  "level_price mm p num s =
     (case mm of
        None \<Rightarrow> 0
      | Some m \<Rightarrow> sum_list (map (\<lambda>q. prod_agent_price q * of_int num)
          (filter (\<lambda>q. prod_model_id q = prod_model_id p \<and> prod_normal q
             \<and> contains_str (elite_level m) (prod_name q)) (d_products s))))"

fun virtual_carts ::
  "mama option \<Rightarrow> shopping_cart list \<Rightarrow> shop_db \<Rightarrow> py_error + nat \<times> int \<times> int \<times> yuan" where
  "virtual_carts mm [] s = Inr (0, 0, 0, 0)"
| "virtual_carts mm (c # cs) s =
     (case cart_product c s of
        None \<Rightarrow> Inl AttributeError
      | Some p \<Rightarrow>
          map_sum id (\<lambda>(n, num, score, price).
            if (case get_product_model p of None \<Rightarrow> False | Some mp \<Rightarrow> is_boutique_coupon mp)
            then (n + 1, sc_num c + num, sc_num c * prod_elite_score p + score, level_price mm p (sc_num c) s + price)
            else (n, num, score, price)) (virtual_carts mm cs s))"

definition check_mixed_virtual_goods ::
  "shopping_cart list \<Rightarrow> customer \<Rightarrow> string \<Rightarrow> cents \<Rightarrow> (mall_db, nat option) prog" where
  "check_mixed_virtual_goods cs cust pay_extras payment =
     bindE (asks (\<lambda>m. getXiaolumm cust (ml_coupons m))) (\<lambda>mm.
     bindE (liftE (\<lambda>m. virtual_carts mm cs (ml_shop m))) (\<lambda>(n, num, score, price).
     bindE (liftE (\<lambda>_. calc_extra_budget pay_extras)) (\<lambda>(budget, coin).
     ret (if n = 0 then (if coin > 0 then Some 29 else None)
          else if n \<noteq> length cs then Some 24
          else if mm \<noteq> None \<and> payment \<noteq> py_round (price * 100) then Some 30
          else direct_rule mm payment budget coin num score))))"

definition check_use_coupon_only_buynow :: "product \<Rightarrow> pk_id option \<Rightarrow> nat option" where
  "check_use_coupon_only_buynow p template_id =
     (case get_product_model p of
        None \<Rightarrow> None
      | Some mp \<Rightarrow>
          if mp_coupon_only mp \<and> (case template_id of None \<Rightarrow> False | Some i \<Rightarrow> i \<noteq> 0 \<and> i \<notin> set (mp_coupon_templates mp))
          then Some 22 else None)"

section \<open>Where the parcel goes\<close>

definition get_personal_info_level :: "user_address \<Rightarrow> nat" where
  "get_personal_info_level a =
     (if ua_idcard_no a \<noteq> '''' \<and> ua_idcard_photos a then 3
      else if rc_name (ua_receiver a) \<noteq> '''' \<and> ua_idcard_no a \<noteq> '''' then 2 else 1)"

definition check_idcard_valid :: "pay_env \<Rightarrow> user_address \<Rightarrow> (shop_db, bool) prog" where
  "check_idcard_valid env a =
     (if ua_idcard_valid a then ret True
      else if ua_idcard_errors a > 6 then ret False
      else case env_check_name env (ua_idcard_no a) (rc_name (ua_receiver a)) of
          Inl e \<Rightarrow> ret False
        | Inr valid \<Rightarrow>
            thenE (modify (\<lambda>s. s\<lparr>d_addresses := tbl_save ua_id (a\<lparr>ua_idcard_valid := valid,
              ua_idcard_errors := ua_idcard_errors a + (if valid then 0 else 1)\<rparr>) (d_addresses s)\<rparr>))
            (ret valid))"

text \<open>The level the goods ask for: of the models with a bonded source 2, of those from abroad 3, where
  the loop over the carts ends.\<close>

fun need_level :: "nat \<Rightarrow> model_product option list \<Rightarrow> nat" where
  "need_level l [] = l"
| "need_level l (None # mps) = need_level l mps"
| "need_level l (Some mp # mps) =
     (if mp_source_type mp = 2 then need_level 2 mps
      else if mp_source_type mp = 3 then 3 else need_level l mps)"

definition find_address ::
  "pay_env \<Rightarrow> pk_id option \<Rightarrow> customer \<Rightarrow> model_product option list \<Rightarrow> (shop_db, nat + user_address) prog" where
  "find_address env addr_id cust mps =
     bindE (asks (\<lambda>s. q_first (filter (\<lambda>a. Some (ua_id a) = addr_id \<and> ua_cus_uid a = cu_id cust) (d_addresses s)))) (\<lambda>a.
     case a of
       None \<Rightarrow> ret (Inl 7)
     | Some a \<Rightarrow>
         if need_level 1 mps > 1 \<and> get_personal_info_level a < need_level 1 mps then ret (Inl 10)
         else if need_level 1 mps > 1 then
           bindE (check_idcard_valid env a) (\<lambda>valid. ret (if valid then Inr a else Inl 11))
         else ret (Inr a))"

section \<open>Making a trade\<close>

text \<open>The fields of the form that are read. \<open>CH_NONE\<close> stands for every text that is no channel;
  \<open>rq_mm_linkid\<close> is what \<open>get_mama_referal_params\<close> finds in the form or the cookie.\<close>

record trade_form =
  rq_user :: pk_id
  rq_uuid :: string
  rq_cart_ids :: string
  rq_item_id :: "pk_id option"
  rq_sku_id :: pk_id
  rq_num :: int
  rq_order_type :: "order_type option"
  rq_teambuy_id :: "pk_id option"
  rq_channel :: channel
  rq_total_fee :: yuan
  rq_payment :: yuan
  rq_post_fee :: yuan
  rq_discount_fee :: yuan
  rq_pay_extras :: string
  rq_coupon_id :: "pk_id option"
  rq_addr_id :: "pk_id option"
  rq_logistics_company_id :: string
  rq_buyer_message :: string
  rq_openid :: string
  rq_mm_linkid :: "pk_id option"

text \<open>\<open>UUID_RE\<close>: two small letters, six digits, and ten to fourteen letters, digits or dashes;
  \<open>$\<close> matches before a newline at the end, too.\<close>

definition char_within :: "char \<Rightarrow> char \<Rightarrow> char \<Rightarrow> bool" where
  "char_within a b c \<longleftrightarrow> (of_char a :: nat) \<le> of_char c \<and> (of_char c :: nat) \<le> of_char b"

definition uuid_matches :: "string \<Rightarrow> bool" where
  "uuid_matches s = (let s = (if s \<noteq> [] \<and> last s = CHR 0x0A then butlast s else s) in 18 \<le> length s \<and> length s \<le> 22
     \<and> list_all (char_within CHR ''a'' CHR ''z'') (take 2 s)
     \<and> list_all (char_within CHR ''0'' CHR ''9'') (take 6 (drop 2 s))
     \<and> list_all (\<lambda>c. char_within CHR ''a'' CHR ''z'' c \<or> char_within CHR ''0'' CHR ''9'' c \<or> c = CHR ''-'') (drop 8 s))"

definition cart_id_texts :: "string \<Rightarrow> pk_id list" where
  "cart_id_texts s = List.map_filter nat_of_str (split_on CHR '','' s)"

definition carts_of :: "trade_form \<Rightarrow> customer \<Rightarrow> shop_db \<Rightarrow> shopping_cart list" where
  "carts_of rq cust s =
     filter (\<lambda>c. sc_id c \<in> set (cart_id_texts (rq_cart_ids rq)) \<and> sc_buyer_id c = cu_id cust) (d_carts s)"

text \<open>The kind of the trade: a single cart of a team buy makes a team buy, and a virtual product among the
  carts, or the product bought at once, electronic goods. Boutique goods mark the trade.\<close>

fun models_kind :: "model_product option list \<Rightarrow> order_type \<Rightarrow> bool \<Rightarrow> order_type \<times> bool" where
  "models_kind [] ot b = (ot, b)"
| "models_kind (None # mps) ot b = models_kind mps ot b"
| "models_kind (Some mp # mps) ot b =
     models_kind mps (if is_boutique_coupon mp then ELECTRONIC_GOODS_ORDER else ot) (b \<or> mp_is_boutique mp)"

fun all_models :: "shopping_cart list \<Rightarrow> shop_db \<Rightarrow> py_error + model_product option list" where
  "all_models [] s = Inr []"
| "all_models (c # cs) s =
     (case cart_modelproduct c s of Inl e \<Rightarrow> Inl e | Inr mp \<Rightarrow> map_sum id ((#) mp) (all_models cs s))"

definition trade_kind :: "trade_form \<Rightarrow> customer \<Rightarrow> order_type \<Rightarrow> shop_db \<Rightarrow> py_error + order_type \<times> bool" where
  "trade_kind rq cust ot s =
     (let cs = (if rq_cart_ids rq = '''' then [] else carts_of rq cust s);
          ot = (if map sc_type cs = [TEAMBUY] then TEAMBUY_ORDER else ot) in
      case all_models cs s of
        Inl e \<Rightarrow> Inl e
      | Inr mps \<Rightarrow>
          (case rq_item_id rq of
             None \<Rightarrow> Inr (models_kind mps ot False)
           | Some i \<Rightarrow> map_sum id (\<lambda>p. models_kind (mps @ [get_product_model p]) ot False)
               (q_get (\<lambda>p. prod_id p = i) (d_products s))))"

text \<open>The coupons of the extras, or else the one of the form. The texts were read as numbers when the
  discount was computed; a negative one is the key of no coupon, as 0 is.\<close>

definition coupon_keys :: "trade_form \<Rightarrow> py_error + pk_id list" where
  "coupon_keys rq =
     (let ids = map int_text (parse_coupon_ids_from_pay_extras (rq_pay_extras rq)) in
      if ids = [] then Inr (case rq_coupon_id rq of None \<Rightarrow> [] | Some i \<Rightarrow> [i])
      else if None \<in> set ids then Inl (Exn ''ValueError'')
      else Inr (map (nat \<circ> the) ids))"

definition chosen_company :: "trade_form \<Rightarrow> user_address option \<Rightarrow> shop_db \<Rightarrow> py_error + int option" where
  "chosen_company rq addr s =
     (let i = strip (rq_logistics_company_id rq) in
      if addr = None \<or> i = '''' \<or> i = ''0'' then Inr None
      else if nat_of_str (remove_all ''-'' i) \<noteq> None then
        (case int_text i of
           None \<Rightarrow> Inl (Exn ''ValueError'')
         | Some n \<Rightarrow> map_sum id (Some \<circ> lc_id) (q_get (\<lambda>c. lc_id c = n) (d_companies s)))
      else map_sum id (Some \<circ> lc_id) (q_get (\<lambda>c. lc_code c = i) (d_companies s)))"

definition yuan2 :: "yuan \<Rightarrow> yuan" where
  "yuan2 x = of_int (py_round (x * 100)) / 100"

definition receiver_of :: "user_address option \<Rightarrow> receiver" where
  "receiver_of a = (case a of Some a \<Rightarrow> ua_receiver a
     | None \<Rightarrow> \<lparr>rc_name = '''', rc_state = '''', rc_city = '''', rc_district = '''', rc_address = '''',
         rc_zip = '''', rc_mobile = '''', rc_phone = ''''\<rparr>)"

definition new_trade ::
  "trade_form \<Rightarrow> customer \<Rightarrow> user_address option \<Rightarrow> order_type \<Rightarrow> bool \<Rightarrow> cents \<Rightarrow> cents \<Rightarrow> pk_id list \<Rightarrow>
   int option \<Rightarrow> pk_id option \<Rightarrow> time \<Rightarrow> sale_trade" where
  "new_trade rq cust addr ot boutique budget coin coupons company team t =
     (let payment = yuan2 (rq_payment rq); r = receiver_of addr in
      \<lparr>st_id = 0, st_tid = rq_uuid rq, st_buyer_id = cu_id cust, st_buyer_nick = cu_nick cust,
       st_channel = rq_channel rq, st_total_fee = yuan2 (rq_total_fee rq), st_payment = payment,
       st_pay_cash = max 0 (of_int (py_round (payment * 100 - of_int budget - of_int coin)) / 100),
       st_post_fee = yuan2 (rq_post_fee rq), st_discount_fee = yuan2 (rq_discount_fee rq),
       st_budget_paid = of_int budget / 100, st_coin_paid = of_int coin / 100,
       st_has_budget_paid = (budget > 0), st_has_coin_paid = (coin > 0), st_is_boutique = boutique,
       st_buyer_message = rq_buyer_message rq, st_seller_memo = '''', st_created = t, st_pay_time = None,
       st_consign_time = None, st_trade_type = PREPAY, st_order_type = ot, st_out_sid = '''',
       st_logistics_company = company, st_receiver_name = rc_name r, st_receiver_state = rc_state r,
       st_receiver_city = rc_city r, st_receiver_district = rc_district r, st_receiver_address = rc_address r,
       st_receiver_zip = rc_zip r, st_receiver_mobile = rc_mobile r, st_receiver_phone = rc_phone r,
       st_user_address_id = map_option ua_id addr, st_openid = str_or (rq_openid rq) (cu_openid cust),
       st_charge = '''', st_coupon_ids = coupons, st_pay_extras = rq_pay_extras rq, st_teambuy_id = team,
       st_mm_linkid = rq_mm_linkid rq, st_status = WAIT_BUYER_PAY, st_pay_status = SALE_TRADE_PAYING\<rparr>)"

text \<open>\<open>create_Saletrade\<close>: the trade and whether it is new. A number that is there already gives its
  trade back, to its buyer. The row is locked by the customer from the look-up to the insertion, so the
  unique number is not taken in between; saving a trade that is not paid starts no team.\<close>

definition make_trade ::
  "trade_form \<Rightarrow> user_address option \<Rightarrow> customer \<Rightarrow> order_type \<Rightarrow> (mall_db, sale_trade) prog" where
  "make_trade rq addr cust ot =
     bindE (liftE (\<lambda>m. trade_kind rq cust ot (ml_shop m))) (\<lambda>(ot, boutique).
     bindE (asks (\<lambda>m. q_first (filter (\<lambda>t. Some (tb_id t) = rq_teambuy_id rq) (ml_teambuys m)))) (\<lambda>team.
     bindE (liftE (\<lambda>_. coupon_keys rq)) (\<lambda>coupons.
     bindE (liftE (\<lambda>_. calc_extra_budget (rq_pay_extras rq))) (\<lambda>(budget, coin).
     if coin > 0 \<and> \<not> (boutique \<and> ot = ELECTRONIC_GOODS_ORDER)
     then raise (Exn ''coins buy boutique coupons only'')
     else
       bindE (liftE (\<lambda>m. chosen_company rq addr (ml_shop m))) (\<lambda>company.
       (\<lambda>m. let s = ml_shop m;
                t = (new_trade rq cust addr ot boutique budget coin coupons company
                      (if ot = TEAMBUY_ORDER then map_option tb_id team else None) (d_now s))
                    \<lparr>st_id := fresh_pk st_id (d_trades s)\<rparr>
            in (Inr t, m\<lparr>ml_shop := s\<lparr>d_trades := d_trades s @ [t]\<rparr>\<rparr>)))))))"

definition create_Saletrade ::
  "trade_form \<Rightarrow> user_address option \<Rightarrow> customer \<Rightarrow> order_type \<Rightarrow> (mall_db, sale_trade \<times> bool) prog" where
  "create_Saletrade rq addr cust ot =
     (if \<not> uuid_matches (rq_uuid rq) then raise (AssertionError ''uuid'')
      else
        bindE (liftE (\<lambda>m. get_customer (cu_id cust) (ml_wallet m))) (\<lambda>cust.
        bindE (asks (\<lambda>m. q_first (filter (\<lambda>t. st_tid t = rq_uuid rq) (d_trades (ml_shop m))))) (\<lambda>found.
        case found of
          Some t \<Rightarrow> if st_buyer_id t \<noteq> cu_id cust then raise (Exn ''the number is used'') else ret (t, False)
        | None \<Rightarrow> bindE (make_trade rq addr cust ot) (\<lambda>t. ret (t, True)))))"

text \<open>\<open>create_Saleorder_By_Shopcart\<close>: an order per cart, which gets its share of the payment without
  postage and of the discount, rounded. Then the carts are closed.\<close>

definition share_of :: "yuan \<Rightarrow> sale_trade \<Rightarrow> yuan \<Rightarrow> yuan" where
  "share_of x t cart_total =
     (if st_total_fee t > 0 \<and> cart_total > 0 then py_fmt2 (x / st_total_fee t * cart_total) else 0)"

definition new_order :: "sale_trade \<Rightarrow> product \<Rightarrow> product_sku \<Rightarrow> int \<Rightarrow> string \<Rightarrow> time \<Rightarrow> sale_order" where
  "new_order t p k num oid time =
     \<lparr>so_id = 0, so_oid = oid, so_sale_trade = st_id t, so_buyer_id = 0, so_item_id = prod_id p,
      so_title = prod_name p, so_price = 0, so_sku_id = ps_id k, so_num = num, so_outer_id = prod_outer_id p,
      so_outer_sku_id = ps_outer_id k, so_total_fee = 0, so_payment = 0, so_discount_fee = 0,
      so_sku_name = ps_properties_alias k, so_pic_path = prod_pic_path p, so_created = time,
      so_pay_time = None, so_consign_time = None, so_sign_time = None, so_refund_id = None, so_refund_fee = 0,
      so_refund_status = NO_REFUND, so_status = WAIT_BUYER_PAY, so_exchange = False, so_can_return_num = None\<rparr>"

definition order_of_cart :: "sale_trade \<Rightarrow> shopping_cart \<Rightarrow> product \<Rightarrow> product_sku \<Rightarrow> string \<Rightarrow> time \<Rightarrow> sale_order" where
  "order_of_cart t c p k oid time =
     (let total = sc_price c * of_int (sc_num c) in
      (new_order t p k (sc_num c) oid time)\<lparr>so_price := sc_price c, so_total_fee := total,
        so_payment := share_of (st_payment t - st_post_fee t) t total,
        so_discount_fee := share_of (st_discount_fee t) t total\<rparr>)"

definition order_from_cart :: "pay_env \<Rightarrow> sale_trade \<Rightarrow> shopping_cart \<Rightarrow> (shop_db, unit) prog" where
  "order_from_cart env t c =
     bindE (liftE (\<lambda>s. q_get (\<lambda>p. prod_id p = sc_item_id c) (d_products s))) (\<lambda>p.
     bindE (liftE (get_sku (sc_sku_id c))) (\<lambda>k.
     bindE (asks (\<lambda>s. order_of_cart t c p k (env_new_oid env (length (d_orders s))) (d_now s))) (\<lambda>so.
     bindE (save_order so) (\<lambda>_. ret ()))))"

definition create_Saleorder_By_Shopcart :: "pay_env \<Rightarrow> sale_trade \<Rightarrow> shopping_cart list \<Rightarrow> (shop_db, unit) prog" where
  "create_Saleorder_By_Shopcart env t cs =
     thenE (forE (order_from_cart env t) cs)
     (forE (\<lambda>c. bindE (shut_cart c False) (\<lambda>_. ret ())) cs)"

definition create_SaleOrder_By_Productsku ::
  "pay_env \<Rightarrow> sale_trade \<Rightarrow> product \<Rightarrow> product_sku \<Rightarrow> int \<Rightarrow> (shop_db, unit) prog" where
  "create_SaleOrder_By_Productsku env t p k num =
     bindE (asks (\<lambda>s. (new_order t p k num (env_new_oid env (length (d_orders s))) (d_now s))
       \<lparr>so_price := ps_agent_price k, so_total_fee := st_total_fee t,
        so_payment := st_payment t - st_post_fee t, so_discount_fee := st_discount_fee t\<rparr>)) (\<lambda>so.
     bindE (save_order so) (\<lambda>_. ret ()))"

section \<open>The pages that make a trade\<close>

definition cents_of :: "yuan \<Rightarrow> cents" where
  "cents_of x = py_round (x * 100)"

definition cart_cents :: "shopping_cart \<Rightarrow> cents" where
  "cart_cents c = py_round (sc_price c * of_int (sc_num c) * 100)"

text \<open>The first loop over the carts: nothing when the goods of one cannot be had, and otherwise their price
  and how many are virtual.\<close>

fun price_carts :: "shopping_cart list \<Rightarrow> (shop_db, (cents \<times> nat) option) prog" where
  "price_carts [] = ret (Some (0, 0))"
| "price_carts (c # cs) =
     bindE (is_good_enough c) (\<lambda>good.
     if \<not> good then ret None
     else
       bindE (liftE (cart_modelproduct c)) (\<lambda>mp.
       bindE (price_carts cs) (\<lambda>r. ret (case r of
           None \<Rightarrow> None
         | Some (price, virtual) \<Rightarrow> Some (cart_cents c + price,
             if (case mp of None \<Rightarrow> False | Some mp \<Rightarrow> is_boutique_coupon mp) then virtual + 1 else virtual)))))"

text \<open>The sums of the client against the prices: code 4 when it claims a larger discount than there is, 11
  when the payment or the price is more than ten cents off.\<close>

definition check_sums :: "trade_form \<Rightarrow> cents \<Rightarrow> rat \<Rightarrow> nat option" where
  "check_sums rq price discount =
     (let discount = min discount (of_int price); pay = of_int price + of_int (cents_of (rq_post_fee rq)) - discount in
      if of_int (cents_of (rq_discount_fee rq)) > discount then Some 4
      else if cents_of (rq_post_fee rq) < 0 \<or> cents_of (rq_payment rq) < 0
        \<or> \<bar>of_int (cents_of (rq_payment rq)) - pay\<bar> > 10 \<or> \<bar>cents_of (rq_total_fee rq) - price\<bar> > 10 then Some 11
      else None)"

definition to_address ::
  "pay_env \<Rightarrow> trade_form \<Rightarrow> order_type \<Rightarrow> customer \<Rightarrow> model_product option list \<Rightarrow> (mall_db, nat + user_address option) prog" where
  "to_address env rq ot cust mps =
     (if ot = ELECTRONIC_GOODS_ORDER then ret (Inr None)
      else bindE (do_shop (find_address env (rq_addr_id rq) cust mps)) (\<lambda>r. ret (map_sum id Some r)))"

text \<open>After the trade is made it is paid; the old wallet of sellers is refused.\<close>

definition pay_new_trade :: "pay_env \<Rightarrow> trade_form \<Rightarrow> sale_trade \<Rightarrow> (pay_db, nat) prog" where
  "pay_new_trade env rq t =
     (if rq_channel rq = CH_WALLET then ret 10
      else charged t (if rq_channel rq = CH_BUDGET then in_mall (budget_charge t True)
                      else bindE (pingpp_charge env t True) (\<lambda>_. ret ())))"

text \<open>The block that makes a trade of carts, and the counts that follow its commit. When it fails and the
  trade was made in it, the trade is gone and writing its state of payment raises; an error in the counts
  finds it there.\<close>

definition carts_block ::
  "pay_env \<Rightarrow> trade_form \<Rightarrow> user_address option \<Rightarrow> customer \<Rightarrow> order_type \<Rightarrow> shopping_cart list \<Rightarrow>
   (pay_db, sale_trade option) prog" where
  "carts_block env rq addr cust ot cs = (\<lambda>s.
     case in_mall (create_Saletrade rq addr cust ot) s of
       (Inl e, _) \<Rightarrow> (Inr None, s)
     | (Inr (t, state), u) \<Rightarrow>
         if \<not> state then (Inr (Some t), u)
         else
           (case in_mall (do_shop (create_Saleorder_By_Shopcart env t cs)) u of
              (Inl e, _) \<Rightarrow> (case pay_finished t s of (Inl e, v) \<Rightarrow> (Inl e, v) | (Inr _, v) \<Rightarrow> (Inr None, v))
            | (Inr _, v) \<Rightarrow>
                (case in_mall (do_shop (forE (\<lambda>c. task_shoppingcart_update_productskustats_shoppingcart_num (sc_sku_id c))
                    (filter sc_normal cs))) v of
                   (Inl e, w) \<Rightarrow> (case pay_finished t w of (Inl e, x) \<Rightarrow> (Inl e, x) | (Inr _, x) \<Rightarrow> (Inr None, x))
                 | (Inr _, w) \<Rightarrow> (Inr (Some t), w))))"

text \<open>\<open>shoppingcart_create\<close>. Carts that are closed already are accepted, and so are no carts at all.\<close>

definition check_carts ::
  "pay_env \<Rightarrow> trade_form \<Rightarrow> customer \<Rightarrow> shopping_cart list \<Rightarrow> (mall_db, nat + order_type) prog" where
  "check_carts env rq cust cs =
     bindE (do_shop (price_carts cs)) (\<lambda>r.
     case r of
       None \<Rightarrow> ret (Inl 2)
     | Some (price, virtual) \<Rightarrow>
         bindE (tryE (bindE (calc_extra_discount env (rq_pay_extras rq) \<lparr>df_item_ids = map sc_item_id cs,
                   df_buyer_id = cu_id cust, df_payment = of_int price, df_order_no = rq_uuid rq\<rparr>) (\<lambda>d. ret (Some d)))
                 (\<lambda>_. ret None)) (\<lambda>d.
         case d of
           None \<Rightarrow> ret (Inl 3)
         | Some d \<Rightarrow>
             (case check_sums rq price (of_int d) of
                Some code \<Rightarrow> ret (Inl code)
              | None \<Rightarrow>
                  bindE (check_mixed_virtual_goods cs cust (rq_pay_extras rq) (cents_of (rq_payment rq))) (\<lambda>e.
                  ret (case e of
                         Some code \<Rightarrow> Inl code
                       | None \<Rightarrow> Inr (if virtual = length cs then ELECTRONIC_GOODS_ORDER
                            else case rq_order_type rq of None \<Rightarrow> SALE_ORDER | Some ot \<Rightarrow> ot))))))"

definition shoppingcart_create :: "pay_env \<Rightarrow> trade_form \<Rightarrow> (pay_db, nat) prog" where
  "shoppingcart_create env rq =
     bindE (asks (\<lambda>s. q_first (filter (\<lambda>c. cu_user c = rq_user rq) (w_customers (ml_wallet (pay_mall s)))))) (\<lambda>cust.
     case cust of
       None \<Rightarrow> raise AttributeError
     | Some cust \<Rightarrow>
         bindE (asks (\<lambda>s. carts_of rq cust (ml_shop (pay_mall s)))) (\<lambda>cs.
         if length cs \<noteq> length (cart_id_texts (rq_cart_ids rq)) then ret 1
         else
           bindE (in_mall (check_carts env rq cust cs)) (\<lambda>r.
           case r of
             Inl code \<Rightarrow> ret code
           | Inr ot \<Rightarrow>
               bindE (liftE (\<lambda>s. all_models cs (ml_shop (pay_mall s)))) (\<lambda>mps.
               bindE (in_mall (to_address env rq ot cust mps)) (\<lambda>a.
               case a of
                 Inl code \<Rightarrow> ret code
               | Inr addr \<Rightarrow>
                   if rq_channel rq = CH_NONE then ret 5
                   else
                     bindE (carts_block env rq addr cust ot cs) (\<lambda>t.
                     case t of None \<Rightarrow> ret 8 | Some t \<Rightarrow> pay_new_trade env rq t))))))"

text \<open>\<open>buynow_create\<close>: the number is any integer. The discount of the product is added in yuan to sums in
  cents. When the block fails its handler reads a variable that is not set yet, or writes to the trade the
  rollback took away: both raise, after the lock was lowered.\<close>

definition buynow_block ::
  "pay_env \<Rightarrow> trade_form \<Rightarrow> user_address option \<Rightarrow> customer \<Rightarrow> order_type \<Rightarrow> product \<Rightarrow> product_sku \<Rightarrow>
   (pay_db, sale_trade) prog" where
  "buynow_block env rq addr cust ot p k = (\<lambda>s.
     case in_mall (create_Saletrade rq addr cust ot) s of
       (Inl e, _) \<Rightarrow>
         (case in_mall (do_shop (releaseLockQuantity k (rq_num rq))) s of (_, v) \<Rightarrow> (Inl (Exn ''UnboundLocalError''), v))
     | (Inr (t, state), u) \<Rightarrow>
         if \<not> state then (Inr t, u)
         else
           (case in_mall (do_shop (create_SaleOrder_By_Productsku env t p k (rq_num rq))) u of
              (Inl e, _) \<Rightarrow>
                (case in_mall (do_shop (releaseLockQuantity k (rq_num rq))) s of (_, v) \<Rightarrow> (Inl (Exn ''DatabaseError''), v))
            | (Inr _, v) \<Rightarrow> (Inr t, v)))"

definition check_buynow ::
  "pay_env \<Rightarrow> trade_form \<Rightarrow> customer \<Rightarrow> product \<Rightarrow> product_sku \<Rightarrow> (mall_db, nat + product_sku) prog" where
  "check_buynow env rq cust p k =
     bindE (asks (\<lambda>m. if strip (cu_unionid cust) = [] then None
       else q_first (filter (\<lambda>x. ma_openid x = cu_unionid cust) (cp_mamas (ml_coupons m))))) (\<lambda>xlmm.
     bindE (asks (\<lambda>m. isQuantityLockable k (rq_num rq + get_user_skunum_by_last24hours cust k (ml_shop m)) (ml_shop m))) (\<lambda>lockable.
     if \<not> lockable then ret (Inl 2)
     else
       bindE (do_shop (load_lock k)) (\<lambda>k.
       if free_of k < rq_num rq \<or> \<not> prod_on_shelf p then ret (Inl 2)
       else
         bindE (asks (\<lambda>m. calc_discount_fee k xlmm (ml_shop m) * of_int (rq_num rq))) (\<lambda>own.
         (let price = py_round (ps_agent_price k * of_int (rq_num rq) * 100) in
          bindE (tryE (bindE (calc_extra_discount env (rq_pay_extras rq) \<lparr>df_item_ids = [prod_id p],
                    df_buyer_id = cu_id cust, df_payment = of_int price - own, df_order_no = rq_uuid rq\<rparr>)
                    (\<lambda>d. ret (Some d)))
                  (\<lambda>_. ret None)) (\<lambda>d.
          case d of
            None \<Rightarrow> ret (Inl 3)
          | Some d \<Rightarrow>
              (case check_sums rq price (own + of_int d) of
                 Some code \<Rightarrow> ret (Inl code)
               | None \<Rightarrow>
                   bindE (check_virtual_goods p (rq_num rq) cust (rq_pay_extras rq) (cents_of (rq_payment rq))) (\<lambda>e.
                   case e of
                     Some code \<Rightarrow> ret (Inl code)
                   | None \<Rightarrow>
                       bindE (liftE (\<lambda>m. coupon_templates_of (parse_coupon_ids_from_pay_extras (rq_pay_extras rq)) (ml_coupons m))) (\<lambda>tpls.
                       ret (case check_use_coupon_only_buynow p (q_first tpls) of Some code \<Rightarrow> Inl code | None \<Rightarrow> Inr k))))))))))"

definition or_404 :: "py_error + 'a \<Rightarrow> py_error + 'a" where
  "or_404 r = (case r of Inl DoesNotExist \<Rightarrow> Inl (Exn ''Http404'') | _ \<Rightarrow> r)"

definition buynow_form ::
  "trade_form \<Rightarrow> pay_db \<Rightarrow> py_error + customer \<times> product \<times> product_sku" where
  "buynow_form rq s =
     (let m = pay_mall s; sh = ml_shop m in
      case or_404 (q_get (\<lambda>c. cu_user c = rq_user rq) (w_customers (ml_wallet m))) of
        Inl e \<Rightarrow> Inl e
      | Inr cust \<Rightarrow>
          (case or_404 (q_get (\<lambda>p. Some (prod_id p) = rq_item_id rq) (d_products sh)) of
             Inl e \<Rightarrow> Inl e
           | Inr p \<Rightarrow>
               (case or_404 (get_sku (rq_sku_id rq) sh) of
                  Inl e \<Rightarrow> Inl e
                | Inr k \<Rightarrow>
                    if rq_order_type rq = Some TEAMBUY_ORDER \<and> rq_teambuy_id rq \<noteq> None
                      \<and> \<not> q_exists (\<lambda>t. Some (tb_id t) = rq_teambuy_id rq) (ml_teambuys m)
                    then Inl (Exn ''Http404'') else Inr (cust, p, k))))"

definition buynow_create :: "pay_env \<Rightarrow> trade_form \<Rightarrow> (pay_db, nat) prog" where
  "buynow_create env rq =
     bindE (liftE (buynow_form rq)) (\<lambda>(cust, p, k).
     (let ot = (case rq_order_type rq of None \<Rightarrow> SALE_ORDER | Some ot \<Rightarrow> ot) in
      bindE (in_mall (check_buynow env rq cust p k)) (\<lambda>r.
      case r of
        Inl code \<Rightarrow> ret code
      | Inr k \<Rightarrow>
          bindE (in_mall (to_address env rq ot cust [get_product_model p])) (\<lambda>a.
          case a of
            Inl code \<Rightarrow> ret code
          | Inr addr \<Rightarrow>
              if rq_channel rq = CH_NONE then ret 5
              else
                bindE (liftE (\<lambda>s. get_sku (rq_sku_id rq) (ml_shop (pay_mall s)))) (\<lambda>sku.
                bindE (in_mall (do_shop (sku_free_num sku))) (\<lambda>free.
                if rq_num rq > free then ret 2
                else
                  bindE (buynow_block env rq addr cust ot p k) (\<lambda>t.
                  pay_new_trade env rq t)))))))"

section \<open>What ends by itself\<close>

text \<open>A trade that is not paid in time is closed, unless its charge turns out to be paid; errors are logged.\<close>

definition close_or_notify :: "pay_env \<Rightarrow> sale_trade \<Rightarrow> (pay_db, unit) prog" where
  "close_or_notify env t =
     tryE (bindE (retrieve_or_update_order env (st_tid t)) (\<lambda>c.
           case c of
             Some c \<Rightarrow> if ch_paid c then pay_later (Notify_trade_pay c) else in_mall (close_trade t)
           | None \<Rightarrow> in_mall (close_trade t)))
       (\<lambda>_. ret ())"

text \<open>\<open>task_schedule_cart\<close>, that is \<open>close_timeout_carts_and_orders_reset_cart_num\<close> without SKUs: the test
  for trades reads the list of SKUs that was filled from the carts.\<close>

definition timed_out_skus :: "shop_db \<Rightarrow> pk_id list" where
  "timed_out_skus s = remdups (map sc_sku_id (filter (timed_out (d_now s)) (d_carts s)))"

definition counted_skus :: "pk_id list \<Rightarrow> shop_db \<Rightarrow> pk_id list" where
  "counted_skus skus s = map ss_sku_id (filter (\<lambda>x. attr x Shoppingcart_num > 0 \<and> ss_sku_id x \<notin> set skus) (d_stocks s))"

definition task_schedule_cart :: "pay_env \<Rightarrow> (pay_db, unit) prog" where
  "task_schedule_cart env =
     bindE (asks (\<lambda>s. timed_out_skus (ml_shop (pay_mall s)))) (\<lambda>skus.
     bindE (asks (\<lambda>s. counted_skus skus (ml_shop (pay_mall s)))) (\<lambda>more.
     thenE (in_mall (do_shop (modify (\<lambda>s. s\<lparr>d_carts := q_update (timed_out (d_now s))
        (\<lambda>c. c\<lparr>sc_normal := False\<rparr>) (d_carts s)\<rparr>))))
     (thenE (in_mall (do_shop (forE task_shoppingcart_update_productskustats_shoppingcart_num (skus @ more))))
     (if skus \<noteq> [] then ret ()
      else
        bindE (asks pay_now) (\<lambda>time.
        bindE (asks (\<lambda>s. filter (\<lambda>t. st_status t = WAIT_BUYER_PAY) (d_trades (ml_shop (pay_mall s))))) (\<lambda>ts.
        forE (\<lambda>t. if is_payable t time then ret () else close_or_notify env t) ts))))))"

text \<open>\<open>off_the_shelf_func\<close>: when a product goes off the shelf its ordinary carts and its unpaid trades are
  closed, once for every order of the product.\<close>

definition off_the_shelf_func :: "pay_env \<Rightarrow> pk_id list \<Rightarrow> (pay_db, unit) prog" where
  "off_the_shelf_func env product_ids =
     forE (\<lambda>i.
       bindE (asks (\<lambda>s. filter (\<lambda>c. sc_item_id c = i \<and> sc_normal c \<and> sc_type c = FLASHSALE)
         (d_carts (ml_shop (pay_mall s))))) (\<lambda>cs.
       thenE (forE (\<lambda>c. in_mall (do_shop (close_cart c True))) cs)
       (bindE (asks (\<lambda>s. concat (map (\<lambda>so. filter (\<lambda>t. st_id t = so_sale_trade so \<and> st_status t = WAIT_BUYER_PAY)
           (d_trades (ml_shop (pay_mall s))))
         (filter (\<lambda>so. so_item_id so = i) (d_orders (ml_shop (pay_mall s))))))) (\<lambda>ts.
        forE (close_or_notify env) ts)))) product_ids"

end
