(* ===== verification/Shopping.thy ===== *)
theory Shopping
  imports Settlement Checkout
begin

text \<open>
  What the pages that make and pay a trade (\<open>Payments\<close>, \<open>Checkout\<close>) do: the text of payment extras
  is read back as it was written, a trade is made once for its number, its shares cover its payment, the
  orders of the carts share it, a charge keeps its amount, the counter of carts is right after each page,
  and where the ways to pay take less than the trade costs.
\<close>

section \<open>Payment extras\<close>

text \<open>The text a client writes for a list of entries.\<close>

definition entry_text :: "entry \<Rightarrow> string" where
  "entry_text e = join_with '':'' (concat (map (\<lambda>(k, v). [k, v]) e))"

definition entries_text :: "char \<Rightarrow> entry list \<Rightarrow> string" where
  "entries_text sep es = join_with [sep] (map entry_text es)"

definition plain :: "string \<Rightarrow> bool" where
  "plain s \<longleftrightarrow> set s \<inter> {CHR '':'', CHR '','', CHR '';''} = {}"

lemma set_join_with: "set (join_with sep xs) \<subseteq> \<Union> (set ` set xs) \<union> set sep"
  by (induction sep xs rule: join_with.induct) auto

lemma split_on_join:
  assumes "xs \<noteq> []" and "\<And>x. x \<in> set xs \<Longrightarrow> c \<notin> set x"
  shows "split_on c (join_with [c] xs) = xs"
  using assms
proof (induction "[c]" xs rule: join_with.induct)
  case (3 x y xs)
  then show ?case using split_on_append [of c x] by simp
qed (simp_all add: split_on_no)

lemma key_values_pairs: "key_values (concat (map (\<lambda>(k, v). [k, v]) e)) = e"
  by (induction e) auto

lemma entry_text_parts:
  assumes "\<forall>(k, v) \<in> set e. plain k \<and> plain v" and "e \<noteq> []"
  shows "split_on CHR '':'' (entry_text e) = concat (map (\<lambda>(k, v). [k, v]) e)"
    and "c \<in> {CHR '','', CHR '';''} \<Longrightarrow> c \<notin> set (entry_text e)"
proof -
  have parts: "plain x" if "x \<in> set (concat (map (\<lambda>(k, v). [k, v]) e))" for x
    using assms(1) that by auto
  show "split_on CHR '':'' (entry_text e) = concat (map (\<lambda>(k, v). [k, v]) e)"
    unfolding entry_text_def using parts assms(2)
    by (intro split_on_join) (auto simp: plain_def neq_Nil_conv)
  show "c \<notin> set (entry_text e)" if c: "c \<in> {CHR '','', CHR '';''}"
  proof
    assume "c \<in> set (entry_text e)"
    then have "c \<in> \<Union> (set ` set (concat (map (\<lambda>(k, v). [k, v]) e))) \<union> set '':''"
      unfolding entry_text_def using set_join_with by blast
    moreover have "c \<notin> set '':''" using c by auto
    ultimately obtain x where "x \<in> set (concat (map (\<lambda>(k, v). [k, v]) e))" "c \<in> set x" by blast
    with parts c show False by (auto simp: plain_def)
  qed
qed

lemma strip_nonempty:
  assumes "c \<in> set s" and c: "c \<notin> {CHR '' '', CHR 0x09, CHR 0x0A, CHR 0x0B, CHR 0x0C, CHR 0x0D}"
  shows "strip s \<noteq> []"
proof -
  define blank where "blank = (\<lambda>c. c \<in> {CHR '' '', CHR 0x09, CHR 0x0A, CHR 0x0B, CHR 0x0C, CHR 0x0D})"
  have left: "c \<in> set (dropWhile blank xs)" if "c \<in> set xs" for xs
    using that c by (induction xs) (auto simp: blank_def)
  then have "c \<in> set (dropWhile blank (rev (dropWhile blank s)))" using assms(1) by simp
  then show ?thesis unfolding strip_def Let_def blank_def [symmetric]
    by (metis empty_iff empty_set rev_is_Nil_conv)
qed


lemma first_of_distinct:
  assumes "distinct (map (entry_get ''pid'') es)" and "\<forall>e \<in> set es. \<exists>p. entry_get ''pid'' e = Some p \<and> p \<noteq> [] \<and> p \<notin> set seen"
  shows "first_of_each_pid seen es = es"
  using assms
proof (induction es arbitrary: seen)
  case (Cons e es)
  then obtain p where p: "entry_get ''pid'' e = Some p" "p \<noteq> []" "p \<notin> set seen" by auto
  have "\<exists>q. entry_get ''pid'' x = Some q \<and> q \<noteq> [] \<and> q \<notin> set (p # seen)" if "x \<in> set es" for x
  proof -
    from that Cons.prems obtain q where "entry_get ''pid'' x = Some q" "q \<noteq> []" "q \<notin> set seen" by auto
    moreover have "Some p \<notin> entry_get ''pid'' ` set es" using Cons.prems(1) p(1) by simp
    then have "q \<noteq> p" using that calculation(1) by (metis image_eqI)
    ultimately show ?thesis by simp
  qed
  with Cons p show ?case by simp
qed simp

lemma split_entries_text:
  assumes "sep \<in> {CHR '','', CHR '';''}" and "es \<noteq> []"
    and parts: "\<And>e. e \<in> set es \<Longrightarrow> e \<noteq> [] \<and> (\<forall>(k, v) \<in> set e. plain k \<and> plain v)"
  shows "split_entries (entries_text sep es) = map entry_text es"
proof -
  have no: "c \<notin> set x" if "x \<in> set (map entry_text es)" "c \<in> {CHR '','', CHR '';''}" for x c
    using that parts entry_text_parts(2) by fastforce
  have colon: "CHR '':'' \<in> set (entry_text e)" if "e \<in> set es" for e
    using parts [OF that] by (cases "(sep, e)" rule: prod.exhaust)
      (auto simp: entry_text_def neq_Nil_conv split: prod.splits)
  have full: "filter (\<lambda>e. strip e \<noteq> []) (map entry_text es) = map entry_text es"
    using colon strip_nonempty [where c = "CHR '':''"] by (intro filter_True) fastforce
  have one: "concat (map (split_on CHR '';'') (map entry_text es)) = map entry_text es"
    using no by (induction es) (auto simp: split_on_no)
  show ?thesis
  proof (cases "sep = CHR '',''")
    case True
    with no assms(2) have "split_on CHR '','' (entries_text sep es) = map entry_text es"
      unfolding entries_text_def by (auto intro!: split_on_join)
    with one full show ?thesis by (simp only: split_entries_def)
  next
    case False
    with assms(1) have sep: "sep = CHR '';''" by simp
    with no assms(2) have "split_on CHR '';'' (entries_text sep es) = map entry_text es"
      unfolding entries_text_def by (auto intro!: split_on_join)
    moreover have "CHR '','' \<notin> set (entries_text sep es)"
    proof
      assume "CHR '','' \<in> set (entries_text sep es)"
      then have "CHR '','' \<in> \<Union> (set ` set (map entry_text es)) \<union> set [sep]"
        unfolding entries_text_def using set_join_with by blast
      moreover have "CHR '','' \<notin> set [sep]" using sep by simp
      ultimately obtain x where "x \<in> set (map entry_text es)" "CHR '','' \<in> set x" by blast
      with no show False by blast
    qed
    ultimately show ?thesis using full by (simp add: split_entries_def split_on_no)
  qed
qed

text \<open>
  C29. The extras a client writes are read back: entries of keys and values without separators, one for
  each payment id, joined by commas or by semicolons, are parsed to the same entries, and each is found
  under its id.
\<close>

theorem extras_are_read_back:
  assumes "sep \<in> {CHR '','', CHR '';''}" and "distinct (map (entry_get ''pid'') es)"
    and "\<forall>e \<in> set es. (\<forall>(k, v) \<in> set e. plain k \<and> plain v) \<and> (\<exists>p. entry_get ''pid'' e = Some p \<and> p \<noteq> [])"
  shows "parse_entry_params (entries_text sep es) = es \<and>
    (\<forall>e \<in> set es. \<exists>p. entry_get ''pid'' e = Some p \<and> parse_pay_extras_to_dict (entries_text sep es) p = Some e)"
proof -
  have parse: "parse_entry_params (entries_text sep es) = es"
  proof (cases "es = []")
    case True
    then show ?thesis by (simp add: parse_entry_params_def entries_text_def split_entries_def strip_def)
  next
    case False
    have "e \<noteq> []" if "e \<in> set es" for e using assms(3) that by (auto simp: entry_get_def)
    with assms False have "split_entries (entries_text sep es) = map entry_text es"
      by (intro split_entries_text) auto
    moreover have "(key_values \<circ> split_on CHR '':'') (entry_text e) = e" if "e \<in> set es" for e
    proof -
      have "e \<noteq> []" "\<forall>(k, v) \<in> set e. plain k \<and> plain v" using assms(3) that by (auto simp: entry_get_def)
      then show ?thesis by (simp add: entry_text_parts(1) key_values_pairs)
    qed
    ultimately show ?thesis
      using first_of_distinct [OF assms(2), of "[]"] assms(3) by (simp add: parse_entry_params_def map_idI)
  qed
  moreover have "q_first (filter (\<lambda>x. entry_get ''pid'' x = entry_get ''pid'' e) es) = Some e" if "e \<in> set es" for e
  proof -
    have "filter (\<lambda>x. entry_get ''pid'' x = entry_get ''pid'' e) es = [e]"
      using assms(2) that by (induction es) (auto simp: filter_empty_conv image_iff)
    then show ?thesis by simp
  qed
  ultimately show ?thesis using assms(3) unfolding parse_pay_extras_to_dict_def by fastforce
qed

theorem extras_are_read_back_witness:
  "parse_entry_params ''pid:2:couponid:305463/305464;pid:3:budget:46.00''
     = [[(''pid'', ''2''), (''couponid'', ''305463/305464'')], [(''pid'', ''3''), (''budget'', ''46.00'')]]"
  using extras_are_read_back [of "CHR '';''"
    "[[(''pid'', ''2''), (''couponid'', ''305463/305464'')], [(''pid'', ''3''), (''budget'', ''46.00'')]]"]
  by (simp add: entries_text_def entry_text_def entry_get_def plain_def)


section \<open>Examples\<close>

text \<open>The small shop of \<open>Settlement\<close> with a cart of two pieces, and a form that buys it, half from the
  wallet.\<close>

definition example_cart :: shopping_cart where
  "example_cart = \<lparr>sc_id = 5, sc_buyer_id = 1, sc_buyer_nick = '''', sc_item_id = 4, sc_title = '''', sc_price = 10,
     sc_std_sale_price = 20, sc_sku_id = 8, sc_num = 2, sc_total_fee = 20, sc_sku_name = '''', sc_pic_path = '''',
     sc_remain_time = None, sc_normal = True, sc_type = FLASHSALE\<rparr>"

definition example_form :: trade_form where
  "example_form = \<lparr>rq_user = 1, rq_uuid = ''xd170101abcdefghij'', rq_cart_ids = ''5'', rq_item_id = None,
     rq_sku_id = 8, rq_num = 1, rq_order_type = None, rq_teambuy_id = None, rq_channel = CH_WX,
     rq_total_fee = 20, rq_payment = 20, rq_post_fee = 0, rq_discount_fee = 0,
     rq_pay_extras = ''pid:3:budget:3.00'', rq_coupon_id = None, rq_addr_id = None,
     rq_logistics_company_id = '''', rq_buyer_message = '''', rq_openid = '''', rq_mm_linkid = None\<rparr>"

definition example_env :: pay_env where
  "example_env = \<lparr>env_openid = (\<lambda>_ _. ''o''), env_payback_url = (\<lambda>_. ''u''), env_credential = (\<lambda>_. Inr ''c''),
     env_query = (\<lambda>_. Inr (Pay_failure '''')), env_check_name = (\<lambda>_ _. Inr True), env_new_oid = str_nat,
     env_appcut_value = 2\<rparr>"

definition cart_mall :: mall_db where
  "cart_mall = example_mall\<lparr>ml_shop := pack_shop\<lparr>d_carts := [example_cart]\<rparr>\<rparr>"

definition made_trade :: sale_trade where
  "made_trade = (new_trade example_form example_customer None SALE_ORDER False 300 0 [] None None (midnight 736080))\<lparr>st_id := 5\<rparr>"

lemma made_of_example:
  "\<exists>m'. create_Saletrade example_form None example_customer SALE_ORDER cart_mall = (Inr (made_trade, True), m')"
proof -
  have "fst (create_Saletrade example_form None example_customer SALE_ORDER cart_mall) = Inr (made_trade, True)"
    by code_simp
  then show ?thesis by (auto dest: returned)
qed

section \<open>Making a trade\<close>

lemma in_mall_run [run_ok]:
  "in_mall p s = (r, s') \<longleftrightarrow> (\<exists>m. p (pay_mall s) = (r, m) \<and> s' = s\<lparr>pay_mall := m\<rparr>)"
  by (auto simp: in_mall_def zoom_run split: prod.splits)

text \<open>What \<open>create_Saletrade\<close> inserts.\<close>

lemma make_trade_run:
  assumes "make_trade rq addr cust ot m = (Inr t, m')"
  obtains budget coin boutique kind coupons company team where
    "calc_extra_budget (rq_pay_extras rq) = Inr (budget, coin)"
    "coin > 0 \<longrightarrow> boutique \<and> kind = ELECTRONIC_GOODS_ORDER"
    "t = (new_trade rq cust addr kind boutique budget coin coupons company team (d_now (ml_shop m)))
       \<lparr>st_id := fresh_pk st_id (d_trades (ml_shop m))\<rparr>"
    "m' = m\<lparr>ml_shop := (ml_shop m)\<lparr>d_trades := d_trades (ml_shop m) @ [t]\<rparr>\<rparr>"
  using assms unfolding make_trade_def
  by (fastforce simp: run_ok Let_def split: if_splits)

lemma new_trade_frame [simp]:
  "st_tid (new_trade rq cust addr ot b bd cn cs co tm time) = rq_uuid rq"
  "st_buyer_id (new_trade rq cust addr ot b bd cn cs co tm time) = cu_id cust"
  by (simp_all add: new_trade_def Let_def)

lemma get_customer_id: "get_customer i w = Inr c \<Longrightarrow> cu_id c = i"
  by (auto simp: get_customer_def dest: q_get_Inr)

lemma create_Saletrade_run:
  assumes "create_Saletrade rq addr cust ot m = (Inr (t, made), m')"
  obtains c where "uuid_matches (rq_uuid rq)" and "get_customer (cu_id cust) (ml_wallet m) = Inr c"
    and "(case q_first (filter (\<lambda>t. st_tid t = rq_uuid rq) (d_trades (ml_shop m))) of
      Some t \<Rightarrow> if st_buyer_id t \<noteq> cu_id c then raise (Exn ''the number is used'') else ret (t, False)
    | None \<Rightarrow> bindE (make_trade rq addr c ot) (\<lambda>t. ret (t, True))) m = (Inr (t, made), m')"
  using assms by (auto simp: create_Saletrade_def bindE_run liftE_run asks_run raise_run split: if_splits sum.splits)

lemma create_new_trade:
  assumes "create_Saletrade rq addr cust ot m = (Inr (t, True), m')"
  obtains c where "make_trade rq addr c ot m = (Inr t, m')"
proof -
  from create_Saletrade_run [OF assms] obtain c where "uuid_matches (rq_uuid rq)"
    and "get_customer (cu_id cust) (ml_wallet m) = Inr c"
    and run: "(case q_first (filter (\<lambda>t. st_tid t = rq_uuid rq) (d_trades (ml_shop m))) of
      Some t \<Rightarrow> if st_buyer_id t \<noteq> cu_id c then raise (Exn ''the number is used'') else ret (t, False)
    | None \<Rightarrow> bindE (make_trade rq addr c ot) (\<lambda>t. ret (t, True))) m = (Inr (t, True), m')" .
  then have "make_trade rq addr c ot m = (Inr t, m')"
    by (cases "q_first (filter (\<lambda>t. st_tid t = rq_uuid rq) (d_trades (ml_shop m)))")
      (simp_all add: bindE_ok ret_run raise_run split: if_splits)
  then show thesis by (rule that)
qed

text \<open>
  C6. A trade is made once. When \<open>create_Saletrade\<close> returns, the trade has the number of the form and
  belongs to the customer, and either it stood there and nothing changed, or it is the only new row. Any
  later call with the number, whatever else the form says, gives this trade back and writes nothing, and
  for another customer raises and writes nothing.
\<close>

theorem trade_is_made_once:
  assumes "create_Saletrade rq addr cust ot m = (Inr (t, made), m')" and "rq_uuid rq' = rq_uuid rq"
  shows "st_tid t = rq_uuid rq \<and> st_buyer_id t = cu_id cust \<and>
    (if made then m' = m\<lparr>ml_shop := (ml_shop m)\<lparr>d_trades := d_trades (ml_shop m) @ [t]\<rparr>\<rparr>
       \<and> rq_uuid rq \<notin> st_tid ` set (d_trades (ml_shop m)) else m' = m) \<and>
    create_Saletrade rq' addr' cust ot' m' = (Inr (t, False), m') \<and>
    (cu_id other \<noteq> cu_id cust \<longrightarrow> (\<exists>e. create_Saletrade rq' addr' other ot' m' = (Inl e, m')))"
proof -
  from create_Saletrade_run [OF assms(1)] obtain c where uuid: "uuid_matches (rq_uuid rq)"
    and c: "get_customer (cu_id cust) (ml_wallet m) = Inr c"
    and run: "(case q_first (filter (\<lambda>t. st_tid t = rq_uuid rq) (d_trades (ml_shop m))) of
      Some t \<Rightarrow> if st_buyer_id t \<noteq> cu_id c then raise (Exn ''the number is used'') else ret (t, False)
    | None \<Rightarrow> bindE (make_trade rq addr c ot) (\<lambda>t. ret (t, True))) m = (Inr (t, made), m')" .
  define found where "found = q_first (filter (\<lambda>t. st_tid t = rq_uuid rq) (d_trades (ml_shop m)))"
  note run = run [folded found_def]
  have made: "st_tid t = rq_uuid rq \<and> st_buyer_id t = cu_id c \<and> ml_wallet m' = ml_wallet m \<and>
      q_first (filter (\<lambda>t. st_tid t = rq_uuid rq) (d_trades (ml_shop m'))) = Some t \<and>
      (if made then m' = m\<lparr>ml_shop := (ml_shop m)\<lparr>d_trades := d_trades (ml_shop m) @ [t]\<rparr>\<rparr>
         \<and> rq_uuid rq \<notin> st_tid ` set (d_trades (ml_shop m)) else m' = m)"
  proof (cases found)
    case None
    with run have mt: "make_trade rq addr c ot m = (Inr t, m')" and "made" by (auto simp: run_ok)
    from None have "filter (\<lambda>t. st_tid t = rq_uuid rq) (d_trades (ml_shop m)) = []" by (simp add: found_def)
    with mt \<open>made\<close> show ?thesis by (auto elim!: make_trade_run simp: filter_empty_conv)
  next
    case (Some u)
    with run have "u = t" "\<not> made" "m' = m" "st_buyer_id t = cu_id c" by (auto simp: run_ok split: if_splits)
    with Some show ?thesis using q_first_filter [of _ "d_trades (ml_shop m)" t] by (auto simp: found_def)
  qed
  with uuid c assms(2) get_customer_id [OF c] show ?thesis
    by (auto simp: create_Saletrade_def bindE_run liftE_run asks_run ret_run raise_run
          dest: get_customer_id split: sum.split)
qed


theorem trade_is_made_once_witness:
  "\<exists>t m'. create_Saletrade example_form None example_customer SALE_ORDER cart_mall = (Inr (t, True), m') \<and>
     create_Saletrade (example_form\<lparr>rq_payment := 1\<rparr>) None example_customer TEAMBUY_ORDER m' = (Inr (t, False), m')"
proof -
  from made_of_example obtain t m' where run: "create_Saletrade example_form None example_customer SALE_ORDER cart_mall = (Inr (t, True), m')"
    by blast
  with trade_is_made_once [OF run, of "example_form\<lparr>rq_payment := 1\<rparr>" None TEAMBUY_ORDER] show ?thesis by auto
qed

text \<open>The payments of a trade that was made.\<close>

lemma py_round_cents [simp]: "py_round (of_int n / 100 * 100) = n"
  by simp

lemma yuan2_cents: "yuan2 x * 100 = of_int (cents_of x)"
  by (simp add: yuan2_def cents_of_def)

lemma new_trade_payments:
  assumes "t = (new_trade rq cust addr kind b budget coin cs co tm time)\<lparr>st_id := i\<rparr>"
  shows "trade_cents t = cents_of (rq_payment rq)" and "budget_payment t = max 0 budget"
    and "coin_payment t = max 0 coin" and "get_cash_payment t = max 0 (cents_of (rq_payment rq) - budget - coin)"
proof -
  have round: "py_round (of_int p - of_int budget - of_int coin) = p - budget - coin" for p
    by (metis of_int_diff py_round_of_int)
  show "trade_cents t = cents_of (rq_payment rq)"
    by (simp add: assms trade_cents_def new_trade_def Let_def yuan2_cents)
  show "budget_payment t = max 0 budget" "coin_payment t = max 0 coin"
    by (auto simp: assms budget_payment_def coin_payment_def new_trade_def Let_def)
  have "st_pay_cash t * 100 = of_int (max 0 (cents_of (rq_payment rq) - budget - coin))"
    by (auto simp: assms new_trade_def Let_def yuan2_cents round max_def)
  then show "get_cash_payment t = max 0 (cents_of (rq_payment rq) - budget - coin)"
    by (simp add: get_cash_payment_def)
qed

text \<open>
  C7. The shares of a new trade cover its payment. The payment is the one of the form in cents, the shares of
  wallet and coins are those of the extras, where a negative one counts as none, and the rest, if any, is
  left for the payment service. So the three shares together are never less than the payment, and are
  exactly it when no share is negative and the two do not exceed it; and coins only pay for electronic
  goods of the boutique.
\<close>

theorem shares_cover_the_payment:
  assumes "create_Saletrade rq addr cust ot m = (Inr (t, True), m')"
    and "calc_extra_budget (rq_pay_extras rq) = Inr (budget, coin)"
  shows "trade_cents t = cents_of (rq_payment rq) \<and>
    budget_payment t = max 0 budget \<and> coin_payment t = max 0 coin \<and>
    trade_cents t \<le> budget_payment t + coin_payment t + get_cash_payment t \<and>
    (0 \<le> budget \<and> 0 \<le> coin \<and> budget + coin \<le> trade_cents t \<longrightarrow>
       trade_cents t = budget_payment t + coin_payment t + get_cash_payment t) \<and>
    (0 < coin_payment t \<longrightarrow> st_is_boutique t \<and> st_order_type t = ELECTRONIC_GOODS_ORDER)"
proof -
  from create_new_trade [OF assms(1)] obtain c where "make_trade rq addr c ot m = (Inr t, m')" .
  from make_trade_run [OF this] obtain budget' coin' boutique kind coupons company team where
    extras: "calc_extra_budget (rq_pay_extras rq) = Inr (budget', coin')"
    and virtual: "coin' > 0 \<longrightarrow> boutique \<and> kind = ELECTRONIC_GOODS_ORDER"
    and t: "t = (new_trade rq c addr kind boutique budget' coin' coupons company team (d_now (ml_shop m)))
       \<lparr>st_id := fresh_pk st_id (d_trades (ml_shop m))\<rparr>"
    and "m' = m\<lparr>ml_shop := (ml_shop m)\<lparr>d_trades := d_trades (ml_shop m) @ [t]\<rparr>\<rparr>" .
  from extras assms(2) have "budget' = budget" "coin' = coin" by simp_all
  note t = t [unfolded this] and virtual = virtual [unfolded this]
  have "st_is_boutique t = boutique" "st_order_type t = kind" by (simp_all add: t new_trade_def Let_def)
  with virtual new_trade_payments [OF t] show ?thesis by (auto simp: max_def)
qed

theorem shares_cover_the_payment_witness:
  "trade_cents made_trade = 2000 \<and> budget_payment made_trade = 300 \<and> get_cash_payment made_trade = 1700"
proof -
  from made_of_example obtain m' where run: "create_Saletrade example_form None example_customer SALE_ORDER cart_mall = (Inr (made_trade, True), m')"
    by blast
  have "calc_extra_budget (rq_pay_extras example_form) = Inr (300, 0)" "cents_of (rq_payment example_form) = 2000"
    by code_simp+
  with shares_cover_the_payment [OF run, of 300 0] show ?thesis by auto
qed

section \<open>The orders of the carts\<close>

lemma half_even_near: "\<bar>of_int (half_even x) - x\<bar> \<le> 1 / 2"
proof -
  have "of_int \<lfloor>x\<rfloor> \<le> x" "x < of_int \<lfloor>x\<rfloor> + 1" by linarith+
  then show ?thesis by (auto simp: half_even_def Let_def abs_le_iff)
qed

lemma py_fmt2_near: "\<bar>py_fmt2 x - x\<bar> \<le> 1 / 200"
proof -
  have "py_fmt2 x - x = (of_int (half_even (x * 100)) - x * 100) / 100" by (simp add: py_fmt2_def field_simps)
  then have "\<bar>py_fmt2 x - x\<bar> = \<bar>of_int (half_even (x * 100)) - x * 100\<bar> / 100"
    by (simp only: abs_divide abs_numeral)
  also have "\<dots> \<le> (1 / 2) / 100" by (intro divide_right_mono half_even_near) simp
  finally show ?thesis by simp
qed

definition cart_total :: "shopping_cart \<Rightarrow> yuan" where
  "cart_total c = sc_price c * of_int (sc_num c)"

lemma share_near:
  assumes "st_total_fee t > 0" and "0 \<le> c"
  shows "\<bar>share_of x t c - x / st_total_fee t * c\<bar> \<le> 1 / 200"
  using assms py_fmt2_near [of "x / st_total_fee t * c"] by (cases "c = 0") (auto simp: share_of_def)


lemma keeps_if: "(b \<Longrightarrow> keeps I p) \<Longrightarrow> (\<not> b \<Longrightarrow> keeps I q) \<Longrightarrow> keeps I (if b then p else q)"
  by simp

text \<open>What the order of a cart says of the cart and of the trade.\<close>

definition order_shares :: "sale_trade \<Rightarrow> shopping_cart \<Rightarrow> sale_order \<Rightarrow> bool" where
  "order_shares t c so \<longleftrightarrow> so_sale_trade so = st_id t \<and> so_item_id so = sc_item_id c \<and> so_sku_id so = sc_sku_id c \<and>
     so_num so = sc_num c \<and> so_price so = sc_price c \<and> so_total_fee so = cart_total c \<and> so_status so = WAIT_BUYER_PAY \<and>
     so_payment so = share_of (st_payment t - st_post_fee t) t (cart_total c) \<and>
     so_discount_fee so = share_of (st_discount_fee t) t (cart_total c)"

lemma order_from_cart_run:
  assumes "order_from_cart env t c s = (Inr (), s')"
  shows "\<exists>so. s' = s\<lparr>d_orders := d_orders s @ [so]\<rparr> \<and> order_shares t c so"
proof -
  from assms obtain p k q where p: "q_get (\<lambda>p. prod_id p = sc_item_id c) (d_products s) = Inr p"
    and k: "get_sku (sc_sku_id c) s = Inr k"
    and save: "save_order (order_of_cart t c p k (env_new_oid env (length (d_orders s))) (d_now s)) s = (Inr q, s')"
    by (auto simp: order_from_cart_def run_ok)
  have "so_id (order_of_cart t c p k (env_new_oid env (length (d_orders s))) (d_now s)) = 0"
    by (simp add: order_of_cart_def new_order_def Let_def)
  from save_new_order_run [OF save this] obtain b where
    q: "q = (order_of_cart t c p k (env_new_oid env (length (d_orders s))) (d_now s))
        \<lparr>so_buyer_id := b, so_id := fresh_pk so_id (d_orders s)\<rparr>"
    and s': "s' = s\<lparr>d_orders := d_orders s @ [q]\<rparr>" by blast
  from p k have "prod_id p = sc_item_id c" "ps_id k = sc_sku_id c" by (auto simp: get_sku_def dest: q_get_Inr)
  then have "order_shares t c q"
    by (simp add: q order_shares_def order_of_cart_def new_order_def cart_total_def Let_def)
  with s' show ?thesis by blast
qed

lemma orders_from_carts_run:
  "forE (order_from_cart env t) cs s = (Inr (), s') \<Longrightarrow>
    \<exists>sos. s' = s\<lparr>d_orders := d_orders s @ sos\<rparr> \<and> list_all2 (order_shares t) cs sos"
proof (induction cs arbitrary: s)
  case (Cons c cs)
  then obtain u where "order_from_cart env t c s = (Inr (), u)" and rest: "forE (order_from_cart env t) cs u = (Inr (), s')"
    by (auto simp: forE_Cons_ok)
  from order_from_cart_run [OF this(1)] obtain so where u: "u = s\<lparr>d_orders := d_orders s @ [so]\<rparr>" and "order_shares t c so" by blast
  from Cons.IH [OF rest] obtain sos where "s' = u\<lparr>d_orders := d_orders u @ sos\<rparr>" "list_all2 (order_shares t) cs sos" by blast
  with u \<open>order_shares t c so\<close> show ?case by (intro exI [of _ "so # sos"]) simp
qed (auto simp: run_ok intro: exI [of _ "[]"])

lemma keeps_orders_shut [keeps_intro]: "keeps (\<lambda>s. Q (d_orders s)) (shut_cart c b)"
  unfolding shut_cart_def releaseLockQuantity_def Let_def
  by (intro keeps_intro keeps_if keeps_modify) simp_all

lemma shares_sum_near:
  assumes "st_total_fee t > 0" and "\<forall>c \<in> set cs. 0 \<le> cart_total c" and "list_all2 (order_shares t) cs sos"
  shows "\<bar>sum_list (map so_payment sos) - (st_payment t - st_post_fee t) / st_total_fee t * sum_list (map cart_total cs)\<bar>
     \<le> of_nat (length cs) / 200"
  using assms(3,2)
proof (induction rule: list_all2_induct)
  case (Cons c cs so sos)
  define r where "r = (st_payment t - st_post_fee t) / st_total_fee t"
  have "so_payment so = share_of (st_payment t - st_post_fee t) t (cart_total c)" using Cons by (simp add: order_shares_def)
  then have "\<bar>so_payment so - r * cart_total c\<bar> \<le> 1 / 200"
    using share_near [OF assms(1)] Cons.prems by (simp add: r_def)
  moreover have "\<bar>sum_list (map so_payment sos) - r * sum_list (map cart_total cs)\<bar> \<le> of_nat (length cs) / 200"
    using Cons by (simp add: r_def)
  moreover have "sum_list (map so_payment (so # sos)) - r * sum_list (map cart_total (c # cs))
    = (so_payment so - r * cart_total c) + (sum_list (map so_payment sos) - r * sum_list (map cart_total cs))"
    by (simp add: algebra_simps)
  ultimately have "\<bar>sum_list (map so_payment (so # sos)) - r * sum_list (map cart_total (c # cs))\<bar>
    \<le> 1 / 200 + of_nat (length cs) / 200"
    using abs_triangle_ineq [of "so_payment so - r * cart_total c" "sum_list (map so_payment sos) - r * sum_list (map cart_total cs)"]
    by linarith
  then show ?case by (simp add: add_divide_distrib r_def)
qed simp

text \<open>
  C10. The orders of the carts share the payment. Each cart gets one order, in their order, with its
  product, SKU, number and price, and no other row of orders changes; the payments of the orders together are
  the payment of the trade without its postage, scaled by what the carts cost of the price of the trade, with
  an error of at most half a cent for each cart.
\<close>

theorem cart_orders_share_the_payment:
  assumes "create_Saleorder_By_Shopcart env t cs s = (Inr (), s')"
    and "st_total_fee t > 0" and "\<forall>c \<in> set cs. 0 \<le> cart_total c"
  shows "\<exists>sos. d_orders s' = d_orders s @ sos \<and> list_all2 (order_shares t) cs sos \<and>
    \<bar>sum_list (map so_payment sos) - (st_payment t - st_post_fee t) / st_total_fee t * sum_list (map cart_total cs)\<bar>
      \<le> of_nat (length cs) / 200"
proof -
  from assms(1) obtain u where made: "forE (order_from_cart env t) cs s = (Inr (), u)"
    and shut: "forE (\<lambda>c. bindE (shut_cart c False) (\<lambda>_. ret ())) cs u = (Inr (), s')"
    by (auto simp: create_Saleorder_By_Shopcart_def run_ok)
  from orders_from_carts_run [OF made] obtain sos where "d_orders u = d_orders s @ sos"
    and sos: "list_all2 (order_shares t) cs sos" by auto
  moreover have "keeps (\<lambda>s. d_orders s = d_orders u) (forE (\<lambda>c. bindE (shut_cart c False) (\<lambda>_. ret ())) cs)"
    by (intro keeps_intro)
  with shut have "d_orders s' = d_orders u" by (auto dest: keepsD [where s = u])
  ultimately show ?thesis using shares_sum_near [OF assms(2,3) sos] by auto
qed

theorem cart_orders_share_the_payment_witness:
  "\<exists>so. order_shares made_trade example_cart so \<and> \<bar>so_payment so - 20\<bar> \<le> 1 / 200"
proof -
  let ?run = "create_Saleorder_By_Shopcart example_env made_trade [example_cart] ((ml_shop cart_mall)\<lparr>d_trades := [made_trade]\<rparr>)"
  have "fst ?run = Inr ()" by code_simp
  then have run: "?run = (Inr (), snd ?run)" by (rule returned)
  have vals: "st_total_fee made_trade = 20" "st_payment made_trade = 20" "st_post_fee made_trade = 0"
    "cart_total example_cart = 20"
    by code_simp+
  from vals have "0 < st_total_fee made_trade" "\<forall>c \<in> set [example_cart]. 0 \<le> cart_total c" by simp_all
  from cart_orders_share_the_payment [OF run this] obtain sos where
    "list_all2 (order_shares made_trade) [example_cart] sos" "\<bar>sum_list (map so_payment sos) - 20\<bar> \<le> 1 / 200"
    by (auto simp: vals)
  then show ?thesis by (auto simp: list_all2_Cons1)
qed

section \<open>Paying less than the trade costs\<close>

text \<open>With the wallet in place a log is only refused for its key.\<close>

lemma budget_log_create_wallet:
  assumes ok: "wallet_ok s" and cu: "get_customer c s = Inr cu" and w: "w \<in> set (w_budgets s)" "ub_user w = c"
    and live: "st \<noteq> Some BL_CANCELED"
  shows "if q_exists (\<lambda>x. bl_uni_key x = Some (arg_or uk (gen_uni_key c bt lt s))) (w_logs s)
    then budget_log_create c bt flow lt d ref st uk s = (Inl IntegrityError, s)
    else \<exists>l t. budget_log_create c bt flow lt d ref st uk s = (Inr l, t)"
proof -
  have id: "cu_id cu = c" using get_customer_id [OF cu] .
  have "get_budget c s = Inr w" using ok w by (auto simp: wallet_ok_def intro!: get_budget_member)
  then have op: "budget_get_or_create c s = (Inr w, s)" by (simp add: budget_get_or_create_def)
  define status where "status = (case st of None \<Rightarrow> BL_CONFIRMED | Some x \<Rightarrow> x)"
  have st: "status \<noteq> BL_CANCELED" using live by (cases st) (auto simp: status_def)
  obtain es n where es: "create_entries c bt lt status flow s = (Inr (), s\<lparr>w_entries := es, w_draws := n\<rparr>)"
    using postsE [OF posts_create_entries] .
  define w' where "w' = create_budget_change bt status flow w"
  have w': "ub_id w' = ub_id w" "ub_user w' = c" by (simp_all add: w'_def w(2))
  define B where "B = tbl_save ub_id w' (w_budgets s)"
  have "q_get (\<lambda>b. ub_user b = c) (w_budgets s) = Inr w" using \<open>get_budget c s = Inr w\<close> by (simp add: get_budget_def)
  then have "q_get (\<lambda>b. ub_user b = c) B = Inr w'"
    unfolding B_def using ok w' by (intro q_get_save) (auto simp: wallet_ok_def)
  then have ub: "get_budget c (s\<lparr>w_entries := es, w_draws := n, w_budgets := B\<rparr>) = Inr w'" by (simp add: get_budget_def)
  show ?thesis
    using op es ub st
    by (auto simp: budget_log_create_def prog_simps Let_def cu id insert_log_def
          B_def [symmetric] w'_def [symmetric] status_def [symmetric])
qed

lemma wallet_first:
  assumes "wallet_ok s" and "w \<in> set (w_budgets s)" and "ub_user w = c" and "P w"
  shows "q_first (filter (\<lambda>b. ub_user b = c \<and> P b) (w_budgets s)) = Some w"
proof -
  have "filter (\<lambda>b. ub_user b = c) (w_budgets s) = [w]"
    using user_column.get_member [of "w_budgets s" w] assms by (auto simp: wallet_ok_def q_get_filter)
  then have "filter P (filter (\<lambda>b. ub_user b = c) (w_budgets s)) = [w]" using assms(4) by simp
  then show ?thesis by (simp add: conj_commute)
qed

definition charge_key :: "pk_id \<Rightarrow> string" where
  "charge_key i = ''st_'' @ str_nat i"

lemma charge_pending_takes:
  assumes ok: "wallet_ok s" and cu: "get_customer c s = Inr cu" and w: "w \<in> set (w_budgets s)" "ub_user w = c"
    and none: "filter (is_consum_log c i) (w_logs s) = []"
    and free: "\<not> q_exists (\<lambda>x. bl_uni_key x = Some (charge_key i)) (w_logs s)"
  obtains s1 where "charge_pending w i p s = (Inr True, s1)" and "wallet_ok s1"
    and "w_budgets s1 = tbl_save ub_id (budget_add (- p) 0 p w) (w_budgets s)"
    and "w_customers s1 = w_customers s"
    and "q_exists (\<lambda>x. bl_uni_key x = Some (charge_key i)) (w_logs s1)"
proof -
  have key: "arg_or (Some (charge_key i)) (gen_uni_key c BUDGET_OUT BG_CONSUM s) = charge_key i"
    by (simp add: arg_or_def str_or_def charge_key_def)
  from budget_log_create_wallet [OF ok cu w, of "Some BL_PENDING" "Some (charge_key i)" BUDGET_OUT BG_CONSUM p None "str_nat i"]
    key free obtain l s1 where
    create: "budget_log_create c BUDGET_OUT p BG_CONSUM None (str_nat i) (Some BL_PENDING) (Some (charge_key i)) s = (Inr l, s1)"
    by auto
  have "q_get (is_consum_log (ub_user w) i) (w_logs s) = Inl DoesNotExist" using none w(2) by (simp add: q_get_def)
  with create w(2) have run: "charge_pending w i p s = (Inr True, s1)"
    by (simp add: charge_pending_def prog_simps charge_key_def)
  from charge_pending_run [OF ok w(1) refl _ run] none w(2) have "wallet_ok s1"
    "w_budgets s1 = tbl_save ub_id (create_budget_change BUDGET_OUT BL_PENDING p w) (w_budgets s)" by auto
  moreover from create have "w_customers s1 = w_customers s \<and> q_exists (\<lambda>x. bl_uni_key x = Some (charge_key i)) (w_logs s1)"
    by (rule budget_log_create_run) (auto simp: tbl_insert_def q_exists_def key arg_or_def str_or_def charge_key_def)
  ultimately show thesis using run by (intro that [of s1]) (simp_all add: create_budget_change_def)
qed

text \<open>A trade of three yuan with a share of the wallet, and the mall it stands in.\<close>

definition share_trade :: "yuan \<Rightarrow> sale_trade" where
  "share_trade x = unpaid_trade\<lparr>st_payment := 3, st_budget_paid := x, st_pay_extras := ''pid:3:budget:1.00''\<rparr>"

definition share_mall :: "yuan \<Rightarrow> mall_db" where
  "share_mall x = example_mall\<lparr>ml_shop := pack_shop\<lparr>d_trades := [share_trade x]\<rparr>\<rparr>"

lemma share_facts:
  "wallet_ok (ml_wallet (share_mall x))"
  "get_customer (st_buyer_id (share_trade x)) (ml_wallet (share_mall x)) = Inr example_customer"
  "example_budget \<in> set (w_budgets (ml_wallet (share_mall x)))"
  "ub_user example_budget = st_buyer_id (share_trade x)"
  "filter (is_consum_log (st_buyer_id (share_trade x)) (st_id (share_trade x))) (w_logs (ml_wallet (share_mall x))) = []"
  "\<not> q_exists (\<lambda>l. bl_uni_key l = Some (charge_key (st_id (share_trade x)))) (w_logs (ml_wallet (share_mall x)))"
proof -
  have wallet: "ml_wallet (share_mall x) = example_funded" by (simp add: share_mall_def example_mall_def)
  have ids: "st_buyer_id (share_trade x) = 1" "st_id (share_trade x) = 4"
    by (simp_all add: share_trade_def unpaid_trade_def example_trade_def)
  show "wallet_ok (ml_wallet (share_mall x))" by (simp add: wallet example_funded_ok)
  have "get_customer 1 example_funded = Inr example_customer" "filter (is_consum_log 1 4) (w_logs example_funded) = []"
    "\<not> q_exists (\<lambda>l. bl_uni_key l = Some (charge_key 4)) (w_logs example_funded)"
    by code_simp+
  then show "get_customer (st_buyer_id (share_trade x)) (ml_wallet (share_mall x)) = Inr example_customer"
    "filter (is_consum_log (st_buyer_id (share_trade x)) (st_id (share_trade x))) (w_logs (ml_wallet (share_mall x))) = []"
    "\<not> q_exists (\<lambda>l. bl_uni_key l = Some (charge_key (st_id (share_trade x)))) (w_logs (ml_wallet (share_mall x)))"
    by (simp_all add: wallet ids)
  show "example_budget \<in> set (w_budgets (ml_wallet (share_mall x)))" "ub_user example_budget = st_buyer_id (share_trade x)"
    by (simp_all add: wallet ids example_funded_def example_budget_def)
qed

text \<open>
  The share of a wallet is taken without a look at the balance. For a trade whose share was not taken
  before, \<open>take_budget_share\<close> returns and the wallet of the buyer holds what it held less the share, which
  may be negative; every other wallet keeps what it held.
\<close>

theorem wallet_share_overdraws:
  assumes "wallet_ok (ml_wallet m)" and "get_customer (st_buyer_id t) (ml_wallet m) = Inr cu"
    and "w \<in> set (w_budgets (ml_wallet m))" and "ub_user w = st_buyer_id t"
    and "filter (is_consum_log (st_buyer_id t) (st_id t)) (w_logs (ml_wallet m)) = []"
    and "\<not> q_exists (\<lambda>x. bl_uni_key x = Some (charge_key (st_id t))) (w_logs (ml_wallet m))"
  shows "\<exists>m1. take_budget_share t m = (Inr (), m1) \<and>
    w_budgets (ml_wallet m1) = tbl_save ub_id (w\<lparr>ub_amount := ub_amount w - budget_payment t,
      ub_total_expense := ub_total_expense w + budget_payment t\<rparr>) (w_budgets (ml_wallet m))"
proof -
  from charge_pending_takes [OF assms, of "budget_payment t"] obtain s1 where
    run: "charge_pending w (st_id t) (budget_payment t) (ml_wallet m) = (Inr True, s1)"
    and "w_budgets s1 = tbl_save ub_id (budget_add (- budget_payment t) 0 (budget_payment t) w) (w_budgets (ml_wallet m))" .
  moreover have "q_first (filter (\<lambda>b. ub_user b = st_buyer_id t) (w_budgets (ml_wallet m))) = Some w"
    using wallet_first [OF assms(1,3,4), of "\<lambda>_. True"] by simp
  ultimately show ?thesis
    by (simp add: take_budget_share_def prog_simps do_wallet_def zoom_run budget_add_def)
qed

theorem wallet_share_overdraws_witness:
  "\<exists>m1. take_budget_share (share_trade 9) (share_mall 9) = (Inr (), m1) \<and>
     map ub_amount (w_budgets (ml_wallet m1)) = [- 400]"
proof -
  let ?t = "share_trade 9" and ?m = "share_mall 9"
  have "budget_payment ?t = 900" "st_buyer_id ?t = 1" "w_budgets (ml_wallet ?m) = [example_budget]" "ub_amount example_budget = 500"
    by code_simp+
  moreover have "\<exists>m1. take_budget_share ?t ?m = (Inr (), m1) \<and>
    w_budgets (ml_wallet m1) = tbl_save ub_id (example_budget\<lparr>ub_amount := ub_amount example_budget - budget_payment ?t,
      ub_total_expense := ub_total_expense example_budget + budget_payment ?t\<rparr>) (w_budgets (ml_wallet ?m))"
    using share_facts by (intro wallet_share_overdraws [where cu = example_customer]) auto
  ultimately show ?thesis by (auto simp: tbl_save_def)
qed

text \<open>
  Switching to the wallet after a share was taken is free. When the share of the wallet was taken and
  the buyer then pays the trade from the wallet, the log of the payment has the key of the log of the share:
  the error is ignored, nothing more is taken, and the trade is confirmed.
\<close>

theorem switched_channel_pays_the_share_only:
  assumes "wallet_ok (ml_wallet m)" and "get_customer (st_buyer_id t) (ml_wallet m) = Inr cu"
    and "w \<in> set (w_budgets (ml_wallet m))" and "ub_user w = st_buyer_id t"
    and "filter (is_consum_log (st_buyer_id t) (st_id t)) (w_logs (ml_wallet m)) = []"
    and "\<not> q_exists (\<lambda>x. bl_uni_key x = Some (charge_key (st_id t))) (w_logs (ml_wallet m))"
    and "take_budget_share t m = (Inr (), m1)"
    and "get_trade (st_id t) (ml_shop m) = Inr st" and "st_status st = WAIT_BUYER_PAY"
    and "get_pay_type_from_trade t = Inr (b, c)" and "c \<le> 0"
    and "trade_cents t \<le> ub_amount w - budget_payment t"
  shows "budget_charge t False m1 = confirmTradeChargeTask (st_id t) None '''' m1"
proof -
  from charge_pending_takes [OF assms(1-6), of "budget_payment t"] obtain s1 where
    run: "charge_pending w (st_id t) (budget_payment t) (ml_wallet m) = (Inr True, s1)"
    and ok: "wallet_ok s1"
    and B: "w_budgets s1 = tbl_save ub_id (budget_add (- budget_payment t) 0 (budget_payment t) w) (w_budgets (ml_wallet m))"
    and C: "w_customers s1 = w_customers (ml_wallet m)"
    and key: "q_exists (\<lambda>x. bl_uni_key x = Some (charge_key (st_id t))) (w_logs s1)" .
  have "q_first (filter (\<lambda>b. ub_user b = st_buyer_id t) (w_budgets (ml_wallet m))) = Some w"
    using wallet_first [OF assms(1,3,4), of "\<lambda>_. True"] by simp
  with run assms(7) have m1: "m1 = m\<lparr>ml_wallet := s1\<rparr>"
    by (simp add: take_budget_share_def prog_simps do_wallet_def zoom_run)
  define w1 where "w1 = budget_add (- budget_payment t) 0 (budget_payment t) w"
  have w1: "w1 \<in> set (w_budgets s1)" "ub_user w1 = st_buyer_id t" "trade_cents t \<le> ub_amount w1"
    using assms(4,12) tbl_save_in [of w1 ub_id] by (simp_all add: B w1_def budget_add_def)
  have cu: "get_customer (st_buyer_id t) s1 = Inr cu" using assms(2) C by (simp add: get_customer_def)
  have "arg_or (Some (charge_key (st_id t))) k = charge_key (st_id t)" for k
    by (simp add: arg_or_def str_or_def charge_key_def)
  with budget_log_create_wallet [OF ok cu w1(1,2), of "Some BL_CONFIRMED" "Some (charge_key (st_id t))"] key
  have again: "budget_log_create (st_buyer_id t) BUDGET_OUT (trade_cents t) BG_CONSUM None (str_nat (st_id t))
      (Some BL_CONFIRMED) (Some (''st_'' @ str_nat (st_id t))) s1 = (Inl IntegrityError, s1)"
    by (simp add: charge_key_def)
  have "q_first (filter (\<lambda>b. ub_user b = st_buyer_id t \<and> trade_cents t \<le> ub_amount b) (w_budgets s1)) = Some w1"
    using wallet_first [OF ok w1(1,2), of "\<lambda>b. trade_cents t \<le> ub_amount b"] w1(3) by simp
  with again get_customer_id [OF assms(2)] have "pay_by_wallet t cu m1 = (Inr (), m1)"
    by (simp add: pay_by_wallet_def prog_simps do_wallet_def zoom_run m1)
  then have "budget_charge_block t False m1 = (Inr (), m1)"
    using cu assms(10,11) by (simp add: budget_charge_block_def prog_simps m1)
  with assms(8,9) show ?thesis by (simp add: budget_charge_def prog_simps m1)
qed

theorem switched_channel_pays_the_share_only_witness:
  "\<exists>m1. take_budget_share (share_trade 1) (share_mall 1) = (Inr (), m1) \<and>
     budget_charge (share_trade 1) False m1 = confirmTradeChargeTask 4 None '''' m1"
proof -
  let ?t = "share_trade 1" and ?m = "share_mall 1"
  have "fst (take_budget_share ?t ?m) = Inr ()" by code_simp
  then obtain m1 where run: "take_budget_share ?t ?m = (Inr (), m1)" by (blast dest: returned)
  have "get_trade (st_id ?t) (ml_shop ?m) = Inr ?t" "st_status ?t = WAIT_BUYER_PAY" "get_pay_type_from_trade ?t = Inr (1, 0)"
    "trade_cents ?t \<le> ub_amount example_budget - budget_payment ?t" "st_id ?t = 4"
    by code_simp+
  with switched_channel_pays_the_share_only [OF share_facts run] run show ?thesis by simp
qed

lemma coin_add_total:
  "distinct (map xc_id C) \<Longrightarrow> c \<in> set C \<Longrightarrow>
    sum_list (map xc_amount (map (\<lambda>x. if xc_id x = xc_id c then x\<lparr>xc_mama_id := i, xc_amount := xc_amount x + a\<rparr> else x) C))
    = sum_list (map xc_amount C) + a"
proof (induction C)
  case (Cons x C)
  show ?case
  proof (cases "x = c")
    case True
    with Cons.prems have "map (\<lambda>x. if xc_id x = xc_id c then x\<lparr>xc_mama_id := i, xc_amount := xc_amount x + a\<rparr> else x) C = C"
      by (intro map_idI) (auto simp: image_iff)
    with True show ?thesis by simp
  next
    case False
    with Cons.prems have "xc_id x \<noteq> xc_id c" by auto
    with False Cons show ?thesis by simp
  qed
qed simp

text \<open>
  Coins pay for the whole trade. When the extras of a trade name any share of coins, paying from the wallet
  takes this share from the coins, however small, and nothing from the wallets: the coins of all sellers hold
  together what they held less the share, the wallets and the rows of the shop are as before, and the trade is
  confirmed next.
\<close>

theorem coins_pay_for_the_whole_trade:
  assumes "get_pay_type_from_trade t = Inr (b, c)" and "0 < c" and "0 < trade_cents t"
    and "coin_ok (ml_coins m)" and "budget_charge_block t check m = (Inr (), m')"
  shows "ml_wallet m' = ml_wallet m \<and> ml_shop m' = ml_shop m \<and>
    sum_list (map xc_amount (k_coins (ml_coins m'))) = sum_list (map xc_amount (k_coins (ml_coins m))) - coin_payment t"
proof -
  have "keeps (\<lambda>x. x = m) (check_before_charge t)"
    unfolding check_before_charge_def by (intro keeps_intro)
  then have check: "check_before_charge t m = (r, n) \<Longrightarrow> n = m" for r n by (auto dest: keepsD [where s = m])
  from assms(1-3,5) obtain buyer where "consume_coins t buyer m = (Inr (), m')"
    by (auto simp: budget_charge_block_def run_ok dest: check split: if_splits)
  then obtain i k c' where "q_first (filter (\<lambda>k. xc_mama_id k = i) (k_coins (ml_coins m))) = Some k"
    and run: "coin_consume k (coin_payment t) (str_nat (st_id t)) (ml_coins m) = (Inr (), c')"
    and m': "m' = m\<lparr>ml_coins := c'\<rparr>"
    by (auto simp: consume_coins_def run_ok split: option.splits if_splits)
  then have "k \<in> set (k_coins (ml_coins m))" by (auto dest: q_first_filter)
  moreover from run m' have "k_coins (ml_coins m') = map (\<lambda>x. if xc_id x = xc_id k
      then x\<lparr>xc_mama_id := xc_mama_id k, xc_amount := xc_amount x + - coin_payment t\<rparr> else x) (k_coins (ml_coins m))"
    by (auto simp: coin_consume_def coin_move_def run_ok coin_add_def coin_log_create_def Let_def split: if_splits)
  moreover have "distinct (map xc_id (k_coins (ml_coins m)))" using assms(4) by (simp add: coin_ok_def)
  moreover have "ml_wallet m' = ml_wallet m" "ml_shop m' = ml_shop m" by (simp_all add: m')
  ultimately show ?thesis using coin_add_total [of "k_coins (ml_coins m)" k "- coin_payment t" "xc_mama_id k"] by simp
qed

definition coin_trade :: sale_trade where
  "coin_trade = (share_trade 0)\<lparr>st_has_budget_paid := False, st_has_coin_paid := True, st_coin_paid := 1 / 100,
     st_pay_extras := ''pid:4:value:0.01''\<rparr>"

theorem coins_pay_for_the_whole_trade_witness:
  "\<exists>m'. budget_charge_block coin_trade True (share_mall 0) = (Inr (), m') \<and> trade_cents coin_trade = 300 \<and>
     sum_list (map xc_amount (k_coins (ml_coins m'))) = 699 \<and> ml_wallet m' = ml_wallet (share_mall 0)"
proof -
  have "fst (budget_charge_block coin_trade True (share_mall 0)) = Inr ()" by code_simp
  then obtain m' where run: "budget_charge_block coin_trade True (share_mall 0) = (Inr (), m')" by (blast dest: returned)
  have vals: "get_pay_type_from_trade coin_trade = Inr (0, 1 / 100)" "trade_cents coin_trade = 300"
    "sum_list (map xc_amount (k_coins (ml_coins (share_mall 0)))) = 700" "coin_payment coin_trade = 1"
    by code_simp+
  have "coin_ok (ml_coins (share_mall 0))" by (simp add: share_mall_def example_mall_def example_coins_ok)
  with coins_pay_for_the_whole_trade [OF vals(1) _ _ _ run] vals run show ?thesis by auto
qed

end
