(* ===== verification/Charging.thy ===== *)
theory Charging
  imports Shopping
begin

text \<open>
  The charges (\<open>Payments\<close>) along every run of the pages, of the tasks and of the queue: steps that any
  customer and any worker takes in any order, each as a whole. A charge is made once for its order number and
  keeps its amount, and a paid one stays paid.
\<close>

section \<open>Steps\<close>

inductive pay_step :: "pay_env \<Rightarrow> pay_db \<Rightarrow> pay_db \<Rightarrow> bool" for env :: pay_env where
  step_charge: "pay_step env s (snd (charge env i ch s))"
| step_carts: "pay_step env s (snd (shoppingcart_create env rq s))"
| step_buynow: "pay_step env s (snd (buynow_create env rq s))"
| step_destroy: "pay_step env s (snd (destroy env i s))"
| step_undisplay: "pay_step env s (snd (undisplay env i s))"
| step_retrieve: "pay_step env s (snd (retrieve_trade env i s))"
| step_sign: "pay_step env s (snd (confirm_sign i s))"
| step_schedule: "pay_step env s (snd (task_schedule_cart env s))"
| step_shelf: "pay_step env s (snd (off_the_shelf_func env ids s))"
| step_job: "j \<in> set (pay_jobs s) \<Longrightarrow> pay_step env s (snd (run_pay_job j (s\<lparr>pay_jobs := remove1 j (pay_jobs s)\<rparr>)))"
| step_mall: "pay_step env s (s\<lparr>pay_mall := m\<rparr>)"

inductive_cases pay_stepE: "pay_step env s t"

section \<open>Programs that keep the charges\<close>

definition charge_now :: "charge_order \<Rightarrow> charge_order \<Rightarrow> bool" where
  "charge_now c c' \<longleftrightarrow> ch_id c' = ch_id c \<and> ch_order_no c' = ch_order_no c \<and> ch_amount c' = ch_amount c \<and>
     (ch_paid c \<longrightarrow> ch_paid c')"

definition charges_kept :: "charge_order list \<Rightarrow> pay_db \<Rightarrow> bool" where
  "charges_kept cs s \<longleftrightarrow> distinct (map ch_id (pay_charges s)) \<and> distinct (map ch_order_no (pay_charges s)) \<and>
     (\<forall>c \<in> set cs. \<exists>c' \<in> set (pay_charges s). charge_now c c')"

lemma charge_now_trans: "charge_now a b \<Longrightarrow> charge_now b c \<Longrightarrow> charge_now a c"
  by (simp add: charge_now_def)

lemma charges_kept_frame: "pay_charges t = pay_charges s \<Longrightarrow> charges_kept cs s \<Longrightarrow> charges_kept cs t"
  by (simp add: charges_kept_def)

lemma keeps_charges_mall [keeps_intro]: "keeps (charges_kept cs) (in_mall p)"
  by (auto simp: keeps_def in_mall_def zoom_run charges_kept_def split: prod.splits)

lemma keeps_charges_later [keeps_intro]: "keeps (charges_kept cs) (pay_later j)"
  by (simp add: keeps_def pay_later_def modify_run charges_kept_def)

lemma charges_kept_update:
  assumes "charges_kept cs s" and "\<And>x. x \<in> set (pay_charges s) \<Longrightarrow> P x \<Longrightarrow> charge_now x (f x)"
  shows "charges_kept cs (s\<lparr>pay_charges := q_update P f (pay_charges s)\<rparr>)"
proof -
  define g where "g = (\<lambda>x. if P x then f x else x)"
  define C where "C = map g (pay_charges s)"
  have g: "charge_now x (g x)" if "x \<in> set (pay_charges s)" for x
    using assms(2) that by (auto simp: charge_now_def g_def)
  have "map ch_id C = map ch_id (pay_charges s)" "map ch_order_no C = map ch_order_no (pay_charges s)"
    using g by (auto simp: charge_now_def C_def)
  moreover have "\<exists>c' \<in> set C. charge_now c c'" if c: "c \<in> set cs" for c
  proof -
    from assms(1) c obtain x where x: "x \<in> set (pay_charges s)" "charge_now c x" by (auto simp: charges_kept_def)
    with g [OF x(1)] have "charge_now c (g x)" by (blast intro: charge_now_trans)
    with x(1) show ?thesis by (auto simp: C_def)
  qed
  moreover have "q_update P f (pay_charges s) = C" by (simp add: q_update_def C_def g_def)
  ultimately show ?thesis using assms(1) by (simp add: charges_kept_def)
qed

lemma save_charge_kept:
  assumes "charges_kept cs s" and "\<And>x. x \<in> set (pay_charges s) \<Longrightarrow> ch_id x = ch_id c \<Longrightarrow> charge_now x (f x)"
  shows "charges_kept cs (snd (save_charge_fields c f s))"
  using assms charges_kept_update [OF assms(1), of "\<lambda>x. ch_id x = ch_id c" f] by (simp add: save_charge_fields_def)

lemma keeps_charges_save: "(\<And>x. charge_now x (f x)) \<Longrightarrow> keeps (charges_kept cs) (save_charge_fields c f)"
  by (rule keepsI) (rule save_charge_kept)

lemma keeps_charges_modify: "(\<And>s. pay_charges (f s) = pay_charges s) \<Longrightarrow> keeps (charges_kept cs) (modify f)"
  by (rule keeps_modify) (rule charges_kept_frame)

lemma keeps_charges_credential [keeps_intro]: "keeps (charges_kept cs) (get_or_create_credential env c)"
  unfolding get_or_create_credential_def Let_def
  by (intro keeps_intro keeps_if keeps_charges_modify)
    (auto intro!: keeps_intro keeps_charges_modify keeps_charges_save simp: charge_now_def split: sum.split)

lemma charge_of_None: "charge_of no s = None \<Longrightarrow> no \<notin> ch_order_no ` set (pay_charges s)"
  by (auto simp: charge_of_def filter_empty_conv)

lemma charges_kept_new:
  assumes "charges_kept cs s" and "ch_order_no c \<notin> ch_order_no ` set (pay_charges s)"
    and "ch_id c = fresh_pk ch_id (pay_charges s)"
  shows "charges_kept cs (s\<lparr>pay_charges := pay_charges s @ [c]\<rparr>)"
  using assms fresh_pk_notin [of ch_id "pay_charges s"] by (auto simp: charges_kept_def)

lemma keeps_charges_find [keeps_intro]: "keeps (charges_kept cs) (find_charge no amount ch extra)"
  unfolding find_charge_def
proof (rule keeps_asks_bind)
  fix s assume "charges_kept cs s"
  then show "charges_kept cs (snd ((case charge_of no s of Some c \<Rightarrow> ret c
     | None \<Rightarrow>
         if ch \<in> {CH_WX_PUB, CH_WEAPP} \<and> \<not> (case extra of Open_id i \<Rightarrow> i \<noteq> '''' | _ \<Rightarrow> False)
         then raise (Exn ''XiaoluPayException'')
         else (\<lambda>s. let c = \<lparr>ch_id = fresh_pk ch_id (pay_charges s), ch_order_no = no, ch_channel = ch,
                 ch_paid = False, ch_amount = amount, ch_extra = extra, ch_time_paid = None,
                 ch_time_expire = pay_now s + TIME_EXPIRED, ch_transaction_no = '''', ch_failure_code = '''',
                 ch_failure_msg = ''''\<rparr>
               in (Inr c, s\<lparr>pay_charges := pay_charges s @ [c]\<rparr>))) s))"
    by (cases "charge_of no s") (simp_all add: ret_run raise_run Let_def charge_of_None charges_kept_new)
qed

lemma keeps_charges_create [keeps_intro]: "keeps (charges_kept cs) (create_charge env no amount ch extra)"
  unfolding create_charge_def Let_def
  by (intro keeps_intro keeps_if keeps_charges_save) (simp_all add: charge_now_def)

lemma keeps_charges_confirm [keeps_intro]: "keeps (charges_kept cs) (confirm_paid c time ch no)"
  unfolding confirm_paid_def Let_def
  by (intro keeps_intro keeps_charges_save) (auto intro: keeps_intro simp: charge_now_def split: sum.split)

lemma failure_kept:
  assumes "charges_kept cs s" and "c \<in> set (pay_charges s)"
  shows "charges_kept cs (snd (failure_paid c no s))"
proof -
  have "x = c" if "x \<in> set (pay_charges s)" "ch_id x = ch_id c" for x
    using assms that by (auto simp: charges_kept_def distinct_map inj_on_def)
  then have "charges_kept cs (snd (save_charge_fields c
      (\<lambda>x. x\<lparr>ch_paid := ch_paid c, ch_time_paid := ch_time_paid c, ch_transaction_no := no\<rparr>) s))"
    by (intro save_charge_kept assms(1)) (auto simp: charge_now_def)
  then show ?thesis by (simp add: failure_paid_def Let_def thenE_def snd_bind_ret)
qed

lemma keeps_charges_retrieve [keeps_intro]: "keeps (charges_kept cs) (retrieve_or_update_order env no)"
  unfolding retrieve_or_update_order_def
proof (rule keeps_atomic, rule keeps_asks_bind)
  fix s :: pay_db
  define found where "found = q_first (filter (\<lambda>c. ch_order_no c = no \<or> nat_of_str no = Some (ch_id c)) (pay_charges s))"
  assume s: "charges_kept cs s"
  have fail: "charges_kept cs (snd (bindE (failure_paid c tn) (\<lambda>c. ret (Some c)) s))" if "found = Some c" for c tn
    using failure_kept [OF s, of c tn] that q_first_filter [of _ "pay_charges s" c] by (auto simp: snd_bind_ret found_def)
  have paid: "charges_kept cs (snd (bindE (confirm_paid c time ch tn) (\<lambda>c. ret (Some c)) s))" for c time ch tn
    using keepsD [OF keeps_charges_confirm s] by (simp add: snd_bind_ret)
  show "charges_kept cs (snd ((case q_first (filter (\<lambda>c. ch_order_no c = no \<or> nat_of_str no = Some (ch_id c)) (pay_charges s)) of
        None \<Rightarrow> ret None
      | Some c \<Rightarrow>
          if ch_paid c then ret (Some c)
          else if ch_channel c \<in> {CH_ALIPAY, CH_ALIPAY_WAP, CH_WX, CH_WX_PUB, CH_WEAPP} then
            (case env_query env c of
               Inl e \<Rightarrow> raise e
             | Inr (Pay_success time_paid transaction_no) \<Rightarrow>
                 bindE (confirm_paid c time_paid (ch_channel c) transaction_no) (\<lambda>c. ret (Some c))
             | Inr (Pay_failure transaction_no) \<Rightarrow> bindE (failure_paid c transaction_no) (\<lambda>c. ret (Some c)))
          else bindE (failure_paid c '''') (\<lambda>c. ret (Some c))) s))"
    unfolding found_def [symmetric] using s fail paid
    by (auto simp: ret_run raise_run split: option.split sum.split pay_answer.split)
qed

section \<open>The pages and the tasks\<close>

lemma keeps_charges_noted [keeps_intro]: "keeps (charges_kept cs) (noted_charge c)"
  unfolding noted_charge_def by (intro keeps_intro) (auto simp: keeps_def ret_run Let_def charges_kept_def split: option.split)

lemma keeps_charges_notify [keeps_intro]: "keeps (charges_kept cs) (notifyTradePayTask c)"
  unfolding notifyTradePayTask_def notify_body_def Let_def
  by (intro keeps_intro keeps_if keeps_charges_modify) simp_all

lemma keeps_charges_job [keeps_intro]: "keeps (charges_kept cs) (run_pay_job j)"
  by (cases j) (auto intro: keeps_intro)

lemma keeps_charges_wallet [keeps_intro]: "keeps (charges_kept cs) (wallet_charge t b)"
  unfolding wallet_charge_def Let_def
  by (intro keeps_intro keeps_if keeps_charges_modify) simp_all

lemma keeps_charges_pingpp [keeps_intro]: "keeps (charges_kept cs) (pingpp_charge env t b)"
  unfolding pingpp_charge_def Let_def by (intro keeps_intro keeps_if)

lemma keeps_charges_finished [keeps_intro]: "keeps (charges_kept cs) (pay_finished t)"
  unfolding pay_finished_def by (intro keeps_intro)

lemma keeps_charges_charged [keeps_intro]: "keeps (charges_kept cs) p \<Longrightarrow> keeps (charges_kept cs) (charged t p)"
  unfolding charged_def by (intro keeps_intro) auto

lemma keeps_charges_charge [keeps_intro]: "keeps (charges_kept cs) (charge env i ch)"
  unfolding charge_def pay_by_channel_def
  by (intro keeps_intro keeps_if) (auto intro!: keeps_intro split: option.split)

lemma keeps_option: "keeps I p \<Longrightarrow> (\<And>x. keeps I (q x)) \<Longrightarrow> keeps I (case a of None \<Rightarrow> p | Some x \<Rightarrow> q x)"
  by (cases a) simp_all

lemma keeps_sum: "(\<And>x. keeps I (p x)) \<Longrightarrow> (\<And>x. keeps I (q x)) \<Longrightarrow> keeps I (case a of Inl x \<Rightarrow> p x | Inr x \<Rightarrow> q x)"
  by (cases a) simp_all

lemma keeps_pair: "(\<And>x y. keeps I (p x y)) \<Longrightarrow> keeps I (case a of (x, y) \<Rightarrow> p x y)"
  by (cases a) simp_all

lemmas keeps_cases = keeps_if keeps_option keeps_sum keeps_pair

lemma keeps_charges_destroy [keeps_intro]: "keeps (charges_kept cs) (destroy env i)"
  unfolding destroy_def by (intro keeps_intro keeps_cases)

lemma keeps_charges_undisplay [keeps_intro]: "keeps (charges_kept cs) (undisplay env i)"
  unfolding undisplay_def by (intro keeps_intro keeps_cases)

lemma keeps_charges_shown [keeps_intro]: "keeps (charges_kept cs) (retrieve_trade env i)"
  unfolding retrieve_trade_def by (intro keeps_intro keeps_cases)

lemma keeps_charges_sign [keeps_intro]: "keeps (charges_kept cs) (confirm_sign i)"
  unfolding confirm_sign_def by (intro keeps_intro keeps_cases)

lemma keeps_charges_new [keeps_intro]: "keeps (charges_kept cs) (pay_new_trade env rq t)"
  unfolding pay_new_trade_def by (intro keeps_intro keeps_cases)

lemma in_mall_charges: "in_mall p s = (r, t) \<Longrightarrow> pay_charges t = pay_charges s"
  by (auto simp: in_mall_run)

lemma finished_charges: "pay_finished t s = (r, u) \<Longrightarrow> pay_charges u = pay_charges s"
  by (simp add: pay_finished_def in_mall_charges)

lemma keeps_charges_block [keeps_intro]: "keeps (charges_kept cs) (carts_block env rq addr cust ot carts)"
  by (rule keepsI, erule charges_kept_frame [rotated])
    (auto simp: carts_block_def dest!: in_mall_charges finished_charges split: prod.split sum.split)

lemma keeps_charges_bought [keeps_intro]: "keeps (charges_kept cs) (buynow_block env rq addr cust ot p k)"
  by (rule keepsI, erule charges_kept_frame [rotated])
    (auto simp: buynow_block_def dest!: in_mall_charges finished_charges split: prod.split sum.split)

lemma keeps_charges_carts [keeps_intro]: "keeps (charges_kept cs) (shoppingcart_create env rq)"
  unfolding shoppingcart_create_def by (intro keeps_intro keeps_cases)

lemma keeps_charges_buynow [keeps_intro]: "keeps (charges_kept cs) (buynow_create env rq)"
  unfolding buynow_create_def Let_def by (intro keeps_intro keeps_cases)

lemma keeps_charges_close [keeps_intro]: "keeps (charges_kept cs) (close_or_notify env t)"
  unfolding close_or_notify_def by (intro keeps_intro keeps_cases)

lemma keeps_charges_schedule [keeps_intro]: "keeps (charges_kept cs) (task_schedule_cart env)"
  unfolding task_schedule_cart_def by (intro keeps_intro keeps_cases)

lemma keeps_charges_shelf [keeps_intro]: "keeps (charges_kept cs) (off_the_shelf_func env ids)"
  unfolding off_the_shelf_func_def by (intro keeps_intro keeps_cases)

lemmas keeps_charges_pages = keeps_charges_charge keeps_charges_carts keeps_charges_buynow keeps_charges_destroy
  keeps_charges_undisplay keeps_charges_shown keeps_charges_sign keeps_charges_schedule keeps_charges_shelf

lemma charges_kept_step:
  assumes "pay_step env s t" and s: "charges_kept cs s"
  shows "charges_kept cs t"
  using assms(1)
proof cases
  case (step_job j)
  have "charges_kept cs (s\<lparr>pay_jobs := remove1 j (pay_jobs s)\<rparr>)" by (rule charges_kept_frame [OF _ s]) simp
  then show ?thesis unfolding step_job(1) by (rule keepsD [OF keeps_charges_job])
next
  case (step_mall m)
  then show ?thesis using s by (simp add: charges_kept_def)
qed (simp_all add: keeps_charges_pages [THEN keepsD, OF s])

lemma charges_kept_run: "(pay_step env)\<^sup>*\<^sup>* s t \<Longrightarrow> charges_kept cs s \<Longrightarrow> charges_kept cs t"
  by (induction rule: rtranclp_induct) (auto intro: charges_kept_step)

lemma filter_column: "distinct (map f xs) \<Longrightarrow> x \<in> set xs \<Longrightarrow> filter (\<lambda>y. f y = f x) xs = [x]"
  by (induction xs) (auto simp: filter_empty_conv image_iff)

text \<open>
  C12. A charge is made once for its number and keeps its amount. Whatever pages are called and whatever tasks
  run, and however other operations change the mall in between, each charge stands in the table with its
  number and its amount, a paid one is paid, and no second charge has its number.
\<close>

theorem charges_keep_their_amount:
  assumes "(pay_step env)\<^sup>*\<^sup>* s t" and "distinct (map ch_id (pay_charges s))"
    and "distinct (map ch_order_no (pay_charges s))" and "c \<in> set (pay_charges s)"
  shows "\<exists>c'. filter (\<lambda>x. ch_order_no x = ch_order_no c) (pay_charges t) = [c'] \<and> ch_id c' = ch_id c \<and>
    ch_amount c' = ch_amount c \<and> (ch_paid c \<longrightarrow> ch_paid c')"
proof -
  have "charges_kept (pay_charges s) s" using assms(2,3) by (auto simp: charges_kept_def charge_now_def)
  from charges_kept_run [OF assms(1) this] have t: "charges_kept (pay_charges s) t" .
  with assms(4) obtain c' where c': "c' \<in> set (pay_charges t)" "charge_now c c'" by (auto simp: charges_kept_def)
  moreover from t have "distinct (map ch_order_no (pay_charges t))" by (simp add: charges_kept_def)
  then have "filter (\<lambda>x. ch_order_no x = ch_order_no c') (pay_charges t) = [c']"
    using c'(1) by (rule filter_column)
  ultimately show ?thesis by (auto simp: charge_now_def)
qed

text \<open>A trade of which a charge was made, for seven yuan, by WeChat; the buyer asks to pay by Alipay.\<close>

definition example_charge :: charge_order where
  "example_charge = \<lparr>ch_id = 1, ch_order_no = ''xd4'', ch_channel = CH_WX, ch_paid = False, ch_amount = 700,
     ch_extra = No_extra, ch_time_paid = None, ch_time_expire = 0, ch_transaction_no = '''', ch_failure_code = '''',
     ch_failure_msg = ''''\<rparr>"

definition example_till :: pay_db where
  "example_till = \<lparr>pay_mall = share_mall 1, pay_charges = [example_charge], pay_credentials = [],
     pay_trade_charges = [], pay_carry_logs = [], pay_jobs = []\<rparr>"

theorem charges_keep_their_amount_witness:
  "\<exists>c'. filter (\<lambda>x. ch_order_no x = ''xd4'') (pay_charges (snd (charge example_env 4 (Some CH_ALIPAY) example_till))) = [c'] \<and>
     ch_amount c' = 700"
proof -
  have "(pay_step example_env)\<^sup>*\<^sup>* example_till (snd (charge example_env 4 (Some CH_ALIPAY) example_till))"
    by (rule r_into_rtranclp) (rule step_charge)
  from charges_keep_their_amount [OF this, of example_charge] show ?thesis
    by (auto simp: example_till_def example_charge_def)
qed

end
