(* ===== verification/Carts.thy ===== *)
theory Carts
  imports Charging
begin

text \<open>
  The counter of open carts that a stock row keeps (\<open>shoppingcart_num\<close>), the sums the page of carts
  accepts, and the task that runs by itself (\<open>Checkout\<close>).
\<close>

lemma option_run_ok [run_ok]:
  "(case a of None \<Rightarrow> p | Some x \<Rightarrow> q x) s = (Inr y, t) \<longleftrightarrow>
    (a = None \<and> p s = (Inr y, t)) \<or> (\<exists>x. a = Some x \<and> q x s = (Inr y, t))"
  by (cases a) auto

section \<open>The counter of open carts\<close>

definition cart_counter :: "pk_id \<Rightarrow> shop_db \<Rightarrow> int" where
  "cart_counter k s = (case q_first (filter (\<lambda>x. ss_sku_id x = k) (d_stocks s)) of
     None \<Rightarrow> 0 | Some st \<Rightarrow> attr st Shoppingcart_num)"

definition open_num :: "pk_id \<Rightarrow> shop_db \<Rightarrow> int" where
  "open_num k s = q_sum sc_num (\<lambda>c. sc_sku_id c = k \<and> sc_normal c) (d_carts s)"

text \<open>Stock rows and carts have their keys, and stock rows count the open carts of every SKU but perhaps one.\<close>

definition counted_but :: "pk_id option \<Rightarrow> shop_db \<Rightarrow> bool" where
  "counted_but o' s \<longleftrightarrow> distinct (map ss_id (d_stocks s)) \<and> distinct (map sc_id (d_carts s)) \<and> (\<forall>k. Some k \<noteq> o' \<longrightarrow> cart_counter k s = open_num k s)"

lemma counted_but_weaken: "counted_but None s \<Longrightarrow> counted_but (Some k) s"
  by (simp add: counted_but_def)

lemma counted_all: "counted_but (Some k) s \<Longrightarrow> cart_counter k s = open_num k s \<Longrightarrow> counted_but None s"
  unfolding counted_but_def by (metis option.inject)

lemma get_by_sku_counter:
  assumes "get_by_sku k s = (r, t)"
  shows "d_carts t = d_carts s" and "cart_counter j t = cart_counter j s"
    and "distinct (map ss_id (d_stocks s)) \<Longrightarrow> distinct (map ss_id (d_stocks t))"
    and "r = Inr st \<Longrightarrow> q_first (filter (\<lambda>x. ss_sku_id x = k) (d_stocks t)) = Some st"
proof -
  have new: "cart_counter j (s\<lparr>d_stocks := d_stocks s @ [x]\<rparr>) = cart_counter j s" if "attr x Shoppingcart_num = 0" for x
    using that by (auto simp: cart_counter_def q_first_def split: list.splits)
  show "d_carts t = d_carts s" using assms by (auto simp: get_by_sku_def Let_def split: option.splits sum.splits)
  show "cart_counter j t = cart_counter j s"
    using assms new by (auto simp: get_by_sku_def Let_def new_stock_def split: option.splits sum.splits)
  show "distinct (map ss_id (d_stocks t))" if "distinct (map ss_id (d_stocks s))"
    using assms that fresh_pk_notin [of ss_id "d_stocks s"]
    by (auto simp: get_by_sku_def Let_def split: option.splits sum.splits)
  show "q_first (filter (\<lambda>x. ss_sku_id x = k) (d_stocks t)) = Some st" if "r = Inr st"
    using assms that
    by (auto simp: get_by_sku_def Let_def new_stock_def dest!: q_get_Inr split: option.splits sum.splits)
qed

lemma counted_get: "get_by_sku k s = (r, t) \<Longrightarrow> counted_but a s \<Longrightarrow> counted_but a t"
  using get_by_sku_counter [of k s r t] by (auto simp: counted_but_def open_num_def)

lemma save_counter:
  assumes "distinct (map ss_id (d_stocks s))" and first: "q_first (filter (\<lambda>x. ss_sku_id x = k) (d_stocks s)) = Some st"
    and run: "save_stock_fields [Shoppingcart_num] (attr_update Shoppingcart_num n st) s = (Inr (), t)"
  shows "cart_counter j t = (if j = k then n else cart_counter j s)" and "d_carts t = d_carts s"
    and "map ss_id (d_stocks t) = map ss_id (d_stocks s)"
proof -
  define g where "g = (\<lambda>x. if ss_id x = ss_id st then attr_update Shoppingcart_num n x else x)"
  have t: "t = s\<lparr>d_stocks := map g (d_stocks s)\<rparr>"
  proof -
    have eq: "x\<lparr>ss_attr := (\<lambda>a. if a \<in> set [Shoppingcart_num] then attr (attr_update Shoppingcart_num n st) a else attr x a)\<rparr>
        = attr_update Shoppingcart_num n x" for x
      by (auto simp: attr_update_def intro!: arg_cong [of _ _ "\<lambda>f. x\<lparr>ss_attr := f\<rparr>"])
    have "ss_id (attr_update Shoppingcart_num n st) = ss_id st" by (simp add: attr_update_def)
    with run show ?thesis unfolding save_stock_fields_def eq g_def by simp
  qed
  have g: "ss_id (g x) = ss_id x" "ss_sku_id (g x) = ss_sku_id x" for x by (simp_all add: g_def attr_update_def)
  have "q_first (filter (\<lambda>x. ss_sku_id x = j) (map g S)) = map_option g (q_first (filter (\<lambda>x. ss_sku_id x = j) S))" for S
    by (induction S) (auto simp: g)
  then have t_first: "q_first (filter (\<lambda>x. ss_sku_id x = j) (d_stocks t)) = map_option g (q_first (filter (\<lambda>x. ss_sku_id x = j) (d_stocks s)))"
    by (simp add: t)
  have st: "st \<in> set (d_stocks s)" "ss_sku_id st = k" using q_first_filter [OF first] by auto
  have other: "g x = x" if "x \<in> set (d_stocks s)" "ss_sku_id x \<noteq> k" for x
  proof -
    have "x \<noteq> st" using that st by auto
    then have "ss_id x \<noteq> ss_id st" using assms(1) that st by (auto simp: distinct_map inj_on_def)
    then show ?thesis by (simp add: g_def)
  qed
  show "cart_counter j t = (if j = k then n else cart_counter j s)"
  proof (cases "j = k")
    case True
    then show ?thesis using t_first first by (simp add: cart_counter_def g_def attr_update_def)
  next
    case False
    then show ?thesis using t_first other
      by (auto simp: cart_counter_def dest!: q_first_filter split: option.splits)
  qed
  show "d_carts t = d_carts s" "map ss_id (d_stocks t) = map ss_id (d_stocks s)" by (simp_all add: t g)
qed

lemma count_carts_run:
  assumes s: "counted_but (Some k) s"
    and run: "task_shoppingcart_update_productskustats_shoppingcart_num k s = (Inr (), t)"
  shows "counted_but None t \<and> d_carts t = d_carts s"
proof -
  define n where "n = q_sum sc_num (\<lambda>c. sc_sku_id c = k \<and> sc_normal c) (d_carts s)"
  from run obtain st u where get: "get_by_sku k s = (Inr st, u)"
    and rest: "whenE (attr st Shoppingcart_num \<noteq> n) (save_stock_fields [Shoppingcart_num] (attr_update Shoppingcart_num n st)) u = (Inr (), t)"
    by (auto simp: task_shoppingcart_update_productskustats_shoppingcart_num_def run_ok n_def)
  note got = get_by_sku_counter [OF get]
  from counted_get [OF get s] have u: "counted_but (Some k) u" .
  have open_eq: "open_num j u = open_num j s" for j by (simp add: open_num_def got(1))
  have n: "open_num k s = n" by (simp add: open_num_def n_def)
  have first: "q_first (filter (\<lambda>x. ss_sku_id x = k) (d_stocks u)) = Some st" by (rule got(4)) simp
  show ?thesis
  proof (cases "attr st Shoppingcart_num = n")
    case True
    with rest have "t = u" by (simp add: whenE_ok)
    moreover have "cart_counter k u = n" using first True by (simp add: cart_counter_def)
    ultimately show ?thesis using counted_all [OF u] got(1) n open_eq by simp
  next
    case False
    with rest have save: "save_stock_fields [Shoppingcart_num] (attr_update Shoppingcart_num n st) u = (Inr (), t)"
      by (simp add: whenE_ok)
    have "distinct (map ss_id (d_stocks u))" using u by (simp add: counted_but_def)
    from save_counter [OF this first save] show ?thesis
      using u got(1) n open_eq by (auto simp: counted_but_def open_num_def)
  qed
qed

lemma cart_ids_update: "(\<And>x. sc_id (f x) = sc_id x) \<Longrightarrow> map sc_id (q_update P f C) = map sc_id C"
  by (rule cart_table.distinct_update) simp

lemma open_num_update:
  assumes "\<And>x. x \<in> set C \<Longrightarrow> P x \<Longrightarrow> sc_sku_id x = k" and "\<And>x. P x \<Longrightarrow> sc_sku_id (f x) = sc_sku_id x" and "j \<noteq> k"
  shows "q_sum sc_num (\<lambda>c. sc_sku_id c = j \<and> sc_normal c) (q_update P f C) = q_sum sc_num (\<lambda>c. sc_sku_id c = j \<and> sc_normal c) C"
  using assms unfolding q_update_def by (induction C) auto

lemma counted_lock: "load_lock k s = (r, t) \<Longrightarrow> counted_but a s \<Longrightarrow> counted_but a t \<and> d_carts t = d_carts s"
  by (auto simp: load_lock_def bindE_run ret_run dest: counted_get get_by_sku_counter(1) split: prod.splits sum.splits)

lemma counted_free: "sku_free_num k s = (r, t) \<Longrightarrow> counted_but a s \<Longrightarrow> counted_but a t \<and> d_carts t = d_carts s"
  by (auto simp: sku_free_num_def bindE_run ret_run dest: counted_lock split: prod.splits sum.splits)

lemma counted_release: "releaseLockQuantity k n s = (r, t) \<Longrightarrow> counted_but a s \<Longrightarrow> counted_but a t \<and> d_carts t = d_carts s"
  by (auto simp: releaseLockQuantity_def modify_run counted_but_def cart_counter_def open_num_def)

section \<open>The pages of the cart\<close>

lemma counted_close_carts:
  assumes "close_timeout_carts [k] s = (Inr (), t)" and "counted_but (Some k) s"
  shows "counted_but None t"
proof -
  define u where "u = s\<lparr>d_carts := q_update (\<lambda>c. sc_sku_id c \<in> set [k] \<and> timed_out (d_now s) c)
       (\<lambda>c. c\<lparr>sc_normal := False\<rparr>) (d_carts s)\<rparr>"
  have "open_num j u = open_num j s" if "j \<noteq> k" for j
    using open_num_update [of "d_carts s" "\<lambda>c. sc_sku_id c \<in> set [k] \<and> timed_out (d_now s) c" k] that
    by (simp add: u_def open_num_def)
  then have "counted_but (Some k) u" using assms(2) by (auto simp: counted_but_def cart_counter_def u_def cart_ids_update)
  moreover from assms(1) have "task_shoppingcart_update_productskustats_shoppingcart_num k u = (Inr (), t)"
    by (auto simp: close_timeout_carts_def run_ok u_def)
  ultimately show ?thesis using count_carts_run by blast
qed

lemma counted_insert:
  assumes run: "insert_cart c s = (Inr (), t)" and s: "counted_but None s"
  shows "counted_but None t"
proof -
  define u where "u = s\<lparr>d_carts := tbl_insert sc_id (\<lambda>i. sc_id_update (\<lambda>_. i)) c (d_carts s)\<rparr>"
  have "counted_but (Some (sc_sku_id c)) u"
    using s cart_table.distinct_insert [of "d_carts s" c]
    by (auto simp: counted_but_def cart_counter_def open_num_def u_def tbl_insert_def)
  moreover from run obtain st v where get: "get_by_sku (sc_sku_id c) u = (Inr st, v)"
    and close: "close_timeout_carts [sc_sku_id c] (v\<lparr>d_stocks := q_update (\<lambda>x. ss_sku_id x = ss_sku_id st)
       (\<lambda>x. attr_update Shoppingcart_num (attr x Shoppingcart_num + sc_num c) x) (d_stocks v)\<rparr>) = (Inr (), t)"
    by (auto simp: insert_cart_def update_skustock_and_close_carts_def run_ok u_def)
  ultimately have v: "counted_but (Some (sc_sku_id c)) v" by (blast intro: counted_get)
  have st: "ss_sku_id st = sc_sku_id c"
    using get_by_sku_counter(4) [OF get refl] by (auto dest: q_first_filter)
  define g where "g = (\<lambda>x. if ss_sku_id x = sc_sku_id c
    then attr_update Shoppingcart_num (attr x Shoppingcart_num + sc_num c) x else x)"
  have g: "ss_id (g x) = ss_id x" "ss_sku_id (g x) = ss_sku_id x" for x by (simp_all add: g_def attr_update_def)
  have "filter (\<lambda>x. ss_sku_id x = j) (map g S) = filter (\<lambda>x. ss_sku_id x = j) S" if "j \<noteq> sc_sku_id c" for j S
    using that by (induction S) (auto simp: g_def attr_update_def)
  then have "counted_but (Some (sc_sku_id c)) (v\<lparr>d_stocks := map g (d_stocks v)\<rparr>)"
    using v by (auto simp: counted_but_def cart_counter_def open_num_def g comp_def)
  with close st counted_close_carts show ?thesis by (auto simp: q_update_def g_def)
qed

lemma counted_add:
  assumes run: "add_cart cust p k n typ s = (Inr code, t)" and s: "counted_but None s"
  shows "counted_but None t"
proof -
  have remain: "counted_but None (u\<lparr>d_carts := q_update P (\<lambda>c. c\<lparr>sc_remain_time := x\<rparr>) (d_carts u)\<rparr>)"
    if "counted_but None u" for u P x
  proof -
    have "q_sum sc_num (\<lambda>c. sc_sku_id c = j \<and> sc_normal c) (q_update P (\<lambda>c. c\<lparr>sc_remain_time := x\<rparr>) C)
        = q_sum sc_num (\<lambda>c. sc_sku_id c = j \<and> sc_normal c) C" for j C
      by (induction C) (auto simp: q_update_def)
    with that show ?thesis by (simp add: counted_but_def cart_counter_def open_num_def cart_ids_update)
  qed
  from run s show ?thesis
    by (auto simp: add_cart_def run_ok now_def intro!: remain dest!: counted_insert counted_free split: if_splits option.splits)
qed

text \<open>Writing the row of a cart only touches the count of its SKU.\<close>

lemma counted_row:
  assumes s: "counted_but None s" and c: "c \<in> set (d_carts s)"
    and f: "\<And>x. sc_id (f x) = sc_id x" "\<And>x. x \<in> set (d_carts s) \<Longrightarrow> sc_id x = sc_id c \<Longrightarrow> sc_sku_id (f x) = sc_sku_id c"
  shows "counted_but (Some (sc_sku_id c)) (s\<lparr>d_carts := q_update (\<lambda>x. sc_id x = sc_id c) f (d_carts s)\<rparr>)"
proof -
  have same: "x = c" if "x \<in> set (d_carts s)" "sc_id x = sc_id c" for x
    using s c that by (auto simp: counted_but_def distinct_map inj_on_def)
  have "open_num j (s\<lparr>d_carts := q_update (\<lambda>x. sc_id x = sc_id c) f (d_carts s)\<rparr>) = open_num j s" if "j \<noteq> sc_sku_id c" for j
  proof -
    have "q_sum sc_num (\<lambda>x. sc_sku_id x = j \<and> sc_normal x) (q_update (\<lambda>x. sc_id x = sc_id c) f C)
        = q_sum sc_num (\<lambda>x. sc_sku_id x = j \<and> sc_normal x) C" if "set C \<subseteq> set (d_carts s)" for C
      using that \<open>j \<noteq> sc_sku_id c\<close> same f(2) by (induction C) (auto simp: q_update_def)
    then show ?thesis by (simp add: open_num_def)
  qed
  with s show ?thesis by (auto simp: counted_but_def cart_counter_def cart_ids_update f(1))
qed

lemma counted_shut:
  assumes run: "shut_cart c b s = (Inr saved, t)" and s: "counted_but None s" and row: "c \<in> set (d_carts s)"
  shows "if saved then counted_but (Some (sc_sku_id c)) t else counted_but None t"
proof (cases "q_exists (\<lambda>x. sc_id x = sc_id c \<and> sc_normal x) (d_carts s)")
  case False
  with run s show ?thesis by (auto simp: shut_cart_def run_ok)
next
  case True
  have "tbl_save sc_id (c\<lparr>sc_normal := False\<rparr>) (d_carts s)
      = q_update (\<lambda>x. sc_id x = sc_id c) (\<lambda>x. c\<lparr>sc_normal := False, sc_id := sc_id x\<rparr>) (d_carts s)"
    using row by (auto simp: tbl_save_def q_update_def)
  with counted_row [OF s row, of "\<lambda>x. c\<lparr>sc_normal := False, sc_id := sc_id x\<rparr>"]
  have "counted_but (Some (sc_sku_id c)) (s\<lparr>d_carts := tbl_save sc_id (c\<lparr>sc_normal := False\<rparr>) (d_carts s)\<rparr>)" by simp
  with run True show ?thesis
    by (auto simp: shut_cart_def run_ok dest: counted_release split: if_splits)
qed

lemma counted_delete:
  assumes run: "delete_carts cust i s = (Inr code, t)" and s: "counted_but None s"
  shows "counted_but None t"
proof -
  from run obtain c where get: "open_cart i (cu_id cust) s = Inr c" and close: "close_cart c True s = (Inr (), t)"
    by (auto simp: delete_carts_def run_ok)
  from get have "c \<in> set (d_carts s)" by (auto simp: open_cart_def dest!: q_get_Inr split: sum.splits)
  moreover from close obtain saved u where "shut_cart c True s = (Inr saved, u)"
    and "whenE saved (task_shoppingcart_update_productskustats_shoppingcart_num (sc_sku_id c)) u = (Inr (), t)"
    by (auto simp: close_cart_def run_ok)
  ultimately show ?thesis using counted_shut [OF _ s] count_carts_run by (cases saved) (fastforce simp: whenE_ok)+
qed

lemma counted_change:
  assumes "change_cart_num c d s = (r, t)" and "counted_but None s" and "c \<in> set (d_carts s)"
  shows "counted_but (Some (sc_sku_id c)) t"
proof -
  have "x = c" if "x \<in> set (d_carts s)" "sc_id x = sc_id c" for x
    using assms(2,3) that by (auto simp: counted_but_def distinct_map inj_on_def)
  then have "counted_but (Some (sc_sku_id c)) (s\<lparr>d_carts := q_update (\<lambda>x. sc_id x = sc_id c)
     (\<lambda>x. x\<lparr>sc_num := sc_num x + d, sc_total_fee := of_int (sc_num x + d) * sc_price c\<rparr>) (d_carts s)\<rparr>)"
    by (intro counted_row [OF assms(2,3)]) auto
  moreover have "t = s\<lparr>d_carts := q_update (\<lambda>x. sc_id x = sc_id c)
     (\<lambda>x. x\<lparr>sc_num := sc_num x + d, sc_total_fee := of_int (sc_num x + d) * sc_price c\<rparr>) (d_carts s)\<rparr>"
    using assms(1) by (simp add: change_cart_num_def modify_run)
  ultimately show ?thesis by simp
qed

lemma counted_plus:
  assumes run: "plus_product_carts cust i s = (Inr code, t)" and s: "counted_but None s"
  shows "counted_but None t"
proof -
  from run obtain sku u where
    body: "bindE (liftE (open_cart i (cu_id cust))) (\<lambda>c.
       bindE (liftE (sku_or_404 (sc_sku_id c))) (\<lambda>k.
       bindE (asks (\<lambda>s. isQuantityLockable k (sc_num c + get_user_skunum_by_last24hours cust k s + 1) s)) (\<lambda>lockable.
       if \<not> lockable then ret (1, sc_sku_id c)
       else
         bindE (sku_free_num k) (\<lambda>free.
         if free \<le> sc_num c then ret (2, sc_sku_id c)
         else thenE (change_cart_num c 1) (ret (0, sc_sku_id c)))))) s = (Inr (code, sku), u)"
    and count: "whenE (code = 0) (task_shoppingcart_update_productskustats_shoppingcart_num sku) u = (Inr (), t)"
    unfolding plus_product_carts_def by (auto simp: bindE_ok atomic_ok thenE_ok ret_run split: prod.splits)
  from body obtain c k where get: "open_cart i (cu_id cust) s = Inr c"
    and rest: "(code \<noteq> 0 \<and> (\<exists>x. counted_but None u \<and> x = sku)) \<or> (code = 0 \<and> sku = sc_sku_id c \<and>
      (\<exists>n v. sku_free_num k s = (Inr n, v) \<and> change_cart_num c 1 v = (Inr (), u)))"
    using s by (auto simp: run_ok dest: counted_free split: if_splits)
  from get have c: "c \<in> set (d_carts s)" by (auto simp: open_cart_def dest!: q_get_Inr split: sum.splits)
  from rest show ?thesis
  proof
    assume "code \<noteq> 0 \<and> (\<exists>x. counted_but None u \<and> x = sku)"
    with count show ?thesis by (simp add: whenE_ok)
  next
    assume "code = 0 \<and> sku = sc_sku_id c \<and> (\<exists>n v. sku_free_num k s = (Inr n, v) \<and> change_cart_num c 1 v = (Inr (), u))"
    then obtain n v where v: "sku_free_num k s = (Inr n, v)" "change_cart_num c 1 v = (Inr (), u)" and "code = 0" "sku = sc_sku_id c"
      by blast
    from counted_free [OF v(1) s] c have "counted_but None v" "c \<in> set (d_carts v)" by simp_all
    from counted_change [OF v(2) this] count \<open>code = 0\<close> \<open>sku = _\<close> show ?thesis
      using count_carts_run by (auto simp: whenE_ok)
  qed
qed

lemma counted_minus:
  assumes run: "minus_product_carts i s = (Inr code, t)" and s: "counted_but None s"
  shows "counted_but None t"
proof -
  from run obtain c where c: "c \<in> set (d_carts s)"
    and rest: "(code = 1 \<and> t = s) \<or> (\<exists>k u v. change_cart_num c (- 1) s = (Inr (), u) \<and> releaseLockQuantity k 1 u = (Inr (), v) \<and>
       task_shoppingcart_update_productskustats_shoppingcart_num (sc_sku_id c) v = (Inr (), t))"
    unfolding minus_product_carts_def
    by (fastforce simp: run_ok dest!: q_get_Inr split: sum.splits prod.splits if_splits)
  from rest show ?thesis
  proof
    assume "code = 1 \<and> t = s"
    with s show ?thesis by simp
  next
    assume "\<exists>k u v. change_cart_num c (- 1) s = (Inr (), u) \<and> releaseLockQuantity k 1 u = (Inr (), v) \<and>
       task_shoppingcart_update_productskustats_shoppingcart_num (sc_sku_id c) v = (Inr (), t)"
    then obtain k u v where "change_cart_num c (- 1) s = (Inr (), u)" "releaseLockQuantity k 1 u = (Inr (), v)"
       "task_shoppingcart_update_productskustats_shoppingcart_num (sc_sku_id c) v = (Inr (), t)" by blast
    then show ?thesis using counted_change [OF _ s c] counted_release count_carts_run by blast
  qed
qed

lemma counted_create:
  assumes run: "create_cart user i j n again typ m = (Inr code, m')" and s: "counted_but None (ml_shop m)"
  shows "counted_but None (ml_shop m')"
proof -
  have drop: "counted_but None (u\<lparr>d_carts := filter Q (d_carts u)\<rparr>)"
    if "counted_but None u" and "\<And>c. sc_normal c \<Longrightarrow> Q c" for u Q
  proof -
    have "q_sum sc_num (\<lambda>c. sc_sku_id c = k \<and> sc_normal c) (filter Q C)
        = q_sum sc_num (\<lambda>c. sc_sku_id c = k \<and> sc_normal c) C" for k C
      using that(2) by (induction C) auto
    with that(1) show ?thesis by (simp add: counted_but_def cart_counter_def open_num_def distinct_map inj_on_def)
  qed
  from run s show ?thesis
    unfolding create_cart_def
    by (auto simp: run_ok elim!: counted_add intro!: drop split: if_splits)
qed

inductive cart_step :: "mall_db \<Rightarrow> mall_db \<Rightarrow> bool" where
  step_create: "create_cart user i j n again typ m = (Inr code, m') \<Longrightarrow> cart_step m m'"
| step_delete: "do_shop (delete_carts cust i) m = (Inr code, m') \<Longrightarrow> cart_step m m'"
| step_plus: "do_shop (plus_product_carts cust i) m = (Inr code, m') \<Longrightarrow> cart_step m m'"
| step_minus: "do_shop (minus_product_carts i) m = (Inr code, m') \<Longrightarrow> cart_step m m'"
| step_elsewhere: "d_carts (ml_shop m') = d_carts (ml_shop m) \<Longrightarrow> d_stocks (ml_shop m') = d_stocks (ml_shop m) \<Longrightarrow> cart_step m m'"

lemma counted_step: "cart_step m m' \<Longrightarrow> counted_but None (ml_shop m) \<Longrightarrow> counted_but None (ml_shop m')"
proof (induction rule: cart_step.induct)
  case (step_elsewhere m' m)
  then show ?case by (simp add: counted_but_def cart_counter_def open_num_def)
qed (auto simp: do_shop_run intro: counted_create counted_delete counted_plus counted_minus)



section \<open>The sums the page of carts accepts\<close>

lemma price_carts_sum:
  "price_carts cs s = (Inr (Some (price, virtual)), t) \<Longrightarrow> price = sum_list (map cart_cents cs) \<and> virtual \<le> length cs"
proof (induction cs arbitrary: s price virtual t)
  case (Cons c cs)
  then obtain u r where "price_carts cs u = (Inr r, t)" and
    "(case r of None \<Rightarrow> None
         | Some (price, virtual) \<Rightarrow> Some (cart_cents c + price, virtual))
      \<in> {Some (price, virtual), Some (price, virtual - 1)}" and "r = Some (p, v) \<Longrightarrow> virtual \<in> {v, v + 1}" for p v
    by (fastforce simp: run_ok split: if_splits option.splits prod.splits)
  then show ?case using Cons.IH [of u] by (fastforce split: option.splits)
qed (auto simp: run_ok)

lemma check_sums_None:
  assumes "check_sums rq price d = None"
  shows "of_int (cents_of (rq_discount_fee rq)) \<le> min d (of_int price)" and "0 \<le> cents_of (rq_post_fee rq)"
    and "0 \<le> cents_of (rq_payment rq)" and "\<bar>cents_of (rq_total_fee rq) - price\<bar> \<le> 10"
    and "\<bar>of_int (cents_of (rq_payment rq)) - (of_int price + of_int (cents_of (rq_post_fee rq)) - min d (of_int price))\<bar> \<le> 10"
  using assms by (auto simp: check_sums_def Let_def not_less split: if_splits)

text \<open>
  C8. What the page of carts accepts agrees with the prices. The price is the sum of the carts and the discount
  is what the coupons and the extras of the form are worth, at most the price; the discount of the client is not
  above it, no sum is negative, and the total and the payment of the client are within ten cents of the price and
  of the price with postage less the discount. So is the payment of any trade that is then made of the form.
\<close>

theorem accepted_carts_agree_with_prices:
  assumes "check_carts env rq cust cs m = (Inr (Inr ot), m')" and "price = sum_list (map cart_cents cs)"
  shows "\<exists>d. fst (calc_extra_discount env (rq_pay_extras rq) \<lparr>df_item_ids = map sc_item_id cs, df_buyer_id = cu_id cust,
        df_payment = of_int price, df_order_no = rq_uuid rq\<rparr> (snd (do_shop (price_carts cs) m))) = Inr d \<and>
    cents_of (rq_discount_fee rq) \<le> min d price \<and> 0 \<le> cents_of (rq_post_fee rq) \<and> 0 \<le> cents_of (rq_payment rq) \<and>
    \<bar>cents_of (rq_total_fee rq) - price\<bar> \<le> 10 \<and>
    (\<forall>addr n t n'. create_Saletrade rq addr cust ot n = (Inr (t, True), n') \<longrightarrow>
       \<bar>trade_cents t - (price + cents_of (rq_post_fee rq) - min d price)\<bar> \<le> 10)"
proof -
  define p where "p = calc_extra_discount env (rq_pay_extras rq) \<lparr>df_item_ids = map sc_item_id cs, df_buyer_id = cu_id cust,
    df_payment = of_int price, df_order_no = rq_uuid rq\<rparr>"
  from assms(1) obtain v m1 where carts: "do_shop (price_carts cs) m = (Inr (Some (price, v)), m1)"
    and rest: "bindE (tryE (bindE p (\<lambda>d. ret (Some d))) (\<lambda>_. ret None)) (\<lambda>d.
         case d of
           None \<Rightarrow> ret (Inl 3)
         | Some d \<Rightarrow>
             (case check_sums rq price (of_int d) of
                Some code \<Rightarrow> ret (Inl code)
              | None \<Rightarrow>
                  bindE (check_mixed_virtual_goods cs cust (rq_pay_extras rq) (cents_of (rq_payment rq))) (\<lambda>e.
                  ret (case e of
                         Some code \<Rightarrow> Inl code
                       | None \<Rightarrow> Inr (if v = length cs then ELECTRONIC_GOODS_ORDER
                            else case rq_order_type rq of None \<Rightarrow> SALE_ORDER | Some ot \<Rightarrow> ot))))) m1 = (Inr (Inr ot), m')"
    using price_carts_sum [of cs "ml_shop m"] assms(2) unfolding check_carts_def p_def
    by (fastforce simp: bindE_ok option_run_ok ret_run do_shop_run split: prod.splits)
  from rest obtain d where "fst (p m1) = Inr d" and sums: "check_sums rq price (of_int d) = None"
    by (cases "p m1"; cases "fst (p m1)")
      (auto simp: bindE_run tryE_run ret_run split: option.splits)
  moreover have "\<bar>cents_of (rq_payment rq) - (price + cents_of (rq_post_fee rq) - min d price)\<bar> \<le> 10"
  proof -
    have "of_int \<bar>cents_of (rq_payment rq) - (price + cents_of (rq_post_fee rq) - min d price)\<bar> \<le> (of_int 10 :: rat)"
      using check_sums_None(5) [OF sums] by simp
    then show ?thesis by (simp only: of_int_le_iff)
  qed
  moreover have "trade_cents t = cents_of (rq_payment rq)" if "create_Saletrade rq addr cust ot n = (Inr (t, True), n')" for addr n t n'
  proof -
    from create_new_trade [OF that] obtain c where "make_trade rq addr c ot n = (Inr t, n')" .
    then show ?thesis by (rule make_trade_run) (rule new_trade_payments(1))
  qed
  moreover have "cents_of (rq_discount_fee rq) \<le> min d price"
  proof -
    have "(of_int (cents_of (rq_discount_fee rq)) :: rat) \<le> of_int (min d price)" using check_sums_None(1) [OF sums] by simp
    then show ?thesis by (simp only: of_int_le_iff)
  qed
  ultimately show ?thesis
    using check_sums_None(2-4) [OF sums] carts unfolding p_def by (intro exI [of _ d]) auto
qed

theorem accepted_carts_agree_with_prices_witness:
  "\<exists>m'. check_carts example_env example_form example_customer [example_cart] cart_mall = (Inr (Inr SALE_ORDER), m') \<and>
     \<bar>cents_of (rq_total_fee example_form) - 2000\<bar> \<le> 10"
proof -
  have "fst (check_carts example_env example_form example_customer [example_cart] cart_mall) = Inr (Inr SALE_ORDER)"
    "(2000 :: int) = sum_list (map cart_cents [example_cart])"
    by code_simp+
  with accepted_carts_agree_with_prices [OF returned] show ?thesis by (blast dest: returned)
qed

section \<open>The task that runs by itself\<close>

lemma count_frame:
  "task_shoppingcart_update_productskustats_shoppingcart_num k s = (r, t) \<Longrightarrow> \<exists>S. t = s\<lparr>d_stocks := S\<rparr>"
  by (auto simp: task_shoppingcart_update_productskustats_shoppingcart_num_def get_by_sku_def save_stock_fields_def
        prog_simps Let_def split: option.splits sum.splits if_splits intro: exI [of _ "d_stocks s"])

lemma counts_frame:
  "forE task_shoppingcart_update_productskustats_shoppingcart_num ks s = (r, t) \<Longrightarrow> \<exists>S. t = s\<lparr>d_stocks := S\<rparr>"
proof (induction ks arbitrary: s)
  case (Cons k ks)
  obtain q u where k: "task_shoppingcart_update_productskustats_shoppingcart_num k s = (q, u)" by fastforce
  from count_frame [OF this] obtain S where "u = s\<lparr>d_stocks := S\<rparr>" by blast
  with k Cons show ?case by (cases q) (auto simp: forE_Cons_run dest!: Cons.IH)
next
  case Nil
  then have "t = s\<lparr>d_stocks := d_stocks s\<rparr>" by (simp add: forE_Nil_run)
  then show ?case by blast
qed

text \<open>
  A run of the task that closes a cart spares the trades. When the time of some cart is over, the task
  closes every such cart and counts again, and all else stays as it was: trades that should have been paid
  long ago are not looked at, because the list of SKUs it tests is the one it just filled.
\<close>

theorem expired_carts_spare_unpaid_trades:
  assumes "timed_out_skus (ml_shop (pay_mall s)) \<noteq> []" and "task_schedule_cart env s = (Inr (), t)"
  shows "(\<exists>S. t = s\<lparr>pay_mall := (pay_mall s)\<lparr>ml_shop := (ml_shop (pay_mall s))\<lparr>
      d_carts := q_update (timed_out (pay_now s)) (\<lambda>c. c\<lparr>sc_normal := False\<rparr>) (d_carts (ml_shop (pay_mall s))),
      d_stocks := S\<rparr>\<rparr>\<rparr>) \<and>
    (\<forall>c \<in> set (d_carts (ml_shop (pay_mall t))). \<not> timed_out (pay_now t) c)"
proof -
  define sh where "sh = ml_shop (pay_mall s)"
  define C where "C = q_update (timed_out (pay_now s)) (\<lambda>c. c\<lparr>sc_normal := False\<rparr>) (d_carts sh)"
  define sh1 where "sh1 = sh\<lparr>d_carts := C\<rparr>"
  from assms obtain ks u where counts: "forE task_shoppingcart_update_productskustats_shoppingcart_num ks sh1 = (Inr (), u)"
    and t: "t = s\<lparr>pay_mall := (pay_mall s)\<lparr>ml_shop := u\<rparr>\<rparr>"
    by (auto simp: task_schedule_cart_def run_ok sh1_def C_def sh_def pay_now_def)
  from counts_frame [OF counts] obtain S where u: "u = sh1\<lparr>d_stocks := S\<rparr>" by blast
  have "pay_now t = pay_now s" by (simp add: t u sh1_def pay_now_def sh_def)
  then have "\<forall>c \<in> set (d_carts (ml_shop (pay_mall t))). \<not> timed_out (pay_now t) c"
    by (auto simp: t u sh1_def C_def q_update_def timed_out_def)
  moreover have "t = s\<lparr>pay_mall := (pay_mall s)\<lparr>ml_shop := (ml_shop (pay_mall s))\<lparr>
      d_carts := q_update (timed_out (pay_now s)) (\<lambda>c. c\<lparr>sc_normal := False\<rparr>) (d_carts (ml_shop (pay_mall s))),
      d_stocks := S\<rparr>\<rparr>\<rparr>"
    by (simp add: t u sh1_def C_def sh_def)
  ultimately show ?thesis by blast
qed

text \<open>A trade whose time to be paid is over, and a cart whose time is over, too.\<close>

definition expired_till :: pay_db where
  "expired_till = example_till\<lparr>pay_mall := (share_mall 1)\<lparr>ml_shop := (ml_shop (share_mall 1))\<lparr>
     d_trades := [(share_trade 1)\<lparr>st_created := midnight 736079 + 3600\<rparr>],
     d_carts := [example_cart\<lparr>sc_remain_time := Some 0\<rparr>]\<rparr>\<rparr>\<rparr>"

theorem expired_carts_spare_unpaid_trades_witness:
  "\<exists>t. task_schedule_cart example_env expired_till = (Inr (), t) \<and>
     map st_status (d_trades (ml_shop (pay_mall t))) = [WAIT_BUYER_PAY] \<and>
     map (\<lambda>x. is_payable x (pay_now t)) (d_trades (ml_shop (pay_mall t))) = [False]"
proof -
  have "fst (task_schedule_cart example_env expired_till) = Inr ()" by code_simp
  then obtain t where run: "task_schedule_cart example_env expired_till = (Inr (), t)" by (blast dest: returned)
  have "timed_out_skus (ml_shop (pay_mall expired_till)) \<noteq> []"
    "map st_status (d_trades (ml_shop (pay_mall expired_till))) = [WAIT_BUYER_PAY]"
    "map (\<lambda>x. is_payable x (pay_now expired_till)) (d_trades (ml_shop (pay_mall expired_till))) = [False]"
    by code_simp+
  with expired_carts_spare_unpaid_trades [OF _ run] run show ?thesis by (auto simp: pay_now_def)
qed

end
