(* ===== verification/Vouchers.thy ===== *)
theory Vouchers
  imports Carry Payments
begin

text \<open>
  Making coupons: the templates (\<open>CouponTemplate\<close>), the links a customer shares
  (\<open>OrderShareCoupon\<close>), and the functions of \<open>src/flashsale/coupon/apis/v1/usercoupon.py\<close> and
  \<open>tasks\<close> that give coupons to customers and count them. The state holds the sellers' state with the
  coupons, the templates, the shares and the queue of tasks. What \<open>random\<close> draws and the numbers
  \<open>uniqid\<close> makes from the clock are in the record \<open>promo_env\<close>. Of the JSON columns the keys that are read
  are columns; the nicks and pictures that are only copied are left out.
\<close>

section \<open>Rows and the state\<close>

datatype tpl_status = TP_CREATE | TP_SENDING | TP_FINISHED | TP_CANCEL

text \<open>\<open>tp_zone\<close> is the key \<open>zone_config\<close> of \<open>randoms\<close>, the list \<open>zone\<close> with the list
  \<open>zone_rate\<close>, where it is there.\<close>

record tpl =
  tp_id :: pk_id
  tp_title :: string
  tp_value :: yuan
  tp_is_random_val :: bool
  tp_prepare_release_num :: int
  tp_is_flextime :: bool
  tp_release_start_time :: "time option"
  tp_use_deadline :: "time option"
  tp_has_released_count :: int
  tp_has_used_count :: int
  tp_type :: coupon_type
  tp_target_user :: int
  tp_status :: tpl_status
  tp_min_val :: rat
  tp_max_val :: rat
  tp_zone :: "((rat \<times> rat) list \<times> nat list) option"
  tp_limit_days :: int
  tp_use_days :: int
  tp_share_times_limit :: int

datatype share_status = SHARE_SENDING | SHARE_FINISHED

record order_share =
  sh_id :: pk_id
  sh_template_id :: pk_id
  sh_share_customer :: pk_id
  sh_uniq_id :: string
  sh_release_count :: int
  sh_has_used_count :: int
  sh_limit_share_count :: int
  sh_platform :: string
  sh_start_time :: time
  sh_end_time :: time
  sh_status :: share_status

datatype promo_job =
    TPL_RELEASED_NUMS pk_id
  | SHARE_RELEASE_COUNT pk_id
  | RELEASE_FOR_DEPOSIT pk_id int "pk_id option" "pk_id option"

record promo_db =
  pr_sellers :: seller_db
  pr_templates :: "tpl table"
  pr_shares :: "order_share table"
  pr_jobs :: "promo_job list"

abbreviation pr_mall :: "promo_db \<Rightarrow> mall_db" where
  "pr_mall s \<equiv> sl_mall (pr_sellers s)"

abbreviation pr_cdb :: "promo_db \<Rightarrow> coupon_db" where
  "pr_cdb s \<equiv> ml_coupons (pr_mall s)"

abbreviation pr_coupons :: "promo_db \<Rightarrow> user_coupon table" where
  "pr_coupons s \<equiv> cp_coupons (pr_cdb s)"

abbreviation pr_now :: "promo_db \<Rightarrow> time" where
  "pr_now s \<equiv> cp_now (pr_cdb s)"

interpretation tpl_table: orm_table tp_id "\<lambda>i. tp_id_update (\<lambda>_. i)" by unfold_locales simp
interpretation share_table: orm_table sh_id "\<lambda>i. sh_id_update (\<lambda>_. i)" by unfold_locales simp

definition do_sellers :: "(seller_db, 'a) prog \<Rightarrow> (promo_db, 'a) prog" where
  "do_sellers = zoom pr_sellers (\<lambda>x. pr_sellers_update (\<lambda>_. x))"

definition do_promo_coupons :: "(coupon_db, 'a) prog \<Rightarrow> (promo_db, 'a) prog" where
  "do_promo_coupons m = do_sellers (do_mall (do_coupons m))"

definition promo_later :: "promo_job \<Rightarrow> (promo_db, unit) prog" where
  "promo_later j = modify (\<lambda>s. s\<lparr>pr_jobs := pr_jobs s @ [j]\<rparr>)"

text \<open>\<open>random.uniform\<close>, \<open>random.choice\<close> on a list that is not empty, and the number of the next
  coupon, from the key of its row.\<close>

record promo_env =
  pe_uniform :: "rat \<Rightarrow> rat \<Rightarrow> rat"
  pe_choice :: "nat list \<Rightarrow> nat"
  pe_coupon_no :: "nat \<Rightarrow> string"

section \<open>Templates\<close>

fun coupon_type_code :: "coupon_type \<Rightarrow> nat" where
  "coupon_type_code CT_NORMAL = 1"
| "coupon_type_code CT_ORDER_SHARE = 2"
| "coupon_type_code CT_MAMA_INVITE = 3"
| "coupon_type_code CT_COMPENSATE = 4"
| "coupon_type_code CT_ORDER_BENEFIT = 5"
| "coupon_type_code CT_ACTIVE_SHARE = 6"
| "coupon_type_code CT_CASHOUT_EXCHANGE = 7"
| "coupon_type_code CT_TRANSFER = 8"

definition TARGET_ALL :: int where
  "TARGET_ALL = 1"

definition get_coupon_template_by_id :: "pk_id \<Rightarrow> promo_db \<Rightarrow> py_error + tpl" where
  "get_coupon_template_by_id i s = q_get (\<lambda>t. tp_id t = i) (pr_templates s)"

definition get_order_share_coupon_by_id :: "pk_id \<Rightarrow> promo_db \<Rightarrow> py_error + order_share" where
  "get_order_share_coupon_by_id i s = q_get (\<lambda>h. sh_id h = i) (pr_shares s)"

definition get_share_coupon_by_tid :: "string \<Rightarrow> promo_db \<Rightarrow> order_share option" where
  "get_share_coupon_by_tid tid s = q_first (filter (\<lambda>h. sh_uniq_id h = tid) (pr_shares s))"

definition remain_num :: "order_share \<Rightarrow> int" where
  "remain_num h = sh_limit_share_count h - sh_release_count h"

definition template_valid :: "tpl \<Rightarrow> bool" where
  "template_valid t \<longleftrightarrow> tp_status t \<in> {TP_SENDING, TP_FINISHED}"

definition template_valid_check :: "tpl \<Rightarrow> py_error + unit" where
  "template_valid_check t =
     (if tp_status t \<notin> {TP_SENDING, TP_FINISHED} then Inl (AssertionError ''invalid template'') else Inr ())"

text \<open>A time that is not set cannot be compared.\<close>

definition check_date :: "tpl \<Rightarrow> time \<Rightarrow> py_error + unit" where
  "check_date t at_time =
     (case tp_release_start_time t of
        None \<Rightarrow> Inl TypeError
      | Some start \<Rightarrow>
          if \<not> start \<le> at_time then Inl (AssertionError ''closed'')
          else (case tp_use_deadline t of
             None \<Rightarrow> Inl TypeError
           | Some deadline \<Rightarrow> if at_time \<le> deadline then Inr () else Inl (AssertionError ''closed'')))"

text \<open>\<open>make_uniq_id\<close>: a key that is 0 counts as not given.\<close>

definition make_uniq_id :: "tpl \<Rightarrow> pk_id \<Rightarrow> pk_id \<Rightarrow> pk_id \<Rightarrow> pk_id \<Rightarrow> nat \<Rightarrow> string" where
  "make_uniq_id t customer_id trade_id share_id cashout_id count =
     join_with ''_'' (map str_nat ([tp_id t, coupon_type_code (tp_type t), customer_id] @
       (if trade_id \<noteq> 0 then [trade_id]
        else if share_id \<noteq> 0 then [share_id]
        else if tp_type t = CT_CASHOUT_EXCHANGE \<and> cashout_id \<noteq> 0 then [cashout_id]
        else if count \<noteq> 0 then [count] else [])))"

definition gen_usercoupon_unikey :: "tpl \<Rightarrow> string \<Rightarrow> nat \<Rightarrow> string" where
  "gen_usercoupon_unikey t order_id index =
     join_with ''_'' [str_nat (tp_id t), str_nat (coupon_type_code (tp_type t)), order_id, str_nat index]"

text \<open>\<open>float('%.1f' % x)\<close>\<close>

definition py_fmt1 :: "rat \<Rightarrow> rat" where
  "py_fmt1 x = of_int (half_even (x * 10)) / 10"

text \<open>The loop that repeats every index of \<open>zone_rate\<close> as often as its rate says.\<close>

fun zone_choices :: "nat \<Rightarrow> nat list \<Rightarrow> nat list" where
  "zone_choices index [] = []"
| "zone_choices index (v # vs) = replicate v index @ zone_choices (Suc index) vs"

definition calculate_value :: "promo_env \<Rightarrow> tpl \<Rightarrow> py_error + yuan" where
  "calculate_value env t =
     (if tp_is_random_val t \<and> tp_min_val t \<noteq> 0 \<and> tp_max_val t \<noteq> 0 then
        (case tp_zone t of
           None \<Rightarrow> Inr (py_fmt1 (pe_uniform env (tp_max_val t) (tp_min_val t)))
         | Some (zone, zone_rate) \<Rightarrow>
             (let choice_l = zone_choices 0 zone_rate in
              if choice_l = [] then Inl (Exn ''IndexError'')
              else
                (let target = pe_choice env choice_l in
                 if target < length zone
                 then Inr (py_fmt1 (pe_uniform env (fst (zone ! target)) (snd (zone ! target))))
                 else Inl (Exn ''IndexError''))))
      else Inr (tp_value t))"

definition days :: "int \<Rightarrow> time" where
  "days n = n * 86400"

text \<open>\<open>calculate_value_and_time\<close>: the value, and from when until when the coupon may be used.\<close>

definition calculate_value_and_time :: "promo_env \<Rightarrow> tpl \<Rightarrow> time \<Rightarrow> py_error + (yuan \<times> time \<times> time option)" where
  "calculate_value_and_time env t at_time =
     (case calculate_value env t of
        Inl e \<Rightarrow> Inl e
      | Inr value \<Rightarrow>
          if \<not> tp_is_flextime t then Inr (value, at_time, tp_use_deadline t)
          else if \<not> (tp_limit_days t = 0 \<or> tp_use_days t = 0) then Inl (AssertionError '''')
          else
            (let expires = (if tp_limit_days t \<noteq> 0 then Some (at_time + days (tp_limit_days t))
                   else tp_use_deadline t);
                 start = (if tp_use_days t \<noteq> 0 then at_time + days (tp_use_days t) else at_time);
                 expires = (if tp_use_days t \<noteq> 0 then tp_use_deadline t else expires)
             in case expires of
                  None \<Rightarrow> Inl TypeError
                | Some e \<Rightarrow> if start < e then Inr (value, start, Some e) else Inl (AssertionError '''')))"

section \<open>May the customer have one\<close>

definition check_template :: "tpl \<Rightarrow> time \<Rightarrow> py_error + bool" where
  "check_template t at_time =
     (case template_valid_check t of
        Inl e \<Rightarrow> Inl e
      | Inr _ \<Rightarrow> (case check_date t at_time of Inl e \<Rightarrow> Inl e | Inr _ \<Rightarrow> Inr True))"

definition check_target_user :: "customer \<Rightarrow> tpl \<Rightarrow> coupon_db \<Rightarrow> bool" where
  "check_target_user c t k \<longleftrightarrow>
     (if tp_target_user t \<noteq> TARGET_ALL
      then (case getXiaolumm c k of None \<Rightarrow> TARGET_ALL | Some m \<Rightarrow> ma_agencylevel m)
      else TARGET_ALL) = tp_target_user t"

definition template_coupon :: "pk_id \<Rightarrow> user_coupon \<Rightarrow> bool" where
  "template_coupon i c \<longleftrightarrow> uc_template_id c = i \<and> uc_status c \<noteq> UC_CANCEL"

definition get_template_coupons :: "pk_id \<Rightarrow> user_coupon table \<Rightarrow> user_coupon list" where
  "get_template_coupons i cs = filter (template_coupon i) cs"

definition check_template_release_num :: "tpl \<Rightarrow> promo_db \<Rightarrow> bool" where
  "check_template_release_num t s \<longleftrightarrow>
     \<not> int (length (get_template_coupons (tp_id t) (pr_coupons s))) > tp_prepare_release_num t"

text \<open>The three tests both functions begin with: the code of the answer, 0 when they are passed.\<close>

definition release_checks :: "customer \<Rightarrow> tpl \<Rightarrow> promo_db \<Rightarrow> py_error + nat" where
  "release_checks c t s =
     (if \<not> check_target_user c t (pr_cdb s) then Inr 1
      else (case check_template t (pr_now s) of
         Inl e \<Rightarrow> Inl e
       | Inr b \<Rightarrow> if \<not> b then Inr 2 else if \<not> check_template_release_num t s then Inr 3 else Inr 0))"

section \<open>Making a coupon\<close>

definition modify_coupons :: "(user_coupon table \<Rightarrow> user_coupon table) \<Rightarrow> (promo_db, unit) prog" where
  "modify_coupons f = modify (\<lambda>s. s\<lparr>pr_sellers := sl_mall_update (ml_coupons_update (cp_coupons_update f)) (pr_sellers s)\<rparr>)"

definition insert_coupon :: "user_coupon \<Rightarrow> (promo_db, user_coupon) prog" where
  "insert_coupon c =
     bindE (asks (\<lambda>s. q_exists (\<lambda>x. uc_uniq_id x = uc_uniq_id c \<or> uc_coupon_no x = uc_coupon_no c) (pr_coupons s))) (\<lambda>taken.
     if taken then raise IntegrityError
     else
       bindE (asks (\<lambda>s. c\<lparr>uc_id := fresh_pk uc_id (pr_coupons s)\<rparr>)) (\<lambda>c.
       thenE (modify_coupons (\<lambda>t. t @ [c])) (ret c)))"

text \<open>\<open>cou = UserCoupon(...)\<close> and \<open>cou.save()\<close>; the time of expiry may not be null.\<close>

definition make_coupon ::
  "promo_env \<Rightarrow> tpl \<Rightarrow> pk_id \<Rightarrow> yuan \<times> time \<times> time option \<Rightarrow> string \<Rightarrow> string \<Rightarrow> nat option \<Rightarrow> bool \<Rightarrow> (promo_db, user_coupon) prog" where
  "make_coupon env t customer_id vt ufrom key buy_type is_buyed =
     (case vt of (value, start, expires) \<Rightarrow>
      (case expires of
         None \<Rightarrow> raise IntegrityError
       | Some e \<Rightarrow>
           bindE (asks (\<lambda>s. pe_coupon_no env (fresh_pk uc_id (pr_coupons s)))) (\<lambda>no.
           insert_coupon \<lparr>uc_id = 0, uc_template_id = tp_id t, uc_title = tp_title t, uc_type = tp_type t,
             uc_customer_id = customer_id, uc_share_user_id = None, uc_order_coupon_id = None,
             uc_coupon_no = no, uc_value = value, uc_trade_tid = None, uc_finished_time = None,
             uc_start_use_time = start, uc_expires_time = e, uc_ufrom = ufrom, uc_uniq_id = key,
             uc_status = UC_UNUSED, uc_is_buyed = is_buyed, uc_is_pushed = False, uc_is_chained = False,
             uc_transfer_coupon_pk = None, uc_chain = None, uc_freeze_by = None, uc_freeze_type = False,
             uc_buy_type = buy_type\<rparr>)))"

definition coupon_by_key :: "string \<Rightarrow> promo_db \<Rightarrow> user_coupon option" where
  "coupon_by_key key s = q_first (filter (\<lambda>c. uc_uniq_id c = key) (pr_coupons s))"

record coupon_request =
  cq_unique_key :: "string option"
  cq_trade_id :: pk_id
  cq_cash_out_id :: pk_id
  cq_order_share_id :: pk_id
  cq_coupon_value :: yuan
  cq_ufrom :: string

definition plain_request :: coupon_request where
  "plain_request = \<lparr>cq_unique_key = None, cq_trade_id = 0, cq_cash_out_id = 0, cq_order_share_id = 0,
     cq_coupon_value = 0, cq_ufrom = ''wap''\<rparr>"

definition request_key :: "tpl \<Rightarrow> pk_id \<Rightarrow> coupon_request \<Rightarrow> string" where
  "request_key t customer_id r =
     (let k = arg_or (cq_unique_key r) (make_uniq_id t customer_id 0 0 0 0);
          k = (if cq_trade_id r \<noteq> 0 then make_uniq_id t customer_id (cq_trade_id r) 0 0 0 else k)
      in if cq_cash_out_id r \<noteq> 0 then make_uniq_id t customer_id 0 0 (cq_cash_out_id r) 0 else k)"

text \<open>The part of \<open>create_user_coupon\<close> for a shared coupon: an answer, or the share with the key and
  the value it gives.\<close>

definition share_coupon_of :: "tpl \<Rightarrow> pk_id \<Rightarrow> order_share \<Rightarrow> promo_db \<Rightarrow> user_coupon option" where
  "share_coupon_of t customer_id h s =
     q_first (filter (\<lambda>c. template_coupon (tp_id t) c \<and> uc_customer_id c = customer_id
        \<and> uc_order_coupon_id c = Some (sh_id h)) (pr_coupons s))"

definition share_part ::
  "tpl \<Rightarrow> pk_id \<Rightarrow> pk_id \<Rightarrow> promo_db \<Rightarrow> py_error + ((user_coupon option \<times> nat) + order_share)" where
  "share_part t customer_id order_share_id s =
     (case get_order_share_coupon_by_id order_share_id s of
        Inl e \<Rightarrow> Inl e
      | Inr h \<Rightarrow>
          (case share_coupon_of t customer_id h s of
             Some c \<Rightarrow> Inr (Inl (Some c, 4))
           | None \<Rightarrow>
               if \<not> sh_release_count h < sh_limit_share_count h then Inr (Inl (None, 5)) else Inr (Inr h)))"

text \<open>\<open>cou.order_coupon_id = ...; cou.save(update_fields=['order_coupon_id'])\<close>\<close>

definition mark_shared :: "user_coupon \<Rightarrow> order_share \<Rightarrow> (promo_db, user_coupon) prog" where
  "mark_shared c h =
     thenE (modify_coupons (q_update (\<lambda>x. uc_id x = uc_id c) (\<lambda>x. x\<lparr>uc_order_coupon_id := Some (sh_id h)\<rparr>)))
     (thenE (promo_later (SHARE_RELEASE_COUNT (sh_id h))) (ret (c\<lparr>uc_order_coupon_id := Some (sh_id h)\<rparr>)))"

definition give_coupon ::
  "promo_env \<Rightarrow> tpl \<Rightarrow> pk_id \<Rightarrow> yuan \<times> time \<times> time option \<Rightarrow> string \<Rightarrow> string \<Rightarrow> order_share option \<Rightarrow> (promo_db, user_coupon option \<times> nat) prog" where
  "give_coupon env t customer_id vt ufrom key share =
     bindE (asks (coupon_by_key key)) (\<lambda>cou.
     case cou of
       Some c \<Rightarrow> ret (Some c, 6)
     | None \<Rightarrow>
         bindE (make_coupon env t customer_id vt ufrom key None False) (\<lambda>c.
         bindE (case share of None \<Rightarrow> ret c | Some h \<Rightarrow> mark_shared c h) (\<lambda>c.
         thenE (promo_later (TPL_RELEASED_NUMS (tp_id t))) (ret (Some c, 0)))))"

definition create_user_coupon ::
  "promo_env \<Rightarrow> pk_id \<Rightarrow> pk_id \<Rightarrow> coupon_request \<Rightarrow> (promo_db, user_coupon option \<times> nat) prog" where
  "create_user_coupon env customer_id coupon_template_id r =
     bindE (liftE (get_coupon_template_by_id coupon_template_id)) (\<lambda>t.
     bindE (liftE (\<lambda>s. get_customer_row customer_id (pr_sellers s))) (\<lambda>customer.
     bindE (liftE (release_checks customer t)) (\<lambda>code.
     if code \<noteq> 0 then ret (None, code)
     else
       bindE (liftE (\<lambda>s. calculate_value_and_time env t (pr_now s))) (\<lambda>(value, start, expires).
       if cq_order_share_id r = 0 then
         give_coupon env t customer_id (value, start, expires) (cq_ufrom r) (request_key t customer_id r) None
       else
         bindE (liftE (share_part t customer_id (cq_order_share_id r))) (\<lambda>p.
         case p of
           Inl answer \<Rightarrow> ret answer
         | Inr h \<Rightarrow>
             give_coupon env t customer_id
               (if cq_coupon_value r \<noteq> 0 then cq_coupon_value r else value, start, expires) (cq_ufrom r)
               (make_uniq_id t customer_id 0 (sh_id h) 0 0) (Some h))))))"

text \<open>\<open>create_boutique_user_coupon\<close>: a coupon that was bought, with money or with coins. It starts no
  task.\<close>

definition create_boutique_user_coupon ::
  "promo_env \<Rightarrow> customer \<Rightarrow> tpl \<Rightarrow> bool \<Rightarrow> string option \<Rightarrow> string \<Rightarrow> bool \<Rightarrow> (promo_db, user_coupon option \<times> nat) prog" where
  "create_boutique_user_coupon env customer t coin_pay unique_key ufrom is_buyed =
     bindE (liftE (release_checks customer t)) (\<lambda>code.
     if code \<noteq> 0 then ret (None, code)
     else
       bindE (liftE (\<lambda>s. calculate_value_and_time env t (pr_now s))) (\<lambda>vt.
       let key = arg_or unique_key (make_uniq_id t (cu_id customer) 0 0 0 0) in
       bindE (asks (coupon_by_key key)) (\<lambda>cou.
       case cou of
         Some c \<Rightarrow> ret (Some c, 6)
       | None \<Rightarrow>
           bindE (make_coupon env t (cu_id customer) vt ufrom key (Some (if coin_pay then 1 else 0)) is_buyed) (\<lambda>c.
           ret (Some c, 0)))))"

definition sync_coupon_value_by_template :: "tpl \<Rightarrow> (promo_db, nat) prog" where
  "sync_coupon_value_by_template t =
     (let P = (\<lambda>c. template_coupon (tp_id t) c \<and> uc_status c \<in> {UC_UNUSED, UC_FREEZE}) in
      bindE (asks (\<lambda>s. q_count P (pr_coupons s))) (\<lambda>n.
      thenE (modify_coupons (q_update P (\<lambda>c. c\<lparr>uc_value := tp_value t\<rparr>))) (ret n)))"

text \<open>\<open>create_share_coupon\<close>; the number of a share is unique, and its times may not be null.\<close>

definition create_share_coupon ::
  "promo_env \<Rightarrow> pk_id \<Rightarrow> pk_id \<Rightarrow> string \<Rightarrow> string \<Rightarrow> (promo_db, order_share) prog" where
  "create_share_coupon env coupon_template_id customer_id uniq_id ufrom =
     bindE (liftE (get_coupon_template_by_id coupon_template_id)) (\<lambda>t.
     bindE (liftE (\<lambda>s. calculate_value_and_time env t (pr_now s))) (\<lambda>(value, start, expires).
     bindE (asks (\<lambda>s. q_exists (\<lambda>h. sh_uniq_id h = uniq_id) (pr_shares s))) (\<lambda>taken.
     case expires of
       None \<Rightarrow> raise IntegrityError
     | Some e \<Rightarrow>
         if taken then raise IntegrityError
         else
           bindE (asks (\<lambda>s. \<lparr>sh_id = fresh_pk sh_id (pr_shares s), sh_template_id = tp_id t,
             sh_share_customer = customer_id, sh_uniq_id = uniq_id, sh_release_count = 0,
             sh_has_used_count = 0, sh_limit_share_count = tp_share_times_limit t, sh_platform = ufrom,
             sh_start_time = start, sh_end_time = e, sh_status = SHARE_SENDING\<rparr>)) (\<lambda>h.
           thenE (modify (\<lambda>s. s\<lparr>pr_shares := pr_shares s @ [h]\<rparr>)) (ret h)))))"

section \<open>Tasks\<close>

definition task_update_tpl_released_coupon_nums :: "pk_id \<Rightarrow> (promo_db, unit) prog" where
  "task_update_tpl_released_coupon_nums i =
     bindE (liftE (get_coupon_template_by_id i)) (\<lambda>t.
     modify (\<lambda>s. s\<lparr>pr_templates := q_update (\<lambda>x. tp_id x = tp_id t)
       (\<lambda>x. x\<lparr>tp_has_released_count := int (length (get_template_coupons i (pr_coupons s)))\<rparr>) (pr_templates s)\<rparr>))"

definition task_update_share_coupon_release_count :: "pk_id \<Rightarrow> (promo_db, unit) prog" where
  "task_update_share_coupon_release_count i =
     bindE (liftE (get_order_share_coupon_by_id i)) (\<lambda>h.
     modify (\<lambda>s. s\<lparr>pr_shares := q_update (\<lambda>x. sh_id x = sh_id h)
       (\<lambda>x. x\<lparr>sh_release_count := int (q_count (\<lambda>c. uc_order_coupon_id c = Some i) (pr_coupons s))\<rparr>) (pr_shares s)\<rparr>))"

definition task_update_coupon_use_count :: "pk_id \<Rightarrow> pk_id \<Rightarrow> (promo_db, unit) prog" where
  "task_update_coupon_use_count i share_id =
     bindE (liftE (get_coupon_template_by_id i)) (\<lambda>t.
     thenE (modify (\<lambda>s. s\<lparr>pr_templates := q_update (\<lambda>x. tp_id x = tp_id t)
       (\<lambda>x. x\<lparr>tp_has_used_count := int (length (filter (\<lambda>c. uc_status c = UC_USED)
          (get_template_coupons i (pr_coupons s))))\<rparr>) (pr_templates s)\<rparr>))
     (whenE (share_id \<noteq> 0)
       (bindE (liftE (get_order_share_coupon_by_id share_id)) (\<lambda>h.
        modify (\<lambda>s. s\<lparr>pr_shares := q_update (\<lambda>x. sh_id x = sh_id h)
          (\<lambda>x. x\<lparr>sh_has_used_count := int (q_count (\<lambda>c. uc_order_coupon_id c = Some (sh_id h)
             \<and> uc_status c = UC_USED) (pr_coupons s))\<rparr>) (pr_shares s)\<rparr>)))))"

text \<open>\<open>task_release_coupon_for_deposit\<close>: the coupons that come with a deposit of 99 or 188.\<close>

definition deposit_type_tplids_map :: "int \<Rightarrow> pk_id list option" where
  "deposit_type_tplids_map = map_of [(99, [117, 118, 79]), (188, [117, 118, 167, 168, 39])]"

definition given :: "pk_id option \<Rightarrow> pk_id" where
  "given a = (case a of None \<Rightarrow> 0 | Some i \<Rightarrow> i)"

definition task_release_coupon_for_deposit ::
  "promo_env \<Rightarrow> pk_id \<Rightarrow> int \<Rightarrow> pk_id option \<Rightarrow> pk_id option \<Rightarrow> (promo_db, unit) prog" where
  "task_release_coupon_for_deposit env customer_id deposit trade_id cash_out_id =
     (case deposit_type_tplids_map deposit of
        None \<Rightarrow> ret ()
      | Some tpl_ids \<Rightarrow>
          forE (\<lambda>i. bindE (create_user_coupon env customer_id i
            (plain_request\<lparr>cq_trade_id := given trade_id, cq_cash_out_id := given cash_out_id\<rparr>)) (\<lambda>_. ret ())) tpl_ids)"

definition release_coupon_for_deposit ::
  "pk_id \<Rightarrow> int \<Rightarrow> pk_id option \<Rightarrow> pk_id option \<Rightarrow> (promo_db, unit) prog" where
  "release_coupon_for_deposit customer_id deposit trade_id cash_out_id =
     promo_later (RELEASE_FOR_DEPOSIT customer_id deposit trade_id cash_out_id)"

fun run_promo_job :: "promo_env \<Rightarrow> promo_job \<Rightarrow> (promo_db, unit) prog" where
  "run_promo_job env (TPL_RELEASED_NUMS i) = task_update_tpl_released_coupon_nums i"
| "run_promo_job env (SHARE_RELEASE_COUNT i) = task_update_share_coupon_release_count i"
| "run_promo_job env (RELEASE_FOR_DEPOSIT c d t o') = task_release_coupon_for_deposit env c d t o'"

text \<open>\<open>task_release_coupon_for_order\<close> and \<open>task_release_mama_link_coupon\<close>: the coupons of the
  first template that is being sent out for buyers, and for the sellers whose link was used; \<open>special\<close> are the
  goods that give none.\<close>

definition sending_template :: "coupon_type \<Rightarrow> promo_db \<Rightarrow> tpl option" where
  "sending_template ty s = q_first (filter (\<lambda>t. tp_status t = TP_SENDING \<and> tp_type t = ty) (pr_templates s))"

definition task_release_coupon_for_order :: "promo_env \<Rightarrow> sale_trade \<Rightarrow> string \<Rightarrow> (promo_db, unit) prog" where
  "task_release_coupon_for_order env trade ufrom =
     bindE (asks (sending_template CT_ORDER_BENEFIT)) (\<lambda>t.
     case t of
       None \<Rightarrow> ret ()
     | Some t \<Rightarrow>
         bindE (create_user_coupon env (st_buyer_id trade) (tp_id t)
           (plain_request\<lparr>cq_trade_id := st_id trade, cq_ufrom := ufrom\<rparr>)) (\<lambda>_. ret ()))"

definition task_release_mama_link_coupon :: "promo_env \<Rightarrow> sale_trade \<Rightarrow> string \<Rightarrow> (promo_db, unit) prog" where
  "task_release_mama_link_coupon env trade ufrom =
     bindE (asks (\<lambda>s. q_first (orders_of (st_id trade) (ml_shop (pr_mall s))))) (\<lambda>order.
     if (case order of None \<Rightarrow> False | Some so \<Rightarrow> so_item_id so \<in> {22030, 14362, 2731}) then ret ()
     else if trade_mama_id trade = 0 then ret ()
     else
       bindE (asks (\<lambda>s. q_first (filter (\<lambda>m. ma_id m = trade_mama_id trade \<and> ma_charged m) (sl_mamas (pr_sellers s))))) (\<lambda>mama.
       case mama of
         None \<Rightarrow> ret ()
       | Some m \<Rightarrow>
           bindE (asks (\<lambda>s. get_mama_customer m (pr_sellers s))) (\<lambda>customer.
           bindE (asks (sending_template CT_MAMA_INVITE)) (\<lambda>t.
           case (customer, t) of
             (Some c, Some t) \<Rightarrow>
               bindE (create_user_coupon env (cu_id c) (tp_id t)
                 (plain_request\<lparr>cq_trade_id := st_id trade, cq_ufrom := ufrom\<rparr>)) (\<lambda>_. ret ())
           | _ \<Rightarrow> ret ()))))"

end
