(* ===== verification/Transfers.thy ===== *)
theory Transfers
  imports Carry
begin

text \<open>
  The pages on which sellers pass coupons on (\<open>src/flashsale/restpro/v2/views/views_coupon.py\<close>, with
  \<open>init_transfer_record\<close> and \<open>gen_transfer_record\<close> of
  \<open>src/flashsale/coupon/models/transfer_coupon.py\<close>). A seller who is not direct asks the seller above for
  coupons with a pending record; who has none asks the next one above under the same number \<open>order_no\<close>; who has
  enough delivers, and all records of the number are done. A page gives the code of its answer. The loop of
  \<open>get_ship_chain\<close> may go round for ever: then the server ends the request, which is the error
  \<open>Exn ''timeout''\<close> here.
\<close>

section \<open>Who asks\<close>

definition do_sl_coupons :: "(coupon_db, 'a) prog \<Rightarrow> (seller_db, 'a) prog" where
  "do_sl_coupons m = do_mall (do_coupons m)"

abbreviation sl_cdb :: "seller_db \<Rightarrow> coupon_db" where
  "sl_cdb s \<equiv> ml_coupons (sl_mall s)"

lemma do_sl_coupons_run: "do_sl_coupons m s =
    (fst (m (sl_cdb s)), s\<lparr>sl_mall := (sl_mall s)\<lparr>ml_coupons := snd (m (sl_cdb s))\<rparr>\<rparr>)"
  by (simp add: do_sl_coupons_def do_mall_def do_coupons_def zoom_run split: prod.split)

lemma do_sl_coupons_ok [run_ok]: "do_sl_coupons m s = (Inr x, t) \<longleftrightarrow>
    (\<exists>k. m (sl_cdb s) = (Inr x, k) \<and> t = s\<lparr>sl_mall := (sl_mall s)\<lparr>ml_coupons := k\<rparr>\<rparr>)"
  by (cases "m (sl_cdb s)") (auto simp: do_sl_coupons_run)

definition normal_customer_of_user :: "pk_id \<Rightarrow> seller_db \<Rightarrow> customer option" where
  "normal_customer_of_user u s =
     q_last (filter (\<lambda>c. cu_user c = u \<and> cu_status c = NORMAL) (sl_customers s))"

definition get_customer_by_django_user :: "pk_id \<Rightarrow> seller_db \<Rightarrow> customer option" where
  "get_customer_by_django_user u s = q_first (filter (\<lambda>c. cu_user c = u) (sl_customers s))"

definition page_charged_mama :: "pk_id \<Rightarrow> seller_db \<Rightarrow> mama option" where
  "page_charged_mama u s = Option.bind (normal_customer_of_user u s) (\<lambda>c. get_charged_mama c (sl_cdb s))"

definition get_referal_from_mama_id :: "pk_id \<Rightarrow> seller_db \<Rightarrow> pk_id option" where
  "get_referal_from_mama_id i s = map_option rr_from_mama_id (get_refer_to_relationships i s)"

definition normal_customer_by_unionid :: "string \<Rightarrow> seller_db \<Rightarrow> customer option" where
  "normal_customer_by_unionid u s =
     q_first (filter (\<lambda>c. cu_unionid c = u \<and> cu_status c = NORMAL) (sl_customers s))"

text \<open>The seller above, who must have a customer, whose nick and picture are copied.\<close>

definition upper_seller :: "mama \<Rightarrow> seller_db \<Rightarrow> py_error + mama" where
  "upper_seller m s =
     (case Option.bind (get_referal_from_mama_id (ma_id m) s) (\<lambda>i. find_mama i s) of
        None \<Rightarrow> Inl AttributeError
      | Some fm \<Rightarrow> (case mama_get_customer fm s of None \<Rightarrow> Inl AttributeError | Some _ \<Rightarrow> Inr fm))"

section \<open>Asking for coupons\<close>

text \<open>The end both functions have in common: the key must be new; the prices of both sellers are noted.\<close>

definition ask_for_coupons ::
  "mama \<Rightarrow> mama \<Rightarrow> transfer_record \<Rightarrow> (seller_db, nat) prog" where
  "ask_for_coupons to_mama from_mama r =
     bindE (asks (\<lambda>s. q_exists (\<lambda>x. tr_uni_key x = tr_uni_key r) (cp_records (sl_cdb s)))) (\<lambda>taken.
     if taken then ret 3
     else
       bindE (liftE (\<lambda>s. get_elite_score_by_templateid (tr_template_id r) (Some to_mama) (sl_cdb s))) (\<lambda>(_, _, price).
       bindE (liftE (\<lambda>s. get_elite_score_by_templateid (tr_template_id r) (Some from_mama) (sl_cdb s))) (\<lambda>(_, _, from_price).
       thenE (bindE (do_sl_coupons (insert_record (r\<lparr>tr_transfer_status := TR_PENDING,
           tr_elite_level := Some (elite_level to_mama), tr_to_mama_price := price,
           tr_from_mama_elite_level := Some (elite_level from_mama), tr_from_mama_price := from_price\<rparr>))) (\<lambda>_. ret ()))
       (thenE (do_sl_coupons (task_calc_xlmm_elite_score (ma_id to_mama))) (ret 0)))))"

definition page_product :: "pk_id \<Rightarrow> seller_db \<Rightarrow> product option" where
  "page_product i s = q_first (filter (\<lambda>p. prod_id p = i) (d_products (ml_shop (sl_mall s))))"

definition requesting_seller :: "pk_id \<Rightarrow> seller_db \<Rightarrow> py_error + mama" where
  "requesting_seller u s = (case page_charged_mama u s of None \<Rightarrow> Inl AttributeError | Some m \<Rightarrow> Inr m)"

definition init_transfer_record :: "pk_id \<Rightarrow> int \<Rightarrow> pk_id \<Rightarrow> pk_id \<Rightarrow> (seller_db, nat) prog" where
  "init_transfer_record request_user coupon_num template_id product_id =
     bindE (liftE (requesting_seller request_user)) (\<lambda>to_mama.
     if can_buy_transfer_coupon to_mama then ret 2
     else
       bindE (liftE (upper_seller to_mama)) (\<lambda>from_mama.
       bindE (asks (\<lambda>s. day_of (cp_now (sl_cdb s)))) (\<lambda>today.
       bindE (asks (\<lambda>s. transfer_gen_unikey (ma_id from_mama) (ma_id to_mama) template_id today 0 (sl_cdb s))) (\<lambda>uni_key.
       bindE (asks (\<lambda>s. transfer_gen_order_no (ma_id to_mama) template_id today (sl_cdb s))) (\<lambda>order_no.
       bindE (asks (\<lambda>s. template_value template_id (sl_cdb s))) (\<lambda>v.
       bindE (asks (page_product product_id)) (\<lambda>p.
       case (v, p) of
         (Some v, Some p) \<Rightarrow>
           (case (uni_key, order_no) of
              (None, _) \<Rightarrow> ret 2
            | (Some k, None) \<Rightarrow>
                bindE (asks (\<lambda>s. q_exists (\<lambda>x. tr_uni_key x = k) (cp_records (sl_cdb s)))) (\<lambda>taken.
                if taken then ret 3 else raise IntegrityError)
            | (Some k, Some no) \<Rightarrow>
                ask_for_coupons to_mama from_mama
                  ((record_of (ma_id from_mama) (ma_id to_mama) (ma_id to_mama) no template_id v coupon_num
                     OUT_TRANSFER k today)
                   \<lparr>tr_product_id := product_id, tr_elite_score := prod_elite_score p * coupon_num\<rparr>))
       | _ \<Rightarrow> raise AttributeError)))))))"

definition gen_transfer_record :: "pk_id \<Rightarrow> transfer_record \<Rightarrow> (seller_db, nat) prog" where
  "gen_transfer_record request_user reference =
     bindE (liftE (requesting_seller request_user)) (\<lambda>to_mama.
     if can_buy_transfer_coupon to_mama then ret 2
     else
       bindE (liftE (upper_seller to_mama)) (\<lambda>from_mama.
       bindE (asks (\<lambda>s. day_of (cp_now (sl_cdb s)))) (\<lambda>today.
       ask_for_coupons to_mama from_mama
         ((record_of (ma_id from_mama) (ma_id to_mama) (tr_init_from_mama_id reference) (tr_order_no reference)
            (tr_template_id reference) (tr_coupon_value reference) (tr_coupon_num reference) OUT_TRANSFER
            (gen_unikey_with_order_no (ma_id from_mama) (ma_id to_mama) (tr_order_no reference)) today)
          \<lparr>tr_product_id := tr_product_id reference, tr_elite_score := tr_elite_score reference\<rparr>))))"

definition open_request :: "pk_id \<Rightarrow> pk_id \<Rightarrow> transfer_record \<Rightarrow> bool" where
  "open_request mama template_id r \<longleftrightarrow> tr_to_mama_id r = mama \<and> tr_template_id r = template_id
     \<and> tr_type r = OUT_TRANSFER \<and> tr_transfer_status r \<in> {TR_PENDING, TR_PROCESSED} \<and> tr_effect r"

text \<open>\<open>start_transfer\<close>: the number is positive; the last argument is what the model of the product
  names as its template.\<close>

definition start_transfer :: "pk_id \<Rightarrow> int \<Rightarrow> pk_id \<Rightarrow> pk_id option \<Rightarrow> (seller_db, nat) prog" where
  "start_transfer u coupon_num product_id template =
     bindE (asks (page_product product_id)) (\<lambda>p.
     case (p, template) of
       (None, _) \<Rightarrow> raise AttributeError
     | (Some _, None) \<Rightarrow> ret 2
     | (Some _, Some template_id) \<Rightarrow>
         if template_id = 0 then ret 2
         else
           bindE (asks (normal_customer_of_user u)) (\<lambda>c.
           case c of
             None \<Rightarrow> raise AttributeError
           | Some c \<Rightarrow>
               bindE (asks (\<lambda>s. get_charged_mama c (sl_cdb s))) (\<lambda>m.
               case m of
                 None \<Rightarrow> ret 4
               | Some m \<Rightarrow>
                   bindE (asks (\<lambda>s. q_exists (open_request (ma_id m) template_id) (cp_records (sl_cdb s)))) (\<lambda>open.
                   if open then ret 3 else init_transfer_record u coupon_num template_id product_id))))"

section \<open>Delivering\<close>

definition transferable :: "pk_id \<Rightarrow> pk_id \<Rightarrow> coupon_db \<Rightarrow> user_coupon list" where
  "transferable customer_id template_id k = filter (\<lambda>c. uc_customer_id c = customer_id \<and> uc_type c = CT_TRANSFER
     \<and> uc_status c = UC_UNUSED \<and> uc_template_id c = template_id) (cp_coupons k)"

definition deliver_records :: "string \<Rightarrow> (coupon_db, unit) prog" where
  "deliver_records order_no = modify (\<lambda>k. k\<lparr>cp_records := q_update (\<lambda>r. tr_order_no r = order_no)
     (\<lambda>r. r\<lparr>tr_transfer_status := TR_DELIVERED\<rparr>) (cp_records k)\<rparr>)"

definition chain_or_timeout :: "pk_id \<Rightarrow> pk_id \<Rightarrow> seller_db \<Rightarrow> py_error + pk_id list" where
  "chain_or_timeout lower upper s =
     (case get_ship_chain lower upper s of None \<Rightarrow> Inl (Exn ''timeout'') | Some ch \<Rightarrow> Inr ch)"

definition rescore_order :: "string \<Rightarrow> (seller_db, unit) prog" where
  "rescore_order order_no =
     bindE (asks (\<lambda>s. filter (\<lambda>r. tr_order_no r = order_no) (cp_records (sl_cdb s)))) (\<lambda>rs.
     forE (\<lambda>r. do_sl_coupons (task_calc_xlmm_elite_score (tr_to_mama_id r))) rs)"

definition process_transfer_coupon :: "pk_id \<Rightarrow> pk_id \<Rightarrow> transfer_record \<Rightarrow> (seller_db, nat) prog" where
  "process_transfer_coupon customer_id init_from_customer_id record =
     bindE (asks (\<lambda>s. transferable customer_id (tr_template_id record) (sl_cdb s))) (\<lambda>coupons.
     if int (length coupons) < tr_coupon_num record then ret 3
     else
       thenE (atomic (
         thenE (do_sl_coupons (deliver_records (tr_order_no record)))
         (bindE (liftE (get_customer_row init_from_customer_id)) (\<lambda>init_customer.
          bindE (asks (\<lambda>s. get_xiaolumm init_customer (sl_cdb s))) (\<lambda>init_mama.
          case init_mama of
            None \<Rightarrow> raise AttributeError
          | Some im \<Rightarrow>
              bindE (liftE (chain_or_timeout (ma_id im) (tr_from_mama_id record))) (\<lambda>chain.
              do_sl_coupons (transfer_coupons (take (nat (tr_coupon_num record)) coupons)
                init_from_customer_id (tr_id record) chain)))))))
       (thenE (rescore_order (tr_order_no record)) (ret 0)))"

definition transfer_record_of :: "pk_id \<Rightarrow> seller_db \<Rightarrow> transfer_record option" where
  "transfer_record_of i s = q_first (filter (\<lambda>r. tr_id r = i) (cp_records (sl_cdb s)))"

definition process_coupon :: "pk_id \<Rightarrow> pk_id \<Rightarrow> (seller_db, nat) prog" where
  "process_coupon u pk =
     bindE (liftE (requesting_seller u)) (\<lambda>m.
     bindE (asks (transfer_record_of pk)) (\<lambda>record.
     case record of
       None \<Rightarrow> ret 2
     | Some r \<Rightarrow>
         if \<not> can_process r (ma_id m) then ret 2
         else
           bindE (asks (\<lambda>s. get_coupon_stock_num (ma_id m) (tr_template_id r) (sl_cdb s))) (\<lambda>stock_num.
           if stock_num \<ge> tr_coupon_num r then
             bindE (asks (mama_get_customer m)) (\<lambda>c.
             bindE (asks (\<lambda>s. Option.bind (find_mama (tr_init_from_mama_id r) s)
                (\<lambda>im. normal_customer_by_unionid (ma_openid im) s))) (\<lambda>ic.
             case (c, ic) of
               (Some c, Some ic) \<Rightarrow> process_transfer_coupon (cu_id c) (cu_id ic) r
             | _ \<Rightarrow> raise AttributeError))
           else
             bindE (asks (\<lambda>s. q_exists (open_request (ma_id m) (tr_template_id r)) (cp_records (sl_cdb s)))) (\<lambda>open.
             if open then ret 3
             else
               thenE (do_sl_coupons (set_transfer_status r TR_PROCESSED))
               (gen_transfer_record u (r\<lparr>tr_transfer_status := TR_PROCESSED\<rparr>))))))"

definition cancel_coupon :: "pk_id \<Rightarrow> pk_id \<Rightarrow> (seller_db, nat) prog" where
  "cancel_coupon u pk =
     bindE (liftE (requesting_seller u)) (\<lambda>m.
     bindE (asks (transfer_record_of pk)) (\<lambda>record.
     case record of
       None \<Rightarrow> ret 0
     | Some r \<Rightarrow>
         thenE (whenE (can_cancel r (ma_id m)) (do_sl_coupons (set_transfer_status r TR_CANCELED))) (ret 0)))"

definition transfer_coupon_page :: "pk_id \<Rightarrow> pk_id \<Rightarrow> (seller_db, nat) prog" where
  "transfer_coupon_page u pk =
     bindE (asks (get_customer_by_django_user u)) (\<lambda>c.
     bindE (asks (\<lambda>s. Option.bind c (\<lambda>c. get_charged_mama c (sl_cdb s)))) (\<lambda>m.
     bindE (asks (transfer_record_of pk)) (\<lambda>record.
     bindE (asks (\<lambda>s. Option.bind record (\<lambda>r. find_mama (tr_init_from_mama_id r) s))) (\<lambda>im.
     case (c, m, record, im) of
       (Some c, Some m, Some r, Some im) \<Rightarrow>
         bindE (asks (normal_customer_by_unionid (ma_openid im))) (\<lambda>init_customer.
         bindE (asks (\<lambda>s. get_coupon_stock_num (ma_id m) (tr_template_id r) (sl_cdb s))) (\<lambda>stock_num.
         if stock_num < tr_coupon_num r then ret 2
         else
           bindE (liftE (chain_or_timeout (ma_id im) (tr_from_mama_id r))) (\<lambda>chain.
           if \<not> (can_process r (ma_id m) \<and> can_buy_transfer_coupon m) then ret 0
           else
             bindE (asks (\<lambda>s. transferable (cu_id c) (tr_template_id r) (sl_cdb s))) (\<lambda>coupons.
             if int (length coupons) < tr_coupon_num r then ret 3
             else
               thenE (atomic (
                 thenE (do_sl_coupons (deliver_records (tr_order_no r)))
                 (case init_customer of
                    None \<Rightarrow> raise AttributeError
                  | Some ic \<Rightarrow>
                      do_sl_coupons (transfer_coupons (take (nat (tr_coupon_num r)) coupons) (cu_id ic) pk chain))))
               (thenE (rescore_order (tr_order_no r)) (ret 0))))))
     | _ \<Rightarrow> raise AttributeError))))"

section \<open>Giving coupons back\<close>

definition return_transfer_coupon_2_upper :: "pk_id \<Rightarrow> pk_id \<Rightarrow> (seller_db, nat) prog" where
  "return_transfer_coupon_2_upper u transfer_record_id =
     bindE (asks (get_customer_by_django_user u)) (\<lambda>c.
     case c of
       None \<Rightarrow> raise AttributeError
     | Some c \<Rightarrow>
         bindE (asks (\<lambda>s. filter (\<lambda>x. cu_id c = 0 \<or> uc_customer_id x = cu_id c)
            (get_freeze_boutique_coupons_by_transfer transfer_record_id (sl_cdb s)))) (\<lambda>coupons.
         if coupons = [] then ret 3
         else
           bindE (asks (\<lambda>s u. normal_customer_by_unionid u s)) (\<lambda>by_unionid.
           thenE (do_sl_coupons (return_transfer_coupon by_unionid coupons transfer_record_id)) (ret 0))))"

text \<open>\<open>verify_return_transfer_record\<close> and \<open>cancel_return_transfer_coupon\<close> answer every error
  with the code 3.\<close>

definition answer_3 :: "(seller_db, nat) prog \<Rightarrow> (seller_db, nat) prog" where
  "answer_3 m = tryE m (\<lambda>_. ret 3)"

definition verify_return_transfer_record :: "pk_id \<Rightarrow> pk_id \<Rightarrow> string \<Rightarrow> (seller_db, nat) prog" where
  "verify_return_transfer_record u transfer_record_id verify_func =
     answer_3 (
       if verify_func \<noteq> ''agree'' \<and> verify_func \<noteq> ''reject'' then ret 1
       else
         bindE (asks (get_customer_by_django_user u)) (\<lambda>c.
         case c of
           None \<Rightarrow> raise AttributeError
         | Some c \<Rightarrow>
             thenE (do_sl_coupons (if verify_func = ''agree'' then agree_apply_transfer_record c transfer_record_id
               else reject_apply_transfer_record c transfer_record_id)) (ret 0)))"

definition cancel_return_transfer_coupon :: "pk_id \<Rightarrow> pk_id \<Rightarrow> (seller_db, nat) prog" where
  "cancel_return_transfer_coupon u transfer_record_id =
     bindE (asks (get_customer_by_django_user u)) (\<lambda>c.
     answer_3 (
       bindE (liftE (\<lambda>s. get_transfer_record_by_id transfer_record_id (sl_cdb s))) (\<lambda>record.
       thenE (do_sl_coupons (cancel_return_transfer record c))
       (case c of None \<Rightarrow> raise AttributeError | Some _ \<Rightarrow> ret 0))))"

end
