(* ===== verification/Elite.thy ===== *)
theory Elite
  imports Vouchers Transfers Refunds
begin

text \<open>
  Elite sellers: how a seller becomes one (\<open>create_new_elite_mama\<close>,
  \<open>buy_boutique_register_product\<close>), tops up coins (\<open>elite_mama_recharge\<close>), gets the coupons of a paid
  order (\<open>task_send_transfer_coupons\<close>) or a gift, and sells coupons back to the shop
  (\<open>agree_apply_transfer_record_2_sys\<close>), all of \<open>src/flashsale/coupon/apis/v1/transfer.py\<close>,
  \<open>src/flashsale/coupon/tasks/transfer_coupon.py\<close> and \<open>src/flashsale/pay/models/trade.py\<close>. The log of the
  administration is left out.
\<close>

section \<open>Becoming an elite seller\<close>

text \<open>A new row of \<open>XiaoluMama\<close> with the defaults of its columns. \<open>openid\<close> is unique.\<close>

definition create_xiaolumama :: "string \<Rightarrow> int \<Rightarrow> (seller_db, mama) prog" where
  "create_xiaolumama openid last_renew_type =
     bindE (asks (\<lambda>s. q_exists (\<lambda>m. ma_openid m = openid) (sl_mamas s))) (\<lambda>taken.
     if taken then raise IntegrityError
     else
       bindE (asks (\<lambda>s. \<lparr>ma_id = fresh_pk ma_id (sl_mamas s), ma_openid = openid, ma_elite_score = 0,
         ma_status = MM_EFFECT, ma_charged = False, ma_progress = PG_PROFILE, ma_referal_from = NO_REFERAL,
         ma_cash = 0, ma_hasale = False, ma_hasale_time = None, ma_active = False, ma_active_time = None,
         ma_last_renew_type = last_renew_type, ma_agencylevel = INNER_LEVEL, ma_charge_time = Some (sl_now s),
         ma_renew_time = None\<rparr>)) (\<lambda>m.
       thenE (save_mama m) (ret m)))"

definition save_ship :: "referal_ship \<Rightarrow> (seller_db, unit) prog" where
  "save_ship r = thenE (modify (\<lambda>s. s\<lparr>sl_ships := tbl_save rr_id r (sl_ships s)\<rparr>)) (ship_saved False r)"

definition is_elite_now :: "mama \<Rightarrow> bool" where
  "is_elite_now m \<longleftrightarrow> \<not> (ma_last_renew_type m < ELITE \<or> \<not> ma_charged m \<or> \<not> ma_effect m)"

text \<open>The seller above: of the link, else of the relation that is there, else the one whose fan the
  customer is, else 0.\<close>

definition upper_of_new :: "mama \<Rightarrow> customer \<Rightarrow> sale_trade \<Rightarrow> referal_ship option \<Rightarrow> seller_db \<Rightarrow> pk_id" where
  "upper_of_new m customer t relation_ship s =
     (let link = (case st_mm_linkid t of None \<Rightarrow> 0 | Some i \<Rightarrow> if i \<noteq> ma_id m then i else 0) in
      if link \<noteq> 0 then link
      else (case relation_ship of
              Some r \<Rightarrow> rr_from_mama_id r
            | None \<Rightarrow> (case fan_of_customer (cu_id customer) s of None \<Rightarrow> 0 | Some f \<Rightarrow> xf_xlmm f)))"

definition create_new_elite_mama :: "customer \<Rightarrow> mama \<Rightarrow> sale_order \<Rightarrow> (seller_db, unit) prog" where
  "create_new_elite_mama customer to_mama so =
     (if is_elite_now to_mama then ret ()
      else
        bindE (asks (\<lambda>s. item_product so (ml_shop (sl_mall s)))) (\<lambda>p.
        case p of
          None \<Rightarrow> raise AttributeError
        | Some p \<Rightarrow>
            bindE (asks sl_now) (\<lambda>t0.
            let m = (if prod_model_id p = 20
                     then to_mama\<lparr>ma_last_renew_type := FULL, ma_renew_time := Some (t0 + days 366)\<rparr>
                     else to_mama\<lparr>ma_renew_time := Some (t0 + days 31)\<rparr>)
                   \<lparr>ma_charged := True, ma_status := MM_EFFECT,
                    ma_charge_time := (case ma_charge_time to_mama of None \<Rightarrow> Some t0 | Some t \<Rightarrow> Some t)\<rparr> in
            bindE (liftE (\<lambda>s. get_trade (so_sale_trade so) (ml_shop (sl_mall s)))) (\<lambda>strade.
            bindE (asks (get_refer_to_relationships (ma_id m))) (\<lambda>relation_ship.
            bindE (asks (upper_of_new m customer strade relation_ship)) (\<lambda>upper.
            bindE (asks (find_mama upper)) (\<lambda>referal_mm.
            thenE (save_mama (m\<lparr>ma_referal_from :=
              (case referal_mm of None \<Rightarrow> DIRECT | Some rm \<Rightarrow> if is_elite_mama rm then INDIRECT else DIRECT)\<rparr>))
            (bindE (asks (\<lambda>s. case referal_mm of None \<Rightarrow> 0 | Some rm \<Rightarrow> grandma_of (ma_id rm) s)) (\<lambda>grandma.
             case relation_ship of
               Some r \<Rightarrow> save_ship (r\<lparr>rr_from_mama_id := upper, rr_from_grandma_id := grandma, rr_order_id := so_oid so\<rparr>)
             | None \<Rightarrow>
                 bindE (insert_ship (new_ship grandma upper (ma_id m) (cu_nick customer) (cu_thumbnail customer)
                   ELITE (so_oid so))) (\<lambda>_. ret ()))))))))))"

text \<open>\<open>buy_boutique_register_product\<close>, a receiver of the signal that a trade was paid: the first
  order of a gift box for new members counts. An error is only logged.\<close>

definition register_buyer :: "customer \<Rightarrow> sale_order \<Rightarrow> (seller_db, unit) prog" where
  "register_buyer customer so =
     bindE (asks (\<lambda>s. get_xiaolumm customer (sl_cdb s))) (\<lambda>m.
     case m of
       Some m \<Rightarrow> if is_elite_now m then ret () else create_new_elite_mama customer m so
     | None \<Rightarrow>
         if cu_unionid customer = '''' then ret ()
         else bindE (create_xiaolumama (cu_unionid customer) TRIAL) (\<lambda>m. create_new_elite_mama customer m so))"

fun register_first :: "customer \<Rightarrow> bool \<Rightarrow> sale_order list \<Rightarrow> (seller_db, unit) prog" where
  "register_first customer paid [] = ret ()"
| "register_first customer paid (so # sos) =
     bindE (asks (\<lambda>s. item_product so (ml_shop (sl_mall s)))) (\<lambda>p.
     case p of
       None \<Rightarrow> raise AttributeError
     | Some p \<Rightarrow>
         if (prod_model_id p = 20 \<or> prod_model_id p = 94) \<and> paid then atomic (register_buyer customer so)
         else register_first customer paid sos)"

definition buy_boutique_register_product :: "sale_trade \<Rightarrow> (seller_db, unit) prog" where
  "buy_boutique_register_product t =
     tryE (
       bindE (liftE (get_customer_row (st_buyer_id t))) (\<lambda>customer.
       bindE (asks (\<lambda>s. orders_of (st_id t) (ml_shop (sl_mall s)))) (\<lambda>sos.
       register_first customer (is_effect t) sos))) (\<lambda>_. ret ())"

section \<open>Coins and gifts\<close>

definition gen_recharge_record :: "customer \<Rightarrow> string \<Rightarrow> int \<Rightarrow> int \<Rightarrow> (coupon_db, transfer_record) prog" where
  "gen_recharge_record cust order_oid price num =
     bindE (asks (mama_id cust)) (\<lambda>to_mama.
     bindE (liftE (\<lambda>s. q_get (\<lambda>t. ctp_id t = 374) (cp_templates s))) (\<lambda>template.
     bindE (asks (get_charged_mama cust)) (\<lambda>m.
     bindE (liftE (get_elite_score_by_templateid 374 m)) (\<lambda>(product_id, _, agent_price).
     bindE (asks cp_now) (\<lambda>t.
     case (to_mama, m) of
       (Some i, Some m) \<Rightarrow>
         insert_record ((record_of 0 i i order_oid 374 (ctp_value template) 0 IN_RECHARGE
           (join_with ''-'' [str_nat i, str_nat (transfer_type_code IN_RECHARGE), order_oid]) (day_of t))
           \<lparr>tr_elite_level := Some (elite_level m), tr_to_mama_price := agent_price,
            tr_elite_score := num * xlmm_recharge_cacl_score price, tr_product_id := product_id\<rparr>)
     | _ \<Rightarrow> raise AttributeError)))))"

definition elite_mama_recharge :: "pk_id \<Rightarrow> pk_id \<Rightarrow> string \<Rightarrow> (seller_db, unit) prog" where
  "elite_mama_recharge customer_id order_id order_oid =
     bindE (liftE (\<lambda>s. get_order order_id (ml_shop (sl_mall s)))) (\<lambda>so.
     if \<not> order_is_finished so then ret ()
     else
       bindE (liftE (get_customer_row customer_id)) (\<lambda>customer.
       bindE (asks (\<lambda>s. get_xiaolumm customer (sl_cdb s))) (\<lambda>m.
       bindE (case m of
           Some m \<Rightarrow> ret (Some m)
         | None \<Rightarrow>
             if cu_unionid customer = '''' then ret None
             else bindE (create_xiaolumama (cu_unionid customer) SCAN) (\<lambda>m. ret (Some m))) (\<lambda>m.
       case m of
         None \<Rightarrow> ret ()
       | Some m \<Rightarrow>
           thenE (do_mall (do_coins (bindE (coin_get_or_create (ma_id m)) (\<lambda>coin.
             coin_recharge coin (py_round (so_total_fee so * 100)) order_oid))))
           (bindE (do_sl_coupons (gen_recharge_record customer order_oid (py_round (so_price so)) (so_num so))) (\<lambda>_.
            do_sl_coupons (task_calc_xlmm_elite_score (ma_id m))))))))"

text \<open>\<open>post_save_order_trigger\<close>, which runs after every save of an order.\<close>

definition order_trigger :: "sale_order \<Rightarrow> (seller_db, unit) prog" where
  "order_trigger so =
     tryE (
       bindE (liftE (\<lambda>s. is_deposit so (ml_shop (sl_mall s)))) (\<lambda>d.
       if \<not> d then task_order_trigger so
       else if \<not> order_is_confirmed so then ret ()
       else
         bindE (liftE (\<lambda>s. is_recharge_deposit so (ml_shop (sl_mall s)))) (\<lambda>rd.
         if rd then
           bindE (liftE (\<lambda>s. get_trade (so_sale_trade so) (ml_shop (sl_mall s)))) (\<lambda>t.
           elite_mama_recharge (st_buyer_id t) (so_id so) (so_oid so))
         else task_update_referal_relationship so))) (\<lambda>_. ret ())"

definition give_gift_score_to_new_elite_mama :: "mama \<Rightarrow> sale_order \<Rightarrow> (seller_db, unit) prog" where
  "give_gift_score_to_new_elite_mama m so =
     thenE (do_sl_coupons (tryE (bindE (asks cp_now) (\<lambda>t.
       bindE (insert_record ((record_of 0 (ma_id m) (ma_id m) (so_oid so) 365 0 0 IN_GIFT_COUPON
         (''gift-365elite-in-'' @ str_nat (ma_id m)) (day_of t))
         \<lparr>tr_elite_level := Some (elite_level m), tr_elite_score := 100, tr_product_id := so_item_id so\<rparr>)) (\<lambda>_. ret ())))
       (\<lambda>e. if e = IntegrityError then ret () else raise e)))
     (do_sl_coupons (task_calc_xlmm_elite_score (ma_id m)))"

text \<open>\<open>create_present_elite_score\<close>: score without coupons.\<close>

definition create_present_elite_score ::
  "customer \<Rightarrow> int \<Rightarrow> pk_id \<Rightarrow> string option \<Rightarrow> (seller_db, transfer_record) prog" where
  "create_present_elite_score customer elite_score template_id uni_key_prefix =
     bindE (asks (\<lambda>s. get_charged_mama customer (sl_cdb s))) (\<lambda>m.
     case m of
       None \<Rightarrow> raise AttributeError
     | Some m \<Rightarrow>
         bindE (asks (\<lambda>s. day_of (cp_now (sl_cdb s)))) (\<lambda>today.
         bindE (asks (\<lambda>s. q_count (\<lambda>r. tr_from_mama_id r = 0 \<and> tr_to_mama_id r = ma_id m
            \<and> tr_template_id r = template_id \<and> tr_date_field r = today \<and> tr_type r = IN_GIFT_COUPON
            \<and> transfer_status_code (tr_transfer_status r) \<ge> 2) (cp_records (sl_cdb s)))) (\<lambda>idx.
         let key = ''elite_in-'' @ str_nat (cu_id customer) @ ''-'' @
               (case uni_key_prefix of
                  Some p \<Rightarrow> if p \<noteq> '''' then p else str_day today @ ''-'' @ str_nat (idx + 1)
                | None \<Rightarrow> str_day today @ ''-'' @ str_nat (idx + 1)) in
         bindE (atomic (do_sl_coupons (insert_record ((record_of 0 (ma_id m) (ma_id m) key template_id 0 0
           IN_GIFT_COUPON key today)\<lparr>tr_elite_score := elite_score\<rparr>)))) (\<lambda>r.
         thenE (do_sl_coupons (task_calc_xlmm_elite_score (ma_id m))) (ret r)))))"

text \<open>\<open>create_present_coupon_transfer_record\<close> gives back the error of the save instead of raising it.\<close>

definition create_present_coupon_transfer_record ::
  "customer \<Rightarrow> tpl \<Rightarrow> pk_id \<Rightarrow> string \<Rightarrow> (seller_db, py_error + transfer_record) prog" where
  "create_present_coupon_transfer_record customer t coupon_id uni_key_prefix =
     bindE (asks (\<lambda>s. get_charged_mama customer (sl_cdb s))) (\<lambda>m.
     case m of
       None \<Rightarrow> raise AttributeError
     | Some m \<Rightarrow>
         bindE (liftE (\<lambda>s. get_elite_score_by_templateid (tp_id t) (Some m) (sl_cdb s))) (\<lambda>(_, _, agent_price).
         bindE (asks (\<lambda>s. day_of (cp_now (sl_cdb s)))) (\<lambda>today.
         let prefix = (if uni_key_prefix \<noteq> '''' then ''gift-'' @ uni_key_prefix else ''gift'') in
         tryE (bindE (do_sl_coupons (insert_record ((record_of 0 (ma_id m) (ma_id m) (''gift-'' @ str_nat coupon_id)
             (tp_id t) (tp_value t) 1 IN_GIFT_COUPON
             (join_with ''-'' [prefix, str_nat (ma_id m), str_nat coupon_id]) today)
             \<lparr>tr_elite_level := Some (elite_level m), tr_to_mama_price := agent_price\<rparr>))) (\<lambda>r. ret (Inr r)))
           (\<lambda>e. ret (Inl e)))))"

text \<open>The page that gives a coupon (\<open>src/flashsale/coupon/views/views.py\<close>), and takes it back. An
  activity with the number 0 has no prefix.\<close>

definition send_gift_coupon :: "promo_env \<Rightarrow> customer \<Rightarrow> pk_id \<Rightarrow> nat \<Rightarrow> (promo_db, nat) prog" where
  "send_gift_coupon env cus template_id activity_id =
     tryE (
       bindE (liftE (get_coupon_template_by_id template_id)) (\<lambda>t.
       let key = gen_usercoupon_unikey t (''gift_transfer_'' @ str_nat (cu_id cus) @ ''_'' @ str_nat activity_id) 1 in
       bindE (asks (coupon_by_key key)) (\<lambda>old.
       if old \<noteq> None then ret 1
       else
         thenE (atomic (
           bindE (create_user_coupon env (cu_id cus) (tp_id t) (plain_request\<lparr>cq_unique_key := Some key\<rparr>)) (\<lambda>(cou, code).
           case cou of
             None \<Rightarrow> raise AttributeError
           | Some c \<Rightarrow>
               bindE (do_sellers (create_present_coupon_transfer_record cus t (uc_id c)
                 (if activity_id \<noteq> 0 then str_nat activity_id else ''''))) (\<lambda>r.
               case r of
                 Inl _ \<Rightarrow> raise AttributeError
               | Inr r \<Rightarrow> do_promo_coupons (create_transfer_coupon_detail (tr_id r) [uc_id c])))))
         (ret 0)))) (\<lambda>_. ret 0)"

definition cancel_gift_coupon :: "pk_id \<Rightarrow> (seller_db, bool) prog" where
  "cancel_gift_coupon usercoupon_id =
     bindE (liftE (\<lambda>s. get_user_coupon_by_id usercoupon_id (sl_cdb s))) (\<lambda>c.
     if uc_status c \<noteq> UC_UNUSED then raise (Exn ''coupon'')
     else
       bindE (asks (\<lambda>s. q_first (filter (\<lambda>r. tr_order_no r = ''gift-'' @ str_nat (uc_id c)) (cp_records (sl_cdb s))))) (\<lambda>r.
       case r of
         None \<Rightarrow> raise (Exn ''record'')
       | Some r \<Rightarrow>
           thenE (atomic (thenE (do_sl_coupons (cancel_coupon_by_ids [usercoupon_id]))
             (do_sl_coupons (set_transfer_status_cancel r)))) (ret True)))"

section \<open>The coupons of a paid order\<close>

text \<open>A save inside a transaction that fails on the database dooms the transaction, also when the error is
  caught: the next statement on the database raises, and a transaction that ends without one is undone in
  silence. \<open>commit_unless\<close> ends a transaction whose block returns whether it is doomed.\<close>

definition commit_unless :: "('s, 'a \<times> bool) prog \<Rightarrow> ('s, 'a) prog" where
  "commit_unless m = (\<lambda>s. case m s of
     (Inl e, _) \<Rightarrow> (Inl e, s) | (Inr (x, doomed), t) \<Rightarrow> (Inr x, if doomed then s else t))"

definition doomed_save :: "('s, 'a) prog \<Rightarrow> ('s, 'a) prog" where
  "doomed_save m = tryE m (\<lambda>e. raise (if e = IntegrityError then Exn ''TransactionManagementError'' else e))"

text \<open>The loop of \<open>task_send_transfer_coupons\<close>: one coupon for each piece, under the key of the order
  and the number of the piece.\<close>

fun send_pieces ::
  "promo_env \<Rightarrow> customer \<Rightarrow> tpl \<Rightarrow> bool \<Rightarrow> pk_id \<Rightarrow> nat \<Rightarrow> nat \<Rightarrow> pk_id list \<Rightarrow> (promo_db, pk_id list) prog" where
  "send_pieces env customer t coin_pay order_id index 0 ids = ret ids"
| "send_pieces env customer t coin_pay order_id index (Suc n) ids =
     bindE (doomed_save (create_boutique_user_coupon env customer t coin_pay
         (Some (gen_usercoupon_unikey t (str_nat order_id) index)) ''wap'' True)) (\<lambda>(cou, code).
     case cou of
       None \<Rightarrow> raise AttributeError
     | Some c \<Rightarrow> send_pieces env customer t coin_pay order_id (Suc index) n (ids @ [uc_id c]))"

text \<open>Of a trade paid partly with coins only the part paid with money scores.\<close>

definition bought_score :: "product \<Rightarrow> int \<Rightarrow> sale_trade \<Rightarrow> yuan \<Rightarrow> py_error + int" where
  "bought_score p piece_num t coin_pay =
     (let score = prod_elite_score p * piece_num;
          total = py_round (st_total_fee t * 100) in
      if coin_pay > 0 then
        (if total = 0 then Inl (Exn ''ZeroDivisionError'')
         else Inr (py_int (of_int score * (of_int (total - py_round (coin_pay * 100)) / of_int total))))
      else Inr score)"

definition buy_record ::
  "mama \<Rightarrow> tpl \<Rightarrow> yuan \<Rightarrow> sale_order \<Rightarrow> pk_id \<Rightarrow> int \<Rightarrow> int \<Rightarrow> bool \<Rightarrow> pk_id list \<Rightarrow> (coupon_db, bool) prog" where
  "buy_record m t agent_price so product_id piece_num score coin_pay ids =
     tryE (bindE (asks cp_now) (\<lambda>t0.
       bindE (insert_record ((record_of 0 (ma_id m) (ma_id m) (so_oid so) (tp_id t) (of_int (py_int (tp_value t)))
         piece_num (if coin_pay then IN_BUY_COUPON_WITH_COIN else IN_BUY_COUPON)
         (join_with ''-'' [str_nat (ma_id m), str_nat (so_id so)]) (day_of t0))
         \<lparr>tr_elite_level := Some (elite_level m), tr_to_mama_price := agent_price, tr_elite_score := score,
          tr_product_id := product_id\<rparr>)) (\<lambda>r.
       thenE (create_transfer_coupon_detail (tr_id r) ids) (ret True))))
     (\<lambda>e. if e = IntegrityError then ret False else raise e)"

text \<open>\<open>template_id\<close> is what the model of the product names. The price of a piece that is noted in
  each coupon divides by the number of the order.\<close>

definition task_send_transfer_coupons ::
  "promo_env \<Rightarrow> pk_id \<Rightarrow> pk_id \<Rightarrow> nat \<Rightarrow> pk_id \<Rightarrow> pk_id \<Rightarrow> (promo_db, unit) prog" where
  "task_send_transfer_coupons env customer_id order_id piece_num product_id template_id =
     bindE (liftE (\<lambda>s. get_customer_row customer_id (pr_sellers s))) (\<lambda>customer.
     bindE (asks (\<lambda>s. page_product product_id (pr_sellers s))) (\<lambda>p.
     case p of None \<Rightarrow> raise AttributeError | Some p \<Rightarrow>
     bindE (liftE (get_coupon_template_by_id template_id)) (\<lambda>t.
     bindE (asks (\<lambda>s. get_charged_mama customer (pr_cdb s))) (\<lambda>to_mama.
     bindE (liftE (\<lambda>s. get_elite_score_by_templateid (tp_id t) to_mama (pr_cdb s))) (\<lambda>(_, _, agent_price).
     bindE (commit_unless (
       bindE (liftE (\<lambda>s. get_order order_id (ml_shop (pr_mall s)))) (\<lambda>so.
       if \<not> order_is_finished so then ret (None, False)
       else
         bindE (liftE (\<lambda>s. get_trade (so_sale_trade so) (ml_shop (pr_mall s)))) (\<lambda>trade.
         bindE (liftE (\<lambda>_. get_pay_type_from_trade trade)) (\<lambda>(budget_pay, coin_pay).
         if piece_num > 0 \<and> so_num so = 0 then raise (Exn ''ZeroDivisionError'') else
         bindE (send_pieces env customer t (coin_pay > 0) order_id 0 piece_num []) (\<lambda>ids.
         bindE (liftE (\<lambda>_. bought_score p (int piece_num) trade coin_pay)) (\<lambda>score.
         case to_mama of
           None \<Rightarrow> raise AttributeError
         | Some m \<Rightarrow>
             bindE (do_promo_coupons (buy_record m t agent_price so (prod_id p) (int piece_num) score
               (coin_pay > 0) ids)) (\<lambda>saved. ret (Some (so, m), \<not> saved))))))))) (\<lambda>done.
     case done of
       None \<Rightarrow> ret ()
     | Some (so, m) \<Rightarrow>
         thenE (whenE (ma_referal_from m = INDIRECT) (do_sellers (task_order_trigger so)))
         (thenE (do_promo_coupons (task_calc_xlmm_elite_score (ma_id m)))
         (promo_later (TPL_RELEASED_NUMS (tp_id t))))))))))"

text \<open>\<open>send_new_elite_transfer_coupons\<close>: the coupons and the rank that come with the first order of a
  new elite seller. A coupon that is there already ends the call, with what was made before it.\<close>

fun new_elite_pieces ::
  "promo_env \<Rightarrow> pk_id \<Rightarrow> tpl \<Rightarrow> yuan \<times> time \<times> time option \<Rightarrow> nat \<Rightarrow> nat \<Rightarrow> pk_id list \<Rightarrow> (promo_db, pk_id list option) prog" where
  "new_elite_pieces env customer_id t vt index 0 ids = ret (Some ids)"
| "new_elite_pieces env customer_id t vt index (Suc n) ids =
     (let key = gen_usercoupon_unikey t (''gift_newelite_'' @ str_nat customer_id) index in
      bindE (asks (coupon_by_key key)) (\<lambda>cou.
      if cou \<noteq> None then ret None
      else
        bindE (doomed_save (make_coupon env t customer_id vt ''wap'' key None False)) (\<lambda>c.
        new_elite_pieces env customer_id t vt (Suc index) n (ids @ [uc_id c]))))"

definition send_new_elite_transfer_coupons ::
  "promo_env \<Rightarrow> pk_id \<Rightarrow> pk_id \<Rightarrow> pk_id \<Rightarrow> (promo_db, unit) prog" where
  "send_new_elite_transfer_coupons env customer_id order_id product_id =
     bindE (liftE (\<lambda>s. get_customer_row customer_id (pr_sellers s))) (\<lambda>customer.
     bindE (liftE (get_coupon_template_by_id 374)) (\<lambda>t.
     bindE (commit_unless (
       bindE (liftE (\<lambda>s. get_order order_id (ml_shop (pr_mall s)))) (\<lambda>so.
       if \<not> order_is_finished so then ret (None, False)
       else
         let coupon_num = py_round (so_payment so / 68) in
         bindE (liftE (\<lambda>s. calculate_value_and_time env t (pr_now s))) (\<lambda>vt.
         bindE (new_elite_pieces env customer_id t vt 0 (nat coupon_num) []) (\<lambda>ids.
         case ids of
           None \<Rightarrow> ret (None, False)
         | Some ids \<Rightarrow>
             bindE (asks (\<lambda>s. get_xiaolumm customer (pr_cdb s))) (\<lambda>m.
             case m of
               None \<Rightarrow> raise AttributeError
             | Some m \<Rightarrow>
                 thenE (do_sellers (create_new_elite_mama customer m so))
                 (bindE (liftE (\<lambda>s. get_elite_score_by_templateid 374 (Some m) (pr_cdb s))) (\<lambda>(_, _, agent_price).
                  bindE (do_promo_coupons (buy_record m t agent_price so product_id coupon_num (coupon_num * 10)
                    False ids)) (\<lambda>saved. ret (Some m, \<not> saved)))))))))) (\<lambda>done.
     case done of
       None \<Rightarrow> ret ()
     | Some m \<Rightarrow>
         thenE (do_promo_coupons (task_calc_xlmm_elite_score (ma_id m))) (promo_later (TPL_RELEASED_NUMS (tp_id t))))))"

section \<open>Selling coupons back\<close>

text \<open>
  \<open>transfer_record_return_coupon_exchange\<close>: the seller above had turned the orders of these coupons
  into money. The coupon spent on each order comes back to that seller, who pays for it; it is frozen while the
  wallet cannot cover it. The dictionary of the coupons given back is the list \<open>back\<close>; its order only decides
  the keys of the new rows.
\<close>

record give_back_state =
  gb_mama :: pk_id
  gb_payment :: yuan
  gb_back :: "(pk_id \<times> pk_id list) list"

definition add_back :: "pk_id \<Rightarrow> pk_id \<Rightarrow> (pk_id \<times> pk_id list) list \<Rightarrow> (pk_id \<times> pk_id list) list" where
  "add_back k c d =
     (if k \<in> set (map fst d) then map (\<lambda>(k', cs). if k' = k then (k', cs @ [c]) else (k', cs)) d
      else d @ [(k, [c])])"

definition order_of_coupon :: "user_coupon \<Rightarrow> py_error + pk_id" where
  "order_of_coupon c =
     (let parts = split_on CHR ''_'' (uc_uniq_id c) in
      if length parts \<le> 2 then Inl (Exn ''IndexError'')
      else (case nat_of_str (parts ! 2) of None \<Rightarrow> Inl (Exn ''ValueError'') | Some i \<Rightarrow> Inr i))"

text \<open>The first coupon of the exchange that is not unused becomes unused.\<close>

fun free_first :: "transfer_detail list \<Rightarrow> (coupon_db, pk_id option) prog" where
  "free_first [] = ret None"
| "free_first (d # ds) =
     bindE (liftE (get_user_coupon_by_id (td_coupon_id d))) (\<lambda>c.
     if uc_status c \<noteq> UC_UNUSED then thenE (save_coupon (c\<lparr>uc_status := UC_UNUSED\<rparr>)) (ret (Some (uc_id c)))
     else free_first ds)"

definition free_exchanged :: "string \<Rightarrow> (coupon_db, pk_id option) prog" where
  "free_exchanged oid =
     bindE (asks (\<lambda>k. q_first (filter (\<lambda>r. tr_type r = OUT_EXCHG_SALEORDER \<and> tr_uni_key r = oid) (cp_records k)))) (\<lambda>r.
     case r of
       None \<Rightarrow> ret None
     | Some r \<Rightarrow>
         bindE (asks (\<lambda>k. filter (\<lambda>d. td_transfer_id d = tr_id r) (cp_details k))) free_first)"

definition exchange_carry :: "string \<Rightarrow> seller_db \<Rightarrow> order_carry option" where
  "exchange_carry oid s = q_first (filter (\<lambda>c. oc_order_id c = oid \<and> oc_carry_type c = REFERAL_ORDER
     \<and> oc_status c = OC_CONFIRM) (sl_order_carrys s))"

definition add_freed :: "pk_id \<Rightarrow> pk_id \<Rightarrow> yuan \<Rightarrow> pk_id option \<Rightarrow> give_back_state \<Rightarrow> give_back_state" where
  "add_freed mama order_id price freed g =
     (case freed of
        None \<Rightarrow> g\<lparr>gb_mama := mama\<rparr>
      | Some c \<Rightarrow> \<lparr>gb_mama = mama, gb_payment = gb_payment g + price, gb_back = add_back order_id c (gb_back g)\<rparr>)"

definition count_down :: "sale_order \<Rightarrow> (seller_db, unit) prog" where
  "count_down so =
     (let left_num = (case so_can_return_num so of None \<Rightarrow> so_num so - 1 | Some n \<Rightarrow> n - 1) in
      bindE (asks (\<lambda>s. exchange_row (so_oid so) (sl_cdb s))) (\<lambda>x.
      thenE (whenE (left_num = 0) (do_sl_coupons (mark_unexchangeable x (so_oid so))))
      (do_mall (do_shop (save_order_fields so (\<lambda>y. y\<lparr>so_exchange := so_exchange so,
         so_can_return_num := Some left_num\<rparr>))))))"

definition take_back_one :: "user_coupon \<Rightarrow> give_back_state \<Rightarrow> (seller_db, give_back_state) prog" where
  "take_back_one cou g =
     (if uc_buy_type cou = None then ret g
      else
        bindE (liftE (\<lambda>_. order_of_coupon cou)) (\<lambda>order_id.
        bindE (asks (\<lambda>s. q_first (filter (\<lambda>x. so_id x = order_id) (d_orders (ml_shop (sl_mall s)))))) (\<lambda>so.
        case so of
          None \<Rightarrow> raise (Exn ''no order'')
        | Some so \<Rightarrow>
            bindE (asks (exchange_carry (so_oid so))) (\<lambda>carry.
            case carry of
              None \<Rightarrow> raise (Exn ''no earning'')
            | Some carry \<Rightarrow>
                if gb_mama g \<noteq> 0 \<and> gb_mama g \<noteq> oc_mama_id carry then raise (Exn ''several sellers'')
                else
                  bindE (do_sl_coupons (free_exchanged (so_oid so))) (\<lambda>freed.
                  thenE (count_down so)
                  (ret (add_freed (oc_mama_id carry) order_id (so_price so) freed g)))))))"

fun take_all_back :: "user_coupon list \<Rightarrow> give_back_state \<Rightarrow> (seller_db, give_back_state) prog" where
  "take_all_back [] g = ret g"
| "take_all_back (c # cs) g = bindE (take_back_one c g) (take_all_back cs)"

definition book_back :: "customer option \<Rightarrow> pk_id \<Rightarrow> bool \<Rightarrow> pk_id \<times> pk_id list \<Rightarrow> (seller_db, unit) prog" where
  "book_back customer template_id poor e =
     bindE (asks (\<lambda>s. q_first (filter (\<lambda>x. so_id x = fst e) (d_orders (ml_shop (sl_mall s)))))) (\<lambda>so.
     case (customer, so) of
       (Some c, Some so) \<Rightarrow>
         do_sl_coupons (
           bindE (gen_cancel_exchg_record c (int (length (snd e))) template_id (so_oid so)) (\<lambda>r.
           thenE (create_transfer_coupon_detail (tr_id r) (snd e))
           (whenE poor (forE (\<lambda>i. bindE (liftE (get_user_coupon_by_id i)) (unuse_coupon True)) (snd e)))))
     | _ \<Rightarrow> raise AttributeError)"

definition transfer_record_return_coupon_exchange :: "user_coupon list \<Rightarrow> transfer_record \<Rightarrow> (seller_db, unit) prog" where
  "transfer_record_return_coupon_exchange coupons record = atomic (
     bindE (take_all_back coupons \<lparr>gb_mama = 0, gb_payment = 0, gb_back = []\<rparr>) (\<lambda>g.
     bindE (asks (get_customer_by_mama_id (gb_mama g))) (\<lambda>customer.
     bindE (asks (\<lambda>s. case customer of
          None \<Rightarrow> False
        | Some c \<Rightarrow> (case q_first (filter (\<lambda>b. ub_user b = cu_id c) (w_budgets (sl_wallet s))) of
             None \<Rightarrow> False | Some b \<Rightarrow> ub_amount b < py_round (gb_payment g * 100)))) (\<lambda>poor.
     thenE (whenE (gb_payment g > 0)
       (case customer of
          None \<Rightarrow> raise AttributeError
        | Some c \<Rightarrow>
            bindE (do_budget (budget_log_create (cu_id c) BUDGET_OUT (py_round (gb_payment g * 100)) BG_RETURN_EXCHG
              None (str_nat (tr_id record)) (Some BL_CONFIRMED) (Some (''ctr-'' @ str_nat (tr_id record))))) (\<lambda>_. ret ())))
     (case coupons of
        [] \<Rightarrow> ret ()
      | c # _ \<Rightarrow> forE (book_back customer (uc_template_id c) (gb_payment g > 0 \<and> poor)) (gb_back g))))))"

text \<open>\<open>agree_apply_transfer_record_2_sys\<close>: coupons bought with money are paid into the wallet, those
  bought with coins in coins, at the price the seller has now.\<close>

definition cancel_returned :: "user_coupon \<Rightarrow> (coupon_db, unit) prog" where
  "cancel_returned c =
     (if uc_status c = UC_CANCEL then raise (Exn ''cancelled'')
      else save_coupon_fields (uc_id c) (\<lambda>x. x\<lparr>uc_status := UC_CANCEL\<rparr>))"

definition return_amount :: "yuan \<Rightarrow> (user_coupon \<Rightarrow> bool) \<Rightarrow> user_coupon list \<Rightarrow> yuan" where
  "return_amount price P coupons = price * of_nat (length (filter P coupons))"

definition bought_with_coins :: "user_coupon \<Rightarrow> bool" where
  "bought_with_coins c \<longleftrightarrow> uc_buy_type c = Some 1"

definition agree_apply_transfer_record_2_sys :: "transfer_record \<Rightarrow> (seller_db, bool) prog" where
  "agree_apply_transfer_record_2_sys record = atomic (
     bindE (asks (\<lambda>s. get_freeze_boutique_coupons_by_transfer (tr_id record) (sl_cdb s))) (\<lambda>coupons.
     case coupons of
       [] \<Rightarrow> raise (Exn ''no coupon'')
     | c0 # _ \<Rightarrow>
         bindE (asks (charged_mama (tr_from_mama_id record))) (\<lambda>xlmm.
         case xlmm of
           None \<Rightarrow> raise (Exn ''seller'')
         | Some m \<Rightarrow>
             bindE (liftE (\<lambda>s. get_elite_score_by_templateid (tr_template_id record) (Some m) (sl_cdb s))) (\<lambda>(_, _, agent_price).
             thenE (forE (\<lambda>c. do_sl_coupons (cancel_returned c)) coupons)
             (let budget = py_round (return_amount agent_price (\<lambda>c. \<not> bought_with_coins c) coupons * 100);
                  coin = py_round (return_amount agent_price bought_with_coins coupons * 100) in
              thenE (whenE (budget > 0)
                (bindE (do_budget (budget_log_create (uc_customer_id c0) BUDGET_IN budget BG_RETURN_COUPON None
                  (str_nat (tr_id record)) None None)) (\<lambda>_. ret ())))
              (thenE (whenE (coin > 0)
                (do_mall (do_coins (bindE (coin_get_or_create (ma_id m)) (\<lambda>xc. coin_refund xc coin (str_nat (tr_id record)))))))
              (thenE (do_sl_coupons (set_transfer_status record TR_DELIVERED))
              (thenE (do_sl_coupons (task_calc_xlmm_elite_score (tr_from_mama_id record)))
              (thenE (whenE (ma_referal_from m = INDIRECT) (transfer_record_return_coupon_exchange coupons record))
              (ret True))))))))))"

text \<open>The page on which the staff decides about a return to the shop.\<close>

definition verify_return_sys_transfer :: "pk_id \<Rightarrow> string \<Rightarrow> (seller_db, nat) prog" where
  "verify_return_sys_transfer transfer_record_id return_func =
     (if transfer_record_id = 0 \<or> return_func = '''' then ret 1
      else
        tryE (
          bindE (liftE (\<lambda>s. get_transfer_record_by_id transfer_record_id (sl_cdb s))) (\<lambda>record.
          if return_func = ''agree'' then bindE (agree_apply_transfer_record_2_sys record) (\<lambda>_. ret 0)
          else if return_func = ''reject'' then thenE (do_sl_coupons (cancel_return_transfer record None)) (ret 0)
          else ret 1)) (\<lambda>_. ret 2))"

end
