(* ===== verification/Promotion.thy ===== *)
theory Promotion
  imports Elite Earnings
begin

text \<open>
  What making coupons keeps: the steps \<open>promo_step\<close> in which customers ask for coupons and workers take
  the queued counts in any order; the keys of coupons, the planned number of a template and the limit of a
  shared link along every run; that asking twice gives one coupon; and the value a template draws.
\<close>

section \<open>The state after a coupon was made\<close>

definition set_coupons :: "(user_coupon table \<Rightarrow> user_coupon table) \<Rightarrow> promo_db \<Rightarrow> promo_db" where
  "set_coupons f s = s\<lparr>pr_sellers := sl_mall_update (ml_coupons_update (cp_coupons_update f)) (pr_sellers s)\<rparr>"

lemma set_coupons_reads [simp]:
  "pr_coupons (set_coupons f s) = f (pr_coupons s)" "pr_templates (set_coupons f s) = pr_templates s"
  "pr_shares (set_coupons f s) = pr_shares s" "pr_jobs (set_coupons f s) = pr_jobs s"
  "pr_now (set_coupons f s) = pr_now s" "sl_customers (pr_sellers (set_coupons f s)) = sl_customers (pr_sellers s)"
  "cp_mamas (pr_cdb (set_coupons f s)) = cp_mamas (pr_cdb s)"
  by (simp_all add: set_coupons_def)

lemma set_coupons_alt: "set_coupons f s = s\<lparr>pr_sellers := (pr_sellers s)\<lparr>sl_mall := (pr_mall s)
    \<lparr>ml_coupons := (pr_cdb s)\<lparr>cp_coupons := f (pr_coupons s)\<rparr>\<rparr>\<rparr>\<rparr>"
proof -
  have "sl_mall_update g x = x\<lparr>sl_mall := g (sl_mall x)\<rparr>" for g and x :: seller_db by (cases x) simp
  moreover have "ml_coupons_update g x = x\<lparr>ml_coupons := g (ml_coupons x)\<rparr>" for g and x :: mall_db by (cases x) simp
  moreover have "cp_coupons_update g x = x\<lparr>cp_coupons := g (cp_coupons x)\<rparr>" for g and x :: coupon_db by (cases x) simp
  ultimately show ?thesis by (simp add: set_coupons_def)
qed

lemma do_promo_coupons_run: "snd (do_promo_coupons m s) = s\<lparr>pr_sellers := (pr_sellers s)\<lparr>sl_mall := (pr_mall s)
    \<lparr>ml_coupons := snd (m (pr_cdb s))\<rparr>\<rparr>\<rparr>"
  by (simp add: do_promo_coupons_def do_sellers_def do_mall_def do_coupons_def zoom_run split: prod.split)

lemma modify_coupons_run: "modify_coupons f s = (Inr (), set_coupons f s)"
  by (simp add: modify_coupons_def modify_run set_coupons_def)

lemma set_coupons_twice: "set_coupons g (set_coupons f s) = set_coupons (g \<circ> f) s"
  by (simp add: set_coupons_def comp_def)

definition added :: "promo_db \<Rightarrow> user_coupon \<Rightarrow> promo_job list \<Rightarrow> promo_db" where
  "added s c js = (set_coupons (\<lambda>t. t @ [c]) s)\<lparr>pr_jobs := pr_jobs s @ js\<rparr>"

lemma added_reads [simp]:
  "pr_coupons (added s c js) = pr_coupons s @ [c]" "pr_templates (added s c js) = pr_templates s"
  "pr_shares (added s c js) = pr_shares s" "pr_jobs (added s c js) = pr_jobs s @ js"
  "pr_now (added s c js) = pr_now s" "sl_customers (pr_sellers (added s c js)) = sl_customers (pr_sellers s)"
  "cp_mamas (pr_cdb (added s c js)) = cp_mamas (pr_cdb s)"
  by (simp_all add: added_def set_coupons_def)

lemma q_update_fresh:
  assumes "i \<notin> uc_id ` set t" and "uc_id c = i"
  shows "q_update (\<lambda>x. uc_id x = i) f (t @ [c]) = t @ [f c]"
proof -
  have "q_update (\<lambda>x. uc_id x = i) f t = t"
    unfolding q_update_def using assms(1) by (intro map_idI) auto
  then show ?thesis using assms(2) by (simp add: q_update_def)
qed

text \<open>What the new row of a template says.\<close>

definition coupon_of :: "promo_db \<Rightarrow> tpl \<Rightarrow> pk_id \<Rightarrow> string \<Rightarrow> user_coupon \<Rightarrow> bool" where
  "coupon_of s t customer_id key c \<longleftrightarrow>
     uc_id c = fresh_pk uc_id (pr_coupons s) \<and> uc_template_id c = tp_id t \<and> uc_customer_id c = customer_id
     \<and> uc_type c = tp_type t \<and> uc_uniq_id c = key \<and> uc_status c = UC_UNUSED
     \<and> key \<notin> uc_uniq_id ` set (pr_coupons s) \<and> uc_coupon_no c \<notin> uc_coupon_no ` set (pr_coupons s)"

lemma make_coupon_run:
  obtains e where "make_coupon env t i vt ufrom key bt b s = (Inl e, s)"
  | c where "make_coupon env t i vt ufrom key bt b s = (Inr c, set_coupons (\<lambda>x. x @ [c]) s)"
      and "coupon_of s t i key c" and "uc_order_coupon_id c = None" and "uc_buy_type c = bt"
      and "uc_is_buyed c = b"
proof (cases "snd (snd vt)")
  case None
  then show ?thesis using that(1)
    by (cases vt) (simp add: make_coupon_def raise_run)
next
  case (Some e)
  obtain v st where vt: "vt = (v, st, Some e)" using Some by (cases vt) auto
  show ?thesis
  proof (cases "q_exists (\<lambda>x. uc_uniq_id x = key \<or> uc_coupon_no x = pe_coupon_no env (fresh_pk uc_id (pr_coupons s))) (pr_coupons s)")
    case True
    then show ?thesis using that(1) by (simp add: vt make_coupon_def insert_coupon_def prog_simps)
  next
    case False
    then show ?thesis
      using that(2) by (simp add: vt make_coupon_def insert_coupon_def prog_simps modify_coupons_run coupon_of_def
        q_exists_def filter_empty_conv image_iff) metis
  qed
qed


definition jobs_of :: "tpl \<Rightarrow> order_share option \<Rightarrow> promo_job list" where
  "jobs_of t share = (case share of None \<Rightarrow> [] | Some h \<Rightarrow> [SHARE_RELEASE_COUNT (sh_id h)]) @ [TPL_RELEASED_NUMS (tp_id t)]"

lemma mark_shared_run:
  assumes "coupon_of s t i key c"
  shows "mark_shared c h (set_coupons (\<lambda>x. x @ [c]) s) =
    (Inr (c\<lparr>uc_order_coupon_id := Some (sh_id h)\<rparr>),
     added s (c\<lparr>uc_order_coupon_id := Some (sh_id h)\<rparr>) [SHARE_RELEASE_COUNT (sh_id h)])"
proof -
  have "uc_id c \<notin> uc_id ` set (pr_coupons s)"
    using assms fresh_pk_notin [of uc_id "pr_coupons s"] by (simp add: coupon_of_def)
  then have "q_update (\<lambda>x. uc_id x = uc_id c) f (pr_coupons s @ [c]) = pr_coupons s @ [f c]" for f
    using q_update_fresh by blast
  then show ?thesis
    by (simp add: mark_shared_def prog_simps modify_coupons_run promo_later_def added_def set_coupons_def)
qed

lemma give_coupon_run:
  obtains c where "coupon_by_key key s = Some c" and "give_coupon env t i vt uf key share s = (Inr (Some c, 6), s)"
  | e where "coupon_by_key key s = None" and "give_coupon env t i vt uf key share s = (Inl e, s)"
  | c where "coupon_by_key key s = None"
      and "give_coupon env t i vt uf key share s = (Inr (Some c, 0), added s c (jobs_of t share))"
      and "coupon_of s t i key c" and "uc_order_coupon_id c = map_option sh_id share"
proof (cases "coupon_by_key key s")
  case (Some c)
  then show ?thesis using that(1) by (simp add: give_coupon_def prog_simps)
next
  case None
  show ?thesis
  proof (cases rule: make_coupon_run [of env t i vt uf key None False s])
    case (1 e)
    with None show ?thesis using that(2) by (simp add: give_coupon_def prog_simps)
  next
    case (2 c)
    show ?thesis
    proof (cases share)
      case None
      with 2 \<open>coupon_by_key key s = None\<close> show ?thesis
        using that(3) by (simp add: give_coupon_def prog_simps promo_later_def jobs_of_def added_def)
    next
      case (Some h)
      let ?c = "c\<lparr>uc_order_coupon_id := Some (sh_id h)\<rparr>"
      have "coupon_of s t i key ?c" using 2(2) by (simp add: coupon_of_def)
      moreover have "give_coupon env t i vt uf key share s = (Inr (Some ?c, 0), added s ?c (jobs_of t share))"
        using 2 None Some by (simp add: give_coupon_def prog_simps mark_shared_run [OF 2(2)] promo_later_def
            jobs_of_def added_def)
      ultimately show ?thesis using that(3) [of ?c] None Some by simp
    qed
  qed
qed

text \<open>\<open>released\<close>: the customer, the template and what it promised when the coupon was made.\<close>

definition may_release :: "promo_db \<Rightarrow> tpl \<Rightarrow> bool" where
  "may_release s t \<longleftrightarrow> int (length (get_template_coupons (tp_id t) (pr_coupons s))) \<le> tp_prepare_release_num t"

lemma release_checks_0: "release_checks c t s = Inr 0 \<Longrightarrow> may_release s t"
  by (auto simp: release_checks_def check_template_release_num_def may_release_def split: sum.splits if_splits)

definition key_of_request :: "tpl \<Rightarrow> pk_id \<Rightarrow> coupon_request \<Rightarrow> string" where
  "key_of_request t i r = (if cq_order_share_id r = 0 then request_key t i r
     else make_uniq_id t i 0 (cq_order_share_id r) 0 0)"

definition share_allows :: "promo_db \<Rightarrow> coupon_request \<Rightarrow> order_share option \<Rightarrow> bool" where
  "share_allows s r share \<longleftrightarrow>
     (if cq_order_share_id r = 0 then share = None
      else (\<exists>h. share = Some h \<and> get_order_share_coupon_by_id (cq_order_share_id r) s = Inr h
        \<and> sh_release_count h < sh_limit_share_count h))"

text \<open>A call either changes nothing and makes no coupon, or adds one.\<close>

lemma create_user_coupon_run:
  obtains x where "create_user_coupon env i tid r s = (x, s)" and "\<And>c. x \<noteq> Inr (c, 0)"
  | t c share where "get_coupon_template_by_id tid s = Inr t" and "may_release s t"
      and "create_user_coupon env i tid r s = (Inr (Some c, 0), added s c (jobs_of t share))"
      and "coupon_of s t i (key_of_request t i r) c" and "uc_order_coupon_id c = map_option sh_id share"
      and "share_allows s r share"
proof -
  let ?P = "create_user_coupon env i tid r"
  note keep = that(1) and made = that(2)
  have give: thesis
    if t: "get_coupon_template_by_id tid s = Inr t" "may_release s t"
      and p: "?P s = give_coupon env t i vt uf (key_of_request t i r) share s" and sh: "share_allows s r share"
    for t vt uf share
    by (rule give_coupon_run [where key = "key_of_request t i r" and s = s and env = env and t = t and i = i
        and vt = vt and uf = uf and share = share])
      (use keep [of "fst (?P s)"] made [OF t _ _ _ sh] p in auto)
  show thesis
  proof (cases "\<exists>t cu vt. get_coupon_template_by_id tid s = Inr t \<and> get_customer_row i (pr_sellers s) = Inr cu
      \<and> release_checks cu t s = Inr 0 \<and> calculate_value_and_time env t (pr_now s) = Inr vt")
    case False
    have "\<exists>x. ?P s = (x, s) \<and> (\<forall>c. x \<noteq> Inr (c, 0))"
    proof (cases "get_coupon_template_by_id tid s")
      case (Inr t)
      note t = Inr
      show ?thesis
      proof (cases "get_customer_row i (pr_sellers s)")
        case (Inr cu)
        note cu = Inr
        show ?thesis
        proof (cases "release_checks cu t s")
          case (Inr k)
          with False t cu show ?thesis
            by (cases "calculate_value_and_time env t (pr_now s)") (auto simp: create_user_coupon_def prog_simps)
        qed (simp add: create_user_coupon_def prog_simps t cu)
      qed (simp add: create_user_coupon_def prog_simps t)
    qed (simp add: create_user_coupon_def prog_simps)
    then show thesis using keep by auto
  next
    case True
    then obtain t cu v st e where t: "get_coupon_template_by_id tid s = Inr t"
      and cu: "get_customer_row i (pr_sellers s) = Inr cu" and rc: "release_checks cu t s = Inr 0"
      and vt: "calculate_value_and_time env t (pr_now s) = Inr (v, st, e)" by auto
    note run = create_user_coupon_def prog_simps t cu rc vt
    show thesis
    proof (cases "cq_order_share_id r = 0")
      case True
      then show thesis
        using give [OF t release_checks_0 [OF rc], of "(v, st, e)" "cq_ufrom r" None]
        by (simp add: run key_of_request_def share_allows_def)
    next
      case share: False
      show thesis
      proof (cases "\<exists>h. share_part t i (cq_order_share_id r) s = Inr (Inr h)")
        case True
        then obtain h where h: "share_part t i (cq_order_share_id r) s = Inr (Inr h)" by blast
        then have "get_order_share_coupon_by_id (cq_order_share_id r) s = Inr h"
          and "sh_release_count h < sh_limit_share_count h"
          by (auto simp: share_part_def split: sum.splits option.splits if_splits)
        moreover from this(1) have "sh_id h = cq_order_share_id r"
          by (auto simp: get_order_share_coupon_by_id_def dest: q_get_Inr)
        ultimately show thesis
          using give [OF t release_checks_0 [OF rc],
              of "(if cq_coupon_value r \<noteq> 0 then cq_coupon_value r else v, st, e)" "cq_ufrom r" "Some h"] share
          by (simp add: run h key_of_request_def share_allows_def)
      next
        case False
        have "\<And>c. a \<noteq> (c, 0)" if "share_part t i (cq_order_share_id r) s = Inr (Inl a)" for a
          using that by (auto simp: share_part_def split: sum.splits option.splits if_splits)
        with False share show thesis
          using keep [of "fst (?P s)"]
          by (auto simp: run split: sum.splits)
      qed
    qed
  qed
qed


lemma boutique_run:
  obtains x where "create_boutique_user_coupon env cu t coin k uf b s = (x, s)" and "\<And>c. x \<noteq> Inr (c, 0)"
  | c where "create_boutique_user_coupon env cu t coin k uf b s = (Inr (Some c, 0), added s c [])"
      and "coupon_of s t (cu_id cu) (arg_or k (make_uniq_id t (cu_id cu) 0 0 0 0)) c" and "may_release s t"
      and "uc_order_coupon_id c = None" and "uc_buy_type c = Some (if coin then 1 else 0)" and "uc_is_buyed c = b"
proof -
  let ?P = "create_boutique_user_coupon env cu t coin k uf b" and ?key = "arg_or k (make_uniq_id t (cu_id cu) 0 0 0 0)"
  note keep = that(1) and made = that(2)
  show thesis
  proof (cases "\<exists>vt. release_checks cu t s = Inr 0 \<and> calculate_value_and_time env t (pr_now s) = Inr vt
      \<and> coupon_by_key ?key s = None")
    case False
    have "\<exists>x. ?P s = (x, s) \<and> (\<forall>c. x \<noteq> Inr (c, 0))"
    proof (cases "release_checks cu t s")
      case (Inr n)
      with False show ?thesis
        by (cases "calculate_value_and_time env t (pr_now s)")
          (auto simp: create_boutique_user_coupon_def prog_simps Let_def)
    qed (simp add: create_boutique_user_coupon_def prog_simps)
    then show thesis using keep by auto
  next
    case True
    then obtain vt where rc: "release_checks cu t s = Inr 0"
      and vt: "calculate_value_and_time env t (pr_now s) = Inr vt" and new: "coupon_by_key ?key s = None" by auto
    note run = create_boutique_user_coupon_def prog_simps Let_def rc vt new
    show thesis
    proof (cases rule: make_coupon_run [of env t "cu_id cu" vt uf ?key "Some (if coin then 1 else 0)" b s])
      case (1 e)
      then show thesis using keep by (simp add: run)
    next
      case (2 c)
      then show thesis using made [of c] release_checks_0 [OF rc]
        by (simp add: run added_def set_coupons_def)
    qed
  qed
qed

section \<open>Steps\<close>

text \<open>Customers ask for coupons, coupons are sold, shared and cancelled or pass their time, and a
  worker takes any task of the queue. What is drawn may differ in every step.\<close>

inductive promo_step :: "promo_db \<Rightarrow> promo_db \<Rightarrow> bool" where
  ask: "promo_step s (snd (create_user_coupon env i tid r s))"
| buy: "t \<in> set (pr_templates s) \<Longrightarrow> promo_step s (snd (create_boutique_user_coupon env cu t coin k uf b s))"
| share: "promo_step s (snd (create_share_coupon env tid i k uf s))"
| sync: "promo_step s (snd (sync_coupon_value_by_template t s))"
| deposit: "promo_step s (snd (release_coupon_for_deposit i d tr co s))"
| cancel: "promo_step s (snd (do_promo_coupons (cancel_coupon_by_ids ids) s))"
| past: "promo_step s (snd (do_promo_coupons task_update_user_coupon_status_2_past s))"
| worker: "pr_jobs s = js @ j # ks \<Longrightarrow> promo_step s (snd (run_promo_job env j (s\<lparr>pr_jobs := js @ ks\<rparr>)))"

inductive_cases promo_stepE: "promo_step s t"

text \<open>A change of coupons that leaves their keys, their template and their share, and revives none.\<close>

definition mild :: "(user_coupon \<Rightarrow> user_coupon) \<Rightarrow> bool" where
  "mild f \<longleftrightarrow> (\<forall>c. uc_id (f c) = uc_id c \<and> uc_uniq_id (f c) = uc_uniq_id c \<and> uc_coupon_no (f c) = uc_coupon_no c
     \<and> uc_template_id (f c) = uc_template_id c \<and> uc_order_coupon_id (f c) = uc_order_coupon_id c
     \<and> (uc_status c = UC_CANCEL \<longrightarrow> uc_status (f c) = UC_CANCEL))"

text \<open>What an invariant of the steps has to survive: a coupon that the checks allowed, a new share, a
  mild change of coupons, a count of a template, and the count of a share, which ends its task.\<close>

locale promo_invariant =
  fixes I :: "promo_db \<Rightarrow> bool"
  assumes make: "I s \<Longrightarrow> t \<in> set (pr_templates s) \<Longrightarrow> may_release s t \<Longrightarrow> coupon_of s t i key c \<Longrightarrow>
      uc_order_coupon_id c = map_option sh_id h \<Longrightarrow>
      (\<And>x. h = Some x \<Longrightarrow> x \<in> set (pr_shares s) \<and> SHARE_RELEASE_COUNT (sh_id x) \<in> set js) \<Longrightarrow> I (added s c js)"
    and open_share: "I s \<Longrightarrow> sh_id x = fresh_pk sh_id (pr_shares s) \<Longrightarrow> sh_release_count x = 0 \<Longrightarrow>
      I (s\<lparr>pr_shares := pr_shares s @ [x]\<rparr>)"
    and rewrite: "I s \<Longrightarrow> mild f \<Longrightarrow> I (set_coupons (map f) s)"
    and count_tpl: "I s \<Longrightarrow> I (s\<lparr>pr_templates := q_update P (\<lambda>t. t\<lparr>tp_has_released_count := n\<rparr>) (pr_templates s)\<rparr>)"
    and count_share: "I s \<Longrightarrow> pr_jobs s = js @ SHARE_RELEASE_COUNT n # ks \<Longrightarrow>
      I (s\<lparr>pr_jobs := js @ ks, pr_shares := q_update (\<lambda>x. sh_id x = n)
        (\<lambda>x. x\<lparr>sh_release_count := int (q_count (\<lambda>c. uc_order_coupon_id c = Some n) (pr_coupons s))\<rparr>) (pr_shares s)\<rparr>)"
    and add_job: "I s \<Longrightarrow> I (s\<lparr>pr_jobs := pr_jobs s @ [j]\<rparr>)"
    and end_job: "I s \<Longrightarrow> pr_jobs s = js @ j # ks \<Longrightarrow>
      (\<And>n. j = SHARE_RELEASE_COUNT n \<Longrightarrow> \<exists>e. get_order_share_coupon_by_id n s = Inl e) \<Longrightarrow> I (s\<lparr>pr_jobs := js @ ks\<rparr>)"
begin

lemma keeps_ask: "keeps I (create_user_coupon env i tid r)"
proof (rule keepsI)
  fix s assume I: "I s"
  show "I (snd (create_user_coupon env i tid r s))"
  proof (cases rule: create_user_coupon_run [of env i tid r s])
    case (1 x)
    with I show ?thesis by simp
  next
    case (2 t c h)
    have "t \<in> set (pr_templates s)"
      using 2(1) by (auto simp: get_coupon_template_by_id_def dest: q_get_Inr)
    moreover have "x \<in> set (pr_shares s) \<and> SHARE_RELEASE_COUNT (sh_id x) \<in> set (jobs_of t h)" if "h = Some x" for x
      using 2(6) that by (auto simp: share_allows_def jobs_of_def get_order_share_coupon_by_id_def
          split: if_splits dest: q_get_Inr)
    ultimately have "I (added s c (jobs_of t h))"
      using I 2 by (intro make) auto
    with 2(3) show ?thesis by simp
  qed
qed

lemma keeps_buy:
  assumes "I s" and "t \<in> set (pr_templates s)"
  shows "I (snd (create_boutique_user_coupon env cu t coin k uf b s))"
  by (rule boutique_run [of env cu t coin k uf b s])
    (use assms in \<open>auto intro: make [where h = None]\<close>)

lemma keeps_share: "keeps I (create_share_coupon env tid i k uf)"
  unfolding create_share_coupon_def
  by (rule keepsI) (auto simp: prog_simps intro!: open_share split: sum.splits prod.splits option.splits)

lemma keeps_rewrite: "mild f \<Longrightarrow> keeps I (modify_coupons (map f))"
  by (rule keepsI) (simp add: modify_coupons_run rewrite)

lemma keeps_sync: "keeps I (sync_coupon_value_by_template t)"
  unfolding sync_coupon_value_by_template_def q_update_def Let_def
  by (intro keeps_intro keeps_rewrite) (simp add: mild_def)

lemma keeps_deposit: "keeps I (release_coupon_for_deposit i d tr co)"
  unfolding release_coupon_for_deposit_def promo_later_def
  by (rule keepsI) (simp add: modify_run add_job)

lemma keeps_mild:
  assumes "\<And>k. \<exists>f. mild f \<and> snd (m k) = k\<lparr>cp_coupons := map f (cp_coupons k)\<rparr>"
  shows "keeps I (do_promo_coupons m)"
proof (rule keepsI)
  fix s assume I: "I s"
  obtain f where f: "mild f" "snd (m (pr_cdb s)) = (pr_cdb s)\<lparr>cp_coupons := map f (cp_coupons (pr_cdb s))\<rparr>"
    using assms by blast
  have "snd (do_promo_coupons m s) = set_coupons (map f) s"
    using f(2) by (simp add: do_promo_coupons_run set_coupons_alt)
  with rewrite [OF I f(1)] show "I (snd (do_promo_coupons m s))" by simp
qed

end

definition mildly :: "coupon_db \<Rightarrow> coupon_db \<Rightarrow> bool" where
  "mildly k l \<longleftrightarrow> (\<exists>f. mild f \<and> l = k\<lparr>cp_coupons := map f (cp_coupons k)\<rparr>)"

lemma mildly_refl: "mildly k k"
  unfolding mildly_def by (rule exI [of _ id]) (simp add: mild_def)

lemma mildly_trans: "mildly k l \<Longrightarrow> mild f \<Longrightarrow> mildly k (l\<lparr>cp_coupons := map f (cp_coupons l)\<rparr>)"
  unfolding mildly_def by (elim exE conjE) (rule_tac x = "f \<circ> fa" in exI, simp add: mild_def)

lemma save_fields_mildly:
  assumes "mild f"
  shows "keeps (mildly k) (save_coupon_fields i f)"
proof (rule keepsI)
  fix l assume "mildly k l"
  moreover have "mild (\<lambda>c. if uc_id c = i then f c else c)" using assms by (simp add: mild_def)
  ultimately show "mildly k (snd (save_coupon_fields i f l))"
    by (auto simp: save_coupon_fields_def q_update_def dest: mildly_trans)
qed

lemma cancel_mildly: "mildly k (snd (cancel_coupon_by_ids ids k))"
proof -
  have "keeps (mildly k) (cancel_coupon_by_ids ids)"
    unfolding cancel_coupon_by_ids_def
    by (intro keeps_intro) (auto intro: keeps_raise save_fields_mildly simp: mild_def)
  from keepsD [OF this mildly_refl] show ?thesis .
qed

lemma past_mildly: "mildly k (snd (task_update_user_coupon_status_2_past k))"
  unfolding task_update_user_coupon_status_2_past_def modify_run q_update_def snd_conv
  by (rule mildly_trans [OF mildly_refl]) (simp add: mild_def)

context promo_invariant
begin

lemma keeps_counts:
  assumes "I s" and "pr_jobs s = js @ j # ks"
  shows "I (snd (run_promo_job env j (s\<lparr>pr_jobs := js @ ks\<rparr>)))"
proof (cases j)
  case (TPL_RELEASED_NUMS i)
  with assms have "I (s\<lparr>pr_jobs := js @ ks\<rparr>)" by (auto intro: end_job)
  with TPL_RELEASED_NUMS show ?thesis
    using count_tpl [of "s\<lparr>pr_jobs := js @ ks\<rparr>"]
    by (auto simp: task_update_tpl_released_coupon_nums_def prog_simps split: sum.split)
next
  case (SHARE_RELEASE_COUNT i)
  show ?thesis
  proof (cases "get_order_share_coupon_by_id i (s\<lparr>pr_jobs := js @ ks\<rparr>)")
    case (Inr h)
    then have "sh_id h = i" by (auto simp: get_order_share_coupon_by_id_def dest: q_get_Inr)
    with Inr SHARE_RELEASE_COUNT show ?thesis
      using count_share [OF assms(1)] assms(2)
      by (simp add: task_update_share_coupon_release_count_def prog_simps)
  next
    case (Inl e)
    then have "get_order_share_coupon_by_id i s = Inl e" by (simp add: get_order_share_coupon_by_id_def)
    with assms SHARE_RELEASE_COUNT have "I (s\<lparr>pr_jobs := js @ ks\<rparr>)" by (auto intro: end_job)
    with Inl SHARE_RELEASE_COUNT show ?thesis
      by (simp add: task_update_share_coupon_release_count_def prog_simps)
  qed
next
  case (RELEASE_FOR_DEPOSIT i d t co)
  with assms have "I (s\<lparr>pr_jobs := js @ ks\<rparr>)" by (auto intro: end_job)
  moreover have "keeps I (task_release_coupon_for_deposit env i d t co)"
    unfolding task_release_coupon_for_deposit_def
    by (cases "deposit_type_tplids_map d") (auto intro!: keeps_intro keeps_ask)
  ultimately show ?thesis using RELEASE_FOR_DEPOSIT by (simp add: keepsD)
qed

lemma step_keeps: "promo_step s t \<Longrightarrow> I s \<Longrightarrow> I t"
proof (induction rule: promo_step.induct)
  case (cancel s ids)
  have "keeps I (do_promo_coupons (cancel_coupon_by_ids ids))"
    using cancel_mildly by (intro keeps_mild) (auto simp: mildly_def)
  with cancel show ?case by (rule keepsD [rotated])
next
  case (past s)
  have "keeps I (do_promo_coupons task_update_user_coupon_status_2_past)"
    using past_mildly by (intro keeps_mild) (auto simp: mildly_def)
  with past show ?case by (rule keepsD [rotated])
qed (simp_all add: keepsD [OF keeps_ask] keeps_buy keepsD [OF keeps_share] keepsD [OF keeps_sync]
      keepsD [OF keeps_deposit] keeps_counts)

lemma run_keeps: "promo_step\<^sup>*\<^sup>* s t \<Longrightarrow> I s \<Longrightarrow> I t"
  by (induction rule: rtranclp_induct) (auto intro: step_keeps)

end


section \<open>Keys, plans and shares\<close>

definition keys_distinct :: "promo_db \<Rightarrow> bool" where
  "keys_distinct s \<longleftrightarrow> distinct (map uc_id (pr_coupons s)) \<and> distinct (map uc_uniq_id (pr_coupons s))
     \<and> distinct (map uc_coupon_no (pr_coupons s))"

definition plan_kept :: "promo_db \<Rightarrow> bool" where
  "plan_kept s \<longleftrightarrow> distinct (map tp_id (pr_templates s)) \<and>
     (\<forall>t\<in>set (pr_templates s). int (length (get_template_coupons (tp_id t) (pr_coupons s))) \<le> tp_prepare_release_num t + 1)"

definition shared_num :: "pk_id \<Rightarrow> promo_db \<Rightarrow> int" where
  "shared_num i s = int (q_count (\<lambda>c. uc_order_coupon_id c = Some i) (pr_coupons s))"

definition waiting_counts :: "pk_id \<Rightarrow> promo_db \<Rightarrow> int" where
  "waiting_counts i s = int (count_list (pr_jobs s) (SHARE_RELEASE_COUNT i))"

definition shares_counted :: "promo_db \<Rightarrow> bool" where
  "shares_counted s \<longleftrightarrow> distinct (map sh_id (pr_shares s)) \<and>
     (\<forall>c\<in>set (pr_coupons s). \<forall>i. uc_order_coupon_id c = Some i \<longrightarrow> i \<in> sh_id ` set (pr_shares s)) \<and>
     (\<forall>h\<in>set (pr_shares s). shared_num (sh_id h) s \<le> sh_release_count h + waiting_counts (sh_id h) s)"

lemma live_append: "length (get_template_coupons i (cs @ [c])) =
    length (get_template_coupons i cs) + (if template_coupon i c then 1 else 0)"
  by (simp add: get_template_coupons_def)

lemma live_mild: "mild f \<Longrightarrow> length (get_template_coupons i (map f cs)) \<le> length (get_template_coupons i cs)"
  unfolding get_template_coupons_def by (induction cs) (auto simp: template_coupon_def mild_def)

lemma shared_mild: "mild f \<Longrightarrow> shared_num i (set_coupons (map f) s) = shared_num i s"
  by (simp add: shared_num_def q_count_def filter_map comp_def mild_def)

interpretation keys: promo_invariant keys_distinct
proof
  fix s t i key c h js
  assume "keys_distinct s" and "coupon_of s t i key c"
  then show "keys_distinct (added s c js)"
    using fresh_pk_notin [of uc_id "pr_coupons s"] by (simp add: keys_distinct_def coupon_of_def)
qed (simp_all add: keys_distinct_def comp_def mild_def)

interpretation plan: promo_invariant plan_kept
proof
  fix s t i key c h js
  assume kept: "plan_kept s" and t: "t \<in> set (pr_templates s)" "may_release s t" and c: "coupon_of s t i key c"
  have "int (length (get_template_coupons (tp_id t') (pr_coupons s @ [c]))) \<le> tp_prepare_release_num t' + 1"
    if "t' \<in> set (pr_templates s)" for t'
  proof (cases "tp_id t' = tp_id t")
    case True
    with kept t(1) that have "t' = t" by (auto simp: plan_kept_def distinct_map inj_on_def)
    with t(2) show ?thesis by (simp add: live_append may_release_def)
  next
    case False
    with kept that c show ?thesis
      by (auto simp: live_append plan_kept_def template_coupon_def coupon_of_def)
  qed
  with kept show "plan_kept (added s c js)" by (simp add: plan_kept_def)
next
  fix s f
  assume "plan_kept s" and "mild f"
  then have "int (length (get_template_coupons (tp_id t) (map f (pr_coupons s)))) \<le> tp_prepare_release_num t + 1"
    if "t \<in> set (pr_templates s)" for t
    using that live_mild [of f "tp_id t" "pr_coupons s"] by (force simp: plan_kept_def)
  with \<open>plan_kept s\<close> show "plan_kept (set_coupons (map f) s)" by (simp add: plan_kept_def)
next
  fix s P n
  let ?u = "\<lambda>t. t\<lparr>tp_has_released_count := n\<rparr>"
  assume ok: "plan_kept s"
  have "map tp_id (q_update P ?u (pr_templates s)) = map tp_id (pr_templates s)"
    by (rule tpl_table.distinct_update) simp
  moreover have "\<exists>t'\<in>set (pr_templates s). tp_id t = tp_id t' \<and> tp_prepare_release_num t = tp_prepare_release_num t'"
    if "t \<in> set (q_update P ?u (pr_templates s))" for t
    using that by (auto simp: q_update_def split: if_splits)
  ultimately show "plan_kept (s\<lparr>pr_templates := q_update P ?u (pr_templates s)\<rparr>)"
    using ok unfolding plan_kept_def by simp metis
qed (simp_all add: plan_kept_def)

interpretation shares: promo_invariant shares_counted
proof
  fix s t i key and c :: user_coupon and h js
  assume ok: "shares_counted s" and c: "uc_order_coupon_id c = map_option sh_id h"
    and h: "\<And>x. h = Some x \<Longrightarrow> x \<in> set (pr_shares s) \<and> SHARE_RELEASE_COUNT (sh_id x) \<in> set js"
  have "shared_num k (added s c js) \<le> shared_num k s + int (count_list js (SHARE_RELEASE_COUNT k))" for k
    using h c by (cases h) (auto simp: shared_num_def q_count_def Suc_le_eq count_list_0_iff intro: Suc_leI gr0I)
  then have "shared_num (sh_id x) (added s c js) \<le> sh_release_count x + waiting_counts (sh_id x) (added s c js)"
    if "x \<in> set (pr_shares s)" for x
    using ok that by (simp add: shares_counted_def waiting_counts_def) (smt (verit))
  moreover have "i \<in> sh_id ` set (pr_shares s)" if "uc_order_coupon_id c = Some i" for i
    using that c h by (cases h) auto
  ultimately show "shares_counted (added s c js)" using ok by (auto simp: shares_counted_def)
next
  fix s and x :: order_share
  assume ok: "shares_counted s" and x: "sh_id x = fresh_pk sh_id (pr_shares s)" "sh_release_count x = 0"
  have "sh_id x \<notin> sh_id ` set (pr_shares s)" using fresh_pk_notin [of sh_id "pr_shares s"] x(1) by simp
  moreover from this ok have "shared_num (sh_id x) s = 0"
    by (auto simp: shared_num_def q_count_def shares_counted_def filter_empty_conv)
  ultimately show "shares_counted (s\<lparr>pr_shares := pr_shares s @ [x]\<rparr>)"
    using ok x(2) by (auto simp: shares_counted_def shared_num_def waiting_counts_def)
next
  fix s f
  assume "shares_counted s" and "mild f"
  then show "shares_counted (set_coupons (map f) s)"
    by (auto simp: shares_counted_def shared_mild waiting_counts_def mild_def)
next
  fix s js n ks
  let ?u = "\<lambda>x. x\<lparr>sh_release_count := int (q_count (\<lambda>c. uc_order_coupon_id c = Some n) (pr_coupons s))\<rparr>"
  assume ok: "shares_counted s" and j: "pr_jobs s = js @ SHARE_RELEASE_COUNT n # ks"
  have ids: "map sh_id (q_update (\<lambda>x. sh_id x = n) ?u (pr_shares s)) = map sh_id (pr_shares s)"
    by (rule share_table.distinct_update) simp
  then have "sh_id ` set (q_update (\<lambda>x. sh_id x = n) ?u (pr_shares s)) = sh_id ` set (pr_shares s)"
    by (metis set_map)
  moreover have "shared_num (sh_id h) s \<le> sh_release_count h + int (count_list (js @ ks) (SHARE_RELEASE_COUNT (sh_id h)))"
    if "h \<in> set (q_update (\<lambda>x. sh_id x = n) ?u (pr_shares s))" for h
  proof (cases "sh_id h = n")
    case True
    with that obtain x where "h = ?u x" by (auto simp: q_update_def)
    then have "sh_release_count h = shared_num n s" by (simp add: shared_num_def)
    with True show ?thesis by simp
  next
    case False
    with that have "h \<in> set (pr_shares s)" by (auto simp: q_update_def split: if_splits)
    with False ok j show ?thesis by (auto simp: shares_counted_def waiting_counts_def)
  qed
  ultimately show "shares_counted (s\<lparr>pr_jobs := js @ ks, pr_shares := q_update (\<lambda>x. sh_id x = n) ?u (pr_shares s)\<rparr>)"
    using ok ids by (simp add: shares_counted_def shared_num_def waiting_counts_def)
next
  fix s js j ks
  assume ok: "shares_counted s" and j: "pr_jobs s = js @ j # ks"
    and gone: "\<And>n. j = SHARE_RELEASE_COUNT n \<Longrightarrow> \<exists>e. get_order_share_coupon_by_id n s = Inl e"
  have "j \<noteq> SHARE_RELEASE_COUNT (sh_id h)" if "h \<in> set (pr_shares s)" for h
    using gone [of "sh_id h"] ok that share_table.get_member [of "pr_shares s" h]
    by (auto simp: shares_counted_def get_order_share_coupon_by_id_def)
  with ok j show "shares_counted (s\<lparr>pr_jobs := js @ ks\<rparr>)"
    by (auto simp: shares_counted_def shared_num_def waiting_counts_def)
qed (auto simp: shares_counted_def shared_num_def waiting_counts_def)


section \<open>Properties\<close>

text \<open>A template of which no coupon is planned, a link that may give one, and the seller's customer.\<close>

definition example_tpl :: tpl where
  "example_tpl = \<lparr>tp_id = 5, tp_title = '''', tp_value = 10, tp_is_random_val = False, tp_prepare_release_num = 0,
     tp_is_flextime = False, tp_release_start_time = Some 0, tp_use_deadline = Some (midnight 736090),
     tp_has_released_count = 0, tp_has_used_count = 0, tp_type = CT_ORDER_SHARE, tp_target_user = TARGET_ALL,
     tp_status = TP_SENDING, tp_min_val = 2, tp_max_val = 5, tp_zone = None, tp_limit_days = 0, tp_use_days = 0,
     tp_share_times_limit = 1\<rparr>"

definition example_share :: order_share where
  "example_share = \<lparr>sh_id = 2, sh_template_id = 5, sh_share_customer = 1, sh_uniq_id = ''xd4'', sh_release_count = 0,
     sh_has_used_count = 0, sh_limit_share_count = 1, sh_platform = ''wap'', sh_start_time = 0,
     sh_end_time = midnight 736090, sh_status = SHARE_SENDING\<rparr>"

definition example_promo :: promo_db where
  "example_promo = \<lparr>pr_sellers = sl_mall_update (ml_coupons_update (cp_coupons_update (\<lambda>_. []))) example_sellers,
     pr_templates = [example_tpl], pr_shares = [example_share], pr_jobs = []\<rparr>"

definition example_draws :: promo_env where
  "example_draws = \<lparr>pe_uniform = (\<lambda>a b. (a + b) / 2), pe_choice = hd, pe_coupon_no = str_nat\<rparr>"

lemma example_promo_ok: "plan_kept example_promo" "shares_counted example_promo" "keys_distinct example_promo"
  by (simp_all add: plan_kept_def shares_counted_def keys_distinct_def example_promo_def example_tpl_def
      example_share_def get_template_coupons_def shared_num_def
      q_count_def waiting_counts_def)

fun gave_first :: "(py_error + (user_coupon option \<times> nat)) \<times> promo_db \<Rightarrow> bool" where
  "gave_first (Inr (Some _, n), s) \<longleftrightarrow> n = 0 \<and> map uc_template_id (pr_coupons s) = [5]
     \<and> map uc_status (pr_coupons s) = [UC_UNUSED] \<and> pr_templates s = [example_tpl]"
| "gave_first _ \<longleftrightarrow> False"

lemma gave_firstE:
  assumes "gave_first p"
  obtains c s where "p = (Inr (Some c, 0), s)" and "length (pr_coupons s) = 1"
    and "get_template_coupons 5 (pr_coupons s) = pr_coupons s" and "pr_templates s = [example_tpl]"
  using assms
  by (cases p rule: gave_first.cases) (auto simp: get_template_coupons_def template_coupon_def intro: that)

lemma example_given: "gave_first (create_user_coupon example_draws 1 5 plain_request example_promo)"
  and example_shared: "gave_first (create_user_coupon example_draws 1 5 (plain_request\<lparr>cq_order_share_id := 2\<rparr>) example_promo)"
  by code_simp+

text \<open>
  C17. Along every run of asking, buying, sharing, cancelling and counting, no template has more coupons that
  are not cancelled than one above the number planned for it. The one above is reached: the check refuses only
  when there are already more than planned.
\<close>

theorem releases_stay_near_the_plan:
  assumes "promo_step\<^sup>*\<^sup>* s s'" and "plan_kept s" and "t \<in> set (pr_templates s')"
  shows "int (length (get_template_coupons (tp_id t) (pr_coupons s'))) \<le> tp_prepare_release_num t + 1"
  using plan.run_keeps [OF assms(1,2)] assms(3) by (simp add: plan_kept_def)

text \<open>Nothing was planned, and one coupon is out.\<close>

theorem releases_stay_near_the_plan_witness:
  "int (length (get_template_coupons 5 (pr_coupons (snd (create_user_coupon example_draws 1 5 plain_request
      example_promo))))) \<le> tp_prepare_release_num example_tpl + 1
    \<and> length (get_template_coupons 5 (pr_coupons (snd (create_user_coupon example_draws 1 5 plain_request
      example_promo)))) = 1"
proof (rule gave_firstE [OF example_given])
  fix c s'
  assume run: "create_user_coupon example_draws 1 5 plain_request example_promo = (Inr (Some c, 0), s')"
    and one: "length (pr_coupons s') = 1" "get_template_coupons 5 (pr_coupons s') = pr_coupons s'"
    and t: "pr_templates s' = [example_tpl]"
  have "promo_step example_promo s'" using ask [of example_promo example_draws 1 5 plain_request] run by simp
  from releases_stay_near_the_plan [OF r_into_rtranclp example_promo_ok(1), of s' example_tpl] this one t
  show ?thesis unfolding run by (simp add: example_tpl_def del: One_nat_def)
qed

text \<open>
  C19. Along every run a shared link has at most as many coupons as were counted and as there are counts
  waiting in the queue; so a coupon is given through a link only while it leaves at most the limit of the link and
  the counts that were waiting, and never more than the limit when none was.
\<close>

theorem shared_coupons_fit_the_limit:
  assumes "promo_step\<^sup>*\<^sup>* s0 s" and "shares_counted s0" and "h \<in> set (pr_shares s)"
    and "create_user_coupon env i tid r s = (Inr (Some c, 0), s')" and "cq_order_share_id r = sh_id h" and "sh_id h \<noteq> 0"
  shows "shared_num (sh_id h) s' \<le> sh_limit_share_count h + waiting_counts (sh_id h) s
    \<and> shared_num (sh_id h) s' = shared_num (sh_id h) s + 1"
proof -
  have ok: "shares_counted s" by (rule shares.run_keeps [OF assms(1,2)])
  then have get: "get_order_share_coupon_by_id (sh_id h) s = Inr h"
    using share_table.get_member [of "pr_shares s" h] assms(3)
    by (simp add: shares_counted_def get_order_share_coupon_by_id_def)
  show ?thesis
  proof (cases rule: create_user_coupon_run [of env i tid r s])
    case (1 x)
    with assms(4) show ?thesis by simp
  next
    case (2 t c' share)
    with assms(5,6) get have h: "share = Some h" "sh_release_count h < sh_limit_share_count h"
      by (auto simp: share_allows_def)
    with 2 assms(4) have "shared_num (sh_id h) s' = shared_num (sh_id h) s + 1"
      by (auto simp: shared_num_def q_count_def)
    with h(2) ok assms(3) show ?thesis by (force simp: shares_counted_def)
  qed
qed

theorem shared_coupons_fit_the_limit_witness:
  "shared_num 2 (snd (create_user_coupon example_draws 1 5 (plain_request\<lparr>cq_order_share_id := 2\<rparr>) example_promo)) \<le> 1"
proof -
  let ?r = "plain_request\<lparr>cq_order_share_id := 2\<rparr>"
  obtain c s' where run: "create_user_coupon example_draws 1 5 ?r example_promo = (Inr (Some c, 0), s')"
    by (rule gave_firstE [OF example_shared])
  have "shared_num 2 s' \<le> sh_limit_share_count example_share + waiting_counts 2 example_promo"
    using shared_coupons_fit_the_limit [OF rtranclp.rtrancl_refl example_promo_ok(2), of example_share, OF _ run]
    by (simp add: example_promo_def example_share_def)
  with run show ?thesis by (simp add: example_promo_def example_share_def waiting_counts_def)
qed

text \<open>
  C21. Asking twice gives one coupon: after a coupon was made, the same request of the same customer makes
  none, whatever is drawn, and changes nothing; and the keys of coupons stay unique along every run.
\<close>

theorem asking_twice_gives_one_coupon:
  assumes "promo_step\<^sup>*\<^sup>* s0 s" and "keys_distinct s0"
    and "create_user_coupon env i tid r s = (Inr (Some c, 0), s')"
  shows "snd (create_user_coupon env' i tid r s') = s' \<and> keys_distinct s'
    \<and> set (pr_coupons s') = insert c (set (pr_coupons s)) \<and> c \<notin> set (pr_coupons s)"
proof (cases rule: create_user_coupon_run [of env i tid r s])
  case (1 x)
  with assms(3) show ?thesis by simp
next
  case (2 t c' share)
  with assms(3) have s': "s' = added s c (jobs_of t share)" and c: "c = c'" by auto
  have keys: "keys_distinct s'"
    using keys.run_keeps [OF assms(1,2)] keepsD [OF keys.keeps_ask, of s env i tid r] assms(3) by simp
  have t: "get_coupon_template_by_id tid s' = Inr t"
    using 2(1) s' by (simp add: get_coupon_template_by_id_def)
  have "uc_uniq_id c = key_of_request t i r" and new: "uc_uniq_id c \<notin> uc_uniq_id ` set (pr_coupons s)"
    using 2(4) c by (auto simp: coupon_of_def)
  moreover have "snd (create_user_coupon env' i tid r s') = s'"
  proof (cases rule: create_user_coupon_run [of env' i tid r s'])
    case (2 t' d share')
    with t have "uc_uniq_id c \<notin> uc_uniq_id ` set (pr_coupons s')"
      using calculation(1) by (auto simp: coupon_of_def)
    then show ?thesis using s' by simp
  qed simp
  moreover have "c \<notin> set (pr_coupons s)" using new by blast
  ultimately show ?thesis using keys s' c by simp
qed

theorem asking_twice_gives_one_coupon_witness:
  "length (pr_coupons (snd (create_user_coupon example_draws 1 5 plain_request
     (snd (create_user_coupon example_draws 1 5 plain_request example_promo))))) = 1"
proof (rule gave_firstE [OF example_given])
  fix c s'
  assume run: "create_user_coupon example_draws 1 5 plain_request example_promo = (Inr (Some c, 0), s')"
    and one: "length (pr_coupons s') = 1"
  have "snd (create_user_coupon example_draws 1 5 plain_request s') = s'"
    by (rule asking_twice_gives_one_coupon [OF rtranclp.rtrancl_refl example_promo_ok(3) run, THEN conjunct1])
  with one show ?thesis unfolding run by (simp del: One_nat_def)
qed

lemma half_even_mono: "x \<le> y \<Longrightarrow> half_even x \<le> half_even y"
proof -
  assume le: "x \<le> y"
  have b: "z - 1 / 2 \<le> of_int (half_even z) \<and> of_int (half_even z) \<le> z + 1 / 2" for z :: rat
    by (auto simp: half_even_def Let_def) linarith+
  show ?thesis
  proof (cases "\<lfloor>x\<rfloor> = \<lfloor>y\<rfloor>")
    case True
    with le show ?thesis by (auto simp: half_even_def Let_def)
  next
    case False
    with le have "\<lfloor>x\<rfloor> + 1 \<le> \<lfloor>y\<rfloor>" using floor_mono [OF le] by linarith
    moreover have "half_even x \<le> \<lfloor>x\<rfloor> + 1" "\<lfloor>y\<rfloor> \<le> half_even y" by (auto simp: half_even_def Let_def)
    ultimately show ?thesis by linarith
  qed
qed

lemma py_fmt1_mono: "x \<le> y \<Longrightarrow> py_fmt1 x \<le> py_fmt1 y"
  by (simp add: py_fmt1_def half_even_mono)

text \<open>
  The value of a coupon: what is printed in the template unless the value is drawn; and with numbers
  \<open>random.uniform\<close> gives from between its bounds, a drawn value lies between the rounded bounds of the
  template, or of one of its zones where it has them.
\<close>

theorem drawn_value_lies_in_its_zone:
  assumes "\<And>a b. min a b \<le> pe_uniform env a b \<and> pe_uniform env a b \<le> max a b"
    and "calculate_value env t = Inr v"
  shows "v = tp_value t \<or> (\<exists>(a, b) \<in> set (case tp_zone t of None \<Rightarrow> [(tp_max_val t, tp_min_val t)] | Some (z, _) \<Rightarrow> z).
    py_fmt1 (min a b) \<le> v \<and> v \<le> py_fmt1 (max a b))"
proof -
  have draw: "py_fmt1 (min a b) \<le> py_fmt1 (pe_uniform env a b) \<and> py_fmt1 (pe_uniform env a b) \<le> py_fmt1 (max a b)" for a b
    using assms(1) [of a b] by (simp add: py_fmt1_mono)
  show ?thesis
  proof (cases "tp_zone t")
    case None
    with assms(2) show ?thesis using draw by (auto simp: calculate_value_def split: if_splits)
  next
    case (Some zr)
    with assms(2) show ?thesis
      using draw by (cases zr) (force simp: calculate_value_def Let_def split: if_splits intro: nth_mem)
  qed
qed

theorem drawn_value_lies_in_its_zone_witness:
  "calculate_value example_draws (example_tpl\<lparr>tp_is_random_val := True\<rparr>) = Inr (7 / 2)
    \<and> 2 \<le> (7 / 2 :: rat) \<and> (7 / 2 :: rat) \<le> 5"
proof -
  let ?t = "example_tpl\<lparr>tp_is_random_val := True\<rparr>"
  have run: "calculate_value example_draws ?t = Inr (7 / 2)" by code_simp
  have draws: "min a b \<le> pe_uniform example_draws a b \<and> pe_uniform example_draws a b \<le> max a b" for a b
    by (auto simp: example_draws_def min_def max_def)
  have "py_fmt1 2 = 2" "py_fmt1 5 = 5" by code_simp+
  with drawn_value_lies_in_its_zone [OF draws run] run show ?thesis by (simp add: example_tpl_def)
qed

section \<open>The coupons of an order\<close>

abbreviation piece_key :: "tpl \<Rightarrow> pk_id \<Rightarrow> nat \<Rightarrow> string" where
  "piece_key t order_id k \<equiv> gen_usercoupon_unikey t (str_nat order_id) k"

lemma piece_key_inj: "piece_key t i k = piece_key t i l \<Longrightarrow> k = l"
  by (auto simp: gen_usercoupon_unikey_def dest: str_nat_inj)

lemma piece_key_given: "arg_or (Some (piece_key t i k)) x = piece_key t i k"
  by (simp add: arg_or_def str_or_def gen_usercoupon_unikey_def)

lemma coupon_by_key_Some: "coupon_by_key key s = Some c \<Longrightarrow> c \<in> set (pr_coupons s) \<and> uc_uniq_id c = key"
  by (auto simp: coupon_by_key_def dest: q_first_filter)

text \<open>A piece whose key is in the table makes nothing, whatever the checks say.\<close>

lemma boutique_known:
  assumes "coupon_by_key (piece_key t i k) s = Some c"
  shows "snd (create_boutique_user_coupon env cu t coin (Some (piece_key t i k)) uf b s) = s"
  using assms by (simp add: create_boutique_user_coupon_def prog_simps Let_def piece_key_given split: sum.split prod.split)

lemma doomed_save_ok: "doomed_save m s = (Inr x, t) \<longleftrightarrow> m s = (Inr x, t)"
  by (auto simp: doomed_save_def prog_simps split: sum.splits prod.splits)

lemma doomed_save_state: "snd (doomed_save m s) = snd (m s)"
  by (auto simp: doomed_save_def prog_simps split: sum.split prod.split)

lemma piece_run:
  assumes "create_boutique_user_coupon env c t coin (Some (piece_key t i k)) ''wap'' True s = (Inr (Some x, n), s')"
  obtains (known) "s' = s" and "coupon_by_key (piece_key t i k) s \<noteq> None"
  | (made) "s' = added s x []" and "coupon_of s t (cu_id c) (piece_key t i k) x"
      and "uc_is_buyed x" and "uc_buy_type x = Some (if coin then 1 else 0)"
proof (cases "coupon_by_key (piece_key t i k) s")
  case (Some y)
  with assms known show ?thesis using boutique_known [OF Some, of env c coin "''wap''" True] by simp
next
  case None
  show ?thesis
  proof (cases rule: boutique_run [of env c t coin "Some (piece_key t i k)" "''wap''" True s])
    case (1 y)
    with assms None show ?thesis
      by (auto simp: prog_simps create_boutique_user_coupon_def Let_def piece_key_given
          split: sum.splits prod.splits option.splits if_splits)
  next
    case (2 y)
    show ?thesis by (rule made) (use assms 2 in \<open>auto simp: piece_key_given\<close>)
  qed
qed

definition key_there :: "tpl \<Rightarrow> pk_id \<Rightarrow> nat \<Rightarrow> promo_db \<Rightarrow> bool" where
  "key_there t i k s \<longleftrightarrow> piece_key t i k \<in> uc_uniq_id ` set (pr_coupons s)"

lemma key_there_iff: "key_there t i k s \<longleftrightarrow> coupon_by_key (piece_key t i k) s \<noteq> None"
  by (force simp: key_there_def coupon_by_key_def filter_empty_conv)

definition new_piece :: "customer \<Rightarrow> tpl \<Rightarrow> bool \<Rightarrow> pk_id \<Rightarrow> user_coupon \<Rightarrow> bool" where
  "new_piece c t coin i x \<longleftrightarrow> uc_customer_id x = cu_id c \<and> uc_template_id x = tp_id t \<and> uc_status x = UC_UNUSED
     \<and> uc_is_buyed x \<and> uc_buy_type x = Some (if coin then 1 else 0) \<and> uc_uniq_id x \<in> range (piece_key t i)"

lemma keys_added: "keys_distinct s \<Longrightarrow> coupon_of s t i key c \<Longrightarrow> keys_distinct (added s c js)"
  using fresh_pk_notin [of uc_id "pr_coupons s"] by (simp add: keys_distinct_def coupon_of_def)

lemma piece_keeps:
  assumes "create_boutique_user_coupon env c t coin (Some (piece_key t i k)) ''wap'' True s = (Inr (Some x, n), s')"
    and "keys_distinct s"
  shows "keys_distinct s' \<and> (\<exists>cs. pr_coupons s' = pr_coupons s @ cs \<and> list_all (new_piece c t coin i) cs)
    \<and> key_there t i k s'"
  using assms(1)
proof (cases rule: piece_run)
  case made
  have "new_piece c t coin i x" "uc_uniq_id x = piece_key t i k"
    using made(2-4) by (auto simp: new_piece_def coupon_of_def)
  with made(1) keys_added [OF assms(2) made(2), of "[]"] show ?thesis by (simp add: key_there_def)
qed (use assms(2) in \<open>simp_all add: key_there_iff\<close>)

lemma pieces_run:
  assumes "send_pieces env c t coin i k n ids s = (Inr xs, s')" and "keys_distinct s"
  shows "keys_distinct s' \<and> (\<exists>cs. pr_coupons s' = pr_coupons s @ cs \<and> list_all (new_piece c t coin i) cs)
    \<and> length xs = n + length ids \<and> (\<forall>l. k \<le> l \<and> l < k + n \<longrightarrow> key_there t i l s')"
  using assms
proof (induction n arbitrary: k ids s)
  case 0
  then show ?case by (auto simp: ret_run)
next
  case (Suc n)
  from Suc.prems(1) obtain x m u
    where one: "create_boutique_user_coupon env c t coin (Some (piece_key t i k)) ''wap'' True s = (Inr (Some x, m), u)"
      and rest: "send_pieces env c t coin i (Suc k) n (ids @ [uc_id x]) u = (Inr xs, s')"
    by (auto simp: bindE_ok doomed_save_ok raise_run split: prod.splits option.splits)
  from piece_keeps [OF one Suc.prems(2)] obtain cs where first: "keys_distinct u"
    "pr_coupons u = pr_coupons s @ cs" "list_all (new_piece c t coin i) cs" "key_there t i k u" by blast
  from Suc.IH [OF rest first(1)] obtain ds where more: "keys_distinct s'" "pr_coupons s' = pr_coupons u @ ds"
    "list_all (new_piece c t coin i) ds" "length xs = n + Suc (length ids)"
    "\<forall>l. Suc k \<le> l \<and> l < Suc k + n \<longrightarrow> key_there t i l s'" by auto
  have "key_there t i k s'" using first(4) more(2) by (auto simp: key_there_def)
  then have "key_there t i l s'" if "k \<le> l" "l < k + Suc n" for l
    using that more(5) by (cases "l = k") auto
  with first more show ?case by auto
qed

lemma known_pieces_change_nothing:
  assumes "\<And>l. k \<le> l \<Longrightarrow> l < k + n \<Longrightarrow> key_there t i l s"
  shows "snd (send_pieces env c t coin i k n ids s) = s"
  using assms
proof (induction n arbitrary: k ids)
  case (Suc n)
  have "key_there t i k s" using Suc.prems by simp
  then have "snd (doomed_save (create_boutique_user_coupon env c t coin (Some (piece_key t i k)) ''wap'' True) s) = s"
    using boutique_known [of t i k s] by (auto simp: key_there_iff doomed_save_state)
  moreover have "snd (send_pieces env c t coin i (Suc k) n xs s) = s" for xs
    using Suc.prems by (intro Suc.IH) simp
  ultimately show ?case
    by (cases "doomed_save (create_boutique_user_coupon env c t coin (Some (piece_key t i k)) ''wap'' True) s")
      (auto simp: bindE_run raise_run split: sum.split option.split)
qed (simp add: ret_run)

lemma keyed_count:
  assumes "distinct (map f xs)" and "set ks \<subseteq> f ` set xs" and "distinct ks"
  shows "length (filter (\<lambda>x. f x \<in> set ks) xs) = length ks"
proof -
  have "length (filter (\<lambda>x. f x \<in> set ks) xs) = length (filter (\<lambda>y. y \<in> set ks) (map f xs))"
    by (simp add: filter_map comp_def)
  also have "\<dots> = card (set ks \<inter> f ` set xs)"
    using assms(1) by (subst distinct_length_filter) (auto simp: Int_commute)
  also have "set ks \<inter> f ` set xs = set ks" using assms(2) by blast
  finally show ?thesis using assms(3) by (simp add: distinct_card)
qed

text \<open>
  C14. The loop of \<open>task_send_transfer_coupons\<close> gives one bought coupon for each piece of an order. When it returns it
  has only added coupons of the customer and the template, and the table has exactly one for each piece; running the
  loop again for the order, with whatever number of pieces up to that, for whichever customer and with whatever the clock
  draws, changes nothing.
\<close>

theorem pieces_are_given_once:
  assumes "send_pieces env c t coin i 0 n [] s = (Inr ids, s')" and "keys_distinct s"
  shows "(\<exists>cs. pr_coupons s' = pr_coupons s @ cs \<and> list_all (new_piece c t coin i) cs) \<and> keys_distinct s'
    \<and> length ids = n \<and> q_count (\<lambda>x. uc_uniq_id x \<in> piece_key t i ` {..<n}) (pr_coupons s') = n
    \<and> (\<forall>env' c' coin' m. m \<le> n \<longrightarrow> snd (send_pieces env' c' t coin' i 0 m [] s') = s')"
proof -
  from pieces_run [OF assms] have run: "\<exists>cs. pr_coupons s' = pr_coupons s @ cs \<and> list_all (new_piece c t coin i) cs"
    "keys_distinct s'" "length ids = n" and there: "\<And>l. l < n \<Longrightarrow> key_there t i l s'" by auto
  let ?ks = "map (piece_key t i) [0..<n]"
  have "length (filter (\<lambda>x. uc_uniq_id x \<in> set ?ks) (pr_coupons s')) = length ?ks"
    using run(2) there by (intro keyed_count) (auto simp: keys_distinct_def key_there_def distinct_map inj_on_def dest: piece_key_inj)
  then have "q_count (\<lambda>x. uc_uniq_id x \<in> piece_key t i ` {..<n}) (pr_coupons s') = n"
    by (simp add: q_count_def atLeast0LessThan)
  moreover have "snd (send_pieces env' c' t coin' i 0 m [] s') = s'" if "m \<le> n" for env' c' coin' m
    using there that by (intro known_pieces_change_nothing) simp
  ultimately show ?thesis using run by blast
qed

theorem pieces_are_given_once_witness:
  "\<exists>ids s'. send_pieces example_draws example_customer (example_tpl\<lparr>tp_prepare_release_num := 5\<rparr>) False 6 0 2 [] example_promo
      = (Inr ids, s')
    \<and> q_count (\<lambda>x. uc_uniq_id x \<in> piece_key (example_tpl\<lparr>tp_prepare_release_num := 5\<rparr>) 6 ` {..<2}) (pr_coupons s') = 2
    \<and> snd (send_pieces example_draws example_customer (example_tpl\<lparr>tp_prepare_release_num := 5\<rparr>) True 6 0 2 [] s') = s'"
proof -
  let ?p = "send_pieces example_draws example_customer (example_tpl\<lparr>tp_prepare_release_num := 5\<rparr>) False 6 0 2 [] example_promo"
  have "\<not> isl (fst ?p)" by code_simp
  then obtain ids s' where run: "?p = (Inr ids, s')"
    by (cases ?p; cases "fst ?p") (auto simp del: send_pieces.simps)
  from pieces_are_given_once [OF run example_promo_ok(3)] run show ?thesis
    by (intro exI [of _ ids] exI [of _ s'] conjI) (simp_all only: order_refl)
qed

end
