(* ===== verification/Deliveries.thy ===== *)
theory Deliveries
  imports Transfers Earnings
begin

text \<open>
  What the pages of \<open>Transfers\<close> do to the stock of sellers: a request is the list of the records with its
  number, which lead from the seller who asked to the one who is asked now; a delivery moves as many coupons as
  the records book, and a request that a direct seller without stock processed is stuck.
\<close>

section \<open>What stays\<close>

lemma calc_frame: "cp_records (snd (task_calc_xlmm_elite_score i k)) = cp_records k"
  "cp_coupons (snd (task_calc_xlmm_elite_score i k)) = cp_coupons k"
  by (simp_all add: task_calc_xlmm_elite_score_def prog_simps)

lemma rescore_keeps: "keeps (\<lambda>s. cp_records (sl_cdb s) = rs \<and> cp_coupons (sl_cdb s) = cs) (rescore_order no)"
  unfolding rescore_order_def
  by (intro keeps_intro) (rule keepsI, simp add: do_sl_coupons_run calc_frame)

section \<open>Passing coupons on\<close>

lemma save_pass_on:
  assumes "distinct (map uc_id t)" and "c \<in> set t" and "uc_id (f c) = uc_id c"
  shows "tbl_save uc_id (f c) t = map (\<lambda>x. if uc_id x = uc_id c then f c else x) t"
  using assms by (auto simp: tbl_save_def)

lemma save_all:
  assumes "distinct (map uc_id (cp_coupons k))" and "set cs \<subseteq> set (cp_coupons k)" and "distinct (map uc_id cs)"
    and "\<And>c. uc_id (f c) = uc_id c"
  shows "forE (\<lambda>c. save_coupon (f c)) cs k =
    (Inr (), k\<lparr>cp_coupons := map (\<lambda>c. if uc_id c \<in> uc_id ` set cs then f c else c) (cp_coupons k)\<rparr>)"
  using assms(1-3)
proof (induction cs arbitrary: k)
  case (Cons c cs)
  let ?g = "\<lambda>x. if uc_id x = uc_id c then f c else x"
  let ?k = "k\<lparr>cp_coupons := map ?g (cp_coupons k)\<rparr>"
  have step: "save_coupon (f c) k = (Inr (), ?k)"
    using Cons.prems assms(4) by (simp add: save_coupon_def modify_run save_pass_on)
  have ids: "map uc_id (cp_coupons ?k) = map uc_id (cp_coupons k)" using assms(4) by simp
  have "set cs \<subseteq> set (cp_coupons ?k)"
    using Cons.prems by (force simp: image_iff)
  moreover have "distinct (map uc_id (cp_coupons ?k))" using Cons.prems(1) by (simp only: ids)
  moreover have "distinct (map uc_id cs)" using Cons.prems(3) by simp
  ultimately have "forE (\<lambda>c. save_coupon (f c)) cs ?k = (Inr (), ?k\<lparr>cp_coupons :=
      map (\<lambda>c. if uc_id c \<in> uc_id ` set cs then f c else c) (cp_coupons ?k)\<rparr>)" by (intro Cons.IH)
  moreover have "f c = f x" if "x \<in> set (cp_coupons k)" "uc_id x = uc_id c" for x
    using that Cons.prems by (auto simp: distinct_map dest: inj_onD)
  ultimately show ?case
    using step Cons.prems assms(4) by (auto simp: forE_Cons_run image_iff)
qed (simp add: forE_Nil_run)

lemma transferable_pass_on:
  assumes "distinct (map uc_id (cp_coupons k))" and "n \<le> length (transferable from tid k)"
    and "cs = take n (transferable from tid k)"
    and "cp_coupons k' = map (\<lambda>c. if uc_id c \<in> uc_id ` set cs then pass_on to i ch c else c) (cp_coupons k)"
  shows "int (length (transferable x tid k')) = int (length (transferable x tid k))
    + (if x = to then int n else 0) - (if x = from then int n else 0)"
proof -
  let ?t = "cp_coupons k"
  let ?P = "\<lambda>x c. uc_customer_id c = x \<and> uc_type c = CT_TRANSFER \<and> uc_status c = UC_UNUSED \<and> uc_template_id c = tid"
  let ?d = "(if x = to then 1 else 0) - (if x = from then 1 else 0) :: int"
  let ?one = "\<lambda>b. if b then 1 else 0 :: int"
  have dist: "distinct ?t" using assms(1) by (simp add: distinct_map)
  have "set cs \<subseteq> set (transferable from tid k)" unfolding assms(3) by (rule set_take_subset)
  then have sub: "set cs \<subseteq> set (filter (?P from) ?t)" by (simp add: transferable_def)
  have inj: "uc_id c \<in> uc_id ` set cs \<longleftrightarrow> c \<in> set cs" if "c \<in> set ?t" for c
    using assms(1) sub that by (auto simp: distinct_map dest: inj_onD)
  have "distinct cs" using dist assms(3) by (simp add: transferable_def distinct_take)
  then have n: "length cs = n" "card (set cs) = n" using assms(2,3) by (simp_all add: distinct_card)
  have "length (filter (\<lambda>c. c \<in> set cs) ?t) = card (set ?t \<inter> set cs)"
    using dist by (simp add: distinct_length_filter Int_commute)
  also have "set ?t \<inter> set cs = set cs" using sub by auto
  finally have taken: "length (filter (\<lambda>c. c \<in> set cs) ?t) = n" using n by simp
  have count: "int (length (filter Q xs)) = sum_list (map (\<lambda>c. ?one (Q c)) xs)" for Q :: "user_coupon \<Rightarrow> bool" and xs
    by (induction xs) auto
  have "int (length (transferable x tid k')) =
      sum_list (map (\<lambda>c. ?one (?P x (if c \<in> set cs then pass_on to i ch c else c))) ?t)"
    using inj by (auto simp: transferable_def assms(4) count comp_def intro!: arg_cong [where f = sum_list])
  also have "\<dots> = sum_list (map (\<lambda>c. ?one (?P x c) + ?d * ?one (c \<in> set cs)) ?t)"
    using sub by (intro arg_cong [where f = sum_list] map_cong) (auto simp: pass_on_def)
  also have "\<dots> = int (length (transferable x tid k)) + ?d * int (length (filter (\<lambda>c. c \<in> set cs) ?t))"
    by (simp add: sum_list_map_add count transferable_def sum_list_const_mult)
  finally show ?thesis by (simp add: taken)
qed

section \<open>Requests\<close>

text \<open>The records of a request lead from the seller who asked to the seller who is asked last, all for the
  same number of coupons of the same template, and none is delivered.\<close>

fun leads :: "pk_id \<Rightarrow> pk_id \<Rightarrow> transfer_record list \<Rightarrow> bool" where
  "leads a b [] \<longleftrightarrow> a = b"
| "leads a b (r # rs) \<longleftrightarrow> tr_to_mama_id r = a \<and> leads (tr_from_mama_id r) b rs"

definition request_open :: "string \<Rightarrow> pk_id \<Rightarrow> pk_id \<Rightarrow> int \<Rightarrow> pk_id \<Rightarrow> coupon_db \<Rightarrow> bool" where
  "request_open no asker asked n tid k \<longleftrightarrow>
     (let rs = filter (\<lambda>r. tr_order_no r = no) (cp_records k) in
      leads asker asked rs \<and> list_all (\<lambda>r. tr_coupon_num r = n \<and> tr_template_id r = tid
        \<and> tr_transfer_status r \<noteq> TR_DELIVERED) rs)"

lemma leads_append: "leads a b (rs @ [r]) \<longleftrightarrow> leads a (tr_to_mama_id r) rs \<and> tr_from_mama_id r = b"
  by (induction a b rs rule: leads.induct) auto

definition stock_share :: "pk_id \<Rightarrow> pk_id \<Rightarrow> transfer_record \<Rightarrow> int" where
  "stock_share m tid r = (if tr_transfer_status r = TR_DELIVERED \<and> tr_template_id r = tid
     then (if tr_to_mama_id r = m then tr_coupon_num r else 0) - (if tr_from_mama_id r = m then tr_coupon_num r else 0)
     else 0)"

lemma stock_as_shares: "get_coupon_stock_num m tid k = sum_list (map (stock_share m tid) (cp_records k))"
proof -
  have "q_sum tr_coupon_num (\<lambda>r. tr_to_mama_id r = m \<and> tr_transfer_status r = TR_DELIVERED \<and> tr_template_id r = tid) rs
    - q_sum tr_coupon_num (\<lambda>r. tr_from_mama_id r = m \<and> tr_transfer_status r = TR_DELIVERED \<and> tr_template_id r = tid) rs
    = sum_list (map (stock_share m tid) rs)" for rs
    by (induction rs) (auto simp: stock_share_def)
  then show ?thesis by (simp add: get_coupon_stock_num_def)
qed

lemma leads_balance:
  assumes "leads a b rs" and "list_all (\<lambda>r. tr_coupon_num r = n \<and> tr_template_id r = tid) rs"
  shows "sum_list (map (\<lambda>r. stock_share m tid (r\<lparr>tr_transfer_status := TR_DELIVERED\<rparr>)) rs)
    = (if m = a then n else 0) - (if m = b then n else 0)"
  using assms by (induction a b rs rule: leads.induct) (auto simp: stock_share_def)

lemma delivered_stock:
  assumes "request_open no a b n tid k"
    and "cp_records k' = q_update (\<lambda>r. tr_order_no r = no) (\<lambda>r. r\<lparr>tr_transfer_status := TR_DELIVERED\<rparr>) (cp_records k)"
  shows "get_coupon_stock_num m tid k' = get_coupon_stock_num m tid k + (if m = a then n else 0) - (if m = b then n else 0)"
proof -
  let ?D = "\<lambda>r. r\<lparr>tr_transfer_status := TR_DELIVERED\<rparr>" and ?rs = "filter (\<lambda>r. tr_order_no r = no) (cp_records k)"
  have "sum_list (map (stock_share m tid) (q_update (\<lambda>r. tr_order_no r = no) ?D rs)) =
      sum_list (map (stock_share m tid) rs) + sum_list (map (\<lambda>r. stock_share m tid (?D r)) (filter (\<lambda>r. tr_order_no r = no) rs))"
    if "list_all (\<lambda>r. tr_transfer_status r \<noteq> TR_DELIVERED) (filter (\<lambda>r. tr_order_no r = no) rs)" for rs
    using that by (induction rs) (auto simp: q_update_def stock_share_def)
  moreover have "list_all (\<lambda>r. tr_transfer_status r \<noteq> TR_DELIVERED) ?rs" "leads a b ?rs"
    "list_all (\<lambda>r. tr_coupon_num r = n \<and> tr_template_id r = tid) ?rs"
    using assms(1) by (auto simp: request_open_def Let_def list_all_iff)
  ultimately show ?thesis
    using leads_balance [of a b ?rs n tid m] by (simp add: stock_as_shares assms(2))
qed

section \<open>A page that answers a request\<close>

lemma create_detail_frame:
  "create_transfer_coupon_detail i ids k = (r, k') \<Longrightarrow> cp_coupons k' = cp_coupons k \<and> cp_records k' = cp_records k"
proof -
  have "keeps (\<lambda>l. cp_coupons l = cp_coupons k \<and> cp_records l = cp_records k) (create_transfer_coupon_detail i ids)"
    unfolding create_transfer_coupon_detail_def create_detail_def
    by (intro keeps_intro) (rule keepsI, simp add: modify_run)
  then show "create_transfer_coupon_detail i ids k = (r, k') \<Longrightarrow> ?thesis" by (auto dest: keeps_run)
qed

lemma delivered_run:
  assumes "process_transfer_coupon c ic r s = (Inr 0, s')" and "distinct (map uc_id (cp_coupons (sl_cdb s)))"
  obtains ch where "tr_coupon_num r \<le> int (length (transferable c (tr_template_id r) (sl_cdb s)))"
    and "cp_records (sl_cdb s') = q_update (\<lambda>x. tr_order_no x = tr_order_no r)
      (\<lambda>x. x\<lparr>tr_transfer_status := TR_DELIVERED\<rparr>) (cp_records (sl_cdb s))"
    and "cp_coupons (sl_cdb s') = map (\<lambda>x. if uc_id x \<in> uc_id ` set (take (nat (tr_coupon_num r))
      (transferable c (tr_template_id r) (sl_cdb s))) then pass_on ic (tr_id r) ch x else x) (cp_coupons (sl_cdb s))"
proof -
  let ?cs = "take (nat (tr_coupon_num r)) (transferable c (tr_template_id r) (sl_cdb s))"
  let ?rs = "q_update (\<lambda>x. tr_order_no x = tr_order_no r) (\<lambda>x. x\<lparr>tr_transfer_status := TR_DELIVERED\<rparr>) (cp_records (sl_cdb s))"
  let ?k = "(sl_cdb s)\<lparr>cp_records := ?rs\<rparr>"
  from assms(1) obtain ch k where enough: "tr_coupon_num r \<le> int (length (transferable c (tr_template_id r) (sl_cdb s)))"
    and tc: "transfer_coupons ?cs ic (tr_id r) ch ?k = (Inr (), k)"
    and rescore: "rescore_order (tr_order_no r) (s\<lparr>sl_mall := (sl_mall s)\<lparr>ml_coupons := k\<rparr>\<rparr>) = (Inr (), s')"
    by (auto simp: process_transfer_coupon_def deliver_records_def run_ok split: if_splits option.splits)
  have "set ?cs \<subseteq> set (cp_coupons ?k)" and "distinct (map uc_id ?cs)"
    using assms(2) by (auto simp: transferable_def distinct_map_filter dest: in_set_takeD simp flip: take_map)
  then have "forE (\<lambda>c. save_coupon (pass_on ic (tr_id r) ch c)) ?cs ?k = (Inr (), ?k\<lparr>cp_coupons :=
      map (\<lambda>x. if uc_id x \<in> uc_id ` set ?cs then pass_on ic (tr_id r) ch x else x) (cp_coupons ?k)\<rparr>)"
    using assms(2) by (intro save_all) (simp_all add: pass_on_def)
  with tc have "cp_coupons k = map (\<lambda>x. if uc_id x \<in> uc_id ` set ?cs then pass_on ic (tr_id r) ch x else x) (cp_coupons (sl_cdb s))"
    and "cp_records k = ?rs"
    by (auto simp: transfer_coupons_def run_ok dest: create_detail_frame)
  with keeps_run [OF rescore_keeps _ rescore, of "cp_records k" "cp_coupons k"]
  show thesis by (intro that [OF enough]) auto
qed

lemma ask_run:
  assumes "ask_for_coupons tm fm q s = (Inr 0, s')"
  obtains q' where "cp_records (sl_cdb s') = cp_records (sl_cdb s) @ [q']" and "cp_coupons (sl_cdb s') = cp_coupons (sl_cdb s)"
    and "tr_order_no q' = tr_order_no q" and "tr_from_mama_id q' = tr_from_mama_id q" and "tr_to_mama_id q' = tr_to_mama_id q"
    and "tr_coupon_num q' = tr_coupon_num q" and "tr_template_id q' = tr_template_id q"
    and "tr_init_from_mama_id q' = tr_init_from_mama_id q"
    and "tr_transfer_status q' = TR_PENDING"
proof -
  have "cp_records (snd (task_calc_xlmm_elite_score i k)) = cp_records k
    \<and> cp_coupons (snd (task_calc_xlmm_elite_score i k)) = cp_coupons k" for i k by (simp add: calc_frame)
  then have calc: "task_calc_xlmm_elite_score i k = (x, l) \<Longrightarrow> cp_records l = cp_records k \<and> cp_coupons l = cp_coupons k"
    for i k x l by (metis snd_conv)
  from assms show thesis
    by (auto simp: ask_for_coupons_def insert_record_def Let_def run_ok split: if_splits dest!: calc intro: that)
qed

lemma gen_transfer_record_run:
  assumes "gen_transfer_record u r s = (Inr 0, s')" and "requesting_seller u s = Inr m"
  obtains q where "cp_records (sl_cdb s') = cp_records (sl_cdb s) @ [q]" and "cp_coupons (sl_cdb s') = cp_coupons (sl_cdb s)"
    and "get_referal_from_mama_id (ma_id m) s = Some (tr_from_mama_id q)" and "tr_to_mama_id q = ma_id m"
    and "tr_order_no q = tr_order_no r" and "tr_coupon_num q = tr_coupon_num r" and "tr_template_id q = tr_template_id r"
    and "tr_init_from_mama_id q = tr_init_from_mama_id r" and "tr_transfer_status q = TR_PENDING"
    and "\<not> can_buy_transfer_coupon m"
proof -
  from assms obtain fm q where fm: "upper_seller m s = Inr fm" and indirect: "\<not> can_buy_transfer_coupon m"
    and ask: "ask_for_coupons m fm q s = (Inr 0, s')"
    and q: "tr_order_no q = tr_order_no r" "tr_from_mama_id q = ma_id fm" "tr_to_mama_id q = ma_id m"
      "tr_coupon_num q = tr_coupon_num r" "tr_template_id q = tr_template_id r"
      "tr_init_from_mama_id q = tr_init_from_mama_id r"
    by (fastforce simp: gen_transfer_record_def run_ok record_of_def split: if_splits)
  have "get_referal_from_mama_id (ma_id m) s = Some (ma_id fm)"
    using fm by (auto simp: upper_seller_def find_mama_def bind_eq_Some_conv split: option.splits dest!: q_first_filter)
  with ask q show thesis
    by (elim ask_run) (rule that, use indirect in auto)
qed

lemma process_coupon_0:
  assumes "process_coupon u pk s = (Inr 0, s')" and "requesting_seller u s = Inr m" and "transfer_record_of pk s = Some r"
  obtains (delivered) c ic im where "find_mama (tr_init_from_mama_id r) s = Some im"
      and "normal_customer_by_unionid (ma_openid im) s = Some ic" and "mama_get_customer m s = Some c"
      and "process_transfer_coupon (cu_id c) (cu_id ic) r s = (Inr 0, s')" and "can_process r (ma_id m)"
  | (passed) t where "can_process r (ma_id m)"
      and "set_transfer_status r TR_PROCESSED (sl_cdb s) = (Inr (), t)"
      and "gen_transfer_record u (r\<lparr>tr_transfer_status := TR_PROCESSED\<rparr>)
        (s\<lparr>sl_mall := (sl_mall s)\<lparr>ml_coupons := t\<rparr>\<rparr>) = (Inr 0, s')"
  using assms
  by (auto simp: process_coupon_def run_ok split: if_splits option.splits bind_splits)

lemma set_status_run:
  assumes "set_transfer_status r st k = (Inr (), t)"
  shows "t = k\<lparr>cp_records := q_update (\<lambda>q. tr_id q = tr_id r) (\<lambda>q. q\<lparr>tr_transfer_status := st\<rparr>) (cp_records k)\<rparr>"
  using assms by (auto simp: set_transfer_status_def split: if_splits)

lemma leads_update: "(\<And>q. tr_to_mama_id (f q) = tr_to_mama_id q \<and> tr_from_mama_id (f q) = tr_from_mama_id q) \<Longrightarrow>
    leads a b (map f rs) = leads a b rs"
  by (induction a b rs rule: leads.induct) auto

lemma request_open_update:
  assumes "request_open no a b n tid k" and "st \<noteq> TR_DELIVERED"
  shows "request_open no a b n tid (k\<lparr>cp_records := q_update P (\<lambda>q. q\<lparr>tr_transfer_status := st\<rparr>) (cp_records k)\<rparr>)"
proof -
  let ?f = "\<lambda>r. if P r then r\<lparr>tr_transfer_status := st\<rparr> else r"
  have "filter (\<lambda>r. tr_order_no r = no) (map ?f rs) = map ?f (filter (\<lambda>r. tr_order_no r = no) rs)" for rs
    by (induction rs) auto
  with assms show ?thesis
    by (auto simp: request_open_def q_update_def Let_def leads_update list_all_iff)
qed

lemma status_keeps_stock:
  assumes "st \<noteq> TR_DELIVERED" and "\<And>q. q \<in> set (cp_records k) \<Longrightarrow> P q \<Longrightarrow> tr_transfer_status q \<noteq> TR_DELIVERED"
  shows "get_coupon_stock_num x tid (k\<lparr>cp_records := q_update P (\<lambda>q. q\<lparr>tr_transfer_status := st\<rparr>) (cp_records k)\<rparr>)
    = get_coupon_stock_num x tid k"
  unfolding stock_as_shares q_update_def
  using assms by (auto simp: stock_share_def comp_def intro!: arg_cong [where f = sum_list])

text \<open>A request that is passed on is open at the seller above, and no coupon has moved.\<close>

lemma passed_on:
  assumes "can_process r (ma_id m)" and "set_transfer_status r TR_PROCESSED (sl_cdb s) = (Inr (), t)"
    and "gen_transfer_record u (r\<lparr>tr_transfer_status := TR_PROCESSED\<rparr>) (s\<lparr>sl_mall := (sl_mall s)\<lparr>ml_coupons := t\<rparr>\<rparr>) = (Inr 0, s')"
    and "requesting_seller u s = Inr m" and "transfer_record_of pk s = Some r"
    and "request_open (tr_order_no r) (tr_init_from_mama_id r) (tr_from_mama_id r) (tr_coupon_num r) (tr_template_id r) (sl_cdb s)"
    and "distinct (map tr_id (cp_records (sl_cdb s)))"
  shows "\<exists>upper. get_referal_from_mama_id (ma_id m) s = Some upper \<and> \<not> can_buy_transfer_coupon m
    \<and> request_open (tr_order_no r) (tr_init_from_mama_id r) upper (tr_coupon_num r) (tr_template_id r) (sl_cdb s')
    \<and> cp_coupons (sl_cdb s') = cp_coupons (sl_cdb s)
    \<and> (\<forall>x. get_coupon_stock_num x (tr_template_id r) (sl_cdb s') = get_coupon_stock_num x (tr_template_id r) (sl_cdb s))"
proof -
  let ?t = "s\<lparr>sl_mall := (sl_mall s)\<lparr>ml_coupons := t\<rparr>\<rparr>"
  note t = set_status_run [OF assms(2)]
  have "requesting_seller u ?t = Inr m"
    using assms(4) by (simp add: t requesting_seller_def page_charged_mama_def normal_customer_of_user_def
        get_charged_mama_def cong: if_cong)
  moreover have up: "get_referal_from_mama_id i ?t = get_referal_from_mama_id i s" for i
    by (simp add: get_referal_from_mama_id_def get_refer_to_relationships_def)
  ultimately obtain q
    where q: "cp_records (sl_cdb s') = cp_records t @ [q]" "cp_coupons (sl_cdb s') = cp_coupons t"
      "get_referal_from_mama_id (ma_id m) s = Some (tr_from_mama_id q)" "tr_to_mama_id q = ma_id m"
      "tr_order_no q = tr_order_no r" "tr_coupon_num q = tr_coupon_num r" "tr_template_id q = tr_template_id r"
      "tr_transfer_status q = TR_PENDING" and indirect: "\<not> can_buy_transfer_coupon m"
    by (elim gen_transfer_record_run [OF assms(3), unfolded up]) (auto intro: that)
  have r: "tr_from_mama_id r = ma_id m" "tr_transfer_status r = TR_PENDING" "r \<in> set (cp_records (sl_cdb s))"
    using assms(1,5) by (auto simp: can_process_def transfer_record_of_def dest: q_first_filter)
  have "request_open (tr_order_no r) (tr_init_from_mama_id r) (ma_id m) (tr_coupon_num r) (tr_template_id r) t"
    using request_open_update [OF assms(6), of TR_PROCESSED] r(1) by (simp add: t)
  then have "request_open (tr_order_no r) (tr_init_from_mama_id r) (tr_from_mama_id q) (tr_coupon_num r) (tr_template_id r) (sl_cdb s')"
    using q by (simp add: request_open_def Let_def leads_append)
  moreover have "tr_transfer_status x \<noteq> TR_DELIVERED" if "x \<in> set (cp_records (sl_cdb s))" "tr_id x = tr_id r" for x
  proof -
    have "x = r" using assms(7) that r(3) by (simp add: distinct_map inj_on_def)
    with r(2) show ?thesis by simp
  qed
  then have "get_coupon_stock_num x (tr_template_id r) t = get_coupon_stock_num x (tr_template_id r) (sl_cdb s)" for x
    unfolding t by (intro status_keeps_stock) auto
  then have "get_coupon_stock_num x (tr_template_id r) (sl_cdb s') = get_coupon_stock_num x (tr_template_id r) (sl_cdb s)" for x
    using q(1,8) by (simp add: stock_as_shares stock_share_def)
  ultimately show ?thesis using q t indirect by auto
qed

text \<open>
  C13. What a seller's answer to a request does when the page reports success. Either the coupons are delivered:
  then the stock of the seller who asked first grows, and that of the seller who delivers shrinks, by exactly the
  number of the request, the stock of all sellers between stays, and as many coupons pass from the one customer to
  the other. Or the seller had too few: then the request is passed on to the seller above under the same number,
  still leads to the seller who asked, and no stock and no coupon changed.
\<close>

theorem answer_delivers_or_passes_on:
  assumes "process_coupon u pk s = (Inr 0, s')"
    and "requesting_seller u s = Inr m" and "transfer_record_of pk s = Some r"
    and "request_open (tr_order_no r) (tr_init_from_mama_id r) (tr_from_mama_id r) (tr_coupon_num r) (tr_template_id r) (sl_cdb s)"
    and "distinct (map uc_id (cp_coupons (sl_cdb s)))" and "distinct (map tr_id (cp_records (sl_cdb s)))"
    and "0 \<le> tr_coupon_num r"
  shows "(\<exists>c ic im. mama_get_customer m s = Some c \<and> find_mama (tr_init_from_mama_id r) s = Some im
      \<and> normal_customer_by_unionid (ma_openid im) s = Some ic
      \<and> (\<forall>x. get_coupon_stock_num x (tr_template_id r) (sl_cdb s') = get_coupon_stock_num x (tr_template_id r) (sl_cdb s)
          + (if x = tr_init_from_mama_id r then tr_coupon_num r else 0) - (if x = ma_id m then tr_coupon_num r else 0))
      \<and> (\<forall>y. int (length (transferable y (tr_template_id r) (sl_cdb s'))) =
          int (length (transferable y (tr_template_id r) (sl_cdb s)))
          + (if y = cu_id ic then tr_coupon_num r else 0) - (if y = cu_id c then tr_coupon_num r else 0)))
    \<or> (\<exists>upper. get_referal_from_mama_id (ma_id m) s = Some upper \<and> \<not> can_buy_transfer_coupon m
      \<and> request_open (tr_order_no r) (tr_init_from_mama_id r) upper (tr_coupon_num r) (tr_template_id r) (sl_cdb s')
      \<and> cp_coupons (sl_cdb s') = cp_coupons (sl_cdb s)
      \<and> (\<forall>x. get_coupon_stock_num x (tr_template_id r) (sl_cdb s') = get_coupon_stock_num x (tr_template_id r) (sl_cdb s)))"
  using assms(1-3)
proof (cases rule: process_coupon_0)
  case (delivered c ic im)
  then have asked: "tr_from_mama_id r = ma_id m" by (simp add: can_process_def)
  from delivered_run [OF delivered(4) assms(5)] obtain ch
    where enough: "tr_coupon_num r \<le> int (length (transferable (cu_id c) (tr_template_id r) (sl_cdb s)))"
      and rs: "cp_records (sl_cdb s') = q_update (\<lambda>x. tr_order_no x = tr_order_no r)
        (\<lambda>x. x\<lparr>tr_transfer_status := TR_DELIVERED\<rparr>) (cp_records (sl_cdb s))"
      and cs: "cp_coupons (sl_cdb s') = map (\<lambda>x. if uc_id x \<in> uc_id ` set (take (nat (tr_coupon_num r))
        (transferable (cu_id c) (tr_template_id r) (sl_cdb s))) then pass_on (cu_id ic) (tr_id r) ch x else x)
        (cp_coupons (sl_cdb s))" .
  have "nat (tr_coupon_num r) \<le> length (transferable (cu_id c) (tr_template_id r) (sl_cdb s))" using enough by simp
  from transferable_pass_on [OF assms(5) this refl cs] delivered_stock [OF assms(4) rs] asked assms(7) delivered
  show ?thesis by (intro disjI1 exI conjI) auto
next
  case (passed t)
  with passed_on [OF passed assms(2-4,6)] show ?thesis by blast
qed

text \<open>A seller above with one coupon in stock, and one below who asked for it.\<close>

definition asking_record :: transfer_record where
  "asking_record = (record_of 44 45 45 ''45-5'' 5 10 1 OUT_TRANSFER ''44-45-45-5'' 736080)
     \<lparr>tr_id := 3, tr_transfer_status := TR_PENDING\<rparr>"

definition asked_sellers :: "int \<Rightarrow> seller_db" where
  "asked_sellers n = example_sellers\<lparr>
     sl_mall := ml_wallet_update (w_customers_update (\<lambda>cs. cs @ [example_customer\<lparr>cu_id := 2, cu_user := 2, cu_unionid := ''v''\<rparr>]))
       (ml_coupons_update (\<lambda>k. k\<lparr>cp_records := [(record_of 0 44 44 ''xo1'' 5 10 n IN_BUY_COUPON ''44-1'' 736000)\<lparr>tr_id := 2\<rparr>,
            asking_record],
          cp_mamas := cp_mamas k @ map (\<lambda>m. m\<lparr>ma_id := 45, ma_openid := ''v'', ma_referal_from := INDIRECT\<rparr>) (cp_mamas k)\<rparr>)
        (sl_mall example_sellers)),
     sl_ships := [(new_ship 0 44 45 '''' '''' ELITE '''')\<lparr>rr_id := 1\<rparr>]\<rparr>"

declare ship_chain.simps [code]

theorem answer_delivers_or_passes_on_witness:
  "\<exists>s'. process_coupon 1 3 (asked_sellers 1) = (Inr 0, s') \<and> get_coupon_stock_num 45 5 (sl_cdb s') = 1
    \<and> get_coupon_stock_num 44 5 (sl_cdb s') = 0"
proof -
  let ?s = "asked_sellers 1"
  have "fst (process_coupon 1 3 ?s) = Inr 0" by code_simp
  then obtain s' where run: "process_coupon 1 3 ?s = (Inr 0, s')" by (cases "process_coupon 1 3 ?s") simp
  obtain m where m: "requesting_seller 1 ?s = Inr m" "ma_id m = 44" "can_buy_transfer_coupon m"
  proof -
    have "(case requesting_seller 1 ?s of Inl _ \<Rightarrow> False | Inr m \<Rightarrow> ma_id m = 44 \<and> can_buy_transfer_coupon m)" by code_simp
    then show ?thesis by (auto split: sum.splits intro: that)
  qed
  have "transfer_record_of 3 ?s = Some asking_record" by code_simp
  moreover have "request_open (tr_order_no asking_record) (tr_init_from_mama_id asking_record)
      (tr_from_mama_id asking_record) (tr_coupon_num asking_record) (tr_template_id asking_record) (sl_cdb ?s)" by code_simp
  moreover have "distinct (map uc_id (cp_coupons (sl_cdb ?s)))" "distinct (map tr_id (cp_records (sl_cdb ?s)))" by code_simp+
  moreover have "0 \<le> tr_coupon_num asking_record" by code_simp
  ultimately have "get_coupon_stock_num x (tr_template_id asking_record) (sl_cdb s') =
      get_coupon_stock_num x (tr_template_id asking_record) (sl_cdb ?s)
      + (if x = tr_init_from_mama_id asking_record then tr_coupon_num asking_record else 0)
      - (if x = ma_id m then tr_coupon_num asking_record else 0)" for x
    using answer_delivers_or_passes_on [OF run m(1)] m(3) by auto
  moreover have "get_coupon_stock_num 45 5 (sl_cdb ?s) = 0" "get_coupon_stock_num 44 5 (sl_cdb ?s) = 1" by code_simp+
  ultimately show ?thesis using run m(2) by (simp add: asking_record_def record_of_def)
qed

text \<open>
  C31. A direct seller, who buys from the shop and has no seller above to ask, blocks a request that is greater than
  the stock: the page answers that something is wrong, but has already marked the record as processed. After
  that no page answers the request any more, it cannot be cancelled, and the seller who asked cannot ask again.
\<close>

theorem direct_seller_blocks_the_request:
  assumes "requesting_seller u s = Inr m" and "transfer_record_of pk s = Some r"
    and "can_process r (ma_id m)" and "can_buy_transfer_coupon m"
    and "get_coupon_stock_num (ma_id m) (tr_template_id r) (sl_cdb s) < tr_coupon_num r"
    and "\<not> q_exists (open_request (ma_id m) (tr_template_id r)) (cp_records (sl_cdb s))"
    and "tr_effect r" and "requesting_seller v s = Inr m'" and "ma_id m' = tr_to_mama_id r" and "tr_template_id r \<noteq> 0"
  shows "\<exists>s'. process_coupon u pk s = (Inr 2, s') \<and> cp_coupons (sl_cdb s') = cp_coupons (sl_cdb s)
    \<and> transfer_record_of pk s' = Some (r\<lparr>tr_transfer_status := TR_PROCESSED\<rparr>)
    \<and> (\<forall>w. snd (process_coupon w pk s') = s' \<and> snd (cancel_coupon w pk s') = s' \<and> snd (transfer_coupon_page w pk s') = s')
    \<and> (\<forall>n p. snd (start_transfer v n p (Some (tr_template_id r)) s') = s'
        \<and> fst (start_transfer v n p (Some (tr_template_id r)) s') \<noteq> Inr 0)"
proof -
  let ?k = "(sl_cdb s)\<lparr>cp_records := q_update (\<lambda>q. tr_id q = tr_id r) (\<lambda>q. q\<lparr>tr_transfer_status := TR_PROCESSED\<rparr>) (cp_records (sl_cdb s))\<rparr>"
  let ?s = "s\<lparr>sl_mall := (sl_mall s)\<lparr>ml_coupons := ?k\<rparr>\<rparr>"
  let ?r = "r\<lparr>tr_transfer_status := TR_PROCESSED\<rparr>"
  have r: "r \<in> set (cp_records (sl_cdb s))" "tr_id r = pk"
    using assms(2) by (auto simp: transfer_record_of_def dest: q_first_filter)
  have same: "requesting_seller w ?s = requesting_seller w s" for w
    by (simp add: requesting_seller_def page_charged_mama_def normal_customer_of_user_def get_charged_mama_def cong: if_cong)
  have "set_transfer_status r TR_PROCESSED (sl_cdb s) = (Inr (), ?k)"
    using r by (auto simp: set_transfer_status_def q_exists_def filter_empty_conv)
  moreover have "gen_transfer_record u ?r ?s = (Inr 2, ?s)"
    using assms(1,4) by (simp add: gen_transfer_record_def prog_simps same)
  ultimately have run: "process_coupon u pk s = (Inr 2, ?s)"
    using assms(1-6) by (simp add: process_coupon_def prog_simps do_sl_coupons_run)
  have "filter (\<lambda>x. tr_id x = pk) (q_update (\<lambda>q. tr_id q = tr_id r) (\<lambda>q. q\<lparr>tr_transfer_status := TR_PROCESSED\<rparr>) rs) =
      map (\<lambda>q. q\<lparr>tr_transfer_status := TR_PROCESSED\<rparr>) (filter (\<lambda>x. tr_id x = pk) rs)" for rs :: "transfer_record list"
    using r(2) by (induction rs) (auto simp: q_update_def)
  with assms(2) have rec: "transfer_record_of pk ?s = Some ?r"
    by (auto simp: transfer_record_of_def q_first_def split: list.splits)
  have no: "\<not> can_process ?r i" "\<not> can_cancel ?r i" for i by (simp_all add: can_process_def can_cancel_def)
  have "snd (process_coupon w pk ?s) = ?s" for w
    using rec no by (simp add: process_coupon_def prog_simps split: sum.split)
  moreover have "snd (cancel_coupon w pk ?s) = ?s" for w
    using rec no by (simp add: cancel_coupon_def prog_simps split: sum.split)
  moreover have "snd (transfer_coupon_page w pk ?s) = ?s" for w
    using rec no by (simp add: transfer_coupon_page_def prog_simps split: sum.split option.split)
  moreover have "snd (start_transfer v n p (Some (tr_template_id r)) ?s) = ?s
      \<and> fst (start_transfer v n p (Some (tr_template_id r)) ?s) \<noteq> Inr 0" for n p
  proof -
    obtain c where c: "normal_customer_of_user v ?s = Some c" "get_charged_mama c ?k = Some m'"
      using assms(8) same [of v] by (auto simp: requesting_seller_def page_charged_mama_def bind_eq_Some_conv split: option.splits)
    have "?r \<in> set (cp_records ?k)" using r by (auto simp: q_update_def)
    moreover have "open_request (tr_to_mama_id r) (tr_template_id r) ?r"
      using assms(3,7) by (simp add: open_request_def can_process_def)
    ultimately have "q_exists (open_request (ma_id m') (tr_template_id r)) (cp_records ?k)"
      using assms(9) by (auto simp: q_exists_def filter_empty_conv)
    then show ?thesis using c assms(10) by (simp add: start_transfer_def prog_simps split: option.split)
  qed
  ultimately show ?thesis using run rec by (intro exI [of _ ?s]) simp
qed

theorem direct_seller_blocks_the_request_witness:
  "\<exists>s'. process_coupon 1 3 (asked_sellers 0) = (Inr 2, s') \<and> snd (cancel_coupon 2 3 s') = s'
     \<and> fst (start_transfer 2 1 4 (Some 5) s') \<noteq> Inr 0"
proof -
  let ?s = "asked_sellers 0"
  obtain m where m: "requesting_seller 1 ?s = Inr m" "ma_id m = 44" "can_buy_transfer_coupon m"
  proof -
    have "(case requesting_seller 1 ?s of Inl _ \<Rightarrow> False | Inr m \<Rightarrow> ma_id m = 44 \<and> can_buy_transfer_coupon m)" by code_simp
    then show ?thesis by (auto split: sum.splits intro: that)
  qed
  obtain m' where m': "requesting_seller 2 ?s = Inr m'" "ma_id m' = 45"
  proof -
    have "(case requesting_seller 2 ?s of Inl _ \<Rightarrow> False | Inr m \<Rightarrow> ma_id m = 45)" by code_simp
    then show ?thesis by (auto split: sum.splits intro: that)
  qed
  have r: "transfer_record_of 3 ?s = Some asking_record" by code_simp
  have "can_process asking_record 44" "tr_effect asking_record" "tr_template_id asking_record = 5"
    "tr_to_mama_id asking_record = 45" "tr_coupon_num asking_record = 1" by code_simp+
  moreover have "get_coupon_stock_num 44 5 (sl_cdb ?s) = 0" "\<not> q_exists (open_request 44 5) (cp_records (sl_cdb ?s))"
    by code_simp+
  ultimately show ?thesis
    using direct_seller_blocks_the_request [OF m(1) r, of 2 m'] m m' by auto
qed

end
