(* ===== verification/Recharges.thy ===== *)
theory Recharges
  imports Elite Earnings Settlement
begin

text \<open>
  The money of elite sellers: that coupons given back to the shop are paid for once, at the price of the seller for
  each, and when a recharge of coins is credited.
\<close>

section \<open>Runs on parts of the state\<close>

lemma do_coins_alt: "do_mall (do_coins m) s =
    (fst (m (ml_coins (sl_mall s))), s\<lparr>sl_mall := (sl_mall s)\<lparr>ml_coins := snd (m (ml_coins (sl_mall s)))\<rparr>\<rparr>)"
  by (simp add: do_mall_def do_coins_def zoom_run split: prod.split)

lemma do_budget_alt: "do_budget m s =
    (fst (m (sl_wallet s)), s\<lparr>sl_mall := (sl_mall s)\<lparr>ml_wallet := snd (m (sl_wallet s))\<rparr>\<rparr>)"
  by (simp add: do_budget_def do_mall_def do_wallet_def zoom_run split: prod.split)

lemma coins_ok: "do_mall (do_coins m) s = (Inr x, t) \<longleftrightarrow>
    (\<exists>k. m (ml_coins (sl_mall s)) = (Inr x, k) \<and> t = s\<lparr>sl_mall := (sl_mall s)\<lparr>ml_coins := k\<rparr>\<rparr>)"
  by (cases "m (ml_coins (sl_mall s))") (auto simp: do_coins_alt)

lemma budget_ok: "do_budget m s = (Inr x, t) \<longleftrightarrow>
    (\<exists>w. m (sl_wallet s) = (Inr x, w) \<and> t = s\<lparr>sl_mall := (sl_mall s)\<lparr>ml_wallet := w\<rparr>\<rparr>)"
  by (cases "m (sl_wallet s)") (auto simp: do_budget_alt)

lemmas [run_ok] = coins_ok budget_ok
lemmas part_ok = do_sl_coupons_ok coins_ok budget_ok

section \<open>Coupons given back to the shop\<close>

lemma cancel_all:
  assumes "forE (\<lambda>c. do_sl_coupons (cancel_returned c)) cs s = (Inr (), t)"
  shows "t = s\<lparr>sl_mall := (sl_mall s)\<lparr>ml_coupons := (sl_cdb s)\<lparr>cp_coupons :=
    map (\<lambda>x. if uc_id x \<in> uc_id ` set cs then x\<lparr>uc_status := UC_CANCEL\<rparr> else x) (cp_coupons (sl_cdb s))\<rparr>\<rparr>\<rparr>"
  using assms
proof (induction cs arbitrary: s)
  case (Cons c cs)
  from Cons.prems obtain u where u: "do_sl_coupons (cancel_returned c) s = (Inr (), u)"
    and rest: "forE (\<lambda>c. do_sl_coupons (cancel_returned c)) cs u = (Inr (), t)" by (auto simp: run_ok)
  have "u = s\<lparr>sl_mall := (sl_mall s)\<lparr>ml_coupons := (sl_cdb s)\<lparr>cp_coupons :=
      map (\<lambda>x. if uc_id x = uc_id c then x\<lparr>uc_status := UC_CANCEL\<rparr> else x) (cp_coupons (sl_cdb s))\<rparr>\<rparr>\<rparr>"
    using u by (auto simp: run_ok cancel_returned_def save_coupon_fields_def q_update_def split: if_splits)
  with Cons.IH [OF rest] show ?case by (simp add: comp_def)
qed (simp add: run_ok)

lemma calc_coupons: "task_calc_xlmm_elite_score i k = (r, k') \<Longrightarrow> cp_coupons k' = cp_coupons k"
  by (auto simp: task_calc_xlmm_elite_score_def prog_simps split: if_splits)

lemma status_coupons: "set_transfer_status r st k = (Inr x, k') \<Longrightarrow> cp_coupons k' = cp_coupons k"
  by (auto simp: set_transfer_status_def split: if_splits)

lemma coin_refund_logs:
  assumes "bindE (coin_get_or_create i) (\<lambda>c. coin_refund c amount ref) k = (Inr (), k')"
  shows "\<exists>l. k_logs k' = k_logs k @ [l] \<and> xl_mama_id l = i \<and> xl_amount l = amount \<and> xl_iro_type l = COIN_IN"
proof -
  have mama: "coin_get_or_create i k = (Inr c, u) \<Longrightarrow> xc_mama_id c = i \<and> k_logs u = k_logs k" for c u
    by (auto simp: coin_get_or_create_def Let_def split: option.splits dest: q_first_filter)
  from assms show ?thesis
    by (auto simp: run_ok coin_refund_def coin_move_def coin_add_def coin_log_create_def Let_def tbl_insert_def
        split: if_splits dest!: mama)
qed

lemma none_frozen:
  assumes "cs = get_freeze_boutique_coupons_by_transfer i k"
    and "cp_coupons k' = map (\<lambda>x. if uc_id x \<in> uc_id ` set cs then x\<lparr>uc_status := UC_CANCEL\<rparr> else x) (cp_coupons k)"
  shows "get_freeze_boutique_coupons_by_transfer i k' = []"
  using assms by (auto simp: get_freeze_boutique_coupons_by_transfer_def filter_empty_conv)

lemma wallet_credit:
  assumes "whenE (0 < a) (bindE (do_budget (budget_log_create i BUDGET_IN a typ None ref None None)) (\<lambda>_. ret ())) u = (Inr (), u')"
  obtains wl where "w_logs (sl_wallet u') = w_logs (sl_wallet u) @ wl"
    and "map bl_flow_amount wl = (if 0 < a then [a] else [])"
    and "\<forall>l\<in>set wl. bl_customer_id l = i \<and> bl_log_type l = typ"
    and "sl_cdb u' = sl_cdb u" and "ml_coins (sl_mall u') = ml_coins (sl_mall u)"
proof (cases "0 < a")
  case True
  with assms obtain l w where l: "budget_log_create i BUDGET_IN a typ None ref None None (sl_wallet u) = (Inr l, w)"
    and w: "u' = u\<lparr>sl_mall := (sl_mall u)\<lparr>ml_wallet := w\<rparr>\<rparr>"
    by (auto simp: run_ok)
  from budget_log_create_logs [OF l] True show ?thesis by (intro that [of "[l]"]) (simp_all add: w)
qed (use assms that [of "[]"] in \<open>simp add: run_ok\<close>)

lemma coin_credit:
  assumes "whenE (0 < a) (do_mall (do_coins (bindE (coin_get_or_create i) (\<lambda>xc. coin_refund xc a ref)))) u = (Inr (), u')"
  obtains kl where "k_logs (ml_coins (sl_mall u')) = k_logs (ml_coins (sl_mall u)) @ kl"
    and "map xl_amount kl = (if 0 < a then [a] else [])"
    and "\<forall>l\<in>set kl. xl_mama_id l = i \<and> xl_iro_type l = COIN_IN"
    and "sl_cdb u' = sl_cdb u" and "sl_wallet u' = sl_wallet u"
proof (cases "0 < a")
  case True
  with assms obtain k where k: "bindE (coin_get_or_create i) (\<lambda>xc. coin_refund xc a ref) (ml_coins (sl_mall u)) = (Inr (), k)"
    and u: "u' = u\<lparr>sl_mall := (sl_mall u)\<lparr>ml_coins := k\<rparr>\<rparr>"
    by (auto simp only: whenE_ok if_True part_ok)
  from coin_refund_logs [OF k] obtain l where "k_logs k = k_logs (ml_coins (sl_mall u)) @ [l]"
    "xl_mama_id l = i" "xl_amount l = a" "xl_iro_type l = COIN_IN" by auto
  then show ?thesis using True by (intro that [of "[l]"]) (simp_all add: u)
qed (use assms that [of "[]"] in \<open>simp add: run_ok\<close>)

definition paid_back :: "yuan \<Rightarrow> (user_coupon \<Rightarrow> bool) \<Rightarrow> user_coupon list \<Rightarrow> cents" where
  "paid_back price P coupons = py_round (price * of_nat (length (filter P coupons)) * 100)"

text \<open>
  C15. When the shop agrees to take coupons back from a seller who buys from the shop, exactly the coupons frozen for the
  record are cancelled; the wallet of their owner gets the price of each that was bought with money and the seller the price
  of each that was bought with coins, each sum as one movement; and no second agreement and no
  cancellation of the return can do anything afterwards.
\<close>

theorem return_to_the_shop_pays_once:
  assumes "agree_apply_transfer_record_2_sys r s = (Inr b, s')"
    and "charged_mama (tr_from_mama_id r) s = Some m" and "ma_referal_from m \<noteq> INDIRECT"
    and "cs = get_freeze_boutique_coupons_by_transfer (tr_id r) (sl_cdb s)"
  shows "\<exists>price pid sc wl kl. get_elite_score_by_templateid (tr_template_id r) (Some m) (sl_cdb s) = Inr (pid, sc, price)
    \<and> cp_coupons (sl_cdb s') = map (\<lambda>x. if uc_id x \<in> uc_id ` set cs then x\<lparr>uc_status := UC_CANCEL\<rparr> else x) (cp_coupons (sl_cdb s))
    \<and> w_logs (sl_wallet s') = w_logs (sl_wallet s) @ wl
    \<and> map bl_flow_amount wl = (if 0 < paid_back price (\<lambda>c. \<not> bought_with_coins c) cs
        then [paid_back price (\<lambda>c. \<not> bought_with_coins c) cs] else [])
    \<and> (\<forall>l\<in>set wl. bl_customer_id l = uc_customer_id (hd cs) \<and> bl_log_type l = BG_RETURN_COUPON)
    \<and> k_logs (ml_coins (sl_mall s')) = k_logs (ml_coins (sl_mall s)) @ kl
    \<and> map xl_amount kl = (if 0 < paid_back price bought_with_coins cs then [paid_back price bought_with_coins cs] else [])
    \<and> (\<forall>l\<in>set kl. xl_mama_id l = ma_id m \<and> xl_iro_type l = COIN_IN)
    \<and> agree_apply_transfer_record_2_sys r s' = (Inl (Exn ''no coupon''), s')
    \<and> (\<forall>c. isl (fst (cancel_return_transfer r c (sl_cdb s'))) \<and> snd (cancel_return_transfer r c (sl_cdb s')) = sl_cdb s')"
proof -
  have "cs \<noteq> []" using assms(1) assms(4) [symmetric] by (auto simp: agree_apply_transfer_record_2_sys_def prog_simps)
  then obtain c0 cs0 where cs: "cs = c0 # cs0" by (cases cs) auto
  let ?cash = "\<lambda>price. paid_back price (\<lambda>c. \<not> bought_with_coins c) cs" and ?coin = "\<lambda>price. paid_back price bought_with_coins cs"
  from assms(1) obtain pid sc price u1 u2 u3 u4 where price: "get_elite_score_by_templateid (tr_template_id r) (Some m) (sl_cdb s) = Inr (pid, sc, price)"
    and cancel: "forE (\<lambda>c. do_sl_coupons (cancel_returned c)) cs s = (Inr (), u1)"
    and cash: "whenE (0 < ?cash price) (bindE (do_budget (budget_log_create (uc_customer_id c0) BUDGET_IN (?cash price) BG_RETURN_COUPON None
        (str_nat (tr_id r)) None None)) (\<lambda>_. ret ())) u1 = (Inr (), u2)"
    and coin: "whenE (0 < ?coin price) (do_mall (do_coins (bindE (coin_get_or_create (ma_id m))
        (\<lambda>xc. coin_refund xc (?coin price) (str_nat (tr_id r)))))) u2 = (Inr (), u3)"
    and status: "do_sl_coupons (set_transfer_status r TR_DELIVERED) u3 = (Inr (), u4)"
    and calc: "do_sl_coupons (task_calc_xlmm_elite_score (tr_from_mama_id r)) u4 = (Inr (), s')"
    unfolding agree_apply_transfer_record_2_sys_def atomic_ok
    by (simp only: bindE_ok thenE_ok asks_run)
      (auto simp: assms(2,3) cs assms(4) [symmetric] Let_def paid_back_def return_amount_def liftE_run thenE_ok
        ret_run bindE_ok asks_run whenE_ok simp del: filter.simps)
  let ?cs' = "map (\<lambda>x. if uc_id x \<in> uc_id ` set cs then x\<lparr>uc_status := UC_CANCEL\<rparr> else x) (cp_coupons (sl_cdb s))"
  have u1: "cp_coupons (sl_cdb u1) = ?cs'" "sl_wallet u1 = sl_wallet s" "ml_coins (sl_mall u1) = ml_coins (sl_mall s)"
    using cancel_all [OF cancel] by simp_all
  obtain wl where u2: "w_logs (sl_wallet u2) = w_logs (sl_wallet s) @ wl"
    "map bl_flow_amount wl = (if 0 < ?cash price then [?cash price] else [])"
    "\<forall>l\<in>set wl. bl_customer_id l = uc_customer_id (hd cs) \<and> bl_log_type l = BG_RETURN_COUPON"
    "sl_cdb u2 = sl_cdb u1" "ml_coins (sl_mall u2) = ml_coins (sl_mall u1)"
    using wallet_credit [OF cash] u1 cs by auto
  obtain kl where u3: "k_logs (ml_coins (sl_mall u3)) = k_logs (ml_coins (sl_mall s)) @ kl"
    "map xl_amount kl = (if 0 < ?coin price then [?coin price] else [])"
    "\<forall>l\<in>set kl. xl_mama_id l = ma_id m \<and> xl_iro_type l = COIN_IN"
    "sl_cdb u3 = sl_cdb u2" "sl_wallet u3 = sl_wallet u2"
    using coin_credit [OF coin] u1 u2(5) by auto
  from status calc have s': "cp_coupons (sl_cdb s') = cp_coupons (sl_cdb u3)" "sl_wallet s' = sl_wallet u3"
    "ml_coins (sl_mall s') = ml_coins (sl_mall u3)"
    by (auto simp: part_ok dest!: calc_coupons status_coupons)
  then have coupons: "cp_coupons (sl_cdb s') = ?cs'" using u1 u2 u3 by simp
  have none: "get_freeze_boutique_coupons_by_transfer (tr_id r) (sl_cdb s') = []"
    by (rule none_frozen [OF assms(4) coupons])
  then have again: "agree_apply_transfer_record_2_sys r s' = (Inl (Exn ''no coupon''), s')"
    by (simp add: agree_apply_transfer_record_2_sys_def prog_simps)
  have "isl (fst (cancel_return_transfer r c (sl_cdb s'))) \<and> snd (cancel_return_transfer r c (sl_cdb s')) = sl_cdb s'" for c
    using none by (auto simp: cancel_return_transfer_def prog_simps split: option.splits)
  with price coupons u2 u3 s' again show ?thesis by auto
qed

text \<open>The coupon of the example, frozen for a return to the shop, and a virtual product with its price.\<close>

definition return_record :: transfer_record where
  "return_record = (record_of 44 0 0 ''return-money-10'' 5 10 1 OUT_CASHOUT ''return-sys-44-0'' 736080)
     \<lparr>tr_id := 3, tr_transfer_status := TR_PENDING\<rparr>"

definition returning_sellers :: seller_db where
  "returning_sellers = example_sellers\<lparr>sl_mall := ml_coupons_update (\<lambda>k. k\<lparr>cp_records := [return_record],
     cp_coupons := [example_coupon\<lparr>uc_status := UC_FREEZE, uc_freeze_by := Some ''3''\<rparr>],
     cp_models := [\<lparr>vm_template_id = Some 5, vm_products = [\<lparr>ap_id = 4, ap_name = ''coupon Associate'', ap_elite_score = 10,
       ap_agent_price = 8\<rparr>]\<rparr>]\<rparr>) (sl_mall example_sellers)\<rparr>"

theorem return_to_the_shop_pays_once_witness:
  "\<exists>s'. agree_apply_transfer_record_2_sys return_record returning_sellers = (Inr True, s')
    \<and> map bl_flow_amount (w_logs (sl_wallet s')) = map bl_flow_amount (w_logs (sl_wallet returning_sellers)) @ [800]
    \<and> agree_apply_transfer_record_2_sys return_record s' = (Inl (Exn ''no coupon''), s')"
proof -
  let ?s = returning_sellers
  have "fst (agree_apply_transfer_record_2_sys return_record ?s) = Inr True" by code_simp
  then obtain s' where run: "agree_apply_transfer_record_2_sys return_record ?s = (Inr True, s')"
    by (cases "agree_apply_transfer_record_2_sys return_record ?s") simp
  obtain m where m: "charged_mama (tr_from_mama_id return_record) ?s = Some m" "ma_referal_from m \<noteq> INDIRECT"
    "get_elite_score_by_templateid (tr_template_id return_record) (Some m) (sl_cdb ?s) = Inr (4, 10, 8)"
  proof -
    have "(case charged_mama (tr_from_mama_id return_record) ?s of None \<Rightarrow> False | Some m \<Rightarrow> ma_referal_from m \<noteq> INDIRECT
      \<and> get_elite_score_by_templateid (tr_template_id return_record) (Some m) (sl_cdb ?s) = Inr (4, 10, 8))" by code_simp
    then show ?thesis by (auto split: option.splits intro: that)
  qed
  have "paid_back 8 (\<lambda>c. \<not> bought_with_coins c) (get_freeze_boutique_coupons_by_transfer (tr_id return_record) (sl_cdb ?s)) = 800"
    by code_simp
  with return_to_the_shop_pays_once [OF run m(1,2) refl] m(3) run show ?thesis by auto
qed

section \<open>Recharging coins\<close>

abbreviation sl_coins :: "seller_db \<Rightarrow> coin_db" where
  "sl_coins s \<equiv> ml_coins (sl_mall s)"

definition recharge_key :: "pk_id \<Rightarrow> string \<Rightarrow> string" where
  "recharge_key mama oid = join_with ''-'' [str_nat mama, str_nat (transfer_type_code IN_RECHARGE), oid]"

lemma recharge_record_fails:
  assumes "get_xiaolumm c k = Some m"
    and "q_exists (\<lambda>q. tr_uni_key q = recharge_key (ma_id m) oid) (cp_records k) \<or> get_charged_mama c k = None"
  shows "isl (fst (gen_recharge_record c oid price num k))"
  using assms
  by (auto simp: gen_recharge_record_def prog_simps mama_id_def insert_record_def Let_def record_of_def recharge_key_def
      split: sum.splits prod.splits option.splits)

lemma get_added:
  assumes "coin_ok k" and "distinct (map xc_mama_id (k_coins k))" and "c \<in> set (k_coins k)"
  shows "q_get (\<lambda>x. xc_mama_id x = xc_mama_id c) (k_coins (snd (coin_add c a k))) = Inr (c\<lparr>xc_amount := xc_amount c + a\<rparr>)"
proof -
  have "q_get (\<lambda>x. xc_mama_id x = xc_mama_id c) (k_coins k) = Inr c"
    using coin_owner.get_member [OF assms(2,3)] .
  then have "q_get (\<lambda>x. xc_mama_id x = xc_mama_id c) (tbl_save xc_id (c\<lparr>xc_amount := xc_amount c + a\<rparr>) (k_coins k))
      = Inr (c\<lparr>xc_amount := xc_amount c + a\<rparr>)"
    using assms(1,3) by (intro q_get_save) (auto simp: coin_ok_def)
  with assms show ?thesis by (simp add: coin_add_save coin_ok_def)
qed

lemma recharge_run:
  assumes "coin_ok k" and "distinct (map xc_mama_id (k_coins k))" and "c \<in> set (k_coins k)"
    and "\<not> q_exists (\<lambda>l. xl_uni_key l = Some (coin_gen_uni_key (xc_mama_id c) COIN_RECHARGE ref k)) (k_logs k)"
  shows "\<exists>l. coin_recharge c amount ref k = (Inr (), k\<lparr>k_coins := tbl_save xc_id (c\<lparr>xc_amount := xc_amount c + amount\<rparr>) (k_coins k),
      k_logs := k_logs k @ [l]\<rparr>) \<and> xl_mama_id l = xc_mama_id c \<and> xl_amount l = amount \<and> xl_iro_type l = COIN_IN"
  using assms get_added [OF assms(1-3), of amount]
  by (simp add: coin_recharge_def coin_move_def prog_simps coin_add_save coin_ok_def coin_log_create_def Let_def
      str_or_def coin_gen_uni_key_def tbl_insert_def) (intro exI conjI, rule refl, simp_all)

text \<open>
  C32. When a finished order recharges the coins of a seller, the coins are guarded by a key with the day and the
  record by a key without it: on a day that has no movement for the order the full amount is credited, also when the order was
  credited on another day, and on the same day nothing happens. The transaction does not include both: the
  credit stays when the record is already there, or cannot be made because the seller has not paid, and the call raises.
\<close>

theorem recharge_is_credited_every_day:
  assumes "get_order order_id (ml_shop (sl_mall s)) = Inr so" and "order_is_finished so"
    and "get_customer_row customer_id s = Inr c" and "get_xiaolumm c (sl_cdb s) = Some m"
    and "coin_ok (sl_coins s)" and "distinct (map xc_mama_id (k_coins (sl_coins s)))"
    and "coin \<in> set (k_coins (sl_coins s))" and "xc_mama_id coin = ma_id m"
  shows "(if q_exists (\<lambda>l. xl_uni_key l = Some (coin_gen_uni_key (ma_id m) COIN_RECHARGE oid (sl_coins s))) (k_logs (sl_coins s))
      then elite_mama_recharge customer_id order_id oid s = (Inl IntegrityError, s)
      else \<exists>l r t. elite_mama_recharge customer_id order_id oid s = (r, t) \<and> k_logs (sl_coins t) = k_logs (sl_coins s) @ [l]
        \<and> k_coins (sl_coins t) = tbl_save xc_id (coin\<lparr>xc_amount := xc_amount coin + py_round (so_total_fee so * 100)\<rparr>) (k_coins (sl_coins s))
        \<and> xl_mama_id l = ma_id m \<and> xl_amount l = py_round (so_total_fee so * 100) \<and> xl_iro_type l = COIN_IN
        \<and> (q_exists (\<lambda>q. tr_uni_key q = recharge_key (ma_id m) oid) (cp_records (sl_cdb s)) \<or> get_charged_mama c (sl_cdb s) = None
           \<longrightarrow> isl r))"
proof -
  let ?k = "sl_coins s" and ?a = "py_round (so_total_fee so * 100)"
  have "filter (\<lambda>x. xc_mama_id x = ma_id m) (k_coins ?k) = [coin]"
    using coin_owner.get_member [OF assms(6,7)] assms(8) by (auto simp: q_get_def split: list.splits)
  then have get: "coin_get_or_create (ma_id m) ?k = (Inr coin, ?k)" by (simp add: coin_get_or_create_def)
  note run = elite_mama_recharge_def prog_simps do_coins_alt assms(1-4) get
  show ?thesis
  proof (cases "q_exists (\<lambda>l. xl_uni_key l = Some (coin_gen_uni_key (ma_id m) COIN_RECHARGE oid ?k)) (k_logs ?k)")
    case True
    then obtain l where "l \<in> set (k_logs ?k)" "xl_uni_key l = Some (coin_gen_uni_key (ma_id m) COIN_RECHARGE oid ?k)"
      by (auto simp: q_exists_def filter_empty_conv)
    with coin_move_again [of l coin COIN_RECHARGE oid ?k ?a] get_added [OF assms(5-7)] assms(8)
    have "coin_recharge coin ?a oid ?k = (Inl IntegrityError, ?k)" by (simp add: coin_recharge_def)
    then show ?thesis using True by (simp add: run)
  next
    case False
    from recharge_run [OF assms(5-7), of oid ?a] False assms(8) obtain l
      where l: "coin_recharge coin ?a oid ?k = (Inr (), ?k\<lparr>k_coins := tbl_save xc_id (coin\<lparr>xc_amount := xc_amount coin + ?a\<rparr>) (k_coins ?k),
          k_logs := k_logs ?k @ [l]\<rparr>)" "xl_mama_id l = ma_id m" "xl_amount l = ?a" "xl_iro_type l = COIN_IN" by auto
    then show ?thesis
      using False recharge_record_fails [OF assms(4), of oid "py_round (so_price so)" "so_num so"]
      by (auto simp: run do_sl_coupons_run split: sum.splits prod.splits)
  qed
qed

text \<open>An order whose recharge was credited and recorded on the first day, looked at on the second.\<close>

definition recharged_sellers :: seller_db where
  "recharged_sellers = example_sellers\<lparr>sl_mall := (sl_mall example_sellers)
     \<lparr>ml_shop := pack_shop\<lparr>d_orders := [example_order\<lparr>so_status := TRADE_FINISHED\<rparr>]\<rparr>,
      ml_coins := example_coins\<lparr>k_today := 2\<rparr>,
      ml_coupons := example_coupons\<lparr>cp_records := [record_of 0 44 44 ''9'' 374 0 0 IN_RECHARGE ''44-9-9'' 1]\<rparr>\<rparr>\<rparr>"

theorem recharge_is_credited_every_day_witness:
  "\<exists>r t. elite_mama_recharge 1 6 ''9'' recharged_sellers = (r, t) \<and> isl r
    \<and> map xl_amount (k_logs (sl_coins recharged_sellers)) = [700] \<and> map xl_amount (k_logs (sl_coins t)) = [700, 3000]"
proof -
  let ?s = recharged_sellers
  obtain m where m: "get_xiaolumm example_customer (sl_cdb ?s) = Some m" "ma_id m = 44"
  proof -
    have "(case get_xiaolumm example_customer (sl_cdb ?s) of None \<Rightarrow> False | Some m \<Rightarrow> ma_id m = 44)" by code_simp
    then show ?thesis by (auto split: option.splits intro: that)
  qed
  have so: "get_order 6 (ml_shop (sl_mall ?s)) = Inr (example_order\<lparr>so_status := TRADE_FINISHED\<rparr>)" by code_simp
  have fin: "order_is_finished (example_order\<lparr>so_status := TRADE_FINISHED\<rparr>)" by code_simp
  have cust: "get_customer_row 1 ?s = Inr example_customer" by code_simp
  have coins: "coin_ok (sl_coins ?s)" "distinct (map xc_mama_id (k_coins (sl_coins ?s)))" "example_coin \<in> set (k_coins (sl_coins ?s))"
    "xc_mama_id example_coin = ma_id m"
    using example_coins_ok m(2) by (simp_all add: coin_ok_def recharged_sellers_def example_coins_def example_coin_def)
  have free: "\<not> q_exists (\<lambda>l. xl_uni_key l = Some (coin_gen_uni_key 44 COIN_RECHARGE ''9'' (sl_coins ?s))) (k_logs (sl_coins ?s))"
    and rec: "q_exists (\<lambda>q. tr_uni_key q = recharge_key 44 ''9'') (cp_records (sl_cdb ?s))"
    and amount: "py_round (so_total_fee (example_order\<lparr>so_status := TRADE_FINISHED\<rparr>) * 100) = 3000"
    and logs: "map xl_amount (k_logs (sl_coins ?s)) = [700]"
    by code_simp+
  from recharge_is_credited_every_day [OF so fin cust m(1) coins(1-3), of "''9''"] coins(4) free rec m(2) logs
  show ?thesis unfolding amount by auto
qed

end
