(* ===== verification/Spec2Isabelle.thy ===== *)
theory Spec2Isabelle
  imports Envelope Coin Assign Warehouse Settlement Earnings Carts Promotion Deliveries Recharges
begin

text \<open>
  A model of the trading core of ndpuzsys, a Django application for a shop that sells through
  sellers (\<open>mama\<close>): the cart and the pages that make and pay a trade, the money the shop keeps for
  customers and sellers, and the way of a paid order through stock, purchasing and packing, with its
  refunds, its coupons and the team buys that sell to groups.

  \<^bold>\<open>How the program is put together.\<close> A customer collects goods in carts (\<open>ShoppingCart\<close>); a page
  checks the sums of the client against the prices and makes a \<open>SaleTrade\<close> with a \<open>SaleOrder\<close> for each
  cart. It is paid through a payment service (\<open>ChargeOrder\<close>), in part or wholly from a wallet
  (\<open>UserBudget\<close>) or from a seller's coins (\<open>XiaoluCoin\<close>). Each paid order gets a \<open>PackageSkuItem\<close>. Stock (\<open>SkuStock\<close>) is handed
  to waiting items in the order of payment; what stock cannot serve gets a
  \<open>PurchaseArrangement\<close> in a purchase order of the supplier, and is assigned when the purchase
  arrives. Assigned items are merged into packages (\<open>PackageOrder\<close>) by buyer and address, printed,
  checked, weighed and sent. An unpaid trade is closed and gives the held money back; an order is refunded
  (\<open>SaleRefund\<close>) into the wallet; the orders of a team (\<open>TeamBuy\<close>) are sent when it is full and
  refunded when it fails. Coupons (\<open>UserCoupon\<close>) pay for orders and pass between sellers, and a seller may
  turn an order and coupons into money. Sellers turn what they earned into cash-outs (\<open>CashOut\<close>), and money
  leaves the program in envelopes (\<open>Envelop\<close>) through WeChat.

  \<^bold>\<open>Conventions.\<close> A table is the list of its rows (\<open>Orm\<close>), a row is a record with the
  columns of its class, and a method is a program \<open>('s, 'a) prog\<close> (\<open>Prelude\<close>) that takes a
  state of the tables to a result or an error and the state it leaves; \<open>atomic\<close> undoes the writes of
  a block that raised, and outside such a block they stay. An object the code read earlier is a row
  passed as an argument: it may be older than the row in the table, which is where several of the
  properties about stale counters come from. \<open>save\<close> writes the whole row, \<open>save(update_fields=...)\<close>
  the named columns, and \<open>F(...)\<close> expressions change the stored value. Money in \<open>FloatField\<close>s is an
  exact rational, money in integer columns an integer; both are unbounded, as Python's numbers are. The
  clock is a column of the state (\<open>d_now\<close>, \<open>w_now\<close>), and answers of WeChat are arguments.
  Tables the code only reads have the columns that are read.

  \<^bold>\<open>Theories.\<close>
  \<^item> \<open>Prelude\<close>: errors, programs over a state and the equations that run them (\<open>prog_simps\<close>,
    \<open>run_ok\<close>), programs that keep an invariant (\<open>keeps_intro\<close>), Python's rounding, strings and
    dates. \<open>Orm\<close>: querysets, saving, and the locale \<open>orm_table\<close> that every table of the model
    interprets. \<open>Ledger\<close>: the locale of a running total that is explained by the rows of a log,
    interpreted for wallets, cash-outs, coins and stock counters.
  \<^item> \<open>Wallet\<close>: \<open>UserBudget\<close>, \<open>BudgetLog\<close> (\<open>src/flashsale/pay/models/user.py\<close>) and the
    double-entry book \<open>AccountEntry\<close> (\<open>src/flashsale/xiaolumm/models/account.py\<close>). Shown: every run
    of the operations keeps each wallet equal to what its log explains, and the clearing subjects of the
    book equal to the cash-outs of the log; a charge that is cancelled restores the wallet; a charge that
    is confirmed after its cancellation is free.
  \<^item> \<open>Mama_Cash\<close>: \<open>MamaFortune\<close> and \<open>CashOut\<close> (\<open>src/flashsale/xiaolumm/models/models_fortune.py\<close>,
    \<open>models.py\<close>). \<open>Coin\<close>: \<open>XiaoluCoin\<close> and its log (\<open>xiaolucoin.py\<close>).
  \<^item> \<open>Envelope\<close>: \<open>Envelop\<close> (\<open>src/flashsale/pay/models/envelope.py\<close>) and the cash-out of a wallet,
    which work on the wallet and on the fortunes together. Shown: for any answers of WeChat both ledgers
    are kept, a cash-out that is answered as done passed the checks, a refund pays back what was taken,
    and cancelling an envelope that failed pays it a second time.
  \<^item> \<open>Shop_Rows\<close>: the rows of the shop's tables. \<open>Stock\<close>: the counters of
    \<open>SkuStock\<close> (\<open>src/shopback/items/models/stats.py\<close>), which move by increments while the items of
    the SKU change their states, and which can be recomputed by statistics. Shown: the increments
    implement the statistics (a refinement through \<open>ledger\<close>), and the three transitions where they do
    not. \<open>Items\<close>: the transitions of \<open>PackageSkuItem\<close> (\<open>src/shopback/trades/models/packet.py\<close>).
  \<^item> \<open>Purchase\<close>: arrangements, details and purchase orders (\<open>src/shopback/dinghuo/models_purchase.py\<close>).
    Shown: what \<open>generate_order\<close> and \<open>cancel\<close> do to the booked numbers, and that what an arrival
    marks fits the arrival.
  \<^item> \<open>Packet\<close>: packages, their keys, and the steps of the warehouse. \<open>Packing\<close>: items with packages
    and purchases. \<open>Assign\<close>: handing out stock. \<open>Warehouse\<close>: what the packing operations do to the
    tables. Shown: stock goes out in the order of payment and within what is free; a paid order is
    assigned or arranged; an item is merged into a package that can still take it; the steps of the
    warehouse return; and where the code differs from its purpose (deleted packages that are reused,
    cancelled items that are sent, a flag passed as a vendor code). \<open>Examples\<close>: rows for the witnesses.
  \<^item> \<open>Coupons\<close>: coupons, the records of their way between sellers and the score of a seller
    (\<open>src/flashsale/coupon\<close>). Shown: a coupon pays for one trade.
  \<^item> \<open>Orders\<close>, \<open>Trades\<close>: \<open>SaleOrder\<close>, \<open>SaleTrade\<close> and \<open>TeamBuy\<close>
    (\<open>src/flashsale/pay/models/trade.py\<close>, \<open>teambuy.py\<close>, \<open>src/flashsale/pay/tasks.py\<close>); from \<open>Trades\<close> on
    the state is \<open>mall_db\<close>, which holds the states of the shop, the wallets, the coins and the coupons, and a
    program of one of them runs in it with \<open>do_shop\<close>, \<open>do_wallet\<close>, \<open>do_coins\<close> or \<open>do_coupons\<close>.
    \<open>Refunds\<close>: \<open>SaleRefund\<close> (\<open>src/flashsale/pay/models/refund.py\<close>), the orders exchanged for coupons
    (\<open>src/flashsale/coupon/apis/v1/transfer.py\<close>) and failed teams. \<open>Settlement\<close>: what these do to the
    money and the goods. Shown: closing an unpaid trade restores the wallets and the trade cannot be paid
    any more; a refund never pays more than the order cost, also when it is approved twice; the bounds of a
    partial refund and of the order over the rest; and where the code differs from its purpose (an order
    sent again ships twice, a refund forgets the exchange of its order, a late payment revives a failed
    team).
  \<^item> \<open>Sellers\<close>: \<open>XiaoluMama\<close> with relations, fans, deposits and rebate schemes
    (\<open>src/flashsale/xiaolumm/models\<close>, \<open>managers.py\<close>, \<open>apis/v1\<close>), and the state \<open>seller_db\<close> of the
    earnings, which holds \<open>mall_db\<close>, the fortunes and the queue of tasks. \<open>Carry\<close>: carry records, earnings on
    orders, awards, daily statistics and the counters of a fortune (\<open>models_fortune.py\<close>,
    \<open>src/flashsale/xiaolumm/tasks\<close>), and the steps \<open>carry_step\<close> in which workers take tasks from the queue in any
    order. \<open>Earnings\<close>: locales for invariants that leave a table out (\<open>earnings_invariant\<close> and its
    extensions), interpreted for the rows, the records and the counters. Shown: a record is a state machine run
    over the snapshots it gets; counters are right or a recount is waiting; cancelling a record takes back what it
    paid; rows keep their keys and whole cents; when the climb between sellers ends; that the loop over
    prices is a floor; and where the code differs from its purpose (an overtaken cancellation, own orders,
    indirect awards).

  \<^item> \<open>Payments\<close>: charges (\<open>src/flashsale/xiaolupay\<close>), the text of payment extras
    (\<open>src/flashsale/pay/apis/v1/order.py\<close>) and the ways to pay of \<open>SaleTradeViewSet\<close>
    (\<open>src/flashsale/restpro/v2/views/trade.py\<close>). \<open>Checkout\<close>: carts
    (\<open>src/flashsale/pay/models/shoppingcart.py\<close>, \<open>src/flashsale/restpro/v2/views/shoppingcart.py\<close>), the checks
    before a trade, and the pages \<open>shoppingcart_create\<close> and \<open>buynow_create\<close>. Their state \<open>pay_db\<close> holds
    \<open>mall_db\<close>, the charges and the queue of their tasks; what the payment services and the check of names
    answer is in the record \<open>pay_env\<close>. \<open>Shopping\<close>: a trade is made once for its number, its shares
    cover its payment, the orders of its carts share it, extras are read back, and where the ways to pay take
    less than the trade costs (a cent of coins pays for all; switching to the wallet after its share was taken
    is free; a share may overdraw the wallet). \<open>Charging\<close>: along every run of pages and tasks
    (\<open>pay_step\<close>) a charge keeps its amount. \<open>Carts\<close>: the counter of open carts is right after each page,
    what the page of carts accepts agrees with the prices, and the task that closes carts forgets the trades.
  \<^item> \<open>Vouchers\<close>: templates and shared links, and the functions that make coupons of them
    (\<open>coupon_template.py\<close>, \<open>ordershare_coupon.py\<close> in \<open>src/flashsale/coupon/models\<close>,
    \<open>src/flashsale/coupon/apis/v1/usercoupon.py\<close>, \<open>src/flashsale/coupon/tasks\<close>). The state
    \<open>promo_db\<close> holds \<open>seller_db\<close> with its clock, the two tables and the queue of the tasks that count;
    what \<open>random\<close> draws and the numbers of new coupons are in the record \<open>promo_env\<close>.
    \<open>Transfers\<close>: the pages on which sellers ask for coupons, deliver them, pass a request on and give coupons
    back (\<open>src/flashsale/restpro/v2/views/views_coupon.py\<close>, \<open>transfer_coupon.py\<close>); where
    \<open>get_ship_chain\<close> would not end the page answers with the error \<open>timeout\<close>. \<open>Elite\<close>: the enrolment
    of elite sellers, their gifts, bought coupons, recharges and returns to the shop
    (\<open>src/flashsale/coupon/apis/v1/transfer.py\<close>, \<open>src/flashsale/coupon/tasks/transfer_coupon.py\<close>,
    \<open>src/flashsale/coupon/views/views.py\<close>). An error of the database that is caught inside a transaction
    dooms it, which \<open>commit_unless\<close> and \<open>doomed_save\<close> write out.
  \<^item> \<open>Promotion\<close>: the steps \<open>promo_step\<close> of asking, buying, sharing, cancelling and counting in any order, and
    the locale \<open>promo_invariant\<close>, interpreted for the planned numbers, the limits of links and the keys.
    Shown: a template gives at most one coupon above its plan; a link stays within its limit and the counts
    that wait; asking twice gives one coupon; a drawn value lies in its zone; each piece of an order is given once.
    \<open>Deliveries\<close>: an answer to a request moves as many coupons as were asked for or passes the request on, and a
    direct seller without stock blocks the request. \<open>Recharges\<close>: a return to the shop is paid once, and a
    recharge is credited on every day the order is saved.

  \<^bold>\<open>Termination and bounds.\<close> Loops over querysets are recursion on the list the query returned.
  Two loops of the source have no such list. \<open>gen_new_package_id\<close> counts up until a key is free:
  \<open>free_num\<close> ends because each step leaves fewer of the finitely many taken keys ahead.
  \<open>generate_order\<close> calls itself after moving an arrangement whose detail is already booked to an open
  order: it ends because that call is made with \<open>retry=False\<close>. No fuel is used.
  \<open>get_ship_chain\<close> may go round for ever: it is a partial function, and when it returns is a theorem.

  \<^bold>\<open>Not modelled.\<close> Signal receivers and Celery tasks run after the commit and in no fixed order; where
  one changes the rows of a modelled table it is an operation of its own, and those that send messages or
  feed statistics are left out. The tasks of the earnings and the pages of trades are steps, each taken as a
  whole. Locks (\<open>select_for_update\<close>) are left out: the operations run one after the other. Numbers in
  requests are finite (a NaN would pass every comparison of the checks). Of the views only the pages of carts,
  trades and coupon transfers, and the pages on which the staff sends gifts and takes coupons back, are
  modelled; the others, admin pages, serializers, the services of WeChat, Alipay, carriers and Taobao with their
  messages, counting of clicks and the weekly totals and missions of sellers, inbound deliveries and returns to
  suppliers, the statistics and reports, and the older shop (\<open>MergeTrade\<close>) are left out.
\<close>

end
